(* ===== verification/Platform_Prelude.thy ===== *)
theory Platform_Prelude
  imports Complex_Main "HOL-Library.AList" "HOL-Library.Char_ord" "HOL-Library.List_Lexorder"
    "HOL-Library.Sublist"
begin

text \<open>
  Shared vocabulary of the development: what the modelled Python code uses of its language
  (strings, dictionaries, JSON values, exceptions), the operations that read and write a state
  and may raise, and the rely/guarantee rules under which every stateful operation is verified.

  Strings are lists of characters, that is code points below 256. A \<open>dict\<close> is an association
  list in insertion order with the update of \<open>HOL-Library.AList\<close>, which overwrites in place and
  appends new keys as Python does. A \<open>datetime\<close> in UTC is the \<open>int\<close> of its microseconds. The
  human-readable text of an exception is left out: no modelled code branches on it.
\<close>

section \<open>Theorem collections\<close>

named_theorems py_simps \<open>evaluation of the Python primitives\<close>
named_theorems run_simps \<open>running the operations\<close>
named_theorems stable_intros \<open>assertions that survive interference\<close>
named_theorems safe_intros \<open>rely/guarantee rules for the operations\<close>

section \<open>Values\<close>

type_synonym 'v dict = "(string \<times> 'v) list"
type_synonym datetime = int

datatype json =
    JNull
  | JBool bool
  | JInt int
  | JFloat rat
  | JStr string
  | JList "json list"
  | JTuple "json list"
  | JObj "(string \<times> json) list"

definition py_isspace :: "char \<Rightarrow> bool" where
  "py_isspace c \<longleftrightarrow> of_char c \<in> {9::nat, 10, 11, 12, 13, 28, 29, 30, 31, 32, 133, 160}"

definition py_blank :: "string \<Rightarrow> bool" where
  \<comment> \<open>\<open>not s.strip()\<close>\<close>
  "py_blank s \<longleftrightarrow> list_all py_isspace s"

definition py_startswith :: "string \<Rightarrow> string \<Rightarrow> bool" where
  "py_startswith s p \<longleftrightarrow> take (length p) s = p"

definition py_lower_char :: "char \<Rightarrow> char" where
  "py_lower_char c =
     (let n = of_char c :: nat
      in if 65 \<le> n \<and> n \<le> 90 \<or> 192 \<le> n \<and> n \<le> 222 \<and> n \<noteq> 215 then char_of (n + 32) else c)"

definition py_lower :: "string \<Rightarrow> string" where
  "py_lower s = map py_lower_char s"

definition dict_get :: "('k \<times> 'v) list \<Rightarrow> 'k \<Rightarrow> 'v option" where
  "dict_get d k = map_of d k"

definition dict_set :: "'k \<Rightarrow> 'v \<Rightarrow> ('k \<times> 'v) list \<Rightarrow> ('k \<times> 'v) list" where
  "dict_set k v d = AList.update k v d"

definition dict_update :: "('k \<times> 'v) list \<Rightarrow> ('k \<times> 'v) list \<Rightarrow> ('k \<times> 'v) list" where
  "dict_update d kvs = fold (\<lambda>(k, v) acc. dict_set k v acc) kvs d"

fun py_truthy :: "json \<Rightarrow> bool" where
  "py_truthy JNull = False"
| "py_truthy (JBool b) = b"
| "py_truthy (JInt i) = (i \<noteq> 0)"
| "py_truthy (JFloat r) = (r \<noteq> 0)"
| "py_truthy (JStr s) = (s \<noteq> [])"
| "py_truthy (JList xs) = (xs \<noteq> [])"
| "py_truthy (JTuple xs) = (xs \<noteq> [])"
| "py_truthy (JObj kvs) = (kvs \<noteq> [])"

definition opt_json :: "string option \<Rightarrow> json" where
  "opt_json v = (case v of None \<Rightarrow> JNull | Some s \<Rightarrow> JStr s)"

lemma dict_get_Nil [simp]: "dict_get [] k = None"
  by (simp add: dict_get_def)

lemma dict_get_Cons [simp]:
  "dict_get ((k, v) # d) k' = (if k' = k then Some v else dict_get d k')"
  by (simp add: dict_get_def)

lemma dict_get_set [simp]:
  "dict_get (dict_set k v d) k' = (if k' = k then Some v else dict_get d k')"
  by (simp add: dict_get_def dict_set_def update_conv)

lemma dict_update_Nil [simp]: "dict_update d [] = d"
  by (simp add: dict_update_def)

lemma dict_update_Cons [simp]: "dict_update d ((k, v) # kvs) = dict_update (dict_set k v d) kvs"
  by (simp add: dict_update_def)

lemma keys_dict_set: "fst ` set (dict_set k v d) = insert k (fst ` set d)"
  by (simp add: dict_set_def dom_update)

lemma distinct_dict_set: "distinct (map fst d) \<Longrightarrow> distinct (map fst (dict_set k v d))"
  by (simp add: dict_set_def distinct_update)

lemma dict_get_None_iff: "dict_get d k = None \<longleftrightarrow> k \<notin> fst ` set d"
  by (simp add: dict_get_def map_of_eq_None_iff)

lemma dict_get_map_values:
  "dict_get (map (\<lambda>(k, v). (k, f v)) d) k = map_option f (dict_get d k)"
  by (induction d) (auto simp: dict_get_def)

lemma py_startswith_append [simp]: "py_startswith (p @ s) p"
  by (simp add: py_startswith_def)

lemma py_startswith_iff: "py_startswith s p \<longleftrightarrow> (\<exists>r. s = p @ r)"
  by (metis append_take_drop_id append_eq_conv_conj py_startswith_def)

text \<open>A JSON value is larger than what it contains.\<close>

lemma size_member: "x \<in> set xs \<Longrightarrow> size x < Suc (size_list size xs)"
  by (induction xs) auto

lemma size_item: "(k, v) \<in> set kvs \<Longrightarrow> size v < Suc (size_list (size_prod (\<lambda>_. 0) size) kvs)"
  by (induction kvs) auto

text \<open>A \<open>dict\<close> has each key once, at every depth.\<close>

fun json_wf :: "json \<Rightarrow> bool" where
  "json_wf (JObj kvs) = (distinct (map fst kvs) \<and> list_all (\<lambda>(k, v). json_wf v) kvs)"
| "json_wf (JList xs) = list_all json_wf xs"
| "json_wf (JTuple xs) = list_all json_wf xs"
| "json_wf _ = True"

function (sequential) py_eq :: "json \<Rightarrow> json \<Rightarrow> bool" where
  \<comment> \<open>Python's \<open>==\<close> on JSON values: mappings regardless of order, numbers and booleans by value\<close>
  "py_eq (JObj left) (JObj right) \<longleftrightarrow> length left = length right \<and>
     list_all (\<lambda>(k, v). case dict_get right k of None \<Rightarrow> False | Some v' \<Rightarrow> py_eq v v') left"
| "py_eq (JList left) (JList right) \<longleftrightarrow>
     length left = length right \<and> list_all (\<lambda>(a, b). py_eq a b) (zip left right)"
| "py_eq (JTuple left) (JTuple right) \<longleftrightarrow>
     length left = length right \<and> list_all (\<lambda>(a, b). py_eq a b) (zip left right)"
| "py_eq (JFloat q) (JInt i) \<longleftrightarrow> q = of_int i"
| "py_eq (JInt i) (JFloat q) \<longleftrightarrow> q = of_int i"
| "py_eq (JFloat q) (JBool b) \<longleftrightarrow> q = (if b then 1 else 0)"
| "py_eq (JBool b) (JFloat q) \<longleftrightarrow> q = (if b then 1 else 0)"
| "py_eq (JInt i) (JBool b) \<longleftrightarrow> i = (if b then 1 else 0)"
| "py_eq (JBool b) (JInt i) \<longleftrightarrow> i = (if b then 1 else 0)"
| "py_eq left right \<longleftrightarrow> left = right"
  by pat_completeness auto
termination
  by (relation "measure (\<lambda>(a, b). size a)") (auto simp: size_member size_item dest!: set_zip_leftD)

section \<open>Exceptions\<close>

datatype error_code =
    INVALID_REQUEST | INVALID_CONFIGURATION | UNSUPPORTED_CAPABILITY | NOT_FOUND
  | MODEL_UNAVAILABLE | NO_COMPATIBLE_ROUTE | INPUT_TOO_LARGE | INVALID_PROVIDER_RESPONSE
  | CONFLICT | UNAVAILABLE | TIMEOUT | CANCELLED_ERROR | RATE_LIMITED | RESOURCE_EXHAUSTED
  | UNAUTHORIZED | FORBIDDEN | TRANSIENT_FAILURE | PERMANENT_FAILURE | CONTRACT_VIOLATION
  | BACKEND_ERROR

datatype py_error =
    ContractError error_code bool "json dict"
  | ValueError
  | TypeError
  | KeyError
  | IndexError
  | RuntimeError
  | CancelledError
  | OverflowError

abbreviation contract_error :: "error_code \<Rightarrow> py_error" where
  "contract_error c \<equiv> ContractError c False []"

text \<open>Validation that returns nothing is a \<open>py_error + unit\<close>; a sequence stops at the first error.\<close>

definition guard :: "bool \<Rightarrow> py_error \<Rightarrow> py_error + unit" where
  "guard b e = (if b then Inr () else Inl e)"

definition sbind :: "'e + 'a \<Rightarrow> ('a \<Rightarrow> 'e + 'b) \<Rightarrow> 'e + 'b" where
  "sbind m f = (case m of Inl e \<Rightarrow> Inl e | Inr x \<Rightarrow> f x)"

fun sfold :: "('s \<Rightarrow> 'a \<Rightarrow> 'e + 's) \<Rightarrow> 's \<Rightarrow> 'a list \<Rightarrow> 'e + 's" where
  "sfold f s [] = Inr s"
| "sfold f s (x # xs) = sbind (f s x) (\<lambda>s'. sfold f s' xs)"

fun smap :: "('a \<Rightarrow> 'e + 'b) \<Rightarrow> 'a list \<Rightarrow> 'e + 'b list" where
  "smap f [] = Inr []"
| "smap f (x # xs) = sbind (f x) (\<lambda>y. sbind (smap f xs) (\<lambda>ys. Inr (y # ys)))"

lemma sbind_Inr [simp]: "sbind (Inr x) f = f x"
  by (simp add: sbind_def)

lemma sbind_Inl [simp]: "sbind (Inl e) f = Inl e"
  by (simp add: sbind_def)

lemma sbind_eq_Inr: "sbind m f = Inr y \<longleftrightarrow> (\<exists>x. m = Inr x \<and> f x = Inr y)"
  by (cases m) auto

lemma sbind_assoc [simp]: "sbind (sbind m f) g = sbind m (\<lambda>x. sbind (f x) g)"
  by (cases m) simp_all

lemma sbind_cong [fundef_cong]:
  "m = m' \<Longrightarrow> (\<And>x. m' = Inr x \<Longrightarrow> f x = f' x) \<Longrightarrow> sbind m f = sbind m' f'"
  by (cases m') auto

lemma guard_eq_Inr [simp]: "guard b e = Inr u \<longleftrightarrow> b"
  by (simp add: guard_def)

lemma guard_True [simp]: "guard True e = Inr ()" "guard False e = Inl e"
  by (simp_all add: guard_def)

lemma sfold_append: "sfold f s (xs @ ys) = sbind (sfold f s xs) (\<lambda>s'. sfold f s' ys)"
  by (induction xs arbitrary: s) auto

lemma sfold_snoc: "sfold f s xs = Inr s' \<Longrightarrow> sfold f s (xs @ [x]) = f s' x"
  by (simp add: sfold_append) (cases "f s' x"; simp)

lemma sfold_invariant:
  assumes "\<And>s x s'. P s \<Longrightarrow> x \<in> set xs \<Longrightarrow> f s x = Inr s' \<Longrightarrow> P s'"
    and "P s" and "sfold f s xs = Inr t"
  shows "P t"
  using assms
proof (induction xs arbitrary: s)
  case (Cons x xs)
  from Cons.prems(3) obtain s' where s': "f s x = Inr s'" "sfold f s' xs = Inr t"
    by (auto simp: sbind_eq_Inr)
  with Cons.prems have "P s'" by (meson list.set_intros(1))
  with Cons s' show ?case by (meson list.set_intros(2))
qed simp

lemma smap_eq_Inr: "smap f xs = Inr ys \<longleftrightarrow> list_all2 (\<lambda>x y. f x = Inr y) xs ys"
proof (induction xs arbitrary: ys)
  case (Cons x xs)
  then show ?case by (cases ys) (auto simp: sbind_eq_Inr)
qed (auto simp: eq_commute)

section \<open>Stateful operations\<close>

text \<open>
  An operation of the code takes the state and returns its result or exception together with
  the state it leaves behind: an exception does not undo what was already written.
  \<open>await m f\<close> is \<open>x = await m; f\<close>, \<open>attempt m h\<close> is \<open>try: m; except e: h\<close>.
\<close>

type_synonym ('w, 'a) action = "'w \<Rightarrow> (py_error + 'a) \<times> 'w"

definition ret :: "'a \<Rightarrow> ('w, 'a) action" where
  "ret x = (\<lambda>w. (Inr x, w))"

definition raise :: "py_error \<Rightarrow> ('w, 'a) action" where
  "raise e = (\<lambda>w. (Inl e, w))"

definition await :: "('w, 'a) action \<Rightarrow> ('a \<Rightarrow> ('w, 'b) action) \<Rightarrow> ('w, 'b) action" where
  "await m f = (\<lambda>w. case m w of (Inl e, w') \<Rightarrow> (Inl e, w') | (Inr x, w') \<Rightarrow> f x w')"

definition attempt :: "('w, 'a) action \<Rightarrow> (py_error \<Rightarrow> ('w, 'a) action) \<Rightarrow> ('w, 'a) action" where
  "attempt m h = (\<lambda>w. case m w of (Inl e, w') \<Rightarrow> h e w' | (Inr x, w') \<Rightarrow> (Inr x, w'))"

definition pure :: "py_error + 'a \<Rightarrow> ('w, 'a) action" where
  "pure r = (\<lambda>w. (r, w))"

fun each :: "('a \<Rightarrow> ('w, 'b) action) \<Rightarrow> 'a list \<Rightarrow> ('w, 'b list) action" where
  "each f [] = ret []"
| "each f (x # xs) = await (f x) (\<lambda>y. await (each f xs) (\<lambda>ys. ret (y # ys)))"

lemma ret_run [run_simps]: "ret x w = (Inr x, w)"
  by (simp add: ret_def)

lemma raise_run [run_simps]: "raise e w = (Inl e, w)"
  by (simp add: raise_def)

lemma pure_run [run_simps]: "pure r w = (r, w)"
  by (simp add: pure_def)

lemma await_run [simp]:
  "m w = (Inr x, w') \<Longrightarrow> await m f w = f x w'"
  "m w = (Inl e, w') \<Longrightarrow> await m f w = (Inl e, w')"
  by (simp_all add: await_def)

lemma attempt_run [simp]:
  "m w = (Inr x, w') \<Longrightarrow> attempt m h w = (Inr x, w')"
  "m w = (Inl e, w') \<Longrightarrow> attempt m h w = h e w'"
  by (simp_all add: attempt_def)

lemma await_Inr_iff:
  "await m f w = (Inr y, v) \<longleftrightarrow> (\<exists>x w'. m w = (Inr x, w') \<and> f x w' = (Inr y, v))"
  by (auto simp: await_def split: prod.splits sum.splits)

lemma pure_Inr [simp]: "pure (Inr x) = ret x"
  by (simp add: pure_def ret_def)

lemma pure_Inl [simp]: "pure (Inl e) = raise e"
  by (simp add: pure_def raise_def)

lemma await_ret [simp]: "await (ret x) f = f x"
  by (simp add: await_def ret_def)

lemma await_raise [simp]: "await (raise e) f = raise e"
  by (simp add: await_def raise_def)

lemma await_assoc: "await (await m f) g = await m (\<lambda>x. await (f x) g)"
  by (auto simp: await_def split: prod.splits sum.splits)

section \<open>Rely and guarantee\<close>

text \<open>
  Between two awaits of one operation other coroutines may run. \<open>Inv\<close> is the invariant every
  operation keeps, \<open>G\<close> relates a state to any state it may evolve into, whoever writes it.
  \<open>safe P m Q\<close>: started in a state with the invariant and \<open>P\<close>, the operation ends, with or
  without an exception, in a state with the invariant to which the first one may evolve, and
  its result satisfies \<open>Q\<close>. An assertion is stable when evolution cannot break it.
\<close>

locale rely_guarantee =
  fixes Inv :: "'w \<Rightarrow> bool" and G :: "'w \<Rightarrow> 'w \<Rightarrow> bool"
  assumes G_refl: "G w w"
    and G_trans: "G w w' \<Longrightarrow> G w' w'' \<Longrightarrow> G w w''"
begin

definition stable :: "('w \<Rightarrow> bool) \<Rightarrow> bool" where
  "stable P \<longleftrightarrow> (\<forall>w w'. G w w' \<longrightarrow> P w \<longrightarrow> P w')"

definition safe :: "('w \<Rightarrow> bool) \<Rightarrow> ('w, 'a) action \<Rightarrow> ('a \<Rightarrow> 'w \<Rightarrow> bool) \<Rightarrow> bool" where
  "safe P m Q \<longleftrightarrow> (\<forall>w r w'. Inv w \<longrightarrow> P w \<longrightarrow> m w = (r, w') \<longrightarrow>
     Inv w' \<and> G w w' \<and> (\<forall>x. r = Inr x \<longrightarrow> Q x w'))"

lemma stable_const [intro, simp]: "stable (\<lambda>w. c)"
  by (simp add: stable_def)

lemma stable_conj [intro]: "stable P \<Longrightarrow> stable Q \<Longrightarrow> stable (\<lambda>w. P w \<and> Q w)"
  by (auto simp: stable_def)

lemma stable_all [intro]: "(\<And>x. stable (P x)) \<Longrightarrow> stable (\<lambda>w. \<forall>x. P x w)"
  by (auto simp: stable_def)

lemma stable_ex [intro]: "(\<And>x. stable (P x)) \<Longrightarrow> stable (\<lambda>w. \<exists>x. P x w)"
  by (auto simp: stable_def)

lemma stable_ball [intro]: "(\<And>x. stable (P x)) \<Longrightarrow> stable (\<lambda>w. \<forall>x\<in>S. P x w)"
  by (auto simp: stable_def)

lemma stable_imp_const [intro]: "stable P \<Longrightarrow> stable (\<lambda>w. c \<longrightarrow> P w)"
  by (auto simp: stable_def)

lemma safeI:
  assumes "\<And>w r w'. Inv w \<Longrightarrow> P w \<Longrightarrow> m w = (r, w') \<Longrightarrow>
     Inv w' \<and> G w w' \<and> (\<forall>x. r = Inr x \<longrightarrow> Q x w')"
  shows "safe P m Q"
  using assms by (auto simp: safe_def)

lemma safeD:
  assumes "safe P m Q" "Inv w" "P w" "m w = (r, w')"
  shows "Inv w'" "G w w'" "r = Inr x \<Longrightarrow> Q x w'"
  using assms by (auto simp: safe_def)

lemma safe_weaken:
  "safe P' m Q' \<Longrightarrow> (\<And>w. P w \<Longrightarrow> P' w) \<Longrightarrow> (\<And>x w. Q' x w \<Longrightarrow> Q x w) \<Longrightarrow> safe P m Q"
  by (auto simp: safe_def)

lemma safe_pre: "safe P' m Q \<Longrightarrow> (\<And>w. P w \<Longrightarrow> P' w) \<Longrightarrow> safe P m Q"
  by (auto simp: safe_def)

lemma safe_post: "safe P m Q' \<Longrightarrow> (\<And>x w. Q' x w \<Longrightarrow> Q x w) \<Longrightarrow> safe P m Q"
  by (auto simp: safe_def)

lemma safe_pre_const: "(c \<Longrightarrow> safe P m Q) \<Longrightarrow> safe (\<lambda>w. c \<and> P w) m Q"
  by (auto simp: safe_def)

lemma safe_frame: "stable R \<Longrightarrow> safe P m Q \<Longrightarrow> safe (\<lambda>w. P w \<and> R w) m (\<lambda>x w. Q x w \<and> R w)"
  by (fastforce simp: safe_def stable_def)

lemma safe_ret: "(\<And>w. P w \<Longrightarrow> Q x w) \<Longrightarrow> safe P (ret x) Q"
  by (auto simp: safe_def G_refl ret_def)

lemma safe_raise: "safe P (raise e) Q"
  by (auto simp: safe_def G_refl raise_def)

lemma safe_pure: "(\<And>x w. r = Inr x \<Longrightarrow> P w \<Longrightarrow> Q x w) \<Longrightarrow> safe P (pure r) Q"
  by (auto simp: safe_def G_refl pure_def)

lemma safe_await:
  assumes m: "safe P m Q" and f: "\<And>x. safe (Q x) (f x) R"
  shows "safe P (await m f) R"
proof (rule safeI)
  fix w r w' assume *: "Inv w" "P w" "await m f w = (r, w')"
  obtain r1 w1 where m1: "m w = (r1, w1)" by (cases "m w")
  note 1 = safeD[OF m *(1,2) m1]
  show "Inv w' \<and> G w w' \<and> (\<forall>x. r = Inr x \<longrightarrow> R x w')"
  proof (cases r1)
    case (Inl e)
    with * m1 1 show ?thesis by auto
  next
    case (Inr x)
    with * m1 have "f x w1 = (r, w')" by simp
    note 2 = safeD[OF f 1(1) 1(3)[OF Inr] this]
    from 2 show ?thesis using G_trans[OF 1(2) 2(2)] by auto
  qed
qed

lemma safe_attempt:
  assumes m: "safe P m Q" and h: "\<And>e. safe P (h e) Q" and st: "stable P"
  shows "safe P (attempt m h) Q"
proof (rule safeI)
  fix w r w' assume *: "Inv w" "P w" "attempt m h w = (r, w')"
  obtain r1 w1 where m1: "m w = (r1, w1)" by (cases "m w")
  note 1 = safeD[OF m *(1,2) m1]
  show "Inv w' \<and> G w w' \<and> (\<forall>x. r = Inr x \<longrightarrow> Q x w')"
  proof (cases r1)
    case (Inl e)
    with * m1 have "h e w1 = (r, w')" by simp
    moreover have "P w1" using st 1(2) *(2) by (auto simp: stable_def)
    ultimately have 2: "h e w1 = (r, w')" "P w1" by auto
    note 3 = safeD[OF h 1(1) 2(2,1)]
    from 3 show ?thesis using G_trans[OF 1(2) 3(2)] by auto
  next
    case (Inr x)
    with * m1 1 show ?thesis by auto
  qed
qed

lemma safe_if: "(b \<Longrightarrow> safe P m Q) \<Longrightarrow> (\<not> b \<Longrightarrow> safe P n Q) \<Longrightarrow> safe P (if b then m else n) Q"
  by simp

lemma safe_option:
  "(v = None \<Longrightarrow> safe P m Q) \<Longrightarrow> (\<And>x. v = Some x \<Longrightarrow> safe P (n x) Q) \<Longrightarrow>
   safe P (case v of None \<Rightarrow> m | Some x \<Rightarrow> n x) Q"
  by (cases v) auto

lemma safe_await_frame:
  assumes "stable P" "safe P m Q" "\<And>x. safe (\<lambda>w. Q x w \<and> P w) (f x) R"
  shows "safe P (await m f) R"
proof (rule safe_await)
  show "safe P m (\<lambda>x w. Q x w \<and> P w)"
    using safe_frame[OF assms(1,2)] by (rule safe_pre) simp
qed (rule assms(3))

lemma safe_each:
  assumes "\<And>x. x \<in> set xs \<Longrightarrow> safe P (f x) (Q x)"
    and "stable P" and "\<And>x y. stable (Q x y)"
  shows "safe P (each f xs) (\<lambda>ys w. list_all2 (\<lambda>x y. Q x y w) xs ys)"
  using assms(1)
proof (induction xs)
  case Nil
  show ?case by (simp add: safe_ret)
next
  case (Cons x xs)
  have st: "stable (\<lambda>w. P w \<and> Q x y w)" for y
    using assms(2,3) by blast
  have rest: "safe P (each f xs) (\<lambda>ys w. list_all2 (\<lambda>x y. Q x y w) xs ys)"
    using Cons by simp
  show ?case unfolding each.simps
  proof (rule safe_await_frame[OF assms(2)])
    show "safe P (f x) (Q x)" using Cons.prems by simp
  next
    fix y
    show "safe (\<lambda>w. Q x y w \<and> P w) (await (each f xs) (\<lambda>ys. ret (y # ys)))
            (\<lambda>ys w. list_all2 (\<lambda>x y. Q x y w) (x # xs) ys)"
    proof (rule safe_await)
      show "safe (\<lambda>w. Q x y w \<and> P w) (each f xs)
              (\<lambda>ys w. list_all2 (\<lambda>x y. Q x y w) xs ys \<and> Q x y w)"
        using safe_frame[OF assms(3)[of x y] rest] by (rule safe_pre) simp
    qed (rule safe_ret, auto)
  qed
qed

end

end
