(* ===== verification/Domain_Ids.thy ===== *)
theory Domain_Ids
  imports Platform_Prelude
begin

text \<open>
  Canonical identifiers of \<open>domain/models.py\<close>: \<open>validate_id\<close>, \<open>validate_subject_id\<close> and the
  deep freezing of metadata values. What the code uses of Python's \<open>uuid.UUID\<close> is modelled up
  to the digits of \<open>int(hex, 16)\<close>: a text that \<open>int\<close> accepts without being 32 hexadecimal
  digits never prints back to itself, so \<open>validate_id\<close> rejects it with the same \<open>ValueError\<close>.
\<close>

section \<open>UUID text\<close>

definition hex_digit :: "char \<Rightarrow> bool" where
  "hex_digit c \<longleftrightarrow> (let n = of_char c :: nat
     in 48 \<le> n \<and> n \<le> 57 \<or> 65 \<le> n \<and> n \<le> 70 \<or> 97 \<le> n \<and> n \<le> 102)"

function py_remove :: "string \<Rightarrow> string \<Rightarrow> string" where
  \<comment> \<open>\<open>s.replace(old, '')\<close>\<close>
  "py_remove old [] = []"
| "py_remove old (c # cs) =
     (if old \<noteq> [] \<and> take (length old) (c # cs) = old
      then py_remove old (drop (length old) (c # cs)) else c # py_remove old cs)"
  by pat_completeness auto
termination
  by (relation "measure (\<lambda>(old, s). length s)") (auto simp: neq_Nil_conv)

definition py_strip_braces :: "string \<Rightarrow> string" where
  "py_strip_braces s =
     (let brace = (\<lambda>c. c = CHR ''{'' \<or> c = CHR ''}'')
      in rev (dropWhile brace (rev (dropWhile brace s))))"

definition uuid_parse :: "string \<Rightarrow> string option" where
  \<comment> \<open>the 32 digits of \<open>UUID(hex)\<close>, None for its \<open>ValueError\<close>\<close>
  "uuid_parse s =
     (let h = py_remove ''-'' (py_strip_braces (py_remove ''uuid:'' (py_remove ''urn:'' s)))
      in if length h = 32 \<and> list_all hex_digit h then Some (py_lower h) else None)"

definition uuid_str :: "string \<Rightarrow> string" where
  "uuid_str h = take 8 h @ ''-'' @ take 4 (drop 8 h) @ ''-'' @ take 4 (drop 12 h) @ ''-'' @
     take 4 (drop 16 h) @ ''-'' @ drop 20 h"

section \<open>Canonical identifiers\<close>

definition CANONICAL_SUBJECT_PREFIXES :: "(string \<times> string) list" where
  "CANONICAL_SUBJECT_PREFIXES =
    [(''goal'', ''goal''), (''project'', ''project''), (''task'', ''task''), (''plan'', ''plan''),
     (''step'', ''step''), (''run'', ''run''), (''agent'', ''agent''), (''agent_team'', ''team''),
     (''artifact'', ''artifact''), (''result'', ''result''), (''event'', ''event''),
     (''approval'', ''approval''), (''node'', ''node''), (''worker'', ''worker''),
     (''worker_job'', ''worker_job''), (''tool'', ''tool''),
     (''tool_invocation'', ''tool_invocation''), (''capability'', ''cap''),
     (''policy_scope'', ''policy_scope''), (''model_assignment'', ''model_assignment'')]"

definition validate_id :: "string \<Rightarrow> string \<Rightarrow> py_error + string" where
  "validate_id v pfx =
     (let expected = pfx @ ''_'' in
      if \<not> py_startswith v expected then Inl ValueError
      else let payload = drop (length expected) v in
        (case uuid_parse payload of
          None \<Rightarrow> Inl ValueError
        | Some parsed \<Rightarrow>
            if uuid_str parsed \<noteq> py_lower payload then Inl ValueError else Inr v))"

definition validate_subject_id :: "string \<Rightarrow> string \<Rightarrow> py_error + string" where
  "validate_subject_id subject_type subject_id =
     (case dict_get CANONICAL_SUBJECT_PREFIXES subject_type of
        None \<Rightarrow> Inl ValueError
      | Some pfx \<Rightarrow> validate_id subject_id pfx)"

definition validate_optional_id :: "string option \<Rightarrow> string \<Rightarrow> py_error + unit" where
  "validate_optional_id v pfx =
     (case v of None \<Rightarrow> Inr () | Some s \<Rightarrow> sbind (validate_id s pfx) (\<lambda>_. Inr ()))"

definition validate_ids :: "string list \<Rightarrow> string \<Rightarrow> py_error + unit" where
  "validate_ids vs pfx = sbind (smap (\<lambda>v. validate_id v pfx) vs) (\<lambda>_. Inr ())"

fun deep_freeze :: "json \<Rightarrow> json" where
  "deep_freeze (JObj kvs) = JObj (map (\<lambda>(k, v). (k, deep_freeze v)) kvs)"
| "deep_freeze (JList xs) = JTuple (map deep_freeze xs)"
| "deep_freeze (JTuple xs) = JTuple (map deep_freeze xs)"
| "deep_freeze v = v"

definition freeze_mapping :: "json dict \<Rightarrow> json dict" where
  "freeze_mapping d = map (\<lambda>(k, v). (k, deep_freeze v)) d"

section \<open>Facts about UUID text\<close>

lemma of_lower_char:
  "of_char (py_lower_char c) =
     (let n = of_char c :: nat
      in if 65 \<le> n \<and> n \<le> 90 \<or> 192 \<le> n \<and> n \<le> 222 \<and> n \<noteq> 215 then n + 32 else n)"
  by (auto simp: py_lower_char_def Let_def)

lemma lower_char_facts:
  "hex_digit (py_lower_char c) \<longleftrightarrow> hex_digit c"
  "py_lower_char c = CHR ''-'' \<longleftrightarrow> c = CHR ''-''"
proof -
  show "hex_digit (py_lower_char c) \<longleftrightarrow> hex_digit c"
    by (auto simp: hex_digit_def of_lower_char Let_def)
  have "c = CHR ''-'' \<longleftrightarrow> of_char c = (of_char (CHR ''-'') :: nat)" for c
    by (simp only: of_char_eq_iff)
  then have "c = CHR ''-'' \<longleftrightarrow> of_char c = (45::nat)" for c by simp
  then show "py_lower_char c = CHR ''-'' \<longleftrightarrow> c = CHR ''-''"
    by (auto simp: of_lower_char Let_def)
qed

lemma hex_digit_not:
  assumes "hex_digit c"
  shows "c \<noteq> CHR ''-''" "c \<noteq> CHR '':''" "c \<noteq> CHR ''{''" "c \<noteq> CHR ''}''" "c \<noteq> CHR ''_''"
  using assms by (auto simp: hex_digit_def)

lemma py_remove_absent: "x \<in> set old \<Longrightarrow> x \<notin> set s \<Longrightarrow> py_remove old s = s"
proof (induction old s rule: py_remove.induct)
  case (2 old c cs)
  then have "\<not> (old \<noteq> [] \<and> take (length old) (c # cs) = old)"
    by (metis in_set_takeD)
  with 2 show ?case by auto
qed simp

lemma py_remove_dash: "py_remove ''-'' s = filter (\<lambda>c. c \<noteq> CHR ''-'') s"
  by (induction "''-''" s rule: py_remove.induct) auto

lemma uuid_str_parts:
  assumes "length h = 32"
  obtains a b c d e where "h = a @ b @ c @ d @ e" "length a = 8" "length b = 4" "length c = 4"
    "length d = 4" "length e = 12"
    "uuid_str h = a @ ''-'' @ b @ ''-'' @ c @ ''-'' @ d @ ''-'' @ e"
proof (rule that)
  have "take 4 (drop 16 h) @ drop 20 h = drop 16 h"
    using append_take_drop_id[of 4 "drop 16 h"] by simp
  moreover have "take 4 (drop 12 h) @ drop 16 h = drop 12 h"
    using append_take_drop_id[of 4 "drop 12 h"] by simp
  moreover have "take 4 (drop 8 h) @ drop 12 h = drop 8 h"
    using append_take_drop_id[of 4 "drop 8 h"] by simp
  ultimately show "h = take 8 h @ take 4 (drop 8 h) @ take 4 (drop 12 h) @ take 4 (drop 16 h) @ drop 20 h"
    by simp
qed (use assms in \<open>simp_all add: uuid_str_def\<close>)

lemma uuid_str_lower: "length h = 32 \<Longrightarrow> py_lower (uuid_str h) = uuid_str (py_lower h)"
  by (simp add: uuid_str_def py_lower_def take_map drop_map py_lower_char_def Let_def)

lemma set_uuid_str: "set (uuid_str h) \<subseteq> set h \<union> {CHR ''-''}"
  by (auto simp: uuid_str_def dest: in_set_takeD in_set_dropD)

lemma py_strip_braces_id:
  assumes "s \<noteq> []" "hd s \<notin> {CHR ''{'', CHR ''}''}" "last s \<notin> {CHR ''{'', CHR ''}''}"
  shows "py_strip_braces s = s"
proof -
  let ?P = "\<lambda>c. c = CHR ''{'' \<or> c = CHR ''}''"
  have "dropWhile ?P s = s" using assms by (cases s) auto
  moreover have "dropWhile ?P (rev s) = rev s" using assms by (cases s rule: rev_cases) auto
  ultimately show ?thesis by (simp only: py_strip_braces_def Let_def rev_rev_ident)
qed

lemma uuid_parse_uuid_str:
  assumes len: "length h = 32" and hex: "list_all hex_digit h"
  shows "uuid_parse (uuid_str h) = Some (py_lower h)"
proof -
  obtain a b c d e where p: "h = a @ b @ c @ d @ e" "length a = 8" "length b = 4"
    "length c = 4" "length d = 4" "length e = 12"
    "uuid_str h = a @ ''-'' @ b @ ''-'' @ c @ ''-'' @ d @ ''-'' @ e"
    using uuid_str_parts[OF len] by blast
  have cs: "\<forall>x\<in>set (uuid_str h). hex_digit x \<or> x = CHR ''-''"
    using set_uuid_str[of h] hex by (auto simp: list_all_iff)
  then have "CHR '':'' \<notin> set (uuid_str h)"
    using hex_digit_not(2) by auto
  then have r: "py_remove ''urn:'' (uuid_str h) = uuid_str h"
    "py_remove ''uuid:'' (uuid_str h) = uuid_str h"
    by (auto intro!: py_remove_absent[where x = "CHR '':''"])
  have ne: "uuid_str h \<noteq> []" using p by auto
  then have b: "py_strip_braces (uuid_str h) = uuid_str h"
    using cs hex_digit_not(3,4) by (intro py_strip_braces_id) (force dest: hd_in_set last_in_set)+
  have "filter (\<lambda>c. c \<noteq> CHR ''-'') h = h"
    using hex by (auto simp: list_all_iff filter_id_conv dest: hex_digit_not(1))
  then have "py_remove ''-'' (uuid_str h) = h"
    using p by (simp add: py_remove_dash)
  with r b len hex show ?thesis by (simp add: uuid_parse_def)
qed

lemma lower_dash_split:
  assumes "map py_lower_char s = a @ CHR ''-'' # r"
  obtains a' r' where "s = a' @ CHR ''-'' # r'" "map py_lower_char a' = a" "map py_lower_char r' = r"
proof -
  from assms obtain a' z r' where "s = a' @ z # r'" "map py_lower_char a' = a"
    "py_lower_char z = CHR ''-''" "map py_lower_char r' = r"
    by (auto simp: map_eq_append_conv map_eq_Cons_conv)
  then show ?thesis using that lower_char_facts(2) by auto
qed

lemma hex_digit_lower: "list_all hex_digit (map py_lower_char s) = list_all hex_digit s"
  by (induction s) (simp_all add: lower_char_facts)

lemma lower_inverse:
  assumes "py_lower s = uuid_str g" and "length g = 32" and "list_all hex_digit g"
  obtains h where "length h = 32" "list_all hex_digit h" "s = uuid_str h"
proof -
  obtain a b c d e where p: "length a = 8" "length b = 4" "length c = 4" "length d = 4"
    "length e = 12" "g = a @ b @ c @ d @ e"
    "map py_lower_char s = a @ ''-'' @ b @ ''-'' @ c @ ''-'' @ d @ ''-'' @ e"
    using uuid_str_parts[OF assms(2)] assms(1) unfolding py_lower_def by metis
  from p(7) obtain a' r1 where 1: "s = a' @ CHR ''-'' # r1" "map py_lower_char a' = a"
    "map py_lower_char r1 = b @ CHR ''-'' # c @ ''-'' @ d @ ''-'' @ e"
    by (auto elim: lower_dash_split)
  from 1(3) obtain b' r2 where 2: "r1 = b' @ CHR ''-'' # r2" "map py_lower_char b' = b"
    "map py_lower_char r2 = c @ CHR ''-'' # d @ ''-'' @ e"
    by (auto elim: lower_dash_split)
  from 2(3) obtain c' r3 where 3: "r2 = c' @ CHR ''-'' # r3" "map py_lower_char c' = c"
    "map py_lower_char r3 = d @ CHR ''-'' # e"
    by (auto elim: lower_dash_split)
  from 3(3) obtain d' e' where 4: "r3 = d' @ CHR ''-'' # e'" "map py_lower_char d' = d"
    "map py_lower_char e' = e"
    by (auto elim: lower_dash_split)
  note m = 1(2) 2(2) 3(2) 4(2,3)
  have s: "s = a' @ ''-'' @ b' @ ''-'' @ c' @ ''-'' @ d' @ ''-'' @ e'"
    using 1(1) 2(1) 3(1) 4(1) by simp
  let ?h = "a' @ b' @ c' @ d' @ e'"
  have len: "length a' = 8" "length b' = 4" "length c' = 4" "length d' = 4" "length e' = 12"
    using p(1-5) m by (metis length_map)+
  then have "uuid_str ?h = s" by (simp add: s uuid_str_def)
  moreover have "list_all hex_digit ?h"
    using assms(3) by (simp add: p(6) m[symmetric] hex_digit_lower del: list_all_append flip: map_append)
  ultimately show ?thesis using len by (intro that[of ?h]) simp_all
qed

theorem validate_id_iff:
  "validate_id v p = Inr r \<longleftrightarrow>
     r = v \<and> (\<exists>h. length h = 32 \<and> list_all hex_digit h \<and> v = p @ ''_'' @ uuid_str h)"
proof
  assume "validate_id v p = Inr r"
  then obtain payload g where v: "v = p @ ''_'' @ payload" "r = v"
    and g: "uuid_parse payload = Some g" "py_lower payload = uuid_str g"
    by (auto simp: validate_id_def Let_def py_startswith_iff split: if_splits option.splits)
  have "length g = 32" "list_all hex_digit g"
    using g(1) by (auto simp: uuid_parse_def Let_def py_lower_def hex_digit_lower
        split: if_splits)
  with g(2) obtain h where "length h = 32" "list_all hex_digit h" "payload = uuid_str h"
    by (metis lower_inverse)
  with v show "r = v \<and> (\<exists>h. length h = 32 \<and> list_all hex_digit h \<and> v = p @ ''_'' @ uuid_str h)"
    by auto
next
  assume "r = v \<and> (\<exists>h. length h = 32 \<and> list_all hex_digit h \<and> v = p @ ''_'' @ uuid_str h)"
  then show "validate_id v p = Inr r"
    by (auto simp: validate_id_def py_startswith_iff uuid_parse_uuid_str uuid_str_lower)
qed

lemma validate_id_Inl: "validate_id v p = Inl e \<Longrightarrow> e = ValueError"
  by (auto simp: validate_id_def Let_def split: if_splits option.splits)

lemma validate_id_same: "validate_id v p = Inr r \<Longrightarrow> r = v"
  by (simp add: validate_id_iff)

lemma validate_subject_simps [simp]:
  "validate_subject_id ''task'' x = validate_id x ''task''"
  "validate_subject_id ''step'' x = validate_id x ''step''"
  "validate_subject_id ''run'' x = validate_id x ''run''"
  by (simp_all add: validate_subject_id_def CANONICAL_SUBJECT_PREFIXES_def)

lemma validate_optional_simps [simp]:
  "validate_optional_id None p = Inr ()"
  "validate_optional_id (Some s) p = Inr u \<longleftrightarrow> validate_id s p = Inr s"
  by (auto simp: validate_optional_id_def sbind_eq_Inr dest: validate_id_same)

section \<open>Facts about freezing\<close>

lemma deep_freeze_idem [simp]: "deep_freeze (deep_freeze v) = deep_freeze v"
  by (induction v rule: deep_freeze.induct) (auto simp: case_prod_beta)

lemma freeze_mapping_idem [simp]: "freeze_mapping (freeze_mapping d) = freeze_mapping d"
  by (simp add: freeze_mapping_def case_prod_beta)

lemma freeze_mapping_Nil [simp]: "freeze_mapping [] = []"
  by (simp add: freeze_mapping_def)

lemma dict_get_freeze [simp]:
  "dict_get (freeze_mapping d) k = map_option deep_freeze (dict_get d k)"
  by (simp add: freeze_mapping_def dict_get_map_values)

end
