(* ===== verification/Domain_Models.thy ===== *)
theory Domain_Models
  imports Domain_Ids
begin

text \<open>
  The canonical entities of \<open>domain/models.py\<close> on which the kernel runs (Task, Plan, Step, Run,
  Event) with the status enumerations and the lifecycle tables of \<open>domain/lifecycle.py\<close>. A
  dataclass is a record with its fields in the order of the source; \<open>X_post_init\<close> is its
  \<open>__post_init__\<close>, which also runs on every \<open>dataclasses.replace\<close>. Tuples and lists of the
  source are both HOL lists, so \<open>_freeze_tuple_field\<close> is the identity.
\<close>

section \<open>Statuses\<close>

datatype task_status = T_DRAFT | T_READY | T_RUNNING | T_WAITING | T_SUCCEEDED | T_FAILED | T_CANCELLED
datatype step_status = S_PENDING | S_READY | S_RUNNING | S_WAITING | S_SUCCEEDED | S_FAILED | S_SKIPPED | S_CANCELLED
datatype run_status = R_QUEUED | R_STARTING | R_RUNNING | R_SUCCEEDED | R_FAILED | R_CANCELLED | R_TIMED_OUT
datatype approval_status = A_PENDING | A_APPROVED | A_REJECTED | A_EXPIRED | A_CANCELLED
datatype worker_job_status = W_QUEUED | W_ASSIGNED | W_STARTING | W_RUNNING | W_WAITING | W_SUCCEEDED | W_FAILED | W_CANCELLED | W_TIMED_OUT

fun task_status_value :: "task_status \<Rightarrow> string" where
  "task_status_value T_DRAFT = ''draft''"
| "task_status_value T_READY = ''ready''"
| "task_status_value T_RUNNING = ''running''"
| "task_status_value T_WAITING = ''waiting''"
| "task_status_value T_SUCCEEDED = ''succeeded''"
| "task_status_value T_FAILED = ''failed''"
| "task_status_value T_CANCELLED = ''cancelled''"

fun run_status_value :: "run_status \<Rightarrow> string" where
  "run_status_value R_QUEUED = ''queued''"
| "run_status_value R_STARTING = ''starting''"
| "run_status_value R_RUNNING = ''running''"
| "run_status_value R_SUCCEEDED = ''succeeded''"
| "run_status_value R_FAILED = ''failed''"
| "run_status_value R_CANCELLED = ''cancelled''"
| "run_status_value R_TIMED_OUT = ''timed_out''"

section \<open>Lifecycle tables\<close>

fun TASK_TRANSITIONS :: "task_status \<Rightarrow> task_status set" where
  "TASK_TRANSITIONS T_DRAFT = {T_READY, T_CANCELLED}"
| "TASK_TRANSITIONS T_READY = {T_RUNNING, T_CANCELLED}"
| "TASK_TRANSITIONS T_RUNNING = {T_WAITING, T_SUCCEEDED, T_FAILED, T_CANCELLED}"
| "TASK_TRANSITIONS T_WAITING = {T_RUNNING, T_FAILED, T_CANCELLED}"
| "TASK_TRANSITIONS T_SUCCEEDED = {}"
| "TASK_TRANSITIONS T_FAILED = {T_READY}"
| "TASK_TRANSITIONS T_CANCELLED = {}"

fun STEP_TRANSITIONS :: "step_status \<Rightarrow> step_status set" where
  "STEP_TRANSITIONS S_PENDING = {S_READY, S_SKIPPED, S_CANCELLED}"
| "STEP_TRANSITIONS S_READY = {S_RUNNING, S_SKIPPED, S_CANCELLED}"
| "STEP_TRANSITIONS S_RUNNING = {S_WAITING, S_SUCCEEDED, S_FAILED, S_CANCELLED}"
| "STEP_TRANSITIONS S_WAITING = {S_RUNNING, S_FAILED, S_CANCELLED}"
| "STEP_TRANSITIONS S_SUCCEEDED = {}"
| "STEP_TRANSITIONS S_FAILED = {S_READY}"
| "STEP_TRANSITIONS S_SKIPPED = {}"
| "STEP_TRANSITIONS S_CANCELLED = {}"

fun RUN_TRANSITIONS :: "run_status \<Rightarrow> run_status set" where
  "RUN_TRANSITIONS R_QUEUED = {R_STARTING, R_CANCELLED}"
| "RUN_TRANSITIONS R_STARTING = {R_RUNNING, R_FAILED, R_CANCELLED}"
| "RUN_TRANSITIONS R_RUNNING = {R_SUCCEEDED, R_FAILED, R_CANCELLED, R_TIMED_OUT}"
| "RUN_TRANSITIONS R_SUCCEEDED = {}"
| "RUN_TRANSITIONS R_FAILED = {}"
| "RUN_TRANSITIONS R_CANCELLED = {}"
| "RUN_TRANSITIONS R_TIMED_OUT = {}"

fun APPROVAL_TRANSITIONS :: "approval_status \<Rightarrow> approval_status set" where
  "APPROVAL_TRANSITIONS A_PENDING = {A_APPROVED, A_REJECTED, A_EXPIRED, A_CANCELLED}"
| "APPROVAL_TRANSITIONS A_APPROVED = {}"
| "APPROVAL_TRANSITIONS A_REJECTED = {}"
| "APPROVAL_TRANSITIONS A_EXPIRED = {}"
| "APPROVAL_TRANSITIONS A_CANCELLED = {}"

fun WORKER_JOB_TRANSITIONS :: "worker_job_status \<Rightarrow> worker_job_status set" where
  "WORKER_JOB_TRANSITIONS W_QUEUED = {W_ASSIGNED, W_CANCELLED}"
| "WORKER_JOB_TRANSITIONS W_ASSIGNED = {W_STARTING, W_CANCELLED}"
| "WORKER_JOB_TRANSITIONS W_STARTING = {W_RUNNING, W_FAILED, W_CANCELLED}"
| "WORKER_JOB_TRANSITIONS W_RUNNING = {W_WAITING, W_SUCCEEDED, W_FAILED, W_CANCELLED, W_TIMED_OUT}"
| "WORKER_JOB_TRANSITIONS W_WAITING = {W_RUNNING, W_FAILED, W_CANCELLED}"
| "WORKER_JOB_TRANSITIONS W_SUCCEEDED = {}"
| "WORKER_JOB_TRANSITIONS W_FAILED = {}"
| "WORKER_JOB_TRANSITIONS W_CANCELLED = {}"
| "WORKER_JOB_TRANSITIONS W_TIMED_OUT = {}"

definition can_transition :: "'s \<Rightarrow> 's \<Rightarrow> ('s \<Rightarrow> 's set) \<Rightarrow> bool" where
  "can_transition current target transitions \<longleftrightarrow> target \<in> transitions current"

definition require_transition :: "'s \<Rightarrow> 's \<Rightarrow> ('s \<Rightarrow> 's set) \<Rightarrow> py_error + unit" where
  "require_transition current target transitions =
     guard (can_transition current target transitions) ValueError"

section \<open>References and provenance\<close>

record owner_ref =
  ow_type :: string
  ow_id :: string

record external_ref =
  xr_system :: string
  xr_kind :: string
  xr_value :: string

record provenance =
  pv_source :: string
  pv_actor_ref :: "string option"
  pv_details :: "json dict"

definition provenance_post_init :: "provenance \<Rightarrow> provenance" where
  "provenance_post_init x = x\<lparr>pv_details := freeze_mapping (pv_details x)\<rparr>"

definition same_provenance :: "provenance option \<Rightarrow> provenance option \<Rightarrow> bool" where
  "same_provenance p q = (case (p, q) of
     (None, None) \<Rightarrow> True
   | (Some a, Some b) \<Rightarrow> pv_source a = pv_source b \<and> pv_actor_ref a = pv_actor_ref b \<and>
       py_eq (JObj (pv_details a)) (JObj (pv_details b))
   | _ \<Rightarrow> False)"

definition SCHEMA_VERSION :: string where
  "SCHEMA_VERSION = ''1.0''"

section \<open>Entities\<close>

record task =
  t_title :: string
  t_owner_ref :: owner_ref
  t_id :: string
  t_status :: task_status
  t_goal_id :: "string option"
  t_project_id :: "string option"
  t_description :: string
  t_correlation_id :: "string option"
  t_causation_id :: "string option"
  t_created_at :: datetime
  t_updated_at :: datetime
  t_schema_version :: string
  t_provenance :: "provenance option"
  t_external_refs :: "external_ref list"
  t_metadata :: "json dict"

definition task_post_init :: "task \<Rightarrow> py_error + task" where
  "task_post_init x =
     sbind (validate_id (t_id x) ''task'') (\<lambda>_.
     sbind (validate_optional_id (t_goal_id x) ''goal'') (\<lambda>_.
     sbind (validate_optional_id (t_project_id x) ''project'') (\<lambda>_.
     Inr (x\<lparr>t_metadata := freeze_mapping (t_metadata x)\<rparr>))))"

record plan =
  p_task_id :: string
  p_owner_ref :: owner_ref
  p_id :: string
  p_revision :: int
  p_active :: bool
  p_project_id :: "string option"
  p_created_at :: datetime
  p_schema_version :: string
  p_provenance :: "provenance option"
  p_external_refs :: "external_ref list"

definition plan_post_init :: "plan \<Rightarrow> py_error + plan" where
  "plan_post_init x =
     sbind (validate_id (p_id x) ''plan'') (\<lambda>_.
     sbind (validate_id (p_task_id x) ''task'') (\<lambda>_.
     sbind (validate_optional_id (p_project_id x) ''project'') (\<lambda>_.
     sbind (guard (1 \<le> p_revision x) ValueError) (\<lambda>_.
     Inr x))))"

record step =
  s_plan_id :: string
  s_title :: string
  s_owner_ref :: owner_ref
  s_id :: string
  s_status :: step_status
  s_parent_step_id :: "string option"
  s_depends_on :: "string list"
  s_project_id :: "string option"
  s_created_at :: datetime
  s_updated_at :: datetime
  s_schema_version :: string
  s_provenance :: "provenance option"
  s_external_refs :: "external_ref list"

definition step_post_init :: "step \<Rightarrow> py_error + step" where
  "step_post_init x =
     sbind (validate_id (s_id x) ''step'') (\<lambda>_.
     sbind (validate_id (s_plan_id x) ''plan'') (\<lambda>_.
     sbind (validate_optional_id (s_parent_step_id x) ''step'') (\<lambda>_.
     sbind (validate_ids (s_depends_on x) ''step'') (\<lambda>_.
     sbind (validate_optional_id (s_project_id x) ''project'') (\<lambda>_.
     Inr x)))))"

record run =
  r_subject_type :: string
  r_subject_id :: string
  r_owner_ref :: owner_ref
  r_correlation_id :: string
  r_id :: string
  r_attempt :: int
  r_status :: run_status
  r_project_id :: "string option"
  r_causation_id :: "string option"
  r_trace_id :: "string option"
  r_worker_id :: "string option"
  r_created_at :: datetime
  r_updated_at :: datetime
  r_started_at :: "datetime option"
  r_finished_at :: "datetime option"
  r_schema_version :: string
  r_provenance :: "provenance option"
  r_external_refs :: "external_ref list"
  r_metadata :: "json dict"

definition run_post_init :: "run \<Rightarrow> py_error + run" where
  "run_post_init x =
     sbind (validate_id (r_id x) ''run'') (\<lambda>_.
     sbind (validate_subject_id (r_subject_type x) (r_subject_id x)) (\<lambda>_.
     sbind (validate_optional_id (r_project_id x) ''project'') (\<lambda>_.
     sbind (validate_optional_id (r_worker_id x) ''worker'') (\<lambda>_.
     sbind (guard (1 \<le> r_attempt x) ValueError) (\<lambda>_.
     Inr (x\<lparr>r_metadata := freeze_mapping (r_metadata x)\<rparr>))))))"

record event =
  ev_event_type :: string
  ev_subject_type :: string
  ev_subject_id :: string
  ev_correlation_id :: string
  ev_id :: string
  ev_owner_ref :: "owner_ref option"
  ev_project_id :: "string option"
  ev_causation_id :: "string option"
  ev_trace_id :: "string option"
  ev_occurred_at :: datetime
  ev_payload :: "json dict"
  ev_schema_version :: string
  ev_provenance :: "provenance option"
  ev_external_refs :: "external_ref list"

definition event_post_init :: "event \<Rightarrow> py_error + event" where
  "event_post_init x =
     sbind (validate_id (ev_id x) ''event'') (\<lambda>_.
     sbind (validate_subject_id (ev_subject_type x) (ev_subject_id x)) (\<lambda>_.
     sbind (validate_optional_id (ev_project_id x) ''project'') (\<lambda>_.
     Inr (x\<lparr>ev_payload := freeze_mapping (ev_payload x)\<rparr>))))"


section \<open>Lifecycle moves of the entities\<close>

definition task_transition_to :: "datetime \<Rightarrow> task \<Rightarrow> task_status \<Rightarrow> py_error + task" where
  "task_transition_to now x target =
     sbind (require_transition (t_status x) target TASK_TRANSITIONS) (\<lambda>_.
     task_post_init (x\<lparr>t_status := target, t_updated_at := now\<rparr>))"

definition step_transition_to :: "datetime \<Rightarrow> step \<Rightarrow> step_status \<Rightarrow> py_error + step" where
  "step_transition_to now x target =
     sbind (require_transition (s_status x) target STEP_TRANSITIONS) (\<lambda>_.
     step_post_init (x\<lparr>s_status := target, s_updated_at := now\<rparr>))"

definition run_transition_to :: "datetime \<Rightarrow> run \<Rightarrow> run_status \<Rightarrow> py_error + run" where
  "run_transition_to now x target =
     sbind (require_transition (r_status x) target RUN_TRANSITIONS) (\<lambda>_.
     run_post_init (x\<lparr>r_status := target, r_updated_at := now,
       r_started_at := (if target = R_RUNNING \<and> r_started_at x = None then Some now else r_started_at x),
       r_finished_at := (if target \<in> {R_SUCCEEDED, R_FAILED, R_CANCELLED, R_TIMED_OUT}
          then Some now else r_finished_at x)\<rparr>))"

section \<open>Re-validation never fails\<close>

text \<open>
  \<open>dataclasses.replace\<close> runs \<open>__post_init__\<close> again. An entity that was accepted once is accepted
  again, and unchanged, as long as the replaced fields are not validated ones.
\<close>

definition task_wf :: "task \<Rightarrow> bool" where
  "task_wf t \<longleftrightarrow> task_post_init t = Inr t"

definition run_wf :: "run \<Rightarrow> bool" where
  "run_wf r \<longleftrightarrow> run_post_init r = Inr r"

lemma task_wf_iff:
  "task_wf t \<longleftrightarrow> validate_id (t_id t) ''task'' = Inr (t_id t) \<and>
     validate_optional_id (t_goal_id t) ''goal'' = Inr () \<and>
     validate_optional_id (t_project_id t) ''project'' = Inr () \<and>
     freeze_mapping (t_metadata t) = t_metadata t"
  by (cases t) (auto simp: task_wf_def task_post_init_def sbind_eq_Inr dest: validate_id_same)

lemma run_wf_iff:
  "run_wf r \<longleftrightarrow> validate_id (r_id r) ''run'' = Inr (r_id r) \<and>
     validate_subject_id (r_subject_type r) (r_subject_id r) = Inr (r_subject_id r) \<and>
     validate_optional_id (r_project_id r) ''project'' = Inr () \<and>
     validate_optional_id (r_worker_id r) ''worker'' = Inr () \<and>
     freeze_mapping (r_metadata r) = r_metadata r \<and> 1 \<le> r_attempt r"
  by (cases r) (auto simp: run_wf_def run_post_init_def sbind_eq_Inr validate_subject_id_def
      split: option.splits dest: validate_id_same)

lemma task_post_init_wf: "task_post_init t = Inr t' \<Longrightarrow> task_wf t'"
  by (auto simp: task_wf_iff task_post_init_def sbind_eq_Inr dest: validate_id_same)

lemma run_post_init_wf: "run_post_init r = Inr r' \<Longrightarrow> run_wf r'"
  by (auto simp: run_wf_iff run_post_init_def sbind_eq_Inr validate_subject_id_def
      split: option.splits dest: validate_id_same)

lemma task_post_init_id [simp]: "task_wf t \<Longrightarrow> task_post_init t = Inr t"
  by (simp add: task_wf_def)

lemma run_post_init_id [simp]: "run_wf r \<Longrightarrow> run_post_init r = Inr r"
  by (simp add: run_wf_def)

lemma event_post_init_Inr:
  "event_post_init x = Inr y \<Longrightarrow>
     y = x\<lparr>ev_payload := freeze_mapping (ev_payload x)\<rparr> \<and>
     validate_subject_id (ev_subject_type x) (ev_subject_id x) = Inr (ev_subject_id x)"
  by (auto simp: event_post_init_def sbind_eq_Inr validate_subject_id_def
      split: option.splits dest: validate_id_same)

end
