(* ===== verification/Kernel_State.thy ===== *)
theory Kernel_State
  imports Domain_Models
begin

text \<open>
  The read models of \<open>kernel/models.py\<close> and the reducers of \<open>kernel/state.py\<close>, which rebuild the
  state of a task and of its runs from the canonical event history. A reducer is a fold that may
  raise; the accumulator is a record of the local variables of the Python loop, and each event
  type that changes it has a definition of its own.
\<close>

section \<open>Read models\<close>

definition TERMINAL_RUN_STATUSES :: "run_status set" where
  "TERMINAL_RUN_STATUSES = {R_SUCCEEDED, R_FAILED, R_CANCELLED, R_TIMED_OUT}"

datatype recovery_disposition =
    QUEUED_PENDING | REDISPATCHED | RECONCILED | TERMINAL_UNCHANGED
  | ORPHANED_RECONCILIATION_REQUIRED

record task_state =
  ts_task :: task
  ts_revision :: nat
  ts_plan_ref :: "string option"
  ts_step_ids :: "string list"
  ts_run_ids :: "string list"
  ts_artifact_ids :: "string list"
  ts_result_ids :: "string list"
  ts_wait_reason :: "string option"
  ts_blocked :: bool

record run_state =
  rs_run :: run
  rs_revision :: nat
  rs_backend_ref :: "string option"
  rs_output :: "json dict"
  rs_artifact_ids :: "string list"
  rs_result_ids :: "string list"
  rs_dispatch_attempts :: nat
  rs_recovery_required :: bool
  rs_recovery_reason :: "string option"

definition ts_task_id :: "task_state \<Rightarrow> string" where
  "ts_task_id ts = t_id (ts_task ts)"

definition ts_status :: "task_state \<Rightarrow> task_status" where
  "ts_status ts = t_status (ts_task ts)"

definition rs_run_id :: "run_state \<Rightarrow> string" where
  "rs_run_id rs = r_id (rs_run rs)"

definition rs_task_id :: "run_state \<Rightarrow> string" where
  "rs_task_id rs = r_correlation_id (rs_run rs)"

definition rs_attempt :: "run_state \<Rightarrow> int" where
  "rs_attempt rs = r_attempt (rs_run rs)"

definition rs_status :: "run_state \<Rightarrow> run_status" where
  "rs_status rs = r_status (rs_run rs)"

record recovery_entry =
  re_run_id :: string
  re_before :: run_status
  re_after :: run_status
  re_disposition :: recovery_disposition

record recovery_report =
  rr_task_id :: string
  rr_entries :: "recovery_entry list"

section \<open>Event types and payload access\<close>

definition TASK_EVENT_STATUS :: "(string \<times> task_status) list" where
  "TASK_EVENT_STATUS =
     [(''task.ready'', T_READY), (''task.running'', T_RUNNING), (''task.waiting'', T_WAITING),
      (''task.resumed'', T_RUNNING), (''task.succeeded'', T_SUCCEEDED),
      (''task.failed'', T_FAILED), (''task.cancelled'', T_CANCELLED)]"

definition RUN_EVENT_STATUS :: "(string \<times> run_status) list" where
  "RUN_EVENT_STATUS =
     [(''run.starting'', R_STARTING), (''run.running'', R_RUNNING),
      (''run.succeeded'', R_SUCCEEDED), (''run.failed'', R_FAILED),
      (''run.cancelled'', R_CANCELLED), (''run.timed_out'', R_TIMED_OUT)]"

definition event_string :: "event \<Rightarrow> string \<Rightarrow> py_error + string" where
  "event_string e key =
     (case dict_get (ev_payload e) key of
        Some (JStr s) \<Rightarrow> if s = [] then Inl (contract_error CONTRACT_VIOLATION) else Inr s
      | _ \<Rightarrow> Inl (contract_error CONTRACT_VIOLATION))"

definition event_optional_string :: "event \<Rightarrow> string \<Rightarrow> py_error + string option" where
  "event_optional_string e key =
     (case dict_get (ev_payload e) key of
        None \<Rightarrow> Inr None
      | Some JNull \<Rightarrow> Inr None
      | Some (JStr s) \<Rightarrow> Inr (Some s)
      | Some _ \<Rightarrow> Inl (contract_error CONTRACT_VIOLATION))"

definition event_integer :: "event \<Rightarrow> string \<Rightarrow> py_error + int" where
  "event_integer e key =
     (case dict_get (ev_payload e) key of
        Some (JInt i) \<Rightarrow> Inr i
      | _ \<Rightarrow> Inl (contract_error CONTRACT_VIOLATION))"

definition event_provenance :: "event \<Rightarrow> provenance" where
  "event_provenance e =
     (case ev_provenance e of
        Some p \<Rightarrow> p
      | None \<Rightarrow> \<lparr>pv_source = ''platform-kernel'', pv_actor_ref = None, pv_details = []\<rparr>)"

section \<open>Lifecycle moves recorded by events\<close>

definition conflict_on_value_error :: "py_error + 'a \<Rightarrow> py_error + 'a" where
  \<comment> \<open>\<open>except ValueError as exc: raise ContractError(ErrorCode.CONFLICT, ...)\<close>\<close>
  "conflict_on_value_error r =
     (case r of Inl ValueError \<Rightarrow> Inl (contract_error CONFLICT) | _ \<Rightarrow> r)"

definition transition_task :: "task \<Rightarrow> task_status \<Rightarrow> event \<Rightarrow> py_error + task" where
  "transition_task t target e =
     (if t_status t = target then Inr t
      else sbind (conflict_on_value_error
                    (require_transition (t_status t) target TASK_TRANSITIONS)) (\<lambda>_.
           task_post_init (t\<lparr>t_status := target, t_updated_at := ev_occurred_at e,
             t_causation_id := ev_causation_id e,
             t_provenance := Some (event_provenance e)\<rparr>)))"

definition transition_run :: "run \<Rightarrow> run_status \<Rightarrow> event \<Rightarrow> py_error + run" where
  "transition_run r target e =
     (if r_status r = target then Inr r
      else sbind (conflict_on_value_error
                    (require_transition (r_status r) target RUN_TRANSITIONS)) (\<lambda>_.
           run_post_init (r\<lparr>r_status := target, r_updated_at := ev_occurred_at e,
             r_causation_id := ev_causation_id e,
             r_provenance := Some (event_provenance e),
             r_started_at :=
               (if target = R_RUNNING \<and> r_started_at r = None then Some (ev_occurred_at e)
                else r_started_at r),
             r_finished_at :=
               (if target \<in> {R_SUCCEEDED, R_FAILED, R_CANCELLED, R_TIMED_OUT}
                then Some (ev_occurred_at e) else r_finished_at r)\<rparr>)))"

section \<open>The task reducer\<close>

record task_fold =
  tf_task :: "task option"
  tf_plan_ref :: "string option"
  tf_step_ids :: "string list"
  tf_run_ids :: "string list"
  tf_artifact_ids :: "string list"
  tf_result_ids :: "string list"
  tf_wait_reason :: "string option"
  tf_blocked :: bool

definition task_fold_init :: task_fold where
  "task_fold_init = \<lparr>tf_task = None, tf_plan_ref = None, tf_step_ids = [], tf_run_ids = [],
     tf_artifact_ids = [], tf_result_ids = [], tf_wait_reason = None, tf_blocked = False\<rparr>"

definition append_new :: "string \<Rightarrow> string list \<Rightarrow> string list" where
  "append_new x xs = (if x \<in> set xs then xs else xs @ [x])"

definition task_created :: "string \<Rightarrow> task_fold \<Rightarrow> event \<Rightarrow> py_error + task_fold" where
  "task_created task_id s e =
     sbind (guard (tf_task s = None) (contract_error CONFLICT)) (\<lambda>_.
     sbind (event_string e ''owner_type'') (\<lambda>owner_type.
     sbind (event_string e ''owner_id'') (\<lambda>owner_id.
     sbind (event_string e ''title'') (\<lambda>title.
     sbind (event_string e ''objective'') (\<lambda>objective.
     sbind (task_post_init
        \<lparr>t_title = title, t_owner_ref = \<lparr>ow_type = owner_type, ow_id = owner_id\<rparr>,
         t_id = task_id, t_status = T_DRAFT, t_goal_id = None,
         t_project_id = ev_project_id e, t_description = objective,
         t_correlation_id = Some (ev_correlation_id e), t_causation_id = ev_causation_id e,
         t_created_at = ev_occurred_at e, t_updated_at = ev_occurred_at e,
         t_schema_version = SCHEMA_VERSION, t_provenance = Some (event_provenance e),
         t_external_refs = [], t_metadata = []\<rparr>) (\<lambda>t.
     Inr (s\<lparr>tf_task := Some t\<rparr>)))))))"

definition merge_metadata :: "json dict \<Rightarrow> json option \<Rightarrow> py_error + json dict" where
  "merge_metadata current patch =
     (case patch of
        None \<Rightarrow> Inr current
      | Some JNull \<Rightarrow> Inr current
      | Some (JObj kvs) \<Rightarrow> Inr (dict_update current kvs)
      | Some _ \<Rightarrow> Inl (contract_error CONTRACT_VIOLATION))"

definition task_updated :: "task \<Rightarrow> event \<Rightarrow> py_error + task" where
  "task_updated t e =
     (case (case dict_get (ev_payload e) ''title'' of None \<Rightarrow> JStr (t_title t) | Some v \<Rightarrow> v,
            case dict_get (ev_payload e) ''objective'' of None \<Rightarrow> JStr (t_description t) | Some v \<Rightarrow> v) of
        (JStr title, JStr objective) \<Rightarrow>
          sbind (merge_metadata (t_metadata t) (dict_get (ev_payload e) ''metadata'')) (\<lambda>metadata.
          task_post_init (t\<lparr>t_title := title, t_description := objective,
            t_metadata := metadata, t_updated_at := ev_occurred_at e,
            t_causation_id := ev_causation_id e,
            t_provenance := Some (event_provenance e)\<rparr>))
      | _ \<Rightarrow> Inl (contract_error CONTRACT_VIOLATION))"

definition task_project_reassigned :: "task \<Rightarrow> event \<Rightarrow> py_error + task" where
  "task_project_reassigned t e =
     sbind (event_optional_string e ''source_project_id'') (\<lambda>source_project_id.
     sbind (event_optional_string e ''destination_project_id'') (\<lambda>destination_project_id.
     sbind (guard (source_project_id = t_project_id t) (contract_error CONTRACT_VIOLATION)) (\<lambda>_.
     sbind (guard (ev_project_id e = source_project_id) (contract_error CONTRACT_VIOLATION)) (\<lambda>_.
     sbind (case validate_optional_id destination_project_id ''project'' of
              Inl _ \<Rightarrow> Inl (contract_error CONTRACT_VIOLATION) | Inr u \<Rightarrow> Inr u) (\<lambda>_.
     task_post_init (t\<lparr>t_project_id := destination_project_id,
       t_updated_at := ev_occurred_at e, t_causation_id := ev_causation_id e,
       t_provenance := Some (event_provenance e)\<rparr>))))))"

definition task_status_event :: "task_fold \<Rightarrow> task \<Rightarrow> task_status \<Rightarrow> event \<Rightarrow> py_error + task_fold" where
  "task_status_event s t target e =
     sbind (transition_task t target e) (\<lambda>t'.
     if target \<noteq> T_WAITING
     then Inr (s\<lparr>tf_task := Some t', tf_wait_reason := None, tf_blocked := False\<rparr>)
     else sbind (event_optional_string e ''reason'') (\<lambda>reason.
          Inr (s\<lparr>tf_task := Some t', tf_wait_reason := reason,
            tf_blocked := (case dict_get (ev_payload e) ''blocked'' of
                             None \<Rightarrow> False | Some v \<Rightarrow> py_truthy v)\<rparr>)))"

fun validated_step_id :: "json \<Rightarrow> py_error + string" where
  "validated_step_id (JStr s) =
     (case validate_id s ''step'' of
        Inl _ \<Rightarrow> Inl (contract_error CONTRACT_VIOLATION) | Inr _ \<Rightarrow> Inr s)"
| "validated_step_id _ = Inl (contract_error CONTRACT_VIOLATION)"

definition plan_created :: "task_fold \<Rightarrow> event \<Rightarrow> py_error + task_fold" where
  "plan_created s e =
     sbind (event_string e ''plan_ref'') (\<lambda>plan_ref.
     sbind (case dict_get (ev_payload e) ''step_refs'' of
              None \<Rightarrow> Inr []
            | Some (JList xs) \<Rightarrow> Inr xs
            | Some (JTuple xs) \<Rightarrow> Inr xs
            | Some _ \<Rightarrow> Inl (contract_error CONTRACT_VIOLATION)) (\<lambda>raw_step_refs.
     sbind (smap validated_step_id raw_step_refs) (\<lambda>step_ids.
     Inr (s\<lparr>tf_plan_ref := Some plan_ref, tf_step_ids := step_ids\<rparr>))))"

definition task_output_attached :: "string \<Rightarrow> task_fold \<Rightarrow> event \<Rightarrow> py_error + task_fold" where
  "task_output_attached task_id s e =
     (let belongs = (ev_subject_id e = task_id \<or>
                     dict_get (ev_payload e) ''task_id'' = Some (JStr task_id))
      in if ev_event_type e = ''artifact.attached'' \<and> belongs then
           sbind (event_string e ''artifact_id'') (\<lambda>artifact_id.
           Inr (s\<lparr>tf_artifact_ids := append_new artifact_id (tf_artifact_ids s)\<rparr>))
         else if ev_event_type e = ''result.attached'' \<and> belongs then
           sbind (event_string e ''result_id'') (\<lambda>result_id.
           Inr (s\<lparr>tf_result_ids := append_new result_id (tf_result_ids s)\<rparr>))
         else Inr s)"

definition task_run_created :: "string \<Rightarrow> task_fold \<Rightarrow> event \<Rightarrow> py_error + task_fold" where
  "task_run_created task_id s e =
     (if ev_event_type e = ''run.created''
      then sbind (event_string e ''task_id'') (\<lambda>owning_task_id.
           if owning_task_id = task_id
           then Inr (s\<lparr>tf_run_ids := append_new (ev_subject_id e) (tf_run_ids s)\<rparr>)
           else task_output_attached task_id s e)
      else task_output_attached task_id s e)"

definition task_step :: "string \<Rightarrow> task_fold \<Rightarrow> event \<Rightarrow> py_error + task_fold" where
  "task_step task_id s e =
     (if ev_correlation_id e \<noteq> task_id then Inl (contract_error CONTRACT_VIOLATION)
      else if ev_event_type e = ''task.created'' \<and> ev_subject_id e = task_id
      then task_created task_id s e
      else case tf_task s of
        None \<Rightarrow> Inr s
      | Some t \<Rightarrow>
          if ev_event_type e = ''task.updated'' \<and> ev_subject_id e = task_id
          then sbind (task_updated t e) (\<lambda>t'. Inr (s\<lparr>tf_task := Some t'\<rparr>))
          else if ev_event_type e = ''task.project_reassigned'' \<and> ev_subject_id e = task_id
          then sbind (task_project_reassigned t e) (\<lambda>t'. Inr (s\<lparr>tf_task := Some t'\<rparr>))
          else case dict_get TASK_EVENT_STATUS (ev_event_type e) of
            Some target \<Rightarrow>
              if ev_subject_id e = task_id then task_status_event s t target e
              else task_run_created task_id s e
          | None \<Rightarrow>
              if ev_event_type e = ''plan.created'' \<and> ev_subject_id e = task_id
              then plan_created s e
              else task_run_created task_id s e)"

definition task_state_of :: "nat \<Rightarrow> task_fold \<Rightarrow> py_error + task_state" where
  "task_state_of n s =
     (case tf_task s of
        None \<Rightarrow> Inl (contract_error NOT_FOUND)
      | Some t \<Rightarrow> Inr \<lparr>ts_task = t, ts_revision = n, ts_plan_ref = tf_plan_ref s,
          ts_step_ids = tf_step_ids s, ts_run_ids = tf_run_ids s,
          ts_artifact_ids = tf_artifact_ids s, ts_result_ids = tf_result_ids s,
          ts_wait_reason = tf_wait_reason s, ts_blocked = tf_blocked s\<rparr>)"

definition reduce_task :: "event list \<Rightarrow> string \<Rightarrow> py_error + task_state" where
  "reduce_task events task_id =
     sbind (sfold (task_step task_id) task_fold_init events) (task_state_of (length events))"

section \<open>The run reducer\<close>

record run_fold =
  rf_run :: "run option"
  rf_backend_ref :: "string option"
  rf_output :: "json dict"
  rf_artifact_ids :: "string list"
  rf_result_ids :: "string list"
  rf_dispatch_attempts :: nat
  rf_recovery_required :: bool
  rf_recovery_reason :: "string option"

definition run_fold_init :: run_fold where
  "run_fold_init = \<lparr>rf_run = None, rf_backend_ref = None, rf_output = [], rf_artifact_ids = [],
     rf_result_ids = [], rf_dispatch_attempts = 0, rf_recovery_required = False,
     rf_recovery_reason = None\<rparr>"

definition run_created :: "string \<Rightarrow> run_fold \<Rightarrow> event \<Rightarrow> py_error + run_fold" where
  "run_created run_id s e =
     sbind (guard (rf_run s = None) (contract_error CONFLICT)) (\<lambda>_.
     sbind (event_string e ''owner_type'') (\<lambda>owner_type.
     sbind (event_string e ''owner_id'') (\<lambda>owner_id.
     sbind (event_string e ''subject_type'') (\<lambda>subject_type.
     sbind (guard (subject_type \<in> {''task'', ''step''}) (contract_error CONTRACT_VIOLATION)) (\<lambda>_.
     sbind (event_string e ''subject_id'') (\<lambda>subject_id.
     sbind (event_integer e ''attempt'') (\<lambda>attempt.
     sbind (run_post_init
        \<lparr>r_subject_type = subject_type, r_subject_id = subject_id,
         r_owner_ref = \<lparr>ow_type = owner_type, ow_id = owner_id\<rparr>,
         r_correlation_id = ev_correlation_id e, r_id = run_id, r_attempt = attempt,
         r_status = R_QUEUED, r_project_id = ev_project_id e,
         r_causation_id = ev_causation_id e, r_trace_id = None, r_worker_id = None,
         r_created_at = ev_occurred_at e, r_updated_at = ev_occurred_at e,
         r_started_at = None, r_finished_at = None, r_schema_version = SCHEMA_VERSION,
         r_provenance = Some (event_provenance e), r_external_refs = [], r_metadata = []\<rparr>) (\<lambda>r.
     Inr (s\<lparr>rf_run := Some r\<rparr>)))))))))"

definition run_status_event :: "run_fold \<Rightarrow> run \<Rightarrow> run_status \<Rightarrow> event \<Rightarrow> py_error + run_fold" where
  "run_status_event s r target e =
     sbind (transition_run r target e) (\<lambda>r'.
     sbind (if ev_event_type e = ''run.running''
            then sbind (event_optional_string e ''backend_ref'') (\<lambda>ref.
                 Inr (case ref of None \<Rightarrow> rf_backend_ref s
                      | Some x \<Rightarrow> if x = [] then rf_backend_ref s else Some x))
            else Inr (rf_backend_ref s)) (\<lambda>backend_ref.
     Inr (s\<lparr>rf_run := Some r', rf_backend_ref := backend_ref,
       rf_output := (case dict_get (ev_payload e) ''output'' of
                       Some (JObj kvs) \<Rightarrow> kvs | _ \<Rightarrow> rf_output s),
       rf_recovery_required :=
         (if target \<in> {R_SUCCEEDED, R_FAILED, R_CANCELLED, R_TIMED_OUT} then False
          else rf_recovery_required s),
       rf_recovery_reason :=
         (if target \<in> {R_SUCCEEDED, R_FAILED, R_CANCELLED, R_TIMED_OUT} then None
          else rf_recovery_reason s)\<rparr>)))"

definition run_output_attached :: "run_fold \<Rightarrow> event \<Rightarrow> py_error + run_fold" where
  "run_output_attached s e =
     (if ev_event_type e = ''artifact.attached'' then
        sbind (event_string e ''artifact_id'') (\<lambda>artifact_id.
        Inr (s\<lparr>rf_artifact_ids := append_new artifact_id (rf_artifact_ids s)\<rparr>))
      else if ev_event_type e = ''result.attached'' then
        sbind (event_string e ''result_id'') (\<lambda>result_id.
        Inr (s\<lparr>rf_result_ids := append_new result_id (rf_result_ids s)\<rparr>))
      else Inr s)"

definition run_step :: "string \<Rightarrow> run_fold \<Rightarrow> event \<Rightarrow> py_error + run_fold" where
  "run_step run_id s e =
     (if ev_subject_type e \<noteq> ''run'' \<or> ev_subject_id e \<noteq> run_id then Inr s
      else if ev_event_type e = ''run.created'' then run_created run_id s e
      else case rf_run s of
        None \<Rightarrow> Inr s
      | Some r \<Rightarrow>
          if ev_event_type e = ''run.dispatch_attempted''
          then Inr (s\<lparr>rf_dispatch_attempts := rf_dispatch_attempts s + 1\<rparr>)
          else if ev_event_type e = ''run.recovery_required''
          then sbind (event_optional_string e ''reason'') (\<lambda>reason.
               Inr (s\<lparr>rf_recovery_required := True, rf_recovery_reason := reason\<rparr>))
          else if ev_event_type e = ''run.recovery_cleared''
          then Inr (s\<lparr>rf_recovery_required := False, rf_recovery_reason := None\<rparr>)
          else case dict_get RUN_EVENT_STATUS (ev_event_type e) of
            Some target \<Rightarrow> run_status_event s r target e
          | None \<Rightarrow> run_output_attached s e)"

definition run_state_of :: "nat \<Rightarrow> run_fold \<Rightarrow> py_error + run_state" where
  "run_state_of n s =
     (case rf_run s of
        None \<Rightarrow> Inl (contract_error NOT_FOUND)
      | Some r \<Rightarrow> Inr \<lparr>rs_run = r, rs_revision = n, rs_backend_ref = rf_backend_ref s,
          rs_output = rf_output s, rs_artifact_ids = rf_artifact_ids s,
          rs_result_ids = rf_result_ids s, rs_dispatch_attempts = rf_dispatch_attempts s,
          rs_recovery_required = rf_recovery_required s,
          rs_recovery_reason = rf_recovery_reason s\<rparr>)"

definition reduce_run :: "event list \<Rightarrow> string \<Rightarrow> py_error + run_state" where
  "reduce_run events run_id =
     sbind (sfold (run_step run_id) run_fold_init events) (run_state_of (length events))"

end
