(* ===== verification/Kernel_History.thy ===== *)
theory Kernel_History
  imports Kernel_State
begin

text \<open>
  The lifecycle that an event history describes. \<open>lifecycle_step\<close> is the abstract specification of
  how a task and its runs may evolve, \<open>lifecycle_ok\<close> the invariant it keeps, and \<open>view\<close> reads the
  abstract state off a history through the reducers. Each kind of event the kernel appends is
  shown to refine one abstract step; a history is \<open>stream_ok\<close> when it replays to a state with
  the invariant.
\<close>

section \<open>Abstract lifecycle\<close>

record lifecycle =
  lc_task :: task
  lc_run_ids :: "string list"
  lc_run :: "string \<Rightarrow> run option"

definition active_in :: "lifecycle \<Rightarrow> string \<Rightarrow> run \<Rightarrow> bool" where
  "active_in L rid r \<longleftrightarrow> lc_run L rid = Some r \<and> r_status r \<notin> TERMINAL_RUN_STATUSES"

definition idle :: "lifecycle \<Rightarrow> bool" where
  "idle L \<longleftrightarrow> (\<forall>rid r. \<not> active_in L rid r)"

definition CLOSED_TASK_STATUSES :: "task_status set" where
  "CLOSED_TASK_STATUSES = {T_DRAFT, T_SUCCEEDED, T_FAILED, T_CANCELLED}"

definition owned :: "task \<Rightarrow> bool" where
  "owned t \<longleftrightarrow> ow_type (t_owner_ref t) \<noteq> [] \<and> ow_id (t_owner_ref t) \<noteq> []"

definition same_subject :: "run \<Rightarrow> run \<Rightarrow> bool" where
  "same_subject r r' \<longleftrightarrow> r_subject_type r = r_subject_type r' \<and> r_subject_id r = r_subject_id r'"

definition same_task :: "task \<Rightarrow> task \<Rightarrow> bool" where
  "same_task t t' \<longleftrightarrow> t_id t' = t_id t \<and> t_owner_ref t' = t_owner_ref t"

definition same_run :: "run \<Rightarrow> run \<Rightarrow> bool" where
  "same_run r r' \<longleftrightarrow> r_id r' = r_id r \<and> r_subject_type r' = r_subject_type r \<and>
     r_subject_id r' = r_subject_id r \<and> r_correlation_id r' = r_correlation_id r \<and>
     r_attempt r' = r_attempt r \<and> r_owner_ref r' = r_owner_ref r"

definition run_of_task :: "string \<Rightarrow> string \<Rightarrow> run \<Rightarrow> bool" where
  "run_of_task tid rid r \<longleftrightarrow> run_wf r \<and> r_id r = rid \<and> r_correlation_id r = tid \<and>
     (r_subject_type r = ''task'' \<and> r_subject_id r = tid \<or> r_subject_type r = ''step'')"

text \<open>The invariant: entities are valid; no two active runs share a subject or mix the task with
its steps; a task that is closed has no active run; the attempts of a subject are numbered from
one without gaps or repetitions, and only the newest can be active.\<close>

definition runs_exclusive :: "lifecycle \<Rightarrow> bool" where
  "runs_exclusive L \<longleftrightarrow> (\<forall>i r j s. active_in L i r \<longrightarrow> active_in L j s \<longrightarrow> i \<noteq> j \<longrightarrow>
     r_subject_type r = r_subject_type s \<and> r_subject_id r \<noteq> r_subject_id s)"

definition attempts_numbered :: "lifecycle \<Rightarrow> bool" where
  "attempts_numbered L \<longleftrightarrow>
     (\<forall>i r j s. lc_run L i = Some r \<longrightarrow> lc_run L j = Some s \<longrightarrow> i \<noteq> j \<longrightarrow> same_subject r s \<longrightarrow>
        r_attempt r \<noteq> r_attempt s) \<and>
     (\<forall>i r. lc_run L i = Some r \<longrightarrow> 1 < r_attempt r \<longrightarrow>
        (\<exists>j s. lc_run L j = Some s \<and> same_subject r s \<and> r_attempt s = r_attempt r - 1)) \<and>
     (\<forall>i r j s. active_in L i r \<longrightarrow> lc_run L j = Some s \<longrightarrow> same_subject r s \<longrightarrow>
        r_attempt s \<le> r_attempt r)"

definition entities_ok :: "string \<Rightarrow> lifecycle \<Rightarrow> bool" where
  "entities_ok tid L \<longleftrightarrow> task_wf (lc_task L) \<and> t_id (lc_task L) = tid \<and> owned (lc_task L) \<and>
     (\<forall>rid \<in> set (lc_run_ids L). lc_run L rid \<noteq> None) \<and>
     (\<forall>rid r. lc_run L rid = Some r \<longrightarrow> rid \<in> set (lc_run_ids L) \<and> run_of_task tid rid r)"

definition lifecycle_ok :: "string \<Rightarrow> lifecycle \<Rightarrow> bool" where
  "lifecycle_ok tid L \<longleftrightarrow> entities_ok tid L \<and> runs_exclusive L \<and> attempts_numbered L \<and>
     (t_status (lc_task L) \<in> CLOSED_TASK_STATUSES \<longrightarrow> idle L)"

definition next_attempt_of :: "lifecycle \<Rightarrow> run \<Rightarrow> bool" where
  "next_attempt_of L r \<longleftrightarrow>
     (\<forall>j s. lc_run L j = Some s \<longrightarrow> same_subject r s \<longrightarrow> r_attempt s < r_attempt r) \<and>
     (1 < r_attempt r \<longrightarrow>
        (\<exists>j s. lc_run L j = Some s \<and> same_subject r s \<and> r_attempt s = r_attempt r - 1))"

inductive lifecycle_step :: "string \<Rightarrow> lifecycle \<Rightarrow> lifecycle \<Rightarrow> bool" for tid where
  keep: "lifecycle_step tid L L"
| task_move: "task_wf t' \<Longrightarrow> same_task (lc_task L) t' \<Longrightarrow>
     t_status t' = t_status (lc_task L) \<or> t_status t' \<in> TASK_TRANSITIONS (t_status (lc_task L)) \<Longrightarrow>
     (t_status t' \<in> CLOSED_TASK_STATUSES \<Longrightarrow> t_status t' \<noteq> t_status (lc_task L) \<Longrightarrow> idle L) \<Longrightarrow>
     lifecycle_step tid L (L\<lparr>lc_task := t'\<rparr>)"
| run_move: "lc_run L rid = Some r \<Longrightarrow> run_wf r' \<Longrightarrow> same_run r r' \<Longrightarrow>
     r_status r' = r_status r \<or> r_status r' \<in> RUN_TRANSITIONS (r_status r) \<Longrightarrow>
     lifecycle_step tid L (L\<lparr>lc_run := (lc_run L)(rid \<mapsto> r')\<rparr>)"
| new_run: "rid \<notin> set (lc_run_ids L) \<Longrightarrow> run_of_task tid rid r \<Longrightarrow> r_status r = R_QUEUED \<Longrightarrow>
     t_status (lc_task L) \<notin> CLOSED_TASK_STATUSES \<Longrightarrow> next_attempt_of L r \<Longrightarrow>
     (\<And>j s. active_in L j s \<Longrightarrow>
        r_subject_type s = r_subject_type r \<and> r_subject_id s \<noteq> r_subject_id r) \<Longrightarrow>
     lifecycle_step tid L
       (L\<lparr>lc_run_ids := lc_run_ids L @ [rid], lc_run := (lc_run L)(rid \<mapsto> r)\<rparr>)"

inductive_cases lifecycle_stepE: "lifecycle_step tid L L'"

lemma terminal_final: "r \<in> TERMINAL_RUN_STATUSES \<Longrightarrow> RUN_TRANSITIONS r = {}"
  by (auto simp: TERMINAL_RUN_STATUSES_def)

lemma active_task_update [simp]: "active_in (L\<lparr>lc_task := t\<rparr>) i r = active_in L i r"
  by (simp add: active_in_def)

lemma idle_task_update [simp]: "idle (L\<lparr>lc_task := t\<rparr>) = idle L"
  by (simp add: idle_def)

lemma exclusive_task_update [simp]: "runs_exclusive (L\<lparr>lc_task := t\<rparr>) = runs_exclusive L"
  by (simp add: runs_exclusive_def)

lemma attempts_task_update [simp]: "attempts_numbered (L\<lparr>lc_task := t\<rparr>) = attempts_numbered L"
  by (simp add: attempts_numbered_def)

lemma task_move_ok:
  assumes "lifecycle_ok tid L" "task_wf t'" "same_task (lc_task L) t'"
    "t_status t' \<in> CLOSED_TASK_STATUSES \<Longrightarrow> idle L"
  shows "lifecycle_ok tid (L\<lparr>lc_task := t'\<rparr>)"
  using assms by (simp add: lifecycle_ok_def entities_ok_def same_task_def owned_def)

lemma same_run_subject:
  "same_run r r' \<Longrightarrow> same_subject r' s = same_subject r s"
  "same_run r r' \<Longrightarrow> same_subject s r' = same_subject s r"
  by (auto simp: same_run_def same_subject_def)

lemma run_move_active:
  assumes "lc_run L rid = Some r" "r_status r' = r_status r \<or> r_status r' \<in> RUN_TRANSITIONS (r_status r)"
    "active_in (L\<lparr>lc_run := (lc_run L)(rid \<mapsto> r')\<rparr>) i s"
  shows "i = rid \<and> s = r' \<and> active_in L rid r \<or> i \<noteq> rid \<and> active_in L i s"
  using assms terminal_final[of "r_status r"]
  by (auto simp: active_in_def split: if_splits)

lemma attempts_distinct:
  "attempts_numbered L \<Longrightarrow> lc_run L i = Some r \<Longrightarrow> lc_run L j = Some s \<Longrightarrow> i \<noteq> j \<Longrightarrow>
   same_subject r s \<Longrightarrow> r_attempt r \<noteq> r_attempt s"
  unfolding attempts_numbered_def by blast

lemma attempts_gapless:
  "attempts_numbered L \<Longrightarrow> lc_run L i = Some r \<Longrightarrow> 1 < r_attempt r \<Longrightarrow>
   \<exists>j s. lc_run L j = Some s \<and> same_subject r s \<and> r_attempt s = r_attempt r - 1"
  unfolding attempts_numbered_def by blast

lemma attempts_newest:
  "attempts_numbered L \<Longrightarrow> active_in L i r \<Longrightarrow> lc_run L j = Some s \<Longrightarrow> same_subject r s \<Longrightarrow>
   r_attempt s \<le> r_attempt r"
  unfolding attempts_numbered_def by blast

lemma runs_exclusiveD:
  "runs_exclusive L \<Longrightarrow> active_in L i r \<Longrightarrow> active_in L j s \<Longrightarrow> i \<noteq> j \<Longrightarrow>
   r_subject_type r = r_subject_type s \<and> r_subject_id r \<noteq> r_subject_id s"
  unfolding runs_exclusive_def by blast

lemma run_move_attempts:
  assumes ok: "attempts_numbered L" and r: "lc_run L rid = Some r" and same: "same_run r r'"
    and st: "r_status r' = r_status r \<or> r_status r' \<in> RUN_TRANSITIONS (r_status r)"
  shows "attempts_numbered (L\<lparr>lc_run := (lc_run L)(rid \<mapsto> r')\<rparr>)"
proof -
  let ?L = "L\<lparr>lc_run := (lc_run L)(rid \<mapsto> r')\<rparr>"
  have att: "r_attempt r' = r_attempt r" using same by (simp add: same_run_def)
  define old where "old i s = (if i = rid then r else s)" for i :: string and s
  have old: "lc_run L i = Some (old i s)" "r_attempt (old i s) = r_attempt s"
    "same_subject (old i s) = same_subject s" "\<And>x. same_subject x (old i s) = same_subject x s"
    if "lc_run ?L i = Some s" for i s
    using that r att same_run_subject[OF same] by (auto simp: old_def split: if_splits)
  have new: "\<exists>s'. lc_run ?L i = Some s' \<and> r_attempt s' = r_attempt s \<and>
      (\<forall>x. same_subject x s' = same_subject x s)" if "lc_run L i = Some s" for i s
    using that r att same_run_subject(2)[OF same] by (cases "i = rid") auto
  have act: "active_in L i (old i s)" if "active_in ?L i s" for i s
    using run_move_active[OF r st that] by (auto simp: old_def)
  show ?thesis
    unfolding attempts_numbered_def
  proof (intro conjI allI impI)
    fix i s j s' assume *: "lc_run ?L i = Some s" "lc_run ?L j = Some s'" "i \<noteq> j" "same_subject s s'"
    then have "same_subject (old i s) (old j s')" using old(3)[OF *(1)] old(4)[OF *(2)] by simp
    then show "r_attempt s \<noteq> r_attempt s'"
      using attempts_distinct[OF ok old(1)[OF *(1)] old(1)[OF *(2)] *(3)] old(2) * by simp
  next
    fix i s assume *: "lc_run ?L i = Some s" "1 < r_attempt s"
    then obtain j s' where "lc_run L j = Some s'" "same_subject s s'" "r_attempt s' = r_attempt s - 1"
      using attempts_gapless[OF ok old(1)[OF *(1)]] old(2,3)[OF *(1)] by auto
    then show "\<exists>j s'. lc_run ?L j = Some s' \<and> same_subject s s' \<and> r_attempt s' = r_attempt s - 1"
      using new by metis
  next
    fix i s j s' assume *: "active_in ?L i s" "lc_run ?L j = Some s'" "same_subject s s'"
    have i: "lc_run ?L i = Some s" using *(1) by (simp add: active_in_def)
    have "same_subject (old i s) (old j s')" using old(3)[OF i] old(4)[OF *(2)] *(3) by simp
    then show "r_attempt s' \<le> r_attempt s"
      using attempts_newest[OF ok act[OF *(1)] old(1)[OF *(2)]] old(2)[OF i] old(2)[OF *(2)] by simp
  qed
qed

lemma run_move_ok:
  assumes ok: "lifecycle_ok tid L" and r: "lc_run L rid = Some r" and r': "run_wf r'" "same_run r r'"
    and st: "r_status r' = r_status r \<or> r_status r' \<in> RUN_TRANSITIONS (r_status r)"
  shows "lifecycle_ok tid (L\<lparr>lc_run := (lc_run L)(rid \<mapsto> r')\<rparr>)"
proof -
  let ?L = "L\<lparr>lc_run := (lc_run L)(rid \<mapsto> r')\<rparr>"
  note act = run_move_active[OF r st]
  have "entities_ok tid ?L"
    using ok r r' by (auto simp: lifecycle_ok_def entities_ok_def run_of_task_def same_run_def)
  moreover have "runs_exclusive ?L"
    unfolding runs_exclusive_def
  proof (intro allI impI)
    fix i a j b assume *: "active_in ?L i a" "active_in ?L j b" "i \<noteq> j"
    have "active_in L i (if i = rid then r else a)" "active_in L j (if j = rid then r else b)"
      using act[OF *(1)] act[OF *(2)] by auto
    from runs_exclusiveD[OF _ this *(3)] ok act[OF *(1)] act[OF *(2)] r'(2) *(3)
    show "r_subject_type a = r_subject_type b \<and> r_subject_id a \<noteq> r_subject_id b"
      by (auto simp: lifecycle_ok_def same_run_def split: if_splits)
  qed
  moreover have "attempts_numbered ?L"
    using ok r r' st by (auto simp: lifecycle_ok_def intro: run_move_attempts)
  moreover have "idle ?L" if "idle L"
    using act that unfolding idle_def by blast
  ultimately show ?thesis using ok by (auto simp: lifecycle_ok_def)
qed

lemma new_run_attempts:
  assumes old: "attempts_numbered L" and none: "lc_run L rid = None" and nxt: "next_attempt_of L r"
    and noact: "\<And>j s. same_subject s r \<Longrightarrow> \<not> active_in L j s"
  shows "attempts_numbered (L\<lparr>lc_run_ids := ids, lc_run := (lc_run L)(rid \<mapsto> r)\<rparr>)"
proof -
  let ?L = "L\<lparr>lc_run_ids := ids, lc_run := (lc_run L)(rid \<mapsto> r)\<rparr>"
  have sym: "same_subject s r = same_subject r s" for s by (auto simp: same_subject_def)
  have below: "r_attempt s < r_attempt r" if "lc_run L j = Some s" "same_subject r s" for j s
    using nxt that by (auto simp: next_attempt_of_def)
  show ?thesis
    unfolding attempts_numbered_def
  proof (intro conjI allI impI)
    fix i a j b assume *: "lc_run ?L i = Some a" "lc_run ?L j = Some b" "i \<noteq> j" "same_subject a b"
    show "r_attempt a \<noteq> r_attempt b"
    proof (cases "i = rid \<or> j = rid")
      case True
      then show ?thesis using below[of j b] below[of i a] sym[of a] * by auto
    next
      case False
      then show ?thesis using attempts_distinct[OF old _ _ *(3,4)] * by simp
    qed
  next
    fix i a assume *: "lc_run ?L i = Some a" "1 < r_attempt a"
    then have "\<exists>j s. lc_run L j = Some s \<and> same_subject a s \<and> r_attempt s = r_attempt a - 1"
      using attempts_gapless[OF old, of i a] nxt
      by (auto simp: next_attempt_of_def split: if_splits)
    then obtain j s where js: "lc_run L j = Some s" "same_subject a s" "r_attempt s = r_attempt a - 1"
      by blast
    then have "lc_run ?L j = Some s" using none by auto
    with js show "\<exists>j s. lc_run ?L j = Some s \<and> same_subject a s \<and> r_attempt s = r_attempt a - 1"
      by blast
  next
    fix i a j b assume *: "active_in ?L i a" "lc_run ?L j = Some b" "same_subject a b"
    have "i \<noteq> rid \<Longrightarrow> active_in L i a" using *(1) by (auto simp: active_in_def)
    then show "r_attempt b \<le> r_attempt a"
      using attempts_newest[OF old, of i a j b] below[of j b] noact[of a i] *
      by (auto simp: active_in_def split: if_splits)
  qed
qed

lemma new_run_ok:
  assumes ok: "lifecycle_ok tid L" and rid: "rid \<notin> set (lc_run_ids L)" and r: "run_of_task tid rid r"
    and st: "t_status (lc_task L) \<notin> CLOSED_TASK_STATUSES" and nxt: "next_attempt_of L r"
    and excl: "\<And>j s. active_in L j s \<Longrightarrow>
      r_subject_type s = r_subject_type r \<and> r_subject_id s \<noteq> r_subject_id r"
  shows "lifecycle_ok tid (L\<lparr>lc_run_ids := lc_run_ids L @ [rid], lc_run := (lc_run L)(rid \<mapsto> r)\<rparr>)"
proof -
  let ?L = "L\<lparr>lc_run_ids := lc_run_ids L @ [rid], lc_run := (lc_run L)(rid \<mapsto> r)\<rparr>"
  have none: "lc_run L rid = None"
    using ok rid by (cases "lc_run L rid") (auto simp: lifecycle_ok_def entities_ok_def)
  have act: "active_in ?L i s \<longleftrightarrow>
      (if i = rid then s = r \<and> r_status r \<notin> TERMINAL_RUN_STATUSES else active_in L i s)" for i s
    by (auto simp: active_in_def)
  have "entities_ok tid ?L"
    using ok r rid by (auto simp: lifecycle_ok_def entities_ok_def)
  moreover have "runs_exclusive ?L"
    unfolding runs_exclusive_def
  proof (intro allI impI)
    fix i a j b assume *: "active_in ?L i a" "active_in ?L j b" "i \<noteq> j"
    have "runs_exclusive L" using ok by (simp add: lifecycle_ok_def)
    note pair = runs_exclusiveD[OF this _ _ *(3), of a b]
    from * consider "a = r" "active_in L j b" | "b = r" "active_in L i a"
      | "active_in L i a" "active_in L j b" unfolding act by (auto split: if_splits)
    then show "r_subject_type a = r_subject_type b \<and> r_subject_id a \<noteq> r_subject_id b"
      using pair excl[of i a] excl[of j b] by cases auto
  qed
  moreover have "attempts_numbered ?L"
    using new_run_attempts[OF _ none nxt] excl ok by (auto simp: lifecycle_ok_def same_subject_def)
  ultimately show ?thesis
    using ok st by (auto simp: lifecycle_ok_def)
qed

lemma lifecycle_step_ok:
  assumes "lifecycle_step tid L L'" "lifecycle_ok tid L"
  shows "lifecycle_ok tid L'"
  using assms
proof (cases rule: lifecycle_step.cases)
  case (task_move t')
  then have "t_status t' \<in> CLOSED_TASK_STATUSES \<Longrightarrow> idle L"
    using assms(2) by (cases "t_status t' = t_status (lc_task L)") (auto simp: lifecycle_ok_def)
  with task_move assms(2) show ?thesis by (auto intro: task_move_ok)
qed (auto intro: run_move_ok new_run_ok)

end
