(* ===== verification/Kernel_Replay.thy ===== *)
theory Kernel_Replay
  imports Kernel_History
begin

text \<open>
  Replaying a history one event further: how the reducers of \<open>Kernel_State\<close> react to every kind
  of event the kernel appends, each as a step of the abstract lifecycle of \<open>Kernel_History\<close>,
  and what no event can undo (a terminal run, a closed task, a recorded run).
\<close>

section \<open>The lifecycle of a history\<close>

definition task_fold_of :: "string \<Rightarrow> event list \<Rightarrow> py_error + task_fold" where
  "task_fold_of tid evs = sfold (task_step tid) task_fold_init evs"

definition run_fold_of :: "string \<Rightarrow> event list \<Rightarrow> py_error + run_fold" where
  "run_fold_of rid evs = sfold (run_step rid) run_fold_init evs"

definition run_of :: "py_error + run_fold \<Rightarrow> run option" where
  "run_of m = (case m of Inl _ \<Rightarrow> None | Inr f \<Rightarrow> rf_run f)"

definition view :: "string \<Rightarrow> event list \<Rightarrow> lifecycle option" where
  "view tid evs =
     (case task_fold_of tid evs of
        Inl _ \<Rightarrow> None
      | Inr s \<Rightarrow> map_option (\<lambda>t. \<lparr>lc_task = t, lc_run_ids = tf_run_ids s,
                                 lc_run = (\<lambda>rid. run_of (run_fold_of rid evs))\<rparr>) (tf_task s))"

definition run_subjects :: "event list \<Rightarrow> string set" where
  "run_subjects evs = {ev_subject_id e | e. e \<in> set evs \<and> ev_subject_type e = ''run''}"

definition stream_ok :: "string \<Rightarrow> event list \<Rightarrow> bool" where
  "stream_ok tid evs \<longleftrightarrow> evs = [] \<or>
     (\<exists>L. view tid evs = Some L \<and> lifecycle_ok tid L \<and> run_subjects evs \<subseteq> set (lc_run_ids L))"

lemma run_subjects_snoc [simp]:
  "run_subjects (evs @ [e]) =
     (if ev_subject_type e = ''run'' then insert (ev_subject_id e) (run_subjects evs)
      else run_subjects evs)"
  by (auto simp: run_subjects_def)

lemma run_subjects_append: "run_subjects (xs @ ys) = run_subjects xs \<union> run_subjects ys"
  by (auto simp: run_subjects_def)

lemma view_Some:
  "view tid evs = Some L \<longleftrightarrow>
     (\<exists>s. task_fold_of tid evs = Inr s \<and> tf_task s = Some (lc_task L) \<and> tf_run_ids s = lc_run_ids L \<and>
        (\<forall>rid. lc_run L rid = run_of (run_fold_of rid evs)))"
  by (cases L) (auto simp: view_def fun_eq_iff split: sum.splits)

lemma reduce_task_Inr:
  "reduce_task evs tid = Inr ts \<longleftrightarrow>
     (\<exists>s. task_fold_of tid evs = Inr s \<and> task_state_of (length evs) s = Inr ts)"
  by (simp add: reduce_task_def task_fold_of_def sbind_eq_Inr)

lemma reduce_run_Inr:
  "reduce_run evs rid = Inr rs \<longleftrightarrow>
     (\<exists>f. run_fold_of rid evs = Inr f \<and> run_state_of (length evs) f = Inr rs)"
  by (simp add: reduce_run_def run_fold_of_def sbind_eq_Inr)

lemma task_state_of_Inr:
  "task_state_of n s = Inr ts \<Longrightarrow>
     tf_task s = Some (ts_task ts) \<and> tf_run_ids s = ts_run_ids ts \<and> ts_revision ts = n"
  by (auto simp: task_state_of_def split: option.splits)

lemma run_state_of_Inr:
  "run_state_of n f = Inr rs \<Longrightarrow> rf_run f = Some (rs_run rs) \<and> rs_revision rs = n"
  by (auto simp: run_state_of_def split: option.splits)

lemma view_of_reduce_task:
  assumes "reduce_task evs tid = Inr ts"
  shows "\<exists>L. view tid evs = Some L \<and> lc_task L = ts_task ts \<and> lc_run_ids L = ts_run_ids ts"
    and "ts_revision ts = length evs"
  using assms by (auto simp: reduce_task_Inr view_def dest!: task_state_of_Inr)

lemma reduce_task_of_view:
  assumes "view tid evs = Some L"
  shows "\<exists>ts. reduce_task evs tid = Inr ts \<and> ts_task ts = lc_task L \<and> ts_run_ids ts = lc_run_ids L"
  using assms by (auto simp: view_Some reduce_task_Inr task_state_of_def)

lemma reduce_run_of_view:
  assumes "view tid evs = Some L"
  shows "lc_run L rid = Some r \<longleftrightarrow> (\<exists>rs. reduce_run evs rid = Inr rs \<and> rs_run rs = r)"
proof -
  have *: "lc_run L rid = run_of (run_fold_of rid evs)" using assms by (auto simp: view_Some)
  show ?thesis
  proof (cases "run_fold_of rid evs")
    case (Inr f)
    then show ?thesis
      by (cases "rf_run f") (auto simp: * reduce_run_Inr run_of_def run_state_of_def)
  qed (simp add: * reduce_run_Inr run_of_def)
qed

lemma reduce_run_revision: "reduce_run evs rid = Inr rs \<Longrightarrow> rs_revision rs = length evs"
  by (auto simp: reduce_run_Inr dest!: run_state_of_Inr)

lemma stream_ok_reduces:
  assumes "stream_ok tid evs" "evs \<noteq> []"
  obtains L ts where "view tid evs = Some L" "lifecycle_ok tid L" "reduce_task evs tid = Inr ts"
    "ts_task ts = lc_task L" "ts_run_ids ts = lc_run_ids L" "run_subjects evs \<subseteq> set (lc_run_ids L)"
  using assms reduce_task_of_view unfolding stream_ok_def by metis

lemma task_fold_snoc:
  "task_fold_of tid evs = Inr s \<Longrightarrow> task_fold_of tid (evs @ [e]) = task_step tid s e"
  by (simp add: task_fold_of_def sfold_snoc)

lemma run_fold_snoc:
  "run_fold_of rid (evs @ [e]) = sbind (run_fold_of rid evs) (\<lambda>f. run_step rid f e)"
  by (simp add: run_fold_of_def sfold_append) (cases "sfold (run_step rid) run_fold_init evs"; simp add: sbind_def split: sum.splits)

lemma run_step_other [simp]:
  "ev_subject_type e \<noteq> ''run'' \<Longrightarrow> run_step rid f e = Inr f"
  "ev_subject_id e \<noteq> rid \<Longrightarrow> run_step rid f e = Inr f"
  by (simp_all add: run_step_def)

lemma run_fold_other [simp]:
  "ev_subject_type e \<noteq> ''run'' \<Longrightarrow> run_fold_of rid (evs @ [e]) = run_fold_of rid evs"
  "ev_subject_id e \<noteq> rid \<Longrightarrow> run_fold_of rid (evs @ [e]) = run_fold_of rid evs"
  by (cases "run_fold_of rid evs"; simp add: run_fold_snoc)+

lemma run_fold_fresh: "rid \<notin> run_subjects evs \<Longrightarrow> run_fold_of rid evs = Inr run_fold_init"
proof (induction evs rule: rev_induct)
  case Nil
  then show ?case by (simp add: run_fold_of_def)
next
  case (snoc e evs)
  then show ?case by (cases "ev_subject_type e = ''run''") (auto split: if_splits)
qed

section \<open>What each event does\<close>

definition TASK_REDUCER_TYPES :: "string set" where
  "TASK_REDUCER_TYPES = {''task.created'', ''task.updated'', ''task.project_reassigned'',
     ''plan.created'', ''run.created'', ''artifact.attached'', ''result.attached''}"

lemma task_step_inert:
  assumes "ev_correlation_id e = tid" "ev_event_type e \<notin> TASK_REDUCER_TYPES"
    "dict_get TASK_EVENT_STATUS (ev_event_type e) = None"
  shows "task_step tid s e = Inr s"
  using assms
  by (simp add: task_step_def TASK_REDUCER_TYPES_def task_run_created_def task_output_attached_def
      split: option.split)

lemma run_event_not_task:
  assumes "dict_get RUN_EVENT_STATUS ty = Some target"
  shows "ty \<notin> TASK_REDUCER_TYPES" "dict_get TASK_EVENT_STATUS ty = None" "ty \<noteq> ''run.created''"
    "ty \<noteq> ''run.dispatch_attempted''" "ty \<noteq> ''run.recovery_required''" "ty \<noteq> ''run.recovery_cleared''"
  using assms by (auto simp: RUN_EVENT_STATUS_def TASK_REDUCER_TYPES_def TASK_EVENT_STATUS_def
      split: if_splits)

lemma task_event_not_reducer:
  assumes "dict_get TASK_EVENT_STATUS ty = Some target"
  shows "ty \<noteq> ''task.created''" "ty \<noteq> ''task.updated''" "ty \<noteq> ''task.project_reassigned''"
    "ty \<noteq> ''plan.created''" "ty \<noteq> ''run.created''"
  using assms by (auto simp: TASK_EVENT_STATUS_def split: if_splits)

lemma task_post_init_same:
  "task_wf t \<Longrightarrow> task_post_init (t\<lparr>t_status := s, t_updated_at := u, t_causation_id := c, t_provenance := p\<rparr>)
     = Inr (t\<lparr>t_status := s, t_updated_at := u, t_causation_id := c, t_provenance := p\<rparr>)"
  by (rule task_post_init_id) (simp add: task_wf_iff)

lemma transition_task_ok:
  assumes "task_wf t" "t_status t = target \<or> target \<in> TASK_TRANSITIONS (t_status t)"
  shows "\<exists>t'. transition_task t target e = Inr t' \<and> t_status t' = target \<and> task_wf t' \<and> same_task t t' \<and>
     t_project_id t' = t_project_id t"
proof (cases "t_status t = target")
  case False
  with assms have "target \<in> TASK_TRANSITIONS (t_status t)" by simp
  with False assms(1) show ?thesis
    by (auto simp: transition_task_def require_transition_def can_transition_def
        conflict_on_value_error_def task_post_init_same same_task_def task_wf_iff)
qed (use assms in \<open>simp add: transition_task_def same_task_def\<close>)

lemma transition_run_ok:
  assumes "run_wf r" "r_status r = target \<or> target \<in> RUN_TRANSITIONS (r_status r)"
  shows "\<exists>r'. transition_run r target e = Inr r' \<and> r_status r' = target \<and> run_wf r' \<and> same_run r r'"
proof (cases "r_status r = target")
  case False
  with assms have tr: "target \<in> RUN_TRANSITIONS (r_status r)" by simp
  define r' where "r' = r\<lparr>r_status := target, r_updated_at := ev_occurred_at e,
     r_causation_id := ev_causation_id e, r_provenance := Some (event_provenance e),
     r_started_at := (if target = R_RUNNING \<and> r_started_at r = None then Some (ev_occurred_at e)
                      else r_started_at r),
     r_finished_at := (if target \<in> {R_SUCCEEDED, R_FAILED, R_CANCELLED, R_TIMED_OUT}
                       then Some (ev_occurred_at e) else r_finished_at r)\<rparr>"
  have "run_wf r'" using assms(1) by (simp add: run_wf_iff r'_def)
  moreover have "transition_run r target e = run_post_init r'"
    using False tr unfolding transition_run_def r'_def require_transition_def can_transition_def
    by (simp add: conflict_on_value_error_def)
  ultimately show ?thesis
    by (intro exI[of _ r']) (simp add: r'_def same_run_def)
qed (use assms in \<open>simp add: transition_run_def same_run_def\<close>)

lemma view_task_event:
  assumes L: "view tid evs = Some L" and e: "ev_correlation_id e = tid" "ev_subject_type e \<noteq> ''run''"
    and step: "\<And>s. tf_task s = Some (lc_task L) \<Longrightarrow>
      \<exists>s'. task_step tid s e = Inr s' \<and> tf_task s' = Some t' \<and> tf_run_ids s' = tf_run_ids s"
  shows "view tid (evs @ [e]) = Some (L\<lparr>lc_task := t'\<rparr>)"
  using L step e by (fastforce simp: view_Some task_fold_snoc)

lemma view_task_status:
  assumes L: "view tid evs = Some L" and wf: "task_wf (lc_task L)"
    and e: "ev_correlation_id e = tid" "ev_subject_type e \<noteq> ''run''" "ev_subject_id e = tid"
      "dict_get TASK_EVENT_STATUS (ev_event_type e) = Some target"
    and tr: "t_status (lc_task L) = target \<or> target \<in> TASK_TRANSITIONS (t_status (lc_task L))"
    and pay: "target = T_WAITING \<Longrightarrow> \<exists>x. event_optional_string e ''reason'' = Inr x"
  shows "\<exists>t'. view tid (evs @ [e]) = Some (L\<lparr>lc_task := t'\<rparr>) \<and> t_status t' = target \<and> task_wf t' \<and>
    same_task (lc_task L) t' \<and> t_project_id t' = t_project_id (lc_task L)"
proof -
  obtain t' where t': "transition_task (lc_task L) target e = Inr t'" "t_status t' = target"
    "task_wf t'" "same_task (lc_task L) t'" "t_project_id t' = t_project_id (lc_task L)"
    using transition_task_ok[OF wf tr] by blast
  have "\<exists>s'. task_step tid s e = Inr s' \<and> tf_task s' = Some t' \<and> tf_run_ids s' = tf_run_ids s"
    if "tf_task s = Some (lc_task L)" for s
    using that e t'(1) pay task_event_not_reducer[OF e(4)]
    by (cases "target = T_WAITING") (auto simp: task_step_def task_status_event_def)
  from view_task_event[OF L e(1,2) this] t' show ?thesis by blast
qed

lemma view_run_status:
  assumes L: "view tid evs = Some L" and r: "lc_run L rid = Some r" "run_wf r"
    and e: "ev_correlation_id e = tid" "ev_subject_type e = ''run''" "ev_subject_id e = rid"
      "dict_get RUN_EVENT_STATUS (ev_event_type e) = Some target"
    and tr: "r_status r = target \<or> target \<in> RUN_TRANSITIONS (r_status r)"
    and pay: "\<exists>x. event_optional_string e ''backend_ref'' = Inr x"
  shows "\<exists>r'. view tid (evs @ [e]) = Some (L\<lparr>lc_run := (lc_run L)(rid \<mapsto> r')\<rparr>) \<and> r_status r' = target \<and>
    run_wf r' \<and> same_run r r'"
proof -
  obtain r' where r': "transition_run r target e = Inr r'" "r_status r' = target" "run_wf r'" "same_run r r'"
    using transition_run_ok[OF r(2) tr] by blast
  obtain s where s: "task_fold_of tid evs = Inr s" "tf_task s = Some (lc_task L)"
    "tf_run_ids s = lc_run_ids L" "\<And>i. lc_run L i = run_of (run_fold_of i evs)"
    using L by (auto simp: view_Some)
  obtain f where f: "run_fold_of rid evs = Inr f" "rf_run f = Some r"
    using s(4)[of rid] r(1) by (auto simp: run_of_def split: sum.splits)
  have "\<exists>f'. run_step rid f e = Inr f' \<and> rf_run f' = Some r'"
    using e f(2) r'(1) pay run_event_not_task[OF e(4)] by (auto simp: run_step_def run_status_event_def)
  then have "run_of (run_fold_of rid (evs @ [e])) = Some r'"
    using f by (auto simp: run_fold_snoc run_of_def)
  then have "view tid (evs @ [e]) = Some (L\<lparr>lc_run := (lc_run L)(rid \<mapsto> r')\<rparr>)"
    using s e(3) task_step_inert[OF e(1) run_event_not_task(1,2)[OF e(4)], of s]
    by (auto simp: view_Some task_fold_snoc)
  with r' show ?thesis by blast
qed

lemma run_step_keeps_run:
  assumes "ev_event_type e \<noteq> ''run.created''" "dict_get RUN_EVENT_STATUS (ev_event_type e) = None"
    and "ev_event_type e = ''run.recovery_required'' \<Longrightarrow> \<exists>x. event_optional_string e ''reason'' = Inr x"
    and "ev_event_type e = ''artifact.attached'' \<Longrightarrow> \<exists>x. event_string e ''artifact_id'' = Inr x"
    and "ev_event_type e = ''result.attached'' \<Longrightarrow> \<exists>x. event_string e ''result_id'' = Inr x"
  shows "\<exists>f'. run_step rid f e = Inr f' \<and> rf_run f' = rf_run f"
  using assms by (auto simp: run_step_def run_output_attached_def split: option.splits)

lemma view_keep:
  assumes L: "view tid evs = Some L"
    and ts: "\<And>s. tf_task s = Some (lc_task L) \<Longrightarrow>
      \<exists>s'. task_step tid s e = Inr s' \<and> tf_task s' = tf_task s \<and> tf_run_ids s' = tf_run_ids s"
    and rs: "\<And>rid f. \<exists>f'. run_step rid f e = Inr f' \<and> rf_run f' = rf_run f"
  shows "view tid (evs @ [e]) = Some L"
proof -
  have "run_of (run_fold_of rid (evs @ [e])) = run_of (run_fold_of rid evs)" for rid
  proof (cases "run_fold_of rid evs")
    case (Inr f)
    with rs[of rid f] show ?thesis by (auto simp: run_fold_snoc run_of_def)
  qed (simp add: run_fold_snoc run_of_def)
  then show ?thesis using L ts by (fastforce simp: view_Some task_fold_snoc)
qed

lemma run_created_Inr:
  assumes "event_string e ''owner_type'' = Inr ot" "event_string e ''owner_id'' = Inr oi"
    "event_string e ''subject_type'' = Inr st" "event_string e ''subject_id'' = Inr si"
    "event_integer e ''attempt'' = Inr att" "st \<in> {''task'', ''step''}" "1 \<le> att"
    "validate_id rid ''run'' = Inr rid" "validate_subject_id st si = Inr si"
    "validate_optional_id (ev_project_id e) ''project'' = Inr ()" "rf_run f = None"
  shows "\<exists>f' r. run_created rid f e = Inr f' \<and> rf_run f' = Some r \<and> r_id r = rid \<and>
    r_subject_type r = st \<and> r_subject_id r = si \<and> r_attempt r = att \<and> r_status r = R_QUEUED \<and>
    r_correlation_id r = ev_correlation_id e \<and> run_wf r"
  using assms by (auto simp: run_created_def run_post_init_def run_wf_iff)

lemma view_run_created:
  assumes L: "view tid evs = Some L" and fresh: "rid \<notin> run_subjects evs" "rid \<notin> set (lc_run_ids L)"
    and e: "ev_correlation_id e = tid" "ev_subject_type e = ''run''" "ev_subject_id e = rid"
      "ev_event_type e = ''run.created''" "event_string e ''task_id'' = Inr tid"
    and pay: "event_string e ''owner_type'' = Inr ot" "event_string e ''owner_id'' = Inr oi"
    "event_string e ''subject_type'' = Inr st" "event_string e ''subject_id'' = Inr si"
    "event_integer e ''attempt'' = Inr att" "st \<in> {''task'', ''step''}" "1 \<le> att"
    "validate_id rid ''run'' = Inr rid" "validate_subject_id st si = Inr si"
    "validate_optional_id (ev_project_id e) ''project'' = Inr ()"
  shows "\<exists>r. view tid (evs @ [e]) =
      Some (L\<lparr>lc_run_ids := lc_run_ids L @ [rid], lc_run := (lc_run L)(rid \<mapsto> r)\<rparr>) \<and> r_id r = rid \<and>
      r_subject_type r = st \<and> r_subject_id r = si \<and> r_attempt r = att \<and> r_status r = R_QUEUED \<and>
      r_correlation_id r = tid \<and> run_wf r"
proof -
  obtain s where s: "task_fold_of tid evs = Inr s" "tf_task s = Some (lc_task L)"
    "tf_run_ids s = lc_run_ids L" "\<And>i. lc_run L i = run_of (run_fold_of i evs)"
    using L by (auto simp: view_Some)
  have f: "run_fold_of rid evs = Inr run_fold_init" using run_fold_fresh[OF fresh(1)] .
  have "rf_run run_fold_init = None" by (simp add: run_fold_init_def)
  from run_created_Inr[OF pay this]
  obtain f' r where r: "run_created rid run_fold_init e = Inr f'" "rf_run f' = Some r" "r_id r = rid"
    "r_subject_type r = st" "r_subject_id r = si" "r_attempt r = att" "r_status r = R_QUEUED"
    "r_correlation_id r = tid" "run_wf r"
    using e(1) by blast
  have "run_of (run_fold_of rid (evs @ [e])) = Some r"
    using f e r(1,2) by (simp add: run_fold_snoc run_step_def run_of_def)
  moreover have "task_step tid s e = Inr (s\<lparr>tf_run_ids := lc_run_ids L @ [rid]\<rparr>)"
    using e s fresh(2)
    by (simp add: task_step_def task_run_created_def append_new_def TASK_EVENT_STATUS_def)
  ultimately have "view tid (evs @ [e]) =
      Some (L\<lparr>lc_run_ids := lc_run_ids L @ [rid], lc_run := (lc_run L)(rid \<mapsto> r)\<rparr>)"
    using s e(3) by (auto simp: view_Some task_fold_snoc)
  with r show ?thesis by blast
qed

section \<open>Growing a valid history\<close>

lemma stream_ok_snoc:
  assumes ok: "stream_ok tid evs" and L: "view tid evs = Some L" "view tid (evs @ [e]) = Some L'"
    and step: "lifecycle_step tid L L'" and ne: "evs \<noteq> []"
    and subj: "ev_subject_type e = ''run'' \<Longrightarrow> ev_subject_id e \<in> set (lc_run_ids L')"
  shows "stream_ok tid (evs @ [e])"
proof -
  have "lifecycle_ok tid L" "run_subjects evs \<subseteq> set (lc_run_ids L)"
    using ok L(1) ne by (auto simp: stream_ok_def)
  moreover have "set (lc_run_ids L) \<subseteq> set (lc_run_ids L')"
    using step by cases auto
  ultimately show ?thesis
    using L(2) subj lifecycle_step_ok[OF step] by (auto simp: stream_ok_def)
qed

section \<open>What no event can undo\<close>

lemma transition_task_Inr:
  "transition_task t target e = Inr t' \<Longrightarrow>
     t_status t' = target \<and> same_task t t' \<and> (t' = t \<or> target \<in> TASK_TRANSITIONS (t_status t))"
  by (auto simp: transition_task_def require_transition_def can_transition_def guard_def sbind_eq_Inr
      conflict_on_value_error_def task_post_init_def same_task_def split: if_splits)

lemma transition_run_Inr:
  "transition_run r target e = Inr r' \<Longrightarrow>
     r_status r' = target \<and> same_run r r' \<and> (r' = r \<or> target \<in> RUN_TRANSITIONS (r_status r))"
  by (auto simp: transition_run_def require_transition_def can_transition_def guard_def sbind_eq_Inr
      conflict_on_value_error_def run_post_init_def same_run_def split: if_splits)

lemma run_status_event_Inr:
  "run_status_event f r target e = Inr f' \<Longrightarrow> \<exists>r'. transition_run r target e = Inr r' \<and> rf_run f' = Some r'"
  by (auto simp: run_status_event_def sbind_eq_Inr split: if_splits)

lemma run_step_Inr:
  assumes "run_step rid f e = Inr f'" "rf_run f = Some r"
  shows "\<exists>r'. rf_run f' = Some r' \<and> same_run r r' \<and>
     (r' = r \<or> r_status r' \<in> RUN_TRANSITIONS (r_status r))"
proof -
  have "rf_run f' = Some r \<or> (\<exists>target. run_status_event f r target e = Inr f')"
    using assms
    by (auto simp: run_step_def run_created_def run_output_attached_def sbind_eq_Inr
        split: if_splits option.splits)
  moreover have "same_run r r" by (simp add: same_run_def)
  ultimately show ?thesis
    using run_status_event_Inr transition_run_Inr by metis
qed

lemma task_status_event_Inr:
  "task_status_event s t target e = Inr s' \<Longrightarrow>
     \<exists>t'. transition_task t target e = Inr t' \<and> tf_task s' = Some t' \<and> tf_run_ids s' = tf_run_ids s"
  by (auto simp: task_status_event_def sbind_eq_Inr split: if_splits)

lemma task_rewrite_Inr:
  "task_updated t e = Inr t' \<Longrightarrow> same_task t t' \<and> t_status t' = t_status t"
  "task_project_reassigned t e = Inr t' \<Longrightarrow> same_task t t' \<and> t_status t' = t_status t"
  by (auto simp: task_updated_def task_project_reassigned_def sbind_eq_Inr task_post_init_def
      same_task_def split: json.splits option.splits prod.splits)

lemma task_side_Inr:
  "task_output_attached tid s e = Inr s' \<Longrightarrow> tf_task s' = tf_task s \<and> tf_run_ids s' = tf_run_ids s"
  "plan_created s e = Inr s' \<Longrightarrow> tf_task s' = tf_task s \<and> tf_run_ids s' = tf_run_ids s"
  by (auto simp: task_output_attached_def plan_created_def sbind_eq_Inr Let_def split: if_splits)

lemma task_run_created_Inr:
  "task_run_created tid s e = Inr s' \<Longrightarrow>
     tf_task s' = tf_task s \<and> prefix (tf_run_ids s) (tf_run_ids s')"
  by (auto simp: task_run_created_def sbind_eq_Inr append_new_def split: if_splits
      dest: task_side_Inr)

lemma task_step_Inr:
  assumes "task_step tid s e = Inr s'" "tf_task s = Some t"
  shows "\<exists>t'. tf_task s' = Some t' \<and> same_task t t' \<and>
     (t_status t' = t_status t \<or> t_status t' \<in> TASK_TRANSITIONS (t_status t)) \<and>
     prefix (tf_run_ids s) (tf_run_ids s')"
proof -
  have refl: "same_task t t" by (simp add: same_task_def)
  consider "\<exists>t'. (task_updated t e = Inr t' \<or> task_project_reassigned t e = Inr t') \<and> s' = s\<lparr>tf_task := Some t'\<rparr>"
    | "\<exists>target. task_status_event s t target e = Inr s'"
    | "plan_created s e = Inr s'" | "task_run_created tid s e = Inr s'"
    using assms
    by (auto simp: task_step_def task_created_def sbind_eq_Inr split: if_splits option.splits)
  then show ?thesis
  proof cases
    case 1
    then show ?thesis using task_rewrite_Inr by auto
  next
    case 2
    then show ?thesis using transition_task_Inr by (fastforce dest: task_status_event_Inr)
  next
    case 3
    then show ?thesis using task_side_Inr(2) assms(2) refl by force
  next
    case 4
    then show ?thesis using task_run_created_Inr assms(2) refl by force
  qed
qed

lemma run_fold_extend:
  assumes "run_fold_of rid evs = Inr f" "run_fold_of rid (evs @ later) = Inr f'"
  shows "sfold (run_step rid) f later = Inr f'"
  using assms by (simp add: run_fold_of_def sfold_append)

lemma task_fold_extend:
  assumes "task_fold_of tid evs = Inr s" "task_fold_of tid (evs @ later) = Inr s'"
  shows "sfold (task_step tid) s later = Inr s'"
  using assms by (simp add: task_fold_of_def sfold_append)

lemma run_extended:
  assumes "sfold (run_step rid) f later = Inr f'" "rf_run f = Some r"
  shows "\<exists>r'. rf_run f' = Some r' \<and> same_run r r' \<and>
    (r_status r \<in> TERMINAL_RUN_STATUSES \<longrightarrow> r' = r)"
proof (rule sfold_invariant[where P = "\<lambda>f. \<exists>r'. rf_run f = Some r' \<and> same_run r r' \<and>
    (r_status r \<in> TERMINAL_RUN_STATUSES \<longrightarrow> r' = r)", OF _ _ assms(1)])
  fix g x g' assume "\<exists>r'. rf_run g = Some r' \<and> same_run r r' \<and> (r_status r \<in> TERMINAL_RUN_STATUSES \<longrightarrow> r' = r)"
    and step: "run_step rid g x = Inr g'"
  then obtain r' where r': "rf_run g = Some r'" "same_run r r'" "r_status r \<in> TERMINAL_RUN_STATUSES \<longrightarrow> r' = r"
    by blast
  from run_step_Inr[OF step r'(1)] obtain r'' where "rf_run g' = Some r''" "same_run r' r''"
    "r'' = r' \<or> r_status r'' \<in> RUN_TRANSITIONS (r_status r')" by blast
  with r' show "\<exists>r'. rf_run g' = Some r' \<and> same_run r r' \<and> (r_status r \<in> TERMINAL_RUN_STATUSES \<longrightarrow> r' = r)"
    using terminal_final[of "r_status r"] by (auto simp: same_run_def)
qed (use assms(2) in \<open>simp add: same_run_def\<close>)

lemma task_extended:
  assumes "sfold (task_step tid) s later = Inr s'" "tf_task s = Some t"
  shows "\<exists>t'. tf_task s' = Some t' \<and> same_task t t' \<and> prefix (tf_run_ids s) (tf_run_ids s') \<and>
    (t_status t \<in> {T_SUCCEEDED, T_CANCELLED} \<longrightarrow> t_status t' = t_status t)"
proof (rule sfold_invariant[where P = "\<lambda>g. \<exists>t'. tf_task g = Some t' \<and> same_task t t' \<and>
    prefix (tf_run_ids s) (tf_run_ids g) \<and>
    (t_status t \<in> {T_SUCCEEDED, T_CANCELLED} \<longrightarrow> t_status t' = t_status t)", OF _ _ assms(1)])
  fix g x g' assume "\<exists>t'. tf_task g = Some t' \<and> same_task t t' \<and> prefix (tf_run_ids s) (tf_run_ids g) \<and>
      (t_status t \<in> {T_SUCCEEDED, T_CANCELLED} \<longrightarrow> t_status t' = t_status t)"
    and step: "task_step tid g x = Inr g'"
  then obtain t' where t': "tf_task g = Some t'" "same_task t t'" "prefix (tf_run_ids s) (tf_run_ids g)"
    "t_status t \<in> {T_SUCCEEDED, T_CANCELLED} \<longrightarrow> t_status t' = t_status t" by blast
  from task_step_Inr[OF step t'(1)] obtain t'' where t'': "tf_task g' = Some t''" "same_task t' t''"
    "t_status t'' = t_status t' \<or> t_status t'' \<in> TASK_TRANSITIONS (t_status t')"
    "prefix (tf_run_ids g) (tf_run_ids g')" by blast
  have "same_task t t''" using t'(2) t''(2) by (simp add: same_task_def)
  moreover have "prefix (tf_run_ids s) (tf_run_ids g')" using t'(3) t''(4) by (rule prefix_order.trans)
  ultimately show "\<exists>t'. tf_task g' = Some t' \<and> same_task t t' \<and> prefix (tf_run_ids s) (tf_run_ids g') \<and>
      (t_status t \<in> {T_SUCCEEDED, T_CANCELLED} \<longrightarrow> t_status t' = t_status t)"
    using t'(4) t''(1,3) by auto
qed (use assms(2) in \<open>simp add: same_task_def\<close>)

end
