(* ===== verification/Event_Repository.thy ===== *)
theory Event_Repository
  imports Kernel_Replay
begin

text \<open>
  The persistence boundary of \<open>kernel/repository.py\<close>: command records, the contract every event
  repository promises (a locale), and the in-memory repository with the proof that it keeps the
  contract. What a client may conclude from the contract is proved once, in the locale.
\<close>

section \<open>Commands and commits\<close>

record command_record =
  cr_scope :: string
  cr_idempotency_key :: string
  cr_operation :: string
  cr_stream_id :: string
  cr_result_id :: string
  cr_event_id :: string

record commit_result =
  cm_applied :: bool
  cm_revision :: nat
  cm_command :: "command_record option"

record mem_repo =
  mr_streams :: "(string \<times> event list) list"
  mr_commands :: "((string \<times> string) \<times> command_record) list"

definition empty_repo :: mem_repo where
  "empty_repo = \<lparr>mr_streams = [], mr_commands = []\<rparr>"

section \<open>The in-memory repository\<close>

definition read_events :: "mem_repo \<Rightarrow> string \<Rightarrow> event list" where
  "read_events r stream_id =
     (case dict_get (mr_streams r) stream_id of None \<Rightarrow> [] | Some evs \<Rightarrow> evs)"

definition revision :: "mem_repo \<Rightarrow> string \<Rightarrow> nat" where
  "revision r stream_id = length (read_events r stream_id)"

definition find_command :: "mem_repo \<Rightarrow> string \<Rightarrow> string \<Rightarrow> command_record option" where
  "find_command r scope idempotency_key = dict_get (mr_commands r) (scope, idempotency_key)"

definition list_stream_ids :: "mem_repo \<Rightarrow> string list" where
  "list_stream_ids r = sort (map fst (mr_streams r))"

definition all_event_ids :: "mem_repo \<Rightarrow> string list" where
  "all_event_ids r = map ev_id (concat (map snd (mr_streams r)))"

fun check_events :: "string \<Rightarrow> string list \<Rightarrow> event list \<Rightarrow> py_error + unit" where
  "check_events stream_id existing [] = Inr ()"
| "check_events stream_id existing (e # es) =
     (if ev_correlation_id e \<noteq> stream_id then Inl (contract_error CONTRACT_VIOLATION)
      else if ev_id e \<in> set existing then Inl (contract_error CONFLICT)
      else check_events stream_id (ev_id e # existing) es)"

definition stale_revision_error :: "int \<Rightarrow> nat \<Rightarrow> py_error" where
  "stale_revision_error expected actual =
     ContractError CONFLICT True
       [(''reason'', JStr ''stale_stream_revision''), (''expected_revision'', JInt expected),
        (''actual_revision'', JInt (int actual))]"

definition commit_append :: "string \<Rightarrow> int \<Rightarrow> event list \<Rightarrow> command_record option \<Rightarrow> mem_repo \<Rightarrow>
    (py_error + commit_result) \<times> mem_repo" where
  "commit_append stream_id expected_revision events command r =
     (let stream = read_events r stream_id;
          r1 = r\<lparr>mr_streams := (case dict_get (mr_streams r) stream_id of
                 None \<Rightarrow> dict_set stream_id [] (mr_streams r) | Some _ \<Rightarrow> mr_streams r)\<rparr>
      in if int (length stream) \<noteq> expected_revision
         then (Inl (stale_revision_error expected_revision (length stream)), r1)
         else case check_events stream_id (all_event_ids r1) events of
           Inl e \<Rightarrow> (Inl e, r1)
         | Inr _ \<Rightarrow>
             (Inr \<lparr>cm_applied = True, cm_revision = length (stream @ events), cm_command = command\<rparr>,
              \<lparr>mr_streams = dict_set stream_id (stream @ events) (mr_streams r1),
               mr_commands = (case command of None \<Rightarrow> mr_commands r1
                 | Some c \<Rightarrow> dict_set (cr_scope c, cr_idempotency_key c) c (mr_commands r1))\<rparr>))"

definition commit :: "string \<Rightarrow> int \<Rightarrow> event list \<Rightarrow> command_record option \<Rightarrow> mem_repo \<Rightarrow>
    (py_error + commit_result) \<times> mem_repo" where
  "commit stream_id expected_revision events command r =
     (if expected_revision < 0 then (Inl ValueError, r)
      else if events = [] then (Inl ValueError, r)
      else case (case command of None \<Rightarrow> None
                 | Some c \<Rightarrow> find_command r (cr_scope c) (cr_idempotency_key c)) of
          Some existing \<Rightarrow>
            (Inr \<lparr>cm_applied = False, cm_revision = length (read_events r (cr_stream_id existing)),
                  cm_command = Some existing\<rparr>, r)
        | None \<Rightarrow> commit_append stream_id expected_revision events command r)"

section \<open>The contract\<close>

text \<open>
  \<open>read\<close> and \<open>find\<close> observe a repository; \<open>ok\<close> is its own invariant and \<open>stored\<close> the form in which
  an event is kept. A commit either applies, exactly at the expected revision, or leaves every
  observation unchanged.
\<close>

locale event_repository =
  fixes read :: "'r \<Rightarrow> string \<Rightarrow> 'e list"
    and find :: "'r \<Rightarrow> string \<Rightarrow> string \<Rightarrow> command_record option"
    and put :: "string \<Rightarrow> int \<Rightarrow> event list \<Rightarrow> command_record option \<Rightarrow> 'r \<Rightarrow>
      (py_error + commit_result) \<times> 'r"
    and ok :: "'r \<Rightarrow> bool"
    and stored :: "event \<Rightarrow> 'e"
  assumes put_ok: "ok r \<Longrightarrow> put sid n es cmd r = (out, r') \<Longrightarrow> ok r'"
    and put_rejected: "ok r \<Longrightarrow> put sid n es cmd r = (Inl e, r') \<Longrightarrow> read r' = read r \<and> find r' = find r"
    and put_duplicate: "ok r \<Longrightarrow> put sid n es cmd r = (Inr res, r') \<Longrightarrow> \<not> cm_applied res \<Longrightarrow>
      read r' = read r \<and> find r' = find r \<and>
      (\<exists>c c'. cmd = Some c \<and> find r (cr_scope c) (cr_idempotency_key c) = Some c' \<and> cm_command res = Some c')"
    and put_applied: "ok r \<Longrightarrow> put sid n es cmd r = (Inr res, r') \<Longrightarrow> cm_applied res \<Longrightarrow>
      n = int (length (read r sid)) \<and> es \<noteq> [] \<and> read r' = (read r)(sid := read r sid @ map stored es) \<and>
      cm_revision res = length (read r' sid) \<and>
      (case cmd of None \<Rightarrow> find r' = find r
       | Some c \<Rightarrow> find r (cr_scope c) (cr_idempotency_key c) = None \<and>
           (\<forall>s k. find r' s k =
              (if s = cr_scope c \<and> k = cr_idempotency_key c then Some c else find r s k)))"
begin

definition grows :: "'r \<Rightarrow> 'r \<Rightarrow> bool" where
  "grows r r' \<longleftrightarrow> (\<forall>sid. prefix (read r sid) (read r' sid)) \<and>
     (\<forall>s k c. find r s k = Some c \<longrightarrow> find r' s k = Some c)"

lemma grows_refl: "grows r r"
  by (simp add: grows_def)

lemma grows_trans: "grows r r' \<Longrightarrow> grows r' r'' \<Longrightarrow> grows r r''"
  unfolding grows_def by (meson prefix_order.trans)

lemma put_grows:
  assumes "ok r" "put sid n es cmd r = (res, r')"
  shows "grows r r'"
proof (cases res)
  case (Inl e)
  then show ?thesis using put_rejected[OF assms(1)] assms(2) by (simp add: grows_def)
next
  case (Inr c)
  show ?thesis
  proof (cases "cm_applied c")
    case True
    from put_applied[OF assms(1) _ this] assms(2) Inr show ?thesis
      by (fastforce simp: grows_def split: option.splits)
  next
    case False
    from put_duplicate[OF assms(1) _ this] assms(2) Inr show ?thesis by (auto simp: grows_def)
  qed
qed

lemma put_unapplied:
  assumes "ok r" "put sid n es cmd r = (res, r')" "\<nexists>c. res = Inr c \<and> cm_applied c"
  shows "read r' = read r \<and> find r' = find r"
proof (cases res)
  case (Inl e)
  with put_rejected[OF assms(1)] assms(2) show ?thesis by blast
next
  case (Inr c)
  with put_duplicate[OF assms(1)] assms(2,3) show ?thesis by blast
qed

lemma put_stale:
  assumes "ok r" "put sid n es cmd r = (Inr res, r')" "n \<noteq> int (length (read r sid))"
  shows "\<not> cm_applied res"
  using put_applied[OF assms(1,2)] assms(3) by blast

lemma one_winner:
  assumes "ok r" "put sid n es cmd r = (Inr res, r')" "cm_applied res"
    and "ok r''" "grows r' r''" "put sid n es' cmd' r'' = (Inr res', r''')"
  shows "\<not> cm_applied res'"
proof -
  from put_applied[OF assms(1,2,3)] have 1: "n < int (length (read r' sid))"
    by (cases es) auto
  moreover have "length (read r' sid) \<le> length (read r'' sid)"
    using assms(5) prefix_length_le by (auto simp: grows_def)
  ultimately show ?thesis using put_stale[OF assms(4,6)] by linarith
qed

lemma command_once:
  assumes "ok r" "put sid n es (Some c) r = (Inr res, r')" "cm_applied res"
    and "ok r''" "grows r' r''" "put sid' n' es' (Some c') r'' = (Inr res', r''')"
    and "cr_scope c' = cr_scope c" "cr_idempotency_key c' = cr_idempotency_key c"
  shows "\<not> cm_applied res' \<and> cm_command res' = Some c \<and> read r''' = read r''"
proof -
  have "find r' (cr_scope c) (cr_idempotency_key c) = Some c"
    using put_applied[OF assms(1,2,3)] by simp
  then have found: "find r'' (cr_scope c') (cr_idempotency_key c') = Some c"
    using assms(5,7,8) by (simp add: grows_def)
  then have no: "\<not> cm_applied res'"
    using put_applied[OF assms(4,6)] by auto
  from put_duplicate[OF assms(4,6) this] found no show ?thesis by auto
qed

end

section \<open>The in-memory repository keeps the contract\<close>

lemma read_dict_set [simp]:
  "read_events \<lparr>mr_streams = dict_set sid evs s, mr_commands = c\<rparr> =
     (read_events \<lparr>mr_streams = s, mr_commands = c\<rparr>)(sid := evs)"
  by (auto simp: read_events_def)

lemma read_setdefault [simp]:
  "read_events (r\<lparr>mr_streams := (case dict_get (mr_streams r) sid of
     None \<Rightarrow> dict_set sid [] (mr_streams r) | Some _ \<Rightarrow> mr_streams r)\<rparr>) = read_events r"
  by (auto simp: read_events_def split: option.splits)

lemma read_streams_only: "read_events (r\<lparr>mr_commands := c\<rparr>) = read_events r"
  by (auto simp: read_events_def)

lemma find_streams_only [simp]: "find_command (r\<lparr>mr_streams := s\<rparr>) = find_command r"
  by (simp add: find_command_def fun_eq_iff)

lemma commit_append_Inl:
  "commit_append sid n es cmd r = (Inl e, r') \<Longrightarrow> read_events r' = read_events r \<and> find_command r' = find_command r"
  by (auto simp: commit_append_def Let_def split: if_splits sum.splits)

lemma commit_append_Inr:
  assumes "commit_append sid n es cmd r = (Inr res, r')"
  shows "cm_applied res" "n = int (length (read_events r sid))"
    "read_events r' = (read_events r)(sid := read_events r sid @ es)"
    "cm_revision res = length (read_events r sid) + length es"
    "find_command r' s k =
       (case cmd of None \<Rightarrow> find_command r s k
        | Some c \<Rightarrow> if s = cr_scope c \<and> k = cr_idempotency_key c then Some c else find_command r s k)"
  using assms
  by (auto simp: commit_append_def Let_def read_events_def find_command_def fun_eq_iff
      split: if_splits sum.splits option.splits)

lemma commit_cases:
  assumes "commit sid n es cmd r = (res, r')"
  obtains "res = Inl ValueError" "r' = r"
  | c c' where "cmd = Some c" "find_command r (cr_scope c) (cr_idempotency_key c) = Some c'"
      "res = Inr \<lparr>cm_applied = False, cm_revision = length (read_events r (cr_stream_id c')),
                  cm_command = Some c'\<rparr>" "r' = r"
  | "commit_append sid n es cmd r = (res, r')" "es \<noteq> []"
      "\<And>c. cmd = Some c \<Longrightarrow> find_command r (cr_scope c) (cr_idempotency_key c) = None"
proof (cases "n < 0 \<or> es = []")
  case True
  then have "commit sid n es cmd r = (Inl ValueError, r)" by (auto simp: commit_def)
  with assms that(1) show ?thesis by simp
next
  case False
  show ?thesis
  proof (cases "case cmd of None \<Rightarrow> None | Some c \<Rightarrow> find_command r (cr_scope c) (cr_idempotency_key c)")
    case None
    with assms False have "commit_append sid n es cmd r = (res, r')" by (simp add: commit_def)
    moreover have "find_command r (cr_scope c) (cr_idempotency_key c) = None" if "cmd = Some c" for c
      using None that by simp
    ultimately show ?thesis using False that(3) by blast
  next
    case (Some c')
    then obtain c where c: "cmd = Some c" "find_command r (cr_scope c) (cr_idempotency_key c) = Some c'"
      by (cases cmd) auto
    have "commit sid n es cmd r = (Inr \<lparr>cm_applied = False,
        cm_revision = length (read_events r (cr_stream_id c')), cm_command = Some c'\<rparr>, r)"
      using False Some by (simp add: commit_def)
    with assms show ?thesis by (intro that(2)[OF c]) auto
  qed
qed

interpretation mem: event_repository read_events find_command commit "\<lambda>_. True" "\<lambda>e. e"
proof (unfold_locales, goal_cases)
  case (2 r sid n es cmd e r')
  from 2(2) show ?case by (cases rule: commit_cases) (auto dest: commit_append_Inl)
next
  case (3 r sid n es cmd res r')
  from 3(2) show ?case
    by (cases rule: commit_cases) (use 3(3) commit_append_Inr(1) in auto)
next
  case (4 r sid n es cmd res r')
  from 4(2) show ?case
  proof (cases rule: commit_cases)
    case 3
    note inr = commit_append_Inr[OF 3(1)]
    show ?thesis
    proof (cases cmd)
      case None
      then show ?thesis using inr 3(2) by (auto simp: fun_eq_iff)
    next
      case (Some c)
      then show ?thesis using inr 3(2,3) by auto
    qed
  qed (use 4(3) in auto)
qed simp

text \<open>The streams hold each event once, in the stream it names.\<close>

definition repo_wf :: "mem_repo \<Rightarrow> bool" where
  "repo_wf r \<longleftrightarrow> distinct (map fst (mr_streams r)) \<and> distinct (all_event_ids r) \<and>
     (\<forall>(sid, evs) \<in> set (mr_streams r). \<forall>e \<in> set evs. ev_correlation_id e = sid)"

lemma check_events_Inr:
  "check_events sid existing es = Inr u \<longleftrightarrow>
     (\<forall>e \<in> set es. ev_correlation_id e = sid) \<and> distinct (map ev_id es) \<and>
     set existing \<inter> set (map ev_id es) = {}"
  by (induction es arbitrary: existing) auto

lemma update_streams:
  assumes "distinct (map fst s)" "dict_get s sid = Some evs"
  obtains pre post where "s = pre @ (sid, evs) # post"
    "dict_set sid evs' s = pre @ (sid, evs') # post"
proof -
  have "(sid, evs) \<in> set s" using assms(2) by (simp add: dict_get_def map_of_SomeD)
  then obtain pre post where s: "s = pre @ (sid, evs) # post" by (meson split_list)
  then have "sid \<notin> fst ` set pre" using assms(1) by auto
  then have "dict_set sid evs' s = pre @ (sid, evs') # post"
    unfolding s dict_set_def by (induction pre) auto
  with s that show ?thesis by blast
qed

lemma dict_set_absent: "k \<notin> fst ` set d \<Longrightarrow> dict_set k v d = d @ [(k, v)]"
  unfolding dict_set_def by (induction d) auto

lemma setdefault_wf:
  assumes "repo_wf r"
  shows "repo_wf (r\<lparr>mr_streams := (case dict_get (mr_streams r) sid of
     None \<Rightarrow> dict_set sid [] (mr_streams r) | Some _ \<Rightarrow> mr_streams r)\<rparr>)"
proof (cases "dict_get (mr_streams r) sid")
  case None
  then have "dict_set sid [] (mr_streams r) = mr_streams r @ [(sid, [])]"
    by (simp add: dict_set_absent dict_get_None_iff)
  moreover have "sid \<notin> fst ` set (mr_streams r)" using None by (simp add: dict_get_None_iff)
  ultimately show ?thesis unfolding None using assms by (auto simp: repo_wf_def all_event_ids_def)
qed (use assms in simp)

lemma commit_append_wf:
  assumes wf: "repo_wf r" and c: "commit_append sid n es cmd r = (res, r')"
  shows "repo_wf r'"
proof -
  define r1 where "r1 = r\<lparr>mr_streams := (case dict_get (mr_streams r) sid of
     None \<Rightarrow> dict_set sid [] (mr_streams r) | Some _ \<Rightarrow> mr_streams r)\<rparr>"
  have wf1: "repo_wf r1" unfolding r1_def by (rule setdefault_wf[OF wf])
  have stream: "dict_get (mr_streams r1) sid = Some (read_events r sid)"
    by (auto simp: r1_def read_events_def split: option.splits)
  obtain pre post where pp: "mr_streams r1 = pre @ (sid, read_events r sid) # post"
    "dict_set sid (read_events r sid @ es) (mr_streams r1) = pre @ (sid, read_events r sid @ es) # post"
    using update_streams[OF _ stream, of "read_events r sid @ es"] wf1
    unfolding repo_wf_def by blast
  have "r' = r1 \<or> check_events sid (all_event_ids r1) es = Inr () \<and>
      mr_streams r' = pre @ (sid, read_events r sid @ es) # post"
    using c pp(2) unfolding commit_append_def Let_def r1_def[symmetric]
    by (auto split: if_splits sum.splits)
  then show ?thesis
  proof
    assume new: "check_events sid (all_event_ids r1) es = Inr () \<and>
      mr_streams r' = pre @ (sid, read_events r sid @ es) # post"
    then have fresh: "\<forall>e \<in> set es. ev_correlation_id e = sid" "distinct (map ev_id es)"
      "set (all_event_ids r1) \<inter> ev_id ` set es = {}"
      by (simp_all add: check_events_Inr)
    have "distinct (all_event_ids r')"
      using wf1 fresh(2,3) unfolding repo_wf_def all_event_ids_def pp(1) conjunct2[OF new]
      by (simp add: Int_Un_distrib Int_Un_distrib2 Int_commute)
    moreover have "distinct (map fst (mr_streams r'))" using wf1 new pp(1) by (simp add: repo_wf_def)
    moreover have "\<forall>(s, evs) \<in> set (mr_streams r'). \<forall>e \<in> set evs. ev_correlation_id e = s"
      using wf1 new pp(1) fresh(1) by (auto simp: repo_wf_def)
    ultimately show ?thesis by (simp add: repo_wf_def)
  qed (use wf1 in simp)
qed

lemma commit_wf: "repo_wf r \<Longrightarrow> commit sid n es cmd r = (res, r') \<Longrightarrow> repo_wf r'"
  by (erule commit_cases) (auto intro: commit_append_wf)

lemma empty_repo_wf: "repo_wf empty_repo"
  by (simp add: repo_wf_def empty_repo_def all_event_ids_def)

interpretation mem_wf: event_repository read_events find_command commit repo_wf "\<lambda>e. e"
proof (unfold_locales, goal_cases)
  case (1 r sid n es cmd out r')
  then show ?case by (rule commit_wf)
next
  case (2 r sid n es cmd e r')
  then show ?case using mem.put_rejected by blast
next
  case (3 r sid n es cmd res r')
  then show ?case using mem.put_duplicate by blast
next
  case (4 r sid n es cmd res r')
  then show ?case using mem.put_applied[OF TrueI] by blast
qed

end
