(* ===== verification/Contracts.thy ===== *)
theory Contracts
  imports Domain_Models
begin

text \<open>
  The provider-neutral value types of \<open>contracts/types.py\<close> that cross the kernel's boundary
  (operation context, planning and execution messages), the other request and response types of
  that file, and the decision of the completion gate (\<open>verification/gate.py\<close>). \<open>X_post_init\<close> is
  the \<open>__post_init__\<close> of a dataclass.
\<close>

section \<open>JSON\<close>

text \<open>\<open>_freeze_json\<close> descends into dicts and lists; a tuple is already immutable and is kept.\<close>

fun freeze_json :: "json \<Rightarrow> json" where
  "freeze_json (JObj kvs) = JObj (map (\<lambda>(k, v). (k, freeze_json v)) kvs)"
| "freeze_json (JList xs) = JTuple (map freeze_json xs)"
| "freeze_json v = v"

fun thaw_json :: "json \<Rightarrow> json" where
  "thaw_json (JObj kvs) = JObj (map (\<lambda>(k, v). (k, thaw_json v)) kvs)"
| "thaw_json (JList xs) = JList (map thaw_json xs)"
| "thaw_json (JTuple xs) = JList (map thaw_json xs)"
| "thaw_json v = v"

fun json_value :: "json \<Rightarrow> bool" where
  \<comment> \<open>the type \<open>JsonValue\<close>: no tuple anywhere\<close>
  "json_value (JObj kvs) = (\<forall>kv \<in> set kvs. json_value (snd kv))"
| "json_value (JList xs) = list_all json_value xs"
| "json_value (JTuple xs) = False"
| "json_value v = True"

section \<open>Operation control\<close>

datatype capability_kind =
    K_ORCHESTRATION | K_EXECUTION | K_MODEL | K_TOOL | K_MEMORY | K_FILE | K_KNOWLEDGE | K_EVENT
  | K_AUTHORIZATION | K_NODE | K_WORKER

datatype health_status = H_UNKNOWN | H_HEALTHY | H_DEGRADED | H_UNAVAILABLE

datatype retry_mode = RETRY_NEVER | RETRY_SAFE | RETRY_IDEMPOTENT

definition CONTRACT_VERSION :: string where
  "CONTRACT_VERSION = ''2.0''"

record operation_control =
  oc_timeout_seconds :: "rat option"
  oc_idempotency_key :: "string option"
  oc_retry_mode :: retry_mode

definition operation_control_post_init :: "operation_control \<Rightarrow> py_error + operation_control" where
  "operation_control_post_init x =
     sbind (guard (\<forall>t \<in> set_option (oc_timeout_seconds x). 0 < t) ValueError) (\<lambda>_.
     sbind (guard (\<forall>k \<in> set_option (oc_idempotency_key x). \<not> py_blank k) ValueError) (\<lambda>_. Inr x))"

record adapter_metadata =
  am_namespace :: string
  am_values :: "json dict"

definition adapter_metadata_post_init :: "adapter_metadata \<Rightarrow> py_error + adapter_metadata" where
  "adapter_metadata_post_init x =
     sbind (guard (\<not> py_blank (am_namespace x) \<and> \<not> list_ex py_isspace (am_namespace x)) ValueError)
       (\<lambda>_. Inr x)"

record provider_capability =
  pc_name :: string
  pc_kind :: capability_kind
  pc_version :: string
  pc_supported_operations :: "string list"
  pc_modalities :: "string list"
  pc_features :: "string list"
  pc_limits :: "json dict"
  pc_attributes :: "json dict"
  pc_adapter_metadata :: "adapter_metadata list"

definition provider_capability_post_init :: "provider_capability \<Rightarrow> py_error + provider_capability" where
  "provider_capability_post_init x =
     sbind (guard (\<not> py_blank (pc_name x)) ValueError) (\<lambda>_.
     sbind (guard (\<not> py_blank (pc_version x)) ValueError) (\<lambda>_. Inr x))"

record provider_descriptor =
  pd_provider_id :: string
  pd_provider_type :: string
  pd_contract_version :: string
  pd_supported_operations :: "string list"
  pd_capabilities :: "provider_capability list"
  pd_health :: health_status
  pd_available :: bool
  pd_limits :: "json dict"
  pd_resources :: "json dict"
  pd_adapter_metadata :: "adapter_metadata list"

definition provider_descriptor_post_init :: "provider_descriptor \<Rightarrow> py_error + provider_descriptor" where
  "provider_descriptor_post_init x =
     sbind (guard (\<not> py_blank (pd_provider_id x)) ValueError) (\<lambda>_.
     sbind (guard (\<not> py_blank (pd_provider_type x)) ValueError) (\<lambda>_.
     sbind (guard (\<not> py_blank (pd_contract_version x)) ValueError) (\<lambda>_. Inr x)))"

record operation_context =
  cx_correlation_id :: string
  cx_causation_id :: "string option"
  cx_owner_type :: "string option"
  cx_owner_id :: "string option"
  cx_project_id :: "string option"
  cx_control :: operation_control

definition operation_context_post_init :: "operation_context \<Rightarrow> py_error + operation_context" where
  "operation_context_post_init x =
     sbind (guard (\<not> py_blank (cx_correlation_id x)) ValueError) (\<lambda>_.
     sbind (guard ((cx_owner_type x = None) = (cx_owner_id x = None)) ValueError) (\<lambda>_.
     sbind (validate_optional_id (cx_project_id x) ''project'') (\<lambda>_. Inr x)))"

section \<open>Planning\<close>

record plan_request =
  pq_task_id :: string
  pq_context :: operation_context
  pq_objective :: string

definition plan_request_post_init :: "plan_request \<Rightarrow> py_error + plan_request" where
  "plan_request_post_init x =
     sbind (validate_id (pq_task_id x) ''task'') (\<lambda>_.
     sbind (guard (\<not> py_blank (pq_objective x)) ValueError) (\<lambda>_. Inr x))"

record plan_step_proposal =
  ps_key :: string
  ps_title :: string
  ps_objective :: string
  ps_depends_on :: "string list"
  ps_metadata :: "json dict"

definition plan_step_proposal_post_init :: "plan_step_proposal \<Rightarrow> py_error + plan_step_proposal" where
  "plan_step_proposal_post_init x =
     sbind (guard (\<not> py_blank (ps_key x)) ValueError) (\<lambda>_.
     sbind (guard (\<not> py_blank (ps_title x)) ValueError) (\<lambda>_.
     sbind (guard (ps_key x \<notin> set (ps_depends_on x)) ValueError) (\<lambda>_. Inr x)))"

record plan_response =
  pr_summary :: string
  pr_steps :: "plan_step_proposal list"
  pr_adapter_metadata :: "adapter_metadata list"

definition plan_response_post_init :: "plan_response \<Rightarrow> py_error + plan_response" where
  "plan_response_post_init x =
     (let keys = map ps_key (pr_steps x)
      in sbind (guard (\<not> py_blank (pr_summary x)) ValueError) (\<lambda>_.
         sbind (guard (distinct keys) ValueError) (\<lambda>_.
         sbind (guard (\<forall>s \<in> set (pr_steps x). set (ps_depends_on s) \<subseteq> set keys) ValueError) (\<lambda>_.
         Inr x))))"

section \<open>Execution\<close>

record execution_request =
  xq_run_id :: string
  xq_subject_type :: string
  xq_subject_id :: string
  xq_context :: operation_context
  xq_input :: "json dict"

definition execution_request_post_init :: "execution_request \<Rightarrow> py_error + execution_request" where
  "execution_request_post_init x =
     sbind (validate_id (xq_run_id x) ''run'') (\<lambda>_.
     sbind (validate_subject_id (xq_subject_type x) (xq_subject_id x)) (\<lambda>_. Inr x))"

record execution_handle =
  xh_run_id :: string
  xh_backend_ref :: "string option"
  xh_adapter_metadata :: "adapter_metadata list"

definition execution_handle_post_init :: "execution_handle \<Rightarrow> py_error + execution_handle" where
  "execution_handle_post_init x = sbind (validate_id (xh_run_id x) ''run'') (\<lambda>_. Inr x)"

record execution_snapshot =
  xs_run_id :: string
  xs_status :: run_status
  xs_output :: "json dict"
  xs_adapter_metadata :: "adapter_metadata list"

definition execution_snapshot_post_init :: "execution_snapshot \<Rightarrow> py_error + execution_snapshot" where
  "execution_snapshot_post_init x = sbind (validate_id (xs_run_id x) ''run'') (\<lambda>_. Inr x)"

section \<open>Models, tools, storage and authorization\<close>

record model_request =
  mq_request_id :: string
  mq_messages :: "string list"
  mq_context :: operation_context
  mq_requirements :: "json dict"

definition model_request_post_init :: "model_request \<Rightarrow> py_error + model_request" where
  "model_request_post_init x =
     sbind (guard (\<not> py_blank (mq_request_id x)) ValueError) (\<lambda>_.
     sbind (guard (mq_messages x \<noteq> []) ValueError) (\<lambda>_. Inr x))"

record model_response =
  mp_request_id :: string
  mp_text :: string
  mp_model_ref :: string
  mp_usage :: "json dict"
  mp_adapter_metadata :: "adapter_metadata list"

definition model_response_post_init :: "model_response \<Rightarrow> py_error + model_response" where
  "model_response_post_init x =
     sbind (guard (\<not> py_blank (mp_request_id x)) ValueError) (\<lambda>_.
     sbind (guard (\<not> py_blank (mp_model_ref x)) ValueError) (\<lambda>_. Inr x))"

record model_selection =
  ms_provider_id :: string
  ms_model_ref :: "string option"
  ms_adapter_metadata :: "adapter_metadata list"

definition model_selection_post_init :: "model_selection \<Rightarrow> py_error + model_selection" where
  "model_selection_post_init x =
     sbind (guard (\<not> py_blank (ms_provider_id x)) ValueError) (\<lambda>_.
     sbind (guard (\<forall>m \<in> set_option (ms_model_ref x). \<not> py_blank m) ValueError) (\<lambda>_. Inr x))"

record provider_tool_invocation =
  pti_invocation_id :: string
  pti_tool_ref :: string
  pti_arguments :: "json dict"
  pti_context :: operation_context
  pti_task_id :: "string option"
  pti_run_id :: "string option"
  pti_agent_id :: "string option"

definition provider_tool_invocation_post_init ::
  "provider_tool_invocation \<Rightarrow> py_error + provider_tool_invocation" where
  "provider_tool_invocation_post_init x =
     sbind (guard (\<not> py_blank (pti_invocation_id x)) ValueError) (\<lambda>_.
     sbind (guard (\<not> py_blank (pti_tool_ref x)) ValueError) (\<lambda>_.
     sbind (validate_optional_id (pti_task_id x) ''task'') (\<lambda>_.
     sbind (validate_optional_id (pti_run_id x) ''run'') (\<lambda>_.
     sbind (validate_optional_id (pti_agent_id x) ''agent'') (\<lambda>_.
     Inr (x\<lparr>pti_arguments := map (\<lambda>(k, v). (k, freeze_json v)) (pti_arguments x)\<rparr>))))))"

definition arguments_json :: "provider_tool_invocation \<Rightarrow> json dict" where
  "arguments_json x = map (\<lambda>(k, v). (k, thaw_json v)) (pti_arguments x)"

record tool_result =
  tr_invocation_id :: string
  tr_output :: json
  tr_adapter_metadata :: "adapter_metadata list"
  tr_result_ref :: "string option"
  tr_artifact_refs :: "string list"
  tr_evidence_refs :: "string list"

definition tool_result_post_init :: "tool_result \<Rightarrow> py_error + tool_result" where
  "tool_result_post_init x =
     sbind (guard (\<not> py_blank (tr_invocation_id x)) ValueError) (\<lambda>_.
     sbind (guard (\<forall>r \<in> set_option (tr_result_ref x). \<not> py_blank r) ValueError) (\<lambda>_.
     sbind (guard (\<not> list_ex py_blank (tr_artifact_refs x)) ValueError) (\<lambda>_.
     sbind (guard (\<not> list_ex py_blank (tr_evidence_refs x)) ValueError) (\<lambda>_. Inr x))))"

record stored_object =
  so_object_ref :: string
  so_metadata :: "json dict"
  so_adapter_metadata :: "adapter_metadata list"

definition stored_object_post_init :: "stored_object \<Rightarrow> py_error + stored_object" where
  "stored_object_post_init x = sbind (guard (\<not> py_blank (so_object_ref x)) ValueError) (\<lambda>_. Inr x)"

record knowledge_hit =
  kh_ref :: string
  kh_content :: string
  kh_score :: "rat option"
  kh_metadata :: "json dict"
  kh_adapter_metadata :: "adapter_metadata list"

definition knowledge_hit_post_init :: "knowledge_hit \<Rightarrow> py_error + knowledge_hit" where
  "knowledge_hit_post_init x = sbind (guard (\<not> py_blank (kh_ref x)) ValueError) (\<lambda>_. Inr x)"

record authorization_request =
  aq_principal_ref :: string
  aq_action :: string
  aq_resource_ref :: string
  aq_context :: operation_context

definition authorization_request_post_init :: "authorization_request \<Rightarrow> py_error + authorization_request" where
  "authorization_request_post_init x =
     sbind (guard (\<not> py_blank (aq_principal_ref x)) ValueError) (\<lambda>_.
     sbind (guard (\<not> py_blank (aq_action x)) ValueError) (\<lambda>_.
     sbind (guard (\<not> py_blank (aq_resource_ref x)) ValueError) (\<lambda>_. Inr x)))"

record node_descriptor =
  nd_node_id :: string
  nd_capabilities :: "provider_capability list"
  nd_metadata :: "json dict"
  nd_adapter_metadata :: "adapter_metadata list"

definition node_descriptor_post_init :: "node_descriptor \<Rightarrow> py_error + node_descriptor" where
  "node_descriptor_post_init x = sbind (validate_id (nd_node_id x) ''node'') (\<lambda>_. Inr x)"

record worker_descriptor =
  wd_worker_id :: string
  wd_node_id :: string
  wd_capabilities :: "provider_capability list"
  wd_available :: bool
  wd_metadata :: "json dict"
  wd_adapter_metadata :: "adapter_metadata list"

definition worker_descriptor_post_init :: "worker_descriptor \<Rightarrow> py_error + worker_descriptor" where
  "worker_descriptor_post_init x =
     sbind (validate_id (wd_worker_id x) ''worker'') (\<lambda>_.
     sbind (validate_id (wd_node_id x) ''node'') (\<lambda>_. Inr x))"

section \<open>The completion gate's decision\<close>

datatype completion_state =
  C_ACCEPTED | C_WAITING | C_REPAIR_REQUIRED | C_REJECTED | C_ESCALATED

fun completion_state_value :: "completion_state \<Rightarrow> string" where
  "completion_state_value C_ACCEPTED = ''accepted''"
| "completion_state_value C_WAITING = ''waiting''"
| "completion_state_value C_REPAIR_REQUIRED = ''repair_required''"
| "completion_state_value C_REJECTED = ''rejected''"
| "completion_state_value C_ESCALATED = ''escalated''"

record verification_subject =
  vs_subject_type :: string
  vs_subject_id :: string
  vs_revision :: string
  vs_digest :: string

definition verification_subject_post_init :: "verification_subject \<Rightarrow> py_error + verification_subject" where
  "verification_subject_post_init x =
     sbind (guard (vs_subject_type x \<in> {''result'', ''artifact''}) ValueError) (\<lambda>_.
     sbind (validate_id (vs_subject_id x) (vs_subject_type x)) (\<lambda>_.
     sbind (guard (\<not> py_blank (vs_revision x)) ValueError) (\<lambda>_.
     sbind (guard (\<not> py_blank (vs_digest x)) ValueError) (\<lambda>_. Inr x))))"

record completion_gate_decision =
  cg_task_id :: string
  cg_state :: completion_state
  cg_reason :: string
  cg_policy_id :: "string option"
  cg_policy_version :: "int option"
  cg_subject :: "verification_subject option"
  cg_blocking_verification_ids :: "string list"
  cg_repair_attempts_remaining :: int

definition completion_gate_decision_post_init ::
  "completion_gate_decision \<Rightarrow> py_error + completion_gate_decision" where
  "completion_gate_decision_post_init x =
     sbind (validate_id (cg_task_id x) ''task'') (\<lambda>_.
     sbind (guard (\<not> py_blank (cg_reason x)) ValueError) (\<lambda>_.
     sbind (case cg_policy_id x of
              Some p \<Rightarrow> sbind (validate_id p ''verification_policy'') (\<lambda>_.
                 guard (case cg_policy_version x of None \<Rightarrow> False | Some v \<Rightarrow> 1 \<le> v) ValueError)
            | None \<Rightarrow> guard (cg_policy_version x = None) ValueError) (\<lambda>_.
     sbind (validate_ids (cg_blocking_verification_ids x) ''verification'') (\<lambda>_.
     sbind (guard (0 \<le> cg_repair_attempts_remaining x) ValueError) (\<lambda>_. Inr x)))))"

section \<open>Round trips\<close>

lemma thaw_freeze_json: "thaw_json (freeze_json v) = thaw_json v"
  by (induction v rule: freeze_json.induct) auto

lemma thaw_json_value: "json_value v \<Longrightarrow> thaw_json v = v"
  by (induction v rule: thaw_json.induct) (auto simp: list_all_iff intro!: map_idI)

lemma json_value_thaw: "json_value (thaw_json v)"
  by (induction v rule: thaw_json.induct) (auto simp: list_all_iff)

lemma plan_response_post_init_Inr:
  "plan_response_post_init x = Inr y \<longleftrightarrow> y = x \<and> \<not> py_blank (pr_summary x) \<and>
     distinct (map ps_key (pr_steps x)) \<and>
     (\<forall>s \<in> set (pr_steps x). set (ps_depends_on s) \<subseteq> set (map ps_key (pr_steps x)))"
  by (auto simp: plan_response_post_init_def Let_def sbind_eq_Inr)

end
