(* ===== verification/Kernel_World.thy ===== *)
theory Kernel_World
  imports Event_Repository Contracts
begin

text \<open>
  The state the kernel runs in and the collaborators it is constructed with
  (\<open>PlatformKernel.__init__\<close> of \<open>kernel/kernel.py\<close>). The world holds the canonical repository, how
  many identifiers and clock readings this coroutine has drawn, and whatever state the
  collaborators keep. Orchestrator, lifecycle backend, event sink, completion authority and output
  observer are parameters; each may run other coroutines on the world before it returns, and so
  may every await of the repository (\<open>env_suspend\<close>), which can also raise, e.g. a cancellation.

  The second half fixes what is asked of that interference (\<open>rely\<close>) and the invariant and the
  guarantee of every kernel operation.
\<close>

section \<open>World and collaborators\<close>

record 'x world =
  w_repo :: mem_repo
  w_draws :: nat
  w_ticks :: nat
  w_ext :: 'x

record 'x kernel_env =
  env_uuid4 :: "nat \<Rightarrow> string"
  env_utc_now :: "nat \<Rightarrow> datetime"
  env_suspend :: "('x world, unit) action"
  env_plan :: "plan_request \<Rightarrow> ('x world, plan_response) action"
  env_start :: "execution_request \<Rightarrow> ('x world, execution_handle) action"
  env_get :: "string \<Rightarrow> operation_context \<Rightarrow> ('x world, execution_snapshot) action"
  env_cancel :: "string \<Rightarrow> operation_context \<Rightarrow> ('x world, execution_snapshot) action"
  env_event_sink :: "(event \<Rightarrow> ('x world, unit) action) option"
  env_assess :: "(string \<Rightarrow> ('x world, completion_gate_decision) action) option"
  env_invalidate :: "(string \<Rightarrow> ('x world, unit) action) option"
  env_async_invalidate :: "(string \<Rightarrow> ('x world, unit) action) option"
  env_observer :: "(event \<Rightarrow> ('x world, unit) action) option"
  env_interrupted :: "'x world \<Rightarrow> bool"

definition gets :: "('w \<Rightarrow> 'a) \<Rightarrow> ('w, 'a) action" where
  "gets f = (\<lambda>w. (Inr (f w), w))"

definition new_id :: "'x kernel_env \<Rightarrow> string \<Rightarrow> ('x world, string) action" where
  "new_id env pfx =
     (\<lambda>w. (Inr (pfx @ ''_'' @ env_uuid4 env (w_draws w)), w\<lparr>w_draws := Suc (w_draws w)\<rparr>))"

definition utc_now :: "'x kernel_env \<Rightarrow> ('x world, datetime) action" where
  "utc_now env = (\<lambda>w. (Inr (env_utc_now env (w_ticks w)), w\<lparr>w_ticks := Suc (w_ticks w)\<rparr>))"

section \<open>Repository calls\<close>

definition repo_read :: "'x kernel_env \<Rightarrow> string \<Rightarrow> ('x world, event list) action" where
  "repo_read env sid = await (env_suspend env) (\<lambda>_. gets (\<lambda>w. read_events (w_repo w) sid))"

definition repo_find :: "'x kernel_env \<Rightarrow> string \<Rightarrow> string \<Rightarrow> ('x world, command_record option) action" where
  "repo_find env scope key =
     await (env_suspend env) (\<lambda>_. gets (\<lambda>w. find_command (w_repo w) scope key))"

definition repo_list :: "'x kernel_env \<Rightarrow> ('x world, string list) action" where
  "repo_list env = await (env_suspend env) (\<lambda>_. gets (\<lambda>w. list_stream_ids (w_repo w)))"

definition on_repo :: "(mem_repo \<Rightarrow> (py_error + 'a) \<times> mem_repo) \<Rightarrow> ('x world, 'a) action" where
  "on_repo f = (\<lambda>w. case f (w_repo w) of (res, r) \<Rightarrow> (res, w\<lparr>w_repo := r\<rparr>))"

definition repo_commit :: "'x kernel_env \<Rightarrow> string \<Rightarrow> nat \<Rightarrow> event list \<Rightarrow> command_record option \<Rightarrow>
    ('x world, commit_result) action" where
  "repo_commit env sid n es cmd =
     await (env_suspend env) (\<lambda>_. on_repo (commit sid (int n) es cmd))"

section \<open>Invariant and interference\<close>

definition stream :: "'x world \<Rightarrow> string \<Rightarrow> event list" where
  "stream w sid = read_events (w_repo w) sid"

definition recorded_runs :: "'x world \<Rightarrow> string set" where
  "recorded_runs w = (\<Union>sid. run_subjects (stream w sid))"

definition run_uuid :: "'x kernel_env \<Rightarrow> nat \<Rightarrow> string" where
  "run_uuid env k = ''run_'' @ env_uuid4 env k"

definition commands_ok :: "mem_repo \<Rightarrow> bool" where
  "commands_ok r \<longleftrightarrow> (\<forall>s k c. find_command r s k = Some c \<longrightarrow>
     (\<exists>e \<in> set (read_events r (cr_stream_id c)). ev_id e = cr_event_id c))"

text \<open>The first \<open>N\<close> identifiers are assumed not to collide; beyond them nothing is claimed.\<close>

definition kernel_inv :: "'x kernel_env \<Rightarrow> nat \<Rightarrow> 'x world \<Rightarrow> bool" where
  "kernel_inv env N w \<longleftrightarrow> (w_draws w \<le> N \<longrightarrow>
     repo_wf (w_repo w) \<and> commands_ok (w_repo w) \<and> (\<forall>sid. stream_ok sid (stream w sid)) \<and>
     (\<forall>k. w_draws w \<le> k \<longrightarrow> k < N \<longrightarrow> run_uuid env k \<notin> recorded_runs w))"

definition evolves :: "'x world \<Rightarrow> 'x world \<Rightarrow> bool" where
  "evolves w w' \<longleftrightarrow> mem.grows (w_repo w) (w_repo w') \<and> w_draws w \<le> w_draws w'"

definition interferes :: "'x kernel_env \<Rightarrow> nat \<Rightarrow> 'x world \<Rightarrow> 'x world \<Rightarrow> bool" where
  "interferes env N w w' \<longleftrightarrow> evolves w w' \<and>
     (\<forall>k < N. run_uuid env k \<in> recorded_runs w' \<longrightarrow> run_uuid env k \<in> recorded_runs w)"

lemma evolves_refl: "evolves w w"
  by (simp add: evolves_def mem.grows_refl)

lemma evolves_trans: "evolves w w' \<Longrightarrow> evolves w' w'' \<Longrightarrow> evolves w w''"
  unfolding evolves_def using mem.grows_trans by fastforce

lemma evolves_stream: "evolves w w' \<Longrightarrow> prefix (stream w sid) (stream w' sid)"
  by (simp add: evolves_def mem.grows_def stream_def)

interpretation rg: rely_guarantee "kernel_inv env N" evolves for env N
  by unfold_locales (auto intro: evolves_refl evolves_trans)

interpretation rd: rely_guarantee "kernel_inv env N" "interferes env N" for env N
  by unfold_locales (auto simp: interferes_def intro: evolves_refl evolves_trans)

abbreviation ksafe :: "'x kernel_env \<Rightarrow> nat \<Rightarrow> ('x world \<Rightarrow> bool) \<Rightarrow> ('x world, 'a) action \<Rightarrow>
    ('a \<Rightarrow> 'x world \<Rightarrow> bool) \<Rightarrow> bool" where
  "ksafe env N \<equiv> rely_guarantee.safe (kernel_inv env N) evolves"

abbreviation rsafe :: "'x kernel_env \<Rightarrow> nat \<Rightarrow> ('x world \<Rightarrow> bool) \<Rightarrow> ('x world, 'a) action \<Rightarrow>
    ('a \<Rightarrow> 'x world \<Rightarrow> bool) \<Rightarrow> bool" where
  "rsafe env N \<equiv> rely_guarantee.safe (kernel_inv env N) (interferes env N)"

abbreviation kstable :: "('x world \<Rightarrow> bool) \<Rightarrow> bool" where
  "kstable \<equiv> rely_guarantee.stable evolves"

abbreviation rstable :: "'x kernel_env \<Rightarrow> nat \<Rightarrow> ('x world \<Rightarrow> bool) \<Rightarrow> bool" where
  "rstable env N \<equiv> rely_guarantee.stable (interferes env N)"

definition external :: "'x kernel_env \<Rightarrow> nat \<Rightarrow> ('x world, 'a) action \<Rightarrow> bool" where
  "external env N m \<longleftrightarrow> (\<forall>w r w'. kernel_inv env N w \<longrightarrow> m w = (r, w') \<longrightarrow>
     kernel_inv env N w' \<and> interferes env N w w')"

definition rely :: "'x kernel_env \<Rightarrow> nat \<Rightarrow> bool" where
  "rely env N \<longleftrightarrow> inj_on (env_uuid4 env) {..<N} \<and> external env N (env_suspend env) \<and>
     (\<forall>q. external env N (env_plan env q)) \<and> (\<forall>q. external env N (env_start env q)) \<and>
     (\<forall>i c. external env N (env_get env i c)) \<and> (\<forall>i c. external env N (env_cancel env i c)) \<and>
     (\<forall>f \<in> set_option (env_event_sink env). \<forall>e. external env N (f e)) \<and>
     (\<forall>f \<in> set_option (env_assess env). \<forall>t. external env N (f t)) \<and>
     (\<forall>f \<in> set_option (env_invalidate env). \<forall>t. external env N (f t)) \<and>
     (\<forall>f \<in> set_option (env_async_invalidate env). \<forall>t. external env N (f t)) \<and>
     (\<forall>f \<in> set_option (env_observer env). \<forall>e. external env N (f e))"

lemma external_rsafe: "external env N m \<longleftrightarrow> rsafe env N (\<lambda>_. True) m (\<lambda>_ _. True)"
  by (auto simp: external_def rd.safe_def)

lemma rsafe_ksafe: "rsafe env N P m Q \<Longrightarrow> ksafe env N P m Q"
  by (fastforce simp: rd.safe_def rg.safe_def interferes_def)

lemma kstable_rstable: "kstable P \<Longrightarrow> rstable env N P"
  by (auto simp: rg.stable_def rd.stable_def interferes_def)

lemma rsafe_stable: "rsafe env N (\<lambda>_. True) m Q \<Longrightarrow> rstable env N P \<Longrightarrow> rsafe env N P m (\<lambda>x w. Q x w \<and> P w)"
  using rd.safe_frame[of env N P "\<lambda>_. True" m Q] by simp

lemma rsafe_external: "external env N m \<Longrightarrow> rstable env N P \<Longrightarrow> rsafe env N P m (\<lambda>_. P)"
  using rsafe_stable[of env N m "\<lambda>_ _. True" P] by (simp add: external_rsafe)

section \<open>Steps that leave the repository alone\<close>

lemma same_repo_interferes:
  "w_repo w' = w_repo w \<Longrightarrow> w_draws w \<le> w_draws w' \<Longrightarrow> interferes env N w w'"
  by (simp add: interferes_def evolves_def mem.grows_refl recorded_runs_def stream_def)

lemma same_repo_inv:
  "kernel_inv env N w \<Longrightarrow> w_repo w' = w_repo w \<Longrightarrow> w_draws w \<le> w_draws w' \<Longrightarrow> kernel_inv env N w'"
  by (simp add: kernel_inv_def recorded_runs_def stream_def)

lemma rsafe_gets: "(\<And>w. kernel_inv env N w \<Longrightarrow> P w \<Longrightarrow> Q (f w) w) \<Longrightarrow> rsafe env N P (gets f) Q"
  by (auto simp: gets_def rd.safe_def same_repo_interferes)

lemma rsafe_new_id:
  assumes "rstable env N P"
    and "\<And>w. kernel_inv env N w \<Longrightarrow> P (w\<lparr>w_draws := Suc (w_draws w)\<rparr>) \<Longrightarrow>
      Q (pfx @ ''_'' @ env_uuid4 env (w_draws w)) (w\<lparr>w_draws := Suc (w_draws w)\<rparr>)"
  shows "rsafe env N P (new_id env pfx) Q"
proof (rule rd.safeI)
  fix w r w' assume *: "kernel_inv env N w" "P w" "new_id env pfx w = (r, w')"
  then have w': "w' = w\<lparr>w_draws := Suc (w_draws w)\<rparr>" "r = Inr (pfx @ ''_'' @ env_uuid4 env (w_draws w))"
    by (auto simp: new_id_def)
  then have "interferes env N w w'" by (simp add: same_repo_interferes)
  moreover have "P w'" using assms(1) *(2) calculation by (auto simp: rd.stable_def)
  ultimately show "kernel_inv env N w' \<and> interferes env N w w' \<and> (\<forall>x. r = Inr x \<longrightarrow> Q x w')"
    using * w' assms(2)[of w] same_repo_inv[of env N w w'] by simp
qed

lemma rsafe_utc_now: "rstable env N P \<Longrightarrow> rsafe env N P (utc_now env) (\<lambda>_. P)"
  using same_repo_interferes[of "w\<lparr>w_ticks := Suc (w_ticks w)\<rparr>" w env N for w]
  by (auto simp: utc_now_def rd.safe_def rd.stable_def intro: same_repo_inv)

lemma rsafe_new_id_stable: "rstable env N P \<Longrightarrow> rsafe env N P (new_id env pfx) (\<lambda>_. P)"
  by (rule rsafe_new_id)

lemma rsafe_suspend_gets:
  assumes "rely env N" "rstable env N P" "\<And>w. kernel_inv env N w \<Longrightarrow> P w \<Longrightarrow> Q (f w) w"
  shows "rsafe env N P (await (env_suspend env) (\<lambda>_. gets f)) Q"
proof (rule rd.safe_await)
  show "rsafe env N P (env_suspend env) (\<lambda>_. P)"
    using assms(1,2) by (intro rsafe_external) (simp_all add: rely_def)
qed (rule rsafe_gets, rule assms(3))

section \<open>Commits\<close>

lemma put_preserves_inv:
  assumes inv: "kernel_inv env N w" and uuid: "inj_on (env_uuid4 env) {..<N}"
    and put: "commit sid (int n) es cmd (w_repo w) = (res, r')"
    and grow: "w_draws w \<le> N \<Longrightarrow> length (stream w sid) = n \<Longrightarrow> stream_ok sid (stream w sid @ es) \<and>
      run_subjects es \<subseteq> recorded_runs w \<union> run_uuid env ` {..<w_draws w}"
    and cmd: "\<And>c. cmd = Some c \<Longrightarrow> cr_stream_id c = sid \<and> cr_event_id c \<in> ev_id ` set es"
  shows "kernel_inv env N (w\<lparr>w_repo := r'\<rparr>)"
  unfolding kernel_inv_def
proof (intro impI, goal_cases)
  case 1
  then have N: "w_draws w \<le> N" by simp
  with inv have wf: "repo_wf (w_repo w)" "commands_ok (w_repo w)" "\<And>s. stream_ok s (stream w s)"
    "\<And>k. w_draws w \<le> k \<Longrightarrow> k < N \<Longrightarrow> run_uuid env k \<notin> recorded_runs w"
    by (auto simp: kernel_inv_def)
  have wf': "repo_wf r'" using commit_wf[OF wf(1) put] .
  show ?case
  proof (cases "\<exists>c. res = Inr c \<and> cm_applied c")
    case False
    then have same: "read_events r' = read_events (w_repo w)" "find_command r' = find_command (w_repo w)"
      using mem.put_unapplied[OF TrueI put] by simp_all
    then show ?thesis using wf wf' by (simp add: stream_def recorded_runs_def commands_ok_def)
  next
    case True
    then obtain c where "res = Inr c" "cm_applied c" by blast
    with mem.put_applied[OF TrueI] put
    have ap: "int n = int (length (stream w sid))" "read_events r' = (read_events (w_repo w))(sid := stream w sid @ es)"
      "case cmd of None \<Rightarrow> find_command r' = find_command (w_repo w)
       | Some c \<Rightarrow> (\<forall>s k. find_command r' s k =
           (if s = cr_scope c \<and> k = cr_idempotency_key c then Some c else find_command (w_repo w) s k))"
      by (fastforce simp: stream_def split: option.splits)+
    from grow[OF N] ap(1) have g: "stream_ok sid (stream w sid @ es)"
      "run_subjects es \<subseteq> recorded_runs w \<union> run_uuid env ` {..<w_draws w}" by auto
    let ?w = "w\<lparr>w_repo := r'\<rparr>"
    have st: "stream ?w = (stream w)(sid := stream w sid @ es)"
      using ap(2) by (simp add: stream_def fun_eq_iff)
    have "commands_ok r'"
      unfolding commands_ok_def
    proof (intro allI impI)
      fix s k c assume "find_command r' s k = Some c"
      then have "find_command (w_repo w) s k = Some c \<or> cmd = Some c"
        using ap(3) by (auto split: option.splits if_splits)
      then show "\<exists>e \<in> set (read_events r' (cr_stream_id c)). ev_id e = cr_event_id c"
        using wf(2) cmd ap(2) unfolding commands_ok_def stream_def by (auto simp: image_iff Bex_def) blast+
    qed
    moreover have "recorded_runs ?w \<subseteq> recorded_runs w \<union> run_uuid env ` {..<w_draws w}"
    proof
      fix x assume "x \<in> recorded_runs ?w"
      then obtain s where "x \<in> run_subjects (stream ?w s)" by (auto simp: recorded_runs_def)
      then have "x \<in> run_subjects (stream w s) \<or> x \<in> run_subjects es"
        by (auto simp: st run_subjects_append split: if_splits)
      then show "x \<in> recorded_runs w \<union> run_uuid env ` {..<w_draws w}"
        using g(2) by (auto simp: recorded_runs_def)
    qed
    moreover have "run_uuid env k \<notin> run_uuid env ` {..<w_draws w}" if "w_draws w \<le> k" "k < N" for k
      using uuid that N by (auto simp: run_uuid_def dest!: inj_onD[of _ _ k])
    ultimately have "run_uuid env k \<notin> recorded_runs ?w" if "w_draws w \<le> k" "k < N" for k
      using wf(4)[OF that] that by blast
    with \<open>commands_ok r'\<close> show ?thesis
      using wf wf' g(1) by (simp add: st)
  qed
qed

lemma ksafe_repo_commit:
  assumes rely: "rely env N" and st: "rstable env N P"
    and grow: "\<And>w. kernel_inv env N w \<Longrightarrow> P w \<Longrightarrow> w_draws w \<le> N \<Longrightarrow> length (stream w sid) = n \<Longrightarrow>
      stream_ok sid (stream w sid @ es) \<and>
      run_subjects es \<subseteq> recorded_runs w \<union> run_uuid env ` {..<w_draws w}"
    and cmd: "\<And>c. cmd = Some c \<Longrightarrow> cr_stream_id c = sid \<and> cr_event_id c \<in> ev_id ` set es"
  shows "ksafe env N P (repo_commit env sid n es cmd) (\<lambda>_ _. True)"
  unfolding repo_commit_def
proof (rule rg.safe_await)
  show "ksafe env N P (env_suspend env) (\<lambda>_. P)"
    using rely st by (intro rsafe_ksafe rsafe_external) (simp_all add: rely_def)
next
  show "ksafe env N P (on_repo (commit sid (int n) es cmd)) (\<lambda>_ _. True)"
  proof (rule rg.safeI)
    fix w r w' assume *: "kernel_inv env N w" "P w" "on_repo (commit sid (int n) es cmd) w = (r, w')"
    then obtain r' where put: "commit sid (int n) es cmd (w_repo w) = (r, r')" "w' = w\<lparr>w_repo := r'\<rparr>"
      by (auto simp: on_repo_def split: prod.splits)
    have "inj_on (env_uuid4 env) {..<N}" using rely by (simp add: rely_def)
    from put_preserves_inv[OF *(1) this put(1) grow[OF *(1,2)] cmd]
    have "kernel_inv env N w'" by (simp add: put(2))
    moreover have "evolves w w'"
      using mem.put_grows[OF TrueI put(1)] put(2) by (simp add: evolves_def)
    ultimately show "kernel_inv env N w' \<and> evolves w w' \<and> (\<forall>x. r = Inr x \<longrightarrow> True)" by simp
  qed
qed

end
