(* ===== verification/Kernel_Commit.thy ===== *)
theory Kernel_Commit
  imports Kernel_World
begin

text \<open>
  The read mechanics of \<open>kernel/queries.py\<close> and the commit mechanics of \<open>kernel/commit_support.py\<close>:
  lookups through the reducers, idempotency records, canonical event construction and the two
  ways of appending (a command, or system events). The specifications say which snapshot a read
  returns and what a caller has to show before it appends.
\<close>

section \<open>Queries\<close>

definition get_task :: "'x kernel_env \<Rightarrow> string \<Rightarrow> ('x world, task_state) action" where
  "get_task env task_id =
     await (pure (validate_id task_id ''task'')) (\<lambda>_.
     await (repo_read env task_id) (\<lambda>evs. pure (reduce_task evs task_id)))"

definition get_run :: "'x kernel_env \<Rightarrow> string \<Rightarrow> string \<Rightarrow> ('x world, run_state) action" where
  "get_run env task_id run_id =
     await (pure (validate_id task_id ''task'')) (\<lambda>_.
     await (pure (validate_id run_id ''run'')) (\<lambda>_.
     await (repo_read env task_id) (\<lambda>evs.
     await (pure (reduce_run evs run_id)) (\<lambda>run.
     if r_correlation_id (rs_run run) \<noteq> task_id then raise (contract_error NOT_FOUND)
     else ret run))))"

definition history :: "'x kernel_env \<Rightarrow> string \<Rightarrow> ('x world, event list) action" where
  "history env task_id =
     await (pure (validate_id task_id ''task'')) (\<lambda>_. repo_read env task_id)"

definition validate_run_subject :: "task_state \<Rightarrow> string \<Rightarrow> string \<Rightarrow> py_error + unit" where
  "validate_run_subject ts subject_type subject_id =
     (if subject_type = ''task''
      then guard (subject_id = ts_task_id ts) (contract_error CONFLICT)
      else sbind (guard (ts_plan_ref ts \<noteq> None) (contract_error CONFLICT)) (\<lambda>_.
           guard (subject_id \<in> set (ts_step_ids ts)) (contract_error CONFLICT)))"

definition is_active :: "run_state \<Rightarrow> bool" where
  "is_active rs \<longleftrightarrow> rs_status rs \<notin> TERMINAL_RUN_STATUSES"

definition has_subject :: "string \<Rightarrow> string \<Rightarrow> run_state \<Rightarrow> bool" where
  "has_subject subject_type subject_id rs \<longleftrightarrow>
     r_subject_type (rs_run rs) = subject_type \<and> r_subject_id (rs_run rs) = subject_id"

definition active_runs :: "'x kernel_env \<Rightarrow> task_state \<Rightarrow> ('x world, run_state list) action" where
  "active_runs env ts =
     await (each (get_run env (ts_task_id ts)) (ts_run_ids ts)) (\<lambda>runs. ret (filter is_active runs))"

fun first_run :: "'x kernel_env \<Rightarrow> string \<Rightarrow> (run_state \<Rightarrow> bool) \<Rightarrow> string list \<Rightarrow>
    ('x world, run_state option) action" where
  "first_run env task_id p [] = ret None"
| "first_run env task_id p (run_id # run_ids) =
     await (get_run env task_id run_id) (\<lambda>run.
     if p run then ret (Some run) else first_run env task_id p run_ids)"

definition active_run_for_subject :: "'x kernel_env \<Rightarrow> task_state \<Rightarrow> string \<Rightarrow> string \<Rightarrow>
    ('x world, run_state option) action" where
  "active_run_for_subject env ts subject_type subject_id =
     first_run env (ts_task_id ts) (\<lambda>run. has_subject subject_type subject_id run \<and> is_active run)
       (rev (ts_run_ids ts))"

definition next_attempt :: "'x kernel_env \<Rightarrow> task_state \<Rightarrow> string \<Rightarrow> string \<Rightarrow> ('x world, int) action" where
  "next_attempt env ts subject_type subject_id =
     await (each (get_run env (ts_task_id ts)) (ts_run_ids ts)) (\<lambda>runs.
     ret (fold (\<lambda>run latest. if has_subject subject_type subject_id run
                             then max latest (rs_attempt run) else latest) runs 0 + 1))"

definition latest_active_run :: "'x kernel_env \<Rightarrow> task_state \<Rightarrow> ('x world, run_state option) action" where
  "latest_active_run env ts = first_run env (ts_task_id ts) is_active (rev (ts_run_ids ts))"

section \<open>Commands\<close>

definition require_key :: "string \<Rightarrow> py_error + unit" where
  "require_key key = guard (\<not> py_blank key) (contract_error INVALID_REQUEST)"

definition require_same_command :: "command_record option \<Rightarrow> string \<Rightarrow> py_error + command_record" where
  "require_same_command record operation =
     (case record of
        None \<Rightarrow> Inl (contract_error CONFLICT)
      | Some c \<Rightarrow> if cr_operation c \<noteq> operation then Inl (contract_error CONFLICT) else Inr c)"

definition existing_command :: "'x kernel_env \<Rightarrow> string \<Rightarrow> string \<Rightarrow> string \<Rightarrow>
    ('x world, command_record option) action" where
  "existing_command env scope key operation =
     await (repo_find env scope key) (\<lambda>record.
     if record = None then ret None
     else await (pure (require_same_command record operation)) (\<lambda>c. ret (Some c)))"

definition task_command :: "'x kernel_env \<Rightarrow> string \<Rightarrow> string \<Rightarrow> string \<Rightarrow>
    ('x world, command_record option) action" where
  "task_command env task_id key operation =
     await (pure (require_key key)) (\<lambda>_. existing_command env task_id key operation)"

section \<open>Events\<close>

type_synonym event_spec = "string \<times> string \<times> string \<times> json dict \<times> adapter_metadata list"

definition actor_or_owner :: "string option \<Rightarrow> owner_ref \<Rightarrow> string" where
  \<comment> \<open>\<open>actor_ref or f"{owner_type}:{owner_id}"\<close>\<close>
  "actor_or_owner actor_ref owner =
     (case actor_ref of
        None \<Rightarrow> ow_type owner @ '':'' @ ow_id owner
      | Some a \<Rightarrow> if a = [] then ow_type owner @ '':'' @ ow_id owner else a)"

definition enriched_payload :: "json dict \<Rightarrow> string \<Rightarrow> string \<Rightarrow> nat \<Rightarrow> adapter_metadata list \<Rightarrow> json dict" where
  "enriched_payload payload actor_ref source rev_no adapter_metadata =
     (let enriched = dict_update payload
            [(''actor_ref'', JStr actor_ref), (''source'', JStr source),
             (''canonical_payload_version'', JStr ''1.0''), (''stream_revision'', JInt (int rev_no))]
      in if adapter_metadata = [] then enriched
         else dict_set ''adapter_metadata''
                (JObj (map (\<lambda>item. (am_namespace item, JObj (am_values item))) adapter_metadata))
                enriched)"

definition make_event :: "'x kernel_env \<Rightarrow> string \<Rightarrow> string \<Rightarrow> string \<Rightarrow> string \<Rightarrow> string \<Rightarrow> owner_ref \<Rightarrow>
    string option \<Rightarrow> string \<Rightarrow> string \<Rightarrow> nat \<Rightarrow> json dict \<Rightarrow> adapter_metadata list \<Rightarrow>
    ('x world, event) action" where
  "make_event env stream_id event_type subject_type subject_id causation_id owner project_id
     actor_ref source rev_no payload adapter_metadata =
     (if \<not> distinct (map am_namespace adapter_metadata) then raise (contract_error CONTRACT_VIOLATION)
      else await (new_id env ''event'') (\<lambda>event_id.
           await (utc_now env) (\<lambda>now.
           pure (event_post_init
             \<lparr>ev_event_type = event_type, ev_subject_type = subject_type,
              ev_subject_id = subject_id, ev_correlation_id = stream_id, ev_id = event_id,
              ev_owner_ref = Some owner, ev_project_id = project_id,
              ev_causation_id = Some causation_id, ev_trace_id = None, ev_occurred_at = now,
              ev_payload = enriched_payload payload actor_ref source rev_no adapter_metadata,
              ev_schema_version = SCHEMA_VERSION,
              ev_provenance = Some (provenance_post_init
                \<lparr>pv_source = source, pv_actor_ref = Some actor_ref, pv_details = []\<rparr>),
              ev_external_refs = []\<rparr>))))"

definition build_event :: "'x kernel_env \<Rightarrow> task_state \<Rightarrow> string \<Rightarrow> string option \<Rightarrow> string \<Rightarrow> nat \<Rightarrow>
    event_spec \<Rightarrow> ('x world, event) action" where
  "build_event env ts causation_id actor_ref source offset spec =
     (case spec of (event_type, subject_type, subject_id, payload, adapter_metadata) \<Rightarrow>
        make_event env (ts_task_id ts) event_type subject_type subject_id causation_id
          (t_owner_ref (ts_task ts)) (t_project_id (ts_task ts))
          (actor_or_owner actor_ref (t_owner_ref (ts_task ts))) source
          (ts_revision ts + offset) payload adapter_metadata)"

definition build_events :: "'x kernel_env \<Rightarrow> task_state \<Rightarrow> string \<Rightarrow> string option \<Rightarrow> string \<Rightarrow>
    event_spec list \<Rightarrow> ('x world, event list) action" where
  "build_events env ts causation_id actor_ref source specs =
     each (\<lambda>(offset, spec). build_event env ts causation_id actor_ref source offset spec)
       (enumerate 1 specs)"

definition mirror :: "'x kernel_env \<Rightarrow> event list \<Rightarrow> ('x world, unit) action" where
  "mirror env events =
     (case env_event_sink env of
        None \<Rightarrow> ret ()
      | Some publish \<Rightarrow> await (each publish events) (\<lambda>_. ret ()))"

definition operation_context_of :: "task_state \<Rightarrow> string \<Rightarrow> py_error + operation_context" where
  \<comment> \<open>\<open>KernelCommitSupport.context\<close>\<close>
  "operation_context_of ts causation_id =
     sbind (operation_control_post_init
       \<lparr>oc_timeout_seconds = None, oc_idempotency_key = Some causation_id,
        oc_retry_mode = RETRY_IDEMPOTENT\<rparr>) (\<lambda>control.
     operation_context_post_init
       \<lparr>cx_correlation_id = ts_task_id ts, cx_causation_id = Some causation_id,
        cx_owner_type = Some (ow_type (t_owner_ref (ts_task ts))),
        cx_owner_id = Some (ow_id (t_owner_ref (ts_task ts))),
        cx_project_id = t_project_id (ts_task ts), cx_control = control\<rparr>)"

section \<open>Appending\<close>

definition make_command :: "string \<Rightarrow> string \<Rightarrow> string \<Rightarrow> string \<Rightarrow> string \<Rightarrow> event list \<Rightarrow> py_error + command_record" where
  "make_command scope key operation stream_id result_id events =
     (case events of
        [] \<Rightarrow> Inl IndexError
      | event # _ \<Rightarrow> Inr \<lparr>cr_scope = scope, cr_idempotency_key = key, cr_operation = operation,
          cr_stream_id = stream_id, cr_result_id = result_id, cr_event_id = ev_id event\<rparr>)"

definition commit_task_command :: "'x kernel_env \<Rightarrow> task_state \<Rightarrow> string \<Rightarrow> string \<Rightarrow> event_spec list \<Rightarrow>
    string \<Rightarrow> string option \<Rightarrow> string \<Rightarrow> ('x world, command_record) action" where
  "commit_task_command env ts key operation specs result_id actor_ref source =
     await (pure (require_key key)) (\<lambda>_.
     await (existing_command env (ts_task_id ts) key operation) (\<lambda>existing.
     case existing of
       Some c \<Rightarrow> ret c
     | None \<Rightarrow>
         await (build_events env ts key actor_ref source specs) (\<lambda>events.
         await (pure (make_command (ts_task_id ts) key operation (ts_task_id ts) result_id events)) (\<lambda>command.
         await (repo_commit env (ts_task_id ts) (ts_revision ts) events (Some command)) (\<lambda>result.
         if \<not> cm_applied result then pure (require_same_command (cm_command result) operation)
         else await (mirror env events) (\<lambda>_. ret command))))))"

definition append_system_events :: "'x kernel_env \<Rightarrow> task_state \<Rightarrow> string \<Rightarrow> string option \<Rightarrow> string \<Rightarrow>
    event_spec list \<Rightarrow> ('x world, unit) action" where
  "append_system_events env ts causation_id actor_ref source specs =
     await (build_events env ts causation_id actor_ref source specs) (\<lambda>events.
     await (repo_commit env (ts_task_id ts) (ts_revision ts) events None) (\<lambda>_.
     mirror env events))"

section \<open>Snapshots\<close>

text \<open>A snapshot is the replay of a prefix of the stream. It stays one whatever is appended, and
it is the current state as long as the stream still has the snapshot's revision.\<close>

definition read_task :: "string \<Rightarrow> task_state \<Rightarrow> 'x world \<Rightarrow> bool" where
  "read_task tid ts w \<longleftrightarrow> ts_revision ts \<le> length (stream w tid) \<and>
     reduce_task (take (ts_revision ts) (stream w tid)) tid = Inr ts"

definition read_run :: "string \<Rightarrow> nat \<Rightarrow> string \<Rightarrow> run_state \<Rightarrow> 'x world \<Rightarrow> bool" where
  "read_run tid n rid rs w \<longleftrightarrow> n \<le> rs_revision rs \<and> rs_revision rs \<le> length (stream w tid) \<and>
     reduce_run (take (rs_revision rs) (stream w tid)) rid = Inr rs \<and> r_correlation_id (rs_run rs) = tid"

definition reached :: "string \<Rightarrow> nat \<Rightarrow> 'x world \<Rightarrow> bool" where
  "reached tid n w \<longleftrightarrow> n \<le> length (stream w tid)"

lemma prefix_takeD: "prefix xs ys \<Longrightarrow> n \<le> length xs \<Longrightarrow> take n ys = take n xs"
  by (auto simp: prefix_def)

lemma read_task_stable: "kstable (read_task tid ts)"
  using evolves_stream[of _ _ tid] prefix_length_le
  by (fastforce simp: rg.stable_def read_task_def dest: prefix_takeD)

lemma read_run_stable: "kstable (read_run tid n rid rs)"
  using evolves_stream[of _ _ tid] prefix_length_le
  by (fastforce simp: rg.stable_def read_run_def dest: prefix_takeD)

lemma reached_stable: "kstable (reached tid n)"
  using evolves_stream[of _ _ tid] prefix_length_le
  by (fastforce simp: rg.stable_def reached_def)

lemma read_task_current: "read_task tid ts w \<Longrightarrow> length (stream w tid) = ts_revision ts \<Longrightarrow>
    reduce_task (stream w tid) tid = Inr ts"
  by (simp add: read_task_def)

lemma read_run_current: "read_run tid n rid rs w \<Longrightarrow> length (stream w tid) = n \<Longrightarrow>
    reduce_run (stream w tid) rid = Inr rs"
  unfolding read_run_def by (metis take_all)

lemma read_task_reached: "read_task tid ts w \<Longrightarrow> reached tid (ts_revision ts) w"
  by (simp add: read_task_def reached_def)

lemma read_run_mono: "read_run tid n rid rs w \<Longrightarrow> m \<le> n \<Longrightarrow> read_run tid m rid rs w"
  by (simp add: read_run_def)

lemma task_post_init_id_field: "task_post_init t = Inr t' \<Longrightarrow> t_id t' = t_id t"
  by (auto simp: task_post_init_def sbind_eq_Inr)

lemma run_post_init_id_field: "run_post_init r = Inr r' \<Longrightarrow> r_id r' = r_id r"
  by (auto simp: run_post_init_def sbind_eq_Inr)

lemma reduce_task_id:
  assumes "reduce_task evs tid = Inr ts"
  shows "ts_task_id ts = tid"
proof -
  obtain s where s: "sfold (task_step tid) task_fold_init evs = Inr s" "tf_task s = Some (ts_task ts)"
    using assms by (auto simp: reduce_task_Inr task_fold_of_def dest!: task_state_of_Inr)
  have "\<forall>t. tf_task s = Some t \<longrightarrow> t_id t = tid"
  proof (rule sfold_invariant[OF _ _ s(1)])
    fix f x f' assume f: "\<forall>t. tf_task f = Some t \<longrightarrow> t_id t = tid" and st: "task_step tid f x = Inr f'"
    show "\<forall>t. tf_task f' = Some t \<longrightarrow> t_id t = tid"
    proof (cases "tf_task f")
      case None
      with st show ?thesis
        by (auto simp: task_step_def task_created_def sbind_eq_Inr dest!: task_post_init_id_field
            split: if_splits)
    next
      case (Some t)
      with f task_step_Inr[OF st Some] show ?thesis by (auto simp: same_task_def)
    qed
  qed (simp add: task_fold_init_def)
  with s(2) show ?thesis by (simp add: ts_task_id_def)
qed

lemma reduce_run_id:
  assumes "reduce_run evs rid = Inr rs"
  shows "rs_run_id rs = rid"
proof -
  obtain s where s: "sfold (run_step rid) run_fold_init evs = Inr s" "rf_run s = Some (rs_run rs)"
    using assms by (auto simp: reduce_run_Inr run_fold_of_def dest!: run_state_of_Inr)
  have "\<forall>r. rf_run s = Some r \<longrightarrow> r_id r = rid"
  proof (rule sfold_invariant[OF _ _ s(1)])
    fix f x f' assume f: "\<forall>r. rf_run f = Some r \<longrightarrow> r_id r = rid" and st: "run_step rid f x = Inr f'"
    show "\<forall>r. rf_run f' = Some r \<longrightarrow> r_id r = rid"
    proof (cases "rf_run f")
      case None
      with st show ?thesis
        by (auto simp: run_step_def run_created_def sbind_eq_Inr dest!: run_post_init_id_field
            split: if_splits)
    next
      case (Some r)
      with f run_step_Inr[OF st Some] show ?thesis by (auto simp: same_run_def)
    qed
  qed (simp add: run_fold_init_def)
  with s(2) show ?thesis by (simp add: rs_run_id_def)
qed

lemma read_task_id: "read_task tid ts w \<Longrightarrow> ts_task_id ts = tid"
  by (auto simp: read_task_def dest: reduce_task_id)

lemma read_run_id: "read_run tid n rid rs w \<Longrightarrow> rs_run_id rs = rid"
  by (auto simp: read_run_def dest: reduce_run_id)

end
