(* ===== verification/Kernel_Rules.thy ===== *)
theory Kernel_Rules
  imports Kernel_Commit
begin

text \<open>
  Rely/guarantee rules for the queries and the append operations of \<open>Kernel_Commit\<close>. A read keeps
  every assertion that interference cannot break and adds what its result is a snapshot of. An
  append asks its caller to show, for the stream at exactly the snapshot's revision, that the
  built events extend it to a valid history; whatever happened since the snapshot was taken, the
  optimistic revision check makes this enough.
\<close>

section \<open>Reads\<close>

lemma rsafe_repo_read:
  assumes "rely env N" "rstable env N P" "\<And>w. kernel_inv env N w \<Longrightarrow> P w \<Longrightarrow> Q (stream w sid) w"
  shows "rsafe env N P (repo_read env sid) Q"
  using assms unfolding repo_read_def stream_def by (rule rsafe_suspend_gets)

lemma rsafe_pure: "rsafe env N P (pure r) (\<lambda>x w. r = Inr x \<and> P w)"
  by (rule rd.safe_pure) simp

lemma rsafe_get_task:
  assumes "rely env N" "rstable env N P"
  shows "rsafe env N P (get_task env tid) (\<lambda>ts w. read_task tid ts w \<and> P w)"
  unfolding get_task_def
proof (rule rd.safe_await[OF rsafe_pure], rule rd.safe_await)
  fix x
  show "rsafe env N (\<lambda>w. validate_id tid ''task'' = Inr x \<and> P w) (repo_read env tid)
     (\<lambda>evs w. evs = stream w tid \<and> P w)"
    by (rule rd.safe_pre[OF rsafe_repo_read[OF assms]]) auto
next
  fix evs
  show "rsafe env N (\<lambda>w. evs = stream w tid \<and> P w) (pure (reduce_task evs tid))
     (\<lambda>ts w. read_task tid ts w \<and> P w)"
    by (rule rd.safe_pure) (auto simp: read_task_def view_of_reduce_task(2))
qed

lemma rsafe_get_run:
  assumes "rely env N" "rstable env N P" "\<forall>w. P w \<longrightarrow> reached tid n w"
  shows "rsafe env N P (get_run env tid rid) (\<lambda>rs w. read_run tid n rid rs w \<and> P w)"
  unfolding get_run_def
proof (rule rd.safe_await[OF rsafe_pure], rule rd.safe_await[OF rsafe_pure], rule rd.safe_await)
  fix x y
  show "rsafe env N (\<lambda>w. validate_id rid ''run'' = Inr y \<and> validate_id tid ''task'' = Inr x \<and> P w)
     (repo_read env tid) (\<lambda>evs w. evs = stream w tid \<and> P w)"
    by (rule rd.safe_pre[OF rsafe_repo_read[OF assms(1,2)]]) auto
next
  fix evs
  show "rsafe env N (\<lambda>w. evs = stream w tid \<and> P w) (await (pure (reduce_run evs rid)) (\<lambda>run.
       if r_correlation_id (rs_run run) \<noteq> tid then raise (contract_error NOT_FOUND) else ret run))
     (\<lambda>rs w. read_run tid n rid rs w \<and> P w)"
  proof (rule rd.safe_await[OF rsafe_pure], rule rd.safe_if[OF rd.safe_raise rd.safe_ret])
    fix rs w assume "\<not> r_correlation_id (rs_run rs) \<noteq> tid" "reduce_run evs rid = Inr rs \<and> evs = stream w tid \<and> P w"
    then show "read_run tid n rid rs w \<and> P w"
      using assms(3) reduce_run_revision[of evs rid rs] by (auto simp: read_run_def reached_def)
  qed
qed

lemma rsafe_history:
  assumes "rely env N" "rstable env N P"
  shows "rsafe env N P (history env tid) (\<lambda>_. P)"
  unfolding history_def
  by (rule rd.safe_await[OF rsafe_pure]) (rule rsafe_repo_read[OF assms(1)]; use assms(2) in \<open>auto simp: rd.stable_def\<close>)

lemma rsafe_first_run:
  assumes "rely env N" "rstable env N P" "\<forall>w. P w \<longrightarrow> reached tid n w"
  shows "rsafe env N P (first_run env tid p rids) (\<lambda>res w. P w \<and>
     (case res of Some rs \<Rightarrow> p rs | None \<Rightarrow> \<forall>rid \<in> set rids. \<exists>rs. read_run tid n rid rs w \<and> \<not> p rs))"
  using assms(2,3)
proof (induction rids arbitrary: P)
  case (Cons rid rids)
  have "rsafe env N (\<lambda>w. read_run tid n rid rs w \<and> P w)
     (if p rs then ret (Some rs) else first_run env tid p rids)
     (\<lambda>res w. P w \<and> (case res of Some rs \<Rightarrow> p rs
        | None \<Rightarrow> \<forall>rid \<in> set (rid # rids). \<exists>rs. read_run tid n rid rs w \<and> \<not> p rs))" for rs
  proof (rule rd.safe_if)
    assume np: "\<not> p rs"
    have st: "rstable env N (\<lambda>w. read_run tid n rid rs w \<and> P w)"
      by (intro rd.stable_conj kstable_rstable[OF read_run_stable] Cons.prems)
    show "rsafe env N (\<lambda>w. read_run tid n rid rs w \<and> P w) (first_run env tid p rids)
     (\<lambda>res w. P w \<and> (case res of Some rs \<Rightarrow> p rs
        | None \<Rightarrow> \<forall>rid \<in> set (rid # rids). \<exists>rs. read_run tid n rid rs w \<and> \<not> p rs))"
      by (rule rd.safe_post[OF Cons.IH[OF st]])
        (use Cons.prems(2) np in \<open>auto split: option.splits\<close>)
  qed (rule rd.safe_ret, simp)
  then show ?case unfolding first_run.simps
    by (rule rd.safe_await[OF rsafe_get_run[OF assms(1) Cons.prems]])
qed (simp add: rd.safe_ret)

lemma rsafe_each_run:
  assumes "rely env N" "rstable env N P" "\<forall>w. P w \<longrightarrow> reached tid n w"
  shows "rsafe env N P (each (get_run env tid) rids)
     (\<lambda>rss w. P w \<and> list_all2 (\<lambda>rid rs. read_run tid n rid rs w) rids rss)"
proof -
  have "rsafe env N P (each (get_run env tid) rids)
     (\<lambda>rss w. list_all2 (\<lambda>rid rs. read_run tid n rid rs w) rids rss)"
  proof (rule rd.safe_each[OF _ assms(2)])
    fix rid show "rsafe env N P (get_run env tid rid) (\<lambda>rs w. read_run tid n rid rs w)"
      by (rule rd.safe_post[OF rsafe_get_run[OF assms]]) auto
  qed (rule kstable_rstable[OF read_run_stable])
  from rd.safe_frame[OF assms(2) this] show ?thesis
    by (rule rd.safe_weaken) auto
qed

definition active_snapshot :: "task_state \<Rightarrow> nat \<Rightarrow> run_state list \<Rightarrow> 'x world \<Rightarrow> bool" where
  "active_snapshot ts n act w \<longleftrightarrow>
     (\<forall>rid \<in> set (ts_run_ids ts). \<exists>rs. read_run (ts_task_id ts) n rid rs w \<and> (is_active rs \<longrightarrow> rs \<in> set act)) \<and>
     (\<forall>rs \<in> set act. is_active rs \<and> (\<exists>rid \<in> set (ts_run_ids ts). read_run (ts_task_id ts) n rid rs w))"

lemma active_snapshot_stable: "kstable (active_snapshot ts n act)"
  unfolding active_snapshot_def Bex_def
  by (intro rg.stable_conj rg.stable_ball rg.stable_ex rg.stable_const read_run_stable)

lemma rsafe_active_runs:
  assumes "rely env N" "rstable env N P" "\<forall>w. P w \<longrightarrow> reached (ts_task_id ts) n w"
  shows "rsafe env N P (active_runs env ts) (\<lambda>act w. active_snapshot ts n act w \<and> P w)"
  unfolding active_runs_def
proof (rule rd.safe_await[OF rsafe_each_run[OF assms]])
  fix rss
  show "rsafe env N (\<lambda>w. P w \<and> list_all2 (\<lambda>rid rs. read_run (ts_task_id ts) n rid rs w) (ts_run_ids ts) rss)
     (ret (filter is_active rss)) (\<lambda>act w. active_snapshot ts n act w \<and> P w)"
    by (rule rd.safe_ret) (fastforce simp: active_snapshot_def list_all2_conv_all_nth in_set_conv_nth)
qed

lemma rsafe_next_attempt:
  assumes "rely env N" "rstable env N P" "\<forall>w. P w \<longrightarrow> reached (ts_task_id ts) n w"
  shows "rsafe env N P (next_attempt env ts sty sid) (\<lambda>a w. P w \<and> (\<exists>rss.
     list_all2 (\<lambda>rid rs. read_run (ts_task_id ts) n rid rs w) (ts_run_ids ts) rss \<and>
     a = fold (\<lambda>run latest. if has_subject sty sid run then max latest (rs_attempt run) else latest) rss 0 + 1))"
  unfolding next_attempt_def
  by (rule rd.safe_await[OF rsafe_each_run[OF assms]], rule rd.safe_ret) auto

lemma rsafe_repo_find:
  assumes "rely env N" "rstable env N P"
  shows "rsafe env N P (repo_find env s k) (\<lambda>_. P)"
  unfolding repo_find_def by (rule rsafe_suspend_gets[OF assms])

lemma rsafe_existing_command:
  assumes "rely env N" "rstable env N P"
  shows "rsafe env N P (existing_command env s k oper) (\<lambda>_. P)"
  unfolding existing_command_def
proof (rule rd.safe_await[OF rsafe_repo_find[OF assms]], rule rd.safe_if)
  fix c :: "command_record option"
  show "rsafe env N P (await (pure (require_same_command c oper)) (\<lambda>c. ret (Some c))) (\<lambda>_. P)"
    by (rule rd.safe_await[OF rsafe_pure], rule rd.safe_ret) auto
qed (rule rd.safe_ret)

lemma rsafe_task_command:
  assumes "rely env N" "rstable env N P"
  shows "rsafe env N P (task_command env s k oper) (\<lambda>_. P)"
  unfolding task_command_def
  by (rule rd.safe_await[OF rsafe_pure], rule rd.safe_pre[OF rsafe_existing_command[OF assms]]) auto

section \<open>Built events\<close>

definition RESERVED_KEYS :: "string set" where
  "RESERVED_KEYS = {''actor_ref'', ''source'', ''canonical_payload_version'', ''stream_revision'', ''adapter_metadata''}"

definition event_of :: "task_state \<Rightarrow> event_spec \<Rightarrow> event \<Rightarrow> bool" where
  "event_of ts spec e \<longleftrightarrow> (case spec of (ty, sty, sid, payload, _) \<Rightarrow>
     ev_event_type e = ty \<and> ev_subject_type e = sty \<and> ev_subject_id e = sid \<and>
     ev_correlation_id e = ts_task_id ts \<and> ev_project_id e = t_project_id (ts_task ts) \<and>
     validate_subject_id sty sid = Inr sid \<and>
     validate_optional_id (t_project_id (ts_task ts)) ''project'' = Inr () \<and>
     (\<forall>k. k \<notin> RESERVED_KEYS \<longrightarrow> dict_get (ev_payload e) k = map_option deep_freeze (dict_get payload k)))"

lemma enriched_payload_get:
  "k \<notin> RESERVED_KEYS \<Longrightarrow> dict_get (enriched_payload payload a s n am) k = dict_get payload k"
  by (simp add: enriched_payload_def RESERVED_KEYS_def Let_def)

lemma event_post_init_project:
  "event_post_init x = Inr y \<Longrightarrow> validate_optional_id (ev_project_id x) ''project'' = Inr ()"
  by (auto simp: event_post_init_def sbind_eq_Inr)

lemma rsafe_build_event:
  assumes "rstable env N P"
  shows "rsafe env N P (build_event env ts c a s n spec) (\<lambda>e w. event_of ts spec e \<and> P w)"
proof -
  obtain ty sty sid payload am where spec: "spec = (ty, sty, sid, payload, am)" by (cases spec)
  show ?thesis
    unfolding spec build_event_def make_event_def prod.case
  proof (rule rd.safe_if[OF rd.safe_raise], rule rd.safe_await[OF rsafe_new_id_stable[OF assms]],
      rule rd.safe_await[OF rsafe_utc_now[OF assms]], rule rd.safe_pure, goal_cases)
    case (1 eid now e w)
    then show ?case
      using event_post_init_Inr[OF 1(2)] event_post_init_project[OF 1(2)]
      by (simp add: event_of_def enriched_payload_get)
  qed
qed

lemma rsafe_build_events:
  assumes "rstable env N P"
  shows "rsafe env N P (build_events env ts c a s specs) (\<lambda>es w. list_all2 (event_of ts) specs es \<and> P w)"
proof -
  have "rsafe env N P (build_events env ts c a s specs)
     (\<lambda>es w. list_all2 (\<lambda>(_, spec). event_of ts spec) (enumerate 1 specs) es)"
    unfolding build_events_def
  proof (rule rd.safe_each[OF _ assms])
    fix x show "rsafe env N P (case x of (n, spec) \<Rightarrow> build_event env ts c a s n spec)
       (\<lambda>e w. (case x of (_, spec) \<Rightarrow> event_of ts spec) e)"
      by (cases x) (simp, rule rd.safe_post[OF rsafe_build_event[OF assms]], simp)
  qed simp
  from rd.safe_frame[OF assms this] show ?thesis
    by (rule rd.safe_weaken) (auto simp: list_all2_conv_all_nth nth_enumerate_eq)
qed

section \<open>Appends\<close>

definition appendable :: "'x kernel_env \<Rightarrow> nat \<Rightarrow> task_state \<Rightarrow> event_spec list \<Rightarrow> ('x world \<Rightarrow> bool) \<Rightarrow> bool" where
  "appendable env N ts specs P \<longleftrightarrow> (\<forall>w es. kernel_inv env N w \<longrightarrow> P w \<longrightarrow> w_draws w \<le> N \<longrightarrow>
     length (stream w (ts_task_id ts)) = ts_revision ts \<longrightarrow>
     reduce_task (stream w (ts_task_id ts)) (ts_task_id ts) = Inr ts \<longrightarrow>
     list_all2 (event_of ts) specs es \<longrightarrow>
     stream_ok (ts_task_id ts) (stream w (ts_task_id ts) @ es) \<and>
     run_subjects es \<subseteq> recorded_runs w \<union> run_uuid env ` {..<w_draws w})"

lemma ksafe_external: "external env N m \<Longrightarrow> ksafe env N (\<lambda>_. True) m (\<lambda>_ _. True)"
  by (rule rsafe_ksafe) (simp add: external_rsafe)

lemma ksafe_mirror:
  assumes "rely env N"
  shows "ksafe env N (\<lambda>_. True) (mirror env es) (\<lambda>_ _. True)"
  unfolding mirror_def
proof (rule rg.safe_option)
  fix publish assume "env_event_sink env = Some publish"
  with assms have "external env N (publish e)" for e by (simp add: rely_def)
  then have "ksafe env N (\<lambda>_. True) (each publish es) (\<lambda>ys w. list_all2 (\<lambda>_ _. True) es ys)"
    by (intro rg.safe_each ksafe_external) simp_all
  then show "ksafe env N (\<lambda>_. True) (await (each publish es) (\<lambda>_. ret ())) (\<lambda>_ _. True)"
    by (rule rg.safe_await) (simp add: rg.safe_ret)
qed (simp add: rg.safe_ret)

lemma ksafe_append_commit:
  assumes rely: "rely env N" and st: "rstable env N P" and rd: "\<forall>w. P w \<longrightarrow> read_task (ts_task_id ts) ts w"
    and ap: "appendable env N ts specs P"
    and cmd: "\<forall>c. cmd = Some c \<longrightarrow> cr_stream_id c = ts_task_id ts \<and> cr_event_id c \<in> ev_id ` set es"
  shows "ksafe env N (\<lambda>w. list_all2 (event_of ts) specs es \<and> P w)
     (repo_commit env (ts_task_id ts) (ts_revision ts) es cmd) (\<lambda>_ _. True)"
proof (rule rg.safe_pre_const, rule ksafe_repo_commit[OF rely st])
  fix w assume "list_all2 (event_of ts) specs es" "kernel_inv env N w" "P w" "w_draws w \<le> N"
    "length (stream w (ts_task_id ts)) = ts_revision ts"
  moreover from this have "reduce_task (stream w (ts_task_id ts)) (ts_task_id ts) = Inr ts"
    using rd read_task_current by metis
  ultimately show "stream_ok (ts_task_id ts) (stream w (ts_task_id ts) @ es) \<and>
     run_subjects es \<subseteq> recorded_runs w \<union> run_uuid env ` {..<w_draws w}"
    using ap unfolding appendable_def by blast
qed (use cmd in blast)

lemma ksafe_commit_task_command:
  assumes rely: "rely env N" and st: "rstable env N P" and rd: "\<forall>w. P w \<longrightarrow> read_task (ts_task_id ts) ts w"
    and ap: "appendable env N ts specs P"
  shows "ksafe env N P (commit_task_command env ts key oper specs res actor src) (\<lambda>_ _. True)"
  unfolding commit_task_command_def
proof (rule rg.safe_await[OF rsafe_ksafe[OF rsafe_pure]], rule rg.safe_pre_const,
    rule rg.safe_await[OF rsafe_ksafe[OF rsafe_existing_command[OF rely st]]], rule rg.safe_option,
    simp_all only: rg.safe_ret,
    rule rg.safe_await[OF rsafe_ksafe[OF rsafe_build_events[OF st]]],
    rule rg.safe_await[OF rsafe_ksafe[OF rsafe_pure]], rule rg.safe_pre_const, rule rg.safe_await)
  fix es c assume "make_command (ts_task_id ts) key oper (ts_task_id ts) res es = Inr c"
  then have "\<forall>c'. Some c = Some c' \<longrightarrow> cr_stream_id c' = ts_task_id ts \<and> cr_event_id c' \<in> ev_id ` set es"
    by (auto simp: make_command_def split: list.splits)
  from ksafe_append_commit[OF rely st rd ap this]
  show "ksafe env N (\<lambda>w. list_all2 (event_of ts) specs es \<and> P w)
     (repo_commit env (ts_task_id ts) (ts_revision ts) es (Some c)) (\<lambda>_ _. True)" .
next
  fix es :: "event list" and c :: command_record and result :: commit_result
  show "ksafe env N (\<lambda>_. True) (if \<not> cm_applied result then pure (require_same_command (cm_command result) oper)
      else await (mirror env es) (\<lambda>_. ret c)) (\<lambda>_ _. True)"
    by (intro rg.safe_if rg.safe_pure rg.safe_await[OF ksafe_mirror[OF rely]] rg.safe_ret) simp_all
qed

lemma ksafe_append_system_events:
  assumes rely: "rely env N" and st: "rstable env N P" and rd: "\<forall>w. P w \<longrightarrow> read_task (ts_task_id ts) ts w"
    and ap: "appendable env N ts specs P"
  shows "ksafe env N P (append_system_events env ts c a s specs) (\<lambda>_ _. True)"
  unfolding append_system_events_def
  by (rule rg.safe_await[OF rsafe_ksafe[OF rsafe_build_events[OF st]]],
      rule rg.safe_await[OF ksafe_append_commit[OF rely st rd ap]], simp,
      rule rg.safe_pre[OF ksafe_mirror[OF rely]], simp)

end
