(* ===== verification/Kernel_Specs.thy ===== *)
theory Kernel_Specs
  imports Kernel_Rules
begin

text \<open>
  When a list of event specifications may be appended: \<open>specs_ok\<close> runs the status changes of the
  specifications against the lifecycle tables, starting from the task's status and the status of
  the one run they concern, and a checked list extends a valid history to a valid history. The
  events that do more than change a status (creation of a run, update, reassignment, plan,
  attachment) have a lemma each.
\<close>

section \<open>Checked status changes\<close>

definition inert_type :: "string \<Rightarrow> bool" where
  "inert_type ty \<longleftrightarrow> ty \<notin> TASK_REDUCER_TYPES \<and> dict_get TASK_EVENT_STATUS ty = None \<and>
     dict_get RUN_EVENT_STATUS ty = None"

fun optional_text :: "json option \<Rightarrow> bool" where
  "optional_text None = True"
| "optional_text (Some JNull) = True"
| "optional_text (Some (JStr _)) = True"
| "optional_text _ = False"

definition may_close :: "bool \<Rightarrow> run_status option \<Rightarrow> task_status \<Rightarrow> task_status \<Rightarrow> bool" where
  "may_close solo rst st target \<longleftrightarrow>
     (target \<in> CLOSED_TASK_STATUSES \<and> target \<noteq> st \<longrightarrow>
        solo \<and> (\<forall>x. rst = Some x \<longrightarrow> x \<in> TERMINAL_RUN_STATUSES))"

fun specs_ok :: "string \<Rightarrow> string \<Rightarrow> bool \<Rightarrow> task_status \<Rightarrow> run_status option \<Rightarrow> event_spec list \<Rightarrow> bool" where
  "specs_ok tid rid solo st rst [] = True"
| "specs_ok tid rid solo st rst ((ty, sty, sid, payload, am) # specs) =
     (if sty = ''task'' then
        sid = tid \<and> optional_text (dict_get payload ''reason'') \<and>
        (case dict_get TASK_EVENT_STATUS ty of
           Some target \<Rightarrow> (st = target \<or> target \<in> TASK_TRANSITIONS st) \<and> may_close solo rst st target \<and>
             specs_ok tid rid solo target rst specs
         | None \<Rightarrow> inert_type ty \<and> specs_ok tid rid solo st rst specs)
      else
        sty = ''run'' \<and> sid = rid \<and> optional_text (dict_get payload ''reason'') \<and>
        optional_text (dict_get payload ''backend_ref'') \<and>
        (case rst of None \<Rightarrow> False | Some s \<Rightarrow>
        (case dict_get RUN_EVENT_STATUS ty of
           Some target \<Rightarrow> (s = target \<or> target \<in> RUN_TRANSITIONS s) \<and>
             specs_ok tid rid solo st (Some target) specs
         | None \<Rightarrow> inert_type ty \<and> specs_ok tid rid solo st rst specs)))"

definition tracks :: "lifecycle \<Rightarrow> string \<Rightarrow> bool \<Rightarrow> run_status option \<Rightarrow> bool" where
  "tracks L rid solo rst \<longleftrightarrow>
     (case rst of
        None \<Rightarrow> solo \<longrightarrow> idle L
      | Some x \<Rightarrow> (\<exists>r. lc_run L rid = Some r \<and> r_status r = x) \<and>
          (solo \<longrightarrow> (\<forall>j s. active_in L j s \<longrightarrow> j = rid)))"

lemma optional_text_event:
  assumes "event_of ts (ty, sty, sid, payload, am) e" "optional_text (dict_get payload k)" "k \<notin> RESERVED_KEYS"
  shows "\<exists>x. event_optional_string e k = Inr x"
proof -
  have "dict_get (ev_payload e) k = map_option deep_freeze (dict_get payload k)"
    using assms by (simp add: event_of_def)
  then show ?thesis using assms(2)
    by (cases "dict_get payload k" rule: optional_text.cases) (simp_all add: event_optional_string_def)
qed

lemma text_event:
  assumes "event_of ts (ty, sty, sid, payload, am) e" "dict_get payload k = Some (JStr s)" "s \<noteq> []" "k \<notin> RESERVED_KEYS"
  shows "event_string e k = Inr s"
  using assms by (simp add: event_of_def event_string_def)

lemma reserved_keys [simp]:
  "''reason'' \<notin> RESERVED_KEYS" "''backend_ref'' \<notin> RESERVED_KEYS" "''artifact_id'' \<notin> RESERVED_KEYS"
  "''result_id'' \<notin> RESERVED_KEYS" "''task_id'' \<notin> RESERVED_KEYS" "''subject_type'' \<notin> RESERVED_KEYS"
  "''subject_id'' \<notin> RESERVED_KEYS" "''attempt'' \<notin> RESERVED_KEYS" "''owner_type'' \<notin> RESERVED_KEYS"
  "''owner_id'' \<notin> RESERVED_KEYS" "''plan_ref'' \<notin> RESERVED_KEYS" "''step_refs'' \<notin> RESERVED_KEYS"
  "''title'' \<notin> RESERVED_KEYS" "''objective'' \<notin> RESERVED_KEYS" "''metadata'' \<notin> RESERVED_KEYS"
  "''source_project_id'' \<notin> RESERVED_KEYS" "''destination_project_id'' \<notin> RESERVED_KEYS"
  by (simp_all add: RESERVED_KEYS_def)

lemma lifecycle_run_recorded:
  assumes "view tid evs = Some L" "lc_run L rid = Some r"
  shows "rid \<in> run_subjects evs"
proof (rule ccontr)
  assume "rid \<notin> run_subjects evs"
  from run_fold_fresh[OF this] assms show False by (auto simp: view_Some run_of_def run_fold_init_def)
qed

lemma view_inert:
  assumes L: "view tid evs = Some L" and e: "event_of ts (ty, sty, sid, payload, am) e" "ts_task_id ts = tid"
    and inert: "inert_type ty" "optional_text (dict_get payload ''reason'')"
  shows "view tid (evs @ [e]) = Some L"
proof (rule view_keep[OF L])
  have ev: "ev_event_type e = ty" "ev_correlation_id e = tid" using e by (auto simp: event_of_def)
  fix s :: task_fold show "\<exists>s'. task_step tid s e = Inr s' \<and> tf_task s' = tf_task s \<and> tf_run_ids s' = tf_run_ids s"
    using task_step_inert[of e tid s] inert(1) ev by (simp add: inert_type_def)
next
  fix rid f show "\<exists>f'. run_step rid f e = Inr f' \<and> rf_run f' = rf_run f"
  proof (rule run_step_keeps_run)
    show "\<exists>x. event_optional_string e ''reason'' = Inr x"
      by (rule optional_text_event[OF e(1) inert(2)]) simp
  qed (use e inert(1) in \<open>auto simp: event_of_def inert_type_def TASK_REDUCER_TYPES_def\<close>)
qed

lemma entities_okD:
  assumes "lifecycle_ok tid L"
  shows "task_wf (lc_task L)" "t_id (lc_task L) = tid" "owned (lc_task L)"
    "lc_run L rid = Some r \<Longrightarrow> rid \<in> set (lc_run_ids L) \<and> run_of_task tid rid r"
    "rid \<in> set (lc_run_ids L) \<Longrightarrow> \<exists>r. lc_run L rid = Some r"
  using assms by (auto simp: lifecycle_ok_def entities_ok_def)

lemma stream_ok_view:
  assumes "stream_ok tid evs" "view tid evs = Some L"
  shows "evs \<noteq> [] \<and> lifecycle_ok tid L \<and> run_subjects evs \<subseteq> set (lc_run_ids L)"
proof -
  have "view tid [] = None" by (simp add: view_def task_fold_of_def task_fold_init_def)
  with assms show ?thesis by (auto simp: stream_ok_def)
qed

lemma task_status_grows:
  assumes ok: "stream_ok tid evs" and L: "view tid evs = Some L"
    and e: "event_of ts (ty, ''task'', tid, payload, am) e" "ts_task_id ts = tid"
    and ty: "dict_get TASK_EVENT_STATUS ty = Some target" "optional_text (dict_get payload ''reason'')"
    and st: "t_status (lc_task L) = target \<or> target \<in> TASK_TRANSITIONS (t_status (lc_task L))"
    and close: "target \<in> CLOSED_TASK_STATUSES \<Longrightarrow> target \<noteq> t_status (lc_task L) \<Longrightarrow> idle L"
  shows "\<exists>t'. stream_ok tid (evs @ [e]) \<and> view tid (evs @ [e]) = Some (L\<lparr>lc_task := t'\<rparr>) \<and> t_status t' = target"
proof -
  note lok = stream_ok_view[OF ok L]
  have ev: "ev_correlation_id e = tid" "ev_subject_type e \<noteq> ''run''" "ev_subject_id e = tid"
    "dict_get TASK_EVENT_STATUS (ev_event_type e) = Some target"
    using e ty by (auto simp: event_of_def)
  have wf: "task_wf (lc_task L)" using lok entities_okD by blast
  obtain t' where t': "view tid (evs @ [e]) = Some (L\<lparr>lc_task := t'\<rparr>)" "t_status t' = target" "task_wf t'"
    "same_task (lc_task L) t'"
    using view_task_status[OF L wf ev st optional_text_event[OF e(1) ty(2)]] by auto
  have "lifecycle_step tid L (L\<lparr>lc_task := t'\<rparr>)"
    using t' st close by (intro lifecycle_step.task_move) auto
  from stream_ok_snoc[OF ok L t'(1) this] lok ev(2) t' show ?thesis by auto
qed

lemma run_status_grows:
  assumes ok: "stream_ok tid evs" and L: "view tid evs = Some L" and r: "lc_run L rid = Some r"
    and e: "event_of ts (ty, ''run'', rid, payload, am) e" "ts_task_id ts = tid"
    and ty: "dict_get RUN_EVENT_STATUS ty = Some target" "optional_text (dict_get payload ''backend_ref'')"
    and st: "r_status r = target \<or> target \<in> RUN_TRANSITIONS (r_status r)"
  shows "\<exists>r'. stream_ok tid (evs @ [e]) \<and>
    view tid (evs @ [e]) = Some (L\<lparr>lc_run := (lc_run L)(rid \<mapsto> r')\<rparr>) \<and> r_status r' = target"
proof -
  note lok = stream_ok_view[OF ok L]
  have ev: "ev_correlation_id e = tid" "ev_subject_type e = ''run''" "ev_subject_id e = rid"
    "dict_get RUN_EVENT_STATUS (ev_event_type e) = Some target"
    using e ty by (auto simp: event_of_def)
  have wf: "run_wf r" "rid \<in> set (lc_run_ids L)"
    using lok r entities_okD(4)[of tid L rid r] by (auto simp: run_of_task_def)
  obtain r' where r': "view tid (evs @ [e]) = Some (L\<lparr>lc_run := (lc_run L)(rid \<mapsto> r')\<rparr>)"
    "r_status r' = target" "run_wf r'" "same_run r r'"
    using view_run_status[OF L r wf(1) ev st optional_text_event[OF e(1) ty(2)]] by auto
  have "lifecycle_step tid L (L\<lparr>lc_run := (lc_run L)(rid \<mapsto> r')\<rparr>)"
    using r' st r by (intro lifecycle_step.run_move) auto
  from stream_ok_snoc[OF ok L r'(1) this] lok ev(3) wf(2) r' show ?thesis by auto
qed

lemma inert_grows:
  assumes ok: "stream_ok tid evs" and L: "view tid evs = Some L"
    and e: "event_of ts (ty, sty, sid, payload, am) e" "ts_task_id ts = tid"
    and inert: "inert_type ty" "optional_text (dict_get payload ''reason'')"
    and sub: "sty = ''run'' \<Longrightarrow> \<exists>r. lc_run L sid = Some r"
  shows "stream_ok tid (evs @ [e]) \<and> view tid (evs @ [e]) = Some L"
proof -
  note lok = stream_ok_view[OF ok L]
  have v: "view tid (evs @ [e]) = Some L" by (rule view_inert[OF L e inert])
  have "ev_subject_type e = ''run'' \<Longrightarrow> ev_subject_id e \<in> set (lc_run_ids L)"
    using sub e(1) entities_okD(4) lok by (fastforce simp: event_of_def)
  from stream_ok_snoc[OF ok L v lifecycle_step.keep _ this] lok v show ?thesis by blast
qed

lemma tracks_run_update:
  assumes "tracks L rid solo (Some (r_status r))" "lc_run L rid = Some r"
    "r_status r' = r_status r \<or> r_status r' \<in> RUN_TRANSITIONS (r_status r)"
  shows "tracks (L\<lparr>lc_run := (lc_run L)(rid \<mapsto> r')\<rparr>) rid solo (Some (r_status r'))"
  using assms(1) run_move_active[OF assms(2,3)] by (fastforce simp: tracks_def)

lemma tracks_closable:
  assumes "tracks L rid solo rst" "solo" "\<forall>x. rst = Some x \<longrightarrow> x \<in> TERMINAL_RUN_STATUSES"
  shows "idle L"
  using assms by (fastforce simp: tracks_def idle_def active_in_def split: option.splits)

lemma tracks_task_update [simp]: "tracks (L\<lparr>lc_task := t\<rparr>) rid solo rst = tracks L rid solo rst"
  by (simp add: tracks_def split: option.split)

lemma specs_ok_grows:
  assumes "stream_ok tid evs" "view tid evs = Some L" "t_status (lc_task L) = st" "tracks L rid solo rst"
    "specs_ok tid rid solo st rst specs" "list_all2 (event_of ts) specs es" "ts_task_id ts = tid"
  shows "stream_ok tid (evs @ es) \<and> run_subjects es \<subseteq> run_subjects evs"
  using assms
proof (induction specs arbitrary: evs L st rst es)
  case Nil
  then show ?case by (simp add: run_subjects_def)
next
  case (Cons spec specs)
  obtain ty sty sid payload am where spec: "spec = (ty, sty, sid, payload, am)" by (cases spec)
  from Cons.prems(6) obtain e es' where es: "es = e # es'" "event_of ts (ty, sty, sid, payload, am) e"
    "list_all2 (event_of ts) specs es'"
    by (cases es) (auto simp: spec)
  have sub: "ev_subject_type e = sty" "ev_subject_id e = sid" using es(2) by (auto simp: event_of_def)
  have done_if: ?case if step: "stream_ok tid (evs @ [e])" "view tid (evs @ [e]) = Some L'"
    "t_status (lc_task L') = st'" "tracks L' rid solo rst'" "specs_ok tid rid solo st' rst' specs"
    "run_subjects (evs @ [e]) = run_subjects evs" for L' st' rst'
    using Cons.IH[OF step(1-5) es(3) Cons.prems(7)] step(6) by (auto simp: es(1) run_subjects_def)
  show ?case
  proof (cases "sty = ''task''")
    case True
    note ok = Cons.prems(5)[unfolded spec specs_ok.simps if_P[OF True]]
    show ?thesis
    proof (cases "dict_get TASK_EVENT_STATUS ty")
      case (Some target)
      then have "\<exists>t'. stream_ok tid (evs @ [e]) \<and> view tid (evs @ [e]) = Some (L\<lparr>lc_task := t'\<rparr>) \<and> t_status t' = target"
        using ok True es(2) tracks_closable[OF Cons.prems(4)] Cons.prems(3)
        by (intro task_status_grows[OF Cons.prems(1,2) _ Cons.prems(7) Some]) (auto simp: may_close_def)
      then obtain t' where t': "stream_ok tid (evs @ [e])" "view tid (evs @ [e]) = Some (L\<lparr>lc_task := t'\<rparr>)"
        "t_status t' = target" by blast
      show ?thesis by (rule done_if[OF t'(1,2), of target rst]) (use t' ok Some Cons.prems sub True in auto)
    next
      case None
      then have "stream_ok tid (evs @ [e]) \<and> view tid (evs @ [e]) = Some L"
        using ok True by (intro inert_grows[OF Cons.prems(1,2) es(2) Cons.prems(7)]) auto
      then show ?thesis
        by (intro done_if[of L st rst]) (use ok None Cons.prems sub True in auto)
    qed
  next
    case False
    note ok = Cons.prems(5)[unfolded spec specs_ok.simps if_not_P[OF False]]
    then obtain s where rst: "rst = Some s" by (cases rst) auto
    with Cons.prems(4) obtain r where r: "lc_run L rid = Some r" "r_status r = s" by (auto simp: tracks_def)
    have rec: "rid \<in> run_subjects evs" using lifecycle_run_recorded[OF Cons.prems(2) r(1)] .
    show ?thesis
    proof (cases "dict_get RUN_EVENT_STATUS ty")
      case (Some target)
      then have "\<exists>r'. stream_ok tid (evs @ [e]) \<and>
          view tid (evs @ [e]) = Some (L\<lparr>lc_run := (lc_run L)(rid \<mapsto> r')\<rparr>) \<and> r_status r' = target"
        using ok es(2) rst r by (intro run_status_grows[OF Cons.prems(1,2) r(1) _ Cons.prems(7) Some]) auto
      then obtain r' where r': "stream_ok tid (evs @ [e])"
        "view tid (evs @ [e]) = Some (L\<lparr>lc_run := (lc_run L)(rid \<mapsto> r')\<rparr>)" "r_status r' = target" by blast
      have "tracks (L\<lparr>lc_run := (lc_run L)(rid \<mapsto> r')\<rparr>) rid solo (Some target)"
        using tracks_run_update[of L rid solo r r'] Cons.prems(4) r r'(3) ok rst Some by auto
      then show ?thesis
        by (intro done_if[OF r'(1,2), of st "Some target"]) (use r' ok Some Cons.prems sub rst rec in auto)
    next
      case None
      then have "stream_ok tid (evs @ [e]) \<and> view tid (evs @ [e]) = Some L"
        using ok rst r by (intro inert_grows[OF Cons.prems(1,2) es(2) Cons.prems(7)]) auto
      then show ?thesis
        by (intro done_if[of L st rst]) (use ok None Cons.prems sub rst rec in auto)
    qed
  qed
qed

section \<open>Events that do more than change a status\<close>

lemma retask_grows:
  assumes ok: "stream_ok tid evs" and L: "view tid evs = Some L"
    and e: "event_of ts (ty, ''task'', tid, payload, am) e" "ts_task_id ts = tid"
    and t': "task_wf t'" "same_task (lc_task L) t'" "t_status t' = t_status (lc_task L)"
    and step: "\<And>s. tf_task s = Some (lc_task L) \<Longrightarrow> task_step tid s e = Inr (s\<lparr>tf_task := Some t'\<rparr>)"
  shows "stream_ok tid (evs @ [e]) \<and> run_subjects [e] = {}"
proof -
  have ev: "ev_correlation_id e = tid" "ev_subject_type e \<noteq> ''run''" using e by (auto simp: event_of_def)
  have v: "view tid (evs @ [e]) = Some (L\<lparr>lc_task := t'\<rparr>)"
    using step by (intro view_task_event[OF L ev]) fastforce
  have "lifecycle_step tid L (L\<lparr>lc_task := t'\<rparr>)"
    using t' by (intro lifecycle_step.task_move) auto
  from stream_ok_snoc[OF ok L v this] stream_ok_view[OF ok L] ev(2) show ?thesis
    by (auto simp: run_subjects_def)
qed

definition text_or_absent :: "json option \<Rightarrow> bool" where
  "text_or_absent v \<longleftrightarrow> v = None \<or> (\<exists>s. v = Some (JStr s))"

definition object_or_absent :: "json option \<Rightarrow> bool" where
  "object_or_absent v \<longleftrightarrow> v = None \<or> (\<exists>kvs. v = Some (JObj kvs))"

lemma updated_grows:
  assumes ok: "stream_ok tid evs" and L: "view tid evs = Some L"
    and e: "event_of ts (''task.updated'', ''task'', tid, payload, am) e" "ts_task_id ts = tid"
    and pay: "text_or_absent (dict_get payload ''title'')" "text_or_absent (dict_get payload ''objective'')"
      "object_or_absent (dict_get payload ''metadata'')"
  shows "stream_ok tid (evs @ [e]) \<and> run_subjects [e] = {}"
proof -
  have wf: "task_wf (lc_task L)" using stream_ok_view[OF ok L] entities_okD by blast
  have get: "dict_get (ev_payload e) k = map_option deep_freeze (dict_get payload k)"
    if "k \<in> {''title'', ''objective'', ''metadata''}" for k
    using e that by (auto simp: event_of_def)
  have "\<exists>t'. task_updated (lc_task L) e = Inr t' \<and> task_wf t'"
    using pay wf unfolding task_updated_def text_or_absent_def object_or_absent_def
    by (elim disjE exE) (simp_all add: get merge_metadata_def task_post_init_def task_wf_iff)
  then obtain t' where t': "task_updated (lc_task L) e = Inr t'" "task_wf t'" by blast
  show ?thesis
    by (rule retask_grows[OF ok L e t'(2)])
      (use e t'(1) task_rewrite_Inr(1)[OF t'(1)] in \<open>auto simp: event_of_def task_step_def\<close>)
qed

lemma reassigned_grows:
  assumes ok: "stream_ok tid evs" and L: "view tid evs = Some L"
    and e: "event_of ts (''task.project_reassigned'', ''task'', tid, payload, am) e" "ts_task_id ts = tid"
    and pay: "dict_get payload ''source_project_id'' = Some (opt_json (t_project_id (lc_task L)))"
      "dict_get payload ''destination_project_id'' = Some (opt_json dest)"
      "t_project_id (ts_task ts) = t_project_id (lc_task L)" "validate_optional_id dest ''project'' = Inr ()"
  shows "stream_ok tid (evs @ [e]) \<and> run_subjects [e] = {}"
proof -
  have wf: "task_wf (lc_task L)" using stream_ok_view[OF ok L] entities_okD by blast
  have opt: "event_optional_string e ''source_project_id'' = Inr (t_project_id (lc_task L))"
    "event_optional_string e ''destination_project_id'' = Inr dest"
    using e pay by (auto simp: event_of_def event_optional_string_def opt_json_def split: option.splits)
  have "\<exists>t'. task_project_reassigned (lc_task L) e = Inr t' \<and> task_wf t'"
    using wf pay(3,4) e by (simp add: task_project_reassigned_def opt event_of_def task_post_init_def task_wf_iff)
  then obtain t' where t': "task_project_reassigned (lc_task L) e = Inr t'" "task_wf t'" by blast
  show ?thesis
    by (rule retask_grows[OF ok L e t'(2)])
      (use e t'(1) task_rewrite_Inr(2)[OF t'(1)] in \<open>auto simp: event_of_def task_step_def\<close>)
qed

lemma keep_grows:
  assumes ok: "stream_ok tid evs" and L: "view tid evs = Some L"
    and e: "event_of ts (ty, sty, sid, payload, am) e" "ts_task_id ts = tid"
    and ts: "\<And>s. tf_task s = Some (lc_task L) \<Longrightarrow>
      \<exists>s'. task_step tid s e = Inr s' \<and> tf_task s' = tf_task s \<and> tf_run_ids s' = tf_run_ids s"
    and rs: "\<And>rid f. \<exists>f'. run_step rid f e = Inr f' \<and> rf_run f' = rf_run f"
    and sub: "sty = ''run'' \<Longrightarrow> \<exists>r. lc_run L sid = Some r"
  shows "stream_ok tid (evs @ [e]) \<and> run_subjects [e] \<subseteq> run_subjects evs"
proof -
  note lok = stream_ok_view[OF ok L]
  have v: "view tid (evs @ [e]) = Some L" by (rule view_keep[OF L ts rs])
  have in_ids: "ev_subject_type e = ''run'' \<Longrightarrow> ev_subject_id e \<in> set (lc_run_ids L)"
    using sub e(1) entities_okD(4) lok by (fastforce simp: event_of_def)
  have "run_subjects [e] \<subseteq> run_subjects evs"
    using sub lifecycle_run_recorded[OF L] e(1) by (auto simp: run_subjects_def event_of_def)
  with stream_ok_snoc[OF ok L v lifecycle_step.keep _ in_ids] lok show ?thesis by blast
qed

lemma plan_grows:
  assumes ok: "stream_ok tid evs" and L: "view tid evs = Some L"
    and e: "event_of ts (''plan.created'', ''task'', tid, payload, am) e" "ts_task_id ts = tid"
    and pay: "dict_get payload ''plan_ref'' = Some (JStr p)" "p \<noteq> []"
      "dict_get payload ''step_refs'' = Some (JList (map JStr steps))"
      "\<forall>x \<in> set steps. validate_id x ''step'' = Inr x"
  shows "stream_ok tid (evs @ [e]) \<and> run_subjects [e] \<subseteq> run_subjects evs"
proof (rule keep_grows[OF ok L e])
  have ev: "ev_event_type e = ''plan.created''" "ev_subject_id e = tid" "ev_correlation_id e = tid"
    "ev_subject_type e = ''task''" "event_string e ''plan_ref'' = Inr p"
    "dict_get (ev_payload e) ''step_refs'' = Some (JTuple (map JStr steps))"
    using e pay(1,2,3) text_event[OF e(1) pay(1,2)] by (auto simp: event_of_def)
  have "smap validated_step_id (map JStr steps) = Inr steps"
    using pay(4) by (induction steps) auto
  then have plan: "\<exists>s'. plan_created s e = Inr s' \<and> tf_task s' = tf_task s \<and> tf_run_ids s' = tf_run_ids s" for s
    by (simp add: plan_created_def ev)
  show "\<exists>s'. task_step tid s e = Inr s' \<and> tf_task s' = tf_task s \<and> tf_run_ids s' = tf_run_ids s"
    if "tf_task s = Some (lc_task L)" for s
  proof -
    have "task_step tid s e = plan_created s e"
      using that by (simp add: task_step_def ev TASK_EVENT_STATUS_def)
    with plan show ?thesis by simp
  qed
  show "\<exists>f'. run_step rid f e = Inr f' \<and> rf_run f' = rf_run f" for rid f
    by (simp add: ev)
qed simp

lemma attached_grows:
  assumes ok: "stream_ok tid evs" and L: "view tid evs = Some L"
    and e: "event_of ts (ty, sty, sid, payload, am) e" "ts_task_id ts = tid"
    and ty: "ty = ''artifact.attached'' \<and> key = ''artifact_id'' \<or> ty = ''result.attached'' \<and> key = ''result_id''"
    and pay: "dict_get payload key = Some (JStr x)" "x \<noteq> []"
    and sub: "sty = ''run'' \<Longrightarrow> \<exists>r. lc_run L sid = Some r"
  shows "stream_ok tid (evs @ [e]) \<and> run_subjects [e] \<subseteq> run_subjects evs"
proof (rule keep_grows[OF ok L e _ _ sub])
  have ev: "ev_event_type e = ty" "ev_correlation_id e = tid" "event_string e key = Inr x"
    using e ty text_event[OF e(1) pay] by (auto simp: event_of_def)
  show "\<exists>s'. task_step tid s e = Inr s' \<and> tf_task s' = tf_task s \<and> tf_run_ids s' = tf_run_ids s" for s
  proof -
    have ty2: "ty \<notin> {''task.created'', ''task.updated'', ''task.project_reassigned'', ''plan.created'', ''run.created''}"
      "dict_get TASK_EVENT_STATUS ty = None"
      using ty by (auto simp: TASK_EVENT_STATUS_def)
    have "task_step tid s e = Inr s \<or> task_step tid s e = task_output_attached tid s e"
      using ty2 by (simp add: task_step_def ev(1,2) task_run_created_def split: option.split)
    moreover have "\<exists>s'. task_output_attached tid s e = Inr s'"
      using ty ev(3) by (elim disjE conjE) (simp_all add: task_output_attached_def ev(1) Let_def)
    ultimately show ?thesis using task_side_Inr(1) by fastforce
  qed
  show "\<exists>f'. run_step rid f e = Inr f' \<and> rf_run f' = rf_run f" for rid f
    using ty ev(3) by (intro run_step_keeps_run) (auto simp: ev(1) RUN_EVENT_STATUS_def)
qed

definition run_payload :: "task_state \<Rightarrow> string \<Rightarrow> string \<Rightarrow> int \<Rightarrow> json dict" where
  \<comment> \<open>the \<open>payload\<close> of \<open>run.created\<close> in \<open>create_run\<close> and \<open>retry_task\<close>\<close>
  "run_payload ts subject_type subject_id attempt_no =
     [(''task_id'', JStr (ts_task_id ts)), (''subject_type'', JStr subject_type),
      (''subject_id'', JStr subject_id), (''attempt'', JInt attempt_no),
      (''owner_type'', JStr (ow_type (t_owner_ref (ts_task ts)))),
      (''owner_id'', JStr (ow_id (t_owner_ref (ts_task ts))))] @
     (case ts_plan_ref ts of None \<Rightarrow> [] | Some p \<Rightarrow> [(''plan_ref'', JStr p)])"

lemma run_payload_get [simp]:
  "dict_get (run_payload ts sty sid a) ''task_id'' = Some (JStr (ts_task_id ts))"
  "dict_get (run_payload ts sty sid a) ''subject_type'' = Some (JStr sty)"
  "dict_get (run_payload ts sty sid a) ''subject_id'' = Some (JStr sid)"
  "dict_get (run_payload ts sty sid a) ''attempt'' = Some (JInt a)"
  "dict_get (run_payload ts sty sid a) ''owner_type'' = Some (JStr (ow_type (t_owner_ref (ts_task ts))))"
  "dict_get (run_payload ts sty sid a) ''owner_id'' = Some (JStr (ow_id (t_owner_ref (ts_task ts))))"
  by (simp_all add: run_payload_def)

lemma validate_id_nonempty: "validate_id v p = Inr x \<Longrightarrow> v \<noteq> []"
  by (auto simp: validate_id_def py_startswith_def split: if_splits)

lemma created_grows:
  assumes ok: "stream_ok tid evs" and L: "view tid evs = Some L" "t_owner_ref (lc_task L) = t_owner_ref (ts_task ts)"
    and e: "event_of ts (''run.created'', ''run'', rid, run_payload ts sty sid a, am) e" "ts_task_id ts = tid"
    and fresh: "rid \<notin> run_subjects evs"
    and sub: "sty = ''task'' \<and> sid = tid \<or> sty = ''step''" "validate_subject_id sty sid = Inr sid" "1 \<le> a"
    and st: "t_status (lc_task L) \<notin> CLOSED_TASK_STATUSES"
    and nxt: "\<And>j s. lc_run L j = Some s \<Longrightarrow> r_subject_type s = sty \<Longrightarrow> r_subject_id s = sid \<Longrightarrow> r_attempt s < a"
      "1 < a \<Longrightarrow> \<exists>j s. lc_run L j = Some s \<and> r_subject_type s = sty \<and> r_subject_id s = sid \<and> r_attempt s = a - 1"
    and excl: "\<And>j s. active_in L j s \<Longrightarrow> r_subject_type s = sty \<and> r_subject_id s \<noteq> sid"
  shows "stream_ok tid (evs @ [e]) \<and> run_subjects [e] = {rid}"
proof -
  note lok = stream_ok_view[OF ok L(1)]
  have "rid \<notin> set (lc_run_ids L)"
    using fresh lifecycle_run_recorded[OF L(1)] entities_okD(5) lok by blast
  have own: "ow_type (t_owner_ref (ts_task ts)) \<noteq> []" "ow_id (t_owner_ref (ts_task ts)) \<noteq> []"
    using entities_okD(3)[of tid L] lok L(2) by (auto simp: owned_def)
  have tid: "tid \<noteq> []"
    using entities_okD(1,2)[of tid L] lok validate_id_nonempty[of tid] by (auto simp: task_wf_iff)
  have sid: "sid \<noteq> []" "sty \<noteq> []"
    using sub validate_id_nonempty by (auto simp: validate_subject_id_def split: option.splits)
  have rid: "validate_id rid ''run'' = Inr rid" using e(1) by (simp add: event_of_def)
  have att: "event_integer e ''attempt'' = Inr a" using e(1) by (simp add: event_of_def event_integer_def)
  note texts = text_event[OF e(1)]
  obtain r where r: "view tid (evs @ [e]) =
      Some (L\<lparr>lc_run_ids := lc_run_ids L @ [rid], lc_run := (lc_run L)(rid \<mapsto> r)\<rparr>)" "r_id r = rid"
    "r_subject_type r = sty" "r_subject_id r = sid" "r_attempt r = a" "r_status r = R_QUEUED"
    "r_correlation_id r = tid" "run_wf r"
    using view_run_created[OF L(1) fresh \<open>rid \<notin> set (lc_run_ids L)\<close>, of e
        "ow_type (t_owner_ref (ts_task ts))" "ow_id (t_owner_ref (ts_task ts))" sty sid a]
      e sub own tid sid rid att texts by (auto simp: event_of_def)
  have "lifecycle_step tid L (L\<lparr>lc_run_ids := lc_run_ids L @ [rid], lc_run := (lc_run L)(rid \<mapsto> r)\<rparr>)"
  proof (rule lifecycle_step.new_run[OF \<open>rid \<notin> set (lc_run_ids L)\<close> _ r(6) st])
    show "run_of_task tid rid r" using r sub(1) by (auto simp: run_of_task_def)
    show "next_attempt_of L r"
      using nxt r(3-5) unfolding next_attempt_of_def same_subject_def by metis
  qed (use excl r(3,4) in auto)
  from stream_ok_snoc[OF ok L(1) r(1) this] lok e(1) show ?thesis
    by (auto simp: event_of_def run_subjects_def)
qed

end
