(* ===== verification/Kernel_Append.thy ===== *)
theory Kernel_Append
  imports Kernel_Specs
begin

text \<open>
  The bridge between snapshots and appends: what snapshots taken at different times say about the
  stream at the moment of a commit, and with it the conditions under which a handler may append
  its event specifications.
\<close>

definition no_active :: "task_state \<Rightarrow> 'x world \<Rightarrow> bool" where
  "no_active ts w \<longleftrightarrow> (\<forall>rid \<in> set (ts_run_ids ts). \<exists>rs.
     read_run (ts_task_id ts) (ts_revision ts) rid rs w \<and> \<not> is_active rs)"

abbreviation reads :: "task_state \<Rightarrow> 'x world \<Rightarrow> bool" where
  "reads ts \<equiv> read_task (ts_task_id ts) ts"

abbreviation reads_run :: "task_state \<Rightarrow> string \<Rightarrow> run_state \<Rightarrow> 'x world \<Rightarrow> bool" where
  "reads_run ts \<equiv> read_run (ts_task_id ts) (ts_revision ts)"

lemma no_active_stable: "kstable (no_active ts)"
  unfolding no_active_def by (intro rg.stable_ball rg.stable_ex rg.stable_conj read_run_stable rg.stable_const)

lemma view_at_commit:
  assumes "kernel_inv env N w" "w_draws w \<le> N" "reduce_task (stream w tid) tid = Inr ts"
  obtains L where "view tid (stream w tid) = Some L" "lifecycle_ok tid L" "stream_ok tid (stream w tid)"
    "lc_task L = ts_task ts" "lc_run_ids L = ts_run_ids ts"
proof -
  have ok: "stream_ok tid (stream w tid)" using assms(1,2) by (simp add: kernel_inv_def)
  obtain L where L: "view tid (stream w tid) = Some L" "lc_task L = ts_task ts" "lc_run_ids L = ts_run_ids ts"
    using view_of_reduce_task(1)[OF assms(3)] by blast
  with stream_ok_view[OF ok L(1)] ok that show ?thesis by blast
qed

lemma run_at_commit:
  assumes "view tid (stream w tid) = Some L" "read_run tid n rid rs w" "length (stream w tid) = n"
  shows "lc_run L rid = Some (rs_run rs)"
  using read_run_current[OF assms(2,3)] reduce_run_of_view[OF assms(1)] by blast

lemma idle_at_commit:
  assumes L: "view (ts_task_id ts) (stream w (ts_task_id ts)) = Some L" "lifecycle_ok (ts_task_id ts) L"
    "lc_run_ids L = ts_run_ids ts" and n: "no_active ts w"
    and len: "length (stream w (ts_task_id ts)) = ts_revision ts"
  shows "idle L"
  unfolding idle_def active_in_def
proof (intro allI notI, elim conjE)
  fix rid r assume r: "lc_run L rid = Some r" "r_status r \<notin> TERMINAL_RUN_STATUSES"
  then have "rid \<in> set (ts_run_ids ts)" using entities_okD(4)[OF L(2)] L(3) by metis
  then obtain rs where rs: "reads_run ts rid rs w" "\<not> is_active rs" using n by (auto simp: no_active_def)
  with run_at_commit[OF L(1) _ len] r show False by (auto simp: is_active_def rs_status_def)
qed

lemma subset_recorded: "run_subjects es \<subseteq> run_subjects (stream w tid) \<Longrightarrow>
    run_subjects es \<subseteq> recorded_runs w \<union> X"
  by (auto simp: recorded_runs_def)

text \<open>Status changes of a task without runs, or that leaves its runs alone.\<close>

lemma appendable_task_specs:
  assumes ok: "specs_ok (ts_task_id ts) [] solo (ts_status ts) None specs"
    and solo: "\<forall>w. P w \<longrightarrow> solo \<longrightarrow> no_active ts w"
  shows "appendable env N ts specs P"
  unfolding appendable_def
proof (intro allI impI)
  let ?tid = "ts_task_id ts"
  fix w es assume *: "kernel_inv env N w" "P w" "w_draws w \<le> N" "length (stream w ?tid) = ts_revision ts"
    "reduce_task (stream w ?tid) ?tid = Inr ts" "list_all2 (event_of ts) specs es"
  obtain L where L: "view ?tid (stream w ?tid) = Some L" "lifecycle_ok ?tid L" "stream_ok ?tid (stream w ?tid)"
    "lc_task L = ts_task ts" "lc_run_ids L = ts_run_ids ts"
    using view_at_commit[OF *(1,3,5)] by blast
  have "tracks L [] solo None"
    using idle_at_commit[OF L(1,2,5) _ *(4)] solo *(2) by (auto simp: tracks_def)
  from specs_ok_grows[OF L(3,1) _ this ok *(6) refl] L(4)
  have "stream_ok ?tid (stream w ?tid @ es)" "run_subjects es \<subseteq> run_subjects (stream w ?tid)"
    by (auto simp: ts_status_def)
  then show "stream_ok ?tid (stream w ?tid @ es) \<and> run_subjects es \<subseteq> recorded_runs w \<union> run_uuid env ` {..<w_draws w}"
    using subset_recorded by blast
qed

text \<open>Status changes around one run. A task-level run that is active is the only active run.\<close>

lemma appendable_run_specs:
  assumes rd: "\<forall>w. P w \<longrightarrow> reads_run ts rid rs w"
    and solo: "solo \<longrightarrow> is_active rs \<and> r_subject_type (rs_run rs) = ''task''"
    and ok: "(is_active rs \<Longrightarrow> ts_status ts \<notin> CLOSED_TASK_STATUSES) \<Longrightarrow>
      r_subject_type (rs_run rs) \<in> {''task'', ''step''} \<Longrightarrow>
      specs_ok (ts_task_id ts) rid solo (ts_status ts) (Some (rs_status rs)) specs"
  shows "appendable env N ts specs P"
  unfolding appendable_def
proof (intro allI impI)
  let ?tid = "ts_task_id ts"
  fix w es assume *: "kernel_inv env N w" "P w" "w_draws w \<le> N" "length (stream w ?tid) = ts_revision ts"
    "reduce_task (stream w ?tid) ?tid = Inr ts" "list_all2 (event_of ts) specs es"
  obtain L where L: "view ?tid (stream w ?tid) = Some L" "lifecycle_ok ?tid L" "stream_ok ?tid (stream w ?tid)"
    "lc_task L = ts_task ts" "lc_run_ids L = ts_run_ids ts"
    using view_at_commit[OF *(1,3,5)] by blast
  have r: "lc_run L rid = Some (rs_run rs)"
    using run_at_commit[OF L(1) _ *(4)] rd *(2) by blast
  have rt: "run_of_task ?tid rid (rs_run rs)" using entities_okD(4)[OF L(2) r] by simp
  have open_task: "ts_status ts \<notin> CLOSED_TASK_STATUSES" if "is_active rs"
    using L(2,4) r that unfolding lifecycle_ok_def idle_def active_in_def is_active_def
    by (auto simp: ts_status_def rs_status_def)
  have "j = rid" if "solo" "active_in L j s" for j s
  proof (rule ccontr)
    assume "j \<noteq> rid"
    have "active_in L rid (rs_run rs)" using r solo that(1) by (simp add: active_in_def is_active_def rs_status_def)
    from runs_exclusiveD[OF _ that(2) this \<open>j \<noteq> rid\<close>] L(2) solo that(1)
    have ne: "r_subject_type s = ''task''" "r_subject_id s \<noteq> r_subject_id (rs_run rs)"
      by (auto simp: lifecycle_ok_def)
    have "run_of_task ?tid j s" using entities_okD(4)[OF L(2)] that(2) by (auto simp: active_in_def)
    with ne rt solo that(1) show False by (auto simp: run_of_task_def)
  qed
  then have "tracks L rid solo (Some (rs_status rs))"
    using r by (auto simp: tracks_def rs_status_def)
  moreover have "specs_ok ?tid rid solo (ts_status ts) (Some (rs_status rs)) specs"
    using ok[OF open_task] rt by (auto simp: run_of_task_def)
  ultimately have "stream_ok ?tid (stream w ?tid @ es)" "run_subjects es \<subseteq> run_subjects (stream w ?tid)"
    using specs_ok_grows[OF L(3,1) _ _ _ *(6) refl, of "ts_status ts"] L(4) by (auto simp: ts_status_def)
  then show "stream_ok ?tid (stream w ?tid @ es) \<and> run_subjects es \<subseteq> recorded_runs w \<union> run_uuid env ` {..<w_draws w}"
    using subset_recorded by blast
qed

text \<open>A single event, checked against the view of the current history.\<close>

lemma appendable_single:
  assumes ok: "\<And>w e L. P w \<Longrightarrow> kernel_inv env N w \<Longrightarrow> w_draws w \<le> N \<Longrightarrow>
      length (stream w (ts_task_id ts)) = ts_revision ts \<Longrightarrow>
      view (ts_task_id ts) (stream w (ts_task_id ts)) = Some L \<Longrightarrow> lifecycle_ok (ts_task_id ts) L \<Longrightarrow>
      stream_ok (ts_task_id ts) (stream w (ts_task_id ts)) \<Longrightarrow> lc_task L = ts_task ts \<Longrightarrow>
      lc_run_ids L = ts_run_ids ts \<Longrightarrow> event_of ts spec e \<Longrightarrow>
      stream_ok (ts_task_id ts) (stream w (ts_task_id ts) @ [e]) \<and>
      run_subjects [e] \<subseteq> run_subjects (stream w (ts_task_id ts)) \<union> run_uuid env ` {..<w_draws w}"
  shows "appendable env N ts [spec] P"
  unfolding appendable_def
proof (intro allI impI)
  let ?tid = "ts_task_id ts"
  fix w es assume *: "kernel_inv env N w" "P w" "w_draws w \<le> N" "length (stream w ?tid) = ts_revision ts"
    "reduce_task (stream w ?tid) ?tid = Inr ts" "list_all2 (event_of ts) [spec] es"
  obtain L where L: "view ?tid (stream w ?tid) = Some L" "lifecycle_ok ?tid L" "stream_ok ?tid (stream w ?tid)"
    "lc_task L = ts_task ts" "lc_run_ids L = ts_run_ids ts"
    using view_at_commit[OF *(1,3,5)] by blast
  obtain e where e: "es = [e]" "event_of ts spec e" using *(6) by (auto simp: list_all2_Cons1)
  from ok[OF *(2,1,3,4) L(1,2,3,4,5) e(2)]
  show "stream_ok ?tid (stream w ?tid @ es) \<and> run_subjects es \<subseteq> recorded_runs w \<union> run_uuid env ` {..<w_draws w}"
    by (auto simp: e(1) recorded_runs_def)
qed

lemma ksafe_get_task:
  assumes "rely env N" "rstable env N P" "\<And>ts. ts_task_id ts = tid \<Longrightarrow> ksafe env N (\<lambda>w. reads ts w \<and> P w) (f ts) Q"
  shows "ksafe env N P (await (get_task env tid) f) Q"
proof (rule rg.safe_await[OF rsafe_ksafe[OF rsafe_get_task[OF assms(1,2), of tid]]])
  fix ts
  show "ksafe env N (\<lambda>w. read_task tid ts w \<and> P w) (f ts) Q"
  proof (cases "ts_task_id ts = tid")
    case True
    with assms(3)[of ts] show ?thesis by simp
  next
    case False
    then show ?thesis by (auto simp: rg.safe_def dest: read_task_id)
  qed
qed

lemma ksafe_get_run:
  assumes "rely env N" "rstable env N P" "\<forall>w. P w \<longrightarrow> reached tid n w"
    "\<And>rs. rs_run_id rs = rid \<Longrightarrow> ksafe env N (\<lambda>w. read_run tid n rid rs w \<and> P w) (f rs) Q"
  shows "ksafe env N P (await (get_run env tid rid) f) Q"
proof (rule rg.safe_await[OF rsafe_ksafe[OF rsafe_get_run[OF assms(1-3), of rid]]])
  fix rs
  show "ksafe env N (\<lambda>w. read_run tid n rid rs w \<and> P w) (f rs) Q"
  proof (cases "rs_run_id rs = rid")
    case True
    with assms(4)[of rs] show ?thesis by simp
  next
    case False
    then show ?thesis by (auto simp: rg.safe_def dest: read_run_id)
  qed
qed

text \<open>The opening of most handlers: the task, then one of its runs.\<close>

lemma ksafe_get_task_run:
  assumes "rely env N" "rstable env N P"
    "\<And>ts rs. ts_task_id ts = tid \<Longrightarrow> rs_run_id rs = rid \<Longrightarrow>
       ksafe env N (\<lambda>w. reads_run ts rid rs w \<and> reads ts w \<and> P w) (f ts rs) Q"
  shows "ksafe env N P (await (get_task env tid) (\<lambda>ts. await (get_run env tid rid) (f ts))) Q"
proof (rule ksafe_get_task[OF assms(1,2)])
  fix ts assume tid: "ts_task_id ts = tid"
  have st: "rstable env N (\<lambda>w. reads ts w \<and> P w)"
    by (intro rd.stable_conj kstable_rstable[OF read_task_stable] assms(2))
  show "ksafe env N (\<lambda>w. reads ts w \<and> P w) (await (get_run env tid rid) (f ts)) Q"
    by (rule ksafe_get_run[OF assms(1) st, where n = "ts_revision ts"])
      (use tid assms(3) in \<open>auto dest: read_task_reached\<close>)
qed

lemma reads_stable: "rstable env N (\<lambda>w. reads_run ts rid rs w \<and> reads ts w \<and> True)"
  by (intro rd.stable_conj kstable_rstable read_run_stable read_task_stable rg.stable_const)

lemma ksafe_ret: "ksafe env N P (ret x) (\<lambda>_ _. True)"
  by (rule rg.safe_ret) simp

lemma ksafe_True: "ksafe env N (\<lambda>_. True) m Q \<Longrightarrow> ksafe env N P m Q"
  by (rule rg.safe_pre) auto

lemma ksafe_then: "ksafe env N P m (\<lambda>_ _. True) \<Longrightarrow> (\<And>x. ksafe env N (\<lambda>_. True) (f x) Q) \<Longrightarrow>
    ksafe env N P (await m f) Q"
  by (rule rg.safe_await)

lemma ksafe_pure_then: "(\<And>x. r = Inr x \<Longrightarrow> ksafe env N P (f x) Q) \<Longrightarrow> ksafe env N P (await (pure r) f) Q"
  by (cases r) (auto simp: rg.safe_raise)

lemma ksafe_query:
  assumes "rely env N"
  shows "ksafe env N P (get_task env tid) (\<lambda>_ _. True)" "ksafe env N P (get_run env tid rid) (\<lambda>_ _. True)"
    "ksafe env N P (history env tid) (\<lambda>_ _. True)"
proof -
  have "ksafe env N (\<lambda>_. True) (get_task env tid) (\<lambda>_ _. True)"
    by (rule rg.safe_post[OF rsafe_ksafe[OF rsafe_get_task[OF assms]]]) auto
  then show "ksafe env N P (get_task env tid) (\<lambda>_ _. True)" by (rule ksafe_True)
  have "ksafe env N (\<lambda>_. True) (get_run env tid rid) (\<lambda>_ _. True)"
    by (rule rg.safe_post[OF rsafe_ksafe[OF rsafe_get_run[OF assms, where n = 0]]]) (auto simp: reached_def)
  then show "ksafe env N P (get_run env tid rid) (\<lambda>_ _. True)" by (rule ksafe_True)
  have "ksafe env N (\<lambda>_. True) (history env tid) (\<lambda>_ _. True)"
    by (rule rsafe_ksafe[OF rsafe_history[OF assms]]) auto
  then show "ksafe env N P (history env tid) (\<lambda>_ _. True)" by (rule ksafe_True)
qed

lemma ksafe_append:
  assumes "rely env N" "appendable env N ts specs (\<lambda>w. reads_run ts rid rs w \<and> reads ts w \<and> True)"
  shows "ksafe env N (\<lambda>w. reads_run ts rid rs w \<and> reads ts w \<and> True)
      (append_system_events env ts c a s specs) (\<lambda>_ _. True)"
    and "ksafe env N (\<lambda>w. reads_run ts rid rs w \<and> reads ts w \<and> True)
      (commit_task_command env ts key oper specs res actor src) (\<lambda>_ _. True)"
  by (intro ksafe_append_system_events[OF assms(1) reads_stable _ assms(2)]
      ksafe_commit_task_command[OF assms(1) reads_stable _ assms(2)]; simp)+

end
