(* ===== verification/Kernel_Lifecycle.thy ===== *)
theory Kernel_Lifecycle
  imports Kernel_Append
begin

text \<open>
  Lifecycle reconciliation (\<open>kernel/lifecycle.py\<close>): dispatching a started run to the lifecycle
  backend, folding the backend's snapshots into canonical events, terminal outcomes with the
  completion gate, and recovery markers. Every operation is verified under interference.
\<close>

section \<open>Event specifications\<close>

fun TERMINAL_EXECUTION_TO_RUN :: "run_status \<Rightarrow> run_status option" where
  "TERMINAL_EXECUTION_TO_RUN R_SUCCEEDED = Some R_SUCCEEDED"
| "TERMINAL_EXECUTION_TO_RUN R_FAILED = Some R_FAILED"
| "TERMINAL_EXECUTION_TO_RUN R_CANCELLED = Some R_CANCELLED"
| "TERMINAL_EXECUTION_TO_RUN R_TIMED_OUT = Some R_TIMED_OUT"
| "TERMINAL_EXECUTION_TO_RUN _ = None"

definition running_specs :: "task_state \<Rightarrow> run_state \<Rightarrow> execution_snapshot \<Rightarrow> py_error + event_spec list" where
  "running_specs ts rs snapshot =
     (if rs_status rs = R_RUNNING then Inr []
      else if rs_status rs \<noteq> R_STARTING then Inl (contract_error CONFLICT)
      else Inr ([(''run.running'', ''run'', rs_run_id rs, [], xs_adapter_metadata snapshot)] @
        (if ts_status ts = T_READY
         then [(''task.running'', ''task'', ts_task_id ts, [(''reconciled'', JBool True)], [])] else [])))"

fun task_event_for_terminal :: "run_status \<Rightarrow> string option" where
  "task_event_for_terminal R_SUCCEEDED = Some ''task.succeeded''"
| "task_event_for_terminal R_FAILED = Some ''task.failed''"
| "task_event_for_terminal R_TIMED_OUT = Some ''task.failed''"
| "task_event_for_terminal R_CANCELLED = Some ''task.cancelled''"
| "task_event_for_terminal _ = None"

definition completion_payload :: "completion_gate_decision \<Rightarrow> json dict" where
  "completion_payload decision =
     [(''reason'', JStr (''verification:'' @ completion_state_value (cg_state decision))),
      (''blocked'', JBool True),
      (''verification_state'', JStr (completion_state_value (cg_state decision))),
      (''verification_reason'', JStr (cg_reason decision)),
      (''repair_attempts_remaining'', JInt (cg_repair_attempts_remaining decision))] @
     (case cg_policy_id decision of None \<Rightarrow> [] | Some p \<Rightarrow> [(''verification_policy_id'', JStr p)]) @
     (case cg_policy_version decision of None \<Rightarrow> [] | Some v \<Rightarrow> [(''verification_policy_version'', JInt v)]) @
     (if cg_blocking_verification_ids decision = [] then []
      else [(''blocking_verification_ids'', JList (map JStr (cg_blocking_verification_ids decision)))]) @
     (case cg_subject decision of None \<Rightarrow> []
      | Some s \<Rightarrow> [(''verification_subject'',
          JObj [(''type'', JStr (vs_subject_type s)), (''id'', JStr (vs_subject_id s)),
                (''revision'', JStr (vs_revision s)), (''digest'', JStr (vs_digest s))])])"

definition completion_task_spec :: "'x kernel_env \<Rightarrow> string \<Rightarrow> ('x world, event_spec) action" where
  "completion_task_spec env task_id =
     (case env_assess env of
        None \<Rightarrow> ret (''task.succeeded'', ''task'', task_id, [], [])
      | Some assess_task_completion \<Rightarrow>
          await (assess_task_completion task_id) (\<lambda>decision.
          if cg_state decision = C_ACCEPTED
          then ret (''task.succeeded'', ''task'', task_id, [], [])
          else ret (''task.waiting'', ''task'', task_id, completion_payload decision, [])))"

definition terminal_run_specs :: "task_state \<Rightarrow> run_state \<Rightarrow> run_status \<Rightarrow> json dict \<Rightarrow>
    adapter_metadata list \<Rightarrow> bool \<Rightarrow> py_error + event_spec list" where
  "terminal_run_specs ts rs target output am allow_queued_cancel =
     sbind
       (if rs_status rs = R_QUEUED then
          if target \<noteq> R_CANCELLED \<or> \<not> allow_queued_cancel then Inl (contract_error CONFLICT) else Inr []
        else if rs_status rs = R_STARTING \<and> target \<in> {R_SUCCEEDED, R_TIMED_OUT} then
          Inr ([(''run.running'', ''run'', rs_run_id rs, [(''inferred'', JBool True)], [])] @
            (if ts_status ts = T_READY
             then [(''task.running'', ''task'', ts_task_id ts, [(''inferred'', JBool True)], [])] else []))
        else if rs_status rs = R_STARTING \<and> target \<in> {R_FAILED, R_CANCELLED} then Inr []
        else if rs_status rs \<noteq> R_RUNNING then Inl (contract_error CONFLICT)
        else Inr [])
       (\<lambda>specs. Inr (specs @
          [(''run.'' @ run_status_value target, ''run'', rs_run_id rs, [(''output'', JObj output)], am)]))"

definition terminal_task_specs :: "string \<Rightarrow> run_status \<Rightarrow> task_status \<Rightarrow> event_spec list" where
  "terminal_task_specs task_id target task_status =
     (if target = R_CANCELLED \<and> task_status = T_READY
      then [(''task.cancelled'', ''task'', task_id, [], [])]
      else case task_event_for_terminal target of
        None \<Rightarrow> []
      | Some task_event \<Rightarrow>
          let (resumed, status1) =
                (if task_status = T_WAITING \<and> target = R_SUCCEEDED
                 then ([(''task.resumed'', ''task'', task_id, [(''inferred'', JBool True)], [])], T_RUNNING)
                 else ([], task_status));
              (running, status2) =
                (if status1 = T_READY \<and> target \<in> {R_FAILED, R_TIMED_OUT}
                 then ([(''task.running'', ''task'', task_id, [(''inferred'', JBool True)], [])], T_RUNNING)
                 else ([], status1))
          in resumed @ running @
             (if status2 \<in> {T_RUNNING, T_WAITING} then [(task_event, ''task'', task_id, [], [])] else []))"

definition terminal_specs :: "'x kernel_env \<Rightarrow> task_state \<Rightarrow> run_state \<Rightarrow> run_status \<Rightarrow> json dict \<Rightarrow>
    adapter_metadata list \<Rightarrow> bool \<Rightarrow> ('x world, event_spec list) action" where
  "terminal_specs env ts rs target output am allow_queued_cancel =
     await (pure (terminal_run_specs ts rs target output am allow_queued_cancel)) (\<lambda>specs.
     if r_subject_type (rs_run rs) = ''step'' then ret specs
     else let task_status = (if list_ex (\<lambda>spec. fst spec = ''task.running'') specs then T_RUNNING
                             else ts_status ts)
          in if target = R_SUCCEEDED
             then await (completion_task_spec env (ts_task_id ts)) (\<lambda>completion_spec.
                  if fst completion_spec = ''task.waiting''
                  then ret (specs @ (if task_status \<in> {T_RUNNING, T_WAITING} then [completion_spec] else []))
                  else ret (specs @ terminal_task_specs (ts_task_id ts) target task_status))
             else ret (specs @ terminal_task_specs (ts_task_id ts) target task_status))"

section \<open>Operations\<close>

definition apply_terminal_command :: "'x kernel_env \<Rightarrow> task_state \<Rightarrow> run_state \<Rightarrow> run_status \<Rightarrow> json dict \<Rightarrow>
    string \<Rightarrow> string \<Rightarrow> string option \<Rightarrow> string \<Rightarrow> adapter_metadata list \<Rightarrow> bool \<Rightarrow> ('x world, unit) action" where
  "apply_terminal_command env ts rs target output key operation actor_ref source am allow_queued_cancel =
     await (terminal_specs env ts rs target output am allow_queued_cancel) (\<lambda>specs.
     await (commit_task_command env ts key operation specs (rs_run_id rs) actor_ref source) (\<lambda>_. ret ()))"

definition KERNEL_ACTOR :: "string option" where
  "KERNEL_ACTOR = Some ''service:platform-kernel''"

definition apply_terminal_system :: "'x kernel_env \<Rightarrow> task_state \<Rightarrow> run_state \<Rightarrow> run_status \<Rightarrow> json dict \<Rightarrow>
    string \<Rightarrow> string \<Rightarrow> adapter_metadata list \<Rightarrow> ('x world, unit) action" where
  "apply_terminal_system env ts rs target output causation_id source am =
     (if rs_status rs \<in> TERMINAL_RUN_STATUSES
      then if rs_status rs = target then ret () else raise (contract_error CONFLICT)
      else await (terminal_specs env ts rs target output am False) (\<lambda>specs.
           append_system_events env ts causation_id KERNEL_ACTOR source specs))"

definition mark_recovery_required :: "'x kernel_env \<Rightarrow> string \<Rightarrow> string \<Rightarrow> string \<Rightarrow> string \<Rightarrow>
    ('x world, unit) action" where
  "mark_recovery_required env task_id run_id reason causation_id =
     await (get_task env task_id) (\<lambda>ts.
     await (get_run env task_id run_id) (\<lambda>rs.
     if rs_recovery_required rs then ret ()
     else append_system_events env ts causation_id KERNEL_ACTOR ''recovery''
            [(''run.recovery_required'', ''run'', run_id, [(''reason'', JStr reason)], [])]))"

definition clear_recovery_if_needed :: "'x kernel_env \<Rightarrow> string \<Rightarrow> string \<Rightarrow> string \<Rightarrow> string \<Rightarrow>
    ('x world, unit) action" where
  "clear_recovery_if_needed env task_id run_id causation_id source =
     await (get_task env task_id) (\<lambda>ts.
     await (get_run env task_id run_id) (\<lambda>rs.
     if \<not> rs_recovery_required rs then ret ()
     else append_system_events env ts causation_id KERNEL_ACTOR source
            [(''run.recovery_cleared'', ''run'', run_id, [], [])]))"

definition apply_snapshot_command :: "'x kernel_env \<Rightarrow> string \<Rightarrow> string \<Rightarrow> execution_snapshot \<Rightarrow> string \<Rightarrow>
    string \<Rightarrow> string option \<Rightarrow> string \<Rightarrow> ('x world, unit) action" where
  "apply_snapshot_command env task_id run_id snapshot key operation actor_ref source =
     (if xs_run_id snapshot \<noteq> run_id then raise (contract_error BACKEND_ERROR)
      else
      await (get_task env task_id) (\<lambda>ts.
      await (get_run env task_id run_id) (\<lambda>rs.
      if xs_status snapshot = R_QUEUED then
        await (commit_task_command env ts key operation
          [(''run.refresh_observed_queued'', ''run'', run_id, [], xs_adapter_metadata snapshot)]
          run_id actor_ref source) (\<lambda>_. ret ())
      else if xs_status snapshot = R_RUNNING then
        await (pure (running_specs ts rs snapshot)) (\<lambda>specs.
        await (commit_task_command env ts key operation
          (if specs = []
           then [(''run.refresh_observed_no_change'', ''run'', run_id, [], xs_adapter_metadata snapshot)]
           else specs)
          run_id actor_ref source) (\<lambda>_. ret ()))
      else case TERMINAL_EXECUTION_TO_RUN (xs_status snapshot) of
        None \<Rightarrow> raise KeyError
      | Some target \<Rightarrow>
          apply_terminal_command env ts rs target (xs_output snapshot) key operation actor_ref source
            (xs_adapter_metadata snapshot) False)))"

definition apply_snapshot_system :: "'x kernel_env \<Rightarrow> string \<Rightarrow> string \<Rightarrow> execution_snapshot \<Rightarrow> string \<Rightarrow>
    string \<Rightarrow> ('x world, unit) action" where
  "apply_snapshot_system env task_id run_id snapshot causation_id source =
     (if xs_run_id snapshot \<noteq> run_id then raise (contract_error BACKEND_ERROR)
      else
      await (get_task env task_id) (\<lambda>ts.
      await (get_run env task_id run_id) (\<lambda>rs.
      if xs_status snapshot = R_QUEUED then ret ()
      else if xs_status snapshot = R_RUNNING then
        await (pure (running_specs ts rs snapshot)) (\<lambda>specs.
        await (if specs = [] then ret ()
               else append_system_events env ts causation_id KERNEL_ACTOR source specs) (\<lambda>_.
        clear_recovery_if_needed env task_id run_id causation_id source))
      else case TERMINAL_EXECUTION_TO_RUN (xs_status snapshot) of
        None \<Rightarrow> raise KeyError
      | Some target \<Rightarrow>
          apply_terminal_system env ts rs target (xs_output snapshot) causation_id source
            (xs_adapter_metadata snapshot))))"

definition project_running :: "'x kernel_env \<Rightarrow> string \<Rightarrow> string \<Rightarrow> string \<Rightarrow> string option \<Rightarrow> string \<Rightarrow>
    execution_handle \<Rightarrow> ('x world, unit) action" where
  \<comment> \<open>the tail of \<open>dispatch_started_run\<close>, after the backend returned its handle\<close>
  "project_running env task_id run_id causation_id actor_ref source handle =
     await (get_task env task_id) (\<lambda>ts.
     await (get_run env task_id run_id) (\<lambda>rs.
     if rs_status rs \<noteq> R_STARTING then ret ()
     else append_system_events env ts causation_id actor_ref source
       ([(''run.running'', ''run'', run_id,
          (case xh_backend_ref handle of None \<Rightarrow> [] | Some b \<Rightarrow> [(''backend_ref'', JStr b)]),
          xh_adapter_metadata handle)] @
        (if rs_recovery_required rs then [(''run.recovery_cleared'', ''run'', run_id, [], [])] else []) @
        (if ts_status ts = T_READY then [(''task.running'', ''task'', task_id, [], [])] else []))))"

definition dispatch_started_run :: "'x kernel_env \<Rightarrow> string \<Rightarrow> string \<Rightarrow> string \<Rightarrow> string option \<Rightarrow> string \<Rightarrow>
    ('x world, unit) action" where
  "dispatch_started_run env task_id run_id causation_id actor_ref source =
     await (get_task env task_id) (\<lambda>ts.
     await (get_run env task_id run_id) (\<lambda>rs.
     if rs_status rs \<noteq> R_STARTING then ret ()
     else
     await (append_system_events env ts causation_id actor_ref source
       [(''run.dispatch_attempted'', ''run'', run_id,
         [(''dispatch_attempt'', JInt (int (rs_dispatch_attempts rs) + 1))], [])]) (\<lambda>_.
     await (get_task env task_id) (\<lambda>ts.
     await (get_run env task_id run_id) (\<lambda>rs.
     await (pure (operation_context_of ts causation_id)) (\<lambda>context.
     await (pure (execution_request_post_init
       \<lparr>xq_run_id = run_id, xq_subject_type = r_subject_type (rs_run rs),
        xq_subject_id = r_subject_id (rs_run rs), xq_context = context,
        xq_input = (case ts_plan_ref ts of None \<Rightarrow> [] | Some p \<Rightarrow> [(''plan_ref'', JStr p)])\<rparr>)) (\<lambda>request.
     await (env_start env request) (\<lambda>handle.
     if xh_run_id handle \<noteq> run_id then raise (contract_error BACKEND_ERROR)
     else project_running env task_id run_id causation_id actor_ref source handle))))))))"

definition on_not_found :: "('x world, 'a) action \<Rightarrow> ('a \<Rightarrow> ('x world, 'b) action) \<Rightarrow>
    ('x world, 'b) action \<Rightarrow> ('x world, 'b) action" where
  \<comment> \<open>\<open>try: x = await m; except ContractError as exc: if exc.code is not NOT_FOUND: raise; handler; else: f(x)\<close>\<close>
  "on_not_found m f handler = (\<lambda>w. case m w of
     (Inr x, w') \<Rightarrow> f x w'
   | (Inl (ContractError NOT_FOUND retryable details), w') \<Rightarrow> handler w'
   | (Inl e, w') \<Rightarrow> (Inl e, w'))"

definition reconcile_started_run :: "'x kernel_env \<Rightarrow> string \<Rightarrow> string \<Rightarrow> string \<Rightarrow> ('x world, unit) action" where
  "reconcile_started_run env task_id run_id causation_id =
     await (get_task env task_id) (\<lambda>ts.
     await (get_run env task_id run_id) (\<lambda>rs.
     if rs_status rs \<notin> {R_STARTING, R_RUNNING} then ret ()
     else
     on_not_found
       (await (pure (operation_context_of ts causation_id)) (\<lambda>context. env_get env run_id context))
       (\<lambda>snapshot. apply_snapshot_system env task_id run_id snapshot causation_id ''retry-recovery'')
       (if rs_status rs = R_STARTING
        then dispatch_started_run env task_id run_id causation_id KERNEL_ACTOR ''retry-recovery''
        else mark_recovery_required env task_id run_id ''canonical_running_backend_not_found'' causation_id)))"

definition finish_cancel :: "'x kernel_env \<Rightarrow> string \<Rightarrow> string \<Rightarrow> string \<Rightarrow> ('x world, unit) action" where
  "finish_cancel env task_id run_id causation_id =
     await (get_task env task_id) (\<lambda>ts.
     await (get_run env task_id run_id) (\<lambda>rs.
     if rs_status rs \<in> TERMINAL_RUN_STATUSES then ret ()
     else
     await (pure (operation_context_of ts causation_id)) (\<lambda>context.
     await (env_cancel env run_id context) (\<lambda>snapshot.
     apply_snapshot_system env task_id run_id snapshot causation_id ''cancellation''))))"

end
