(* ===== verification/Kernel_Commands.thy ===== *)
theory Kernel_Commands
  imports Kernel_Lifecycle
begin

text \<open>
  The commands of the kernel: planning (\<open>PlatformKernel.plan_task\<close>), the run commands of
  \<open>kernel/run_commands.py\<close> and the task commands of \<open>kernel/task_commands.py\<close>, each the whole
  handler with its guards in the order of the source.
\<close>

section \<open>Planning\<close>

definition lookup_step :: "string dict \<Rightarrow> string \<Rightarrow> py_error + string" where
  "lookup_step step_ids key = (case dict_get step_ids key of None \<Rightarrow> Inl KeyError | Some i \<Rightarrow> Inr i)"

definition make_plan :: "'x kernel_env \<Rightarrow> task_state \<Rightarrow> provenance \<Rightarrow> ('x world, plan) action" where
  "make_plan env ts prov =
     await (new_id env ''plan'') (\<lambda>plan_id.
     await (utc_now env) (\<lambda>created.
     pure (plan_post_init
       \<lparr>p_task_id = ts_task_id ts, p_owner_ref = t_owner_ref (ts_task ts), p_id = plan_id,
        p_revision = 1, p_active = True, p_project_id = t_project_id (ts_task ts),
        p_created_at = created, p_schema_version = SCHEMA_VERSION, p_provenance = Some prov,
        p_external_refs = []\<rparr>)))"

definition make_step :: "'x kernel_env \<Rightarrow> task_state \<Rightarrow> provenance \<Rightarrow> string dict \<Rightarrow> string \<Rightarrow>
    plan_step_proposal \<Rightarrow> ('x world, step) action" where
  "make_step env ts prov step_ids plan_id proposed =
     await (pure (lookup_step step_ids (ps_key proposed))) (\<lambda>step_id.
     await (pure (smap (lookup_step step_ids) (ps_depends_on proposed))) (\<lambda>depends_on.
     await (utc_now env) (\<lambda>created.
     await (utc_now env) (\<lambda>updated.
     pure (step_post_init
       \<lparr>s_plan_id = plan_id, s_title = ps_title proposed, s_owner_ref = t_owner_ref (ts_task ts),
        s_id = step_id, s_status = S_PENDING, s_parent_step_id = None, s_depends_on = depends_on,
        s_project_id = t_project_id (ts_task ts), s_created_at = created, s_updated_at = updated,
        s_schema_version = SCHEMA_VERSION, s_provenance = Some prov, s_external_refs = []\<rparr>)))))"

definition step_payload :: "plan_step_proposal \<Rightarrow> step \<Rightarrow> json" where
  "step_payload proposed canonical =
     JObj [(''id'', JStr (s_id canonical)), (''proposal_key'', JStr (ps_key proposed)),
       (''title'', JStr (ps_title proposed)), (''objective'', JStr (ps_objective proposed)),
       (''depends_on'', JList (map JStr (s_depends_on canonical))),
       (''metadata'', JObj (ps_metadata proposed))]"

definition plan_spec :: "string \<Rightarrow> plan \<Rightarrow> plan_response \<Rightarrow> step list \<Rightarrow> event_spec" where
  "plan_spec task_id canonical_plan proposal canonical_steps =
     (''plan.created'', ''task'', task_id,
      [(''plan_ref'', JStr (p_id canonical_plan)), (''summary'', JStr (pr_summary proposal)),
       (''step_refs'', JList (map JStr (map s_id canonical_steps))),
       (''steps'', JList (map (\<lambda>(p, s). step_payload p s) (zip (pr_steps proposal) canonical_steps)))],
      pr_adapter_metadata proposal)"

definition plan_task :: "'x kernel_env \<Rightarrow> string \<Rightarrow> string \<Rightarrow> string option \<Rightarrow> string \<Rightarrow>
    ('x world, task_state) action" where
  "plan_task env idempotency_key task_id actor_ref source =
     await (get_task env task_id) (\<lambda>ts.
     await (task_command env task_id idempotency_key ''plan_task'') (\<lambda>duplicate.
     if duplicate \<noteq> None then get_task env task_id
     else if ts_status ts \<in> {T_SUCCEEDED, T_CANCELLED} then raise (contract_error CONFLICT)
     else
     await (latest_active_run env ts) (\<lambda>active.
     if active \<noteq> None then raise (contract_error CONFLICT)
     else
     await (pure (operation_context_of ts idempotency_key)) (\<lambda>context.
     await (pure (plan_request_post_init
       \<lparr>pq_task_id = task_id, pq_context = context, pq_objective = t_description (ts_task ts)\<rparr>)) (\<lambda>request.
     await (env_plan env request) (\<lambda>proposal.
     let prov = provenance_post_init \<lparr>pv_source = source,
           pv_actor_ref = Some (actor_or_owner actor_ref (t_owner_ref (ts_task ts))), pv_details = []\<rparr> in
     await (make_plan env ts prov) (\<lambda>canonical_plan.
     await (each (\<lambda>_. new_id env ''step'') (pr_steps proposal)) (\<lambda>ids.
     let step_ids = dict_update [] (zip (map ps_key (pr_steps proposal)) ids) in
     await (each (make_step env ts prov step_ids (p_id canonical_plan)) (pr_steps proposal)) (\<lambda>canonical_steps.
     await (commit_task_command env ts idempotency_key ''plan_task''
       [plan_spec task_id canonical_plan proposal canonical_steps] task_id actor_ref source) (\<lambda>_.
     get_task env task_id))))))))))"

section \<open>Run commands\<close>

definition validate_new_run :: "'x kernel_env \<Rightarrow> task_state \<Rightarrow> string \<Rightarrow> string \<Rightarrow> string \<Rightarrow> int \<Rightarrow> string \<Rightarrow>
    ('x world, unit) action" where
  \<comment> \<open>the \<open>Run(...)\<close> that \<open>create_run\<close> builds for validation\<close>
  "validate_new_run env ts run_id subject_type subject_id attempt_no idempotency_key =
     await (utc_now env) (\<lambda>created.
     await (utc_now env) (\<lambda>updated.
     await (pure (run_post_init
       \<lparr>r_subject_type = subject_type, r_subject_id = subject_id,
        r_owner_ref = t_owner_ref (ts_task ts), r_correlation_id = ts_task_id ts, r_id = run_id,
        r_attempt = attempt_no, r_status = R_QUEUED, r_project_id = t_project_id (ts_task ts),
        r_causation_id = Some idempotency_key, r_trace_id = None, r_worker_id = None,
        r_created_at = created, r_updated_at = updated, r_started_at = None, r_finished_at = None,
        r_schema_version = SCHEMA_VERSION, r_provenance = None, r_external_refs = [], r_metadata = []\<rparr>))
     (\<lambda>_. ret ())))"

definition run_start_statuses :: "string \<Rightarrow> task_status set" where
  "run_start_statuses subject_type = (if subject_type = ''task'' then {T_READY} else {T_READY, T_RUNNING})"

definition create_run :: "'x kernel_env \<Rightarrow> string \<Rightarrow> string \<Rightarrow> string \<Rightarrow> string option \<Rightarrow> string option \<Rightarrow>
    string \<Rightarrow> ('x world, run_state) action" where
  "create_run env idempotency_key task_id subject_type subject_id actor_ref source =
     await (get_task env task_id) (\<lambda>ts.
     await (task_command env task_id idempotency_key ''create_run'') (\<lambda>duplicate.
     case duplicate of
       Some c \<Rightarrow> get_run env task_id (cr_result_id c)
     | None \<Rightarrow>
     let canonical_subject_id = (case subject_id of None \<Rightarrow> task_id
                                 | Some s \<Rightarrow> if s = [] then task_id else s) in
     await (pure (validate_subject_id subject_type canonical_subject_id)) (\<lambda>_.
     await (pure (validate_run_subject ts subject_type canonical_subject_id)) (\<lambda>_.
     if ts_status ts \<notin> run_start_statuses subject_type then raise (contract_error CONFLICT)
     else
     await (active_runs env ts) (\<lambda>active.
     if active \<noteq> [] \<and> subject_type \<notin> r_subject_type ` rs_run ` set active
     then raise (contract_error CONFLICT)
     else
     await (active_run_for_subject env ts subject_type canonical_subject_id) (\<lambda>active_subject_run.
     if active_subject_run \<noteq> None then raise (contract_error CONFLICT)
     else
     await (new_id env ''run'') (\<lambda>run_id.
     await (next_attempt env ts subject_type canonical_subject_id) (\<lambda>attempt_no.
     await (validate_new_run env ts run_id subject_type canonical_subject_id attempt_no idempotency_key) (\<lambda>_.
     await (commit_task_command env ts idempotency_key ''create_run''
       [(''run.created'', ''run'', run_id, run_payload ts subject_type canonical_subject_id attempt_no, [])]
       run_id actor_ref source) (\<lambda>_.
     get_run env task_id run_id))))))))))"

definition retry_task :: "'x kernel_env \<Rightarrow> string \<Rightarrow> string \<Rightarrow> string option \<Rightarrow> string \<Rightarrow>
    ('x world, run_state) action" where
  "retry_task env idempotency_key task_id actor_ref source =
     await (get_task env task_id) (\<lambda>ts.
     await (task_command env task_id idempotency_key ''retry_task'') (\<lambda>duplicate.
     case duplicate of
       Some c \<Rightarrow> get_run env task_id (cr_result_id c)
     | None \<Rightarrow>
     if ts_status ts \<noteq> T_FAILED then raise (contract_error CONFLICT)
     else
     await (latest_active_run env ts) (\<lambda>active.
     if active \<noteq> None then raise (contract_error CONFLICT)
     else
     await (new_id env ''run'') (\<lambda>run_id.
     await (next_attempt env ts ''task'' task_id) (\<lambda>attempt_no.
     await (commit_task_command env ts idempotency_key ''retry_task''
       [(''task.ready'', ''task'', task_id, [(''retry'', JBool True)], []),
        (''run.created'', ''run'', run_id, run_payload ts ''task'' task_id attempt_no, [])]
       run_id actor_ref source) (\<lambda>_.
     get_run env task_id run_id))))))"

definition start_run :: "'x kernel_env \<Rightarrow> string \<Rightarrow> string \<Rightarrow> string \<Rightarrow> string option \<Rightarrow> string \<Rightarrow>
    ('x world, run_state) action" where
  "start_run env idempotency_key task_id run_id actor_ref source =
     await (get_task env task_id) (\<lambda>ts.
     await (get_run env task_id run_id) (\<lambda>rs.
     await (task_command env task_id idempotency_key ''start_run'') (\<lambda>duplicate.
     case duplicate of
       Some c \<Rightarrow>
         if cr_result_id c \<noteq> run_id then raise (contract_error CONFLICT)
         else await (if rs_status rs \<in> {R_STARTING, R_RUNNING}
                     then reconcile_started_run env task_id run_id (''retry:'' @ idempotency_key)
                     else ret ()) (\<lambda>_. get_run env task_id run_id)
     | None \<Rightarrow>
     if ts_status ts \<notin> run_start_statuses (r_subject_type (rs_run rs)) then raise (contract_error CONFLICT)
     else
     await (active_runs env ts) (\<lambda>active.
     if list_ex (\<lambda>a. rs_run_id a \<noteq> run_id \<and> r_subject_type (rs_run a) \<noteq> r_subject_type (rs_run rs)) active
     then raise (contract_error CONFLICT)
     else if rs_status rs \<noteq> R_QUEUED then raise (contract_error CONFLICT)
     else
     await (commit_task_command env ts idempotency_key ''start_run''
       [(''run.starting'', ''run'', run_id, [], [])] run_id actor_ref source) (\<lambda>_.
     await (dispatch_started_run env task_id run_id idempotency_key actor_ref source) (\<lambda>_.
     get_run env task_id run_id))))))"

definition start_task :: "'x kernel_env \<Rightarrow> string \<Rightarrow> string \<Rightarrow> string option \<Rightarrow> string \<Rightarrow>
    ('x world, run_state) action" where
  "start_task env idempotency_key task_id actor_ref source =
     await (get_task env task_id) (\<lambda>ts.
     await (existing_command env task_id (idempotency_key @ '':create-run'') ''create_run'') (\<lambda>existing.
     case existing of
       Some c \<Rightarrow> start_run env (idempotency_key @ '':start-run'') task_id (cr_result_id c) actor_ref source
     | None \<Rightarrow>
     if ts_status ts \<noteq> T_READY then raise (contract_error CONFLICT)
     else
     await (if ts_plan_ref ts = None
            then await (plan_task env (idempotency_key @ '':plan'') task_id actor_ref source) (\<lambda>_. ret ())
            else ret ()) (\<lambda>_.
     await (create_run env (idempotency_key @ '':create-run'') task_id ''task'' None actor_ref source) (\<lambda>run.
     start_run env (idempotency_key @ '':start-run'') task_id (rs_run_id run) actor_ref source))))"

definition refresh_run :: "'x kernel_env \<Rightarrow> string \<Rightarrow> string \<Rightarrow> string \<Rightarrow> string option \<Rightarrow> string \<Rightarrow>
    ('x world, run_state) action" where
  "refresh_run env idempotency_key task_id run_id actor_ref source =
     await (get_task env task_id) (\<lambda>ts.
     await (get_run env task_id run_id) (\<lambda>rs.
     await (task_command env task_id idempotency_key ''refresh_run'') (\<lambda>duplicate.
     if duplicate \<noteq> None then get_run env task_id run_id
     else if rs_status rs \<in> TERMINAL_RUN_STATUSES then
       await (commit_task_command env ts idempotency_key ''refresh_run''
         [(''run.refresh_ignored_terminal'', ''run'', run_id, [], [])] run_id actor_ref source) (\<lambda>_.
       get_run env task_id run_id)
     else
     on_not_found
       (await (pure (operation_context_of ts idempotency_key)) (\<lambda>context. env_get env run_id context))
       (\<lambda>snapshot.
         await (apply_snapshot_command env task_id run_id snapshot idempotency_key ''refresh_run''
           actor_ref source) (\<lambda>_.
         get_run env task_id run_id))
       (await (mark_recovery_required env task_id run_id ''backend_not_found_during_refresh'' idempotency_key) (\<lambda>_.
        await (get_task env task_id) (\<lambda>refreshed_task.
        await (commit_task_command env refreshed_task idempotency_key ''refresh_run''
          [(''run.refresh_not_found'', ''run'', run_id, [], [])] run_id actor_ref source) (\<lambda>_.
        get_run env task_id run_id)))))))"

definition record_run_outcome_once :: "'x kernel_env \<Rightarrow> string \<Rightarrow> string \<Rightarrow> string \<Rightarrow> run_status \<Rightarrow>
    json dict option \<Rightarrow> string option \<Rightarrow> string \<Rightarrow> adapter_metadata list \<Rightarrow> ('x world, run_state) action" where
  "record_run_outcome_once env idempotency_key task_id run_id status output actor_ref source am =
     await (get_task env task_id) (\<lambda>ts.
     await (get_run env task_id run_id) (\<lambda>rs.
     await (task_command env task_id idempotency_key ''record_run_outcome'') (\<lambda>duplicate.
     if duplicate \<noteq> None then get_run env task_id run_id
     else if rs_status rs \<in> TERMINAL_RUN_STATUSES then
       if rs_status rs \<noteq> status then raise (contract_error CONFLICT)
       else
       await (commit_task_command env ts idempotency_key ''record_run_outcome''
         [(''run.terminal_duplicate_ignored'', ''run'', run_id,
           [(''status'', JStr (run_status_value status))], am)] run_id actor_ref source) (\<lambda>_.
       get_run env task_id run_id)
     else if rs_status rs \<notin> {R_STARTING, R_RUNNING} then raise (contract_error CONFLICT)
     else
     await (apply_terminal_command env ts rs status (case output of None \<Rightarrow> [] | Some d \<Rightarrow> d)
       idempotency_key ''record_run_outcome'' actor_ref source am False) (\<lambda>_.
     get_run env task_id run_id))))"

definition is_stale_revision_conflict :: "py_error \<Rightarrow> bool" where
  "is_stale_revision_conflict e =
     (case e of
        ContractError code retryable details \<Rightarrow>
          code = CONFLICT \<and> retryable \<and> dict_get details ''reason'' = Some (JStr ''stale_stream_revision'')
      | _ \<Rightarrow> False)"

definition STALE_REVISION_RETRY_LIMIT :: nat where
  "STALE_REVISION_RETRY_LIMIT = 8"

fun retry_stale :: "nat \<Rightarrow> py_error option \<Rightarrow> ('w, 'a) action \<Rightarrow> ('w, 'a) action" where
  "retry_stale 0 last_stale_conflict m =
     (case last_stale_conflict of None \<Rightarrow> raise RuntimeError | Some e \<Rightarrow> raise e)"
| "retry_stale (Suc n) last_stale_conflict m =
     attempt m (\<lambda>e. if is_stale_revision_conflict e then retry_stale n (Some e) m else raise e)"

definition record_run_outcome :: "'x kernel_env \<Rightarrow> string \<Rightarrow> string \<Rightarrow> string \<Rightarrow> run_status \<Rightarrow>
    json dict option \<Rightarrow> string option \<Rightarrow> string \<Rightarrow> adapter_metadata list \<Rightarrow> ('x world, run_state) action" where
  "record_run_outcome env idempotency_key task_id run_id status output actor_ref source am =
     (if status \<notin> TERMINAL_RUN_STATUSES then raise (contract_error INVALID_REQUEST)
      else retry_stale STALE_REVISION_RETRY_LIMIT None
        (record_run_outcome_once env idempotency_key task_id run_id status output actor_ref source am))"

definition cancel_run :: "'x kernel_env \<Rightarrow> string \<Rightarrow> string \<Rightarrow> string \<Rightarrow> string option \<Rightarrow> string \<Rightarrow>
    ('x world, run_state) action" where
  "cancel_run env idempotency_key task_id run_id actor_ref source =
     await (get_task env task_id) (\<lambda>ts.
     await (get_run env task_id run_id) (\<lambda>rs.
     await (task_command env task_id idempotency_key ''cancel_run'') (\<lambda>duplicate.
     if duplicate \<noteq> None then
       await (if rs_status rs \<notin> TERMINAL_RUN_STATUSES
              then finish_cancel env task_id run_id (''retry:'' @ idempotency_key) else ret ()) (\<lambda>_.
       get_run env task_id run_id)
     else if rs_status rs \<in> TERMINAL_RUN_STATUSES then
       await (commit_task_command env ts idempotency_key ''cancel_run''
         [(''run.cancel_ignored_terminal'', ''run'', run_id,
           [(''status'', JStr (run_status_value (rs_status rs)))], [])] run_id actor_ref source) (\<lambda>_.
       get_run env task_id run_id)
     else if rs_status rs = R_QUEUED then
       await (apply_terminal_command env ts rs R_CANCELLED [] idempotency_key ''cancel_run'' actor_ref
         source [] True) (\<lambda>_.
       get_run env task_id run_id)
     else if rs_status rs \<notin> {R_STARTING, R_RUNNING} then raise (contract_error CONFLICT)
     else
     await (commit_task_command env ts idempotency_key ''cancel_run''
       [(''run.cancel_requested'', ''run'', run_id, [], [])] run_id actor_ref source) (\<lambda>_.
     await (finish_cancel env task_id run_id idempotency_key) (\<lambda>_.
     get_run env task_id run_id)))))"

section \<open>Output attachment\<close>

definition await_started_effect :: "'x kernel_env \<Rightarrow> ('x world, 'a) action \<Rightarrow> ('x world, 'a) action" where
  \<comment> \<open>the shielded operation always settles; a cancellation of the caller only surfaces afterwards\<close>
  "await_started_effect env operation =
     await operation (\<lambda>result.
     await (gets (env_interrupted env)) (\<lambda>interrupted.
     if interrupted then raise CancelledError else ret result))"

definition invalidate_completion_subject :: "'x kernel_env \<Rightarrow> string \<Rightarrow> ('x world, unit) action" where
  "invalidate_completion_subject env task_id =
     (case env_async_invalidate env of
        Some invalidate \<Rightarrow> invalidate task_id
      | None \<Rightarrow> (case env_invalidate env of None \<Rightarrow> ret () | Some invalidate \<Rightarrow> invalidate task_id))"

definition attach_output :: "'x kernel_env \<Rightarrow> string \<Rightarrow> string \<Rightarrow> string \<Rightarrow> string \<Rightarrow> string \<Rightarrow> string \<Rightarrow>
    string \<Rightarrow> string option \<Rightarrow> string option \<Rightarrow> string \<Rightarrow> ('x world, task_state) action" where
  \<comment> \<open>\<open>attach_artifact\<close> and \<open>attach_result\<close> differ in these names only\<close>
  "attach_output env pfx operation event_type payload_key idempotency_key task_id output_id run_id
     actor_ref source =
     await (pure (validate_id output_id pfx)) (\<lambda>_.
     await (get_task env task_id) (\<lambda>ts.
     await (task_command env task_id idempotency_key operation) (\<lambda>duplicate.
     if duplicate \<noteq> None then get_task env task_id
     else
     await (case run_id of
              None \<Rightarrow> ret (''task'', task_id)
            | Some rid \<Rightarrow> await (get_run env task_id rid) (\<lambda>_. ret (''run'', rid))) (\<lambda>(subject_type, subject_id).
     await (await_started_effect env
       (await (invalidate_completion_subject env task_id) (\<lambda>_.
        await (commit_task_command env ts idempotency_key operation
          [(event_type, subject_type, subject_id,
            [(''task_id'', JStr task_id), (payload_key, JStr output_id)], [])]
          subject_id actor_ref source) (\<lambda>_. ret ())))) (\<lambda>_.
     get_task env task_id)))))"

definition attach_artifact :: "'x kernel_env \<Rightarrow> string \<Rightarrow> string \<Rightarrow> string \<Rightarrow> string option \<Rightarrow> string option \<Rightarrow>
    string \<Rightarrow> ('x world, task_state) action" where
  "attach_artifact env idempotency_key task_id artifact_id run_id actor_ref source =
     attach_output env ''artifact'' ''attach_artifact'' ''artifact.attached'' ''artifact_id''
       idempotency_key task_id artifact_id run_id actor_ref source"

definition attach_result :: "'x kernel_env \<Rightarrow> string \<Rightarrow> string \<Rightarrow> string \<Rightarrow> string option \<Rightarrow> string option \<Rightarrow>
    string \<Rightarrow> ('x world, task_state) action" where
  "attach_result env idempotency_key task_id result_id run_id actor_ref source =
     attach_output env ''result'' ''attach_result'' ''result.attached'' ''result_id''
       idempotency_key task_id result_id run_id actor_ref source"

end
