(* ===== verification/Kernel_Task_Commands.thy ===== *)
theory Kernel_Task_Commands
  imports Kernel_Commands
begin

text \<open>
  The task commands of \<open>kernel/task_commands.py\<close> and the recovery of \<open>kernel/recovery.py\<close>.
\<close>

section \<open>Task commands\<close>

definition TASK_CREATE_SCOPE :: string where
  "TASK_CREATE_SCOPE = ''task:create''"

definition validate_new_task :: "'x kernel_env \<Rightarrow> string \<Rightarrow> string \<Rightarrow> string \<Rightarrow> owner_ref \<Rightarrow> string option \<Rightarrow>
    string \<Rightarrow> ('x world, unit) action" where
  \<comment> \<open>the \<open>Task(...)\<close> that \<open>create_task\<close> builds for validation\<close>
  "validate_new_task env task_id title objective owner project_id idempotency_key =
     await (utc_now env) (\<lambda>created.
     await (utc_now env) (\<lambda>updated.
     await (pure (task_post_init
       \<lparr>t_title = title, t_owner_ref = owner, t_id = task_id, t_status = T_DRAFT, t_goal_id = None,
        t_project_id = project_id, t_description = objective, t_correlation_id = Some task_id,
        t_causation_id = Some idempotency_key, t_created_at = created, t_updated_at = updated,
        t_schema_version = SCHEMA_VERSION, t_provenance = None, t_external_refs = [],
        t_metadata = []\<rparr>)) (\<lambda>_. ret ())))"

definition create_task :: "'x kernel_env \<Rightarrow> string \<Rightarrow> string \<Rightarrow> string \<Rightarrow> string \<Rightarrow> string \<Rightarrow> string option \<Rightarrow>
    string option \<Rightarrow> string option \<Rightarrow> string \<Rightarrow> ('x world, task_state) action" where
  "create_task env idempotency_key title objective owner_type owner_id project_id task_id actor_ref source =
     await (pure (require_key idempotency_key)) (\<lambda>_.
     await (existing_command env TASK_CREATE_SCOPE idempotency_key ''create_task'') (\<lambda>existing.
     case existing of
       Some c \<Rightarrow> get_task env (cr_result_id c)
     | None \<Rightarrow>
     if py_blank title \<or> py_blank objective \<or> py_blank owner_id then raise (contract_error INVALID_REQUEST)
     else if owner_type \<notin> {''user'', ''organization'', ''team'', ''service''}
     then raise (contract_error INVALID_REQUEST)
     else
     await (case task_id of
              None \<Rightarrow> new_id env ''task''
            | Some t \<Rightarrow> if t = [] then new_id env ''task'' else ret t) (\<lambda>canonical_task_id.
     await (pure (validate_id canonical_task_id ''task'')) (\<lambda>_.
     let owner = \<lparr>ow_type = owner_type, ow_id = owner_id\<rparr> in
     await (validate_new_task env canonical_task_id title objective owner project_id idempotency_key) (\<lambda>_.
     await (make_event env canonical_task_id ''task.created'' ''task'' canonical_task_id idempotency_key
       owner project_id (actor_or_owner actor_ref owner) source 1
       [(''title'', JStr title), (''objective'', JStr objective), (''owner_type'', JStr owner_type),
        (''owner_id'', JStr owner_id)] []) (\<lambda>event.
     await (pure (make_command TASK_CREATE_SCOPE idempotency_key ''create_task'' canonical_task_id
       canonical_task_id [event])) (\<lambda>command.
     await (repo_commit env canonical_task_id 0 [event] (Some command)) (\<lambda>result.
     if \<not> cm_applied result
     then await (pure (require_same_command (cm_command result) ''create_task'')) (\<lambda>duplicate.
          get_task env (cr_result_id duplicate))
     else await (mirror env [event]) (\<lambda>_. get_task env canonical_task_id)))))))))"

definition update_payload :: "string option \<Rightarrow> string option \<Rightarrow> json dict option \<Rightarrow> json dict" where
  "update_payload title objective metadata =
     (case title of None \<Rightarrow> [] | Some t \<Rightarrow> [(''title'', JStr t)]) @
     (case objective of None \<Rightarrow> [] | Some ob \<Rightarrow> [(''objective'', JStr ob)]) @
     (case metadata of None \<Rightarrow> [] | Some m \<Rightarrow> [(''metadata'', JObj m)])"

definition update_task :: "'x kernel_env \<Rightarrow> string \<Rightarrow> string \<Rightarrow> string option \<Rightarrow> string option \<Rightarrow>
    json dict option \<Rightarrow> string option \<Rightarrow> string \<Rightarrow> ('x world, task_state) action" where
  "update_task env idempotency_key task_id title objective metadata actor_ref source =
     await (get_task env task_id) (\<lambda>ts.
     await (task_command env task_id idempotency_key ''update_task'') (\<lambda>duplicate.
     if duplicate \<noteq> None then get_task env task_id
     else if ts_status ts \<in> {T_SUCCEEDED, T_CANCELLED} then raise (contract_error CONFLICT)
     else if title = None \<and> objective = None \<and> metadata = None then raise (contract_error INVALID_REQUEST)
     else if (\<exists>t \<in> set_option title. py_blank t) then raise (contract_error INVALID_REQUEST)
     else if (\<exists>t \<in> set_option objective. py_blank t) then raise (contract_error INVALID_REQUEST)
     else
     await (commit_task_command env ts idempotency_key ''update_task''
       [(''task.updated'', ''task'', task_id, update_payload title objective metadata, [])]
       task_id actor_ref source) (\<lambda>_.
     get_task env task_id)))"

definition task_status_command :: "'x kernel_env \<Rightarrow> string \<Rightarrow> string \<Rightarrow> task_state \<Rightarrow> event_spec list \<Rightarrow>
    string option \<Rightarrow> string \<Rightarrow> ('x world, task_state) action" where
  \<comment> \<open>the shared end of the handlers: commit for the task, then read it back\<close>
  "task_status_command env idempotency_key operation ts specs actor_ref source =
     await (commit_task_command env ts idempotency_key operation specs (ts_task_id ts) actor_ref source) (\<lambda>_.
     get_task env (ts_task_id ts))"

definition ready_task :: "'x kernel_env \<Rightarrow> string \<Rightarrow> string \<Rightarrow> string option \<Rightarrow> string \<Rightarrow>
    ('x world, task_state) action" where
  "ready_task env idempotency_key task_id actor_ref source =
     await (get_task env task_id) (\<lambda>ts.
     await (task_command env task_id idempotency_key ''ready_task'') (\<lambda>duplicate.
     if duplicate \<noteq> None then get_task env task_id
     else if ts_status ts \<notin> {T_DRAFT, T_FAILED} then raise (contract_error CONFLICT)
     else task_status_command env idempotency_key ''ready_task'' ts
       [(''task.ready'', ''task'', task_id, [], [])] actor_ref source))"

definition wait_task :: "'x kernel_env \<Rightarrow> string \<Rightarrow> string \<Rightarrow> string \<Rightarrow> bool \<Rightarrow> string option \<Rightarrow> string \<Rightarrow>
    ('x world, task_state) action" where
  "wait_task env idempotency_key task_id reason blocked actor_ref source =
     await (get_task env task_id) (\<lambda>ts.
     await (task_command env task_id idempotency_key ''wait_task'') (\<lambda>duplicate.
     if duplicate \<noteq> None then get_task env task_id
     else if ts_status ts \<noteq> T_RUNNING then raise (contract_error CONFLICT)
     else if py_blank reason then raise (contract_error INVALID_REQUEST)
     else task_status_command env idempotency_key ''wait_task'' ts
       [(''task.waiting'', ''task'', task_id, [(''reason'', JStr reason), (''blocked'', JBool blocked)], [])]
       actor_ref source))"

definition resume_task :: "'x kernel_env \<Rightarrow> string \<Rightarrow> string \<Rightarrow> string option \<Rightarrow> string \<Rightarrow>
    ('x world, task_state) action" where
  "resume_task env idempotency_key task_id actor_ref source =
     await (get_task env task_id) (\<lambda>ts.
     await (task_command env task_id idempotency_key ''resume_task'') (\<lambda>duplicate.
     if duplicate \<noteq> None then get_task env task_id
     else if ts_status ts \<noteq> T_WAITING then raise (contract_error CONFLICT)
     else task_status_command env idempotency_key ''resume_task'' ts
       [(''task.resumed'', ''task'', task_id, [], [])] actor_ref source))"

definition complete_task :: "'x kernel_env \<Rightarrow> string \<Rightarrow> string \<Rightarrow> string option \<Rightarrow> string \<Rightarrow>
    ('x world, task_state) action" where
  "complete_task env idempotency_key task_id actor_ref source =
     await (get_task env task_id) (\<lambda>ts.
     await (task_command env task_id idempotency_key ''complete_task'') (\<lambda>duplicate.
     if duplicate \<noteq> None then get_task env task_id
     else
     let verification_wait = (env_assess env \<noteq> None \<and> ts_status ts = T_WAITING \<and>
           (\<exists>r \<in> set_option (ts_wait_reason ts). py_startswith r ''verification:'')) in
     if ts_status ts \<noteq> T_RUNNING \<and> \<not> verification_wait then raise (contract_error CONFLICT)
     else
     await (latest_active_run env ts) (\<lambda>active.
     if active \<noteq> None then raise (contract_error CONFLICT)
     else
     await (completion_task_spec env task_id) (\<lambda>completion_spec.
     task_status_command env idempotency_key ''complete_task'' ts
       ((if ts_status ts = T_WAITING \<and> fst completion_spec = ''task.succeeded''
         then [(''task.resumed'', ''task'', task_id, [(''verification_completed'', JBool True)], [])] else []) @
        [completion_spec]) actor_ref source))))"

definition fail_task :: "'x kernel_env \<Rightarrow> string \<Rightarrow> string \<Rightarrow> string option \<Rightarrow> string option \<Rightarrow> string \<Rightarrow>
    ('x world, task_state) action" where
  "fail_task env idempotency_key task_id reason actor_ref source =
     await (get_task env task_id) (\<lambda>ts.
     await (task_command env task_id idempotency_key ''fail_task'') (\<lambda>duplicate.
     if duplicate \<noteq> None then get_task env task_id
     else if ts_status ts \<notin> {T_RUNNING, T_WAITING} then raise (contract_error CONFLICT)
     else
     await (latest_active_run env ts) (\<lambda>active.
     if active \<noteq> None then raise (contract_error CONFLICT)
     else task_status_command env idempotency_key ''fail_task'' ts
       [(''task.failed'', ''task'', task_id,
         (case reason of None \<Rightarrow> [] | Some r \<Rightarrow> [(''reason'', JStr r)]), [])] actor_ref source)))"

definition cancel_active_runs :: "'x kernel_env \<Rightarrow> string \<Rightarrow> string \<Rightarrow> run_state list \<Rightarrow> string option \<Rightarrow>
    string \<Rightarrow> ('x world, run_state list) action" where
  "cancel_active_runs env idempotency_key task_id active actor_ref source =
     each (\<lambda>run. cancel_run env (idempotency_key @ '':run:'' @ rs_run_id run) task_id (rs_run_id run)
            actor_ref source)
       (filter (\<lambda>run. r_subject_type (rs_run run) = ''step'') active @
        filter (\<lambda>run. r_subject_type (rs_run run) = ''task'') active)"

definition cancel_task :: "'x kernel_env \<Rightarrow> string \<Rightarrow> string \<Rightarrow> string option \<Rightarrow> string \<Rightarrow>
    ('x world, task_state) action" where
  "cancel_task env idempotency_key task_id actor_ref source =
     await (get_task env task_id) (\<lambda>ts.
     await (task_command env task_id idempotency_key ''cancel_task'') (\<lambda>duplicate.
     if duplicate \<noteq> None then get_task env task_id
     else if ts_status ts = T_SUCCEEDED then raise (contract_error CONFLICT)
     else if ts_status ts = T_FAILED then raise (contract_error CONFLICT)
     else if ts_status ts \<notin> {T_DRAFT, T_READY, T_RUNNING, T_WAITING, T_CANCELLED}
     then raise (contract_error CONFLICT)
     else
     await (active_runs env ts) (\<lambda>active.
     await (cancel_active_runs env idempotency_key task_id active actor_ref source) (\<lambda>_.
     await (get_task env task_id) (\<lambda>refreshed.
     await (active_runs env refreshed) (\<lambda>remaining.
     if remaining \<noteq> [] then raise (contract_error CONFLICT)
     else if ts_status refreshed \<in> {T_SUCCEEDED, T_FAILED}
     then task_status_command env idempotency_key ''cancel_task'' refreshed
       [(''task.cancel_lost_race'', ''task'', task_id,
         [(''status'', JStr (task_status_value (ts_status refreshed)))], [])] actor_ref source
     else task_status_command env idempotency_key ''cancel_task'' refreshed
       [(if ts_status refreshed = T_CANCELLED then ''task.cancel_acknowledged'' else ''task.cancelled'',
         ''task'', task_id, [], [])] actor_ref source))))))"

section \<open>Recovery\<close>

definition recover_run :: "'x kernel_env \<Rightarrow> task_state \<Rightarrow> string \<Rightarrow> ('x world, recovery_entry) action" where
  \<comment> \<open>one iteration of the loop of \<open>recover_task\<close>\<close>
  "recover_run env ts run_id =
     (let task_id = ts_task_id ts; cause = ''recovery:'' @ run_id;
          snapshot_of = await (pure (operation_context_of ts cause)) (\<lambda>context. env_get env run_id context);
          reconcile = (\<lambda>snapshot. await (apply_snapshot_system env task_id run_id snapshot cause ''recovery'')
            (\<lambda>_. ret RECONCILED)) in
     await (get_run env task_id run_id) (\<lambda>rs.
     await
       (if rs_status rs = R_QUEUED then ret QUEUED_PENDING
        else if rs_status rs = R_STARTING then
          on_not_found snapshot_of reconcile
            (await (dispatch_started_run env task_id run_id cause KERNEL_ACTOR ''recovery'') (\<lambda>_.
             ret REDISPATCHED))
        else if rs_status rs = R_RUNNING then
          on_not_found snapshot_of reconcile
            (await (mark_recovery_required env task_id run_id ''canonical_running_backend_not_found'' cause)
             (\<lambda>_. ret ORPHANED_RECONCILIATION_REQUIRED))
        else ret TERMINAL_UNCHANGED) (\<lambda>disposition.
     await (get_run env task_id run_id) (\<lambda>later.
     ret \<lparr>re_run_id = run_id, re_before = rs_status rs, re_after = rs_status later,
          re_disposition = disposition\<rparr>))))"

definition recover_task :: "'x kernel_env \<Rightarrow> string \<Rightarrow> ('x world, recovery_report) action" where
  "recover_task env task_id =
     await (get_task env task_id) (\<lambda>ts.
     await (each (recover_run env ts) (ts_run_ids ts)) (\<lambda>entries.
     ret \<lparr>rr_task_id = task_id, rr_entries = entries\<rparr>))"

definition recover_all :: "'x kernel_env \<Rightarrow> ('x world, recovery_report list) action" where
  "recover_all env =
     await (repo_list env) (\<lambda>stream_ids.
     each (recover_task env) (filter (\<lambda>sid. py_startswith sid ''task_'') stream_ids))"

end
