(* ===== verification/Kernel_Lifecycle_Safe.thy ===== *)
theory Kernel_Lifecycle_Safe
  imports Kernel_Lifecycle
begin

text \<open>
  Every operation of \<open>Kernel_Lifecycle\<close> keeps the kernel invariant and only extends histories,
  whatever runs between its awaits.
\<close>

section \<open>The built specifications follow the lifecycle\<close>

lemma inert_types [simp]:
  "inert_type ''run.dispatch_attempted''" "inert_type ''run.recovery_required''"
  "inert_type ''run.recovery_cleared''" "inert_type ''run.refresh_observed_queued''"
  "inert_type ''run.refresh_observed_no_change''" "inert_type ''run.refresh_ignored_terminal''"
  "inert_type ''run.refresh_not_found''" "inert_type ''run.terminal_duplicate_ignored''"
  "inert_type ''run.cancel_ignored_terminal''" "inert_type ''run.cancel_requested''"
  "inert_type ''task.cancel_lost_race''" "inert_type ''task.cancel_acknowledged''"
  "inert_type ''task.project_bulk_move_reserved''"
  by (simp_all add: inert_type_def TASK_REDUCER_TYPES_def TASK_EVENT_STATUS_def RUN_EVENT_STATUS_def)

lemma run_inert_specs_ok:
  assumes "inert_type ty" "dict_get RUN_EVENT_STATUS ty = None" "optional_text (dict_get payload ''reason'')"
    "optional_text (dict_get payload ''backend_ref'')"
  shows "specs_ok tid rid solo st (Some rst) [(ty, ''run'', rid, payload, am)]"
  using assms by simp

lemmas status_events = TASK_EVENT_STATUS_def RUN_EVENT_STATUS_def

lemma running_specs_ok:
  assumes "running_specs ts rs snapshot = Inr specs" "rs_run_id rs = rid"
    "is_active rs \<Longrightarrow> ts_status ts \<notin> CLOSED_TASK_STATUSES"
  shows "specs_ok (ts_task_id ts) rid False (ts_status ts) (Some (rs_status rs)) specs"
  using assms
  by (auto simp: running_specs_def status_events may_close_def CLOSED_TASK_STATUSES_def split: if_splits)

definition completion_spec_ok :: "string \<Rightarrow> event_spec \<Rightarrow> bool" where
  "completion_spec_ok tid spec \<longleftrightarrow> spec = (''task.succeeded'', ''task'', tid, [], []) \<or>
     (\<exists>payload s. spec = (''task.waiting'', ''task'', tid, payload, []) \<and> dict_get payload ''reason'' = Some (JStr s))"

lemma rsafe_completion_task_spec:
  assumes "rely env N" "rstable env N P"
  shows "rsafe env N P (completion_task_spec env tid) (\<lambda>spec w. completion_spec_ok tid spec \<and> P w)"
  unfolding completion_task_spec_def
proof (rule rd.safe_option)
  fix assess assume "env_assess env = Some assess"
  with assms(1) have "external env N (assess tid)" by (simp add: rely_def)
  from rsafe_external[OF this assms(2)]
  show "rsafe env N P (await (assess tid) (\<lambda>decision. if cg_state decision = C_ACCEPTED
      then ret (''task.succeeded'', ''task'', tid, [], [])
      else ret (''task.waiting'', ''task'', tid, completion_payload decision, [])))
      (\<lambda>spec w. completion_spec_ok tid spec \<and> P w)"
    by (rule rd.safe_await) (intro rd.safe_if rd.safe_ret; simp add: completion_spec_ok_def completion_payload_def)
qed (rule rd.safe_ret, simp add: completion_spec_ok_def)

lemma active_statuses:
  assumes "rs_status rs \<in> {R_QUEUED, R_STARTING, R_RUNNING}"
  shows "is_active rs"
  using assms by (auto simp: is_active_def TERMINAL_RUN_STATUSES_def)

lemma terminal_run_specs_cases:
  assumes "terminal_run_specs ts rs target output am allow = Inr specs" "target \<in> TERMINAL_RUN_STATUSES"
  obtains "rs_status rs = R_QUEUED" "target = R_CANCELLED"
      "specs = [(''run.cancelled'', ''run'', rs_run_id rs, [(''output'', JObj output)], am)]"
    | "rs_status rs = R_STARTING" "target \<in> {R_SUCCEEDED, R_TIMED_OUT}"
      "specs = [(''run.running'', ''run'', rs_run_id rs, [(''inferred'', JBool True)], [])] @
        (if ts_status ts = T_READY
         then [(''task.running'', ''task'', ts_task_id ts, [(''inferred'', JBool True)], [])] else []) @
        [(''run.'' @ run_status_value target, ''run'', rs_run_id rs, [(''output'', JObj output)], am)]"
    | "rs_status rs = R_STARTING \<and> target \<in> {R_FAILED, R_CANCELLED} \<or> rs_status rs = R_RUNNING"
      "specs = [(''run.'' @ run_status_value target, ''run'', rs_run_id rs, [(''output'', JObj output)], am)]"
proof (cases "rs_status rs")
  case R_QUEUED
  with assms(1) show ?thesis
    by (intro that(1)) (auto simp: terminal_run_specs_def split: if_splits)
next
  case R_STARTING
  with assms show ?thesis
    by (cases target) (auto simp: terminal_run_specs_def TERMINAL_RUN_STATUSES_def intro: that(2,3))
next
  case R_RUNNING
  with assms(1) show ?thesis
    by (intro that(3)) (auto simp: terminal_run_specs_def split: if_splits)
qed (use assms(1) in \<open>simp_all add: terminal_run_specs_def\<close>)

lemma terminal_event_status:
  assumes "target \<in> TERMINAL_RUN_STATUSES"
  shows "dict_get RUN_EVENT_STATUS (''run.'' @ run_status_value target) = Some target"
  using assms by (auto simp: TERMINAL_RUN_STATUSES_def RUN_EVENT_STATUS_def)

lemma terminal_task_specs_ok:
  assumes "target \<in> TERMINAL_RUN_STATUSES" "st \<in> {T_READY, T_RUNNING, T_WAITING}"
  shows "specs_ok tid rid True st (Some target) (terminal_task_specs tid target st)"
  using assms
  by (auto simp: TERMINAL_RUN_STATUSES_def terminal_task_specs_def TASK_EVENT_STATUS_def may_close_def)

lemma completion_specs_ok:
  assumes "completion_spec_ok tid spec" "target \<in> TERMINAL_RUN_STATUSES" "st \<in> {T_RUNNING, T_WAITING}"
    "fst spec = ''task.waiting''"
  shows "specs_ok tid rid True st (Some target) [spec]"
  using assms by (auto simp: completion_spec_ok_def TASK_EVENT_STATUS_def may_close_def CLOSED_TASK_STATUSES_def)

definition projected_status :: "task_state \<Rightarrow> event_spec list \<Rightarrow> task_status" where
  "projected_status ts specs =
     (if list_ex (\<lambda>spec. fst spec = ''task.running'') specs then T_RUNNING else ts_status ts)"

lemma terminal_prefix_ok:
  assumes specs: "terminal_run_specs ts rs target output am allow = Inr specs" "target \<in> TERMINAL_RUN_STATUSES"
    and tail: "specs_ok (ts_task_id ts) (rs_run_id rs) solo (projected_status ts specs) (Some target) tail"
  shows "specs_ok (ts_task_id ts) (rs_run_id rs) solo (ts_status ts) (Some (rs_status rs)) (specs @ tail)"
proof -
  have ne: "''run.'' @ run_status_value target \<noteq> ''task.running''" by (cases target) simp_all
  have move: "target \<in> RUN_TRANSITIONS R_RUNNING" using specs(2) by (auto simp: TERMINAL_RUN_STATUSES_def)
  from specs show ?thesis
  proof (cases rule: terminal_run_specs_cases)
    case 1
    with tail show ?thesis by (simp add: projected_status_def RUN_EVENT_STATUS_def)
  next
    case 2
    then show ?thesis
      using tail move ne terminal_event_status[OF specs(2)]
      by (auto simp: projected_status_def status_events may_close_def CLOSED_TASK_STATUSES_def)
  next
    case 3
    then show ?thesis
      using tail move ne terminal_event_status[OF specs(2)]
      by (auto simp: projected_status_def TERMINAL_RUN_STATUSES_def)
  qed
qed

definition terminal_ok :: "task_state \<Rightarrow> run_state \<Rightarrow> event_spec list \<Rightarrow> bool" where
  "terminal_ok ts rs specs \<longleftrightarrow> is_active rs \<and>
     (ts_status ts \<notin> CLOSED_TASK_STATUSES \<longrightarrow> r_subject_type (rs_run rs) \<in> {''task'', ''step''} \<longrightarrow>
      specs_ok (ts_task_id ts) (rs_run_id rs) (r_subject_type (rs_run rs) = ''task'') (ts_status ts)
        (Some (rs_status rs)) specs)"

lemma terminal_okI:
  assumes specs: "terminal_run_specs ts rs target output am allow = Inr specs" "target \<in> TERMINAL_RUN_STATUSES"
    and tail: "projected_status ts specs \<in> {T_READY, T_RUNNING, T_WAITING} \<Longrightarrow>
      specs_ok (ts_task_id ts) (rs_run_id rs) (r_subject_type (rs_run rs) = ''task'')
        (projected_status ts specs) (Some target) tail"
  shows "terminal_ok ts rs (specs @ tail)"
proof -
  have "is_active rs" using specs by (cases rule: terminal_run_specs_cases) (auto intro: active_statuses)
  moreover have "projected_status ts specs \<in> {T_READY, T_RUNNING, T_WAITING}"
    if "ts_status ts \<notin> CLOSED_TASK_STATUSES"
    using that by (cases "ts_status ts") (auto simp: projected_status_def CLOSED_TASK_STATUSES_def)
  ultimately show ?thesis
    using terminal_prefix_ok[OF specs] tail by (auto simp: terminal_ok_def)
qed

lemma rsafe_terminal_specs:
  assumes "rely env N" "rstable env N P" "target \<in> TERMINAL_RUN_STATUSES"
  shows "rsafe env N P (terminal_specs env ts rs target output am allow) (\<lambda>specs w. terminal_ok ts rs specs \<and> P w)"
  unfolding terminal_specs_def Let_def projected_status_def[symmetric]
proof (rule rd.safe_await[OF rsafe_pure], rule rd.safe_pre_const, rule rd.safe_if)
  fix specs assume specs: "terminal_run_specs ts rs target output am allow = Inr specs"
  note okI = terminal_okI[OF specs assms(3)]
  show "rsafe env N P (ret specs) (\<lambda>specs w. terminal_ok ts rs specs \<and> P w)"
    using okI[of "[]"] by (intro rd.safe_ret) simp
  assume sub: "r_subject_type (rs_run rs) \<noteq> ''step''"
  have last: "terminal_ok ts rs (specs @ terminal_task_specs (ts_task_id ts) target (projected_status ts specs))"
  proof (cases "r_subject_type (rs_run rs) = ''task''")
    case True
    with terminal_task_specs_ok[OF assms(3)] show ?thesis by (intro okI) simp
  next
    case False
    with sub okI[of "[]"] show ?thesis by (simp add: terminal_ok_def)
  qed
  have wait: "terminal_ok ts rs (specs @ (if projected_status ts specs \<in> {T_RUNNING, T_WAITING} then [spec] else []))"
    if "completion_spec_ok (ts_task_id ts) spec" "fst spec = ''task.waiting''" for spec
  proof (cases "r_subject_type (rs_run rs) = ''task''")
    case True
    with completion_specs_ok[OF that(1) assms(3) _ that(2)] show ?thesis by (intro okI) auto
  next
    case False
    with sub okI[of "[]"] show ?thesis by (simp add: terminal_ok_def)
  qed
  show "rsafe env N P (if target = R_SUCCEEDED
       then await (completion_task_spec env (ts_task_id ts)) (\<lambda>spec. if fst spec = ''task.waiting''
         then ret (specs @ (if projected_status ts specs \<in> {T_RUNNING, T_WAITING} then [spec] else []))
         else ret (specs @ terminal_task_specs (ts_task_id ts) target (projected_status ts specs)))
       else ret (specs @ terminal_task_specs (ts_task_id ts) target (projected_status ts specs)))
     (\<lambda>specs w. terminal_ok ts rs specs \<and> P w)"
    by (intro rd.safe_if rd.safe_await[OF rsafe_completion_task_spec[OF assms(1,2)]] rd.safe_pre_const rd.safe_ret)
      (use last wait in auto)
qed

section \<open>The operations\<close>

lemma terminal_appendable:
  assumes "terminal_ok ts rs specs" "rs_run_id rs = rid"
  shows "appendable env N ts specs (\<lambda>w. reads_run ts rid rs w \<and> reads ts w \<and> True)"
  using assms
  by (intro appendable_run_specs[where rs = rs and rid = rid and solo = "r_subject_type (rs_run rs) = ''task''"])
    (auto simp: terminal_ok_def)

lemma ksafe_apply_terminal_command:
  assumes "rely env N" "target \<in> TERMINAL_RUN_STATUSES" "rs_run_id rs = rid"
  shows "ksafe env N (\<lambda>w. reads_run ts rid rs w \<and> reads ts w \<and> True)
     (apply_terminal_command env ts rs target output key oper actor src am allow) (\<lambda>_ _. True)"
  unfolding apply_terminal_command_def
  by (rule rg.safe_await[OF rsafe_ksafe[OF rsafe_terminal_specs[OF assms(1) reads_stable assms(2)]]],
      rule rg.safe_pre_const, rule ksafe_then[OF ksafe_append(2)[OF assms(1) terminal_appendable]])
    (use assms(3) in \<open>auto intro: rg.safe_ret\<close>)

lemma ksafe_apply_terminal_system:
  assumes "rely env N" "target \<in> TERMINAL_RUN_STATUSES" "rs_run_id rs = rid"
  shows "ksafe env N (\<lambda>w. reads_run ts rid rs w \<and> reads ts w \<and> True)
     (apply_terminal_system env ts rs target output c src am) (\<lambda>_ _. True)"
  unfolding apply_terminal_system_def
proof (intro rg.safe_if rg.safe_ret rg.safe_raise TrueI)
  show "ksafe env N (\<lambda>w. reads_run ts rid rs w \<and> reads ts w \<and> True)
     (await (terminal_specs env ts rs target output am False) (\<lambda>specs.
        append_system_events env ts c KERNEL_ACTOR src specs)) (\<lambda>_ _. True)"
    by (rule rg.safe_await[OF rsafe_ksafe[OF rsafe_terminal_specs[OF assms(1) reads_stable assms(2)]]],
        rule rg.safe_pre_const, rule ksafe_append(1)[OF assms(1) terminal_appendable])
      (use assms(3) in auto)
qed

lemma inert_appendable:
  assumes "inert_type ty" "optional_text (dict_get payload ''reason'')" "optional_text (dict_get payload ''backend_ref'')"
  shows "appendable env N ts [(ty, ''run'', rid, payload, am)] (\<lambda>w. reads_run ts rid rs w \<and> reads ts w \<and> True)"
  using assms
  by (intro appendable_run_specs[where rs = rs and rid = rid and solo = False]) (auto simp: inert_type_def)

lemma running_appendable:
  assumes "running_specs ts rs snapshot = Inr specs" "rs_run_id rs = rid"
  shows "appendable env N ts specs (\<lambda>w. reads_run ts rid rs w \<and> reads ts w \<and> True)"
  using running_specs_ok[OF assms]
  by (intro appendable_run_specs[where rs = rs and rid = rid and solo = False]) auto

lemma stable_True: "rstable env N (\<lambda>_. True)"
  by simp

lemma ksafe_mark_recovery_required:
  assumes "rely env N"
  shows "ksafe env N (\<lambda>_. True) (mark_recovery_required env tid rid reason c) (\<lambda>_ _. True)"
  unfolding mark_recovery_required_def
proof (rule ksafe_get_task_run[OF assms stable_True], rule rg.safe_if)
  fix ts rs
  show "ksafe env N (\<lambda>w. reads_run ts rid rs w \<and> reads ts w \<and> True)
     (append_system_events env ts c KERNEL_ACTOR ''recovery''
        [(''run.recovery_required'', ''run'', rid, [(''reason'', JStr reason)], [])]) (\<lambda>_ _. True)"
    by (rule ksafe_append(1)[OF assms inert_appendable]) simp_all
qed (simp add: rg.safe_ret)

lemma ksafe_clear_recovery_if_needed:
  assumes "rely env N"
  shows "ksafe env N (\<lambda>_. True) (clear_recovery_if_needed env tid rid c src) (\<lambda>_ _. True)"
  unfolding clear_recovery_if_needed_def
proof (rule ksafe_get_task_run[OF assms stable_True], rule rg.safe_if)
  fix ts rs
  show "ksafe env N (\<lambda>w. reads_run ts rid rs w \<and> reads ts w \<and> True)
     (append_system_events env ts c KERNEL_ACTOR src
        [(''run.recovery_cleared'', ''run'', rid, [], [])]) (\<lambda>_ _. True)"
    by (rule ksafe_append(1)[OF assms inert_appendable]) simp_all
qed (simp add: rg.safe_ret)

lemma terminal_execution: "TERMINAL_EXECUTION_TO_RUN s = Some target \<Longrightarrow> target \<in> TERMINAL_RUN_STATUSES"
  by (cases s) (auto simp: TERMINAL_RUN_STATUSES_def)

lemma ksafe_apply_snapshot_command:
  assumes "rely env N"
  shows "ksafe env N (\<lambda>_. True) (apply_snapshot_command env tid rid snapshot key oper actor src) (\<lambda>_ _. True)"
  unfolding apply_snapshot_command_def
proof (rule rg.safe_if[OF rg.safe_raise], rule ksafe_get_task_run[OF assms stable_True],
    intro rg.safe_if rg.safe_option rg.safe_raise)
  fix ts rs assume rid: "rs_run_id rs = rid"
  let ?P = "\<lambda>w. reads_run ts rid rs w \<and> reads ts w \<and> True"
  show "ksafe env N ?P (await (commit_task_command env ts key oper
      [(''run.refresh_observed_queued'', ''run'', rid, [], xs_adapter_metadata snapshot)] rid actor src) (\<lambda>_. ret ()))
      (\<lambda>_ _. True)"
    by (rule ksafe_then[OF ksafe_append(2)[OF assms inert_appendable]]) (simp_all add: rg.safe_ret)
  show "ksafe env N ?P (await (pure (running_specs ts rs snapshot)) (\<lambda>specs.
      await (commit_task_command env ts key oper (if specs = []
        then [(''run.refresh_observed_no_change'', ''run'', rid, [], xs_adapter_metadata snapshot)]
        else specs) rid actor src) (\<lambda>_. ret ()))) (\<lambda>_ _. True)"
  proof (rule ksafe_pure_then)
    fix specs assume run: "running_specs ts rs snapshot = Inr specs"
    have "appendable env N ts (if specs = []
        then [(''run.refresh_observed_no_change'', ''run'', rid, [], xs_adapter_metadata snapshot)] else specs) ?P"
    proof (cases "specs = []")
      case True
      show ?thesis unfolding if_P[OF True] by (rule inert_appendable) simp_all
    next
      case False
      show ?thesis unfolding if_not_P[OF False] by (rule running_appendable[OF run rid])
    qed
    from ksafe_then[OF ksafe_append(2)[OF assms this] ksafe_ret]
    show "ksafe env N ?P (await (commit_task_command env ts key oper (if specs = []
        then [(''run.refresh_observed_no_change'', ''run'', rid, [], xs_adapter_metadata snapshot)]
        else specs) rid actor src) (\<lambda>_. ret ())) (\<lambda>_ _. True)" .
  qed
  show "ksafe env N ?P (apply_terminal_command env ts rs target (xs_output snapshot) key oper actor src
      (xs_adapter_metadata snapshot) False) (\<lambda>_ _. True)"
    if "TERMINAL_EXECUTION_TO_RUN (xs_status snapshot) = Some target" for target
    by (rule ksafe_apply_terminal_command[OF assms terminal_execution[OF that] rid])
qed

lemma ksafe_apply_snapshot_system:
  assumes "rely env N"
  shows "ksafe env N (\<lambda>_. True) (apply_snapshot_system env tid rid snapshot c src) (\<lambda>_ _. True)"
  unfolding apply_snapshot_system_def
proof (rule rg.safe_if[OF rg.safe_raise], rule ksafe_get_task_run[OF assms stable_True],
    intro rg.safe_if rg.safe_option rg.safe_raise rg.safe_ret TrueI)
  fix ts rs assume rid: "rs_run_id rs = rid"
  let ?P = "\<lambda>w. reads_run ts rid rs w \<and> reads ts w \<and> True"
  show "ksafe env N ?P (await (pure (running_specs ts rs snapshot)) (\<lambda>specs.
      await (if specs = [] then ret () else append_system_events env ts c KERNEL_ACTOR src specs) (\<lambda>_.
      clear_recovery_if_needed env tid rid c src))) (\<lambda>_ _. True)"
  proof (rule ksafe_pure_then, rule ksafe_then[OF rg.safe_if ksafe_clear_recovery_if_needed[OF assms]])
    fix specs assume run: "running_specs ts rs snapshot = Inr specs"
    show "ksafe env N ?P (append_system_events env ts c KERNEL_ACTOR src specs) (\<lambda>_ _. True)"
      by (rule ksafe_append(1)[OF assms running_appendable[OF run rid]])
  qed (rule rg.safe_ret, simp)
  show "ksafe env N ?P (apply_terminal_system env ts rs target (xs_output snapshot) c src
      (xs_adapter_metadata snapshot)) (\<lambda>_ _. True)"
    if "TERMINAL_EXECUTION_TO_RUN (xs_status snapshot) = Some target" for target
    by (rule ksafe_apply_terminal_system[OF assms terminal_execution[OF that] rid])
qed

lemma ksafe_project_running:
  assumes "rely env N"
  shows "ksafe env N (\<lambda>_. True) (project_running env tid rid c actor src handle) (\<lambda>_ _. True)"
  unfolding project_running_def
proof (rule ksafe_get_task_run[OF assms stable_True], rule rg.safe_if[OF ksafe_ret],
    rule ksafe_append(1)[OF assms], goal_cases)
  case (1 ts rs)
  then show ?case
    by (intro appendable_run_specs[where rs = rs and rid = rid and solo = False])
      (auto simp: status_events may_close_def CLOSED_TASK_STATUSES_def inert_type_def TASK_REDUCER_TYPES_def
        split: option.splits)
qed

lemma ksafe_dispatch_started_run:
  assumes "rely env N"
  shows "ksafe env N (\<lambda>_. True) (dispatch_started_run env tid rid c actor src) (\<lambda>_ _. True)"
  unfolding dispatch_started_run_def
proof (rule ksafe_get_task_run[OF assms stable_True], rule rg.safe_if[OF ksafe_ret], rule ksafe_then)
  fix ts rs
  show "ksafe env N (\<lambda>w. reads_run ts rid rs w \<and> reads ts w \<and> True)
     (append_system_events env ts c actor src [(''run.dispatch_attempted'', ''run'', rid,
        [(''dispatch_attempt'', JInt (int (rs_dispatch_attempts rs) + 1))], [])]) (\<lambda>_ _. True)"
    by (rule ksafe_append(1)[OF assms inert_appendable]) simp_all
next
  have start: "ksafe env N (\<lambda>_. True) (env_start env q) (\<lambda>_ _. True)" for q
    using assms by (intro ksafe_external) (simp add: rely_def)
  show "ksafe env N (\<lambda>_. True) (await (get_task env tid) (\<lambda>ts. await (get_run env tid rid) (\<lambda>rs.
     await (pure (operation_context_of ts c)) (\<lambda>context. await (pure (execution_request_post_init
       \<lparr>xq_run_id = rid, xq_subject_type = r_subject_type (rs_run rs), xq_subject_id = r_subject_id (rs_run rs),
        xq_context = context,
        xq_input = (case ts_plan_ref ts of None \<Rightarrow> [] | Some p \<Rightarrow> [(''plan_ref'', JStr p)])\<rparr>)) (\<lambda>request.
     await (env_start env request) (\<lambda>handle.
     if xh_run_id handle \<noteq> rid then raise (contract_error BACKEND_ERROR)
     else project_running env tid rid c actor src handle)))))) (\<lambda>_ _. True)"
    by (intro ksafe_get_task_run[OF assms stable_True] ksafe_pure_then ksafe_then[OF ksafe_True[OF start]]
        rg.safe_if rg.safe_raise ksafe_project_running[OF assms])
qed

lemma ksafe_on_not_found:
  assumes "ksafe env N (\<lambda>_. True) m (\<lambda>_ _. True)" "\<And>x. ksafe env N (\<lambda>_. True) (f x) Q"
    "ksafe env N (\<lambda>_. True) handler Q"
  shows "ksafe env N (\<lambda>_. True) (on_not_found m f handler) Q"
proof (rule rg.safeI)
  fix w r w' assume *: "kernel_inv env N w" "on_not_found m f handler w = (r, w')"
  obtain r1 w1 where m: "m w = (r1, w1)" by (cases "m w")
  note 1 = rg.safeD[OF assms(1) *(1) TrueI m]
  have next_step: "kernel_inv env N w' \<and> evolves w w' \<and> (\<forall>x. r = Inr x \<longrightarrow> Q x w')"
    if "ksafe env N (\<lambda>_. True) n Q" "n w1 = (r, w')" for n
    using rg.safeD[OF that(1) 1(1) TrueI that(2)] 1(2) evolves_trans by blast
  show "kernel_inv env N w' \<and> evolves w w' \<and> (\<forall>x. r = Inr x \<longrightarrow> Q x w')"
  proof (cases r1)
    case (Inr x)
    then show ?thesis using * m next_step[OF assms(2)[of x]] by (simp add: on_not_found_def)
  next
    case (Inl e)
    have "handler w1 = (r, w') \<or> (r, w') = (Inl e, w1)"
      using *(2) m Inl by (auto simp: on_not_found_def split: py_error.splits error_code.splits)
    then show ?thesis using next_step[OF assms(3)] 1 by auto
  qed
qed

lemma ksafe_env_get:
  assumes "rely env N"
  shows "ksafe env N (\<lambda>_. True) (await (pure r) (\<lambda>context. env_get env rid context)) (\<lambda>_ _. True)"
    "ksafe env N (\<lambda>_. True) (env_cancel env rid context) (\<lambda>_ _. True)"
proof -
  have "external env N (env_get env rid cx)" "external env N (env_cancel env rid context)" for cx
    using assms by (simp_all add: rely_def)
  then show "ksafe env N (\<lambda>_. True) (await (pure r) (\<lambda>context. env_get env rid context)) (\<lambda>_ _. True)"
    "ksafe env N (\<lambda>_. True) (env_cancel env rid context) (\<lambda>_ _. True)"
    by (blast intro: ksafe_pure_then ksafe_external)+
qed

lemma ksafe_reconcile_started_run:
  assumes "rely env N"
  shows "ksafe env N (\<lambda>_. True) (reconcile_started_run env tid rid c) (\<lambda>_ _. True)"
  unfolding reconcile_started_run_def
  by (rule ksafe_get_task_run[OF assms stable_True], rule rg.safe_if[OF ksafe_ret],
      rule ksafe_True, rule ksafe_on_not_found[OF ksafe_env_get(1)[OF assms] ksafe_apply_snapshot_system[OF assms]])
    (simp add: ksafe_dispatch_started_run[OF assms] ksafe_mark_recovery_required[OF assms])

lemma ksafe_finish_cancel:
  assumes "rely env N"
  shows "ksafe env N (\<lambda>_. True) (finish_cancel env tid rid c) (\<lambda>_ _. True)"
  unfolding finish_cancel_def
  by (rule ksafe_get_task_run[OF assms stable_True], rule rg.safe_if[OF ksafe_ret],
      rule ksafe_pure_then, rule ksafe_then[OF ksafe_True[OF ksafe_env_get(2)[OF assms]]
        ksafe_apply_snapshot_system[OF assms]])

end
