(* ===== verification/Kernel_Recorded.thy ===== *)
theory Kernel_Recorded
  imports Kernel_Append
begin

text \<open>
  A task command that returned is durably recorded: the repository binds its idempotency key to its
  operation, whatever ran between its awaits. A retry with the same key therefore finds it.
\<close>

definition key_bound :: "string \<Rightarrow> string \<Rightarrow> string \<Rightarrow> 'x world \<Rightarrow> bool" where
  "key_bound tid key oper w \<longleftrightarrow> (\<exists>c. find_command (w_repo w) tid key = Some c \<and> cr_operation c = oper)"

lemma key_bound_stable: "kstable (key_bound tid key oper)"
  unfolding rg.stable_def key_bound_def evolves_def mem.grows_def by blast

lemma rsafe_existing_command_bound:
  assumes "rely env N" "rstable env N P"
  shows "rsafe env N P (existing_command env tid key oper)
     (\<lambda>dup w. (dup \<noteq> None \<longrightarrow> key_bound tid key oper w) \<and> P w)"
  unfolding existing_command_def
proof (rule rd.safe_await)
  show "rsafe env N P (repo_find env tid key) (\<lambda>c w. find_command (w_repo w) tid key = c \<and> P w)"
    unfolding repo_find_def by (rule rsafe_suspend_gets[OF assms]) simp
next
  fix c
  show "rsafe env N (\<lambda>w. find_command (w_repo w) tid key = c \<and> P w)
     (if c = None then ret None else await (pure (require_same_command c oper)) (\<lambda>c. ret (Some c)))
     (\<lambda>dup w. (dup \<noteq> None \<longrightarrow> key_bound tid key oper w) \<and> P w)"
  proof (cases c)
    case (Some r)
    show ?thesis unfolding Some
      by (cases "cr_operation r = oper")
        (auto simp: require_same_command_def key_bound_def intro!: rd.safe_ret rd.safe_raise)
  qed (auto intro!: rd.safe_ret)
qed

lemma rsafe_task_command_bound:
  assumes "rely env N" "rstable env N P"
  shows "rsafe env N P (task_command env tid key oper)
     (\<lambda>dup w. (dup \<noteq> None \<longrightarrow> key_bound tid key oper w) \<and> P w)"
  unfolding task_command_def
  by (rule rd.safe_await[OF rsafe_pure], rule rd.safe_pre[OF rsafe_existing_command_bound[OF assms]]) auto

lemma commit_binds:
  assumes "commit sid n es (Some c) r = (Inr res, r')"
  shows "find_command r' (cr_scope c) (cr_idempotency_key c) =
    (if cm_applied res then Some c else cm_command res)"
proof (cases "cm_applied res")
  case True
  with mem.put_applied[OF TrueI assms] show ?thesis by simp
next
  case False
  with mem.put_duplicate[OF TrueI assms] show ?thesis by auto
qed

lemma ksafe_repo_commit_bound:
  assumes "rely env N" "rstable env N P"
    and "ksafe env N P (repo_commit env sid n es (Some c)) (\<lambda>_ _. True)"
    and "cr_scope c = tid" "cr_idempotency_key c = key" "cr_operation c = oper"
  shows "ksafe env N P (repo_commit env sid n es (Some c))
     (\<lambda>res w. find_command (w_repo w) tid key = (if cm_applied res then Some c else cm_command res))"
proof (rule rg.safeI)
  fix w r w' assume *: "kernel_inv env N w" "P w" "repo_commit env sid n es (Some c) w = (r, w')"
  have "find_command (w_repo w') tid key = (if cm_applied res then Some c else cm_command res)" if "r = Inr res" for res
  proof -
    from *(3) that obtain w1 where w1: "on_repo (commit sid (int n) es (Some c)) w1 = (Inr res, w')"
      by (auto simp: repo_commit_def await_Inr_iff)
    obtain q r' where put: "commit sid (int n) es (Some c) (w_repo w1) = (q, r')"
      by (cases "commit sid (int n) es (Some c) (w_repo w1)")
    with w1 have "q = Inr res" "w' = w1\<lparr>w_repo := r'\<rparr>" by (auto simp: on_repo_def)
    note put[unfolded this(1)] this(2)
    with commit_binds[of sid "int n" es c "w_repo w1" res r'] assms(4,5) show ?thesis by simp
  qed
  with rg.safeD[OF assms(3) *] show "kernel_inv env N w' \<and> evolves w w' \<and>
      (\<forall>x. r = Inr x \<longrightarrow> find_command (w_repo w') tid key = (if cm_applied x then Some c else cm_command x))" by simp
qed

lemma ksafe_commit_bound:
  assumes rely: "rely env N" and st: "rstable env N P" and rd: "\<forall>w. P w \<longrightarrow> reads ts w"
    and ap: "appendable env N ts specs P"
  shows "ksafe env N P (commit_task_command env ts key oper specs res actor src)
     (\<lambda>_. key_bound (ts_task_id ts) key oper)"
  unfolding commit_task_command_def
proof (rule ksafe_pure_then, rule rg.safe_await[OF rsafe_ksafe[OF rsafe_existing_command_bound[OF rely st]]],
    rule rg.safe_option, goal_cases)
  case (2 _ _ c)
  then show ?case by (intro rg.safe_ret) simp
next
  case (1 _ dup)
  let ?tid = "ts_task_id ts"
  show ?case
  proof (rule rg.safe_pre[where P' = P], rule rg.safe_await[OF rsafe_ksafe[OF rsafe_build_events[OF st]]], rule ksafe_pure_then,
      rule rg.safe_await)
    fix es c assume cmd: "make_command ?tid key oper ?tid res es = Inr c"
    then have c: "\<forall>c'. Some c = Some c' \<longrightarrow> cr_stream_id c' = ?tid \<and> cr_event_id c' \<in> ev_id ` set es"
      and f: "cr_scope c = ?tid" "cr_idempotency_key c = key" "cr_operation c = oper"
      by (auto simp: make_command_def split: list.splits)
    have st': "rstable env N (\<lambda>w. list_all2 (event_of ts) specs es \<and> P w)" by (intro rd.stable_conj rd.stable_const st)
    show "ksafe env N (\<lambda>w. list_all2 (event_of ts) specs es \<and> P w) (repo_commit env ?tid (ts_revision ts) es (Some c))
       (\<lambda>res w. find_command (w_repo w) ?tid key = (if cm_applied res then Some c else cm_command res))"
      by (rule ksafe_repo_commit_bound[OF rely st' ksafe_append_commit[OF rely st rd ap c] f])
  next
    fix es c result assume cmd: "make_command ?tid key oper ?tid res es = Inr c"
    then have f: "cr_operation c = oper" by (auto simp: make_command_def split: list.splits)
    let ?F = "\<lambda>w. find_command (w_repo w) ?tid key = (if cm_applied result then Some c else cm_command result)"
    have "ksafe env N ?F (pure (require_same_command (cm_command result) oper)) (\<lambda>_. key_bound ?tid key oper)"
      if "\<not> cm_applied result"
      using that by (intro rg.safe_pure) (auto simp: require_same_command_def key_bound_def split: option.splits if_splits)
    moreover have "ksafe env N ?F (await (mirror env es) (\<lambda>_. ret c)) (\<lambda>_. key_bound ?tid key oper)"
      if "cm_applied result"
    proof (rule rg.safe_pre)
      show "ksafe env N (key_bound ?tid key oper) (await (mirror env es) (\<lambda>_. ret c)) (\<lambda>_. key_bound ?tid key oper)"
        by (rule rg.safe_await_frame[OF key_bound_stable ksafe_True[OF ksafe_mirror[OF rely]]], rule rg.safe_ret) simp
    qed (use f that in \<open>simp add: key_bound_def\<close>)
    ultimately show "ksafe env N ?F (if \<not> cm_applied result then pure (require_same_command (cm_command result) oper)
        else await (mirror env es) (\<lambda>_. ret c)) (\<lambda>_. key_bound ?tid key oper)" by simp
  qed simp
qed

section \<open>Reading back\<close>

lemma ksafe_get_task_bound:
  assumes "rely env N"
  shows "ksafe env N (key_bound tid key oper) (get_task env tid') (\<lambda>_. key_bound tid key oper)"
  using rg.safe_frame[OF key_bound_stable ksafe_query(1)[OF assms, of "\<lambda>_. True"]] by (rule rg.safe_weaken) auto

end
