(* ===== verification/Kernel_Commands_Safe.thy ===== *)
theory Kernel_Commands_Safe
  imports Kernel_Task_Commands Kernel_Lifecycle_Safe Kernel_Recorded
begin

text \<open>
  Every command of the kernel keeps the kernel invariant and only extends histories, whatever
  runs between its awaits.
\<close>

section \<open>Rules for the openings of the handlers\<close>

lemma ksafe_task_command:
  assumes "rely env N" "rstable env N P" "\<And>dup. ksafe env N P (f dup) Q"
  shows "ksafe env N P (await (task_command env tid key oper) f) Q"
  by (rule rg.safe_await[OF rsafe_ksafe[OF rsafe_task_command[OF assms(1,2)]] assms(3)])

lemma ksafe_existing_command:
  assumes "rely env N" "rstable env N P" "\<And>dup. ksafe env N P (f dup) Q"
  shows "ksafe env N P (await (existing_command env tid key oper) f) Q"
  by (rule rg.safe_await[OF rsafe_ksafe[OF rsafe_existing_command[OF assms(1,2)]] assms(3)])

lemma ksafe_latest_active_run:
  assumes "rely env N" "rstable env N P" "\<forall>w. P w \<longrightarrow> reads ts w"
    "\<And>act. act \<noteq> None \<Longrightarrow> ksafe env N P (f act) Q" "ksafe env N (\<lambda>w. no_active ts w \<and> P w) (f None) Q"
  shows "ksafe env N P (await (latest_active_run env ts) f) Q"
  unfolding latest_active_run_def
proof (rule rg.safe_await[OF rsafe_ksafe[OF rsafe_first_run[OF assms(1,2), where n = "ts_revision ts"]]])
  show "\<forall>w. P w \<longrightarrow> reached (ts_task_id ts) (ts_revision ts) w" using assms(3) read_task_reached by blast
next
  fix res
  show "ksafe env N (\<lambda>w. P w \<and> (case res of Some rs \<Rightarrow> is_active rs | None \<Rightarrow>
      \<forall>rid \<in> set (rev (ts_run_ids ts)). \<exists>rs. reads_run ts rid rs w \<and> \<not> is_active rs)) (f res) Q"
  proof (cases res)
    case None
    show ?thesis unfolding None by (rule rg.safe_pre[OF assms(5)]) (simp add: no_active_def)
  next
    case (Some rs)
    then show ?thesis by (intro rg.safe_pre[OF assms(4)]) auto
  qed
qed

lemma ksafe_if_idle:
  assumes "rely env N" "rstable env N P" "\<forall>w. P w \<longrightarrow> reads ts w"
    "ksafe env N (\<lambda>w. no_active ts w \<and> P w) m Q"
  shows "ksafe env N P (await (latest_active_run env ts) (\<lambda>act. if act \<noteq> None then raise e else m)) Q"
  by (rule ksafe_latest_active_run[OF assms(1-3)]) (simp_all add: rg.safe_raise assms(4))

lemma ksafe_active_runs:
  assumes "rely env N" "rstable env N P" "\<forall>w. P w \<longrightarrow> reads ts w"
    "\<And>act. ksafe env N (\<lambda>w. active_snapshot ts (ts_revision ts) act w \<and> P w) (f act) Q"
  shows "ksafe env N P (await (active_runs env ts) f) Q"
  by (rule rg.safe_await[OF rsafe_ksafe[OF rsafe_active_runs[OF assms(1,2)]] assms(4)])
    (use assms(3) read_task_reached in blast)

lemma reads_only_stable: "rstable env N (\<lambda>w. reads ts w \<and> True)"
  by (intro rd.stable_conj kstable_rstable read_task_stable rg.stable_const)

lemma ksafe_commit:
  assumes "rely env N" "rstable env N P" "\<forall>w. P w \<longrightarrow> reads ts w" "appendable env N ts specs P"
    "\<And>x. ksafe env N (\<lambda>_. True) (f x) (\<lambda>_ _. True)"
  shows "ksafe env N P (await (commit_task_command env ts key oper specs res actor src) f) (\<lambda>_ _. True)"
  by (rule ksafe_then[OF ksafe_commit_task_command[OF assms(1-4)] assms(5)])

section \<open>Run creation\<close>

definition fresh_run :: "'x kernel_env \<Rightarrow> nat \<Rightarrow> string \<Rightarrow> 'x world \<Rightarrow> bool" where
  "fresh_run env N rid w \<longleftrightarrow> (\<exists>k. rid = run_uuid env k \<and> k < w_draws w \<and>
     (k < N \<longrightarrow> rid \<notin> recorded_runs w))"

lemma fresh_run_stable: "rstable env N (fresh_run env N rid)"
  unfolding rd.stable_def fresh_run_def
proof (intro allI impI, elim exE conjE)
  fix w w' k assume i: "interferes env N w w'" and k: "rid = run_uuid env k" "k < w_draws w" "k < N \<longrightarrow> rid \<notin> recorded_runs w"
  have "w_draws w \<le> w_draws w'" using i by (simp add: interferes_def evolves_def)
  then show "\<exists>k. rid = run_uuid env k \<and> k < w_draws w' \<and> (k < N \<longrightarrow> rid \<notin> recorded_runs w')"
    using i k by (intro exI[of _ k]) (auto simp: interferes_def)
qed

lemma rsafe_new_run_id:
  assumes "rstable env N P"
  shows "rsafe env N P (new_id env ''run'') (\<lambda>rid w. fresh_run env N rid w \<and> P w)"
proof (rule rsafe_new_id[OF assms])
  fix w assume inv: "kernel_inv env N w" and P: "P (w\<lparr>w_draws := Suc (w_draws w)\<rparr>)"
  have "run_uuid env (w_draws w) \<notin> recorded_runs w" if "w_draws w < N"
    using inv that by (simp add: kernel_inv_def)
  then have "fresh_run env N (run_uuid env (w_draws w)) (w\<lparr>w_draws := Suc (w_draws w)\<rparr>)"
    unfolding fresh_run_def by (intro exI[of _ "w_draws w"]) (simp add: recorded_runs_def stream_def)
  with P show "fresh_run env N (''run'' @ ''_'' @ env_uuid4 env (w_draws w)) (w\<lparr>w_draws := Suc (w_draws w)\<rparr>) \<and>
      P (w\<lparr>w_draws := Suc (w_draws w)\<rparr>)"
    by (simp add: run_uuid_def)
qed

lemma fresh_at_commit:
  assumes "fresh_run env N rid w" "w_draws w \<le> N"
  shows "rid \<notin> run_subjects (stream w tid)" "rid \<in> run_uuid env ` {..<w_draws w}"
  using assms by (auto simp: fresh_run_def recorded_runs_def)

lemma ksafe_new_run_id:
  assumes "rstable env N P" "\<And>rid. ksafe env N (\<lambda>w. fresh_run env N rid w \<and> P w) (f rid) Q"
  shows "ksafe env N P (await (new_id env ''run'') f) Q"
  by (rule rg.safe_await[OF rsafe_ksafe[OF rsafe_new_run_id[OF assms(1)]] assms(2)])

abbreviation max_attempt :: "string \<Rightarrow> string \<Rightarrow> run_state list \<Rightarrow> int" where
  "max_attempt sty sid rss \<equiv>
     fold (\<lambda>run latest. if has_subject sty sid run then max latest (rs_attempt run) else latest) rss 0"

definition numbered :: "task_state \<Rightarrow> string \<Rightarrow> string \<Rightarrow> int \<Rightarrow> 'x world \<Rightarrow> bool" where
  "numbered ts sty sid a w \<longleftrightarrow> (\<exists>rss. list_all2 (\<lambda>rid rs. reads_run ts rid rs w) (ts_run_ids ts) rss \<and>
     a = max_attempt sty sid rss + 1)"

lemma max_attempt_gen:
  fixes m :: int and sty sid :: string
  defines "f \<equiv> (\<lambda>run latest. if has_subject sty sid run then max latest (rs_attempt run) else latest)"
  shows "m \<le> fold f rss m \<and> (\<forall>rs \<in> set rss. has_subject sty sid rs \<longrightarrow> rs_attempt rs \<le> fold f rss m) \<and>
     (fold f rss m = m \<or> (\<exists>rs \<in> set rss. has_subject sty sid rs \<and> rs_attempt rs = fold f rss m))"
proof (induction rss arbitrary: m)
  case (Cons rs rss)
  from Cons[of "f rs m"] show ?case by (auto simp: f_def max_def split: if_splits)
qed simp

lemma list_all2_stable:
  assumes "\<And>x y. kstable (R x y)"
  shows "kstable (\<lambda>w. list_all2 (\<lambda>x y. R x y w) xs ys)"
  unfolding list_all2_conv_all_nth using assms by (auto simp: rg.stable_def)

lemma numbered_stable: "kstable (numbered ts sty sid a)"
  unfolding numbered_def
  by (intro rg.stable_ex rg.stable_conj list_all2_stable read_run_stable rg.stable_const)

lemma ksafe_next_attempt:
  assumes "rely env N" "rstable env N P" "\<forall>w. P w \<longrightarrow> reads ts w"
    "\<And>a. ksafe env N (\<lambda>w. numbered ts sty sid a w \<and> P w) (f a) Q"
  shows "ksafe env N P (await (next_attempt env ts sty sid) f) Q"
proof (rule rg.safe_await[OF rsafe_ksafe[OF rsafe_next_attempt[OF assms(1,2), where n = "ts_revision ts"]]])
  show "\<forall>w. P w \<longrightarrow> reached (ts_task_id ts) (ts_revision ts) w" using assms(3) read_task_reached by blast
next
  fix a
  show "ksafe env N (\<lambda>w. P w \<and> (\<exists>rss. list_all2 (\<lambda>rid rs. reads_run ts rid rs w) (ts_run_ids ts) rss \<and>
      a = max_attempt sty sid rss + 1)) (f a) Q"
    by (rule rg.safe_pre[OF assms(4)]) (auto simp: numbered_def)
qed

lemma numbered_at_commit:
  assumes L: "view (ts_task_id ts) (stream w (ts_task_id ts)) = Some L" "lifecycle_ok (ts_task_id ts) L"
    "lc_run_ids L = ts_run_ids ts" and len: "length (stream w (ts_task_id ts)) = ts_revision ts"
    and n: "numbered ts sty sid a w"
  shows "1 \<le> a"
    and "lc_run L j = Some s \<Longrightarrow> r_subject_type s = sty \<Longrightarrow> r_subject_id s = sid \<Longrightarrow> r_attempt s < a"
    and "1 < a \<Longrightarrow> \<exists>j s. lc_run L j = Some s \<and> r_subject_type s = sty \<and> r_subject_id s = sid \<and> r_attempt s = a - 1"
proof -
  obtain rss where rss: "list_all2 (\<lambda>rid rs. reads_run ts rid rs w) (ts_run_ids ts) rss"
    "a = max_attempt sty sid rss + 1" using n by (auto simp: numbered_def)
  note gen = max_attempt_gen[of 0 sty sid rss]
  have cur: "\<exists>rid. lc_run L rid = Some (rs_run rs)" if "rs \<in> set rss" for rs
    using rss(1) that run_at_commit[OF L(1) _ len] by (fastforce simp: list_all2_conv_all_nth in_set_conv_nth)
  have listed: "\<exists>rs \<in> set rss. rs_run rs = s" if "lc_run L j = Some s" for j s
  proof -
    have "j \<in> set (ts_run_ids ts)" using entities_okD(4)[OF L(2) that] L(3) by simp
    then obtain rs where "rs \<in> set rss" "reads_run ts j rs w"
      using rss(1) by (fastforce simp: list_all2_conv_all_nth in_set_conv_nth)
    with run_at_commit[OF L(1) _ len] that show ?thesis by auto
  qed
  show "1 \<le> a" using gen rss(2) by simp
  show "r_attempt s < a" if "lc_run L j = Some s" "r_subject_type s = sty" "r_subject_id s = sid" for j s
    using listed[OF that(1)] gen that rss(2) by (fastforce simp: has_subject_def rs_attempt_def)
  show "\<exists>j s. lc_run L j = Some s \<and> r_subject_type s = sty \<and> r_subject_id s = sid \<and> r_attempt s = a - 1" if "1 < a"
    using gen rss(2) that cur by (fastforce simp: has_subject_def rs_attempt_def)
qed

section \<open>The task commands\<close>

lemma ksafe_task_status_command:
  assumes "rely env N" "rstable env N P" "\<forall>w. P w \<longrightarrow> reads ts w" "appendable env N ts specs P" "ts_task_id ts = tid"
  shows "ksafe env N P (task_status_command env key oper ts specs actor src) (\<lambda>_. key_bound tid key oper)"
  unfolding task_status_command_def
  using rg.safe_await[OF ksafe_commit_bound[OF assms(1-4)] ksafe_get_task_bound[OF assms(1)]] assms(5) by simp

lemma ksafe_unbind: "ksafe env N P m (\<lambda>_. key_bound tid key oper) \<Longrightarrow> ksafe env N P m (\<lambda>_ _. True)"
  by (rule rg.safe_post) simp_all

text \<open>The common opening of the task handlers: read the task, return it if the command is known.\<close>

lemma ksafe_task_handler:
  assumes "rely env N"
    "\<And>ts. ts_task_id ts = tid \<Longrightarrow> ksafe env N (\<lambda>w. reads ts w \<and> True) (f ts) (\<lambda>_ _. True)"
  shows "ksafe env N (\<lambda>_. True) (await (get_task env tid) (\<lambda>ts.
     await (task_command env tid key oper) (\<lambda>dup. if dup \<noteq> None then get_task env tid else f ts))) (\<lambda>_ _. True)"
  by (rule ksafe_get_task[OF assms(1) stable_True], rule ksafe_task_command[OF assms(1) reads_only_stable],
      rule rg.safe_if[OF ksafe_query(1)[OF assms(1)] assms(2)])

text \<open>A handler that ends in a committed command leaves its key bound, on every branch that returns.\<close>

lemma ksafe_handler_bound:
  assumes "rely env N"
    "\<And>ts. ts_task_id ts = tid \<Longrightarrow> ksafe env N (\<lambda>w. reads ts w \<and> True) (f ts) (\<lambda>_. key_bound tid key oper)"
  shows "ksafe env N (\<lambda>_. True) (await (get_task env tid) (\<lambda>ts.
     await (task_command env tid key oper) (\<lambda>dup. if dup \<noteq> None then get_task env tid else f ts)))
     (\<lambda>_. key_bound tid key oper)"
proof (rule ksafe_get_task[OF assms(1) stable_True],
    rule rg.safe_await[OF rsafe_ksafe[OF rsafe_task_command_bound[OF assms(1) reads_only_stable]]], rule rg.safe_if)
  fix dup :: "command_record option" and ts assume "dup \<noteq> None"
  then show "ksafe env N (\<lambda>w. (dup \<noteq> None \<longrightarrow> key_bound tid key oper w) \<and> reads ts w \<and> True) (get_task env tid)
     (\<lambda>_. key_bound tid key oper)"
    by (intro rg.safe_pre[OF ksafe_get_task_bound[OF assms(1)]]) simp
qed (rule rg.safe_pre[OF assms(2)], auto)

lemma bound_ready_task:
  assumes "rely env N"
  shows "ksafe env N (\<lambda>_. True) (ready_task env key tid actor src) (\<lambda>_. key_bound tid key ''ready_task'')"
  unfolding ready_task_def
  by (rule ksafe_handler_bound[OF assms], rule rg.safe_if[OF rg.safe_raise],
      rule ksafe_task_status_command[OF assms reads_only_stable], simp,
      rule appendable_task_specs[where solo = False])
    (auto simp: TASK_EVENT_STATUS_def may_close_def CLOSED_TASK_STATUSES_def)

lemma bound_wait_task:
  assumes "rely env N"
  shows "ksafe env N (\<lambda>_. True) (wait_task env key tid reason blocked actor src) (\<lambda>_. key_bound tid key ''wait_task'')"
  unfolding wait_task_def
  by (rule ksafe_handler_bound[OF assms], intro rg.safe_if rg.safe_raise,
      rule ksafe_task_status_command[OF assms reads_only_stable], simp,
      rule appendable_task_specs[where solo = False])
    (auto simp: TASK_EVENT_STATUS_def may_close_def CLOSED_TASK_STATUSES_def)

lemma bound_resume_task:
  assumes "rely env N"
  shows "ksafe env N (\<lambda>_. True) (resume_task env key tid actor src) (\<lambda>_. key_bound tid key ''resume_task'')"
  unfolding resume_task_def
  by (rule ksafe_handler_bound[OF assms], rule rg.safe_if[OF rg.safe_raise],
      rule ksafe_task_status_command[OF assms reads_only_stable], simp,
      rule appendable_task_specs[where solo = False])
    (auto simp: TASK_EVENT_STATUS_def may_close_def CLOSED_TASK_STATUSES_def)

lemma idle_stable: "rstable env N (\<lambda>w. no_active ts w \<and> reads ts w \<and> True)"
  by (intro rd.stable_conj kstable_rstable no_active_stable read_task_stable rg.stable_const)

lemma bound_fail_task:
  assumes "rely env N"
  shows "ksafe env N (\<lambda>_. True) (fail_task env key tid reason actor src) (\<lambda>_. key_bound tid key ''fail_task'')"
  unfolding fail_task_def
  by (rule ksafe_handler_bound[OF assms], rule rg.safe_if[OF rg.safe_raise],
      rule ksafe_if_idle[OF assms reads_only_stable], simp,
      rule ksafe_task_status_command[OF assms idle_stable], simp,
      rule appendable_task_specs[where solo = True])
    (auto simp: TASK_EVENT_STATUS_def may_close_def split: option.splits)

lemma complete_specs_ok:
  assumes "completion_spec_ok tid spec" "st = T_RUNNING \<or> st = T_WAITING"
  shows "specs_ok tid [] True st None
     ((if st = T_WAITING \<and> fst spec = ''task.succeeded''
       then [(''task.resumed'', ''task'', tid, [(''verification_completed'', JBool True)], [])] else []) @ [spec])"
  using assms by (auto simp: completion_spec_ok_def TASK_EVENT_STATUS_def may_close_def CLOSED_TASK_STATUSES_def)

lemma bound_complete_task:
  assumes "rely env N"
  shows "ksafe env N (\<lambda>_. True) (complete_task env key tid actor src) (\<lambda>_. key_bound tid key ''complete_task'')"
  unfolding complete_task_def Let_def
proof (rule ksafe_handler_bound[OF assms], rule rg.safe_if[OF rg.safe_raise],
    rule ksafe_if_idle[OF assms reads_only_stable], simp,
    rule rg.safe_await[OF rsafe_ksafe[OF rsafe_completion_task_spec[OF assms idle_stable]]], rule rg.safe_pre_const,
    rule ksafe_task_status_command[OF assms idle_stable], simp,
    rule appendable_task_specs[where solo = True], goal_cases)
  case (1 ts spec)
  then show ?case using complete_specs_ok[of tid spec "ts_status ts"] by auto
qed auto

lemmas ksafe_ready_task = ksafe_unbind[OF bound_ready_task]
lemmas ksafe_wait_task = ksafe_unbind[OF bound_wait_task]
lemmas ksafe_resume_task = ksafe_unbind[OF bound_resume_task]
lemmas ksafe_fail_task = ksafe_unbind[OF bound_fail_task]
lemmas ksafe_complete_task = ksafe_unbind[OF bound_complete_task]

lemma ksafe_update_task:
  assumes "rely env N"
  shows "ksafe env N (\<lambda>_. True) (update_task env key tid title objective metadata actor src) (\<lambda>_ _. True)"
  unfolding update_task_def
proof (rule ksafe_task_handler[OF assms], intro rg.safe_if rg.safe_raise,
    rule ksafe_commit[OF assms reads_only_stable _ _ ksafe_query(1)[OF assms]], simp,
    rule appendable_single, goal_cases)
  case (1 ts w e L)
  then have "stream_ok tid (stream w tid @ [e]) \<and> run_subjects [e] = {}"
    by (intro updated_grows[of tid _ L ts "update_payload title objective metadata" "[]"])
      (auto simp: update_payload_def text_or_absent_def object_or_absent_def split: option.splits)
  with 1 show ?case by auto
qed

section \<open>The run commands\<close>

lemma appendable_created:
  assumes act: "\<forall>w. P w \<longrightarrow> active_snapshot ts (ts_revision ts) act w" "act = [] \<or> sty \<in> r_subject_type ` rs_run ` set act"
    and none: "\<forall>w. P w \<longrightarrow> (\<forall>rid \<in> set (ts_run_ids ts). \<exists>rs. reads_run ts rid rs w \<and> \<not> (has_subject sty sid rs \<and> is_active rs))"
    and num: "\<forall>w. P w \<longrightarrow> numbered ts sty sid a w" and fresh: "\<forall>w. P w \<longrightarrow> fresh_run env N rid w"
    and sub: "sty = ''task'' \<and> sid = ts_task_id ts \<or> sty = ''step''" "validate_subject_id sty sid = Inr sid"
    and st: "ts_status ts \<notin> CLOSED_TASK_STATUSES"
  shows "appendable env N ts [(''run.created'', ''run'', rid, run_payload ts sty sid a, am)] P"
proof (rule appendable_single)
  let ?tid = "ts_task_id ts"
  fix w e L assume *: "P w" "kernel_inv env N w" "w_draws w \<le> N" "length (stream w ?tid) = ts_revision ts"
    "view ?tid (stream w ?tid) = Some L" "lifecycle_ok ?tid L" "stream_ok ?tid (stream w ?tid)"
    "lc_task L = ts_task ts" "lc_run_ids L = ts_run_ids ts"
    "event_of ts (''run.created'', ''run'', rid, run_payload ts sty sid a, am) e"
  note cur = run_at_commit[OF *(5) _ *(4)] and numd = numbered_at_commit[OF *(5,6,9,4)]
  have act': "\<exists>rs \<in> set act. rs_run rs = s" if s: "active_in L j s" for j s
  proof -
    have "j \<in> set (ts_run_ids ts)" using entities_okD(4)[OF *(6)] s *(9) by (auto simp: active_in_def)
    then obtain rs where "reads_run ts j rs w" "is_active rs \<longrightarrow> rs \<in> set act"
      using act(1) *(1) unfolding active_snapshot_def by blast
    with cur[of j rs] s show ?thesis by (auto simp: active_in_def is_active_def rs_status_def)
  qed
  have excl: "r_subject_type s = sty \<and> r_subject_id s \<noteq> sid" if s: "active_in L j s" for j s
  proof -
    from act'[OF s] have "act \<noteq> []" by auto
    then obtain rs where rs: "rs \<in> set act" "r_subject_type (rs_run rs) = sty" using act(2) by auto
    then obtain i where "reads_run ts i rs w" "is_active rs"
      using act(1) *(1) unfolding active_snapshot_def by blast
    with cur[of i rs] have "active_in L i (rs_run rs)" by (auto simp: active_in_def is_active_def rs_status_def)
    with runs_exclusiveD[OF _ s this] *(6) s rs(2) have ty: "r_subject_type s = sty"
      by (cases "i = j") (auto simp: lifecycle_ok_def active_in_def)
    have "j \<in> set (ts_run_ids ts)" using entities_okD(4)[OF *(6)] s *(9) by (auto simp: active_in_def)
    then obtain rs' where "reads_run ts j rs' w" "\<not> (has_subject sty sid rs' \<and> is_active rs')"
      using none *(1) by blast
    with cur[of j rs'] s ty show ?thesis
      by (auto simp: active_in_def has_subject_def is_active_def rs_status_def)
  qed
  have "stream_ok ?tid (stream w ?tid @ [e]) \<and> run_subjects [e] = {rid}"
    using created_grows[OF *(7,5) arg_cong[OF *(8)] *(10) refl _ sub numd(1)] numd(2,3) excl num fresh_at_commit(1)[of env N rid w ?tid] fresh st *
    by (auto simp: ts_status_def)
  with fresh_at_commit(2)[of env N rid w] fresh * show
    "stream_ok ?tid (stream w ?tid @ [e]) \<and> run_subjects [e] \<subseteq> run_subjects (stream w ?tid) \<union> run_uuid env ` {..<w_draws w}"
    by blast
qed

definition subject_idle :: "task_state \<Rightarrow> string \<Rightarrow> string \<Rightarrow> 'x world \<Rightarrow> bool" where
  "subject_idle ts sty sid w \<longleftrightarrow> (\<forall>rid \<in> set (ts_run_ids ts). \<exists>rs.
     reads_run ts rid rs w \<and> \<not> (has_subject sty sid rs \<and> is_active rs))"

lemma subject_idle_stable: "kstable (subject_idle ts sty sid)"
  unfolding subject_idle_def by (intro rg.stable_ball rg.stable_ex rg.stable_conj read_run_stable rg.stable_const)

lemma ksafe_if_subject_idle:
  assumes "rely env N" "rstable env N P" "\<forall>w. P w \<longrightarrow> reads ts w"
    "ksafe env N (\<lambda>w. subject_idle ts sty sid w \<and> P w) m Q"
  shows "ksafe env N P (await (active_run_for_subject env ts sty sid)
     (\<lambda>act. if act \<noteq> None then raise e else m)) Q"
  unfolding active_run_for_subject_def
proof (rule rg.safe_await[OF rsafe_ksafe[OF rsafe_first_run[OF assms(1,2), where n = "ts_revision ts"]]])
  show "\<forall>w. P w \<longrightarrow> reached (ts_task_id ts) (ts_revision ts) w" using assms(3) read_task_reached by blast
next
  fix res
  show "ksafe env N (\<lambda>w. P w \<and> (case res of Some rs \<Rightarrow> has_subject sty sid rs \<and> is_active rs | None \<Rightarrow>
      \<forall>rid \<in> set (rev (ts_run_ids ts)). \<exists>rs. reads_run ts rid rs w \<and> \<not> (has_subject sty sid rs \<and> is_active rs)))
      (if res \<noteq> None then raise e else m) Q"
    by (rule rg.safe_if[OF rg.safe_raise], rule rg.safe_pre[OF assms(4)]) (simp add: subject_idle_def)
qed

lemma ksafe_validate_new_run:
  assumes "rstable env N P" "ksafe env N P m Q"
  shows "ksafe env N P (await (validate_new_run env ts rid sty sid a key) (\<lambda>_. m)) Q"
proof (rule rg.safe_await)
  show "ksafe env N P (validate_new_run env ts rid sty sid a key) (\<lambda>_. P)"
    unfolding validate_new_run_def
    by (rule rg.safe_await[OF rsafe_ksafe[OF rsafe_utc_now[OF assms(1)]]],
        rule rg.safe_await[OF rsafe_ksafe[OF rsafe_utc_now[OF assms(1)]]], rule ksafe_pure_then, rule rg.safe_ret)
qed (rule assms(2))

lemma validate_subject_id_same: "validate_subject_id sty sid = Inr x \<Longrightarrow> x = sid"
  by (auto simp: validate_subject_id_def dest: validate_id_same split: option.splits)

lemma validate_run_subject_step:
  "validate_run_subject ts sty sid = Inr u \<Longrightarrow> sty = ''task'' \<and> sid = ts_task_id ts \<or> sty \<noteq> ''task'' \<and> sid \<in> set (ts_step_ids ts)"
  by (auto simp: validate_run_subject_def sbind_eq_Inr split: if_splits)

lemma reduce_task_step_ids:
  assumes "reduce_task evs tid = Inr ts"
  shows "\<forall>x \<in> set (ts_step_ids ts). validate_id x ''step'' = Inr x"
proof -
  obtain s where s: "sfold (task_step tid) task_fold_init evs = Inr s" "task_state_of (length evs) s = Inr ts"
    using assms by (auto simp: reduce_task_def sbind_eq_Inr)
  have "\<forall>x \<in> set (tf_step_ids s). validate_id x ''step'' = Inr x"
  proof (rule sfold_invariant[OF _ _ s(1)])
    fix f e f' assume inv: "\<forall>x \<in> set (tf_step_ids f). validate_id x ''step'' = Inr x" and st: "task_step tid f e = Inr f'"
    have "validated_step_id v = Inr x \<Longrightarrow> validate_id x ''step'' = Inr x" for v x
      by (cases v) (auto split: sum.splits dest: validate_id_same)
    then have "smap validated_step_id vs = Inr xs \<Longrightarrow> \<forall>x \<in> set xs. validate_id x ''step'' = Inr x" for vs xs
      unfolding smap_eq_Inr list_all2_conv_all_nth all_set_conv_all_nth by metis
    then have "plan_created f e = Inr f' \<Longrightarrow> \<forall>x \<in> set (tf_step_ids f'). validate_id x ''step'' = Inr x"
      by (auto simp: plan_created_def sbind_eq_Inr)
    then show "\<forall>x \<in> set (tf_step_ids f'). validate_id x ''step'' = Inr x"
      using inv st by (auto simp: task_step_def task_created_def task_status_event_def task_run_created_def
          task_output_attached_def Let_def sbind_eq_Inr split: if_splits option.splits)
  qed (simp add: task_fold_init_def)
  with s(2) show ?thesis by (auto simp: task_state_of_def split: option.splits)
qed

lemma step_subject:
  assumes "validate_subject_id sty sid = Inr x" "validate_id sid ''step'' = Inr sid"
  shows "sty = ''step''"
proof -
  obtain pfx where pfx: "dict_get CANONICAL_SUBJECT_PREFIXES sty = Some pfx" "validate_id sid pfx = Inr x"
    using assms(1) by (auto simp: validate_subject_id_def split: option.splits)
  have start: "py_startswith sid (p @ ''_'')" if "validate_id sid p = Inr y" for p y
    using that by (auto simp: validate_id_def Let_def split: if_splits)
  from start[OF pfx(2)] start[OF assms(2)] pfx(1) show ?thesis
    by (auto simp: CANONICAL_SUBJECT_PREFIXES_def py_startswith_iff split: if_splits)
qed

text \<open>A run can only be created for the task itself or for a step of its current plan.\<close>

lemma run_subject_kind:
  assumes "reduce_task evs tid = Inr ts" "validate_run_subject ts sty sid = Inr u" "validate_subject_id sty sid = Inr x"
  shows "sty = ''task'' \<and> sid = ts_task_id ts \<or> sty = ''step''"
  using validate_run_subject_step[OF assms(2)] reduce_task_step_ids[OF assms(1)] step_subject[OF assms(3)] by blast

lemmas snapshot_stable = rd.stable_conj fresh_run_stable rd.stable_const
  read_task_stable[THEN kstable_rstable] read_run_stable[THEN kstable_rstable]
  numbered_stable[THEN kstable_rstable] subject_idle_stable[THEN kstable_rstable]
  active_snapshot_stable[THEN kstable_rstable] no_active_stable[THEN kstable_rstable]

lemma ksafe_create_run:
  assumes "rely env N"
  shows "ksafe env N (\<lambda>_. True) (create_run env key tid sty subj actor src) (\<lambda>_ _. True)"
  unfolding create_run_def Let_def
proof (rule ksafe_get_task[OF assms stable_True], rule ksafe_task_command[OF assms reads_only_stable],
    rule rg.safe_option[OF _ ksafe_query(2)[OF assms]], rule ksafe_pure_then, rule ksafe_pure_then,
    rule rg.safe_if[OF rg.safe_raise])
  fix ts x u
  define sid where "sid = (case subj of None \<Rightarrow> tid | Some s \<Rightarrow> if s = [] then tid else s)"
  assume tid: "ts_task_id ts = tid"
    and val: "validate_subject_id sty (case subj of None \<Rightarrow> tid | Some s \<Rightarrow> if s = [] then tid else s) = Inr x"
      "validate_run_subject ts sty (case subj of None \<Rightarrow> tid | Some s \<Rightarrow> if s = [] then tid else s) = Inr u"
    and st: "\<not> ts_status ts \<notin> run_start_statuses sty"
  note val = val[folded sid_def]
  have same: "validate_subject_id sty sid = Inr sid" using val(1) validate_subject_id_same by metis
  have open_task: "ts_status ts \<notin> CLOSED_TASK_STATUSES"
    using st by (auto simp: run_start_statuses_def CLOSED_TASK_STATUSES_def split: if_splits)
  note stb = snapshot_stable
  show "ksafe env N (\<lambda>w. reads ts w \<and> True) (await (active_runs env ts) (\<lambda>active.
     if active \<noteq> [] \<and> sty \<notin> r_subject_type ` rs_run ` set active then raise (contract_error CONFLICT)
     else await (active_run_for_subject env ts sty (case subj of None \<Rightarrow> tid | Some s \<Rightarrow> if s = [] then tid else s)) (\<lambda>active_subject_run.
     if active_subject_run \<noteq> None then raise (contract_error CONFLICT)
     else await (new_id env ''run'') (\<lambda>run_id.
     await (next_attempt env ts sty (case subj of None \<Rightarrow> tid | Some s \<Rightarrow> if s = [] then tid else s)) (\<lambda>attempt_no.
     await (validate_new_run env ts run_id sty (case subj of None \<Rightarrow> tid | Some s \<Rightarrow> if s = [] then tid else s) attempt_no key) (\<lambda>_.
     await (commit_task_command env ts key ''create_run''
       [(''run.created'', ''run'', run_id, run_payload ts sty (case subj of None \<Rightarrow> tid | Some s \<Rightarrow> if s = [] then tid else s) attempt_no, [])]
       run_id actor src) (\<lambda>_. get_run env tid run_id))))))) (\<lambda>_ _. True)"
    unfolding sid_def[symmetric]
  proof (rule ksafe_active_runs[OF assms reads_only_stable], simp, rule rg.safe_if[OF rg.safe_raise],
      rule ksafe_if_subject_idle[OF assms], intro stb, simp, rule ksafe_new_run_id, intro stb,
      rule ksafe_next_attempt[OF assms], intro stb, simp, rule ksafe_validate_new_run, intro stb)
    fix act :: "run_state list" and rid a assume act: "\<not> (act \<noteq> [] \<and> sty \<notin> r_subject_type ` rs_run ` set act)"
    let ?P = "\<lambda>w. numbered ts sty sid a w \<and> fresh_run env N rid w \<and> subject_idle ts sty sid w \<and>
       active_snapshot ts (ts_revision ts) act w \<and> reads ts w \<and> True"
    show "ksafe env N ?P (await (commit_task_command env ts key ''create_run''
       [(''run.created'', ''run'', rid, run_payload ts sty sid a, [])] rid actor src) (\<lambda>_. get_run env tid rid)) (\<lambda>_ _. True)"
    proof (cases "sty = ''task'' \<and> sid = ts_task_id ts \<or> sty = ''step''")
      case True
      show ?thesis
      proof (rule ksafe_commit[OF assms _ _ _ ksafe_query(2)[OF assms]])
        show "appendable env N ts [(''run.created'', ''run'', rid, run_payload ts sty sid a, [])] ?P"
          using act by (intro appendable_created[where act = act, OF _ _ _ _ _ True same open_task])
            (auto simp: subject_idle_def)
      qed (intro stb, simp)
    next
      case False
      with run_subject_kind[OF _ val(2,1)] show ?thesis
        by (auto simp: rg.safe_def read_task_def)
    qed
  qed
qed

end
