(* ===== verification/Kernel_Safe.thy ===== *)
theory Kernel_Safe
  imports Kernel_Commands_Safe
begin

text \<open>
  The remaining commands of the kernel under interference: retry, planning, start, refresh,
  outcome callbacks, cancellation, attachments, task creation and recovery.
\<close>

section \<open>Retry\<close>

lemma retry_appendable:
  assumes st: "ts_status ts = T_FAILED"
  shows "appendable env N ts
     [(''task.ready'', ''task'', ts_task_id ts, [(''retry'', JBool True)], []),
      (''run.created'', ''run'', rid, run_payload ts ''task'' (ts_task_id ts) a, [])]
     (\<lambda>w. numbered ts ''task'' (ts_task_id ts) a w \<and> fresh_run env N rid w \<and> no_active ts w \<and> reads ts w \<and> True)"
  unfolding appendable_def
proof (intro allI impI, elim conjE)
  let ?tid = "ts_task_id ts"
  let ?specs = "[(''task.ready'', ''task'', ?tid, [(''retry'', JBool True)], []),
      (''run.created'', ''run'', rid, run_payload ts ''task'' ?tid a, [])]"
  fix w es assume *: "kernel_inv env N w" "w_draws w \<le> N" "length (stream w ?tid) = ts_revision ts"
    "reduce_task (stream w ?tid) ?tid = Inr ts" "list_all2 (event_of ts) ?specs es"
    and P: "numbered ts ''task'' ?tid a w" "fresh_run env N rid w" "no_active ts w"
  obtain L where L: "view ?tid (stream w ?tid) = Some L" "lifecycle_ok ?tid L" "stream_ok ?tid (stream w ?tid)"
    "lc_task L = ts_task ts" "lc_run_ids L = ts_run_ids ts"
    using view_at_commit[OF *(1,2,4)] by blast
  have idle: "idle L" by (rule idle_at_commit[OF L(1,2,5) P(3) *(3)])
  note num = numbered_at_commit[OF L(1,2,5) *(3) P(1)]
  obtain e1 e2 where es: "es = [e1, e2]"
    "event_of ts (''task.ready'', ''task'', ?tid, [(''retry'', JBool True)], []) e1"
    "event_of ts (''run.created'', ''run'', rid, run_payload ts ''task'' ?tid a, []) e2"
    using *(5) by (auto simp: list_all2_Cons1)
  have failed: "t_status (lc_task L) = T_FAILED" using st L(4) by (simp add: ts_status_def)
  obtain t' where t': "stream_ok ?tid (stream w ?tid @ [e1])" "t_status t' = T_READY"
    "view ?tid (stream w ?tid @ [e1]) = Some (L\<lparr>lc_task := t'\<rparr>)"
    using task_status_grows[OF L(3,1) es(2) refl, of T_READY] failed
    by (auto simp: TASK_EVENT_STATUS_def CLOSED_TASK_STATUSES_def)
  have own: "t_owner_ref t' = t_owner_ref (ts_task ts)"
  proof -
    obtain s s' where "task_fold_of ?tid (stream w ?tid) = Inr s" "tf_task s = Some (ts_task ts)"
      "task_fold_of ?tid (stream w ?tid @ [e1]) = Inr s'" "tf_task s' = Some t'"
      using L(1,4) t'(3) by (auto simp: view_Some)
    with task_step_Inr[of ?tid s e1 s'] show ?thesis by (auto simp: task_fold_snoc same_task_def)
  qed
  have sub: "validate_subject_id ''task'' ?tid = Inr ?tid" using es(2) by (simp add: event_of_def)
  have "run_subjects [e1] = {}" using es(2) by (simp add: run_subjects_def event_of_def)
  then have fresh: "rid \<notin> run_subjects (stream w ?tid @ [e1])"
    using fresh_at_commit(1)[OF P(2) *(2)] by (simp add: run_subjects_append)
  have "stream_ok ?tid ((stream w ?tid @ [e1]) @ [e2]) \<and> run_subjects [e2] = {rid}"
  proof (rule created_grows[OF t'(1,3) _ es(3) refl fresh _ sub num(1)])
    show "r_subject_type s = ''task'' \<and> r_subject_id s \<noteq> ?tid" if "active_in (L\<lparr>lc_task := t'\<rparr>) j s" for j s
      using idle that by (simp add: idle_def)
  qed (use own t'(2) num in \<open>auto simp: CLOSED_TASK_STATUSES_def\<close>)
  moreover have "run_subjects es = run_subjects [e2]"
    using \<open>run_subjects [e1] = {}\<close> run_subjects_append[of "[e1]" "[e2]"] by (simp add: es(1))
  ultimately show "stream_ok ?tid (stream w ?tid @ es) \<and>
      run_subjects es \<subseteq> recorded_runs w \<union> run_uuid env ` {..<w_draws w}"
    using fresh_at_commit(2)[OF P(2) *(2)] by (simp add: es(1))
qed

lemma ksafe_retry_task:
  assumes "rely env N"
  shows "ksafe env N (\<lambda>_. True) (retry_task env key tid actor src) (\<lambda>_ _. True)"
  unfolding retry_task_def
proof (rule ksafe_get_task[OF assms stable_True], rule ksafe_task_command[OF assms reads_only_stable],
    rule rg.safe_option[OF _ ksafe_query(2)[OF assms]], rule rg.safe_if[OF rg.safe_raise],
    rule ksafe_if_idle[OF assms reads_only_stable], simp, rule ksafe_new_run_id, intro snapshot_stable,
    rule ksafe_next_attempt[OF assms], intro snapshot_stable, simp,
    rule ksafe_commit[OF assms _ _ _ ksafe_query(2)[OF assms]], intro snapshot_stable, simp, goal_cases)
  case (1 ts dup rid a)
  then show ?case using retry_appendable[of ts env N rid a] by simp
qed

section \<open>Planning\<close>

lemma rsafe_make_plan:
  assumes "rstable env N P"
  shows "rsafe env N P (make_plan env ts prov) (\<lambda>p w. p_id p \<noteq> [] \<and> P w)"
  unfolding make_plan_def
  by (rule rd.safe_await[OF rsafe_new_id_stable[OF assms]], rule rd.safe_await[OF rsafe_utc_now[OF assms]],
      rule rd.safe_pure) (auto simp: plan_post_init_def sbind_eq_Inr dest: validate_id_nonempty)

lemma rsafe_make_step:
  assumes "rstable env N P"
  shows "rsafe env N P (make_step env ts prov ids pid x) (\<lambda>s w. validate_id (s_id s) ''step'' = Inr (s_id s))"
  unfolding make_step_def
proof (rule rd.safe_await[OF rsafe_pure], rule rd.safe_pre_const, rule rd.safe_await[OF rsafe_pure],
    rule rd.safe_pre_const, rule rd.safe_await[OF rsafe_utc_now[OF assms]],
    rule rd.safe_await[OF rsafe_utc_now[OF assms]], rule rd.safe_pure)
qed (auto simp: step_post_init_def sbind_eq_Inr dest: validate_id_same)

lemma rsafe_each_stable:
  assumes "\<And>x. rsafe env N P (f x) (\<lambda>y w. R y)" "rstable env N P"
  shows "rsafe env N P (each f xs) (\<lambda>ys w. (\<forall>y \<in> set ys. R y) \<and> P w)"
proof -
  have "rsafe env N P (each f xs) (\<lambda>ys w. list_all2 (\<lambda>_ y. R y) xs ys)"
    by (rule rd.safe_each[OF assms(1,2)]) simp
  from rd.safe_frame[OF assms(2) this] show ?thesis
    by (rule rd.safe_weaken) (auto simp: list_all2_conv_all_nth in_set_conv_nth)
qed

lemma ksafe_plan_task:
  assumes "rely env N"
  shows "ksafe env N (\<lambda>_. True) (plan_task env key tid actor src) (\<lambda>_ _. True)"
  unfolding plan_task_def Let_def
proof (rule ksafe_task_handler[OF assms], rule rg.safe_if[OF rg.safe_raise],
    rule ksafe_if_idle[OF assms reads_only_stable], simp, rule ksafe_pure_then, rule ksafe_pure_then)
  fix ts :: task_state and cx request assume tid: "ts_task_id ts = tid"
  let ?P = "\<lambda>w. no_active ts w \<and> reads ts w \<and> True"
  have plan: "external env N (env_plan env request)" using assms by (simp add: rely_def)
  have ids: "rsafe env N ?P (new_id env ''step'') (\<lambda>_ _. True)"
    by (rule rd.safe_post[OF rsafe_new_id_stable[OF idle_stable]]) simp
  show "ksafe env N ?P (await (env_plan env request) (\<lambda>proposal.
     await (make_plan env ts (provenance_post_init \<lparr>pv_source = src,
       pv_actor_ref = Some (actor_or_owner actor (t_owner_ref (ts_task ts))), pv_details = []\<rparr>)) (\<lambda>canonical_plan.
     await (each (\<lambda>_. new_id env ''step'') (pr_steps proposal)) (\<lambda>ids.
     await (each (make_step env ts (provenance_post_init \<lparr>pv_source = src,
       pv_actor_ref = Some (actor_or_owner actor (t_owner_ref (ts_task ts))), pv_details = []\<rparr>)
       (dict_update [] (zip (map ps_key (pr_steps proposal)) ids)) (p_id canonical_plan)) (pr_steps proposal)) (\<lambda>canonical_steps.
     await (commit_task_command env ts key ''plan_task''
       [plan_spec tid canonical_plan proposal canonical_steps] tid actor src) (\<lambda>_.
     get_task env tid)))))) (\<lambda>_ _. True)"
  proof (rule rg.safe_await[OF rsafe_ksafe[OF rsafe_external[OF plan idle_stable]]],
      rule rg.safe_await[OF rsafe_ksafe[OF rsafe_make_plan[OF idle_stable]]], rule rg.safe_pre_const,
      rule rg.safe_await[OF rsafe_ksafe[OF rsafe_each_stable[OF ids idle_stable]]], rule rg.safe_pre_const,
      rule rg.safe_await[OF rsafe_ksafe[OF rsafe_each_stable[OF rsafe_make_step[OF idle_stable] idle_stable]]],
      rule rg.safe_pre_const, rule ksafe_commit[OF assms idle_stable _ _ ksafe_query(1)[OF assms]], simp,
      rule appendable_single, goal_cases)
    case (1 proposal plan ids steps w e L)
    then have "stream_ok tid (stream w tid @ [e]) \<and> run_subjects [e] \<subseteq> run_subjects (stream w tid)"
      using plan_grows[of tid "stream w tid" L ts _ _ e "p_id plan" "map s_id steps"] tid
      unfolding plan_spec_def by auto
    with tid show ?case by auto
  qed
qed

section \<open>Start, refresh, outcome, cancellation\<close>

lemma ksafe_run_handler:
  assumes "rely env N"
    "\<And>ts rs dup. ts_task_id ts = tid \<Longrightarrow> rs_run_id rs = rid \<Longrightarrow>
       ksafe env N (\<lambda>w. reads_run ts rid rs w \<and> reads ts w \<and> True) (f ts rs dup) (\<lambda>_ _. True)"
  shows "ksafe env N (\<lambda>_. True) (await (get_task env tid) (\<lambda>ts. await (get_run env tid rid) (\<lambda>rs.
     await (task_command env tid key oper) (f ts rs)))) (\<lambda>_ _. True)"
  by (rule ksafe_get_task_run[OF assms(1) stable_True], rule ksafe_task_command[OF assms(1) reads_stable assms(2)])

lemma ksafe_start_run:
  assumes "rely env N"
  shows "ksafe env N (\<lambda>_. True) (start_run env key tid rid actor src) (\<lambda>_ _. True)"
  unfolding start_run_def
proof (rule ksafe_run_handler[OF assms], rule rg.safe_option)
  fix ts rs and c :: command_record assume ids: "ts_task_id ts = tid" "rs_run_id rs = rid"
  let ?P = "\<lambda>w. reads_run ts rid rs w \<and> reads ts w \<and> True"
  have tail: "ksafe env N (\<lambda>_. True) (await (dispatch_started_run env tid rid key actor src) (\<lambda>_. get_run env tid rid)) (\<lambda>_ _. True)"
    by (rule ksafe_then[OF ksafe_dispatch_started_run[OF assms] ksafe_query(2)[OF assms]])
  show "ksafe env N ?P (if ts_status ts \<notin> run_start_statuses (r_subject_type (rs_run rs)) then raise (contract_error CONFLICT)
     else await (active_runs env ts) (\<lambda>active.
     if list_ex (\<lambda>a. rs_run_id a \<noteq> rid \<and> r_subject_type (rs_run a) \<noteq> r_subject_type (rs_run rs)) active
     then raise (contract_error CONFLICT)
     else if rs_status rs \<noteq> R_QUEUED then raise (contract_error CONFLICT)
     else await (commit_task_command env ts key ''start_run'' [(''run.starting'', ''run'', rid, [], [])] rid actor src) (\<lambda>_.
     await (dispatch_started_run env tid rid key actor src) (\<lambda>_. get_run env tid rid)))) (\<lambda>_ _. True)"
  proof (rule rg.safe_if[OF rg.safe_raise], rule ksafe_active_runs[OF assms reads_stable], simp,
      intro rg.safe_if rg.safe_raise, rule rg.safe_pre[where P' = ?P])
    assume "\<not> rs_status rs \<noteq> R_QUEUED"
    then have "appendable env N ts [(''run.starting'', ''run'', rid, [], [])] ?P"
      by (intro appendable_run_specs[where rs = rs and rid = rid and solo = False]) (auto simp: RUN_EVENT_STATUS_def)
    then show "ksafe env N ?P (await (commit_task_command env ts key ''start_run'' [(''run.starting'', ''run'', rid, [], [])] rid actor src) (\<lambda>_.
       await (dispatch_started_run env tid rid key actor src) (\<lambda>_. get_run env tid rid))) (\<lambda>_ _. True)"
      by (intro ksafe_commit[OF assms reads_stable _ _ tail]) simp_all
  qed simp
  show "ksafe env N ?P (if cr_result_id c \<noteq> rid then raise (contract_error CONFLICT)
     else await (if rs_status rs \<in> {R_STARTING, R_RUNNING} then reconcile_started_run env tid rid (''retry:'' @ key)
       else ret ()) (\<lambda>_. get_run env tid rid)) (\<lambda>_ _. True)"
    by (intro rg.safe_if rg.safe_raise ksafe_then[OF _ ksafe_query(2)[OF assms]]
        ksafe_True[OF ksafe_reconcile_started_run[OF assms]] ksafe_ret)
qed

lemma ksafe_start_task:
  assumes "rely env N"
  shows "ksafe env N (\<lambda>_. True) (start_task env key tid actor src) (\<lambda>_ _. True)"
  unfolding start_task_def
  by (intro ksafe_get_task[OF assms stable_True] ksafe_existing_command[OF assms reads_only_stable]
      rg.safe_option rg.safe_if rg.safe_raise ksafe_True[OF ksafe_start_run[OF assms]]
      ksafe_then[OF rg.safe_if] ksafe_then[OF ksafe_True[OF ksafe_plan_task[OF assms]]] ksafe_ret
      ksafe_then[OF ksafe_create_run[OF assms]])

lemma ksafe_inert_commit:
  assumes "rely env N" "inert_type ty" "dict_get payload ''reason'' = None" "dict_get payload ''backend_ref'' = None"
  shows "ksafe env N (\<lambda>w. reads_run ts rid rs w \<and> reads ts w \<and> True)
     (await (commit_task_command env ts key oper [(ty, ''run'', rid, payload, am)] res actor src) (\<lambda>_. get_run env tid rid)) (\<lambda>_ _. True)"
  using assms by (intro ksafe_then[OF ksafe_append(2)[OF assms(1) inert_appendable] ksafe_query(2)[OF assms(1)]]) simp_all

lemma recorded_run:
  assumes inv: "kernel_inv env N w" "w_draws w \<le> N" and L: "view tid (stream w tid) = Some L"
    and r: "read_run tid n rid rs w"
  shows "\<exists>r. lc_run L rid = Some r"
proof -
  have ok: "stream_ok tid (stream w tid)" using inv by (simp add: kernel_inv_def)
  let ?pre = "take (rs_revision rs) (stream w tid)"
  have "run_fold_of rid ?pre \<noteq> Inr run_fold_init"
    using r by (auto simp: read_run_def reduce_run_Inr run_state_of_def run_fold_init_def)
  then have "rid \<in> run_subjects ?pre" using run_fold_fresh by blast
  then have "rid \<in> run_subjects (stream w tid)" using in_set_takeD by (fastforce simp: run_subjects_def)
  with stream_ok_view[OF ok L] entities_okD(5) show ?thesis by blast
qed

lemma appendable_inert_recorded:
  assumes "\<forall>w. P w \<longrightarrow> read_run (ts_task_id ts) n rid rs w" "inert_type ty" "dict_get payload ''reason'' = None"
  shows "appendable env N ts [(ty, ''run'', rid, payload, am)] P"
proof (rule appendable_single, goal_cases)
  case (1 w e L)
  note rec = recorded_run[OF 1(2,3,5)]
  have "stream_ok (ts_task_id ts) (stream w (ts_task_id ts) @ [e])"
    using inert_grows[OF 1(7,5,10) refl assms(2)] assms(1,3) 1(1) rec by auto
  moreover have "rid \<in> run_subjects (stream w (ts_task_id ts))"
    using rec assms(1) 1(1) lifecycle_run_recorded[OF 1(5)] by blast
  ultimately show ?case using 1(10) by (auto simp: run_subjects_def event_of_def)
qed

lemma ksafe_refresh_not_found:
  assumes "rely env N"
  shows "ksafe env N (\<lambda>w. read_run tid n rid rs w) (await (mark_recovery_required env tid rid reason key) (\<lambda>_.
     await (get_task env tid) (\<lambda>ts. await (commit_task_command env ts key ''refresh_run''
       [(''run.refresh_not_found'', ''run'', rid, [], [])] rid actor src) (\<lambda>_. get_run env tid rid)))) (\<lambda>_ _. True)"
proof (rule rg.safe_await_frame[OF read_run_stable ksafe_True[OF ksafe_mark_recovery_required[OF assms]]],
    rule rg.safe_pre[where P' = "read_run tid n rid rs"],
    rule ksafe_get_task[OF assms kstable_rstable[OF read_run_stable]])
  fix ts assume tid: "ts_task_id ts = tid"
  let ?P = "\<lambda>w. reads ts w \<and> read_run tid n rid rs w"
  have "appendable env N ts [(''run.refresh_not_found'', ''run'', rid, [], [])] ?P"
    using tid by (intro appendable_inert_recorded[where n = n and rs = rs]) auto
  then show "ksafe env N ?P (await (commit_task_command env ts key ''refresh_run''
       [(''run.refresh_not_found'', ''run'', rid, [], [])] rid actor src) (\<lambda>_. get_run env tid rid)) (\<lambda>_ _. True)"
    by (intro ksafe_commit[OF assms _ _ _ ksafe_query(2)[OF assms]] snapshot_stable) auto
qed simp

lemma ksafe_on_not_found_stable:
  assumes "ksafe env N (\<lambda>_. True) m (\<lambda>_ _. True)" "\<And>x. ksafe env N (\<lambda>_. True) (f x) Q"
    "ksafe env N P handler Q" "kstable P"
  shows "ksafe env N P (on_not_found m f handler) Q"
proof (rule rg.safeI)
  fix w r w' assume *: "kernel_inv env N w" "P w" "on_not_found m f handler w = (r, w')"
  obtain r1 w1 where m: "m w = (r1, w1)" by (cases "m w")
  note 1 = rg.safeD[OF assms(1) *(1) TrueI m]
  have P1: "P w1" using assms(4) 1(2) *(2) by (auto simp: rg.stable_def)
  have next_step: "kernel_inv env N w' \<and> evolves w w' \<and> (\<forall>x. r = Inr x \<longrightarrow> Q x w')"
    if "ksafe env N R n Q" "R w1" "n w1 = (r, w')" for n R
    using rg.safeD[OF that(1) 1(1) that(2,3)] 1(2) evolves_trans by blast
  show "kernel_inv env N w' \<and> evolves w w' \<and> (\<forall>x. r = Inr x \<longrightarrow> Q x w')"
  proof (cases r1)
    case (Inr x)
    then show ?thesis using * m next_step[OF assms(2)[of x]] by (simp add: on_not_found_def)
  next
    case (Inl e)
    have "handler w1 = (r, w') \<or> (r, w') = (Inl e, w1)"
      using *(3) m Inl by (auto simp: on_not_found_def split: py_error.splits error_code.splits)
    then show ?thesis using next_step[OF assms(3) P1] 1 by auto
  qed
qed

lemma ksafe_refresh_run:
  assumes "rely env N"
  shows "ksafe env N (\<lambda>_. True) (refresh_run env key tid rid actor src) (\<lambda>_ _. True)"
  unfolding refresh_run_def
proof (rule ksafe_run_handler[OF assms], rule rg.safe_if[OF ksafe_query(2)[OF assms]], rule rg.safe_if,
    rule ksafe_inert_commit[OF assms], simp, simp, simp,
    rule ksafe_on_not_found_stable[OF ksafe_env_get(1)[OF assms]], goal_cases)
  case (1 ts rs dup snapshot)
  show ?case by (rule ksafe_then[OF ksafe_apply_snapshot_command[OF assms] ksafe_query(2)[OF assms]])
next
  case (2 ts rs dup)
  show ?case
    by (rule rg.safe_pre[OF ksafe_refresh_not_found[OF assms, where n = "ts_revision ts" and rs = rs]])
      (use 2(1) in simp)
next
  case (3 ts rs dup)
  show ?case by (intro rg.stable_conj read_run_stable read_task_stable rg.stable_const)
qed

lemma ksafe_retry_stale:
  assumes "ksafe env N (\<lambda>_. True) m (\<lambda>_ _. True)"
  shows "ksafe env N (\<lambda>_. True) (retry_stale n err m) (\<lambda>_ _. True)"
proof (induction n arbitrary: err)
  case 0
  show ?case by (simp add: rg.safe_raise split: option.split)
next
  case (Suc n)
  show ?case unfolding retry_stale.simps
    by (intro rg.safe_attempt[OF assms] rg.safe_if rg.safe_raise Suc rg.stable_const)
qed

lemma ksafe_record_run_outcome:
  assumes "rely env N"
  shows "ksafe env N (\<lambda>_. True) (record_run_outcome env key tid rid status output actor src am) (\<lambda>_ _. True)"
  unfolding record_run_outcome_def
proof (rule rg.safe_if[OF rg.safe_raise], rule ksafe_retry_stale)
  assume "\<not> status \<notin> TERMINAL_RUN_STATUSES"
  then have st: "status \<in> TERMINAL_RUN_STATUSES" by simp
  show "ksafe env N (\<lambda>_. True) (record_run_outcome_once env key tid rid status output actor src am) (\<lambda>_ _. True)"
    unfolding record_run_outcome_once_def
    by (rule ksafe_run_handler[OF assms], intro rg.safe_if rg.safe_raise ksafe_query(2)[OF assms]
        ksafe_inert_commit[OF assms] ksafe_then[OF ksafe_apply_terminal_command[OF assms st] ksafe_query(2)[OF assms]])
      simp_all
qed

lemma ksafe_cancel_run:
  assumes "rely env N"
  shows "ksafe env N (\<lambda>_. True) (cancel_run env key tid rid actor src) (\<lambda>_ _. True)"
  unfolding cancel_run_def
proof (rule ksafe_run_handler[OF assms], intro rg.safe_if rg.safe_raise, goal_cases)
  case (1 ts rs dup)
  show ?case by (intro ksafe_then[OF rg.safe_if ksafe_query(2)[OF assms]] ksafe_True[OF ksafe_finish_cancel[OF assms]] ksafe_ret)
next
  case (2 ts rs dup)
  show ?case by (rule ksafe_inert_commit[OF assms]) simp_all
next
  case (3 ts rs dup)
  have "R_CANCELLED \<in> TERMINAL_RUN_STATUSES" by (simp add: TERMINAL_RUN_STATUSES_def)
  from ksafe_then[OF ksafe_apply_terminal_command[OF assms this 3(2)] ksafe_query(2)[OF assms]] show ?case .
next
  case (4 ts rs dup)
  show ?case
    by (rule ksafe_then[OF ksafe_append(2)[OF assms inert_appendable]
          ksafe_then[OF ksafe_finish_cancel[OF assms] ksafe_query(2)[OF assms]]]) simp_all
qed

section \<open>Attachments\<close>

lemma ksafe_invalidate:
  assumes "rely env N"
  shows "ksafe env N (\<lambda>_. True) (invalidate_completion_subject env tid) (\<lambda>_ _. True)"
  unfolding invalidate_completion_subject_def
  using assms by (intro rg.safe_option ksafe_ret ksafe_external) (auto simp: rely_def)

lemma ksafe_await_started_effect:
  assumes "ksafe env N P m (\<lambda>_ _. True)"
  shows "ksafe env N P (await_started_effect env m) (\<lambda>_ _. True)"
  unfolding await_started_effect_def
  by (intro ksafe_then[OF assms] ksafe_then[OF rsafe_ksafe[OF rsafe_gets]] rg.safe_if rg.safe_raise ksafe_ret TrueI)

lemma attached_appendable:
  assumes ty: "ty = ''artifact.attached'' \<and> k = ''artifact_id'' \<or> ty = ''result.attached'' \<and> k = ''result_id''"
    and x: "x \<noteq> []" and rec: "\<forall>w. P w \<longrightarrow> sty = ''run'' \<longrightarrow> (\<exists>n rs. read_run (ts_task_id ts) n sid rs w)"
  shows "appendable env N ts [(ty, sty, sid, [(''task_id'', JStr tid), (k, JStr x)], [])] P"
proof (rule appendable_single, goal_cases)
  case (1 w e L)
  have "stream_ok (ts_task_id ts) (stream w (ts_task_id ts) @ [e]) \<and>
      run_subjects [e] \<subseteq> run_subjects (stream w (ts_task_id ts))"
    using rec 1(1) recorded_run[OF 1(2,3,5)] ty
    by (intro attached_grows[OF 1(7,5,10) refl ty _ x]) auto
  then show ?case by auto
qed

lemma ksafe_attach_output:
  assumes "rely env N" and ty: "ty = ''artifact.attached'' \<and> k = ''artifact_id'' \<or> ty = ''result.attached'' \<and> k = ''result_id''"
  shows "ksafe env N (\<lambda>_. True) (attach_output env pfx oper ty k key tid x run_id actor src) (\<lambda>_ _. True)"
  unfolding attach_output_def
proof (rule ksafe_pure_then, rule ksafe_task_handler[OF assms(1)])
  fix ts y assume tid: "ts_task_id ts = tid" and "validate_id x pfx = Inr y"
  then have x: "x \<noteq> []" using validate_id_nonempty by blast
  let ?R = "\<lambda>sub w. fst sub = ''run'' \<longrightarrow> (\<exists>n rs. read_run (ts_task_id ts) n (snd sub) rs w)"
  have st: "kstable (\<lambda>w. ?R sub w \<and> reads ts w \<and> True)" for sub
    by (intro rg.stable_conj rg.stable_imp_const rg.stable_ex read_run_stable read_task_stable rg.stable_const)
  have body: "ksafe env N (\<lambda>w. ?R (sty, sid) w \<and> reads ts w \<and> True)
     (await (await_started_effect env (await (invalidate_completion_subject env tid) (\<lambda>_.
        await (commit_task_command env ts key oper
          [(ty, sty, sid, [(''task_id'', JStr tid), (k, JStr x)], [])] sid actor src) (\<lambda>_. ret ())))) (\<lambda>_.
     get_task env tid)) (\<lambda>_ _. True)" for sty sid
  proof (rule ksafe_then[OF ksafe_await_started_effect ksafe_query(1)[OF assms(1)]],
      rule rg.safe_await_frame[OF st ksafe_True[OF ksafe_invalidate[OF assms(1)]]])
    show "ksafe env N (\<lambda>w. True \<and> ?R (sty, sid) w \<and> reads ts w \<and> True)
       (await (commit_task_command env ts key oper
          [(ty, sty, sid, [(''task_id'', JStr tid), (k, JStr x)], [])] sid actor src) (\<lambda>_. ret ())) (\<lambda>_ _. True)"
      by (rule ksafe_commit[OF assms(1) _ _ attached_appendable[OF ty x] ksafe_ret])
        (use kstable_rstable[OF st[of "(sty, sid)"]] in auto)
  qed
  show "ksafe env N (\<lambda>w. reads ts w \<and> True)
     (await (case run_id of None \<Rightarrow> ret (''task'', tid) | Some rid \<Rightarrow> await (get_run env tid rid) (\<lambda>_. ret (''run'', rid)))
       (\<lambda>(sty, sid). await (await_started_effect env (await (invalidate_completion_subject env tid) (\<lambda>_.
        await (commit_task_command env ts key oper
          [(ty, sty, sid, [(''task_id'', JStr tid), (k, JStr x)], [])] sid actor src) (\<lambda>_. ret ())))) (\<lambda>_.
     get_task env tid))) (\<lambda>_ _. True)"
  proof (rule rg.safe_await)
    show "ksafe env N (\<lambda>w. reads ts w \<and> True)
       (case run_id of None \<Rightarrow> ret (''task'', tid) | Some rid \<Rightarrow> await (get_run env tid rid) (\<lambda>_. ret (''run'', rid)))
       (\<lambda>sub w. ?R sub w \<and> reads ts w \<and> True)"
    proof (rule rg.safe_option)
      fix rid
      show "ksafe env N (\<lambda>w. reads ts w \<and> True) (await (get_run env tid rid) (\<lambda>_. ret (''run'', rid)))
         (\<lambda>sub w. ?R sub w \<and> reads ts w \<and> True)"
        by (rule ksafe_get_run[OF assms(1) reads_only_stable, where n = 0], simp add: reached_def, rule rg.safe_ret)
          (use tid in auto)
    qed (rule rg.safe_ret, simp)
  qed (use body in auto)
qed

end
