(* ===== verification/Kernel_Recovery_Safe.thy ===== *)
theory Kernel_Recovery_Safe
  imports Kernel_Safe
begin

text \<open>
  Task creation, task cancellation and recovery under interference.
\<close>

section \<open>Task creation\<close>

definition event_made :: "string \<Rightarrow> string \<Rightarrow> string \<Rightarrow> string \<Rightarrow> string option \<Rightarrow> json dict \<Rightarrow> event \<Rightarrow> bool" where
  "event_made stream_id ty sty sid project payload e \<longleftrightarrow>
     ev_event_type e = ty \<and> ev_subject_type e = sty \<and> ev_subject_id e = sid \<and>
     ev_correlation_id e = stream_id \<and> ev_project_id e = project \<and>
     validate_subject_id sty sid = Inr sid \<and> validate_optional_id project ''project'' = Inr () \<and>
     (\<forall>k. k \<notin> RESERVED_KEYS \<longrightarrow> dict_get (ev_payload e) k = map_option deep_freeze (dict_get payload k))"

lemma rsafe_make_event:
  assumes "rstable env N P"
  shows "rsafe env N P (make_event env stream_id ty sty sid cause owner project actor src n payload am)
     (\<lambda>e w. event_made stream_id ty sty sid project payload e \<and> P w)"
  unfolding make_event_def
proof (rule rd.safe_if[OF rd.safe_raise], rule rd.safe_await[OF rsafe_new_id_stable[OF assms]],
    rule rd.safe_await[OF rsafe_utc_now[OF assms]], rule rd.safe_pure, goal_cases)
  case (1 eid now e w)
  then show ?case
    using event_post_init_Inr[OF 1(2)] event_post_init_project[OF 1(2)]
    by (simp add: event_made_def enriched_payload_get)
qed

lemma stream_ok_created:
  assumes e: "event_made tid ''task.created'' ''task'' tid project
      [(''title'', JStr title), (''objective'', JStr objective), (''owner_type'', JStr ot), (''owner_id'', JStr oi)] e"
    and ne: "title \<noteq> []" "objective \<noteq> []" "ot \<noteq> []" "oi \<noteq> []"
  shows "stream_ok tid [e] \<and> run_subjects [e] = {}"
proof -
  have str: "event_string e ''title'' = Inr title" "event_string e ''objective'' = Inr objective"
    "event_string e ''owner_type'' = Inr ot" "event_string e ''owner_id'' = Inr oi"
    using e ne by (simp_all add: event_made_def event_string_def)
  have ids: "validate_id tid ''task'' = Inr tid" "validate_optional_id (ev_project_id e) ''project'' = Inr ()"
    using e by (auto simp: event_made_def)
  have "\<exists>s t. task_created tid task_fold_init e = Inr s \<and> tf_task s = Some t \<and> tf_run_ids s = [] \<and>
      task_wf t \<and> t_id t = tid \<and> owned t \<and> t_status t = T_DRAFT"
    using ids ne by (simp add: task_created_def str task_fold_init_def task_post_init_def task_wf_iff owned_def)
  then obtain s t where s: "task_created tid task_fold_init e = Inr s" "tf_task s = Some t" "tf_run_ids s = []"
    "task_wf t" "t_id t = tid" "owned t" by blast
  have none: "run_subjects [e] = {}" using e by (simp add: run_subjects_def event_made_def)
  have fold: "task_fold_of tid [e] = Inr s"
    using e s(1) by (simp add: task_fold_of_def task_step_def event_made_def)
  have view: "view tid [e] = Some \<lparr>lc_task = t, lc_run_ids = [], lc_run = (\<lambda>_. None)\<rparr>"
    using fold s(2,3) run_fold_fresh[of _ "[e]"] none by (simp add: view_Some run_of_def run_fold_init_def)
  have "lifecycle_ok tid \<lparr>lc_task = t, lc_run_ids = [], lc_run = (\<lambda>_. None)\<rparr>"
    using s(4,5,6) by (simp add: lifecycle_ok_def entities_ok_def runs_exclusive_def attempts_numbered_def idle_def active_in_def)
  with view none show ?thesis by (simp add: stream_ok_def)
qed

lemma ksafe_create_task:
  assumes "rely env N"
  shows "ksafe env N (\<lambda>_. True)
     (create_task env key title objective ot oi project task_id actor src) (\<lambda>_ _. True)"
  unfolding create_task_def Let_def
proof (rule ksafe_pure_then, rule ksafe_existing_command[OF assms stable_True],
    rule rg.safe_option[OF _ ksafe_query(1)[OF assms]], rule rg.safe_if[OF rg.safe_raise], rule rg.safe_if[OF rg.safe_raise])
  assume ne: "\<not> (py_blank title \<or> py_blank objective \<or> py_blank oi)" "\<not> ot \<notin> {''user'', ''organization'', ''team'', ''service''}"
  have nonempty: "title \<noteq> []" "objective \<noteq> []" "ot \<noteq> []" "oi \<noteq> []" using ne by (auto simp: py_blank_def)
  have id: "ksafe env N (\<lambda>_. True) (case task_id of None \<Rightarrow> new_id env ''task''
      | Some t \<Rightarrow> if t = [] then new_id env ''task'' else ret t) (\<lambda>_ _. True)"
    by (intro rg.safe_option rg.safe_if ksafe_ret rsafe_ksafe[OF rsafe_new_id_stable[OF stable_True]])
  have new: "ksafe env N (\<lambda>_. True) (validate_new_task env tid title objective ow project key) (\<lambda>_ _. True)" for tid ow
    unfolding validate_new_task_def
    by (intro ksafe_then[OF rsafe_ksafe[OF rsafe_utc_now[OF stable_True]]] ksafe_pure_then ksafe_ret)
  have commit: "ksafe env N (\<lambda>w. event_made tid ''task.created'' ''task'' tid project
      [(''title'', JStr title), (''objective'', JStr objective), (''owner_type'', JStr ot), (''owner_id'', JStr oi)] e \<and> True)
      (await (pure (make_command TASK_CREATE_SCOPE key ''create_task'' tid tid [e])) (\<lambda>command.
       await (repo_commit env tid 0 [e] (Some command)) (\<lambda>result.
       if \<not> cm_applied result
       then await (pure (require_same_command (cm_command result) ''create_task'')) (\<lambda>duplicate.
            get_task env (cr_result_id duplicate))
       else await (mirror env [e]) (\<lambda>_. get_task env tid)))) (\<lambda>_ _. True)" for tid e
  proof (rule ksafe_pure_then, rule rg.safe_pre_const, rule ksafe_then)
    fix command assume e: "event_made tid ''task.created'' ''task'' tid project
      [(''title'', JStr title), (''objective'', JStr objective), (''owner_type'', JStr ot), (''owner_id'', JStr oi)] e"
      and "make_command TASK_CREATE_SCOPE key ''create_task'' tid tid [e] = Inr command"
    then have "cr_stream_id command = tid \<and> cr_event_id command \<in> ev_id ` set [e]"
      by (auto simp: make_command_def)
    with stream_ok_created[OF e nonempty]
    show "ksafe env N (\<lambda>_. True) (repo_commit env tid 0 [e] (Some command)) (\<lambda>_ _. True)"
      by (intro ksafe_repo_commit[OF assms]) auto
  qed (intro rg.safe_if ksafe_pure_then ksafe_query(1)[OF assms] ksafe_then[OF ksafe_mirror[OF assms]])
  show "ksafe env N (\<lambda>_. True) (await (case task_id of None \<Rightarrow> new_id env ''task''
      | Some t \<Rightarrow> if t = [] then new_id env ''task'' else ret t) (\<lambda>tid.
     await (pure (validate_id tid ''task'')) (\<lambda>_.
     await (validate_new_task env tid title objective \<lparr>ow_type = ot, ow_id = oi\<rparr> project key) (\<lambda>_.
     await (make_event env tid ''task.created'' ''task'' tid key \<lparr>ow_type = ot, ow_id = oi\<rparr> project
       (actor_or_owner actor \<lparr>ow_type = ot, ow_id = oi\<rparr>) src 1
       [(''title'', JStr title), (''objective'', JStr objective), (''owner_type'', JStr ot), (''owner_id'', JStr oi)] []) (\<lambda>event.
     await (pure (make_command TASK_CREATE_SCOPE key ''create_task'' tid tid [event])) (\<lambda>command.
     await (repo_commit env tid 0 [event] (Some command)) (\<lambda>result.
     if \<not> cm_applied result
     then await (pure (require_same_command (cm_command result) ''create_task'')) (\<lambda>duplicate.
          get_task env (cr_result_id duplicate))
     else await (mirror env [event]) (\<lambda>_. get_task env tid)))))))) (\<lambda>_ _. True)"
    by (rule ksafe_then[OF id], rule ksafe_pure_then, rule ksafe_then[OF new],
        rule rg.safe_await[OF rsafe_ksafe[OF rsafe_make_event[OF stable_True]]], rule commit)
qed

section \<open>Task cancellation\<close>

lemma ksafe_cancel_active_runs:
  assumes "rely env N"
  shows "ksafe env N (\<lambda>_. True) (cancel_active_runs env key tid act actor src) (\<lambda>_ _. True)"
  unfolding cancel_active_runs_def
  by (rule rg.safe_post[OF rg.safe_each[OF ksafe_cancel_run[OF assms]]]) simp_all

lemma bound_cancel_task:
  assumes "rely env N"
  shows "ksafe env N (\<lambda>_. True) (cancel_task env key tid actor src) (\<lambda>_. key_bound tid key ''cancel_task'')"
  unfolding cancel_task_def
proof (rule ksafe_handler_bound[OF assms], intro rg.safe_if rg.safe_raise,
    rule ksafe_active_runs[OF assms reads_only_stable], simp,
    rule ksafe_then[OF ksafe_True[OF ksafe_cancel_active_runs[OF assms]]],
    rule ksafe_get_task[OF assms stable_True], rule ksafe_active_runs[OF assms reads_only_stable], simp,
    rule rg.safe_if[OF rg.safe_raise])
  fix ts :: task_state and rem :: "run_state list" assume tid: "ts_task_id ts = tid" and rem: "\<not> rem \<noteq> []"
  let ?P = "\<lambda>w. no_active ts w \<and> reads ts w \<and> True"
  have idle: "active_snapshot ts (ts_revision ts) rem w \<and> reads ts w \<and> True \<Longrightarrow> ?P w" for w
    using rem unfolding active_snapshot_def no_active_def by fastforce
  have lost: "ksafe env N ?P (task_status_command env key ''cancel_task'' ts
      [(''task.cancel_lost_race'', ''task'', tid, [(''status'', JStr (task_status_value (ts_status ts)))], [])] actor src)
      (\<lambda>_. key_bound tid key ''cancel_task'')"
    using tid by (intro ksafe_task_status_command[OF assms idle_stable] appendable_task_specs[where solo = True])
      (auto simp: TASK_EVENT_STATUS_def)
  have final: "ksafe env N ?P (task_status_command env key ''cancel_task'' ts
      [(if ts_status ts = T_CANCELLED then ''task.cancel_acknowledged'' else ''task.cancelled'', ''task'', tid, [], [])] actor src)
      (\<lambda>_. key_bound tid key ''cancel_task'')" if "ts_status ts \<notin> {T_SUCCEEDED, T_FAILED}"
  proof -
    have "ts_status ts = T_CANCELLED \<or> T_CANCELLED \<in> TASK_TRANSITIONS (ts_status ts)"
      using that by (cases "ts_status ts") auto
    with tid show ?thesis
      by (intro ksafe_task_status_command[OF assms idle_stable] appendable_task_specs[where solo = True])
        (auto simp: TASK_EVENT_STATUS_def may_close_def)
  qed
  show "ksafe env N (\<lambda>w. active_snapshot ts (ts_revision ts) rem w \<and> reads ts w \<and> True)
     (if ts_status ts \<in> {T_SUCCEEDED, T_FAILED}
      then task_status_command env key ''cancel_task'' ts
        [(''task.cancel_lost_race'', ''task'', tid, [(''status'', JStr (task_status_value (ts_status ts)))], [])] actor src
      else task_status_command env key ''cancel_task'' ts
        [(if ts_status ts = T_CANCELLED then ''task.cancel_acknowledged'' else ''task.cancelled'', ''task'', tid, [], [])] actor src)
     (\<lambda>_. key_bound tid key ''cancel_task'')"
    by (rule rg.safe_if; rule rg.safe_pre[where P' = ?P]) (use lost final idle in auto)
qed

lemmas ksafe_cancel_task = ksafe_unbind[OF bound_cancel_task]

section \<open>Recovery\<close>

lemma ksafe_recover_run:
  assumes "rely env N"
  shows "ksafe env N (\<lambda>_. True) (recover_run env ts rid) (\<lambda>_ _. True)"
  unfolding recover_run_def Let_def
  by (intro ksafe_then[OF ksafe_query(2)[OF assms]] ksafe_then[OF rg.safe_if] rg.safe_if ksafe_ret
      ksafe_on_not_found[OF ksafe_env_get(1)[OF assms]]
      ksafe_then[OF ksafe_apply_snapshot_system[OF assms]] ksafe_then[OF ksafe_dispatch_started_run[OF assms]]
      ksafe_then[OF ksafe_mark_recovery_required[OF assms]])

lemma ksafe_recover_task:
  assumes "rely env N"
  shows "ksafe env N (\<lambda>_. True) (recover_task env tid) (\<lambda>_ _. True)"
  unfolding recover_task_def
  by (rule ksafe_get_task[OF assms stable_True],
      rule ksafe_then[OF ksafe_True[OF rg.safe_post[OF rg.safe_each[OF ksafe_recover_run[OF assms]]]] ksafe_ret]) simp_all

lemma ksafe_recover_all:
  assumes "rely env N"
  shows "ksafe env N (\<lambda>_. True) (recover_all env) (\<lambda>_ _. True)"
  unfolding recover_all_def
proof (rule ksafe_then)
  show "ksafe env N (\<lambda>_. True) (repo_list env) (\<lambda>_ _. True)"
    unfolding repo_list_def by (rule rsafe_ksafe[OF rsafe_suspend_gets[OF assms stable_True]]) simp
next
  fix sids
  show "ksafe env N (\<lambda>_. True) (each (recover_task env) (filter (\<lambda>sid. py_startswith sid ''task_'') sids)) (\<lambda>_ _. True)"
    by (rule rg.safe_post[OF rg.safe_each[OF ksafe_recover_task[OF assms]]]) simp_all
qed

end
