(* ===== verification/Task_Mutations.thy ===== *)
theory Task_Mutations
  imports Kernel_Recovery_Safe
begin

text \<open>
  The narrow task mutations of \<open>kernel/task_mutations.py\<close>: planning metadata, project moves and the
  reservation of a bulk move. Each replays its own idempotency record before and after it commits;
  the comparison of a caller's JSON with the frozen event is \<open>json_equivalent\<close>.
\<close>

section \<open>Comparing JSON\<close>

fun py_number :: "json \<Rightarrow> rat option" where
  "py_number (JBool b) = Some (if b then 1 else 0)"
| "py_number (JInt i) = Some (of_int i)"
| "py_number (JFloat q) = Some q"
| "py_number _ = None"

definition py_scalar_eq :: "json \<Rightarrow> json \<Rightarrow> bool" where
  \<comment> \<open>Python's \<open>==\<close> with a left operand that is no container: numbers and booleans compare by value\<close>
  "py_scalar_eq left right =
     (case (py_number left, py_number right) of
        (Some a, Some b) \<Rightarrow> a = b
      | (None, None) \<Rightarrow> left = right
      | _ \<Rightarrow> False)"

fun sequence_items :: "json \<Rightarrow> json list option" where
  "sequence_items (JList xs) = Some xs"
| "sequence_items (JTuple xs) = Some xs"
| "sequence_items _ = None"

fun mapping_items :: "json \<Rightarrow> (string \<times> json) list option" where
  "mapping_items (JObj kvs) = Some kvs"
| "mapping_items _ = None"

function (sequential) json_equivalent :: "json \<Rightarrow> json \<Rightarrow> bool" where
  "json_equivalent (JObj left) right =
     (case mapping_items right of
        None \<Rightarrow> False
      | Some items \<Rightarrow> length left = length items \<and>
          list_all (\<lambda>(k, v). case dict_get items k of None \<Rightarrow> False | Some v' \<Rightarrow> json_equivalent v v') left)"
| "json_equivalent (JList left) right =
     (case sequence_items right of
        None \<Rightarrow> False
      | Some items \<Rightarrow> length left = length items \<and> list_all (\<lambda>(a, b). json_equivalent a b) (zip left items))"
| "json_equivalent (JTuple left) right =
     (case sequence_items right of
        None \<Rightarrow> False
      | Some items \<Rightarrow> length left = length items \<and> list_all (\<lambda>(a, b). json_equivalent a b) (zip left items))"
| "json_equivalent left right = py_scalar_eq left right"
  by pat_completeness auto

termination json_equivalent
  by (relation "measure (\<lambda>(a, b). size a)")
    (auto dest: set_zip_leftD intro: size_member size_item)

lemma py_scalar_eq_refl: "py_scalar_eq v v"
  by (simp add: py_scalar_eq_def split: option.split)

lemma json_equivalent_refl: "json_wf v \<Longrightarrow> json_equivalent v v"
proof (induction v rule: json_wf.induct)
  case (1 kvs)
  have "dict_get kvs k = Some v" if "(k, v) \<in> set kvs" for k v
    using 1(2) that by (simp add: dict_get_def)
  then show ?case using 1 by (auto simp: list_all_iff)
next
  case (2 xs)
  then show ?case by (auto simp: list_all_iff zip_same_conv_map)
next
  case (3 xs)
  then show ?case by (auto simp: list_all_iff zip_same_conv_map)
qed (simp_all add: py_scalar_eq_refl)

lemma json_equivalent_freeze_left:
  "json_equivalent (deep_freeze v) w \<longleftrightarrow> json_equivalent v w"
proof (induction v w rule: json_equivalent.induct)
  case (1 kvs right)
  show ?case
  proof (cases right)
    case (JObj items)
    then show ?thesis using 1[of items] by (fastforce simp: list_all_iff split: option.splits)
  qed simp_all
next
  case (2 xs right)
  then show ?case
    by (auto simp: list_all_iff zip_map1 split: option.splits)
next
  case (3 xs right)
  then show ?case
    by (auto simp: list_all_iff zip_map1 split: option.splits)
qed simp_all

lemma py_scalar_eq_sym: "py_scalar_eq v w \<Longrightarrow> py_scalar_eq w v"
  by (auto simp: py_scalar_eq_def split: option.splits)

lemma scalar_cases:
  "sequence_items v = None \<Longrightarrow> mapping_items v = None \<Longrightarrow> json_equivalent v w = py_scalar_eq v w"
  by (cases v) auto

lemma scalar_right:
  assumes "py_scalar_eq v w" "sequence_items v = None" "mapping_items v = None"
  shows "sequence_items w = None" "mapping_items w = None"
  using assms by (cases v; cases w; auto simp: py_scalar_eq_def)+

lemma same_keys:
  assumes "distinct xs" "distinct ys" "length xs = length ys" "set xs \<subseteq> set ys"
  shows "set xs = set ys"
  using assms by (metis card_subset_eq distinct_card finite_set)

lemma json_equivalent_sequences:
  assumes "sequence_items v = Some xs"
  shows "json_equivalent v w \<longleftrightarrow> (\<exists>ys. sequence_items w = Some ys \<and> list_all2 json_equivalent xs ys)"
proof -
  have "json_equivalent v w \<longleftrightarrow> (\<exists>ys. sequence_items w = Some ys \<and> length xs = length ys \<and>
      list_all (\<lambda>(a, b). json_equivalent a b) (zip xs ys))"
    using assms by (cases v) (simp_all split: option.split)
  then show ?thesis by (simp add: list_all2_iff list_all_iff)
qed

lemma json_equivalent_objects:
  "json_equivalent (JObj left) w \<longleftrightarrow> (\<exists>items. w = JObj items \<and> length left = length items \<and>
     (\<forall>(k, v) \<in> set left. \<exists>v'. dict_get items k = Some v' \<and> json_equivalent v v'))"
proof (cases w)
  case (JObj items)
  have "(case o' of None \<Rightarrow> False | Some v' \<Rightarrow> Q v') \<longleftrightarrow> (\<exists>v'. o' = Some v' \<and> Q v')" for o' and Q :: "json \<Rightarrow> bool"
    by (cases o') auto
  with JObj show ?thesis by (simp add: list_all_iff)
qed simp_all

lemma wf_sequence: "json_wf v \<Longrightarrow> sequence_items v = Some xs \<Longrightarrow> x \<in> set xs \<Longrightarrow> json_wf x"
  by (cases v) (auto simp: list_all_iff)

lemma json_equivalent_sym: "json_equivalent v w \<Longrightarrow> json_wf v \<Longrightarrow> json_wf w \<Longrightarrow> json_equivalent w v"
proof (induction "size v" arbitrary: v w rule: less_induct)
  case less
  consider (object) left where "v = JObj left" | (sequence) xs where "sequence_items v = Some xs"
    | (scalar) "sequence_items v = None" "mapping_items v = None" by (cases v) auto
  then show ?case
  proof cases
    case object
    from less.prems(1) obtain items where w: "w = JObj items" "length left = length items"
      and all: "\<forall>(k, a) \<in> set left. \<exists>b. dict_get items k = Some b \<and> json_equivalent a b"
      unfolding object json_equivalent_objects by blast
    have sub: "\<exists>b. dict_get items k = Some b \<and> json_equivalent a b" if "(k, a) \<in> set left" for k a
      using bspec[OF all that] by simp
    have d: "distinct (map fst left)" "distinct (map fst items)" using less.prems object w by simp_all
    have "fst ` set left \<subseteq> fst ` set items"
    proof
      fix k assume "k \<in> fst ` set left"
      then obtain a where "(k, a) \<in> set left" by force
      from sub[OF this] have "dict_get items k \<noteq> None" by auto
      then show "k \<in> fst ` set items" by (simp add: dict_get_None_iff)
    qed
    then have keys: "fst ` set left = fst ` set items" using same_keys[OF d] w(2) by simp
    have "\<exists>a. dict_get left k = Some a \<and> json_equivalent b a" if b: "(k, b) \<in> set items" for k b
    proof -
      from b have "k \<in> fst ` set left" unfolding keys by (rule image_eqI[rotated]) simp
      then obtain a where a: "(k, a) \<in> set left" by (elim imageE) (metis prod.collapse)
      have "dict_get items k = Some b" using b d(2) by (simp add: dict_get_def)
      with sub[OF a] have "json_equivalent a b" by simp
      moreover have "json_wf a" "json_wf b"
        using less.prems(2,3) a b unfolding object w(1) by (fastforce simp: list_all_iff)+
      ultimately have "json_equivalent b a" using less.hyps[of a] size_item[OF a] object by simp
      then show ?thesis using a d(1) by (simp add: dict_get_def)
    qed
    then show ?thesis unfolding w object json_equivalent_objects using w(2) by auto
  next
    case (sequence xs)
    with less.prems(1) obtain ys where ys: "sequence_items w = Some ys" "list_all2 json_equivalent xs ys"
      by (auto simp: json_equivalent_sequences)
    have "list_all2 json_equivalent ys xs"
    proof (rule list_all2_all_nthI)
      show len: "length ys = length xs" using ys(2) by (simp add: list_all2_lengthD)
      fix n assume n: "n < length ys"
      then have "json_equivalent (xs ! n) (ys ! n)" using ys(2) len by (simp add: list_all2_nthD2)
      moreover have "json_wf (xs ! n)" "json_wf (ys ! n)"
        using wf_sequence[OF less.prems(2) sequence] wf_sequence[OF less.prems(3) ys(1)] n len by auto
      moreover have "size (xs ! n) < size v"
        using sequence size_member[of "xs ! n" xs] n len by (cases v) auto
      ultimately show "json_equivalent (ys ! n) (xs ! n)" using less.hyps by blast
    qed
    then show ?thesis using sequence ys(1) by (auto simp: json_equivalent_sequences)
  next
    case scalar
    with less.prems(1) have eq: "py_scalar_eq v w" by (simp add: scalar_cases)
    show ?thesis using scalar_right[OF eq scalar] py_scalar_eq_sym[OF eq] by (simp add: scalar_cases)
  qed
qed

section \<open>Operations\<close>

definition TASK_PLANNING_FIELDS :: "string list" where
  "TASK_PLANNING_FIELDS =
     [''priority'', ''due_at'', ''deadline_timezone'', ''not_before'', ''responsibility'', ''agent_assignment'',
      ''labels'', ''workspace_id'', ''parent_task_id'', ''dependencies'', ''blocking_reason'', ''effort_hint'',
      ''resource_hints'', ''archived'', ''hidden'']"

definition BULK_SCOPE :: string where
  "BULK_SCOPE = ''task-project-reassignment:bulk''"

definition payload_get :: "event \<Rightarrow> string \<Rightarrow> json" where
  \<comment> \<open>\<open>event.payload.get(key)\<close>\<close>
  "payload_get e k = (case dict_get (ev_payload e) k of None \<Rightarrow> JNull | Some v \<Rightarrow> v)"

definition command_event :: "'x kernel_env \<Rightarrow> command_record \<Rightarrow> string \<Rightarrow> ('x world, event) action" where
  "command_event env record expected_event_type =
     await (history env (cr_stream_id record)) (\<lambda>events.
     case find (\<lambda>item. ev_id item = cr_event_id record) events of
       None \<Rightarrow> raise (contract_error BACKEND_ERROR)
     | Some event \<Rightarrow>
         if ev_event_type event \<noteq> expected_event_type then raise (contract_error BACKEND_ERROR)
         else ret event)"

definition validate_planning_metadata :: "json dict \<Rightarrow> py_error + unit" where
  "validate_planning_metadata planning_metadata =
     (let fields = map fst planning_metadata;
          missing = filter (\<lambda>f. f \<notin> set fields) TASK_PLANNING_FIELDS;
          unknown = filter (\<lambda>f. f \<notin> set TASK_PLANNING_FIELDS) fields
      in if missing \<noteq> [] \<or> unknown \<noteq> []
         then Inl (ContractError INVALID_REQUEST False
           ((if missing \<noteq> [] then [(''missing_fields'', JList (map JStr (sort missing)))] else []) @
            (if unknown \<noteq> [] then [(''unknown_fields'', JList (map JStr (sort unknown)))] else [])))
         else Inr ())"

definition replayed_planning_metadata :: "'x kernel_env \<Rightarrow> string \<Rightarrow> string \<Rightarrow> json dict \<Rightarrow>
    ('x world, task_state option) action" where
  "replayed_planning_metadata env task_id idempotency_key metadata =
     await (task_command env task_id idempotency_key ''update_task'') (\<lambda>record.
     case record of
       None \<Rightarrow> ret None
     | Some c \<Rightarrow>
         await (command_event env c ''task.updated'') (\<lambda>event.
         if \<not> json_equivalent (payload_get event ''metadata'') (JObj metadata) \<or>
            dict_get (ev_payload event) ''title'' \<noteq> None \<or>
            dict_get (ev_payload event) ''objective'' \<noteq> None
         then raise (contract_error CONFLICT)
         else await (get_task env task_id) (\<lambda>ts. ret (Some ts))))"

definition update_planning_metadata :: "'x kernel_env \<Rightarrow> string \<Rightarrow> json dict \<Rightarrow> string \<Rightarrow> string option \<Rightarrow>
    string \<Rightarrow> ('x world, task_state) action" where
  "update_planning_metadata env task_id planning_metadata idempotency_key actor_ref source =
     await (pure (validate_id task_id ''task'')) (\<lambda>_.
     await (pure (validate_planning_metadata planning_metadata)) (\<lambda>_.
     let metadata = [(''task_management'', JObj planning_metadata)] in
     await (replayed_planning_metadata env task_id idempotency_key metadata) (\<lambda>duplicate.
     case duplicate of
       Some ts \<Rightarrow> ret ts
     | None \<Rightarrow>
         await (get_task env task_id) (\<lambda>ts.
         await (commit_task_command env ts idempotency_key ''update_task''
           [(''task.updated'', ''task'', task_id, [(''metadata'', JObj metadata)], [])]
           task_id actor_ref source) (\<lambda>_.
         await (replayed_planning_metadata env task_id idempotency_key metadata) (\<lambda>committed.
         case committed of
           None \<Rightarrow> raise (contract_error BACKEND_ERROR)
         | Some ts' \<Rightarrow> ret ts'))))))"

definition replayed_project_reassignment :: "'x kernel_env \<Rightarrow> string \<Rightarrow> string option \<Rightarrow> string \<Rightarrow>
    ('x world, task_state option) action" where
  "replayed_project_reassignment env task_id destination_project_id idempotency_key =
     await (pure (validate_id task_id ''task'')) (\<lambda>_.
     await (pure (validate_optional_id destination_project_id ''project'')) (\<lambda>_.
     await (task_command env task_id idempotency_key ''move_task_project'') (\<lambda>record.
     case record of
       None \<Rightarrow> ret None
     | Some c \<Rightarrow>
         await (command_event env c ''task.project_reassigned'') (\<lambda>event.
         if payload_get event ''destination_project_id'' \<noteq> opt_json destination_project_id
         then raise (contract_error CONFLICT)
         else await (get_task env task_id) (\<lambda>ts. ret (Some ts))))))"

definition reassignment_payload :: "task_state \<Rightarrow> string option \<Rightarrow> string option \<Rightarrow> json dict" where
  "reassignment_payload ts source_project_id destination_project_id =
     [(''source_project_id'', opt_json source_project_id),
      (''destination_project_id'', opt_json destination_project_id),
      (''historical_scope_policy'', JStr ''retain_original_event_and_run_scope''),
      (''future_execution_scope'', opt_json destination_project_id),
      (''retained_history'', JObj
        [(''plan_ref'', opt_json (ts_plan_ref ts)),
         (''step_ids'', JList (map JStr (ts_step_ids ts))),
         (''run_ids'', JList (map JStr (ts_run_ids ts))),
         (''artifact_ids'', JList (map JStr (ts_artifact_ids ts))),
         (''result_ids'', JList (map JStr (ts_result_ids ts)))])]"

definition reassign_project :: "'x kernel_env \<Rightarrow> string \<Rightarrow> string option \<Rightarrow> string option \<Rightarrow> int \<Rightarrow> string \<Rightarrow>
    string option \<Rightarrow> string \<Rightarrow> ('x world, task_state) action" where
  "reassign_project env task_id source_project_id destination_project_id expected_revision
     idempotency_key actor_ref source =
     await (replayed_project_reassignment env task_id destination_project_id idempotency_key) (\<lambda>replayed.
     case replayed of
       Some ts \<Rightarrow> ret ts
     | None \<Rightarrow>
         await (pure (validate_optional_id source_project_id ''project'')) (\<lambda>_.
         await (get_task env task_id) (\<lambda>ts.
         if int (ts_revision ts) \<noteq> expected_revision then raise (contract_error CONFLICT)
         else if t_project_id (ts_task ts) \<noteq> source_project_id then raise (contract_error CONFLICT)
         else
         await (commit_task_command env ts idempotency_key ''move_task_project''
           [(''task.project_reassigned'', ''task'', task_id,
             reassignment_payload ts source_project_id destination_project_id, [])]
           task_id actor_ref source) (\<lambda>_.
         await (replayed_project_reassignment env task_id destination_project_id idempotency_key) (\<lambda>moved.
         case moved of
           None \<Rightarrow> raise (contract_error BACKEND_ERROR)
         | Some ts' \<Rightarrow>
             if t_project_id (ts_task ts') \<noteq> destination_project_id then raise (contract_error BACKEND_ERROR)
             else ret ts')))))"

definition bulk_project_reassignment_reserved :: "'x kernel_env \<Rightarrow> string \<Rightarrow> string \<Rightarrow> ('x world, bool) action" where
  "bulk_project_reassignment_reserved env batch_digest idempotency_key =
     (if py_blank batch_digest then raise (contract_error INVALID_REQUEST)
      else
      await (existing_command env BULK_SCOPE idempotency_key ''move_task_project_bulk'') (\<lambda>record.
      case record of
        None \<Rightarrow> ret False
      | Some c \<Rightarrow>
          if cr_result_id c \<noteq> batch_digest then raise (contract_error CONFLICT)
          else
          await (command_event env c ''task.project_bulk_move_reserved'') (\<lambda>event.
          if payload_get event ''batch_digest'' \<noteq> JStr batch_digest then raise (contract_error BACKEND_ERROR)
          else ret True)))"

definition validate_bulk_move :: "json dict \<Rightarrow> py_error + (string \<times> json)" where
  \<comment> \<open>one iteration of the loop of \<open>_validate_bulk_moves\<close>: the task and its destination\<close>
  "validate_bulk_move move =
     (if set (map fst move) \<noteq> {''task_id'', ''destination_project_id''} then Inl (contract_error INVALID_REQUEST)
      else case (dict_get move ''task_id'', dict_get move ''destination_project_id'') of
        (Some (JStr task_id), Some destination) \<Rightarrow>
          sbind (validate_id task_id ''task'') (\<lambda>_.
          case destination of
            JNull \<Rightarrow> Inr (task_id, destination)
          | JStr d \<Rightarrow> sbind (validate_id d ''project'') (\<lambda>_. Inr (task_id, destination))
          | _ \<Rightarrow> Inl (contract_error INVALID_REQUEST))
      | _ \<Rightarrow> Inl (contract_error INVALID_REQUEST))"

definition validate_bulk_moves :: "json dict list \<Rightarrow> py_error + (string \<times> json) list" where
  "validate_bulk_moves moves =
     (if moves = [] then Inl (contract_error INVALID_REQUEST) else smap validate_bulk_move moves)"

definition move_json :: "string \<times> json \<Rightarrow> json" where
  "move_json m = JObj [(''task_id'', JStr (fst m)), (''destination_project_id'', snd m)]"

definition reserve_bulk_project_reassignment :: "'x kernel_env \<Rightarrow> string \<Rightarrow> string \<Rightarrow> json dict list \<Rightarrow> string \<Rightarrow>
    string option \<Rightarrow> string \<Rightarrow> ('x world, unit) action" where
  "reserve_bulk_project_reassignment env anchor_task_id batch_digest moves idempotency_key actor_ref source =
     await (pure (validate_id anchor_task_id ''task'')) (\<lambda>_.
     await (pure (validate_bulk_moves moves)) (\<lambda>normalized.
     if fst (hd normalized) \<noteq> anchor_task_id then raise (contract_error INVALID_REQUEST)
     else
     await (bulk_project_reassignment_reserved env batch_digest idempotency_key) (\<lambda>reserved.
     if reserved then ret ()
     else
     await (get_task env anchor_task_id) (\<lambda>anchor.
     await (build_events env anchor idempotency_key actor_ref source
       [(''task.project_bulk_move_reserved'', ''task'', anchor_task_id,
         [(''batch_digest'', JStr batch_digest), (''moves'', JList (map move_json normalized)),
          (''atomic'', JBool False)], [])]) (\<lambda>events.
     await (pure (make_command BULK_SCOPE idempotency_key ''move_task_project_bulk'' anchor_task_id
       batch_digest events)) (\<lambda>command.
     await (repo_commit env anchor_task_id (ts_revision anchor) events (Some command)) (\<lambda>result.
     if \<not> cm_applied result
     then await (bulk_project_reassignment_reserved env batch_digest idempotency_key) (\<lambda>reserved.
          if \<not> reserved then raise (contract_error CONFLICT) else ret ())
     else mirror env events)))))))"

section \<open>Under interference\<close>

lemma rsafe_command_event:
  assumes "rely env N" "rstable env N P"
  shows "rsafe env N P (command_event env c ty) (\<lambda>_. P)"
  unfolding command_event_def
  by (rule rd.safe_await[OF rsafe_history[OF assms]])
    (intro rd.safe_option rd.safe_if rd.safe_raise rd.safe_ret)

lemma rsafe_some_task:
  assumes "rely env N" "rstable env N P"
  shows "rsafe env N P (await (get_task env tid) (\<lambda>ts. ret (Some ts))) (\<lambda>_. P)"
  by (rule rd.safe_await[OF rsafe_get_task[OF assms]], rule rd.safe_ret) simp

lemma rsafe_replayed:
  assumes "rely env N" "rstable env N P"
  shows "rsafe env N P (replayed_planning_metadata env tid key metadata) (\<lambda>_. P)"
    and "rsafe env N P (replayed_project_reassignment env tid dest key) (\<lambda>_. P)"
    and "rsafe env N P (bulk_project_reassignment_reserved env digest key) (\<lambda>_. P)"
proof -
  have pure: "rsafe env N P (pure r) (\<lambda>_. P)" for r :: "py_error + 'c"
    by (rule rd.safe_pure)
  show "rsafe env N P (replayed_planning_metadata env tid key metadata) (\<lambda>_. P)"
    unfolding replayed_planning_metadata_def
    by (rule rd.safe_await[OF rsafe_task_command[OF assms]])
      (intro rd.safe_option rd.safe_ret rd.safe_await[OF rsafe_command_event[OF assms]] rd.safe_if rd.safe_raise
        rsafe_some_task[OF assms])
  show "rsafe env N P (replayed_project_reassignment env tid dest key) (\<lambda>_. P)"
    unfolding replayed_project_reassignment_def
    by (rule rd.safe_await[OF pure], rule rd.safe_await[OF pure], rule rd.safe_await[OF rsafe_task_command[OF assms]])
      (intro rd.safe_option rd.safe_ret rd.safe_await[OF rsafe_command_event[OF assms]] rd.safe_if rd.safe_raise
        rsafe_some_task[OF assms])
  show "rsafe env N P (bulk_project_reassignment_reserved env digest key) (\<lambda>_. P)"
    unfolding bulk_project_reassignment_reserved_def
    by (rule rd.safe_if[OF rd.safe_raise], rule rd.safe_await[OF rsafe_existing_command[OF assms]])
      (intro rd.safe_option rd.safe_ret rd.safe_if rd.safe_raise rd.safe_await[OF rsafe_command_event[OF assms]])
qed

lemma ksafe_replayed:
  assumes "rely env N"
  shows "ksafe env N P (replayed_planning_metadata env tid key metadata) (\<lambda>_ _. True)"
    and "ksafe env N P (replayed_project_reassignment env tid dest key) (\<lambda>_ _. True)"
    and "ksafe env N P (bulk_project_reassignment_reserved env digest key) (\<lambda>_ _. True)"
  by (rule ksafe_True[OF rsafe_ksafe[OF rsafe_replayed(1)[OF assms stable_True]]]
      ksafe_True[OF rsafe_ksafe[OF rsafe_replayed(2)[OF assms stable_True]]]
      ksafe_True[OF rsafe_ksafe[OF rsafe_replayed(3)[OF assms stable_True]]])+

lemma ksafe_update_planning_metadata:
  assumes "rely env N"
  shows "ksafe env N (\<lambda>_. True) (update_planning_metadata env tid pm key actor src) (\<lambda>_ _. True)"
  unfolding update_planning_metadata_def Let_def
proof (intro ksafe_pure_then ksafe_then[OF ksafe_replayed(1)[OF assms]] rg.safe_option ksafe_ret
    ksafe_get_task[OF assms stable_True] rg.safe_raise
    ksafe_commit[OF assms reads_only_stable], simp, rule appendable_single, goal_cases)
  case (1 x y z ts w e L)
  then have "stream_ok tid (stream w tid @ [e]) \<and> run_subjects [e] = {}"
    by (intro updated_grows[of tid _ L ts "[(''metadata'', JObj [(''task_management'', JObj pm)])]" "[]"])
      (auto simp: text_or_absent_def object_or_absent_def)
  with 1 show ?case by auto
qed

lemma replayed_destination:
  assumes "replayed_project_reassignment env tid dest key w = (Inr x, w')"
  shows "validate_optional_id dest ''project'' = Inr ()"
  using assms
  by (cases "validate_optional_id dest ''project''")
    (auto simp: replayed_project_reassignment_def await_Inr_iff raise_def ret_def)

lemma ksafe_reassign_project:
  assumes "rely env N"
  shows "ksafe env N (\<lambda>_. True) (reassign_project env tid source dest n key actor src) (\<lambda>_ _. True)"
proof (cases "validate_optional_id dest ''project''")
  case (Inl err)
  have "reassign_project env tid source dest n key actor src =
      await (replayed_project_reassignment env tid dest key) (\<lambda>_. raise err)"
    using replayed_destination[of env tid dest key] Inl
    by (auto simp: reassign_project_def await_def fun_eq_iff split: prod.splits sum.splits)
  then show ?thesis by (simp add: ksafe_then[OF ksafe_replayed(2)[OF assms]] rg.safe_raise)
next
  case (Inr u)
  show ?thesis
    unfolding reassign_project_def
  proof (intro ksafe_pure_then ksafe_then[OF ksafe_replayed(2)[OF assms]] rg.safe_option ksafe_ret
      ksafe_get_task[OF assms stable_True] rg.safe_raise rg.safe_if
      ksafe_commit[OF assms reads_only_stable], simp, rule appendable_single, goal_cases)
    case (1 x y ts w e L)
    then have "stream_ok tid (stream w tid @ [e]) \<and> run_subjects [e] = {}"
      using Inr by (intro reassigned_grows[of tid _ L ts "reassignment_payload ts source dest" "[]" _ dest])
        (auto simp: reassignment_payload_def)
    with 1 show ?case by auto
  qed
qed

lemma ksafe_reserve_bulk_project_reassignment:
  assumes "rely env N"
  shows "ksafe env N (\<lambda>_. True) (reserve_bulk_project_reassignment env tid digest moves key actor src) (\<lambda>_ _. True)"
  unfolding reserve_bulk_project_reassignment_def
proof (intro ksafe_pure_then rg.safe_if rg.safe_raise ksafe_ret ksafe_then[OF ksafe_replayed(3)[OF assms]]
    ksafe_get_task[OF assms stable_True]
    rg.safe_await[OF rsafe_ksafe[OF rsafe_build_events[OF reads_only_stable]]])
  fix ts es command moves'
  let ?spec = "(''task.project_bulk_move_reserved'', ''task'', tid,
     [(''batch_digest'', JStr digest), (''moves'', JList (map move_json moves')), (''atomic'', JBool False)], [])"
  assume ts: "ts_task_id ts = tid"
    and cmd: "make_command BULK_SCOPE key ''move_task_project_bulk'' tid digest es = Inr command"
  have ap: "appendable env N ts [?spec] (\<lambda>w. reads ts w \<and> True)"
  proof (rule appendable_single, goal_cases)
    case (1 w e L)
    have "inert_type ''task.project_bulk_move_reserved''"
      by (simp add: inert_type_def TASK_REDUCER_TYPES_def TASK_EVENT_STATUS_def RUN_EVENT_STATUS_def)
    from inert_grows[OF 1(7,5,10) refl this] 1 ts show ?case
      by (auto simp: run_subjects_def event_of_def)
  qed
  have "\<forall>c. Some command = Some c \<longrightarrow> cr_stream_id c = ts_task_id ts \<and> cr_event_id c \<in> ev_id ` set es"
    using cmd ts by (auto simp: make_command_def split: list.splits)
  from ksafe_append_commit[OF assms reads_only_stable _ ap this]
  show "ksafe env N (\<lambda>w. list_all2 (event_of ts) [?spec] es \<and> reads ts w \<and> True)
     (await (repo_commit env tid (ts_revision ts) es (Some command)) (\<lambda>result.
     if \<not> cm_applied result
     then await (bulk_project_reassignment_reserved env digest key) (\<lambda>reserved.
          if \<not> reserved then raise (contract_error CONFLICT) else ret ())
     else mirror env es)) (\<lambda>_ _. True)"
    unfolding ts by (intro ksafe_then rg.safe_if ksafe_replayed(3)[OF assms] ksafe_mirror[OF assms] rg.safe_raise ksafe_ret) auto
qed

section \<open>What a planning update can change\<close>

definition metadata_only :: "json dict \<Rightarrow> event \<Rightarrow> bool" where
  "metadata_only pm e \<longleftrightarrow> dict_get (ev_payload e) ''title'' = None \<and> dict_get (ev_payload e) ''objective'' = None \<and>
     payload_get e ''metadata'' = JObj [(''task_management'', JObj pm)]"

lemma task_post_init_same_id: "task_post_init t = Inr t' \<Longrightarrow> t_title t' = t_title t \<and>
    t_description t' = t_description t \<and> t_status t' = t_status t \<and> t_project_id t' = t_project_id t \<and>
    t_metadata t' = freeze_mapping (t_metadata t)"
  by (auto simp: task_post_init_def sbind_eq_Inr)

lemma planning_event_effect:
  assumes "task_updated t e = Inr t'" "metadata_only pm e"
  shows "t_title t' = t_title t \<and> t_description t' = t_description t \<and> t_status t' = t_status t \<and>
    t_project_id t' = t_project_id t \<and>
    dict_get (t_metadata t') ''task_management'' = Some (deep_freeze (JObj pm)) \<and>
    (\<forall>k. k \<noteq> ''task_management'' \<longrightarrow>
       dict_get (t_metadata t') k = map_option deep_freeze (dict_get (t_metadata t) k))"
proof -
  have "dict_get (ev_payload e) ''metadata'' = Some (JObj [(''task_management'', JObj pm)])"
    using assms(2) by (auto simp: metadata_only_def payload_get_def split: option.splits)
  with assms have "\<exists>u. task_post_init u = Inr t' \<and> t_title u = t_title t \<and> t_description u = t_description t \<and>
      t_status u = t_status t \<and> t_project_id u = t_project_id t \<and>
      t_metadata u = dict_set ''task_management'' (JObj pm) (t_metadata t)"
    by (auto simp: task_updated_def metadata_only_def merge_metadata_def)
  then obtain u where "task_post_init u = Inr t'" "t_title u = t_title t" "t_description u = t_description t"
    "t_status u = t_status t" "t_project_id u = t_project_id t"
    "t_metadata u = dict_set ''task_management'' (JObj pm) (t_metadata t)" by blast
  with task_post_init_same_id[OF this(1)] show ?thesis by simp
qed

end
