(* ===== verification/Output_Observer.thy ===== *)
theory Output_Observer
  imports Task_Mutations
begin

text \<open>
  The output-observing kernel of \<open>kernel/output_observer.py\<close>: after an attachment is durable, an
  optional observer is told about the one persisted event that recorded it. A replay of the same
  command finds the same event again, so a lost observation can be repeated.
\<close>

definition configure_output_attachment_observer :: "bool \<Rightarrow> 'o option \<Rightarrow> 'o \<Rightarrow> py_error + 'o option" where
  \<comment> \<open>\<open>satisfies\<close>: the \<open>isinstance\<close> test of the protocol; observers compare by identity\<close>
  "configure_output_attachment_observer satisfies current observer =
     (if \<not> satisfies then Inl TypeError
      else if current \<noteq> None \<and> current \<noteq> Some observer then Inl (contract_error CONFLICT)
      else Inr (Some observer))"

definition expected_subject :: "string \<Rightarrow> string option \<Rightarrow> string \<times> string" where
  "expected_subject task_id run_id =
     (case run_id of
        None \<Rightarrow> (''task'', task_id)
      | Some rid \<Rightarrow> (''run'', if rid = [] then task_id else rid))"

definition check_attachment :: "string \<Rightarrow> string \<Rightarrow> string \<Rightarrow> string \<Rightarrow> string \<Rightarrow> string option \<Rightarrow>
    event list \<Rightarrow> py_error + event" where
  "check_attachment task_id idempotency_key event_type payload_key output_id run_id events =
     (let matches = filter (\<lambda>event. ev_event_type event = event_type \<and>
            ev_causation_id event = Some idempotency_key) events;
          (expected_subject_type, expected_subject_id) = expected_subject task_id run_id
      in case matches of
        [event] \<Rightarrow>
          if payload_get event payload_key \<noteq> JStr output_id
          then Inl (ContractError CONFLICT False
            [(''task_id'', JStr task_id), (''idempotency_key'', JStr idempotency_key),
             (''canonical_output_id'', payload_get event payload_key),
             (''requested_output_id'', JStr output_id)])
          else if ev_subject_type event \<noteq> expected_subject_type \<or> ev_subject_id event \<noteq> expected_subject_id
          then Inl (ContractError CONFLICT False
            [(''task_id'', JStr task_id), (''idempotency_key'', JStr idempotency_key),
             (''canonical_subject_type'', JStr (ev_subject_type event)),
             (''canonical_subject_id'', JStr (ev_subject_id event)),
             (''requested_subject_type'', JStr expected_subject_type),
             (''requested_subject_id'', JStr expected_subject_id)])
          else Inr event
      | _ \<Rightarrow> Inl (ContractError CONTRACT_VIOLATION False
            [(''task_id'', JStr task_id), (''idempotency_key'', JStr idempotency_key),
             (''event_type'', JStr event_type), (''match_count'', JInt (int (length matches)))]))"

definition canonical_attachment_event :: "'x kernel_env \<Rightarrow> string \<Rightarrow> string \<Rightarrow> string \<Rightarrow> string \<Rightarrow> string \<Rightarrow>
    string option \<Rightarrow> ('x world, event) action" where
  "canonical_attachment_event env task_id idempotency_key event_type payload_key output_id run_id =
     await (history env task_id) (\<lambda>events.
     pure (check_attachment task_id idempotency_key event_type payload_key output_id run_id events))"

definition observe_attachment :: "'x kernel_env \<Rightarrow> string \<Rightarrow> string \<Rightarrow> string \<Rightarrow> string \<Rightarrow> string \<Rightarrow>
    string option \<Rightarrow> task_state \<Rightarrow> ('x world, task_state) action" where
  \<comment> \<open>what both observing handlers do once the base kernel returned\<close>
  "observe_attachment env event_type payload_key idempotency_key task_id output_id run_id ts =
     (case env_observer env of
        None \<Rightarrow> ret ts
      | Some output_attached \<Rightarrow>
          await (canonical_attachment_event env task_id idempotency_key event_type payload_key output_id run_id)
            (\<lambda>event.
          await (output_attached event) (\<lambda>_.
          get_task env task_id)))"

definition observing_attach_result :: "'x kernel_env \<Rightarrow> string \<Rightarrow> string \<Rightarrow> string \<Rightarrow> string option \<Rightarrow>
    string option \<Rightarrow> string \<Rightarrow> ('x world, task_state) action" where
  "observing_attach_result env idempotency_key task_id result_id run_id actor_ref source =
     await (attach_result env idempotency_key task_id result_id run_id actor_ref source)
       (observe_attachment env ''result.attached'' ''result_id'' idempotency_key task_id result_id run_id)"

definition observing_attach_artifact :: "'x kernel_env \<Rightarrow> string \<Rightarrow> string \<Rightarrow> string \<Rightarrow> string option \<Rightarrow>
    string option \<Rightarrow> string \<Rightarrow> ('x world, task_state) action" where
  "observing_attach_artifact env idempotency_key task_id artifact_id run_id actor_ref source =
     await (attach_artifact env idempotency_key task_id artifact_id run_id actor_ref source)
       (observe_attachment env ''artifact.attached'' ''artifact_id'' idempotency_key task_id artifact_id run_id)"

section \<open>What is observed\<close>

definition attachment_of :: "string \<Rightarrow> string \<Rightarrow> string \<Rightarrow> string \<Rightarrow> string \<Rightarrow> string option \<Rightarrow> event \<Rightarrow> bool" where
  "attachment_of task_id key ty k x run_id e \<longleftrightarrow> ev_event_type e = ty \<and> ev_causation_id e = Some key \<and>
     payload_get e k = JStr x \<and> (ev_subject_type e, ev_subject_id e) = expected_subject task_id run_id"

lemma check_attachment_Inr:
  "check_attachment tid key ty k x run_id events = Inr e \<longleftrightarrow>
     filter (\<lambda>e. ev_event_type e = ty \<and> ev_causation_id e = Some key) events = [e] \<and>
     attachment_of tid key ty k x run_id e"
proof
  assume Inr: "check_attachment tid key ty k x run_id events = Inr e"
  let ?m = "filter (\<lambda>e. ev_event_type e = ty \<and> ev_causation_id e = Some key) events"
  obtain a b where sub: "expected_subject tid run_id = (a, b)" by (cases "expected_subject tid run_id")
  have m: "?m = [e]" using Inr unfolding check_attachment_def Let_def sub
    by (auto split: list.splits if_splits)
  moreover have "attachment_of tid key ty k x run_id e"
  proof -
    have "e \<in> set ?m" unfolding m by simp
    then have "ev_event_type e = ty" "ev_causation_id e = Some key" by auto
    then show ?thesis using Inr unfolding check_attachment_def Let_def m sub
      by (auto simp: attachment_of_def sub split: if_splits)
  qed
  ultimately show "?m = [e] \<and> attachment_of tid key ty k x run_id e" ..
next
  assume "filter (\<lambda>e. ev_event_type e = ty \<and> ev_causation_id e = Some key) events = [e] \<and>
     attachment_of tid key ty k x run_id e"
  then show "check_attachment tid key ty k x run_id events = Inr e"
    by (auto simp: check_attachment_def attachment_of_def Let_def split: prod.splits)
qed

lemma rsafe_canonical_attachment_event:
  assumes "rely env N"
  shows "rsafe env N (\<lambda>_. True) (canonical_attachment_event env tid key ty k x run_id)
     (\<lambda>e w. e \<in> set (stream w tid) \<and> attachment_of tid key ty k x run_id e)"
  unfolding canonical_attachment_event_def history_def
proof (rule rd.safe_await)
  show "rsafe env N (\<lambda>_. True) (await (pure (validate_id tid ''task'')) (\<lambda>_. repo_read env tid))
     (\<lambda>evs w. evs = stream w tid)"
    by (rule rd.safe_await[OF rsafe_pure]) (rule rsafe_repo_read[OF assms]; simp add: rd.stable_def)
next
  fix evs
  show "rsafe env N (\<lambda>w. evs = stream w tid) (pure (check_attachment tid key ty k x run_id evs))
     (\<lambda>e w. e \<in> set (stream w tid) \<and> attachment_of tid key ty k x run_id e)"
  proof (rule rd.safe_pure)
    fix e w assume "check_attachment tid key ty k x run_id evs = Inr e" "evs = stream w tid"
    then have *: "filter (\<lambda>e. ev_event_type e = ty \<and> ev_causation_id e = Some key) (stream w tid) = [e]"
      "attachment_of tid key ty k x run_id e" by (simp_all add: check_attachment_Inr)
    then have "e \<in> set (filter (\<lambda>e. ev_event_type e = ty \<and> ev_causation_id e = Some key) (stream w tid))" by simp
    with *(2) show "e \<in> set (stream w tid) \<and> attachment_of tid key ty k x run_id e" by simp
  qed
qed

lemma ksafe_observe_attachment:
  assumes "rely env N"
  shows "ksafe env N (\<lambda>_. True) (observe_attachment env ty k key tid x run_id ts) (\<lambda>_ _. True)"
  unfolding observe_attachment_def
proof (rule rg.safe_option[OF ksafe_ret])
  fix observer assume "env_observer env = Some observer"
  then have "external env N (observer e)" for e using assms by (simp add: rely_def)
  then show "ksafe env N (\<lambda>_. True) (await (canonical_attachment_event env tid key ty k x run_id) (\<lambda>event.
       await (observer event) (\<lambda>_. get_task env tid))) (\<lambda>_ _. True)"
    by (intro ksafe_then[OF rg.safe_post[OF rsafe_ksafe[OF rsafe_canonical_attachment_event[OF assms]]]]
        ksafe_then[OF ksafe_external] ksafe_query(1)[OF assms] TrueI)
qed

lemma ksafe_observing:
  assumes "rely env N"
  shows "ksafe env N (\<lambda>_. True) (observing_attach_result env key tid x run_id actor src) (\<lambda>_ _. True)"
    and "ksafe env N (\<lambda>_. True) (observing_attach_artifact env key tid x run_id actor src) (\<lambda>_ _. True)"
  unfolding observing_attach_result_def observing_attach_artifact_def attach_result_def attach_artifact_def
  by (intro ksafe_then[OF ksafe_attach_output[OF assms]] ksafe_observe_attachment[OF assms]; simp)+

end
