(* ===== verification/Kernel_Facade.thy ===== *)
theory Kernel_Facade
  imports Output_Observer
begin

text \<open>
  The public surface of \<open>PlatformKernel\<close> (\<open>kernel/kernel.py\<close>), of its output-observing subclass and of
  the task mutation boundary as one datatype of requests. \<open>execute\<close> dispatches a request to its
  handler, \<open>serve\<close> handles a sequence of requests, each keeping what it wrote even when it raises.
\<close>

datatype kernel_command =
    Create_Task string string string string string "string option" "string option" "string option" string
  | Update_Task string string "string option" "string option" "json dict option" "string option" string
  | Ready_Task string string "string option" string
  | Plan_Task string string "string option" string
  | Create_Run string string string "string option" "string option" string
  | Start_Run string string string "string option" string
  | Start_Task string string "string option" string
  | Refresh_Run string string string "string option" string
  | Record_Run_Outcome string string string run_status "json dict option" "string option" string
      "adapter_metadata list"
  | Cancel_Run string string string "string option" string
  | Wait_Task string string string bool "string option" string
  | Resume_Task string string "string option" string
  | Complete_Task string string "string option" string
  | Fail_Task string string "string option" "string option" string
  | Cancel_Task string string "string option" string
  | Retry_Task string string "string option" string
  | Attach_Artifact string string string "string option" "string option" string
  | Attach_Result string string string "string option" "string option" string
  | Recover_Task string
  | Recover_All
  | Update_Planning_Metadata string "json dict" string "string option" string
  | Reassign_Project string "string option" "string option" int string "string option" string
  | Reserve_Bulk_Project_Reassignment string string "json dict list" string "string option" string

datatype kernel_response =
    Task_Response task_state
  | Run_Response run_state
  | Recovery_Response "recovery_report list"
  | Empty_Response

definition answer :: "('a \<Rightarrow> kernel_response) \<Rightarrow> ('x world, 'a) action \<Rightarrow> ('x world, kernel_response) action" where
  "answer f m = await m (\<lambda>x. ret (f x))"

fun execute :: "'x kernel_env \<Rightarrow> kernel_command \<Rightarrow> ('x world, kernel_response) action" where
  "execute env (Create_Task key title objective owner_type owner_id project_id task_id actor source) =
     answer Task_Response (create_task env key title objective owner_type owner_id project_id task_id actor source)"
| "execute env (Update_Task key task_id title objective metadata actor source) =
     answer Task_Response (update_task env key task_id title objective metadata actor source)"
| "execute env (Ready_Task key task_id actor source) =
     answer Task_Response (ready_task env key task_id actor source)"
| "execute env (Plan_Task key task_id actor source) =
     answer Task_Response (plan_task env key task_id actor source)"
| "execute env (Create_Run key task_id subject_type subject_id actor source) =
     answer Run_Response (create_run env key task_id subject_type subject_id actor source)"
| "execute env (Start_Run key task_id run_id actor source) =
     answer Run_Response (start_run env key task_id run_id actor source)"
| "execute env (Start_Task key task_id actor source) =
     answer Run_Response (start_task env key task_id actor source)"
| "execute env (Refresh_Run key task_id run_id actor source) =
     answer Run_Response (refresh_run env key task_id run_id actor source)"
| "execute env (Record_Run_Outcome key task_id run_id status output actor source adapter_metadata) =
     answer Run_Response (record_run_outcome env key task_id run_id status output actor source adapter_metadata)"
| "execute env (Cancel_Run key task_id run_id actor source) =
     answer Run_Response (cancel_run env key task_id run_id actor source)"
| "execute env (Wait_Task key task_id reason blocked actor source) =
     answer Task_Response (wait_task env key task_id reason blocked actor source)"
| "execute env (Resume_Task key task_id actor source) =
     answer Task_Response (resume_task env key task_id actor source)"
| "execute env (Complete_Task key task_id actor source) =
     answer Task_Response (complete_task env key task_id actor source)"
| "execute env (Fail_Task key task_id reason actor source) =
     answer Task_Response (fail_task env key task_id reason actor source)"
| "execute env (Cancel_Task key task_id actor source) =
     answer Task_Response (cancel_task env key task_id actor source)"
| "execute env (Retry_Task key task_id actor source) =
     answer Run_Response (retry_task env key task_id actor source)"
| "execute env (Attach_Artifact key task_id artifact_id run_id actor source) =
     answer Task_Response (observing_attach_artifact env key task_id artifact_id run_id actor source)"
| "execute env (Attach_Result key task_id result_id run_id actor source) =
     answer Task_Response (observing_attach_result env key task_id result_id run_id actor source)"
| "execute env (Recover_Task task_id) =
     answer (\<lambda>report. Recovery_Response [report]) (recover_task env task_id)"
| "execute env Recover_All = answer Recovery_Response (recover_all env)"
| "execute env (Update_Planning_Metadata task_id planning_metadata key actor source) =
     answer Task_Response (update_planning_metadata env task_id planning_metadata key actor source)"
| "execute env (Reassign_Project task_id source_project destination_project expected_revision key actor source) =
     answer Task_Response
       (reassign_project env task_id source_project destination_project expected_revision key actor source)"
| "execute env (Reserve_Bulk_Project_Reassignment anchor_task_id batch_digest moves key actor source) =
     answer (\<lambda>_. Empty_Response)
       (reserve_bulk_project_reassignment env anchor_task_id batch_digest moves key actor source)"

fun serve :: "'x kernel_env \<Rightarrow> kernel_command list \<Rightarrow> 'x world \<Rightarrow> 'x world" where
  "serve env [] w = w"
| "serve env (c # cs) w = serve env cs (snd (execute env c w))"

section \<open>Every request is safe\<close>

lemma ksafe_answer: "ksafe env N P m (\<lambda>_ _. True) \<Longrightarrow> ksafe env N P (answer f m) (\<lambda>_ _. True)"
  unfolding answer_def by (rule ksafe_then[OF _ ksafe_ret])

lemmas ksafe_commands =
  ksafe_create_task ksafe_update_task ksafe_ready_task ksafe_plan_task ksafe_create_run ksafe_start_run
  ksafe_start_task ksafe_refresh_run ksafe_record_run_outcome ksafe_cancel_run ksafe_wait_task
  ksafe_resume_task ksafe_complete_task ksafe_fail_task ksafe_cancel_task ksafe_retry_task
  ksafe_observing ksafe_recover_task ksafe_recover_all ksafe_update_planning_metadata
  ksafe_reassign_project ksafe_reserve_bulk_project_reassignment

lemma ksafe_execute:
  assumes "rely env N"
  shows "ksafe env N (\<lambda>_. True) (execute env c) (\<lambda>_ _. True)"
  by (cases c) (simp_all add: ksafe_answer ksafe_commands[OF assms])

lemma execute_safe:
  assumes "rely env N" "kernel_inv env N w" "execute env c w = (r, w')"
  shows "kernel_inv env N w' \<and> evolves w w'"
  using ksafe_execute[OF assms(1)] assms(2,3) by (auto simp: rg.safe_def)

lemma serve_safe:
  assumes "rely env N" "kernel_inv env N w"
  shows "kernel_inv env N (serve env cs w) \<and> evolves w (serve env cs w)"
  using assms(2)
proof (induction cs arbitrary: w)
  case Nil
  then show ?case by (simp add: evolves_refl)
next
  case (Cons c cs)
  obtain r w' where step: "execute env c w = (r, w')" by (cases "execute env c w")
  from execute_safe[OF assms(1) Cons.prems this] Cons.IH[of w'] show ?case
    using step evolves_trans by auto
qed

end
