(* ===== verification/Fake_Providers.thy ===== *)
theory Fake_Providers
  imports Kernel_World
begin

text \<open>
  The deterministic reference providers of \<open>testing/fakes.py\<close> that the kernel is constructed with:
  the fake orchestrator and the fake lifecycle backend. \<open>fake_env\<close> is a kernel environment with
  them, an event loop that runs nothing in between, a clock that ticks in microseconds and
  identifiers numbered in unary; it satisfies every requirement on an environment.
\<close>

record fake_failure =
  ff_code :: error_code
  ff_retryable :: bool

record fake_orchestrator =
  fo_summary_prefix :: string
  fo_failure :: "fake_failure option"
  fo_calls :: "plan_request list"

record fake_backend =
  fb_runs :: "execution_snapshot dict"
  fb_handles :: "execution_handle dict"
  fb_start_failure :: "fake_failure option"
  fb_get_failure :: "fake_failure option"
  fb_cancel_failure :: "fake_failure option"
  fb_start_calls :: "execution_request list"
  fb_get_calls :: "(string \<times> operation_context) list"
  fb_cancel_calls :: "(string \<times> operation_context) list"

type_synonym fakes = "fake_orchestrator \<times> fake_backend"

definition raise_configured_failure :: "fake_failure option \<Rightarrow> py_error + unit" where
  "raise_configured_failure failure =
     (case failure of None \<Rightarrow> Inr () | Some f \<Rightarrow> Inl (ContractError (ff_code f) (ff_retryable f) []))"

definition orchestrator_plan :: "plan_request \<Rightarrow> (fake_orchestrator, plan_response) action" where
  "orchestrator_plan request =
     await (\<lambda>o'. (Inr (), o'\<lparr>fo_calls := fo_calls o' @ [request]\<rparr>)) (\<lambda>_.
     await (\<lambda>o'. (raise_configured_failure (fo_failure o'), o')) (\<lambda>_.
     await (pure (plan_step_proposal_post_init
       \<lparr>ps_key = ''step-1'', ps_title = ''Execute requested work'', ps_objective = pq_objective request,
        ps_depends_on = [], ps_metadata = []\<rparr>)) (\<lambda>proposal.
     await (gets fo_summary_prefix) (\<lambda>summary_prefix.
     pure (plan_response_post_init
       \<lparr>pr_summary = summary_prefix @ '' '' @ pq_objective request, pr_steps = [proposal],
        pr_adapter_metadata = []\<rparr>)))))"

definition backend_start :: "execution_request \<Rightarrow> (fake_backend, execution_handle) action" where
  "backend_start request =
     await (\<lambda>b. (Inr (), b\<lparr>fb_start_calls := fb_start_calls b @ [request]\<rparr>)) (\<lambda>_.
     await (\<lambda>b. (raise_configured_failure (fb_start_failure b), b)) (\<lambda>_.
     await (gets (\<lambda>b. dict_get (fb_handles b) (xq_run_id request))) (\<lambda>existing.
     case existing of
       Some handle \<Rightarrow> ret handle
     | None \<Rightarrow>
         await (pure (execution_snapshot_post_init
           \<lparr>xs_run_id = xq_run_id request, xs_status = R_RUNNING, xs_output = [],
            xs_adapter_metadata = []\<rparr>)) (\<lambda>snapshot.
         await (pure (execution_handle_post_init
           \<lparr>xh_run_id = xq_run_id request, xh_backend_ref = Some (''fake:'' @ xq_run_id request),
            xh_adapter_metadata = []\<rparr>)) (\<lambda>handle.
         \<lambda>b. (Inr handle, b\<lparr>fb_runs := dict_set (xq_run_id request) snapshot (fb_runs b),
                            fb_handles := dict_set (xq_run_id request) handle (fb_handles b)\<rparr>))))))"

definition backend_get :: "string \<Rightarrow> operation_context \<Rightarrow> (fake_backend, execution_snapshot) action" where
  "backend_get run_id ctx =
     await (\<lambda>b. (Inr (), b\<lparr>fb_get_calls := fb_get_calls b @ [(run_id, ctx)]\<rparr>)) (\<lambda>_.
     await (\<lambda>b. (raise_configured_failure (fb_get_failure b), b)) (\<lambda>_.
     await (gets (\<lambda>b. dict_get (fb_runs b) run_id)) (\<lambda>snapshot.
     case snapshot of None \<Rightarrow> raise (contract_error NOT_FOUND) | Some s \<Rightarrow> ret s)))"

definition backend_cancel :: "string \<Rightarrow> operation_context \<Rightarrow> (fake_backend, execution_snapshot) action" where
  "backend_cancel run_id ctx =
     await (\<lambda>b. (Inr (), b\<lparr>fb_cancel_calls := fb_cancel_calls b @ [(run_id, ctx)]\<rparr>)) (\<lambda>_.
     await (\<lambda>b. (raise_configured_failure (fb_cancel_failure b), b)) (\<lambda>_.
     await (backend_get run_id ctx) (\<lambda>current.
     if xs_status current = R_CANCELLED then ret current
     else if xs_status current \<in> {R_SUCCEEDED, R_FAILED, R_TIMED_OUT} then ret current
     else
     await (pure (execution_snapshot_post_init
       \<lparr>xs_run_id = xs_run_id current, xs_status = R_CANCELLED, xs_output = [],
        xs_adapter_metadata = []\<rparr>)) (\<lambda>cancelled.
     \<lambda>b. (Inr cancelled, b\<lparr>fb_runs := dict_set run_id cancelled (fb_runs b)\<rparr>)))))"

definition backend_complete :: "string \<Rightarrow> run_status \<Rightarrow> json dict option \<Rightarrow> (fake_backend, unit) action" where
  "backend_complete run_id status output =
     await (gets (\<lambda>b. dict_get (fb_runs b) run_id)) (\<lambda>known.
     if known = None then raise KeyError
     else if status \<notin> {R_SUCCEEDED, R_FAILED, R_CANCELLED, R_TIMED_OUT} then raise ValueError
     else
     await (pure (execution_snapshot_post_init
       \<lparr>xs_run_id = run_id, xs_status = status,
        xs_output = (case output of None \<Rightarrow> [] | Some d \<Rightarrow> d), xs_adapter_metadata = []\<rparr>)) (\<lambda>snapshot.
     \<lambda>b. (Inr (), b\<lparr>fb_runs := dict_set run_id snapshot (fb_runs b)\<rparr>)))"

section \<open>A kernel environment with the fakes\<close>

definition on_orchestrator :: "(fake_orchestrator, 'a) action \<Rightarrow> (fakes world, 'a) action" where
  "on_orchestrator m = (\<lambda>w. case m (fst (w_ext w)) of (r, o') \<Rightarrow> (r, w\<lparr>w_ext := (o', snd (w_ext w))\<rparr>))"

definition on_backend :: "(fake_backend, 'a) action \<Rightarrow> (fakes world, 'a) action" where
  "on_backend m = (\<lambda>w. case m (snd (w_ext w)) of (r, b) \<Rightarrow> (r, w\<lparr>w_ext := (fst (w_ext w), b)\<rparr>))"

definition unary_uuid :: "nat \<Rightarrow> string" where
  "unary_uuid n = uuid_str (replicate n (CHR ''1'') @ replicate (32 - n) (CHR ''0''))"

definition fake_env :: "fakes kernel_env" where
  "fake_env = \<lparr>env_uuid4 = unary_uuid, env_utc_now = (\<lambda>n. int n), env_suspend = ret (),
     env_plan = (\<lambda>q. on_orchestrator (orchestrator_plan q)),
     env_start = (\<lambda>q. on_backend (backend_start q)),
     env_get = (\<lambda>run_id ctx. on_backend (backend_get run_id ctx)),
     env_cancel = (\<lambda>run_id ctx. on_backend (backend_cancel run_id ctx)),
     env_event_sink = None, env_assess = None, env_invalidate = None, env_async_invalidate = None,
     env_observer = None, env_interrupted = (\<lambda>_. False)\<rparr>"

definition fake_orchestrator_init :: fake_orchestrator where
  "fake_orchestrator_init = \<lparr>fo_summary_prefix = ''Plan for'', fo_failure = None, fo_calls = []\<rparr>"

definition fake_backend_init :: fake_backend where
  "fake_backend_init = \<lparr>fb_runs = [], fb_handles = [], fb_start_failure = None, fb_get_failure = None,
     fb_cancel_failure = None, fb_start_calls = [], fb_get_calls = [], fb_cancel_calls = []\<rparr>"

definition fake_world :: "fakes world" where
  "fake_world = \<lparr>w_repo = empty_repo, w_draws = 0, w_ticks = 0,
     w_ext = (fake_orchestrator_init, fake_backend_init)\<rparr>"

lemma inj_unary_uuid: "inj_on unary_uuid {..<32}"
proof (rule inj_onI)
  fix m n assume *: "m \<in> {..<32::nat}" "n \<in> {..<32::nat}" "unary_uuid m = unary_uuid n"
  let ?h = "\<lambda>n. replicate n (CHR ''1'') @ replicate (32 - n) (CHR ''0'')"
  have hex: "list_all hex_digit (?h k)" for k by (auto simp: list_all_iff hex_digit_def Let_def)
  have low: "py_lower (?h k) = ?h k" for k by (simp add: py_lower_def py_lower_char_def)
  have "uuid_parse (unary_uuid k) = Some (?h k)" if "k < 32" for k
    using uuid_parse_uuid_str[OF _ hex[of k]] that low[of k] by (simp add: unary_uuid_def)
  with * have "?h m = ?h n" by (metis lessThan_iff option.inject)
  then have "length (filter (\<lambda>c. c = CHR ''1'') (?h m)) = length (filter (\<lambda>c. c = CHR ''1'') (?h n))" by simp
  then show "m = n" by (simp add: filter_replicate)
qed

lemma external_fakes:
  "external env N (on_orchestrator m)" "external env N (on_backend m')" "external env N (ret x)"
  by (auto simp: external_def on_orchestrator_def on_backend_def ret_def split: prod.splits
      intro: same_repo_inv same_repo_interferes)

lemma rely_fake_env: "N \<le> 32 \<Longrightarrow> rely fake_env N"
  using inj_on_subset[OF inj_unary_uuid, of "{..<N}"]
  by (auto simp: rely_def fake_env_def external_fakes)

lemma fake_world_inv: "kernel_inv env N fake_world"
  by (simp add: kernel_inv_def fake_world_def empty_repo_wf commands_ok_def recorded_runs_def stream_def
      stream_ok_def read_events_def find_command_def run_subjects_def empty_repo_def repo_wf_def all_event_ids_def)

text \<open>The fake backend starts a run once: a second start returns the first handle.\<close>

lemma backend_start_once:
  assumes "backend_start q b = (Inr handle, b1)" "backend_start q' b1 = (Inr handle', b2)"
    "xq_run_id q' = xq_run_id q"
  shows "handle' = handle \<and> fb_runs b2 = fb_runs b1"
  using assms
  by (auto simp: backend_start_def await_Inr_iff gets_def ret_def pure_def raise_configured_failure_def
      split: option.splits)

end
