(* ===== verification/Kernel_Demo.thy ===== *)
theory Kernel_Demo
  imports Kernel_Facade Fake_Providers
begin

text \<open>
  A concrete history with the fake providers, at which the properties are instantiated: a task that
  was created and made ready, one attempt of it that was started and failed, its cancellation and a
  result attached to it.
\<close>

definition demo_task :: string where
  "demo_task = ''task_11111111-1111-1111-1111-111111111110''"

definition demo_run :: string where
  "demo_run = ''run_11111111-1111-1111-1111-111111111100''"

definition demo_event :: "string \<Rightarrow> string \<Rightarrow> string \<Rightarrow> json dict \<Rightarrow> nat \<Rightarrow> event" where
  "demo_event ty sty sid payload n =
     \<lparr>ev_event_type = ty, ev_subject_type = sty, ev_subject_id = sid, ev_correlation_id = demo_task,
      ev_id = ''event_'' @ unary_uuid n, ev_owner_ref = Some \<lparr>ow_type = ''user'', ow_id = ''u''\<rparr>,
      ev_project_id = None, ev_causation_id = Some ''demo'', ev_trace_id = None, ev_occurred_at = int n,
      ev_payload = payload, ev_schema_version = SCHEMA_VERSION,
      ev_provenance = Some \<lparr>pv_source = ''demo'', pv_actor_ref = Some ''user:u'', pv_details = []\<rparr>,
      ev_external_refs = []\<rparr>"

definition demo_prefix :: "event list" where
  "demo_prefix =
     [demo_event ''task.created'' ''task'' demo_task
        [(''title'', JStr ''T''), (''objective'', JStr ''O''), (''owner_type'', JStr ''user''),
         (''owner_id'', JStr ''u'')] 20,
      demo_event ''task.ready'' ''task'' demo_task [] 21,
      demo_event ''run.created'' ''run'' demo_run
        [(''task_id'', JStr demo_task), (''subject_type'', JStr ''task''), (''subject_id'', JStr demo_task),
         (''attempt'', JInt 1), (''owner_type'', JStr ''user''), (''owner_id'', JStr ''u'')] 22,
      demo_event ''run.starting'' ''run'' demo_run [] 23]"

definition demo_failure :: event where
  "demo_failure = demo_event ''run.failed'' ''run'' demo_run [] 24"

definition demo_history :: "event list" where
  "demo_history = demo_prefix @ [demo_failure]"

definition demo_result :: string where
  "demo_result = ''result_11111111-1111-1111-1111-111111111110''"

definition demo_attachment :: event where
  "demo_attachment = demo_event ''result.attached'' ''task'' demo_task
     [(''task_id'', JStr demo_task), (''result_id'', JStr demo_result)] 26"

definition demo_closed :: "event list" where
  "demo_closed = demo_history @ [demo_event ''task.cancelled'' ''task'' demo_task [] 25, demo_attachment]"

definition demo_command :: command_record where
  "demo_command = \<lparr>cr_scope = demo_task, cr_idempotency_key = ''demo'', cr_operation = ''ready_task'',
     cr_stream_id = demo_task, cr_result_id = demo_task, cr_event_id = ''event_'' @ unary_uuid 21\<rparr>"

definition demo_repo :: "event list \<Rightarrow> mem_repo" where
  "demo_repo evs = \<lparr>mr_streams = [(demo_task, evs)], mr_commands = [((demo_task, ''demo''), demo_command)]\<rparr>"

definition demo_world :: "event list \<Rightarrow> fakes world" where
  "demo_world evs = fake_world\<lparr>w_repo := demo_repo evs\<rparr>"

definition demo_ts :: "event list \<Rightarrow> task_state" where
  "demo_ts evs = projr (reduce_task evs demo_task)"

definition demo_rs :: "event list \<Rightarrow> run_state" where
  "demo_rs evs = projr (reduce_run evs demo_run)"

section \<open>What the history replays to\<close>

definition demo_task_replay :: "event list \<Rightarrow> task_status \<Rightarrow> bool" where
  "demo_task_replay evs st = (case reduce_task evs demo_task of Inl _ \<Rightarrow> False | Inr ts \<Rightarrow>
     task_wf (ts_task ts) \<and> ts_task_id ts = demo_task \<and> ow_type (t_owner_ref (ts_task ts)) = ''user'' \<and>
     ow_id (t_owner_ref (ts_task ts)) = ''u'' \<and> ts_status ts = st \<and> ts_run_ids ts = [demo_run])"

definition demo_run_replay :: "event list \<Rightarrow> run_status \<Rightarrow> bool" where
  "demo_run_replay evs st = (case reduce_run evs demo_run of Inl _ \<Rightarrow> False | Inr rs \<Rightarrow>
     run_wf (rs_run rs) \<and> rs_run_id rs = demo_run \<and> r_correlation_id (rs_run rs) = demo_task \<and>
     r_subject_type (rs_run rs) = ''task'' \<and> r_subject_id (rs_run rs) = demo_task \<and>
     rs_attempt rs = 1 \<and> rs_status rs = st)"

lemma demo_prefix_task: "demo_task_replay demo_prefix T_READY"
  by code_simp

lemma demo_prefix_run: "demo_run_replay demo_prefix R_STARTING"
  by code_simp

lemma demo_history_task: "demo_task_replay demo_history T_READY"
  by code_simp

lemma demo_history_run: "demo_run_replay demo_history R_FAILED"
  by code_simp

lemma demo_closed_task: "demo_task_replay demo_closed T_CANCELLED"
  by code_simp

lemma demo_closed_run: "demo_run_replay demo_closed R_FAILED"
  by code_simp

lemmas demo_task_facts = demo_prefix_task demo_history_task demo_closed_task
lemmas demo_run_facts = demo_prefix_run demo_history_run demo_closed_run

lemma demo_ids:
  "validate_id demo_task ''task'' = Inr demo_task" "validate_id demo_run ''run'' = Inr demo_run"
  by code_simp+

definition demo_histories :: "event list set" where
  "demo_histories = {demo_prefix, demo_history, demo_closed}"

definition demo_task_status :: "event list \<Rightarrow> task_status" where
  "demo_task_status evs = (if evs = demo_closed then T_CANCELLED else T_READY)"

definition demo_run_status :: "event list \<Rightarrow> run_status" where
  "demo_run_status evs = (if evs = demo_prefix then R_STARTING else R_FAILED)"

lemma demo_distinct [simp]:
  "demo_prefix \<noteq> demo_history" "demo_history \<noteq> demo_prefix" "demo_prefix \<noteq> demo_closed" "demo_closed \<noteq> demo_prefix"
  "demo_history \<noteq> demo_closed" "demo_closed \<noteq> demo_history"
  by (simp_all add: demo_history_def demo_closed_def)

lemma demo_status [simp]:
  "demo_task_status demo_prefix = T_READY" "demo_task_status demo_history = T_READY"
  "demo_task_status demo_closed = T_CANCELLED" "demo_run_status demo_prefix = R_STARTING"
  "demo_run_status demo_history = R_FAILED" "demo_run_status demo_closed = R_FAILED"
  by (simp_all add: demo_task_status_def demo_run_status_def)

lemma demo_reduced:
  assumes "evs \<in> demo_histories"
  shows "reduce_task evs demo_task = Inr (demo_ts evs)" "reduce_run evs demo_run = Inr (demo_rs evs)"
    "task_wf (ts_task (demo_ts evs))" "ts_task_id (demo_ts evs) = demo_task" "owned (ts_task (demo_ts evs))"
    "ts_status (demo_ts evs) = demo_task_status evs" "ts_run_ids (demo_ts evs) = [demo_run]"
    "run_of_task demo_task demo_run (rs_run (demo_rs evs))" "rs_attempt (demo_rs evs) = 1"
    "rs_status (demo_rs evs) = demo_run_status evs"
    "r_subject_type (rs_run (demo_rs evs)) = ''task''"
proof -
  have t: "\<exists>ts. reduce_task evs demo_task = Inr ts \<and> task_wf (ts_task ts) \<and> ts_task_id ts = demo_task \<and>
      owned (ts_task ts) \<and> ts_status ts = demo_task_status evs \<and> ts_run_ids ts = [demo_run]"
    using assms demo_task_facts
    by (auto simp: demo_histories_def demo_task_replay_def owned_def split: sum.splits)
  have r: "\<exists>rs. reduce_run evs demo_run = Inr rs \<and> run_of_task demo_task demo_run (rs_run rs) \<and> rs_attempt rs = 1 \<and>
      r_subject_type (rs_run rs) = ''task'' \<and> rs_status rs = demo_run_status evs"
    using assms demo_run_facts
    by (auto simp: demo_histories_def demo_run_replay_def run_of_task_def rs_run_id_def split: sum.splits)
  show "reduce_task evs demo_task = Inr (demo_ts evs)" "reduce_run evs demo_run = Inr (demo_rs evs)"
    "task_wf (ts_task (demo_ts evs))" "ts_task_id (demo_ts evs) = demo_task" "owned (ts_task (demo_ts evs))"
    "ts_status (demo_ts evs) = demo_task_status evs" "ts_run_ids (demo_ts evs) = [demo_run]"
    "run_of_task demo_task demo_run (rs_run (demo_rs evs))" "rs_attempt (demo_rs evs) = 1"
    "rs_status (demo_rs evs) = demo_run_status evs"
    "r_subject_type (rs_run (demo_rs evs)) = ''task''"
    using t r by (auto simp: demo_ts_def demo_rs_def)
qed

lemma run_subjects_filter:
  "run_subjects evs = set (map ev_subject_id (filter (\<lambda>e. ev_subject_type e = ''run'') evs))"
  by (auto simp: run_subjects_def)

lemma demo_subjects: "evs \<in> demo_histories \<Longrightarrow> run_subjects evs = {demo_run}"
proof -
  have "run_subjects demo_prefix = {demo_run}"
    by (simp add: run_subjects_filter demo_prefix_def demo_event_def)
  moreover have "run_subjects demo_history = {demo_run}"
    using calculation by (simp add: demo_history_def demo_failure_def demo_event_def)
  moreover have "run_subjects demo_closed = {demo_run}"
    using calculation by (simp add: demo_closed_def demo_attachment_def demo_event_def run_subjects_append)
      (simp add: run_subjects_filter)
  ultimately show ?thesis if "evs \<in> demo_histories"
    using that by (auto simp: demo_histories_def)
qed

definition demo_lifecycle :: "event list \<Rightarrow> lifecycle" where
  "demo_lifecycle evs = \<lparr>lc_task = ts_task (demo_ts evs), lc_run_ids = [demo_run],
     lc_run = [demo_run \<mapsto> rs_run (demo_rs evs)]\<rparr>"

lemma demo_view:
  assumes "evs \<in> demo_histories"
  shows "view demo_task evs = Some (demo_lifecycle evs)"
proof -
  obtain L where L: "view demo_task evs = Some L" "lc_task L = ts_task (demo_ts evs)" "lc_run_ids L = [demo_run]"
    using view_of_reduce_task(1)[OF demo_reduced(1)[OF assms]] demo_reduced(7)[OF assms] by auto
  have "lc_run L rid = (if rid = demo_run then Some (rs_run (demo_rs evs)) else None)" for rid
  proof (cases "rid = demo_run")
    case True
    then show ?thesis using reduce_run_of_view[OF L(1)] demo_reduced(2)[OF assms] by simp
  next
    case False
    then have "run_fold_of rid evs = Inr run_fold_init" using run_fold_fresh demo_subjects[OF assms] by blast
    then show ?thesis using L(1) False by (auto simp: view_Some run_of_def run_fold_init_def)
  qed
  then have "L = demo_lifecycle evs" using L(2,3) by (cases L) (auto simp: demo_lifecycle_def fun_eq_iff)
  with L(1) show ?thesis by simp
qed

lemma demo_lifecycle_ok:
  assumes "evs \<in> demo_histories"
  shows "lifecycle_ok demo_task (demo_lifecycle evs)"
proof -
  note demo = demo_reduced[OF assms, unfolded ts_task_id_def ts_status_def rs_attempt_def]
  have "demo_task_status evs \<in> CLOSED_TASK_STATUSES \<Longrightarrow> demo_run_status evs = R_FAILED"
    using assms by (auto simp: demo_histories_def CLOSED_TASK_STATUSES_def)
  then show ?thesis
    using demo(3,5,8) demo(10)[unfolded rs_status_def]
    by (simp add: lifecycle_ok_def entities_ok_def demo_lifecycle_def runs_exclusive_def attempts_numbered_def
        active_in_def idle_def TERMINAL_RUN_STATUSES_def demo(4,6,9))
qed

lemma demo_stream_ok: "evs \<in> demo_histories \<Longrightarrow> stream_ok demo_task evs"
  using demo_view demo_lifecycle_ok demo_subjects by (auto simp: stream_ok_def demo_lifecycle_def)

section \<open>A world with the history\<close>

lemma demo_stream [simp]: "stream (demo_world evs) sid = (if sid = demo_task then evs else [])"
  by (simp add: stream_def demo_world_def demo_repo_def read_events_def)

lemma demo_world_fields [simp]: "w_draws (demo_world evs) = 0" "w_repo (demo_world evs) = demo_repo evs"
  by (simp_all add: demo_world_def fake_world_def)

lemma demo_find [simp]:
  "find_command (demo_repo evs) s k = (if s = demo_task \<and> k = ''demo'' then Some demo_command else None)"
  by (auto simp: demo_repo_def find_command_def)

lemma demo_repo_wf: "evs \<in> demo_histories \<Longrightarrow> repo_wf (demo_repo evs) \<and> commands_ok (demo_repo evs)"
proof -
  have "repo_wf (demo_repo demo_prefix) \<and> repo_wf (demo_repo demo_history) \<and> repo_wf (demo_repo demo_closed)"
    by code_simp
  moreover have "\<exists>e \<in> set evs. ev_id e = cr_event_id demo_command" if "evs \<in> demo_histories" for evs
    using that by (auto simp: demo_histories_def demo_closed_def demo_history_def demo_prefix_def demo_event_def demo_command_def)
  ultimately show ?thesis if "evs \<in> demo_histories"
    using that by (auto simp: demo_histories_def commands_ok_def read_events_def demo_repo_def demo_command_def
        find_command_def)
qed

lemma demo_world_inv:
  assumes "evs \<in> demo_histories"
  shows "kernel_inv fake_env 16 (demo_world evs)"
proof -
  have "recorded_runs (demo_world evs) = {demo_run}"
    using demo_subjects[OF assms] by (auto simp: recorded_runs_def run_subjects_def)
  moreover have "run_uuid fake_env k \<noteq> demo_run" if "k < 16" for k
  proof -
    have run: "demo_run = ''run_'' @ unary_uuid 30" by code_simp
    have "unary_uuid k \<noteq> unary_uuid 30" using inj_onD[OF inj_unary_uuid, of k 30] that by auto
    then show ?thesis unfolding run by (simp add: run_uuid_def fake_env_def)
  qed
  ultimately show ?thesis
    using demo_repo_wf[OF assms] demo_stream_ok[OF assms] by (auto simp: kernel_inv_def stream_ok_def)
qed

lemma quiet_get_task:
  assumes "env_suspend env = ret ()" "validate_id tid ''task'' = Inr tid"
  shows "get_task env tid w = (reduce_task (stream w tid) tid, w)"
  using assms by (simp add: get_task_def repo_read_def gets_def stream_def await_def pure_def ret_def)

lemma quiet_get_run:
  assumes "env_suspend env = ret ()" "validate_id tid ''task'' = Inr tid" "validate_id rid ''run'' = Inr rid"
    "reduce_run (stream w tid) rid = Inr rs" "r_correlation_id (rs_run rs) = tid"
  shows "get_run env tid rid w = (Inr rs, w)"
  using assms by (simp add: get_run_def repo_read_def gets_def stream_def await_def pure_def ret_def)

lemma quiet_task_command:
  assumes "env_suspend env = ret ()" "\<not> py_blank key"
  shows "task_command env tid key oper w =
    (case find_command (w_repo w) tid key of
       None \<Rightarrow> (Inr None, w)
     | Some c \<Rightarrow> if cr_operation c = oper then (Inr (Some c), w) else (Inl (contract_error CONFLICT), w))"
  using assms
  by (simp add: task_command_def require_key_def existing_command_def repo_find_def gets_def await_def
      require_same_command_def ret_def raise_def split: option.split)

lemma fake_env_quiet [simp]: "env_suspend fake_env = ret ()"
  by (simp add: fake_env_def)

lemma demo_reads:
  assumes "evs \<in> demo_histories"
  shows "get_task fake_env demo_task (demo_world evs) = (Inr (demo_ts evs), demo_world evs)"
    "get_run fake_env demo_task demo_run (demo_world evs) = (Inr (demo_rs evs), demo_world evs)"
    "task_command fake_env demo_task ''new'' oper (demo_world evs) = (Inr None, demo_world evs)"
    "task_command fake_env demo_task ''demo'' ''ready_task'' (demo_world evs) = (Inr (Some demo_command), demo_world evs)"
proof -
  show "get_task fake_env demo_task (demo_world evs) = (Inr (demo_ts evs), demo_world evs)"
    using quiet_get_task[OF fake_env_quiet demo_ids(1)] demo_reduced(1)[OF assms] by simp
  show "get_run fake_env demo_task demo_run (demo_world evs) = (Inr (demo_rs evs), demo_world evs)"
    using quiet_get_run[OF fake_env_quiet demo_ids, of "demo_world evs"] demo_reduced(2,8)[OF assms]
    by (simp add: run_of_task_def)
  have "\<not> py_blank ''new''" "\<not> py_blank ''demo''" by code_simp+
  then show "task_command fake_env demo_task ''new'' oper (demo_world evs) = (Inr None, demo_world evs)"
    "task_command fake_env demo_task ''demo'' ''ready_task'' (demo_world evs) = (Inr (Some demo_command), demo_world evs)"
    by (simp_all add: quiet_task_command demo_command_def)
qed

lemma demo_in [simp]: "demo_prefix \<in> demo_histories" "demo_history \<in> demo_histories" "demo_closed \<in> demo_histories"
  by (simp_all add: demo_histories_def)

lemma demo_nonempty [simp]: "demo_prefix \<noteq> []" "demo_history \<noteq> []" "demo_closed \<noteq> []"
  by (simp_all add: demo_prefix_def demo_history_def demo_closed_def)

end
