(* ===== verification/Kernel_Sequential.thy ===== *)
theory Kernel_Sequential
  imports Kernel_Demo
begin

text \<open>
  The handlers branch by branch. Each statement fixes what the reads of a handler return (a task,
  a run, a command record) and says what the handler then does: which error it raises, and that it
  writes nothing on the branches that only replay or refuse.
\<close>

section \<open>Running the combinators\<close>

lemma guard_run [run_simps]: "pure (guard b e) w = (if b then (Inr (), w) else (Inl e, w))"
  by (simp add: pure_def)

section \<open>Bounded retries\<close>

lemma retry_stale_all:
  assumes "\<And>i. i < n \<Longrightarrow> m (w i) = (Inl (e i), w (Suc i)) \<and> is_stale_revision_conflict (e i)"
  shows "retry_stale n prev m (w 0) =
    ((case n of 0 \<Rightarrow> (case prev of None \<Rightarrow> Inl RuntimeError | Some x \<Rightarrow> Inl x) | Suc k \<Rightarrow> Inl (e k)), w n)"
  using assms
proof (induction n arbitrary: prev w e)
  case 0
  then show ?case by (simp add: raise_def split: option.split)
next
  case (Suc n)
  have first: "m (w 0) = (Inl (e 0), w (Suc 0))" "is_stale_revision_conflict (e 0)" using Suc.prems[of 0] by auto
  have rest: "retry_stale n (Some (e 0)) m (w (Suc 0)) =
      ((case n of 0 \<Rightarrow> Inl (e 0) | Suc k \<Rightarrow> Inl (e (Suc k))), w (Suc n))"
    using Suc.IH[of "\<lambda>i. w (Suc i)" "\<lambda>i. e (Suc i)" "Some (e 0)"] Suc.prems
    by (cases n) simp_all
  show ?case using first rest by (simp split: nat.splits)
qed

lemma retry_stale_first:
  assumes "\<And>i. i < k \<Longrightarrow> m (w i) = (Inl (e i), w (Suc i)) \<and> is_stale_revision_conflict (e i)"
    and "k < n" "m (w k) = (r, w')" "\<forall>x. r = Inl x \<longrightarrow> \<not> is_stale_revision_conflict x"
  shows "retry_stale n prev m (w 0) = (r, w')"
  using assms
proof (induction n arbitrary: prev w e k)
  case (Suc n)
  show ?case
  proof (cases k)
    case 0
    then show ?thesis using Suc.prems(3,4) by (cases r) (simp_all add: raise_def)
  next
    case (Suc j)
    then have first: "m (w 0) = (Inl (e 0), w (Suc 0))" "is_stale_revision_conflict (e 0)"
      using Suc.prems(1)[of 0] by auto
    have "retry_stale n (Some (e 0)) m (w (Suc 0)) = (r, w')"
      using Suc.IH[of j "\<lambda>i. w (Suc i)" "\<lambda>i. e (Suc i)"] Suc.prems \<open>k = Suc j\<close> by simp
    then show ?thesis using first by simp
  qed
qed simp

definition demo_decision :: completion_gate_decision where
  "demo_decision = \<lparr>cg_task_id = demo_task, cg_state = C_WAITING, cg_reason = ''waiting for verification'',
     cg_policy_id = None, cg_policy_version = None, cg_subject = None, cg_blocking_verification_ids = [],
     cg_repair_attempts_remaining = 0\<rparr>"

section \<open>Properties\<close>

text \<open>Outcomes are recorded with at most eight attempts. \<open>retry_stale\<close> repeats the handler exactly while it
fails with a stale stream revision, answers with the first other outcome when one comes within the
limit, and otherwise raises the last stale conflict; the unreachable \<open>RuntimeError\<close> is never raised.\<close>

theorem retry_stale_bounded:
  assumes "\<And>i. i < k \<Longrightarrow> m (w i) = (Inl (e i), w (Suc i)) \<and> is_stale_revision_conflict (e i)"
    and "k < STALE_REVISION_RETRY_LIMIT \<and> m (w k) = (r, w') \<and> (\<forall>x. r = Inl x \<longrightarrow> \<not> is_stale_revision_conflict x) \<or>
         k = STALE_REVISION_RETRY_LIMIT \<and> r = Inl (e 7) \<and> w' = w 8"
  shows "retry_stale STALE_REVISION_RETRY_LIMIT None m (w 0) = (r, w')"
  using assms(2)
proof (elim disjE conjE)
  assume "k = STALE_REVISION_RETRY_LIMIT" "r = Inl (e 7)" "w' = w 8"
  with retry_stale_all[of k m w e None] assms(1) show ?thesis
    by (simp add: STALE_REVISION_RETRY_LIMIT_def)
qed (rule retry_stale_first[of k m w e], use assms(1) in auto)

theorem retry_stale_bounded_witness:
  "retry_stale STALE_REVISION_RETRY_LIMIT None
     (\<lambda>n. if n < (3::nat) then (Inl (stale_revision_error 0 n), Suc n) else (Inr n, n)) 0 = (Inr 3, 3)"
  using retry_stale_bounded[of 3 "\<lambda>n. if n < (3::nat) then (Inl (stale_revision_error 0 n), Suc n) else (Inr n, n)"
      "\<lambda>i. i" "\<lambda>i. stale_revision_error 0 i" "Inr 3" 3]
  by (simp add: is_stale_revision_conflict_def stale_revision_error_def STALE_REVISION_RETRY_LIMIT_def)



text \<open>A terminal snapshot of the backend is folded into the history once. For a run that already has
that status the reconciliation does nothing; for another terminal status it raises a conflict.\<close>

theorem terminal_snapshot_settled:
  assumes "rs_status rs \<in> TERMINAL_RUN_STATUSES"
  shows "apply_terminal_system env ts rs target output cause src am w =
    ((if rs_status rs = target then Inr () else Inl (contract_error CONFLICT)), w)"
  using assms by (simp add: apply_terminal_system_def ret_def raise_def)

theorem terminal_snapshot_settled_witness:
  "apply_terminal_system fake_env (demo_ts demo_history) (demo_rs demo_history) R_CANCELLED [] ''c'' ''s'' [] fake_world =
     (Inl (contract_error CONFLICT), fake_world)"
  using terminal_snapshot_settled[of "demo_rs demo_history" fake_env "demo_ts demo_history" R_CANCELLED "[]" "''c''" "''s''"
      "[]" fake_world] demo_reduced(10)[of demo_history]
  by (simp add: TERMINAL_RUN_STATUSES_def)

text \<open>Dispatch never revives a run. A run that is no longer starting is not sent to the lifecycle
backend, and nothing is written.\<close>

theorem dispatch_only_starting:
  assumes "get_task env tid w = (Inr ts, w)" "get_run env tid rid w = (Inr rs, w)" "rs_status rs \<noteq> R_STARTING"
  shows "dispatch_started_run env tid rid cause actor src w = (Inr (), w)"
  using assms by (simp add: dispatch_started_run_def ret_def)

theorem dispatch_only_starting_witness:
  "dispatch_started_run fake_env demo_task demo_run ''c'' None ''s'' (demo_world demo_history) =
     (Inr (), demo_world demo_history)"
  using demo_reduced(10)[of demo_history]
  by (intro dispatch_only_starting[OF demo_reads(1,2)]) simp_all

text \<open>A starting snapshot escapes the error contract. \<open>ExecutionStatus\<close> has the status \<open>starting\<close>, the
reconciliation looks it up in a table of terminal statuses and raises \<open>KeyError\<close>, not \<open>ContractError\<close>.\<close>

theorem starting_snapshot_key_error:
  assumes "get_task env tid w = (Inr ts, w)" "get_run env tid rid w = (Inr rs, w)"
    and "xs_run_id snapshot = rid" "xs_status snapshot = R_STARTING"
  shows "(apply_snapshot_system env tid rid snapshot cause src w = (Inl KeyError, w)) \<and>
    (apply_snapshot_command env tid rid snapshot key oper actor src w = (Inl KeyError, w))"
  using assms by (simp_all add: apply_snapshot_system_def apply_snapshot_command_def raise_def)

theorem starting_snapshot_key_error_witness:
  "apply_snapshot_system fake_env demo_task demo_run
     \<lparr>xs_run_id = demo_run, xs_status = R_STARTING, xs_output = [], xs_adapter_metadata = []\<rparr> ''c'' ''s''
     (demo_world demo_prefix) = (Inl KeyError, demo_world demo_prefix)"
  using starting_snapshot_key_error[OF demo_reads(1,2)[of demo_prefix],
      of "\<lparr>xs_run_id = demo_run, xs_status = R_STARTING, xs_output = [], xs_adapter_metadata = []\<rparr>"]
  by simp

text \<open>Recovery leaves settled runs alone. A queued run is reported as pending, a terminal one as
unchanged, in both cases without asking the backend and without a write.\<close>

theorem recovery_leaves_settled_runs:
  assumes "get_run env (ts_task_id ts) rid w = (Inr rs, w)" "rs_status rs \<notin> {R_STARTING, R_RUNNING}"
  shows "recover_run env ts rid w =
    (Inr \<lparr>re_run_id = rid, re_before = rs_status rs, re_after = rs_status rs,
          re_disposition = (if rs_status rs = R_QUEUED then QUEUED_PENDING else TERMINAL_UNCHANGED)\<rparr>, w)"
  using assms by (simp add: recover_run_def Let_def ret_def)

theorem recovery_leaves_settled_runs_witness:
  "recover_run fake_env (demo_ts demo_history) demo_run (demo_world demo_history) =
     (Inr \<lparr>re_run_id = demo_run, re_before = R_FAILED, re_after = R_FAILED, re_disposition = TERMINAL_UNCHANGED\<rparr>,
      demo_world demo_history)"
  using recovery_leaves_settled_runs[of fake_env "demo_ts demo_history" demo_run "demo_world demo_history"
      "demo_rs demo_history"] demo_reads(2)[of demo_history] demo_reduced(4,10)[of demo_history]
  by simp

text \<open>A started effect settles before a cancellation surfaces. Whether the caller was cancelled or not,
the state left behind is that of the finished operation; a cancellation only replaces its result.\<close>

theorem started_effect_settles:
  "snd (await_started_effect env m w) = snd (m w) \<and>
   (fst (await_started_effect env m w) = fst (m w) \<or>
    env_interrupted env (snd (m w)) \<and> fst (await_started_effect env m w) = Inl CancelledError)"
  by (cases "m w"; cases "fst (m w)")
    (auto simp: await_started_effect_def gets_def await_def ret_def raise_def)

text \<open>A command is executed once per key. When the key is already bound to the same operation, the
task handlers answer with the current task and write nothing.\<close>

theorem replayed_command_reads_only:
  assumes "get_task env tid w = (Inr ts, w)" "task_command env tid key oper w = (Inr (Some c), w)"
  shows "(oper = ''ready_task'' \<longrightarrow> ready_task env key tid actor src w = (Inr ts, w)) \<and>
    (oper = ''wait_task'' \<longrightarrow> wait_task env key tid reason blocked actor src w = (Inr ts, w)) \<and>
    (oper = ''resume_task'' \<longrightarrow> resume_task env key tid actor src w = (Inr ts, w)) \<and>
    (oper = ''complete_task'' \<longrightarrow> complete_task env key tid actor src w = (Inr ts, w)) \<and>
    (oper = ''fail_task'' \<longrightarrow> fail_task env key tid freason actor src w = (Inr ts, w)) \<and>
    (oper = ''cancel_task'' \<longrightarrow> cancel_task env key tid actor src w = (Inr ts, w)) \<and>
    (oper = ''update_task'' \<longrightarrow> update_task env key tid title objective metadata actor src w = (Inr ts, w)) \<and>
    (oper = ''plan_task'' \<longrightarrow> plan_task env key tid actor src w = (Inr ts, w))"
  using assms
  by (intro conjI impI; simp add: ready_task_def wait_task_def resume_task_def complete_task_def fail_task_def
      cancel_task_def update_task_def plan_task_def)

theorem replayed_command_reads_only_witness:
  "ready_task fake_env ''demo'' demo_task None ''s'' (demo_world demo_history) =
     (Inr (demo_ts demo_history), demo_world demo_history)"
  using replayed_command_reads_only[OF demo_reads(1,4)[of demo_history]] by simp

text \<open>A key names one operation. Reusing the key of a recorded command for another operation is a
conflict, and nothing is written.\<close>

theorem reused_key_conflicts:
  assumes "env_suspend env = ret ()" "\<not> py_blank key"
    and "find_command (w_repo w) tid key = Some c" "cr_operation c \<noteq> oper"
  shows "task_command env tid key oper w = (Inl (contract_error CONFLICT), w)"
  using assms by (simp add: quiet_task_command)

theorem reused_key_conflicts_witness:
  "task_command fake_env demo_task ''demo'' ''fail_task'' (demo_world demo_history) =
     (Inl (contract_error CONFLICT), demo_world demo_history)"
proof -
  have "\<not> py_blank ''demo''" by code_simp
  then show ?thesis
    by (intro reused_key_conflicts[of _ _ _ _ demo_command]) (simp_all add: demo_command_def)
qed

text \<open>Closed tasks reject changes, each with a conflict and without a write: no update or plan after
success or cancellation, no readiness unless draft or failed, no wait unless running, no
completion unless running or waiting for verification, no failure unless running or waiting, no
cancellation of a succeeded or failed task, no retry unless failed.\<close>

theorem status_guards:
  assumes "get_task env tid w = (Inr ts, w)" "\<forall>oper. task_command env tid key oper w = (Inr None, w)"
  shows "(ts_status ts \<in> {T_SUCCEEDED, T_CANCELLED} \<longrightarrow>
      update_task env key tid title objective metadata actor src w = (Inl (contract_error CONFLICT), w) \<and>
      plan_task env key tid actor src w = (Inl (contract_error CONFLICT), w)) \<and>
    (ts_status ts \<notin> {T_DRAFT, T_FAILED} \<longrightarrow>
      ready_task env key tid actor src w = (Inl (contract_error CONFLICT), w)) \<and>
    (ts_status ts \<noteq> T_RUNNING \<longrightarrow>
      wait_task env key tid reason blocked actor src w = (Inl (contract_error CONFLICT), w)) \<and>
    (ts_status ts \<noteq> T_WAITING \<longrightarrow>
      resume_task env key tid actor src w = (Inl (contract_error CONFLICT), w)) \<and>
    (ts_status ts \<notin> {T_RUNNING, T_WAITING} \<longrightarrow>
      complete_task env key tid actor src w = (Inl (contract_error CONFLICT), w) \<and>
      fail_task env key tid freason actor src w = (Inl (contract_error CONFLICT), w)) \<and>
    (ts_status ts \<in> {T_SUCCEEDED, T_FAILED} \<longrightarrow>
      cancel_task env key tid actor src w = (Inl (contract_error CONFLICT), w)) \<and>
    (ts_status ts \<noteq> T_FAILED \<longrightarrow>
      retry_task env key tid actor src w = (Inl (contract_error CONFLICT), w))"
  using assms
  by (auto simp: update_task_def plan_task_def ready_task_def wait_task_def resume_task_def complete_task_def
      fail_task_def cancel_task_def retry_task_def raise_def Let_def)

theorem status_guards_witness:
  "ready_task fake_env ''new'' demo_task None ''s'' (demo_world demo_history) =
     (Inl (contract_error CONFLICT), demo_world demo_history)"
  using status_guards[OF demo_reads(1)[of demo_history], of "''new''"] demo_reads(3)[of demo_history]
    demo_reduced(6)[of demo_history]
  by simp

text \<open>C30: success needs the completion gate. When a completion authority is configured and does not accept,
the events for a successful run leave the task short of success: none of them is
\<open>task.succeeded\<close>, and a running task is parked as blocked with the gate's state as its reason.\<close>

theorem success_needs_acceptance:
  assumes "env_assess env = Some assess" "assess (ts_task_id ts) w = (Inr decision, w1)"
    and "cg_state decision \<noteq> C_ACCEPTED"
    and "terminal_specs env ts rs R_SUCCEEDED output am allow w = (Inr specs, w')"
  shows "''task.succeeded'' \<notin> fst ` set specs \<and>
    (r_subject_type (rs_run rs) = ''task'' \<and> ts_status ts = T_RUNNING \<longrightarrow>
     last specs = (''task.waiting'', ''task'', ts_task_id ts, completion_payload decision, []))"
proof -
  obtain pre where pre: "terminal_run_specs ts rs R_SUCCEEDED output am allow = Inr pre"
    using assms(4) by (auto simp: terminal_specs_def await_Inr_iff pure_def)
  then have no: "''task.succeeded'' \<notin> fst ` set pre"
    by (auto simp: terminal_run_specs_def sbind_eq_Inr split: if_splits)
  have gate: "completion_task_spec env (ts_task_id ts) w =
      (Inr (''task.waiting'', ''task'', ts_task_id ts, completion_payload decision, []), w1)"
    using assms(1-3) by (simp add: completion_task_spec_def ret_def)
  have "''task.succeeded'' \<notin> fst ` set specs"
    using assms(4) no by (auto simp: terminal_specs_def pre gate ret_def Let_def split: if_splits)
  moreover have "last specs = (''task.waiting'', ''task'', ts_task_id ts, completion_payload decision, [])"
    if "r_subject_type (rs_run rs) = ''task''" "ts_status ts = T_RUNNING"
    using assms(4) that by (auto simp: terminal_specs_def pre gate ret_def Let_def split: if_splits)
  ultimately show ?thesis by blast
qed

theorem success_needs_acceptance_witness:
  "''task.succeeded'' \<notin> fst ` set (projr (fst (terminal_specs
     (fake_env\<lparr>env_assess := Some (\<lambda>_. ret demo_decision)\<rparr>) (demo_ts demo_prefix) (demo_rs demo_prefix)
     R_SUCCEEDED [] [] False fake_world)))"
proof -
  let ?env = "fake_env\<lparr>env_assess := Some (\<lambda>_. ret demo_decision)\<rparr>"
  have specs: "terminal_specs ?env (demo_ts demo_prefix) (demo_rs demo_prefix) R_SUCCEEDED [] [] False fake_world =
     (Inr [(''run.running'', ''run'', demo_run, [(''inferred'', JBool True)], []),
      (''task.running'', ''task'', demo_task, [(''inferred'', JBool True)], []),
      (''run.succeeded'', ''run'', demo_run, [(''output'', JObj [])], []),
      (''task.waiting'', ''task'', demo_task, completion_payload demo_decision, [])], fake_world)"
    using demo_reduced[of demo_prefix]
    by (simp add: terminal_specs_def terminal_run_specs_def completion_task_spec_def ret_def demo_decision_def
        demo_history_def run_of_task_def rs_run_id_def)
  from success_needs_acceptance[OF _ _ _ specs, of "\<lambda>_. ret demo_decision" demo_decision fake_world]
  show ?thesis unfolding specs by (simp add: ret_def demo_decision_def)
qed

end
