(* ===== verification/Kernel_Guarantees.thy ===== *)
theory Kernel_Guarantees
  imports Kernel_Sequential
begin

text \<open>
  What a client of the kernel can rely on, whatever requests it sends and whatever runs between the
  awaits of their handlers: every history replays, lifecycle rules hold in every replayed state,
  and nothing that was settled changes.
\<close>

section \<open>Valid worlds\<close>

lemma inv_stream_ok: "kernel_inv env N w \<Longrightarrow> w_draws w \<le> N \<Longrightarrow> stream_ok sid (stream w sid)"
  by (simp add: kernel_inv_def)

lemma reduce_run_nonempty: "reduce_run evs rid = Inr rs \<Longrightarrow> evs \<noteq> []"
  by (auto simp: reduce_run_def run_state_of_def run_fold_init_def)

lemma reduce_task_nonempty: "reduce_task evs tid = Inr ts \<Longrightarrow> evs \<noteq> []"
  by (auto simp: reduce_task_def task_state_of_def task_fold_init_def)

lemma inv_view:
  assumes "kernel_inv env N w" "w_draws w \<le> N" "stream w tid \<noteq> []"
  obtains L where "view tid (stream w tid) = Some L" "lifecycle_ok tid L"
  using inv_stream_ok[OF assms(1,2), of tid] assms(3) by (auto simp: stream_ok_def)

text \<open>The runs that replay are the runs of the lifecycle.\<close>

lemma view_runs:
  assumes "view tid evs = Some L"
  shows "reduce_run evs rid = Inr rs \<Longrightarrow> lc_run L rid = Some (rs_run rs)"
    and "lc_run L rid = Some r \<Longrightarrow> \<exists>rs. reduce_run evs rid = Inr rs \<and> rs_run rs = r"
  using reduce_run_of_view[OF assms] by simp_all

lemma view_task_of:
  assumes "view tid evs = Some L" "reduce_task evs tid = Inr ts"
  shows "lc_task L = ts_task ts" "lc_run_ids L = ts_run_ids ts"
  using view_of_reduce_task(1)[OF assms(2)] assms(1) by auto

definition active_ids :: "event list \<Rightarrow> (run_state \<Rightarrow> bool) \<Rightarrow> string set" where
  "active_ids evs p = {rid. \<exists>rs. reduce_run evs rid = Inr rs \<and> is_active rs \<and> p rs}"

lemma active_run:
  assumes "view tid evs = Some L" "reduce_run evs rid = Inr rs" "is_active rs"
  shows "active_in L rid (rs_run rs)"
  using view_runs(1)[OF assms(1,2)] assms(3) by (simp add: active_in_def is_active_def rs_status_def)

lemma lifecycle_okD:
  "lifecycle_ok tid L \<Longrightarrow> runs_exclusive L"
  "lifecycle_ok tid L \<Longrightarrow> attempts_numbered L"
  "lifecycle_ok tid L \<Longrightarrow> t_status (lc_task L) \<in> CLOSED_TASK_STATUSES \<Longrightarrow> idle L"
  "lifecycle_ok tid L \<Longrightarrow> rid \<in> set (lc_run_ids L) \<Longrightarrow> \<exists>r. lc_run L rid = Some r"
  "lifecycle_ok tid L \<Longrightarrow> lc_run L rid = Some r \<Longrightarrow> run_wf r"
  by (auto simp: lifecycle_ok_def entities_ok_def run_of_task_def)

lemma one_active:
  assumes "view tid evs = Some L" "lifecycle_ok tid L"
    and "i \<in> active_ids evs p" "j \<in> active_ids evs q"
    and "\<And>r s. p r \<Longrightarrow> q s \<Longrightarrow> r_subject_type (rs_run r) \<noteq> r_subject_type (rs_run s) \<or> r_subject_id (rs_run r) = r_subject_id (rs_run s)"
  shows "i = j"
proof (rule ccontr)
  assume ij: "i \<noteq> j"
  obtain r s where r: "reduce_run evs i = Inr r" "is_active r" "p r" and s: "reduce_run evs j = Inr s" "is_active s" "q s"
    using assms(3,4) by (auto simp: active_ids_def)
  from runs_exclusiveD[OF lifecycle_okD(1)[OF assms(2)] active_run[OF assms(1) r(1,2)] active_run[OF assms(1) s(1,2)] ij]
  show False using assms(5)[OF r(3) s(3)] by simp
qed

lemma attempts_down:
  assumes "attempts_numbered L" "lc_run L i = Some r" "1 \<le> n" "n \<le> r_attempt r"
  shows "\<exists>j s. lc_run L j = Some s \<and> same_subject r s \<and> r_attempt s = n"
  using assms(2,4)
proof (induction "nat (r_attempt r - n)" arbitrary: i r)
  case 0
  then show ?case by (auto simp: same_subject_def intro!: exI[of _ i] exI[of _ r])
next
  case (Suc k)
  obtain j s where js: "lc_run L j = Some s" "same_subject r s" "r_attempt s = r_attempt r - 1"
    using attempts_gapless[OF assms(1) Suc.prems(1)] Suc.hyps(2) assms(3) by fastforce
  then have "\<exists>j' s'. lc_run L j' = Some s' \<and> same_subject s s' \<and> r_attempt s' = n"
    using Suc.hyps(1)[of s j] Suc.hyps(2) Suc.prems(2) by simp
  with js(2) show ?case by (auto simp: same_subject_def)
qed

text \<open>Settled facts survive: the history only grew, and it still replays.\<close>

lemma later_run:
  assumes "reduce_run evs rid = Inr rs" "prefix evs evs'" "\<exists>rs'. reduce_run evs' rid = Inr rs'"
  shows "\<exists>rs'. reduce_run evs' rid = Inr rs' \<and> same_run (rs_run rs) (rs_run rs') \<and>
    (rs_status rs \<in> TERMINAL_RUN_STATUSES \<longrightarrow> rs_run rs' = rs_run rs)"
proof -
  obtain later where l: "evs' = evs @ later" using assms(2) by (auto simp: prefix_def)
  obtain rs' where rs': "reduce_run evs' rid = Inr rs'" using assms(3) by blast
  obtain f f' where f: "run_fold_of rid evs = Inr f" "rf_run f = Some (rs_run rs)"
    "run_fold_of rid (evs @ later) = Inr f'" "rf_run f' = Some (rs_run rs')"
    using assms(1) rs' by (auto simp: l reduce_run_Inr dest!: run_state_of_Inr)
  from run_extended[OF run_fold_extend[OF f(1,3)] f(2)] f(4) rs' show ?thesis by (auto simp: rs_status_def)
qed

lemma later_task:
  assumes "reduce_task evs tid = Inr ts" "prefix evs evs'" "reduce_task evs' tid = Inr ts'"
  shows "same_task (ts_task ts) (ts_task ts') \<and> prefix (ts_run_ids ts) (ts_run_ids ts') \<and>
    (ts_status ts \<in> {T_SUCCEEDED, T_CANCELLED} \<longrightarrow> ts_status ts' = ts_status ts)"
proof -
  obtain later where l: "evs' = evs @ later" using assms(2) by (auto simp: prefix_def)
  obtain s s' where s: "task_fold_of tid evs = Inr s" "tf_task s = Some (ts_task ts)" "tf_run_ids s = ts_run_ids ts"
    "task_fold_of tid (evs @ later) = Inr s'" "tf_task s' = Some (ts_task ts')" "tf_run_ids s' = ts_run_ids ts'"
    using assms(1,3) by (auto simp: l reduce_task_Inr dest!: task_state_of_Inr)
  from task_extended[OF task_fold_extend[OF s(1,4)] s(2)] s(3,5,6) show ?thesis by (auto simp: ts_status_def)
qed

lemma run_still_replays:
  assumes "kernel_inv env N w'" "w_draws w' \<le> N" "evolves w w'" "reduce_run (stream w tid) rid = Inr rs"
  shows "\<exists>rs'. reduce_run (stream w' tid) rid = Inr rs'"
proof -
  have pre: "prefix (stream w tid) (stream w' tid)" using assms(3) by (rule evolves_stream)
  then have ne: "stream w' tid \<noteq> []" using reduce_run_nonempty[OF assms(4)] by (auto simp: prefix_def)
  have "run_fold_of rid (stream w tid) \<noteq> Inr run_fold_init"
    using assms(4) by (auto simp: reduce_run_Inr run_state_of_def run_fold_init_def)
  then have "rid \<in> run_subjects (stream w tid)" using run_fold_fresh by blast
  then have rid: "rid \<in> run_subjects (stream w' tid)" using pre by (auto simp: prefix_def run_subjects_append)
  obtain L where L: "view tid (stream w' tid) = Some L" "lifecycle_ok tid L" "run_subjects (stream w' tid) \<subseteq> set (lc_run_ids L)"
    using stream_ok_reduces[OF inv_stream_ok[OF assms(1,2)] ne] by blast
  then have "lc_run L rid \<noteq> None" using rid by (auto simp: lifecycle_ok_def entities_ok_def)
  then show ?thesis using reduce_run_of_view[OF L(1), of rid] by (cases "lc_run L rid") auto
qed

lemma task_still_replays:
  assumes "kernel_inv env N w'" "w_draws w' \<le> N" "evolves w w'" "reduce_task (stream w tid) tid = Inr ts"
  shows "\<exists>ts'. reduce_task (stream w' tid) tid = Inr ts'"
proof -
  have "stream w' tid \<noteq> []"
    using evolves_stream[OF assms(3), of tid] reduce_task_nonempty[OF assms(4)] by (auto simp: prefix_def)
  from stream_ok_reduces[OF inv_stream_ok[OF assms(1,2)] this] show ?thesis by blast
qed

end
