(* ===== verification/Kernel_Refinement.thy ===== *)
theory Kernel_Refinement
  imports Kernel_Replay
begin

text \<open>
  Refinement of the reducers: between two valid histories that differ by one event, whatever that
  event is, the abstract state read off the histories makes one step of \<open>lifecycle_step\<close>.
\<close>

lemma task_step_run_ids:
  assumes "task_step tid s e = Inr s'" "tf_task s = Some t"
  shows "tf_run_ids s' = tf_run_ids s \<or> (\<exists>x. x \<notin> set (tf_run_ids s) \<and> tf_run_ids s' = tf_run_ids s @ [x])"
proof -
  have "task_run_created tid s e = Inr s' \<Longrightarrow> ?thesis"
    by (auto simp: task_run_created_def sbind_eq_Inr append_new_def split: if_splits dest!: task_side_Inr(1))
  then show ?thesis using assms task_side_Inr(2)[of s e s'] task_status_event_Inr[of s t _ e s']
    by (auto simp: task_step_def task_created_def sbind_eq_Inr split: if_splits option.splits)
qed

lemma task_step_run_created:
  assumes "task_step tid s e = Inr s'" "tf_task s = Some t" "ev_event_type e = ''run.created''"
  shows "tf_task s' = Some t \<and>
    (tf_run_ids s' = tf_run_ids s \<or> tf_run_ids s' = append_new (ev_subject_id e) (tf_run_ids s))"
  using assms
  by (auto simp: task_step_def task_run_created_def task_output_attached_def sbind_eq_Inr TASK_EVENT_STATUS_def
      split: if_splits)

lemma run_step_first:
  assumes "run_step rid f e = Inr f'" "rf_run f = None" "rf_run f' = Some r"
  shows "ev_event_type e = ''run.created'' \<and> r_status r = R_QUEUED"
  using assms
  by (auto simp: run_step_def run_created_def run_post_init_def sbind_eq_Inr split: if_splits)

lemma run_step_moves:
  assumes "run_step rid f e = Inr f'" "rf_run f = Some r" "rf_run f' = Some r'" "r' \<noteq> r"
  shows "dict_get RUN_EVENT_STATUS (ev_event_type e) \<noteq> None \<and> same_run r r' \<and>
    r_status r' \<in> RUN_TRANSITIONS (r_status r)"
proof -
  have "dict_get RUN_EVENT_STATUS (ev_event_type e) \<noteq> None"
    using assms
    by (auto simp: run_step_def run_created_def run_output_attached_def sbind_eq_Inr split: if_splits option.splits)
  with run_step_Inr[OF assms(1,2)] assms(3,4) show ?thesis by auto
qed

lemma next_attempt_of_new:
  assumes ok: "attempts_numbered (L\<lparr>lc_run_ids := ids, lc_run := (lc_run L)(rid \<mapsto> r)\<rparr>)"
    and none: "lc_run L rid = None" and act: "r_status r = R_QUEUED"
  shows "next_attempt_of L r"
proof -
  let ?L = "L\<lparr>lc_run_ids := ids, lc_run := (lc_run L)(rid \<mapsto> r)\<rparr>"
  have rid: "lc_run ?L rid = Some r" "active_in ?L rid r"
    using act by (simp_all add: active_in_def TERMINAL_RUN_STATUSES_def)
  have old: "lc_run ?L j = Some s \<and> rid \<noteq> j" if "lc_run L j = Some s" for j s
    using that none by auto
  have "r_attempt s < r_attempt r" if "lc_run L j = Some s" "same_subject r s" for j s
    using attempts_newest[OF ok rid(2), of j s] attempts_distinct[OF ok rid(1), of j s] old[OF that(1)] that(2)
    by fastforce
  moreover have "\<exists>j s. lc_run L j = Some s \<and> same_subject r s \<and> r_attempt s = r_attempt r - 1"
    if one: "1 < r_attempt r"
  proof -
    obtain j s where js: "lc_run ?L j = Some s" "same_subject r s" "r_attempt s = r_attempt r - 1"
      using attempts_gapless[OF ok rid(1) one] by blast
    then have "j \<noteq> rid" by auto
    with js show ?thesis by auto
  qed
  ultimately show ?thesis by (auto simp: next_attempt_of_def)
qed

lemma task_only_step:
  assumes L: "lifecycle_ok tid L" "lifecycle_ok tid L'" and same: "lc_run L' = lc_run L"
    and ids: "lc_run_ids L' = lc_run_ids L \<or> (\<exists>x. x \<notin> set (lc_run_ids L) \<and> lc_run_ids L' = lc_run_ids L @ [x])"
    and t: "same_task (lc_task L) (lc_task L')"
      "t_status (lc_task L') = t_status (lc_task L) \<or> t_status (lc_task L') \<in> TASK_TRANSITIONS (t_status (lc_task L))"
  shows "lifecycle_step tid L L'"
proof -
  have "lc_run_ids L' = lc_run_ids L"
  proof (rule ccontr)
    assume "lc_run_ids L' \<noteq> lc_run_ids L"
    with ids obtain x where "x \<notin> set (lc_run_ids L)" "x \<in> set (lc_run_ids L')" by auto
    with L same show False by (auto simp: lifecycle_ok_def entities_ok_def)
  qed
  then have L': "L' = L\<lparr>lc_task := lc_task L'\<rparr>" using same by (cases L; cases L') simp
  have "idle L" if "t_status (lc_task L') \<in> CLOSED_TASK_STATUSES"
    using L(2) that same by (auto simp: lifecycle_ok_def idle_def active_in_def)
  moreover have "task_wf (lc_task L')" using L(2) by (simp add: lifecycle_ok_def entities_ok_def)
  ultimately show ?thesis using t by (subst L', intro lifecycle_step.task_move) auto
qed

lemma new_run_step:
  assumes L: "lifecycle_ok tid L" "lifecycle_ok tid L'" and new: "lc_run L rid = None"
    and upd: "L' = L\<lparr>lc_run_ids := lc_run_ids L @ [rid], lc_run := (lc_run L)(rid \<mapsto> r)\<rparr>"
    and queued: "r_status r = R_QUEUED"
  shows "lifecycle_step tid L L'"
proof -
  have r: "run_of_task tid rid r" using L(2) upd by (auto simp: lifecycle_ok_def entities_ok_def)
  have fresh: "rid \<notin> set (lc_run_ids L)" using new L(1) by (auto simp: lifecycle_ok_def entities_ok_def)
  have act: "active_in L' rid r" using upd queued by (simp add: active_in_def TERMINAL_RUN_STATUSES_def)
  have open': "t_status (lc_task L) \<notin> CLOSED_TASK_STATUSES"
    using L(2) act upd by (auto simp: lifecycle_ok_def idle_def)
  have nxt: "next_attempt_of L r"
    using next_attempt_of_new[OF _ new queued] L(2) upd by (auto simp: lifecycle_ok_def)
  have "r_subject_type a = r_subject_type r \<and> r_subject_id a \<noteq> r_subject_id r" if "active_in L j a" for j a
  proof -
    have "j \<noteq> rid" using that new by (auto simp: active_in_def)
    then have "active_in L' j a" using that upd by (simp add: active_in_def)
    with runs_exclusiveD[OF _ this act \<open>j \<noteq> rid\<close>] L(2) show ?thesis by (simp add: lifecycle_ok_def)
  qed
  then show ?thesis
    unfolding upd by (intro lifecycle_step.new_run[OF fresh r queued open' nxt]) auto
qed

lemma one_event_step:
  assumes L: "view tid evs = Some L" "lifecycle_ok tid L"
    and L': "view tid (evs @ [e]) = Some L'" "lifecycle_ok tid L'"
  shows "lifecycle_step tid L L'"
proof -
  obtain s where s: "task_fold_of tid evs = Inr s" "tf_task s = Some (lc_task L)" "tf_run_ids s = lc_run_ids L"
    "\<And>i. lc_run L i = run_of (run_fold_of i evs)" using L(1) by (auto simp: view_Some)
  obtain s' where s': "task_step tid s e = Inr s'" "tf_task s' = Some (lc_task L')" "tf_run_ids s' = lc_run_ids L'"
    "\<And>i. lc_run L' i = run_of (run_fold_of i (evs @ [e]))"
    using L'(1) by (auto simp: view_Some task_fold_snoc[OF s(1)])
  let ?rid = "ev_subject_id e"
  have other: "lc_run L' i = lc_run L i" if "ev_subject_type e \<noteq> ''run'' \<or> i \<noteq> ?rid" for i
    using that s(4) s'(4) by auto
  have mono: "set (lc_run_ids L) \<subseteq> set (lc_run_ids L')"
    using task_step_run_ids[OF s'(1) s(2)] s(3) s'(3) by auto
  show ?thesis
  proof (cases "lc_run L' ?rid = lc_run L ?rid")
    case True
    then have "lc_run L' = lc_run L" using other by (metis ext)
    then show ?thesis
      using task_only_step[OF L(2) L'(2)] task_step_run_ids[OF s'(1) s(2)] task_step_Inr[OF s'(1) s(2)] s(3) s'(2,3)
      by auto
  next
    case moved: False
    then obtain f where f: "run_fold_of ?rid evs = Inr f" "lc_run L ?rid = rf_run f"
      using s(4)[of ?rid] s'(4)[of ?rid]
      by (cases "run_fold_of ?rid evs") (auto simp: run_fold_snoc run_of_def)
    show ?thesis
    proof (cases "lc_run L' ?rid")
      case None
      with moved obtain r where "lc_run L ?rid = Some r" by (cases "lc_run L ?rid") auto
      then have "?rid \<in> set (lc_run_ids L')" using L(2) mono by (auto simp: lifecycle_ok_def entities_ok_def)
      with None L'(2) show ?thesis by (auto simp: lifecycle_ok_def entities_ok_def)
    next
      case (Some r')
      then obtain f' where f': "run_step ?rid f e = Inr f'" "rf_run f' = Some r'"
        using s'(4)[of ?rid] f(1) by (auto simp: run_fold_snoc run_of_def split: sum.splits)
      have wf: "run_of_task tid ?rid r'" "?rid \<in> set (lc_run_ids L')"
        using L'(2) Some by (auto simp: lifecycle_ok_def entities_ok_def)
      show ?thesis
      proof (cases "lc_run L ?rid")
        case old: (Some r)
        then have "rf_run f = Some r" "r' \<noteq> r" using f(2) moved Some by auto
        note mv = conjunct1[OF run_step_moves[OF f'(1) this(1) f'(2) this(2)]]
          conjunct2[OF run_step_moves[OF f'(1) this(1) f'(2) this(2)]]
        have "ev_correlation_id e = tid" using s'(1) by (auto simp: task_step_def split: if_splits)
        then have "s' = s" using task_step_inert[of e tid s] run_event_not_task mv(1) s'(1) by fastforce
        then have "L' = L\<lparr>lc_run := (lc_run L)(?rid \<mapsto> r')\<rparr>"
          using s(2,3) s'(2,3) other Some by (cases L; cases L') (auto simp: fun_eq_iff)
        then show ?thesis using lifecycle_step.run_move[OF old, of r' tid] mv(2) wf(1) by (simp add: run_of_task_def)
      next
        case new: None
        with run_step_first[OF f'(1) _ f'(2)] f(2)
        have cr: "ev_event_type e = ''run.created''" "r_status r' = R_QUEUED" by auto
        have fresh: "?rid \<notin> set (lc_run_ids L)" using new L(2) by (auto simp: lifecycle_ok_def entities_ok_def)
        have upd: "L' = L\<lparr>lc_run_ids := lc_run_ids L @ [?rid], lc_run := (lc_run L)(?rid \<mapsto> r')\<rparr>"
          using task_step_run_created[OF s'(1) s(2) cr(1)] s(3) s'(2,3) fresh wf(2) other Some
          by (cases L; cases L') (auto simp: append_new_def fun_eq_iff)
        show ?thesis by (rule new_run_step[OF L(2) L'(2) new upd cr(2)])
      qed
    qed
  qed
qed

end
