(* ===== verification/Repository_Properties.thy ===== *)
theory Repository_Properties
  imports Kernel_Demo
begin

text \<open>
  What the in-memory event repository promises to everyone who commits to it, read off the
  interpretations of the repository contract, and its error branches.
\<close>

lemma demo_fresh_commit:
  assumes "cmd = None \<or> cmd = Some demo_command"
  shows "\<exists>r'. commit demo_task 0 [demo_failure] cmd empty_repo =
    (Inr \<lparr>cm_applied = True, cm_revision = 1, cm_command = cmd\<rparr>, r')"
  using assms
  by (auto simp: commit_def commit_append_def empty_repo_def find_command_def read_events_def all_event_ids_def
      dict_set_def demo_failure_def demo_event_def)

section \<open>Properties\<close>

text \<open>A commit is atomic. It is applied exactly at the expected revision, appending all its events to its
stream and touching no other stream, or it changes no stream and no command record at all.\<close>

theorem commit_atomic:
  assumes "commit sid n es cmd r = (res, r')"
  shows "(\<exists>c. res = Inr c \<and> cm_applied c \<and> n = int (revision r sid) \<and> cm_revision c = revision r sid + length es \<and>
      read_events r' = (read_events r)(sid := read_events r sid @ es)) \<or>
    (\<nexists>c. res = Inr c \<and> cm_applied c) \<and> read_events r' = read_events r \<and> find_command r' = find_command r"
proof (cases "\<exists>c. res = Inr c \<and> cm_applied c")
  case True
  then obtain c where c: "res = Inr c" "cm_applied c" by blast
  with mem.put_applied[OF TrueI assms[unfolded c(1)]] show ?thesis by (simp add: revision_def)
next
  case False
  with mem.put_unapplied[OF TrueI assms] show ?thesis by simp
qed

theorem commit_atomic_witness:
  "read_events (snd (commit demo_task 0 [demo_failure] None empty_repo)) demo_task = [demo_failure]"
proof -
  obtain r' where "commit demo_task 0 [demo_failure] None empty_repo =
    (Inr \<lparr>cm_applied = True, cm_revision = 1, cm_command = None\<rparr>, r')" using demo_fresh_commit by blast
  with commit_atomic[OF this] show ?thesis by simp (simp add: read_events_def empty_repo_def)
qed

text \<open>C11: one of two competing commits wins. After a commit was applied at a revision, no later commit to the
stream at that revision is applied, whatever was committed in between.\<close>

theorem commit_one_winner:
  assumes "commit sid n es cmd r = (Inr res, r')" "cm_applied res" "mem.grows r' r''"
    and "commit sid n es' cmd' r'' = (Inr res', r''')"
  shows "\<not> cm_applied res'"
  using mem.one_winner[OF TrueI assms(1,2) TrueI assms(3,4)] .

theorem commit_one_winner_witness:
  "\<exists>res' r'''. commit demo_task 0 [demo_failure] (Some demo_command)
     (snd (commit demo_task 0 [demo_failure] (Some demo_command) empty_repo)) = (Inr res', r''') \<and> \<not> cm_applied res'"
proof -
  obtain r' where 1: "commit demo_task 0 [demo_failure] (Some demo_command) empty_repo =
    (Inr \<lparr>cm_applied = True, cm_revision = 1, cm_command = Some demo_command\<rparr>, r')"
    using demo_fresh_commit by blast
  have "find_command r' demo_task ''demo'' = Some demo_command"
    using mem.put_applied[OF TrueI 1] by (simp add: demo_command_def)
  then obtain res' where 2: "commit demo_task 0 [demo_failure] (Some demo_command) r' = (Inr res', r')"
    by (simp add: commit_def demo_command_def)
  from commit_one_winner[OF 1 _ mem.grows_refl 2] 1 2 show ?thesis by auto
qed

text \<open>C13: a command is applied once. After a commit with a command was applied, every later commit with the same
scope and key is answered with the recorded command and appends nothing, whatever its stream,
revision and events.\<close>

theorem commit_once_per_command:
  assumes "commit sid n es (Some c) r = (Inr res, r')" "cm_applied res" "mem.grows r' r''"
    and "commit sid' n' es' (Some c') r'' = (Inr res', r''')"
    and "cr_scope c' = cr_scope c" "cr_idempotency_key c' = cr_idempotency_key c"
  shows "\<not> cm_applied res' \<and> cm_command res' = Some c \<and> read_events r''' = read_events r''"
  using mem.command_once[OF TrueI assms(1,2) TrueI assms(3-6)] .

theorem commit_once_per_command_witness:
  "\<exists>res'. commit demo_task 7 [demo_failure] (Some demo_command)
     (snd (commit demo_task 0 [demo_failure] (Some demo_command) empty_repo)) =
       (Inr res', snd (commit demo_task 0 [demo_failure] (Some demo_command) empty_repo)) \<and>
     cm_command res' = Some demo_command"
proof -
  obtain r' where 1: "commit demo_task 0 [demo_failure] (Some demo_command) empty_repo =
    (Inr \<lparr>cm_applied = True, cm_revision = 1, cm_command = Some demo_command\<rparr>, r')"
    using demo_fresh_commit by blast
  have "find_command r' demo_task ''demo'' = Some demo_command"
    using mem.put_applied[OF TrueI 1] by (simp add: demo_command_def)
  then obtain res' where 2: "commit demo_task 7 [demo_failure] (Some demo_command) r' = (Inr res', r')"
    by (simp add: commit_def demo_command_def)
  from commit_once_per_command[OF 1 _ mem.grows_refl 2 refl refl] 1 2 show ?thesis by auto
qed

text \<open>Events stay unique. A repository whose streams hold every event once, each in the stream it is correlated
with, stays so under every commit.\<close>

theorem commit_keeps_events_unique:
  assumes "repo_wf r" "commit sid n es cmd r = (res, r')"
  shows "repo_wf r'"
  using assms by (rule mem_wf.put_ok)

theorem commit_keeps_events_unique_witness:
  "repo_wf (snd (commit demo_task 0 [demo_failure] None empty_repo))"
  using commit_keeps_events_unique[OF empty_repo_wf, of demo_task 0 "[demo_failure]" None]
  by (cases "commit demo_task 0 [demo_failure] None empty_repo") simp

text \<open>A stale commit is refused and says so. A commit at another revision than the stream's, and not a known
command, raises a retryable conflict that names both revisions, and appends nothing.\<close>

theorem stale_commit_refused:
  assumes "0 \<le> n" "es \<noteq> []" "n \<noteq> int (revision r sid)"
    and "case cmd of None \<Rightarrow> True | Some c \<Rightarrow> find_command r (cr_scope c) (cr_idempotency_key c) = None"
  shows "\<exists>r'. commit sid n es cmd r = (Inl (ContractError CONFLICT True
      [(''reason'', JStr ''stale_stream_revision''), (''expected_revision'', JInt n),
       (''actual_revision'', JInt (int (revision r sid)))]), r') \<and> read_events r' = read_events r"
  using assms
  by (auto simp: commit_def commit_append_def Let_def revision_def stale_revision_error_def split: option.splits)

theorem stale_commit_refused_witness:
  "\<exists>r'. commit demo_task 3 [demo_failure] None empty_repo = (Inl (ContractError CONFLICT True
      [(''reason'', JStr ''stale_stream_revision''), (''expected_revision'', JInt 3),
       (''actual_revision'', JInt (int (revision empty_repo demo_task)))]), r') \<and>
     read_events r' = read_events empty_repo"
  by (rule stale_commit_refused) (simp_all add: revision_def read_events_def empty_repo_def)

text \<open>A refused commit still registers its stream. Committing at a stale revision to a stream the repository
does not know leaves an empty stream behind that \<open>list_stream_ids\<close> then reports.\<close>

theorem refused_commit_registers_stream:
  assumes "sid \<notin> set (list_stream_ids r)" "0 < n" "es \<noteq> []"
  shows "sid \<in> set (list_stream_ids (snd (commit sid n es None r))) \<and>
    read_events (snd (commit sid n es None r)) sid = []"
proof -
  have "dict_get (mr_streams r) sid = None" using assms(1) by (simp add: list_stream_ids_def dict_get_None_iff)
  then show ?thesis
    using assms(2,3) by (simp add: commit_def commit_append_def Let_def read_events_def list_stream_ids_def keys_dict_set)
qed

theorem refused_commit_registers_stream_witness:
  "demo_task \<in> set (list_stream_ids (snd (commit demo_task 3 [demo_failure] None empty_repo)))"
  using refused_commit_registers_stream[of demo_task empty_repo 3 "[demo_failure]"]
  by (simp add: list_stream_ids_def empty_repo_def)

end
