(* ===== verification/Domain_Entities.thy ===== *)
theory Domain_Entities
  imports Domain_Models
begin

text \<open>
  The remaining entities of \<open>domain/models.py\<close>: what \<open>__post_init__\<close> of each one accepts, and the
  lifecycle moves of Approval and WorkerJob.
\<close>

section \<open>Entities\<close>

record goal =
  g_title :: string
  g_owner_ref :: owner_ref
  g_id :: string
  g_project_id :: "string option"
  g_description :: string
  g_created_at :: datetime
  g_updated_at :: datetime
  g_schema_version :: string
  g_provenance :: "provenance option"
  g_external_refs :: "external_ref list"

definition goal_post_init :: "goal \<Rightarrow> py_error + goal" where
  "goal_post_init x =
     sbind (validate_id (g_id x) ''goal'') (\<lambda>_.
     sbind (validate_optional_id (g_project_id x) ''project'') (\<lambda>_.
     Inr x))"

record project =
  pj_name :: string
  pj_owner_ref :: owner_ref
  pj_id :: string
  pj_created_at :: datetime
  pj_updated_at :: datetime
  pj_schema_version :: string
  pj_provenance :: "provenance option"
  pj_external_refs :: "external_ref list"

definition project_post_init :: "project \<Rightarrow> py_error + project" where
  "project_post_init x =
     sbind (validate_id (pj_id x) ''project'') (\<lambda>_.
     Inr x)"

record agent =
  ag_name :: string
  ag_owner_ref :: owner_ref
  ag_id :: string
  ag_role :: string
  ag_capability_ids :: "string list"
  ag_project_id :: "string option"
  ag_model_assignment_id :: "string option"
  ag_policy_requirements :: "json dict"
  ag_created_at :: datetime
  ag_updated_at :: datetime
  ag_schema_version :: string
  ag_provenance :: "provenance option"
  ag_external_refs :: "external_ref list"

definition agent_post_init :: "agent \<Rightarrow> py_error + agent" where
  "agent_post_init x =
     sbind (validate_id (ag_id x) ''agent'') (\<lambda>_.
     sbind (validate_ids (ag_capability_ids x) ''cap'') (\<lambda>_.
     sbind (validate_optional_id (ag_project_id x) ''project'') (\<lambda>_.
     sbind (validate_optional_id (ag_model_assignment_id x) ''model_assignment'') (\<lambda>_.
     Inr (x\<lparr>ag_policy_requirements := freeze_mapping (ag_policy_requirements x)\<rparr>)))))"

record agent_team =
  at_name :: string
  at_owner_ref :: owner_ref
  at_agent_ids :: "string list"
  at_id :: string
  at_coordination_metadata :: "json dict"
  at_project_id :: "string option"
  at_created_at :: datetime
  at_updated_at :: datetime
  at_schema_version :: string
  at_provenance :: "provenance option"
  at_external_refs :: "external_ref list"

definition agent_team_post_init :: "agent_team \<Rightarrow> py_error + agent_team" where
  "agent_team_post_init x =
     sbind (validate_id (at_id x) ''team'') (\<lambda>_.
     sbind (validate_ids (at_agent_ids x) ''agent'') (\<lambda>_.
     sbind (validate_optional_id (at_project_id x) ''project'') (\<lambda>_.
     Inr (x\<lparr>at_coordination_metadata := freeze_mapping (at_coordination_metadata x)\<rparr>))))"

record artifact =
  af_name :: string
  af_owner_ref :: owner_ref
  af_id :: string
  af_media_type :: string
  af_uri :: "string option"
  af_version :: "string option"
  af_project_id :: "string option"
  af_created_at :: datetime
  af_schema_version :: string
  af_provenance :: "provenance option"
  af_external_refs :: "external_ref list"

definition artifact_post_init :: "artifact \<Rightarrow> py_error + artifact" where
  "artifact_post_init x =
     sbind (validate_id (af_id x) ''artifact'') (\<lambda>_.
     sbind (validate_optional_id (af_project_id x) ''project'') (\<lambda>_.
     Inr x))"

record result_entity =
  rs_subject_type :: string
  rs_subject_id :: string
  rs_owner_ref :: owner_ref
  rs_id :: string
  rs_outcome :: string
  rs_status_data :: "json dict"
  rs_artifact_ids :: "string list"
  rs_project_id :: "string option"
  rs_created_at :: datetime
  rs_schema_version :: string
  rs_provenance :: "provenance option"
  rs_external_refs :: "external_ref list"

definition result_entity_post_init :: "result_entity \<Rightarrow> py_error + result_entity" where
  "result_entity_post_init x =
     sbind (validate_id (rs_id x) ''result'') (\<lambda>_.
     sbind (validate_subject_id (rs_subject_type x) (rs_subject_id x)) (\<lambda>_.
     sbind (validate_ids (rs_artifact_ids x) ''artifact'') (\<lambda>_.
     sbind (validate_optional_id (rs_project_id x) ''project'') (\<lambda>_.
     Inr (x\<lparr>rs_status_data := freeze_mapping (rs_status_data x)\<rparr>)))))"

record approval =
  ap_subject_type :: string
  ap_subject_id :: string
  ap_owner_ref :: owner_ref
  ap_id :: string
  ap_status :: approval_status
  ap_reason :: string
  ap_decision_by :: "owner_ref option"
  ap_project_id :: "string option"
  ap_created_at :: datetime
  ap_updated_at :: datetime
  ap_schema_version :: string
  ap_provenance :: "provenance option"
  ap_external_refs :: "external_ref list"

definition approval_post_init :: "approval \<Rightarrow> py_error + approval" where
  "approval_post_init x =
     sbind (validate_id (ap_id x) ''approval'') (\<lambda>_.
     sbind (validate_subject_id (ap_subject_type x) (ap_subject_id x)) (\<lambda>_.
     sbind (validate_optional_id (ap_project_id x) ''project'') (\<lambda>_.
     Inr x)))"

record capability =
  cp_name :: string
  cp_id :: string
  cp_description :: string
  cp_attributes :: "json dict"
  cp_owner_ref :: "owner_ref option"
  cp_project_id :: "string option"
  cp_created_at :: datetime
  cp_updated_at :: datetime
  cp_schema_version :: string
  cp_provenance :: "provenance option"
  cp_external_refs :: "external_ref list"

definition capability_post_init :: "capability \<Rightarrow> py_error + capability" where
  "capability_post_init x =
     sbind (validate_id (cp_id x) ''cap'') (\<lambda>_.
     sbind (validate_optional_id (cp_project_id x) ''project'') (\<lambda>_.
     Inr (x\<lparr>cp_attributes := freeze_mapping (cp_attributes x)\<rparr>)))"

record policy_scope =
  ps_name :: string
  ps_owner_ref :: owner_ref
  ps_id :: string
  ps_criteria :: "json dict"
  ps_project_id :: "string option"
  ps_created_at :: datetime
  ps_updated_at :: datetime
  ps_schema_version :: string
  ps_provenance :: "provenance option"
  ps_external_refs :: "external_ref list"

definition policy_scope_post_init :: "policy_scope \<Rightarrow> py_error + policy_scope" where
  "policy_scope_post_init x =
     sbind (validate_id (ps_id x) ''policy_scope'') (\<lambda>_.
     sbind (validate_optional_id (ps_project_id x) ''project'') (\<lambda>_.
     Inr (x\<lparr>ps_criteria := freeze_mapping (ps_criteria x)\<rparr>)))"

record tool =
  tl_name :: string
  tl_owner_ref :: owner_ref
  tl_id :: string
  tl_capability_ids :: "string list"
  tl_project_id :: "string option"
  tl_created_at :: datetime
  tl_updated_at :: datetime
  tl_schema_version :: string
  tl_provenance :: "provenance option"
  tl_external_refs :: "external_ref list"

definition tool_post_init :: "tool \<Rightarrow> py_error + tool" where
  "tool_post_init x =
     sbind (validate_id (tl_id x) ''tool'') (\<lambda>_.
     sbind (validate_ids (tl_capability_ids x) ''cap'') (\<lambda>_.
     sbind (validate_optional_id (tl_project_id x) ''project'') (\<lambda>_.
     Inr x)))"

record tool_invocation =
  ti_tool_id :: string
  ti_owner_ref :: owner_ref
  ti_id :: string
  ti_project_id :: "string option"
  ti_correlation_id :: "string option"
  ti_causation_id :: "string option"
  ti_trace_id :: "string option"
  ti_created_at :: datetime
  ti_schema_version :: string
  ti_provenance :: "provenance option"
  ti_external_refs :: "external_ref list"

definition tool_invocation_post_init :: "tool_invocation \<Rightarrow> py_error + tool_invocation" where
  "tool_invocation_post_init x =
     sbind (validate_id (ti_id x) ''tool_invocation'') (\<lambda>_.
     sbind (validate_id (ti_tool_id x) ''tool'') (\<lambda>_.
     sbind (validate_optional_id (ti_project_id x) ''project'') (\<lambda>_.
     Inr x)))"

record model_assignment =
  ma_subject_type :: string
  ma_subject_id :: string
  ma_owner_ref :: owner_ref
  ma_requirements :: "json dict"
  ma_id :: string
  ma_provider_ref :: "string option"
  ma_revision :: int
  ma_project_id :: "string option"
  ma_created_at :: datetime
  ma_schema_version :: string
  ma_provenance :: "provenance option"
  ma_external_refs :: "external_ref list"

definition model_assignment_post_init :: "model_assignment \<Rightarrow> py_error + model_assignment" where
  "model_assignment_post_init x =
     sbind (validate_id (ma_id x) ''model_assignment'') (\<lambda>_.
     sbind (if ma_subject_type x = ''policy'' then validate_id (ma_subject_id x) ''policy_scope''
       else validate_subject_id (ma_subject_type x) (ma_subject_id x)) (\<lambda>_.
     sbind (validate_optional_id (ma_project_id x) ''project'') (\<lambda>_.
     sbind (guard (1 \<le> ma_revision x) ValueError) (\<lambda>_.
     Inr (x\<lparr>ma_requirements := freeze_mapping (ma_requirements x)\<rparr>)))))"

record node =
  nd_name :: string
  nd_owner_ref :: owner_ref
  nd_id :: string
  nd_capability_ids :: "string list"
  nd_project_id :: "string option"
  nd_metadata :: "json dict"
  nd_created_at :: datetime
  nd_updated_at :: datetime
  nd_schema_version :: string
  nd_provenance :: "provenance option"
  nd_external_refs :: "external_ref list"

definition node_post_init :: "node \<Rightarrow> py_error + node" where
  "node_post_init x =
     sbind (validate_id (nd_id x) ''node'') (\<lambda>_.
     sbind (validate_ids (nd_capability_ids x) ''cap'') (\<lambda>_.
     sbind (validate_optional_id (nd_project_id x) ''project'') (\<lambda>_.
     Inr (x\<lparr>nd_metadata := freeze_mapping (nd_metadata x)\<rparr>))))"

record worker =
  wk_node_id :: string
  wk_name :: string
  wk_owner_ref :: owner_ref
  wk_id :: string
  wk_capability_ids :: "string list"
  wk_available :: bool
  wk_project_id :: "string option"
  wk_created_at :: datetime
  wk_updated_at :: datetime
  wk_schema_version :: string
  wk_provenance :: "provenance option"
  wk_external_refs :: "external_ref list"

definition worker_post_init :: "worker \<Rightarrow> py_error + worker" where
  "worker_post_init x =
     sbind (validate_id (wk_id x) ''worker'') (\<lambda>_.
     sbind (validate_id (wk_node_id x) ''node'') (\<lambda>_.
     sbind (validate_ids (wk_capability_ids x) ''cap'') (\<lambda>_.
     sbind (validate_optional_id (wk_project_id x) ''project'') (\<lambda>_.
     Inr x))))"

record worker_job =
  wj_run_id :: string
  wj_worker_id :: string
  wj_owner_ref :: owner_ref
  wj_id :: string
  wj_status :: worker_job_status
  wj_project_id :: "string option"
  wj_correlation_id :: "string option"
  wj_causation_id :: "string option"
  wj_trace_id :: "string option"
  wj_created_at :: datetime
  wj_updated_at :: datetime
  wj_started_at :: "datetime option"
  wj_finished_at :: "datetime option"
  wj_schema_version :: string
  wj_provenance :: "provenance option"
  wj_external_refs :: "external_ref list"

definition worker_job_post_init :: "worker_job \<Rightarrow> py_error + worker_job" where
  "worker_job_post_init x =
     sbind (validate_id (wj_id x) ''worker_job'') (\<lambda>_.
     sbind (validate_id (wj_run_id x) ''run'') (\<lambda>_.
     sbind (validate_id (wj_worker_id x) ''worker'') (\<lambda>_.
     sbind (validate_optional_id (wj_project_id x) ''project'') (\<lambda>_.
     Inr x))))"

section \<open>Lifecycle moves\<close>

definition approval_transition_to :: "datetime \<Rightarrow> approval \<Rightarrow> approval_status \<Rightarrow> py_error + approval" where
  "approval_transition_to now x target =
     sbind (require_transition (ap_status x) target APPROVAL_TRANSITIONS) (\<lambda>_.
     approval_post_init (x\<lparr>ap_status := target, ap_updated_at := now\<rparr>))"

definition worker_job_transition_to ::
  "datetime \<Rightarrow> worker_job \<Rightarrow> worker_job_status \<Rightarrow> py_error + worker_job" where
  "worker_job_transition_to now x target =
     sbind (require_transition (wj_status x) target WORKER_JOB_TRANSITIONS) (\<lambda>_.
     worker_job_post_init (x\<lparr>wj_status := target, wj_updated_at := now,
       wj_started_at := (if target = W_RUNNING \<and> wj_started_at x = None then Some now else wj_started_at x),
       wj_finished_at := (if target \<in> {W_SUCCEEDED, W_FAILED, W_CANCELLED, W_TIMED_OUT}
          then Some now else wj_finished_at x)\<rparr>))"

end
