(* ===== verification/Data_Properties.thy ===== *)
theory Data_Properties
  imports Kernel_Demo Domain_Entities
begin

text \<open>
  Properties of the values that cross the kernel's boundaries: identifiers, frozen JSON, provider
  responses, entities, planning metadata, and what an output observer is shown.
\<close>

text \<open>Identifiers are exactly prefixed canonical UUIDs. \<open>validate_id\<close> accepts a text iff it is the prefix, an
underscore and the hyphenated form of 32 hexadecimal digits, and returns it unchanged.\<close>

theorem canonical_id_exact:
  "validate_id v p = Inr r \<longleftrightarrow>
     r = v \<and> (\<exists>h. length h = 32 \<and> list_all hex_digit h \<and> v = p @ ''_'' @ uuid_str h)"
  by (rule validate_id_iff)

text \<open>Freezing JSON loses nothing. Thawing a frozen provider value gives the value back.\<close>

theorem json_round_trip:
  assumes "json_value v"
  shows "thaw_json (freeze_json v) = v"
  using assms by (simp add: thaw_freeze_json thaw_json_value)

theorem json_round_trip_witness:
  "thaw_json (freeze_json (JObj [(''a'', JList [JInt 1, JNull])])) = JObj [(''a'', JList [JInt 1, JNull])]"
  by (rule json_round_trip) simp

text \<open>A plan response is accepted iff its dependency keys resolve: a summary that is not blank, distinct step
keys, and dependencies among those keys.\<close>

theorem plan_response_exact:
  "plan_response_post_init x = Inr y \<longleftrightarrow> y = x \<and> \<not> py_blank (pr_summary x) \<and>
     distinct (map ps_key (pr_steps x)) \<and>
     list_all (\<lambda>s. list_all (\<lambda>d. d \<in> ps_key ` set (pr_steps x)) (ps_depends_on s)) (pr_steps x)"
  by (auto simp: plan_response_post_init_Inr list_all_iff subset_iff)



text \<open>The terminal statuses are the final ones. A run status has no successor iff the kernel treats it as
terminal; a task status has none iff it is succeeded or cancelled.\<close>

theorem terminal_statuses_exact:
  "(RUN_TRANSITIONS s = {} \<longleftrightarrow> s \<in> TERMINAL_RUN_STATUSES) \<and>
   (TASK_TRANSITIONS t = {} \<longleftrightarrow> t \<in> {T_SUCCEEDED, T_CANCELLED})"
  by (cases s; cases t) (simp_all add: TERMINAL_RUN_STATUSES_def)

text \<open>A planning update changes planning only. A task event with nothing but \<open>task_management\<close> metadata keeps
title, objective, status, project and every other metadata namespace, and replaces its own.\<close>

theorem planning_update_scope:
  assumes "task_updated t e = Inr t'" "metadata_only pm e"
  shows "t_title t' = t_title t \<and> t_description t' = t_description t \<and> t_status t' = t_status t \<and>
    t_project_id t' = t_project_id t \<and>
    dict_get (t_metadata t') ''task_management'' = Some (deep_freeze (JObj pm)) \<and>
    (\<forall>k. k \<noteq> ''task_management'' \<longrightarrow>
       dict_get (t_metadata t') k = map_option deep_freeze (dict_get (t_metadata t) k))"
  using assms by (rule planning_event_effect)

definition demo_planning :: event where
  "demo_planning = demo_event ''task.updated'' ''task'' demo_task
     [(''metadata'', JObj [(''task_management'', JObj [(''archived'', JBool True)])])] 26"

theorem planning_update_scope_witness:
  "\<exists>t'. task_updated (ts_task (demo_ts demo_history)) demo_planning = Inr t' \<and> t_title t' = t_title (ts_task (demo_ts demo_history))"
proof -
  have "metadata_only [(''archived'', JBool True)] demo_planning"
    by (simp add: metadata_only_def demo_planning_def demo_event_def payload_get_def)
  moreover have "\<exists>t'. task_updated (ts_task (demo_ts demo_history)) demo_planning = Inr t'"
    using demo_reduced(3)[OF demo_in(2)]
    by (auto simp: task_updated_def demo_planning_def demo_event_def merge_metadata_def task_post_init_def task_wf_iff)
  ultimately show ?thesis using planning_update_scope by blast
qed

text \<open>A repeated planning update is recognised. The caller's JSON is equivalent to the frozen value of the stored
event, and equivalence is symmetric, so a retry with the same metadata is never taken for a
different update.\<close>

theorem frozen_json_equivalent:
  assumes "json_wf v" "json_wf w"
  shows "json_equivalent (deep_freeze v) v \<and> (json_equivalent v w \<longleftrightarrow> json_equivalent w v) \<and>
    (json_equivalent (deep_freeze v) w \<longleftrightarrow> json_equivalent v w)"
  using assms json_equivalent_refl json_equivalent_sym by (auto simp: json_equivalent_freeze_left)

theorem frozen_json_equivalent_witness:
  "json_equivalent (JObj [(''labels'', JTuple [JStr ''a'']), (''n'', JInt 1)]) (JObj [(''labels'', JList [JStr ''a'']), (''n'', JInt 1)])"
  using frozen_json_equivalent[of "JObj [(''labels'', JList [JStr ''a'']), (''n'', JInt 1)]" JNull] by simp

text \<open>An observer is shown persisted events only. The event that the observing kernel passes on is in the task's
stream, is the attachment the caller's key caused, and names the requested output and subject.\<close>

theorem observed_event_persisted:
  assumes "rely env N" "kernel_inv env N w"
    and "canonical_attachment_event env tid key ty k x run_id w = (Inr e, w')"
  shows "e \<in> set (stream w' tid) \<and> attachment_of tid key ty k x run_id e"
  using rd.safeD(3)[OF rsafe_canonical_attachment_event[OF assms(1)] assms(2) TrueI assms(3) refl] .

theorem observed_event_persisted_witness: "demo_attachment \<in> set (stream (demo_world demo_closed) demo_task)"
proof -
  have "filter (\<lambda>e. ev_event_type e = ''result.attached'' \<and> ev_causation_id e = Some ''demo'') demo_closed = [demo_attachment]"
    by (simp add: demo_closed_def demo_attachment_def demo_history_def demo_prefix_def demo_failure_def demo_event_def)
  then have "check_attachment demo_task ''demo'' ''result.attached'' ''result_id'' demo_result None demo_closed = Inr demo_attachment"
    by (simp add: check_attachment_Inr attachment_of_def expected_subject_def payload_get_def demo_attachment_def demo_event_def)
  then have "canonical_attachment_event fake_env demo_task ''demo'' ''result.attached'' ''result_id'' demo_result None
      (demo_world demo_closed) = (Inr demo_attachment, demo_world demo_closed)"
    using demo_ids(1) demo_stream[of demo_closed demo_task, unfolded stream_def]
    by (simp add: canonical_attachment_event_def history_def repo_read_def gets_def await_def ret_def pure_def)
  from observed_event_persisted[OF rely_fake_env demo_world_inv[OF demo_in(3)] this] show ?thesis by simp
qed

text \<open>An observer is never silently replaced. Configuring succeeds iff the observer satisfies the protocol and no
other one is bound; then it is the bound one.\<close>

theorem observer_bound_once:
  "configure_output_attachment_observer satisfies current observer = Inr bound \<longleftrightarrow>
     satisfies \<and> (current = None \<or> current = Some observer) \<and> bound = Some observer"
  by (auto simp: configure_output_attachment_observer_def)

end
