(* ===== verification/Verification_Models.thy ===== *)
theory Verification_Models
  imports Contracts
begin

text \<open>
  The runtime verification records of \<open>verification/models.py\<close> and \<open>verification/audit.py\<close> with what
  their \<open>__post_init__\<close> accepts. A \<open>datetime\<close> is an aware instant here, so the awareness checks
  always pass. Seconds given as \<open>float\<close> are rationals; \<open>timedelta\<close> rounds them to microseconds,
  ties to even.
\<close>

section \<open>Python helpers\<close>

definition require_nonblank :: "string \<Rightarrow> py_error + unit" where
  "require_nonblank s = guard (\<not> py_blank s) ValueError"

definition optional_nonblank :: "string option \<Rightarrow> py_error + unit" where
  "optional_nonblank v = (case v of None \<Rightarrow> Inr () | Some s \<Rightarrow> require_nonblank s)"

definition require_all_nonblank :: "string list \<Rightarrow> py_error + unit" where
  "require_all_nonblank xs = sbind (smap require_nonblank xs) (\<lambda>_. Inr ())"

definition timedelta_us :: "rat \<Rightarrow> int" where
  \<comment> \<open>\<open>timedelta(seconds=s)\<close> in microseconds\<close>
  "timedelta_us s =
     (let x = s * 1000000; f = \<lfloor>x\<rfloor>; d = x - of_int f
      in if d < 1/2 \<or> d = 1/2 \<and> even f then f else f + 1)"

lemma require_nonblank_Inr [simp]: "require_nonblank s = Inr u \<longleftrightarrow> \<not> py_blank s"
  by (simp add: require_nonblank_def)

lemma find_SomeD: "find P xs = Some x \<Longrightarrow> x \<in> set xs \<and> P x"
  by (auto simp: find_Some_iff)

lemma list_all2_right: "list_all2 P xs ys \<Longrightarrow> y \<in> set ys \<Longrightarrow> \<exists>x \<in> set xs. P x y"
  by (induction rule: list_all2_induct) auto

section \<open>Enumerations\<close>

datatype verifier_kind = VK_DETERMINISTIC | VK_HUMAN | VK_AGENT | VK_PROVIDER

datatype verification_outcome = O_PASS | O_FAIL | O_NEEDS_CHANGES | O_INCONCLUSIVE

datatype verification_request_status = VR_PENDING | VR_COMPLETED | VR_EXPIRED | VR_CANCELLED

datatype verification_failure_policy = FP_FAIL | FP_ESCALATE | FP_WAIT

datatype risk_classification = RISK_STANDARD | RISK_ELEVATED | RISK_HIGH | RISK_CRITICAL

section \<open>Policies\<close>

record verification_scope =
  sc_task_ids :: "string list"
  sc_project_ids :: "string list"
  sc_agent_ids :: "string list"
  sc_capability_ids :: "string list"

definition verification_scope_post_init :: "verification_scope \<Rightarrow> py_error + verification_scope" where
  "verification_scope_post_init x =
     sbind (validate_ids (sc_task_ids x) ''task'') (\<lambda>_.
     sbind (validate_ids (sc_project_ids x) ''project'') (\<lambda>_.
     sbind (validate_ids (sc_agent_ids x) ''agent'') (\<lambda>_.
     sbind (require_all_nonblank (sc_capability_ids x)) (\<lambda>_.
     sbind (guard (distinct (sc_task_ids x)) ValueError) (\<lambda>_.
     sbind (guard (distinct (sc_project_ids x)) ValueError) (\<lambda>_.
     sbind (guard (distinct (sc_agent_ids x)) ValueError) (\<lambda>_.
     sbind (guard (distinct (sc_capability_ids x)) ValueError) (\<lambda>_. Inr x))))))))"

record reviewer_independence =
  ri_producer_agent_must_differ :: bool
  ri_model_must_differ :: bool
  ri_provider_must_differ :: bool
  ri_agent_reviewer_must_be_read_only :: bool
  ri_human_reviewer_must_differ :: bool
  ri_forbid_self_verification :: bool
  ri_forbid_self_verification_risk_classes :: "risk_classification list"
  ri_require_distinct_verifiers :: bool

definition reviewer_independence_post_init :: "reviewer_independence \<Rightarrow> py_error + reviewer_independence" where
  "reviewer_independence_post_init x =
     sbind (guard (distinct (ri_forbid_self_verification_risk_classes x)) ValueError) (\<lambda>_. Inr x)"

record verification_stage =
  sg_stage_id :: string
  sg_verifier_kind :: verifier_kind
  sg_minimum_results :: int
  sg_accepted_outcomes :: "verification_outcome list"
  sg_capability_ref :: "string option"
  sg_critical :: bool

definition verification_stage_post_init :: "verification_stage \<Rightarrow> py_error + verification_stage" where
  "verification_stage_post_init x =
     sbind (require_nonblank (sg_stage_id x)) (\<lambda>_.
     sbind (guard (1 \<le> sg_minimum_results x) ValueError) (\<lambda>_.
     sbind (guard (sg_accepted_outcomes x \<noteq> []) ValueError) (\<lambda>_.
     sbind (guard (distinct (sg_accepted_outcomes x)) ValueError) (\<lambda>_.
     sbind (optional_nonblank (sg_capability_ref x)) (\<lambda>_. Inr x)))))"

record verification_policy =
  vp_name :: string
  vp_stages :: "verification_stage list"
  vp_policy_id :: string
  vp_version :: int
  vp_scope :: verification_scope
  vp_independence :: reviewer_independence
  vp_risk_classification :: risk_classification
  vp_max_repair_attempts :: int
  vp_request_timeout_seconds :: "rat option"
  vp_result_expiry_seconds :: "rat option"
  vp_failure_policy :: verification_failure_policy
  vp_timeout_failure_policy :: verification_failure_policy
  vp_creator_ref :: "string option"
  vp_created_at :: datetime
  vp_provenance :: "provenance option"
  vp_metadata :: "json dict"

definition verification_policy_post_init :: "verification_policy \<Rightarrow> py_error + verification_policy" where
  "verification_policy_post_init x =
     sbind (validate_id (vp_policy_id x) ''verification_policy'') (\<lambda>_.
     sbind (require_nonblank (vp_name x)) (\<lambda>_.
     sbind (guard (1 \<le> vp_version x) ValueError) (\<lambda>_.
     sbind (guard (distinct (map sg_stage_id (vp_stages x))) ValueError) (\<lambda>_.
     sbind (guard (0 \<le> vp_max_repair_attempts x) ValueError) (\<lambda>_.
     sbind (guard (\<forall>s \<in> set_option (vp_request_timeout_seconds x). 0 < s) ValueError) (\<lambda>_.
     sbind (guard (\<forall>s \<in> set_option (vp_result_expiry_seconds x). 0 < s) ValueError) (\<lambda>_.
     sbind (optional_nonblank (vp_creator_ref x)) (\<lambda>_. Inr x))))))))"

definition policy_stage :: "verification_policy \<Rightarrow> string \<Rightarrow> py_error + verification_stage" where
  \<comment> \<open>\<open>VerificationPolicy.stage\<close>\<close>
  "policy_stage policy stage_id =
     (case find (\<lambda>s. sg_stage_id s = stage_id) (vp_stages policy) of
        None \<Rightarrow> Inl KeyError | Some s \<Rightarrow> Inr s)"

section \<open>Producers and verifiers\<close>

record producer_identity =
  pi_actor_ref :: string
  pi_agent_id :: "string option"
  pi_agent_revision :: "int option"
  pi_model_config_id :: "string option"
  pi_provider_id :: "string option"

definition producer_identity_post_init :: "producer_identity \<Rightarrow> py_error + producer_identity" where
  "producer_identity_post_init x =
     sbind (require_nonblank (pi_actor_ref x)) (\<lambda>_.
     sbind (case pi_agent_id x of
              Some a \<Rightarrow> sbind (validate_id a ''agent'') (\<lambda>_.
                 guard (case pi_agent_revision x of None \<Rightarrow> False | Some r \<Rightarrow> 1 \<le> r) ValueError)
            | None \<Rightarrow> guard (pi_agent_revision x = None) ValueError) (\<lambda>_.
     sbind (optional_nonblank (pi_model_config_id x)) (\<lambda>_.
     sbind (optional_nonblank (pi_provider_id x)) (\<lambda>_. Inr x))))"

record verifier_identity =
  vi_verifier_ref :: string
  vi_kind :: verifier_kind
  vi_agent_id :: "string option"
  vi_agent_revision :: "int option"
  vi_model_config_id :: "string option"
  vi_provider_id :: "string option"
  vi_read_only :: bool

definition verifier_identity_post_init :: "verifier_identity \<Rightarrow> py_error + verifier_identity" where
  "verifier_identity_post_init x =
     sbind (require_nonblank (vi_verifier_ref x)) (\<lambda>_.
     sbind (if vi_kind x = VK_AGENT
            then case (vi_agent_id x, vi_agent_revision x) of
                (Some a, Some r) \<Rightarrow> sbind (validate_id a ''agent'') (\<lambda>_. guard (1 \<le> r) ValueError)
              | _ \<Rightarrow> Inl ValueError
            else guard (vi_agent_id x = None \<and> vi_agent_revision x = None) ValueError) (\<lambda>_.
     sbind (optional_nonblank (vi_model_config_id x)) (\<lambda>_.
     sbind (optional_nonblank (vi_provider_id x)) (\<lambda>_. Inr x))))"

section \<open>Requests and results\<close>

record verification_request =
  vr_task_id :: string
  vr_policy_id :: string
  vr_policy_version :: int
  vr_stage_id :: string
  vr_subject :: verification_subject
  vr_requested_verifier_kind :: verifier_kind
  vr_correlation_id :: string
  vr_verification_id :: string
  vr_run_id :: "string option"
  vr_result_id :: "string option"
  vr_artifact_ids :: "string list"
  vr_project_id :: "string option"
  vr_capability_ids :: "string list"
  vr_requested_capability_ref :: "string option"
  vr_producer :: "producer_identity option"
  vr_repair_attempt :: int
  vr_status :: verification_request_status
  vr_created_at :: datetime
  vr_expires_at :: "datetime option"
  vr_causation_id :: "string option"

definition verification_request_post_init :: "verification_request \<Rightarrow> py_error + verification_request" where
  "verification_request_post_init x =
     sbind (validate_id (vr_verification_id x) ''verification'') (\<lambda>_.
     sbind (validate_id (vr_task_id x) ''task'') (\<lambda>_.
     sbind (validate_id (vr_policy_id x) ''verification_policy'') (\<lambda>_.
     sbind (validate_optional_id (vr_run_id x) ''run'') (\<lambda>_.
     sbind (validate_optional_id (vr_result_id x) ''result'') (\<lambda>_.
     sbind (validate_optional_id (vr_project_id x) ''project'') (\<lambda>_.
     sbind (require_all_nonblank (vr_capability_ids x)) (\<lambda>_.
     sbind (guard (distinct (vr_capability_ids x)) ValueError) (\<lambda>_.
     sbind (validate_ids (vr_artifact_ids x) ''artifact'') (\<lambda>_.
     sbind (guard (distinct (vr_artifact_ids x)) ValueError) (\<lambda>_.
     sbind (guard (1 \<le> vr_policy_version x) ValueError) (\<lambda>_.
     sbind (require_nonblank (vr_stage_id x)) (\<lambda>_.
     sbind (require_nonblank (vr_correlation_id x)) (\<lambda>_.
     sbind (optional_nonblank (vr_requested_capability_ref x)) (\<lambda>_.
     sbind (guard (0 \<le> vr_repair_attempt x) ValueError) (\<lambda>_.
     sbind (guard (\<forall>t \<in> set_option (vr_expires_at x). vr_created_at x < t) ValueError) (\<lambda>_.
     sbind (guard (vs_subject_type (vr_subject x) = ''result'' \<longrightarrow>
                   vr_result_id x = Some (vs_subject_id (vr_subject x))) ValueError) (\<lambda>_.
     sbind (guard (vs_subject_type (vr_subject x) = ''artifact'' \<longrightarrow>
                   vs_subject_id (vr_subject x) \<in> set (vr_artifact_ids x)) ValueError) (\<lambda>_.
     Inr x))))))))))))))))))"

record verification_finding =
  vf_code :: string
  vf_message :: string
  vf_severity :: string
  vf_location_ref :: "string option"

definition verification_finding_post_init :: "verification_finding \<Rightarrow> py_error + verification_finding" where
  "verification_finding_post_init x =
     sbind (require_nonblank (vf_code x)) (\<lambda>_.
     sbind (require_nonblank (vf_message x)) (\<lambda>_.
     sbind (require_nonblank (vf_severity x)) (\<lambda>_.
     sbind (optional_nonblank (vf_location_ref x)) (\<lambda>_. Inr x))))"

record verification_error =
  ve_code :: string
  ve_message :: string
  ve_retryable :: bool

definition verification_error_post_init :: "verification_error \<Rightarrow> py_error + verification_error" where
  "verification_error_post_init x =
     sbind (require_nonblank (ve_code x)) (\<lambda>_.
     sbind (require_nonblank (ve_message x)) (\<lambda>_. Inr x))"

record verification_result =
  vx_verification_id :: string
  vx_verifier :: verifier_identity
  vx_outcome :: verification_outcome
  vx_subject :: verification_subject
  vx_verification_result_id :: string
  vx_findings :: "verification_finding list"
  vx_evidence_artifact_ids :: "string list"
  vx_evidence_bindings :: "verification_subject list"
  vx_checks_executed :: "string list"
  vx_errors :: "verification_error list"
  vx_started_at :: datetime
  vx_completed_at :: datetime
  vx_metadata :: "json dict"

definition validate_evidence_binding :: "string list \<Rightarrow> verification_subject \<Rightarrow> py_error + string" where
  "validate_evidence_binding evidence_artifact_ids binding =
     (if vs_subject_type binding \<noteq> ''artifact'' then Inl ValueError
      else if vs_subject_id binding \<notin> set evidence_artifact_ids then Inl ValueError
      else Inr (vs_subject_id binding))"

definition verification_result_post_init :: "verification_result \<Rightarrow> py_error + verification_result" where
  "verification_result_post_init x =
     sbind (validate_id (vx_verification_result_id x) ''verification_result'') (\<lambda>_.
     sbind (validate_id (vx_verification_id x) ''verification'') (\<lambda>_.
     sbind (validate_ids (vx_evidence_artifact_ids x) ''artifact'') (\<lambda>_.
     sbind (guard (distinct (vx_evidence_artifact_ids x)) ValueError) (\<lambda>_.
     sbind (smap (validate_evidence_binding (vx_evidence_artifact_ids x)) (vx_evidence_bindings x)) (\<lambda>binding_ids.
     sbind (guard (distinct binding_ids) ValueError) (\<lambda>_.
     sbind (guard (binding_ids = [] \<or> binding_ids = vx_evidence_artifact_ids x) ValueError) (\<lambda>_.
     sbind (require_all_nonblank (vx_checks_executed x)) (\<lambda>_.
     sbind (guard (distinct (vx_checks_executed x)) ValueError) (\<lambda>_.
     sbind (guard (vx_started_at x \<le> vx_completed_at x) ValueError) (\<lambda>_. Inr x))))))))))"

definition evidence_bindings_complete :: "verification_result \<Rightarrow> bool" where
  "evidence_bindings_complete x \<longleftrightarrow>
     length (vx_evidence_bindings x) = length (vx_evidence_artifact_ids x) \<and>
     map vs_subject_id (vx_evidence_bindings x) = vx_evidence_artifact_ids x"

record completion_assessment =
  as_task_id :: string
  as_subject :: verification_subject
  as_state :: completion_state
  as_reason :: string
  as_policy_id :: "string option"
  as_policy_version :: "int option"
  as_blocking_verification_ids :: "string list"
  as_repair_attempts_remaining :: int

definition completion_assessment_post_init :: "completion_assessment \<Rightarrow> py_error + completion_assessment" where
  "completion_assessment_post_init x =
     sbind (validate_id (as_task_id x) ''task'') (\<lambda>_.
     sbind (require_nonblank (as_reason x)) (\<lambda>_.
     sbind (case as_policy_id x of
              Some p \<Rightarrow> sbind (validate_id p ''verification_policy'') (\<lambda>_.
                 guard (case as_policy_version x of None \<Rightarrow> False | Some v \<Rightarrow> 1 \<le> v) ValueError)
            | None \<Rightarrow> guard (as_policy_version x = None) ValueError) (\<lambda>_.
     sbind (validate_ids (as_blocking_verification_ids x) ''verification'') (\<lambda>_.
     sbind (guard (0 \<le> as_repair_attempts_remaining x) ValueError) (\<lambda>_. Inr x)))))"

section \<open>Audit events\<close>

datatype verification_audit_event_type =
    POLICY_REGISTERED | REQUESTED | REVERIFICATION_REQUESTED | REQUEST_EXPIRED | REQUEST_CANCELLED
  | RESULT_RECORDED

record verification_audit_event =
  ae_event_type :: verification_audit_event_type
  ae_event_id :: string
  ae_occurred_at :: datetime
  ae_task_id :: "string option"
  ae_verification_id :: "string option"
  ae_run_id :: "string option"
  ae_project_id :: "string option"
  ae_policy_id :: "string option"
  ae_policy_version :: "int option"
  ae_stage_id :: "string option"
  ae_subject :: "verification_subject option"
  ae_requested_verifier_kind :: "verifier_kind option"
  ae_verifier :: "verifier_identity option"
  ae_outcome :: "verification_outcome option"
  ae_repair_attempt :: int
  ae_correlation_id :: "string option"
  ae_causation_id :: "string option"
  ae_evidence_artifact_ids :: "string list"
  ae_checks_executed :: "string list"
  ae_metadata :: "json dict"

definition verification_audit_event_post_init ::
  "verification_audit_event \<Rightarrow> py_error + verification_audit_event" where
  "verification_audit_event_post_init x =
     sbind (validate_id (ae_event_id x) ''verification_audit'') (\<lambda>_.
     sbind (validate_optional_id (ae_task_id x) ''task'') (\<lambda>_.
     sbind (validate_optional_id (ae_verification_id x) ''verification'') (\<lambda>_.
     sbind (validate_optional_id (ae_run_id x) ''run'') (\<lambda>_.
     sbind (validate_optional_id (ae_project_id x) ''project'') (\<lambda>_.
     sbind (case ae_policy_id x of
              Some p \<Rightarrow> sbind (validate_id p ''verification_policy'') (\<lambda>_.
                 guard (case ae_policy_version x of None \<Rightarrow> False | Some v \<Rightarrow> 1 \<le> v) ValueError)
            | None \<Rightarrow> guard (ae_policy_version x = None) ValueError) (\<lambda>_.
     sbind (optional_nonblank (ae_stage_id x)) (\<lambda>_.
     sbind (optional_nonblank (ae_correlation_id x)) (\<lambda>_.
     sbind (optional_nonblank (ae_causation_id x)) (\<lambda>_.
     sbind (guard (0 \<le> ae_repair_attempt x) ValueError) (\<lambda>_.
     sbind (validate_ids (ae_evidence_artifact_ids x) ''artifact'') (\<lambda>_.
     sbind (require_all_nonblank (ae_checks_executed x)) (\<lambda>_. Inr x))))))))))))"

end
