(* ===== verification/Verification_Service.thy ===== *)
theory Verification_Service
  imports Verification_Models Kernel_World "HOL-Library.Product_Lexorder"
begin

text \<open>
  The verification authority of \<open>verification/verification_authority.py\<close> and the reference verifier
  of \<open>verification/deterministic.py\<close>. The service's dictionaries are the collaborators' part of the
  kernel's world, so that the kernel and the service run on one state, with one clock and one
  source of identifiers. The private tokens that mark canonical subjects and results are booleans.
\<close>

section \<open>State\<close>

record verification_service =
  sv_require_canonical_subjects :: bool
  sv_require_canonical_results :: bool
  sv_policies :: "((string \<times> int) \<times> verification_policy) list"
  sv_requests :: "verification_request dict"
  sv_results :: "verification_result dict"
  sv_result_by_verification :: "string dict"
  sv_audit_events :: "verification_audit_event list"

type_synonym 'm service_world = "'m verification_service_scheme world"
type_synonym 'm service_env = "'m verification_service_scheme kernel_env"

definition sv_gets :: "('m verification_service_scheme \<Rightarrow> 'a) \<Rightarrow> ('m service_world, 'a) action" where
  "sv_gets f = gets (\<lambda>w. f (w_ext w))"

definition sv_update :: "('m verification_service_scheme \<Rightarrow> 'm verification_service_scheme) \<Rightarrow>
    ('m service_world, unit) action" where
  "sv_update f = (\<lambda>w. (Inr (), w\<lparr>w_ext := f (w_ext w)\<rparr>))"

definition instant :: "'x kernel_env \<Rightarrow> datetime option \<Rightarrow> ('x world, datetime) action" where
  \<comment> \<open>\<open>now or datetime.now(UTC)\<close>\<close>
  "instant env now = (case now of None \<Rightarrow> utc_now env | Some t \<Rightarrow> ret t)"

definition append_audit :: "'m service_env \<Rightarrow> (string \<Rightarrow> verification_audit_event) \<Rightarrow>
    ('m service_world, unit) action" where
  "append_audit env event =
     await (new_id env ''verification_audit'') (\<lambda>event_id.
     await (pure (verification_audit_event_post_init (event event_id))) (\<lambda>e.
     sv_update (\<lambda>s. s\<lparr>sv_audit_events := sv_audit_events s @ [e]\<rparr>)))"

definition request_audit :: "verification_audit_event_type \<Rightarrow> datetime \<Rightarrow> verification_request \<Rightarrow>
    string \<Rightarrow> verification_audit_event" where
  \<comment> \<open>the fields that every audit event of a request takes from it\<close>
  "request_audit event_type occurred_at request event_id =
     \<lparr>ae_event_type = event_type, ae_event_id = event_id, ae_occurred_at = occurred_at,
      ae_task_id = Some (vr_task_id request), ae_verification_id = Some (vr_verification_id request),
      ae_run_id = vr_run_id request, ae_project_id = vr_project_id request,
      ae_policy_id = Some (vr_policy_id request), ae_policy_version = Some (vr_policy_version request),
      ae_stage_id = Some (vr_stage_id request), ae_subject = Some (vr_subject request),
      ae_requested_verifier_kind = Some (vr_requested_verifier_kind request), ae_verifier = None,
      ae_outcome = None, ae_repair_attempt = vr_repair_attempt request,
      ae_correlation_id = Some (vr_correlation_id request), ae_causation_id = vr_causation_id request,
      ae_evidence_artifact_ids = [], ae_checks_executed = [], ae_metadata = []\<rparr>"

section \<open>Policies\<close>

definition same_policy :: "verification_policy \<Rightarrow> verification_policy \<Rightarrow> bool" where
  \<comment> \<open>\<open>==\<close> of the dataclass\<close>
  "same_policy p q \<longleftrightarrow> p\<lparr>vp_provenance := None, vp_metadata := []\<rparr> = q\<lparr>vp_provenance := None, vp_metadata := []\<rparr> \<and>
     same_provenance (vp_provenance p) (vp_provenance q) \<and> py_eq (JObj (vp_metadata p)) (JObj (vp_metadata q))"

definition register_policy :: "'m service_env \<Rightarrow> verification_policy \<Rightarrow>
    ('m service_world, verification_policy) action" where
  "register_policy env policy =
     (let key = (vp_policy_id policy, vp_version policy) in
     await (sv_gets (\<lambda>s. dict_get (sv_policies s) key)) (\<lambda>existing.
     if existing \<noteq> None \<and> \<not> same_policy (the existing) policy then raise (contract_error CONFLICT)
     else
     await (sv_update (\<lambda>s. s\<lparr>sv_policies := dict_set key policy (sv_policies s)\<rparr>)) (\<lambda>_.
     if existing \<noteq> None then ret policy
     else
     await (append_audit env (\<lambda>event_id.
       \<lparr>ae_event_type = POLICY_REGISTERED, ae_event_id = event_id, ae_occurred_at = vp_created_at policy,
        ae_task_id = None, ae_verification_id = None, ae_run_id = None, ae_project_id = None,
        ae_policy_id = Some (vp_policy_id policy), ae_policy_version = Some (vp_version policy),
        ae_stage_id = None, ae_subject = None, ae_requested_verifier_kind = None, ae_verifier = None,
        ae_outcome = None, ae_repair_attempt = 0, ae_correlation_id = None, ae_causation_id = None,
        ae_evidence_artifact_ids = [], ae_checks_executed = [],
        ae_metadata = [(''creator_ref'', opt_json (vp_creator_ref policy)),
          (''provenance_source'', opt_json (map_option pv_source (vp_provenance policy)))]\<rparr>)) (\<lambda>_.
     ret policy))))"

definition get_policy :: "string \<Rightarrow> int \<Rightarrow> ('m service_world, verification_policy) action" where
  "get_policy policy_id version =
     await (sv_gets (\<lambda>s. dict_get (sv_policies s) (policy_id, version))) (\<lambda>found.
     case found of None \<Rightarrow> raise (contract_error NOT_FOUND) | Some policy \<Rightarrow> ret policy)"

definition require_policy_scope :: "verification_policy \<Rightarrow> string \<Rightarrow> string option \<Rightarrow> string list \<Rightarrow>
    producer_identity option \<Rightarrow> py_error + unit" where
  "require_policy_scope policy task_id project_id capability_ids producer =
     (let scope = vp_scope policy in
      if sc_task_ids scope \<noteq> [] \<and> task_id \<notin> set (sc_task_ids scope) then Inl (contract_error FORBIDDEN)
      else if sc_project_ids scope \<noteq> [] \<and> project_id \<notin> Some ` set (sc_project_ids scope)
      then Inl (contract_error FORBIDDEN)
      else if sc_capability_ids scope \<noteq> [] \<and> set capability_ids \<inter> set (sc_capability_ids scope) = {}
      then Inl (contract_error FORBIDDEN)
      else if sc_agent_ids scope \<noteq> [] \<and>
        Option.bind producer pi_agent_id \<notin> Some ` set (sc_agent_ids scope)
      then Inl (contract_error FORBIDDEN)
      else Inr ())"

section \<open>Requests\<close>

definition request_verification :: "'m service_env \<Rightarrow> string \<Rightarrow> string \<Rightarrow> int \<Rightarrow> string \<Rightarrow> verification_subject \<Rightarrow>
    string \<Rightarrow> string option \<Rightarrow> string option \<Rightarrow> string list \<Rightarrow> string option \<Rightarrow> string list \<Rightarrow>
    producer_identity option \<Rightarrow> int \<Rightarrow> string option \<Rightarrow> datetime option \<Rightarrow> bool \<Rightarrow>
    ('m service_world, verification_request) action" where
  "request_verification env task_id policy_id policy_version stage_id subject correlation_id run_id result_id
     artifact_ids project_id capability_ids producer repair_attempt causation_id now canonical_subject =
     await (sv_gets sv_require_canonical_subjects) (\<lambda>required.
     if required \<and> \<not> canonical_subject then raise (contract_error FORBIDDEN)
     else
     await (get_policy policy_id policy_version) (\<lambda>policy.
     case policy_stage policy stage_id of Inl _ \<Rightarrow> raise (contract_error INVALID_REQUEST) | Inr stage \<Rightarrow>
     await (instant env now) (\<lambda>current.
     if vp_max_repair_attempts policy < repair_attempt then raise (contract_error CONFLICT)
     else
     await (pure (require_policy_scope policy task_id project_id capability_ids producer)) (\<lambda>_.
     await (new_id env ''verification'') (\<lambda>verification_id.
     await (pure (verification_request_post_init
       \<lparr>vr_task_id = task_id, vr_policy_id = vp_policy_id policy, vr_policy_version = vp_version policy,
        vr_stage_id = sg_stage_id stage, vr_subject = subject,
        vr_requested_verifier_kind = sg_verifier_kind stage, vr_correlation_id = correlation_id,
        vr_verification_id = verification_id, vr_run_id = run_id, vr_result_id = result_id,
        vr_artifact_ids = artifact_ids, vr_project_id = project_id, vr_capability_ids = capability_ids,
        vr_requested_capability_ref = sg_capability_ref stage, vr_producer = producer,
        vr_repair_attempt = repair_attempt, vr_status = VR_PENDING, vr_created_at = current,
        vr_expires_at = map_option (\<lambda>s. current + timedelta_us s) (vp_request_timeout_seconds policy),
        vr_causation_id = causation_id\<rparr>)) (\<lambda>request.
     await (sv_update (\<lambda>s. s\<lparr>sv_requests := dict_set (vr_verification_id request) request (sv_requests s)\<rparr>)) (\<lambda>_.
     await (append_audit env (\<lambda>event_id. (request_audit
         (if 0 < vr_repair_attempt request then REVERIFICATION_REQUESTED else REQUESTED)
         (vr_created_at request) request event_id)
       \<lparr>ae_metadata := [(''result_id'', opt_json (vr_result_id request)),
          (''artifact_ids'', JList (map JStr (vr_artifact_ids request))),
          (''capability_ids'', JList (map JStr (vr_capability_ids request))),
          (''requested_capability_ref'', opt_json (vr_requested_capability_ref request))]\<rparr>)) (\<lambda>_.
     ret request))))))))"

definition overdue :: "verification_request \<Rightarrow> datetime \<Rightarrow> bool" where
  "overdue request now \<longleftrightarrow> vr_status request = VR_PENDING \<and>
     (case vr_expires_at request of None \<Rightarrow> False | Some t \<Rightarrow> t \<le> now)"

definition store_status :: "string \<Rightarrow> verification_request \<Rightarrow> verification_request_status \<Rightarrow>
    ('m service_world, verification_request) action" where
  \<comment> \<open>\<open>replace(request, status=...)\<close>, stored under the given identifier\<close>
  "store_status verification_id request status =
     await (pure (verification_request_post_init (request\<lparr>vr_status := status\<rparr>))) (\<lambda>updated.
     await (sv_update (\<lambda>s. s\<lparr>sv_requests := dict_set verification_id updated (sv_requests s)\<rparr>)) (\<lambda>_.
     ret updated))"

definition get_request :: "'m service_env \<Rightarrow> string \<Rightarrow> datetime option \<Rightarrow>
    ('m service_world, verification_request) action" where
  "get_request env verification_id now =
     await (sv_gets (\<lambda>s. dict_get (sv_requests s) verification_id)) (\<lambda>found.
     case found of None \<Rightarrow> raise (contract_error NOT_FOUND) | Some request \<Rightarrow>
     await (instant env now) (\<lambda>current.
     if overdue request current then
       await (store_status verification_id request VR_EXPIRED) (\<lambda>expired.
       await (append_audit env (request_audit REQUEST_EXPIRED current expired)) (\<lambda>_.
       ret expired))
     else ret request))"

definition cancel_request :: "'m service_env \<Rightarrow> string \<Rightarrow> datetime option \<Rightarrow> string option \<Rightarrow>
    ('m service_world, verification_request) action" where
  "cancel_request env verification_id now causation_id =
     await (instant env now) (\<lambda>current.
     await (get_request env verification_id (Some current)) (\<lambda>request.
     if vr_status request = VR_CANCELLED then ret request
     else if vr_status request \<noteq> VR_PENDING then raise (contract_error CONFLICT)
     else
     await (store_status verification_id request VR_CANCELLED) (\<lambda>cancelled.
     await (append_audit env (\<lambda>event_id. (request_audit REQUEST_CANCELLED current cancelled event_id)
       \<lparr>ae_causation_id := (if causation_id \<in> {None, Some []} then vr_causation_id cancelled else causation_id)\<rparr>))
       (\<lambda>_. ret cancelled))))"

definition result_for :: "'m verification_service_scheme \<Rightarrow> string \<Rightarrow> py_error + verification_result option" where
  "result_for s verification_id =
     (case dict_get (sv_result_by_verification s) verification_id of
        None \<Rightarrow> Inr None
      | Some result_id \<Rightarrow>
          (case dict_get (sv_results s) result_id of None \<Rightarrow> Inl KeyError | Some r \<Rightarrow> Inr (Some r)))"

section \<open>Results\<close>

definition enforce_independence :: "verification_policy \<Rightarrow> verification_request \<Rightarrow> verifier_identity \<Rightarrow>
    py_error + unit" where
  "enforce_independence policy request verifier =
     (let rules = vp_independence policy; agent = (vi_kind verifier = VK_AGENT); human = (vi_kind verifier = VK_HUMAN);
          deny = Inl (contract_error FORBIDDEN);
          risk_forbids_self =
            (vp_risk_classification policy \<in> set (ri_forbid_self_verification_risk_classes rules));
          requires_producer = (ri_producer_agent_must_differ rules \<and> agent \<or> ri_model_must_differ rules \<or>
            ri_provider_must_differ rules \<or> ri_human_reviewer_must_differ rules \<and> human \<or>
            ri_forbid_self_verification rules \<or> risk_forbids_self)
      in if agent \<and> ri_agent_reviewer_must_be_read_only rules \<and> \<not> vi_read_only verifier then deny
      else case vr_producer request of
        None \<Rightarrow> if requires_producer then deny else Inr ()
      | Some producer \<Rightarrow>
          if ri_producer_agent_must_differ rules \<and> agent \<and>
             (pi_agent_id producer = None \<or> vi_agent_id verifier = None \<or>
              vi_agent_id verifier = pi_agent_id producer) then deny
          else if ri_model_must_differ rules \<and>
             (pi_model_config_id producer = None \<or> vi_model_config_id verifier = None \<or>
              vi_model_config_id verifier = pi_model_config_id producer) then deny
          else if ri_provider_must_differ rules \<and>
             (pi_provider_id producer = None \<or> vi_provider_id verifier = None \<or>
              vi_provider_id verifier = pi_provider_id producer) then deny
          else if ri_human_reviewer_must_differ rules \<and> human \<and>
             vi_verifier_ref verifier = pi_actor_ref producer then deny
          else if (ri_forbid_self_verification rules \<or> risk_forbids_self) \<and>
             (vi_verifier_ref verifier = pi_actor_ref producer \<or>
              agent \<and> pi_agent_id producer \<noteq> None \<and> vi_agent_id verifier = pi_agent_id producer) then deny
          else Inr ())"

definition validate_verifier :: "'m service_env \<Rightarrow> string \<Rightarrow> verifier_identity \<Rightarrow>
    ('m service_world, verifier_identity) action" where
  "validate_verifier env verification_id verifier =
     await (get_request env verification_id None) (\<lambda>request.
     if vr_status request \<noteq> VR_PENDING then raise (contract_error CONFLICT)
     else if vi_kind verifier \<noteq> vr_requested_verifier_kind request then raise (contract_error CONTRACT_VIOLATION)
     else
     await (get_policy (vr_policy_id request) (vr_policy_version request)) (\<lambda>policy.
     await (pure (enforce_independence policy request verifier)) (\<lambda>_.
     ret verifier)))"

definition submit_result :: "'m service_env \<Rightarrow> verification_result \<Rightarrow> bool \<Rightarrow>
    ('m service_world, verification_result) action" where
  "submit_result env result canonical_result =
     await (sv_gets sv_require_canonical_results) (\<lambda>required.
     if required \<and> \<not> canonical_result then raise (contract_error FORBIDDEN)
     else if canonical_result \<and> \<not> evidence_bindings_complete result
     then raise (contract_error CONTRACT_VIOLATION)
     else
     await (get_request env (vx_verification_id result) None) (\<lambda>request.
     if vr_status request \<noteq> VR_PENDING then raise (contract_error CONFLICT)
     else if vx_subject result \<noteq> vr_subject request then raise (contract_error CONTRACT_VIOLATION)
     else if vi_kind (vx_verifier result) \<noteq> vr_requested_verifier_kind request
     then raise (contract_error CONTRACT_VIOLATION)
     else
     await (get_policy (vr_policy_id request) (vr_policy_version request)) (\<lambda>policy.
     await (pure (enforce_independence policy request (vx_verifier result))) (\<lambda>_.
     await (sv_update (\<lambda>s. s\<lparr>sv_results := dict_set (vx_verification_result_id result) result (sv_results s),
       sv_result_by_verification := dict_set (vr_verification_id request) (vx_verification_result_id result)
         (sv_result_by_verification s)\<rparr>)) (\<lambda>_.
     await (store_status (vr_verification_id request) request VR_COMPLETED) (\<lambda>_.
     await (append_audit env (\<lambda>event_id.
       (request_audit RESULT_RECORDED (vx_completed_at result) request event_id)
       \<lparr>ae_subject := Some (vx_subject result), ae_verifier := Some (vx_verifier result),
        ae_outcome := Some (vx_outcome result),
        ae_evidence_artifact_ids := vx_evidence_artifact_ids result,
        ae_checks_executed := vx_checks_executed result,
        ae_metadata := [(''finding_count'', JInt (int (length (vx_findings result)))),
          (''error_codes'', JList (map (JStr \<circ> ve_code) (vx_errors result)))]\<rparr>)) (\<lambda>_.
     ret result)))))))"

definition make_result :: "'m service_env \<Rightarrow> string \<Rightarrow> verifier_identity \<Rightarrow> verification_outcome \<Rightarrow>
    verification_subject \<Rightarrow> verification_finding list \<Rightarrow> string list \<Rightarrow> string list \<Rightarrow>
    ('m service_world, verification_result) action" where
  \<comment> \<open>a \<open>VerificationResult\<close> with the remaining fields at their defaults\<close>
  "make_result env verification_id verifier outcome subject findings evidence_artifact_ids checks_executed =
     await (new_id env ''verification_result'') (\<lambda>result_id.
     await (utc_now env) (\<lambda>started.
     await (utc_now env) (\<lambda>completed.
     pure (verification_result_post_init
       \<lparr>vx_verification_id = verification_id, vx_verifier = verifier, vx_outcome = outcome,
        vx_subject = subject, vx_verification_result_id = result_id, vx_findings = findings,
        vx_evidence_artifact_ids = evidence_artifact_ids, vx_evidence_bindings = [],
        vx_checks_executed = checks_executed, vx_errors = [], vx_started_at = started,
        vx_completed_at = completed, vx_metadata = []\<rparr>))))"

record deterministic_check =
  dc_name :: string
  dc_predicate :: "verification_request \<Rightarrow> bool"
  dc_failure_message :: string
  dc_severity :: string

definition deterministic_check_post_init :: "deterministic_check \<Rightarrow> py_error + deterministic_check" where
  "deterministic_check_post_init x =
     sbind (require_nonblank (dc_name x)) (\<lambda>_.
     sbind (require_nonblank (dc_failure_message x)) (\<lambda>_.
     sbind (require_nonblank (dc_severity x)) (\<lambda>_. Inr x)))"

definition reference_verifier_init :: "string \<Rightarrow> deterministic_check list \<Rightarrow>
    py_error + (string \<times> deterministic_check list)" where
  "reference_verifier_init verifier_id checks =
     sbind (require_nonblank verifier_id) (\<lambda>_.
     sbind (guard (checks \<noteq> []) ValueError) (\<lambda>_. Inr (verifier_id, checks)))"

definition reference_verify :: "'m service_env \<Rightarrow> string \<Rightarrow> deterministic_check list \<Rightarrow> verification_request \<Rightarrow>
    ('m service_world, verification_result) action" where
  \<comment> \<open>\<open>ReferenceDeterministicVerifier.verify\<close>\<close>
  "reference_verify env verifier_id checks request =
     (if vr_requested_verifier_kind request \<noteq> VK_DETERMINISTIC then raise ValueError
      else
      await (pure (smap (\<lambda>c. verification_finding_post_init
          \<lparr>vf_code = ''deterministic_check_failed'', vf_message = dc_failure_message c,
           vf_severity = dc_severity c, vf_location_ref = None\<rparr>)
        (filter (\<lambda>c. \<not> dc_predicate c request) checks))) (\<lambda>findings.
      await (pure (verifier_identity_post_init
        \<lparr>vi_verifier_ref = verifier_id, vi_kind = VK_DETERMINISTIC, vi_agent_id = None,
         vi_agent_revision = None, vi_model_config_id = None, vi_provider_id = None, vi_read_only = True\<rparr>))
        (\<lambda>verifier.
      make_result env (vr_verification_id request) verifier (if findings = [] then O_PASS else O_FAIL)
        (vr_subject request) findings [] (map dc_name checks))))"

definition run_deterministic :: "'m service_env \<Rightarrow> string \<Rightarrow>
    (verification_request \<Rightarrow> ('m service_world, verification_result) action) \<Rightarrow>
    ('m service_world, verification_result) action" where
  "run_deterministic env verification_id verify =
     await (get_request env verification_id None) (\<lambda>request.
     if vr_requested_verifier_kind request \<noteq> VK_DETERMINISTIC then raise (contract_error CONTRACT_VIOLATION)
     else await (verify request) (\<lambda>result. submit_result env result False))"

definition record_human_review :: "'m service_env \<Rightarrow> string \<Rightarrow> string \<Rightarrow> verification_outcome \<Rightarrow> string option \<Rightarrow>
    string list \<Rightarrow> ('m service_world, verification_result) action" where
  "record_human_review env verification_id reviewer_ref outcome comment evidence_artifact_ids =
     await (get_request env verification_id None) (\<lambda>request.
     await (pure (case comment of
         None \<Rightarrow> Inr []
       | Some text' \<Rightarrow>
           if py_blank text' then Inl ValueError
           else sbind (verification_finding_post_init
             \<lparr>vf_code = ''human_review_comment'', vf_message = text',
              vf_severity = (if outcome = O_PASS then ''info'' else ''warning''), vf_location_ref = None\<rparr>)
             (\<lambda>f. Inr [f]))) (\<lambda>findings.
     await (pure (verifier_identity_post_init
       \<lparr>vi_verifier_ref = reviewer_ref, vi_kind = VK_HUMAN, vi_agent_id = None, vi_agent_revision = None,
        vi_model_config_id = None, vi_provider_id = None, vi_read_only = True\<rparr>)) (\<lambda>verifier.
     await (make_result env verification_id verifier outcome (vr_subject request) findings
       evidence_artifact_ids [''human_review'']) (\<lambda>result.
     submit_result env result False))))"

definition record_agent_review :: "'m service_env \<Rightarrow> string \<Rightarrow> verifier_identity \<Rightarrow> verification_outcome \<Rightarrow>
    verification_finding list \<Rightarrow> string list \<Rightarrow> string list \<Rightarrow> ('m service_world, verification_result) action" where
  "record_agent_review env verification_id verifier outcome findings evidence_artifact_ids checks_executed =
     (if vi_kind verifier \<noteq> VK_AGENT then raise ValueError
      else
      await (get_request env verification_id None) (\<lambda>request.
      await (make_result env verification_id verifier outcome (vr_subject request) findings
        evidence_artifact_ids checks_executed) (\<lambda>result.
      submit_result env result False)))"

definition request_reverification_after_repair :: "'m service_env \<Rightarrow> string \<Rightarrow> verification_subject \<Rightarrow> string \<Rightarrow>
    string option \<Rightarrow> string option \<Rightarrow> string list \<Rightarrow> string option \<Rightarrow> producer_identity option \<Rightarrow>
    string option \<Rightarrow> string list option \<Rightarrow> bool \<Rightarrow> bool \<Rightarrow> ('m service_world, verification_request) action" where
  "request_reverification_after_repair env verification_id new_subject correlation_id run_id result_id
     artifact_ids causation_id producer project_id capability_ids replace_context canonical_subject =
     await (sv_gets sv_require_canonical_subjects) (\<lambda>required.
     if required \<and> \<not> canonical_subject then raise (contract_error FORBIDDEN)
     else
     await (get_request env verification_id None) (\<lambda>previous.
     await (\<lambda>w. (result_for (w_ext w) verification_id, w)) (\<lambda>previous_result.
     if map_option vx_outcome previous_result \<noteq> Some O_NEEDS_CHANGES then raise (contract_error CONFLICT)
     else
     await (get_policy (vr_policy_id previous) (vr_policy_version previous)) (\<lambda>policy.
     if vp_max_repair_attempts policy < vr_repair_attempt previous + 1 then raise (contract_error CONFLICT)
     else if new_subject = vr_subject previous then raise (contract_error INVALID_REQUEST)
     else
     request_verification env (vr_task_id previous) (vr_policy_id previous) (vr_policy_version previous)
       (vr_stage_id previous) new_subject correlation_id run_id result_id artifact_ids
       (if replace_context then project_id else vr_project_id previous)
       (case capability_ids of Some c \<Rightarrow> if replace_context then c else vr_capability_ids previous
        | None \<Rightarrow> vr_capability_ids previous)
       (if replace_context then producer else vr_producer previous)
       (vr_repair_attempt previous + 1) causation_id None canonical_subject))))"

end
