(* ===== verification/Verification_Assessment.thy ===== *)
theory Verification_Assessment
  imports Verification_Service
begin

text \<open>
  The completion assessment of \<open>VerificationService\<close>: the requests and results that count for one
  exact subject, the two passes over definitive outcomes, and the pass that counts accepted
  results. The last part shows that this amounts to a declarative rule on the stages.
\<close>

section \<open>Text\<close>

definition py_printable :: "char \<Rightarrow> bool" where
  "py_printable c \<longleftrightarrow> (let n = of_char c :: nat in 32 \<le> n \<and> n \<le> 126 \<or> 161 \<le> n \<and> n \<noteq> 173)"

definition hex_char :: "nat \<Rightarrow> char" where
  "hex_char n = char_of (if n < 10 then 48 + n else 87 + n)"

definition repr_char :: "char \<Rightarrow> char \<Rightarrow> string" where
  "repr_char quote c =
     (let n = of_char c :: nat; backslash = char_of (92::nat) in
      if c = quote \<or> c = backslash then [backslash, c]
      else if n = 9 then [backslash, CHR ''t''] else if n = 10 then [backslash, CHR ''n'']
      else if n = 13 then [backslash, CHR ''r'']
      else if py_printable c then [c]
      else [backslash, CHR ''x'', hex_char (n div 16), hex_char (n mod 16)])"

definition py_repr :: "string \<Rightarrow> string" where
  \<comment> \<open>\<open>repr(s)\<close>\<close>
  "py_repr s =
     (let single = char_of (39::nat); double = char_of (34::nat);
          quote = (if single \<in> set s \<and> double \<notin> set s then double else single)
      in [quote] @ concat (map (repr_char quote) s) @ [quote])"

lemma py_repr_not_blank [simp]: "\<not> py_blank (py_repr s @ t)" "\<not> py_blank (u @ py_repr s @ t)"
  by (auto simp: py_blank_def py_repr_def Let_def py_isspace_def)

section \<open>Requests and results that count\<close>

definition matching_stage_requests :: "'m verification_service_scheme \<Rightarrow> string \<Rightarrow> verification_subject \<Rightarrow>
    verification_policy \<Rightarrow> string \<Rightarrow> datetime \<Rightarrow> verification_request list" where
  "matching_stage_requests s task_id subject policy stage_id now =
     map (\<lambda>stored. if overdue stored now then stored\<lparr>vr_status := VR_EXPIRED\<rparr> else stored)
       (filter (\<lambda>stored. vr_task_id stored = task_id \<and> vr_policy_id stored = vp_policy_id policy \<and>
          vr_policy_version stored = vp_version policy \<and> vr_stage_id stored = stage_id \<and>
          vr_subject stored = subject)
         (map snd (sv_requests s)))"

definition result_expired :: "verification_policy \<Rightarrow> verification_result \<Rightarrow> datetime \<Rightarrow> bool" where
  "result_expired policy result now =
     (case vp_result_expiry_seconds policy of None \<Rightarrow> False
      | Some secs \<Rightarrow> vx_completed_at result + timedelta_us secs \<le> now)"

definition keep_unexpired :: "verification_policy \<Rightarrow> datetime \<Rightarrow> verification_request \<Rightarrow> verification_result option \<Rightarrow>
    (verification_request \<times> verification_result) list" where
  "keep_unexpired policy now request found =
     (case found of None \<Rightarrow> []
      | Some result \<Rightarrow> if result_expired policy result now then [] else [(request, result)])"

definition matching_stage_results :: "'m verification_service_scheme \<Rightarrow> string \<Rightarrow> verification_subject \<Rightarrow>
    verification_policy \<Rightarrow> string \<Rightarrow> datetime \<Rightarrow> py_error + (verification_request \<times> verification_result) list" where
  "matching_stage_results s task_id subject policy stage_id now =
     sbind (smap (\<lambda>request. sbind (result_for s (vr_verification_id request)) (\<lambda>found.
         Inr (keep_unexpired policy now request found)))
       (matching_stage_requests s task_id subject policy stage_id now)) (\<lambda>parts. Inr (concat parts))"

fun distinct_verifier_key :: "verifier_identity \<Rightarrow> string" where
  "distinct_verifier_key v =
     (case vi_kind v of
        VK_AGENT \<Rightarrow> ''agent:'' @ (case vi_agent_id v of None \<Rightarrow> ''None'' | Some a \<Rightarrow> a)
      | VK_HUMAN \<Rightarrow> ''human:'' @ vi_verifier_ref v
      | VK_PROVIDER \<Rightarrow> ''provider:'' @ (case vi_provider_id v of None \<Rightarrow> ''unknown-provider''
          | Some p \<Rightarrow> if p = [] then ''unknown-provider'' else p) @ '':'' @ vi_verifier_ref v
      | VK_DETERMINISTIC \<Rightarrow> ''deterministic:'' @ vi_verifier_ref v)"

fun failure_state_for :: "verification_failure_policy \<Rightarrow> completion_state" where
  "failure_state_for FP_WAIT = C_WAITING"
| "failure_state_for FP_ESCALATE = C_ESCALATED"
| "failure_state_for FP_FAIL = C_REJECTED"

definition failure_state :: "verification_policy \<Rightarrow> completion_state" where
  "failure_state policy = failure_state_for (vp_failure_policy policy)"

section \<open>The assessment\<close>

type_synonym stage_results = "(verification_request \<times> verification_result) list"

definition has_outcome :: "verification_outcome \<Rightarrow> stage_results \<Rightarrow> bool" where
  "has_outcome outcome matching = list_ex (\<lambda>(_, result). vx_outcome result = outcome) matching"

definition ids_with :: "verification_outcome \<Rightarrow> stage_results \<Rightarrow> string list" where
  "ids_with outcome matching =
     map (\<lambda>(request, _). vr_verification_id request) (filter (\<lambda>(_, result). vx_outcome result = outcome) matching)"

definition max_default :: "int \<Rightarrow> int list \<Rightarrow> int" where
  \<comment> \<open>\<open>max(xs, default=d)\<close>\<close>
  "max_default d xs = (case xs of [] \<Rightarrow> d | y # ys \<Rightarrow> fold max ys y)"

definition attempts_of :: "stage_results \<Rightarrow> int list" where
  "attempts_of matching = map (\<lambda>(request, _). vr_repair_attempt request) matching"

definition accepted_count :: "verification_policy \<Rightarrow> verification_stage \<Rightarrow> stage_results \<Rightarrow> int" where
  "accepted_count policy stage matching =
     (let accepted = filter (\<lambda>(_, result). vx_outcome result \<in> set (sg_accepted_outcomes stage)) matching
      in if ri_require_distinct_verifiers (vp_independence policy)
         then int (length (remdups (map (\<lambda>(_, result). distinct_verifier_key (vx_verifier result)) accepted)))
         else int (length accepted))"

definition conclude :: "string \<Rightarrow> verification_subject \<Rightarrow> verification_policy \<Rightarrow> completion_state \<Rightarrow> string \<Rightarrow>
    string list \<Rightarrow> int \<Rightarrow> py_error + completion_assessment" where
  "conclude task_id subject policy state reason blocking remaining =
     completion_assessment_post_init
       \<lparr>as_task_id = task_id, as_subject = subject, as_state = state, as_reason = reason,
        as_policy_id = Some (vp_policy_id policy), as_policy_version = Some (vp_version policy),
        as_blocking_verification_ids = blocking, as_repair_attempts_remaining = remaining\<rparr>"

definition changes_requested :: "string \<Rightarrow> verification_subject \<Rightarrow> verification_policy \<Rightarrow> stage_results \<Rightarrow> int \<Rightarrow>
    py_error + completion_assessment" where
  "changes_requested task_id subject policy matching remaining =
     conclude task_id subject policy
       (if 0 < remaining then C_REPAIR_REQUIRED else failure_state policy)
       (if 0 < remaining then ''verification requested changes'' else ''verification repair limit exhausted'')
       (ids_with O_NEEDS_CHANGES matching) remaining"

definition incomplete_stage :: "'m verification_service_scheme \<Rightarrow> string \<Rightarrow> verification_subject \<Rightarrow>
    verification_policy \<Rightarrow> datetime \<Rightarrow> verification_stage \<Rightarrow> int \<Rightarrow> py_error + completion_assessment" where
  \<comment> \<open>what a stage with too few accepted results leads to\<close>
  "incomplete_stage s task_id subject policy now stage remaining =
     (let stage_requests = matching_stage_requests s task_id subject policy (sg_stage_id stage) now;
          expired = filter (\<lambda>request. vr_status request = VR_EXPIRED) stage_requests
      in if expired \<noteq> []
         then conclude task_id subject policy (failure_state_for (vp_timeout_failure_policy policy))
           (''verification stage '' @ py_repr (sg_stage_id stage) @ '' timed out'')
           (map vr_verification_id expired) remaining
         else conclude task_id subject policy C_WAITING
           (''verification stage '' @ py_repr (sg_stage_id stage) @ '' is incomplete'')
           (map vr_verification_id stage_requests) remaining)"

fun assess_stages :: "'m verification_service_scheme \<Rightarrow> string \<Rightarrow> verification_subject \<Rightarrow> verification_policy \<Rightarrow>
    datetime \<Rightarrow> int \<Rightarrow> verification_stage list \<Rightarrow> py_error + completion_assessment" where
  \<comment> \<open>the third loop of \<open>assess_completion\<close>\<close>
  "assess_stages s task_id subject policy now max_repair_attempt [] =
     conclude task_id subject policy C_ACCEPTED ''all required verification stages passed'' []
       (max 0 (vp_max_repair_attempts policy - max_repair_attempt))"
| "assess_stages s task_id subject policy now max_repair_attempt (stage # stages) =
     sbind (matching_stage_results s task_id subject policy (sg_stage_id stage) now) (\<lambda>matching.
     let observed = (if matching = [] then max_repair_attempt
           else max max_repair_attempt (max_default 0 (attempts_of matching)));
         remaining = max 0 (vp_max_repair_attempts policy - observed)
     in if has_outcome O_NEEDS_CHANGES matching then changes_requested task_id subject policy matching remaining
        else if sg_critical stage \<and> has_outcome O_FAIL matching
        then conclude task_id subject policy (failure_state policy) ''critical verification stage failed''
          (ids_with O_FAIL matching) 0
        else if accepted_count policy stage matching < sg_minimum_results stage
        then incomplete_stage s task_id subject policy now stage remaining
        else assess_stages s task_id subject policy now observed stages)"

definition assess_policy :: "'m verification_service_scheme \<Rightarrow> string \<Rightarrow> verification_subject \<Rightarrow>
    verification_policy \<Rightarrow> datetime \<Rightarrow> py_error + completion_assessment" where
  \<comment> \<open>\<open>assess_completion\<close> once the policy and the time are known\<close>
  "assess_policy s task_id subject policy now =
     (if vp_stages policy = []
      then conclude task_id subject policy C_ACCEPTED ''verification policy contains no required stages'' [] 0
      else
      sbind (smap (\<lambda>stage. sbind (matching_stage_results s task_id subject policy (sg_stage_id stage) now)
          (\<lambda>matching. Inr (stage, matching))) (vp_stages policy)) (\<lambda>stage_matches.
      let observed = max_default 0 (concat (map (\<lambda>(_, matching). attempts_of matching) stage_matches));
          remaining = max 0 (vp_max_repair_attempts policy - observed)
      in case find (\<lambda>(stage, matching). sg_critical stage \<and> has_outcome O_FAIL matching) stage_matches of
        Some (stage, matching) \<Rightarrow>
          conclude task_id subject policy (failure_state policy) ''critical verification stage failed''
            (ids_with O_FAIL matching) remaining
      | None \<Rightarrow>
          (case find (\<lambda>(stage, matching). has_outcome O_NEEDS_CHANGES matching) stage_matches of
             Some (stage, matching) \<Rightarrow> changes_requested task_id subject policy matching remaining
           | None \<Rightarrow> assess_stages s task_id subject policy now 0 (vp_stages policy))))"

definition assess_completion :: "'m service_env \<Rightarrow> string \<Rightarrow> verification_subject \<Rightarrow> string option \<Rightarrow> int option \<Rightarrow>
    datetime option \<Rightarrow> ('m service_world, completion_assessment) action" where
  "assess_completion env task_id subject policy_id policy_version now =
     (case policy_id of
        None \<Rightarrow>
          if policy_version \<noteq> None then raise ValueError
          else pure (completion_assessment_post_init
            \<lparr>as_task_id = task_id, as_subject = subject, as_state = C_ACCEPTED,
             as_reason = ''no verification policy is required'', as_policy_id = None,
             as_policy_version = None, as_blocking_verification_ids = [], as_repair_attempts_remaining = 0\<rparr>)
      | Some pid \<Rightarrow>
          (case policy_version of
             None \<Rightarrow> raise ValueError
           | Some version \<Rightarrow>
               await (get_policy pid version) (\<lambda>policy.
               await (instant env now) (\<lambda>current.
               await (sv_gets (\<lambda>s. s)) (\<lambda>s.
               pure (assess_policy s task_id subject policy current))))))"

section \<open>History\<close>

definition audit_history :: "'m verification_service_scheme \<Rightarrow> string option \<Rightarrow> string option \<Rightarrow>
    verification_audit_event list" where
  "audit_history s task_id verification_id =
     filter (\<lambda>event. (task_id = None \<or> ae_task_id event = task_id) \<and>
       (verification_id = None \<or> ae_verification_id event = verification_id)) (sv_audit_events s)"

definition verification_history :: "'m verification_service_scheme \<Rightarrow> string \<Rightarrow>
    py_error + (verification_request \<times> verification_result option) list" where
  "verification_history s task_id =
     sbind (smap (\<lambda>request. sbind (result_for s (vr_verification_id request)) (\<lambda>found. Inr (request, found)))
       (filter (\<lambda>request. vr_task_id request = task_id) (map snd (sv_requests s)))) (\<lambda>items.
     Inr (sort_key (\<lambda>(request, _). (vr_created_at request, vr_verification_id request)) items))"

section \<open>The declarative rule\<close>

text \<open>
  A stage is satisfied when no counting result asks for changes, no counting result of a critical
  stage failed, and enough results are accepted.
\<close>

definition stage_clear :: "verification_stage \<Rightarrow> stage_results \<Rightarrow> bool" where
  "stage_clear stage m \<longleftrightarrow> \<not> has_outcome O_NEEDS_CHANGES m \<and> (sg_critical stage \<longrightarrow> \<not> has_outcome O_FAIL m)"

definition stage_satisfied :: "'m verification_service_scheme \<Rightarrow> string \<Rightarrow> verification_subject \<Rightarrow>
    verification_policy \<Rightarrow> datetime \<Rightarrow> verification_stage \<Rightarrow> bool" where
  "stage_satisfied s task_id subject policy now stage =
     (case matching_stage_results s task_id subject policy (sg_stage_id stage) now of
        Inl _ \<Rightarrow> False
      | Inr m \<Rightarrow> stage_clear stage m \<and> sg_minimum_results stage \<le> accepted_count policy stage m)"

lemma failure_state_not_accepted [simp]: "failure_state_for f \<noteq> C_ACCEPTED" "failure_state p \<noteq> C_ACCEPTED"
  by (cases f; simp) (cases "vp_failure_policy p"; simp add: failure_state_def)

lemmas accepted_not_failure [simp] = failure_state_not_accepted[symmetric]

lemma conclude_state: "conclude t s p st reason blocking n = Inr a \<Longrightarrow> as_state a = st"
  by (auto simp: conclude_def completion_assessment_post_init_def sbind_eq_Inr)

lemma changes_not_accepted: "changes_requested t s p m n = Inr a \<Longrightarrow> as_state a \<noteq> C_ACCEPTED"
  by (auto simp: changes_requested_def dest!: conclude_state split: if_splits)

lemma incomplete_not_accepted: "incomplete_stage s t subj p now st n = Inr a \<Longrightarrow> as_state a \<noteq> C_ACCEPTED"
  by (auto simp: incomplete_stage_def Let_def dest!: conclude_state split: if_splits)

lemma assess_stages_accepted:
  assumes "assess_stages s t subj p now n stages = Inr a"
  shows "as_state a = C_ACCEPTED \<longleftrightarrow> list_all (stage_satisfied s t subj p now) stages"
  using assms
proof (induction stages arbitrary: n)
  case Nil
  then show ?case by (auto dest!: conclude_state)
next
  case (Cons st stages)
  obtain m where m: "matching_stage_results s t subj p (sg_stage_id st) now = Inr m"
    using Cons.prems by (auto simp: sbind_eq_Inr)
  show ?case
  proof (cases "stage_clear st m \<and> \<not> accepted_count p st m < sg_minimum_results st")
    case True
    then have "assess_stages s t subj p now (if m = [] then n else max n (max_default 0 (attempts_of m))) stages = Inr a"
      using Cons.prems m by (auto simp: stage_clear_def Let_def split: if_splits)
    from Cons.IH[OF this] True m show ?thesis by (auto simp: stage_satisfied_def)
  next
    case False
    then have "as_state a \<noteq> C_ACCEPTED"
      using Cons.prems m
      by (auto simp: stage_clear_def Let_def dest!: conclude_state changes_not_accepted incomplete_not_accepted split: if_splits)
    with False m show ?thesis by (auto simp: stage_satisfied_def)
  qed
qed

lemma stage_matches:
  assumes "smap (\<lambda>stage. sbind (matching_stage_results s t subj p (sg_stage_id stage) now)
      (\<lambda>matching. Inr (stage, matching))) stages = Inr ms"
  shows "map fst ms = stages" "\<forall>(stage, m) \<in> set ms. matching_stage_results s t subj p (sg_stage_id stage) now = Inr m"
  using assms by (induction stages arbitrary: ms) (auto simp: sbind_eq_Inr)

lemma matched_stage_unsatisfied:
  assumes "map fst ms = stages" "\<forall>(stage, m) \<in> set ms. matching_stage_results s t subj p (sg_stage_id stage) now = Inr m"
    and "(st, m) \<in> set ms" "\<not> stage_clear st m"
  shows "\<not> list_all (stage_satisfied s t subj p now) stages"
  using assms by (force simp: list_all_iff stage_satisfied_def image_iff)

lemma assess_policy_accepted:
  assumes "assess_policy s t subj p now = Inr a"
  shows "as_state a = C_ACCEPTED \<longleftrightarrow> list_all (stage_satisfied s t subj p now) (vp_stages p)"
proof (cases "vp_stages p = []")
  case True
  with assms show ?thesis by (auto simp: assess_policy_def dest!: conclude_state)
next
  case False
  obtain ms where ms: "smap (\<lambda>stage. sbind (matching_stage_results s t subj p (sg_stage_id stage) now)
      (\<lambda>matching. Inr (stage, matching))) (vp_stages p) = Inr ms"
    using assms False by (auto simp: assess_policy_def sbind_eq_Inr)
  note unsat = matched_stage_unsatisfied[OF stage_matches[OF ms]]
  consider (fail) st m where "find (\<lambda>(stage, m). sg_critical stage \<and> has_outcome O_FAIL m) ms = Some (st, m)"
    | (changes) st m where "find (\<lambda>(stage, m). sg_critical stage \<and> has_outcome O_FAIL m) ms = None"
        "find (\<lambda>(stage, m). has_outcome O_NEEDS_CHANGES m) ms = Some (st, m)"
    | (count) "find (\<lambda>(stage, m). sg_critical stage \<and> has_outcome O_FAIL m) ms = None"
        "find (\<lambda>(stage, m). has_outcome O_NEEDS_CHANGES m) ms = None" by fastforce
  then show ?thesis
  proof cases
    case fail
    then have "\<not> stage_clear st m" "(st, m) \<in> set ms" by (auto simp: stage_clear_def dest!: find_SomeD)
    moreover have "as_state a \<noteq> C_ACCEPTED"
      using assms False fail by (auto simp: assess_policy_def ms Let_def dest!: conclude_state)
    ultimately show ?thesis using unsat by blast
  next
    case changes
    then have "\<not> stage_clear st m" "(st, m) \<in> set ms" by (auto simp: stage_clear_def dest!: find_SomeD)
    moreover have "as_state a \<noteq> C_ACCEPTED"
      using assms False changes by (auto simp: assess_policy_def ms Let_def dest!: changes_not_accepted)
    ultimately show ?thesis using unsat by blast
  next
    case count
    then have "assess_stages s t subj p now 0 (vp_stages p) = Inr a"
      using assms False by (simp add: assess_policy_def ms Let_def)
    then show ?thesis by (rule assess_stages_accepted)
  qed
qed

text \<open>What counts for a stage: results recorded for requests of exactly this subject, and not expired.\<close>

lemma matching_results_sound:
  assumes "matching_stage_results s t subj p i now = Inr m" "(r, x) \<in> set m"
  shows "\<exists>k r0. (k, r0) \<in> set (sv_requests s) \<and> vr_subject r0 = subj \<and> vr_task_id r0 = t \<and> vr_stage_id r0 = i \<and>
    vr_policy_id r0 = vp_policy_id p \<and> vr_policy_version r0 = vp_version p \<and>
    result_for s (vr_verification_id r0) = Inr (Some x) \<and> \<not> result_expired p x now"
proof -
  obtain parts where parts: "list_all2 (\<lambda>r part. sbind (result_for s (vr_verification_id r)) (\<lambda>found.
      Inr (keep_unexpired p now r found)) = Inr part) (matching_stage_requests s t subj p i now) parts"
    and m: "m = concat parts"
    using assms(1) by (auto simp: matching_stage_results_def sbind_eq_Inr smap_eq_Inr)
  obtain part where part: "part \<in> set parts" "(r, x) \<in> set part" using assms(2) m by auto
  obtain q where q: "q \<in> set (matching_stage_requests s t subj p i now)"
    "sbind (result_for s (vr_verification_id q)) (\<lambda>found. Inr (keep_unexpired p now q found)) = Inr part"
    using list_all2_right[OF parts part(1)] by blast
  obtain found where f: "result_for s (vr_verification_id q) = Inr found" "part = keep_unexpired p now q found"
    using q(2) by (cases "result_for s (vr_verification_id q)") simp_all
  have x: "result_for s (vr_verification_id q) = Inr (Some x)" "\<not> result_expired p x now"
    using f part(2) by (cases found; simp add: keep_unexpired_def split: if_splits)+
  have "q \<in> (\<lambda>stored. if overdue stored now then stored\<lparr>vr_status := VR_EXPIRED\<rparr> else stored) `
      {r0 \<in> snd ` set (sv_requests s). vr_task_id r0 = t \<and> vr_policy_id r0 = vp_policy_id p \<and>
        vr_policy_version r0 = vp_version p \<and> vr_stage_id r0 = i \<and> vr_subject r0 = subj}"
    using q(1) by (simp add: matching_stage_requests_def)
  then obtain r0 where r0: "q = (if overdue r0 now then r0\<lparr>vr_status := VR_EXPIRED\<rparr> else r0)" "r0 \<in> snd ` set (sv_requests s)"
    "vr_task_id r0 = t" "vr_policy_id r0 = vp_policy_id p" "vr_policy_version r0 = vp_version p" "vr_stage_id r0 = i"
    "vr_subject r0 = subj" by (elim imageE CollectE conjE) (rule that, assumption, rule image_eqI, assumption+)
  moreover obtain k where "(k, r0) \<in> set (sv_requests s)" using r0(2) by (elim imageE) (metis prod.collapse)
  moreover have "vr_verification_id q = vr_verification_id r0" using r0(1) by simp
  ultimately show ?thesis using x by metis
qed

end
