(* ===== verification/Verification_Safe.thy ===== *)
theory Verification_Safe
  imports Verification_Assessment
begin

text \<open>
  The invariant of the verification service and what no operation of it can undo: a policy version
  keeps its rules, a request keeps its identity and, once settled, its status, the audit history
  only grows, and a recorded result stays linked to its request.
\<close>

section \<open>Invariant and evolution\<close>

definition request_wf :: "'m verification_service_scheme \<Rightarrow> verification_request \<Rightarrow> bool" where
  "request_wf s r \<longleftrightarrow> verification_request_post_init r = Inr r \<and>
     (\<exists>p st. dict_get (sv_policies s) (vr_policy_id r, vr_policy_version r) = Some p \<and>
        policy_stage p (vr_stage_id r) = Inr st \<and> vr_requested_verifier_kind r = sg_verifier_kind st \<and>
        vr_repair_attempt r \<le> vp_max_repair_attempts p)"

definition has_result :: "'m verification_service_scheme \<Rightarrow> string \<Rightarrow> bool" where
  "has_result s v \<longleftrightarrow> (\<exists>rid x. dict_get (sv_result_by_verification s) v = Some rid \<and> dict_get (sv_results s) rid = Some x)"

definition service_wf :: "'m verification_service_scheme \<Rightarrow> bool" where
  "service_wf s \<longleftrightarrow> distinct (map fst (sv_requests s)) \<and>
     (\<forall>k p. dict_get (sv_policies s) k = Some p \<longrightarrow> k = (vp_policy_id p, vp_version p)) \<and>
     (\<forall>k r. dict_get (sv_requests s) k = Some r \<longrightarrow> vr_verification_id r = k \<and> request_wf s r) \<and>
     (\<forall>v. dict_get (sv_result_by_verification s) v \<noteq> None \<longrightarrow>
        has_result s v \<and> dict_get (sv_requests s) v \<noteq> None) \<and>
     (\<forall>k r. dict_get (sv_requests s) k = Some r \<longrightarrow> (vr_status r = VR_COMPLETED \<longleftrightarrow> has_result s k))"

definition policy_core :: "verification_policy \<Rightarrow> verification_policy" where
  "policy_core p = p\<lparr>vp_provenance := None, vp_metadata := []\<rparr>"

definition request_after :: "verification_request \<Rightarrow> verification_request \<Rightarrow> bool" where
  "request_after r r' \<longleftrightarrow> r' = r\<lparr>vr_status := vr_status r'\<rparr> \<and> (vr_status r \<noteq> VR_PENDING \<longrightarrow> r' = r)"

definition service_grows :: "'m verification_service_scheme \<Rightarrow> 'm verification_service_scheme \<Rightarrow> bool" where
  "service_grows s s' \<longleftrightarrow> prefix (sv_audit_events s) (sv_audit_events s') \<and>
     (\<forall>k p. dict_get (sv_policies s) k = Some p \<longrightarrow>
        (\<exists>p'. dict_get (sv_policies s') k = Some p' \<and> policy_core p' = policy_core p)) \<and>
     (\<forall>k r. dict_get (sv_requests s) k = Some r \<longrightarrow>
        (\<exists>r'. dict_get (sv_requests s') k = Some r' \<and> request_after r r')) \<and>
     (\<forall>v rid. dict_get (sv_result_by_verification s) v = Some rid \<longrightarrow>
        dict_get (sv_result_by_verification s') v = Some rid)"

text \<open>The identifiers of the next requests, among the first \<open>N\<close> that are drawn, are not taken yet.\<close>

definition service_inv :: "'m service_env \<Rightarrow> nat \<Rightarrow> 'm service_world \<Rightarrow> bool" where
  "service_inv env N w \<longleftrightarrow> (w_draws w \<le> N \<longrightarrow> service_wf (w_ext w) \<and>
     (\<forall>k. w_draws w \<le> k \<longrightarrow> k < N \<longrightarrow>
        dict_get (sv_requests (w_ext w)) (''verification_'' @ env_uuid4 env k) = None))"

definition service_evolves :: "nat \<Rightarrow> 'm service_world \<Rightarrow> 'm service_world \<Rightarrow> bool" where
  "service_evolves N w w' \<longleftrightarrow> w_repo w' = w_repo w \<and> w_draws w \<le> w_draws w' \<and>
     (w_draws w' \<le> N \<longrightarrow> service_grows (w_ext w) (w_ext w'))"

lemma request_after_refl: "request_after r r"
  by (simp add: request_after_def)

lemma request_after_trans: "request_after r r' \<Longrightarrow> request_after r' r'' \<Longrightarrow> request_after r r''"
  unfolding request_after_def by (metis verification_request.update_convs(17) verification_request.surjective)

lemma service_grows_refl: "service_grows s s"
  by (auto simp: service_grows_def request_after_refl)

lemma service_grows_trans:
  assumes "service_grows s s'" "service_grows s' s''"
  shows "service_grows s s''"
  unfolding service_grows_def
proof (intro conjI allI impI)
  show "prefix (sv_audit_events s) (sv_audit_events s'')"
    using assms by (auto simp: service_grows_def intro: prefix_order.trans)
  show "\<exists>p'. dict_get (sv_policies s'') k = Some p' \<and> policy_core p' = policy_core p"
    if "dict_get (sv_policies s) k = Some p" for k p
    using assms that unfolding service_grows_def by metis
  show "\<exists>r'. dict_get (sv_requests s'') k = Some r' \<and> request_after r r'"
    if "dict_get (sv_requests s) k = Some r" for k r
    using assms that request_after_trans unfolding service_grows_def by metis
qed (use assms in \<open>auto simp: service_grows_def\<close>)

interpretation vg: rely_guarantee "service_inv env N" "service_evolves N" for env N
  by unfold_locales (auto simp: service_evolves_def service_grows_refl intro: service_grows_trans)

abbreviation vsafe :: "'m service_env \<Rightarrow> nat \<Rightarrow> ('m service_world \<Rightarrow> bool) \<Rightarrow> ('m service_world, 'a) action \<Rightarrow>
    ('a \<Rightarrow> 'm service_world \<Rightarrow> bool) \<Rightarrow> bool" where
  "vsafe env N \<equiv> rely_guarantee.safe (service_inv env N) (service_evolves N)"

section \<open>Steps of the service\<close>

lemma service_wf_audit [simp]: "service_wf (s\<lparr>sv_audit_events := x\<rparr>) = service_wf s"
  by (simp add: service_wf_def request_wf_def has_result_def)

lemma service_wfD:
  assumes "service_wf s"
  shows "distinct (map fst (sv_requests s))"
    and "dict_get (sv_policies s) k = Some p \<Longrightarrow> k = (vp_policy_id p, vp_version p)"
    and "dict_get (sv_requests s) v = Some r \<Longrightarrow> vr_verification_id r = v \<and> request_wf s r"
    and "dict_get (sv_requests s) v = Some r \<Longrightarrow> vr_status r = VR_COMPLETED \<longleftrightarrow> has_result s v"
    and "dict_get (sv_result_by_verification s) v \<noteq> None \<Longrightarrow> has_result s v"
    and "dict_get (sv_result_by_verification s) v \<noteq> None \<Longrightarrow> dict_get (sv_requests s) v \<noteq> None"
  using assms unfolding service_wf_def by blast+

lemma vsafe_sv_gets: "(\<And>w. P w \<Longrightarrow> Q (f (w_ext w)) w) \<Longrightarrow> vsafe env N P (sv_gets f) Q"
  by (rule vg.safeI) (auto simp: sv_gets_def gets_def vg.G_refl)

lemma vsafe_step:
  assumes "\<And>w r w'. m w = (r, w') \<Longrightarrow> w_repo w' = w_repo w \<and> w_draws w \<le> w_draws w' \<and> (\<forall>x. P w \<longrightarrow> r = Inr x \<longrightarrow> Q x w')"
    and "\<And>w r w'. service_wf (w_ext w) \<Longrightarrow> P w \<Longrightarrow> m w = (r, w') \<Longrightarrow> service_wf (w_ext w') \<and> service_grows (w_ext w) (w_ext w') \<and>
      fst ` set (sv_requests (w_ext w')) \<subseteq> fst ` set (sv_requests (w_ext w))"
  shows "vsafe env N P m Q"
proof (rule vg.safeI)
  fix w r w' assume inv: "service_inv env N w" and P: "P w" and m: "m w = (r, w')"
  note 1 = assms(1)[OF m]
  have "service_inv env N w' \<and> (w_draws w' \<le> N \<longrightarrow> service_grows (w_ext w) (w_ext w'))"
  proof (cases "w_draws w' \<le> N")
    case True
    then have "service_wf (w_ext w)" using inv 1 by (simp add: service_inv_def)
    note 2 = assms(2)[OF this P m]
    have "dict_get (sv_requests (w_ext w')) (''verification_'' @ env_uuid4 env k) = None" if "w_draws w' \<le> k" "k < N" for k
      using inv 1 2 True that unfolding service_inv_def dict_get_None_iff by (meson in_mono order_trans)
    with 2 show ?thesis by (simp add: service_inv_def)
  qed (simp add: service_inv_def)
  with 1 P show "service_inv env N w' \<and> service_evolves N w w' \<and> (\<forall>x. r = Inr x \<longrightarrow> Q x w')"
    by (simp add: service_evolves_def)
qed

lemma vsafe_sv_update:
  assumes "\<And>w. service_wf (w_ext w) \<Longrightarrow> P w \<Longrightarrow> service_wf (f (w_ext w)) \<and> service_grows (w_ext w) (f (w_ext w)) \<and>
    fst ` set (sv_requests (f (w_ext w))) \<subseteq> fst ` set (sv_requests (w_ext w))"
    and "\<And>w. P w \<Longrightarrow> Q () (w\<lparr>w_ext := f (w_ext w)\<rparr>)"
  shows "vsafe env N P (sv_update f) Q"
  by (rule vsafe_step) (use assms in \<open>auto simp: sv_update_def\<close>)

lemma vsafe_new_id: "vsafe env N (\<lambda>w. A (w_ext w)) (new_id env' pfx) (\<lambda>_ w. A (w_ext w))"
  by (rule vsafe_step) (auto simp: new_id_def service_grows_refl)

lemma vsafe_utc_now: "vsafe env N (\<lambda>w. A (w_ext w)) (utc_now env') (\<lambda>_ w. A (w_ext w))"
  by (rule vsafe_step) (auto simp: utc_now_def service_grows_refl)

lemma vsafe_instant: "vsafe env N (\<lambda>w. A (w_ext w)) (instant env' now) (\<lambda>_ w. A (w_ext w))"
  by (cases now) (simp_all add: instant_def vsafe_utc_now vg.safe_ret)

lemma vsafe_append_audit:
  assumes "\<And>s x. A s \<Longrightarrow> A (s\<lparr>sv_audit_events := x\<rparr>)"
  shows "vsafe env N (\<lambda>w. A (w_ext w)) (append_audit env' e) (\<lambda>_ w. A (w_ext w))"
  unfolding append_audit_def
  by (intro vg.safe_await[OF vsafe_new_id] vg.safe_await[where Q = "\<lambda>_ w. A (w_ext w)"] vg.safe_pure vsafe_sv_update)
    (auto simp: service_grows_def request_after_refl assms)

lemma vsafe_get_policy:
  "vsafe env N (\<lambda>w. A (w_ext w)) (get_policy pid v)
     (\<lambda>p w. A (w_ext w) \<and> dict_get (sv_policies (w_ext w)) (pid, v) = Some p)"
  unfolding get_policy_def
  by (rule vg.safe_await[OF vsafe_sv_gets[where Q = "\<lambda>x w. A (w_ext w) \<and> x = dict_get (sv_policies (w_ext w)) (pid, v)"]])
    (auto intro!: vg.safe_option vg.safe_raise vg.safe_ret)

lemma request_wf_status: "request_wf s (r\<lparr>vr_status := st\<rparr>) = request_wf s r"
  by (auto simp: request_wf_def verification_request_post_init_def sbind_eq_Inr)

text \<open>A stored request changes its status: from pending only, and to completed only with a result.\<close>

lemma set_request_status:
  assumes wf: "service_wf s" and r: "dict_get (sv_requests s) v = Some r" and pend: "vr_status r = VR_PENDING"
    and st: "st = VR_EXPIRED \<or> st = VR_CANCELLED"
  defines "s' \<equiv> s\<lparr>sv_requests := dict_set v (r\<lparr>vr_status := st\<rparr>) (sv_requests s)\<rparr>"
  shows "service_wf s'" "service_grows s s'" "fst ` set (sv_requests s') \<subseteq> fst ` set (sv_requests s)"
proof -
  show "fst ` set (sv_requests s') \<subseteq> fst ` set (sv_requests s)"
    using r dict_get_None_iff[of "sv_requests s" v] by (auto simp: s'_def keys_dict_set)
  have same: "request_wf s' = request_wf s" "has_result s' = has_result s"
    by (auto simp: s'_def request_wf_def has_result_def fun_eq_iff)
  have no: "\<not> has_result s v" using service_wfD(4)[OF wf r] pend by simp
  show "service_wf s'"
    unfolding service_wf_def same
    using wf no st service_wfD(3)[OF wf r]
    by (auto simp: s'_def service_wf_def distinct_dict_set request_wf_status split: if_splits)
  show "service_grows s s'"
    using r pend by (auto simp: s'_def service_grows_def request_after_def)
qed

lemma validated_status:
  assumes "service_wf s" "dict_get (sv_requests s) v = Some r"
    and "verification_request_post_init (r\<lparr>vr_status := st\<rparr>) = Inr u"
  shows "u = r\<lparr>vr_status := st\<rparr>"
  using assms(3) by (auto simp: verification_request_post_init_def sbind_eq_Inr)

lemma vsafe_store_status:
  assumes "st = VR_EXPIRED \<or> st = VR_CANCELLED"
  shows "vsafe env N (\<lambda>w. dict_get (sv_requests (w_ext w)) v = Some r \<and> vr_status r = VR_PENDING) (store_status v r st)
     (\<lambda>u w. dict_get (sv_requests (w_ext w)) v = Some u)"
  unfolding store_status_def
proof (rule vg.safe_await)
  show "vsafe env N (\<lambda>w. dict_get (sv_requests (w_ext w)) v = Some r \<and> vr_status r = VR_PENDING)
      (pure (verification_request_post_init (r\<lparr>vr_status := st\<rparr>)))
      (\<lambda>u w. dict_get (sv_requests (w_ext w)) v = Some r \<and> vr_status r = VR_PENDING \<and> u = r\<lparr>vr_status := st\<rparr>)"
    by (rule vg.safe_pure) (auto simp: verification_request_post_init_def sbind_eq_Inr)
  fix u
  show "vsafe env N (\<lambda>w. dict_get (sv_requests (w_ext w)) v = Some r \<and> vr_status r = VR_PENDING \<and> u = r\<lparr>vr_status := st\<rparr>)
      (await (sv_update (\<lambda>s. s\<lparr>sv_requests := dict_set v u (sv_requests s)\<rparr>)) (\<lambda>_. ret u))
      (\<lambda>u w. dict_get (sv_requests (w_ext w)) v = Some u)"
  proof (rule vg.safe_await[OF vsafe_sv_update[where Q = "\<lambda>_ w. dict_get (sv_requests (w_ext w)) v = Some u"]])
    fix w :: "'a service_world"
    assume wf: "service_wf (w_ext w)"
      and pre: "dict_get (sv_requests (w_ext w)) v = Some r \<and> vr_status r = VR_PENDING \<and> u = r\<lparr>vr_status := st\<rparr>"
    then show "service_wf ((w_ext w)\<lparr>sv_requests := dict_set v u (sv_requests (w_ext w))\<rparr>) \<and>
        service_grows (w_ext w) ((w_ext w)\<lparr>sv_requests := dict_set v u (sv_requests (w_ext w))\<rparr>) \<and>
        fst ` set (sv_requests ((w_ext w)\<lparr>sv_requests := dict_set v u (sv_requests (w_ext w))\<rparr>)) \<subseteq>
          fst ` set (sv_requests (w_ext w))"
      using set_request_status[OF wf _ _ assms, of v r] by simp
  qed (auto intro: vg.safe_ret)
qed

lemma vsafe_get_request:
  "vsafe env N (\<lambda>w. True) (get_request env' v now) (\<lambda>r w. dict_get (sv_requests (w_ext w)) v = Some r)"
proof -
  have stored: "vsafe env N (\<lambda>w. dict_get (sv_requests (w_ext w)) v = Some r)
      (await (instant env' now) (\<lambda>current. if overdue r current then
         await (store_status v r VR_EXPIRED) (\<lambda>expired.
         await (append_audit env' (request_audit REQUEST_EXPIRED current expired)) (\<lambda>_. ret expired))
       else ret r)) (\<lambda>r w. dict_get (sv_requests (w_ext w)) v = Some r)" for r
    by (intro vg.safe_await[OF vsafe_instant[where A = "\<lambda>s. dict_get (sv_requests s) v = Some r"]] vg.safe_if
        vg.safe_await[OF vg.safe_pre[OF vsafe_store_status]]
        vg.safe_await[OF vsafe_append_audit[where A = "\<lambda>s. dict_get (sv_requests s) v = Some _"]] vg.safe_ret)
      (auto simp: overdue_def)
  show ?thesis
    unfolding get_request_def
    by (rule vg.safe_await[OF vsafe_sv_gets[where Q = "\<lambda>x w. x = dict_get (sv_requests (w_ext w)) v"]])
      (auto intro!: vg.safe_option vg.safe_raise vg.safe_pre[OF stored])
qed

section \<open>Recording a result\<close>

definition recorded :: "verification_result \<Rightarrow> verification_request \<Rightarrow> 'm verification_service_scheme \<Rightarrow>
    'm verification_service_scheme" where
  "recorded x r s = s\<lparr>sv_results := dict_set (vx_verification_result_id x) x (sv_results s),
     sv_result_by_verification := dict_set (vr_verification_id r) (vx_verification_result_id x) (sv_result_by_verification s),
     sv_requests := dict_set (vr_verification_id r) (r\<lparr>vr_status := VR_COMPLETED\<rparr>) (sv_requests s)\<rparr>"

lemma recorded_service:
  assumes wf: "service_wf s" and r: "dict_get (sv_requests s) v = Some r" and pend: "vr_status r = VR_PENDING"
  shows "service_wf (recorded x r s)" "service_grows s (recorded x r s)"
    "fst ` set (sv_requests (recorded x r s)) \<subseteq> fst ` set (sv_requests s)"
proof -
  have v: "vr_verification_id r = v" and rwf: "request_wf s r" using service_wfD(3)[OF wf r] by auto
  have no: "dict_get (sv_result_by_verification s) v = None"
    using service_wfD(4)[OF wf r] service_wfD(5)[OF wf, of v] pend
    by (cases "dict_get (sv_result_by_verification s) v") auto
  have same: "request_wf (recorded x r s) = request_wf s"
    by (auto simp: recorded_def request_wf_def fun_eq_iff)
  have has: "has_result (recorded x r s) k \<longleftrightarrow> k = v \<or> has_result s k" for k
    using service_wfD(5)[OF wf, of k] by (auto simp: has_result_def recorded_def v split: if_splits)
  show "service_wf (recorded x r s)"
    unfolding service_wf_def same has
    using wf rwf v by (auto simp: recorded_def service_wf_def distinct_dict_set request_wf_status split: if_splits)
  show "fst ` set (sv_requests (recorded x r s)) \<subseteq> fst ` set (sv_requests s)"
    using r dict_get_None_iff[of "sv_requests s" v] by (auto simp: recorded_def v keys_dict_set)
  show "service_grows s (recorded x r s)"
    using r pend no by (auto simp: recorded_def v service_grows_def request_after_def)
qed

definition record_result :: "verification_result \<Rightarrow> verification_request \<Rightarrow> ('m service_world, verification_request) action" where
  "record_result x r = await (sv_update (\<lambda>s. s\<lparr>sv_results := dict_set (vx_verification_result_id x) x (sv_results s),
       sv_result_by_verification := dict_set (vr_verification_id r) (vx_verification_result_id x)
         (sv_result_by_verification s)\<rparr>)) (\<lambda>_. store_status (vr_verification_id r) r VR_COMPLETED)"

lemma record_result_run:
  assumes "service_wf (w_ext w)" "dict_get (sv_requests (w_ext w)) v = Some r"
  shows "record_result x r w = (Inr (r\<lparr>vr_status := VR_COMPLETED\<rparr>), w\<lparr>w_ext := recorded x r (w_ext w)\<rparr>)"
proof -
  have "verification_request_post_init (r\<lparr>vr_status := VR_COMPLETED\<rparr>) = Inr (r\<lparr>vr_status := VR_COMPLETED\<rparr>)"
    using service_wfD(3)[OF assms] request_wf_status[where s = "w_ext w" and r = r and st = VR_COMPLETED]
    by (auto simp: request_wf_def)
  then show ?thesis
    by (simp add: record_result_def sv_update_def store_status_def recorded_def await_def ret_def)
qed

lemma record_result_frame:
  assumes "record_result x r w = (res, w')"
  shows "w_repo w' = w_repo w \<and> w_draws w \<le> w_draws w'"
  using assms
  by (auto simp: record_result_def sv_update_def store_status_def await_def ret_def pure_def split: sum.splits)

lemma vsafe_record:
  "vsafe env N (\<lambda>w. dict_get (sv_requests (w_ext w)) v = Some r \<and> vr_status r = VR_PENDING) (record_result x r) (\<lambda>_ _. True)"
proof (rule vsafe_step)
  fix w :: "'a service_world" and res w'
  assume wf: "service_wf (w_ext w)" and r: "dict_get (sv_requests (w_ext w)) v = Some r \<and> vr_status r = VR_PENDING"
    and run: "record_result x r w = (res, w')"
  have "w_ext w' = recorded x r (w_ext w)" using record_result_run[OF wf conjunct1[OF r], of x] run by auto
  with recorded_service[OF wf conjunct1[OF r] conjunct2[OF r], of x]
  show "service_wf (w_ext w') \<and> service_grows (w_ext w) (w_ext w') \<and>
    fst ` set (sv_requests (w_ext w')) \<subseteq> fst ` set (sv_requests (w_ext w))" by simp
qed (auto dest: record_result_frame)

section \<open>Every operation of the service\<close>

abbreviation vkeeps :: "'m service_env \<Rightarrow> nat \<Rightarrow> ('m service_world, 'a) action \<Rightarrow> bool" where
  "vkeeps env N m \<equiv> vsafe env N (\<lambda>_. True) m (\<lambda>_ _. True)"

lemma vsafe_any: "vsafe env N P m Q \<Longrightarrow> vsafe env N P m (\<lambda>_ _. True)"
  by (rule vg.safe_post) auto

lemma vkeeps_audit: "vkeeps env N (append_audit env' e)"
  by (rule vsafe_append_audit[where A = "\<lambda>_. True"]) simp

lemma vkeeps_then: "vsafe env N P m Q \<Longrightarrow> (\<And>x. vkeeps env N (f x)) \<Longrightarrow> vsafe env N P (await m f) (\<lambda>_ _. True)"
  by (rule vg.safe_await) (auto intro: vg.safe_pre)

lemma vkeeps_ret: "vkeeps env N (ret x)" and vkeeps_pure: "vkeeps env N (pure r)" and vkeeps_raise: "vkeeps env N (raise e)"
  by (auto intro: vg.safe_ret vg.safe_pure vg.safe_raise)

lemma vkeeps_get_policy: "vkeeps env N (get_policy pid v)"
  by (rule vsafe_any[OF vsafe_get_policy[where A = "\<lambda>_. True"]])

lemma vkeeps_get_request: "vkeeps env N (get_request env' v now)"
  by (rule vsafe_any[OF vsafe_get_request])

lemmas vkeeps_clock = vsafe_utc_now[where A = "\<lambda>_. True"] vsafe_instant[where A = "\<lambda>_. True"]
  vsafe_new_id[where A = "\<lambda>_. True"]

lemma vkeeps_gets: "vkeeps env N (sv_gets f)"
  by (rule vsafe_sv_gets) simp

lemmas vkeeps_basic = vkeeps_ret vkeeps_pure vkeeps_raise vkeeps_get_policy vkeeps_get_request vkeeps_clock
  vkeeps_gets vkeeps_audit

lemma policy_core_fields:
  assumes "policy_core p = policy_core q"
  shows "vp_stages p = vp_stages q" "vp_policy_id p = vp_policy_id q" "vp_version p = vp_version q"
    "vp_max_repair_attempts p = vp_max_repair_attempts q"
  using assms by (cases p; cases q; simp add: policy_core_def)+

lemma register_keeps:
  assumes wf: "service_wf s" and key: "key = (vp_policy_id p, vp_version p)"
    and same: "\<forall>q. dict_get (sv_policies s) key = Some q \<longrightarrow> policy_core p = policy_core q"
  defines "s' \<equiv> s\<lparr>sv_policies := dict_set key p (sv_policies s)\<rparr>"
  shows "service_wf s'" "service_grows s s'"
proof -
  have "request_wf s' r" if r: "request_wf s r" for r
  proof -
    obtain q st where q: "dict_get (sv_policies s) (vr_policy_id r, vr_policy_version r) = Some q"
      "policy_stage q (vr_stage_id r) = Inr st" "vr_requested_verifier_kind r = sg_verifier_kind st"
      "vr_repair_attempt r \<le> vp_max_repair_attempts q" "verification_request_post_init r = Inr r"
      using r by (auto simp: request_wf_def)
    show ?thesis
    proof (cases "key = (vr_policy_id r, vr_policy_version r)")
      case True
      with same q(1) have "policy_core p = policy_core q" by auto
      note f = policy_core_fields[OF this]
      show ?thesis
        unfolding request_wf_def
        using True q(5) q(2-4)[unfolded policy_stage_def f(1,4)[symmetric]]
        by (intro conjI exI[of _ p] exI[of _ st]) (simp_all add: s'_def policy_stage_def)
    qed (use q in \<open>auto simp: request_wf_def s'_def\<close>)
  qed
  moreover have "has_result s' = has_result s" by (auto simp: s'_def has_result_def fun_eq_iff)
  ultimately show "service_wf s'"
    using wf key unfolding service_wf_def by (auto simp: s'_def split: if_splits)
  show "service_grows s s'"
    using same by (auto simp: s'_def service_grows_def request_after_refl split: if_splits)
qed

lemma vkeeps_register_policy: "vkeeps env N (register_policy env policy)"
proof -
  let ?key = "(vp_policy_id policy, vp_version policy)"
  have store: "vsafe env N (\<lambda>w. dict_get (sv_policies (w_ext w)) ?key = found \<and> (\<forall>q. found = Some q \<longrightarrow> same_policy q policy))
      (sv_update (\<lambda>s. s\<lparr>sv_policies := dict_set ?key policy (sv_policies s)\<rparr>)) (\<lambda>_ _. True)" for found
  proof (rule vsafe_sv_update)
    fix w :: "'a service_world"
    assume wf: "service_wf (w_ext w)"
      and pre: "dict_get (sv_policies (w_ext w)) ?key = found \<and> (\<forall>q. found = Some q \<longrightarrow> same_policy q policy)"
    then have "\<forall>q. dict_get (sv_policies (w_ext w)) ?key = Some q \<longrightarrow> policy_core policy = policy_core q"
      by (auto simp: same_policy_def policy_core_def)
    from register_keeps[OF wf refl this]
    show "service_wf ((w_ext w)\<lparr>sv_policies := dict_set ?key policy (sv_policies (w_ext w))\<rparr>) \<and>
      service_grows (w_ext w) ((w_ext w)\<lparr>sv_policies := dict_set ?key policy (sv_policies (w_ext w))\<rparr>) \<and>
      fst ` set (sv_requests ((w_ext w)\<lparr>sv_policies := dict_set ?key policy (sv_policies (w_ext w))\<rparr>)) \<subseteq>
        fst ` set (sv_requests (w_ext w))" by simp
  qed simp
  show ?thesis
    unfolding register_policy_def Let_def
  proof (rule vg.safe_await[OF vsafe_sv_gets[where Q = "\<lambda>x w. dict_get (sv_policies (w_ext w)) ?key = x"]])
    fix found
    show "vsafe env N (\<lambda>w. dict_get (sv_policies (w_ext w)) ?key = found)
      (if found \<noteq> None \<and> \<not> same_policy (the found) policy then raise (contract_error CONFLICT)
       else await (sv_update (\<lambda>s. s\<lparr>sv_policies := dict_set ?key policy (sv_policies s)\<rparr>)) (\<lambda>_.
         if found \<noteq> None then ret policy
         else await (append_audit env (\<lambda>event_id.
           \<lparr>ae_event_type = POLICY_REGISTERED, ae_event_id = event_id, ae_occurred_at = vp_created_at policy,
            ae_task_id = None, ae_verification_id = None, ae_run_id = None, ae_project_id = None,
            ae_policy_id = Some (vp_policy_id policy), ae_policy_version = Some (vp_version policy),
            ae_stage_id = None, ae_subject = None, ae_requested_verifier_kind = None, ae_verifier = None,
            ae_outcome = None, ae_repair_attempt = 0, ae_correlation_id = None, ae_causation_id = None,
            ae_evidence_artifact_ids = [], ae_checks_executed = [],
            ae_metadata = [(''creator_ref'', opt_json (vp_creator_ref policy)),
              (''provenance_source'', opt_json (map_option pv_source (vp_provenance policy)))]\<rparr>)) (\<lambda>_.
         ret policy))) (\<lambda>_ _. True)"
      by (intro vg.safe_if vg.safe_raise vkeeps_then[OF vg.safe_pre[OF store[of found]]] vkeeps_then[OF vkeeps_audit] vkeeps_ret)
        auto
  qed simp
qed

lemma new_request_keeps:
  assumes wf: "service_wf s" and r: "verification_request_post_init r = Inr r" "vr_status r = VR_PENDING"
    and p: "dict_get (sv_policies s) (vr_policy_id r, vr_policy_version r) = Some p"
      "policy_stage p (vr_stage_id r) = Inr st" "vr_requested_verifier_kind r = sg_verifier_kind st"
      "vr_repair_attempt r \<le> vp_max_repair_attempts p"
    and fresh: "dict_get (sv_requests s) (vr_verification_id r) = None"
  defines "s' \<equiv> s\<lparr>sv_requests := dict_set (vr_verification_id r) r (sv_requests s)\<rparr>"
  shows "service_wf s'" "service_grows s s'"
proof -
  have same: "request_wf s' = request_wf s" "has_result s' = has_result s"
    by (auto simp: s'_def request_wf_def has_result_def fun_eq_iff)
  have "request_wf s r" using r p by (auto simp: request_wf_def)
  moreover have "\<not> has_result s (vr_verification_id r)" using fresh service_wfD(6)[OF wf, of "vr_verification_id r"] by (auto simp: has_result_def)
  ultimately show "service_wf s'"
    unfolding service_wf_def same
    using wf r(2) by (auto simp: s'_def service_wf_def distinct_dict_set split: if_splits)
  show "service_grows s s'"
    using fresh by (auto simp: s'_def service_grows_def request_after_refl)
qed

text \<open>A request gets the identifier drawn just before it is stored.\<close>

definition fresh_request :: "verification_request \<Rightarrow> 'm service_world \<Rightarrow> bool" where
  "fresh_request r w \<longleftrightarrow> verification_request_post_init r = Inr r \<and> vr_status r = VR_PENDING \<and>
     (\<exists>key p st. dict_get (sv_policies (w_ext w)) key = Some p \<and> vr_policy_id r = vp_policy_id p \<and>
       vr_policy_version r = vp_version p \<and> policy_stage p (vr_stage_id r) = Inr st \<and>
       vr_requested_verifier_kind r = sg_verifier_kind st \<and> vr_repair_attempt r \<le> vp_max_repair_attempts p)"

definition drawn :: "'m service_env \<Rightarrow> nat \<Rightarrow> string \<Rightarrow> 'm service_world \<Rightarrow> bool" where
  "drawn env N v w \<longleftrightarrow> (w_draws w \<le> N \<longrightarrow> dict_get (sv_requests (w_ext w)) v = None \<and>
     (\<forall>k. w_draws w \<le> k \<longrightarrow> k < N \<longrightarrow> v \<noteq> ''verification_'' @ env_uuid4 env k))"

lemma vsafe_draw:
  assumes "inj_on (env_uuid4 env) {..<N}"
  shows "vsafe env N (\<lambda>w. A (w_ext w)) (new_id env ''verification'') (\<lambda>v w. A (w_ext w) \<and> drawn env N v w)"
proof (rule vg.safeI)
  fix w :: "'a service_world" and r w'
  assume inv: "service_inv env N w" and A: "A (w_ext w)" and run: "new_id env ''verification'' w = (r, w')"
  have r: "r = Inr (''verification_'' @ env_uuid4 env (w_draws w))" "w' = w\<lparr>w_draws := Suc (w_draws w)\<rparr>"
    using run by (auto simp: new_id_def)
  have "env_uuid4 env (w_draws w) \<noteq> env_uuid4 env k" if "Suc (w_draws w) \<le> k" "k < N" for k
    using inj_onD[OF assms, of "w_draws w" k] that by auto
  then have "drawn env N (''verification_'' @ env_uuid4 env (w_draws w)) w'"
    using inv by (auto simp: drawn_def service_inv_def r)
  then show "service_inv env N w' \<and> service_evolves N w w' \<and> (\<forall>v. r = Inr v \<longrightarrow> A (w_ext w') \<and> drawn env N v w')"
    using inv A by (auto simp: r service_inv_def service_evolves_def service_grows_refl)
qed

lemma vsafe_add_request:
  "vsafe env N (\<lambda>w. fresh_request r w \<and> drawn env N (vr_verification_id r) w)
    (sv_update (\<lambda>s. s\<lparr>sv_requests := dict_set (vr_verification_id r) r (sv_requests s)\<rparr>)) (\<lambda>_ _. True)"
proof (rule vg.safeI)
  fix w :: "'a service_world" and res w'
  let ?s = "(w_ext w)\<lparr>sv_requests := dict_set (vr_verification_id r) r (sv_requests (w_ext w))\<rparr>"
  assume inv: "service_inv env N w" and pre: "fresh_request r w \<and> drawn env N (vr_verification_id r) w"
    and run: "sv_update (\<lambda>s. s\<lparr>sv_requests := dict_set (vr_verification_id r) r (sv_requests s)\<rparr>) w = (res, w')"
  have w': "w' = w\<lparr>w_ext := ?s\<rparr>" using run by (simp add: sv_update_def)
  have "service_wf ?s \<and> service_grows (w_ext w) ?s" if N: "w_draws w \<le> N"
  proof -
    have wf: "service_wf (w_ext w)" using inv N by (simp add: service_inv_def)
    obtain key p st where "dict_get (sv_policies (w_ext w)) key = Some p" "vr_policy_id r = vp_policy_id p"
      "vr_policy_version r = vp_version p" "policy_stage p (vr_stage_id r) = Inr st"
      "vr_requested_verifier_kind r = sg_verifier_kind st" "vr_repair_attempt r \<le> vp_max_repair_attempts p"
      using pre by (auto simp: fresh_request_def)
    with new_request_keeps[OF wf, of r p st] service_wfD(2)[OF wf, of key p] pre N show ?thesis
      by (auto simp: fresh_request_def drawn_def)
  qed
  then show "service_inv env N w' \<and> service_evolves N w w' \<and> (\<forall>x. res = Inr x \<longrightarrow> True)"
    using inv pre by (auto simp: w' service_inv_def service_evolves_def drawn_def)
qed

lemma policy_stage_id: "policy_stage p i = Inr st \<Longrightarrow> sg_stage_id st = i \<and> st \<in> set (vp_stages p)"
  by (auto simp: policy_stage_def split: option.splits dest: find_SomeD)

lemma vkeeps_request_verification:
  assumes "inj_on (env_uuid4 env) {..<N}"
  shows "vkeeps env N (request_verification env task_id policy_id policy_version stage_id subject correlation_id run_id
    result_id artifact_ids project_id capability_ids producer repair_attempt causation_id now canonical)"
  unfolding request_verification_def
proof (rule vkeeps_then[OF vkeeps_gets], rule vg.safe_if[OF vkeeps_raise],
    rule vg.safe_await[OF vsafe_get_policy[where A = "\<lambda>_. True"]])
  fix p
  let ?A = "\<lambda>s. dict_get (sv_policies s) (policy_id, policy_version) = Some p"
  let ?mk = "\<lambda>st current v. \<lparr>vr_task_id = task_id, vr_policy_id = vp_policy_id p, vr_policy_version = vp_version p,
        vr_stage_id = sg_stage_id st, vr_subject = subject,
        vr_requested_verifier_kind = sg_verifier_kind st, vr_correlation_id = correlation_id,
        vr_verification_id = v, vr_run_id = run_id, vr_result_id = result_id,
        vr_artifact_ids = artifact_ids, vr_project_id = project_id, vr_capability_ids = capability_ids,
        vr_requested_capability_ref = sg_capability_ref st, vr_producer = producer,
        vr_repair_attempt = repair_attempt, vr_status = VR_PENDING, vr_created_at = current,
        vr_expires_at = map_option (\<lambda>s. current + timedelta_us s) (vp_request_timeout_seconds p),
        vr_causation_id = causation_id\<rparr>"
  show "vsafe env N (\<lambda>w. True \<and> ?A (w_ext w)) (case policy_stage p stage_id of Inl _ \<Rightarrow> raise (contract_error INVALID_REQUEST)
     | Inr stage \<Rightarrow>
     await (instant env now) (\<lambda>current.
     if vp_max_repair_attempts p < repair_attempt then raise (contract_error CONFLICT)
     else
     await (pure (require_policy_scope p task_id project_id capability_ids producer)) (\<lambda>_.
     await (new_id env ''verification'') (\<lambda>v.
     await (pure (verification_request_post_init (?mk stage current v))) (\<lambda>request.
     await (sv_update (\<lambda>s. s\<lparr>sv_requests := dict_set (vr_verification_id request) request (sv_requests s)\<rparr>)) (\<lambda>_.
     await (append_audit env (\<lambda>event_id. (request_audit
         (if 0 < vr_repair_attempt request then REVERIFICATION_REQUESTED else REQUESTED)
         (vr_created_at request) request event_id)
       \<lparr>ae_metadata := [(''result_id'', opt_json (vr_result_id request)),
          (''artifact_ids'', JList (map JStr (vr_artifact_ids request))),
          (''capability_ids'', JList (map JStr (vr_capability_ids request))),
          (''requested_capability_ref'', opt_json (vr_requested_capability_ref request))]\<rparr>)) (\<lambda>_.
     ret request))))))) (\<lambda>_ _. True)"
  proof (cases "policy_stage p stage_id")
    case (Inr st)
    have st: "policy_stage p (sg_stage_id st) = Inr st" using Inr policy_stage_id[OF Inr] by simp
    have made: "vsafe env N (\<lambda>w. ?A (w_ext w) \<and> drawn env N v w) (pure (verification_request_post_init (?mk st current v)))
        (\<lambda>r w. fresh_request r w \<and> drawn env N (vr_verification_id r) w)"
      if "\<not> vp_max_repair_attempts p < repair_attempt" for current v
    proof (rule vg.safe_pure)
      fix r and w :: "'a service_world"
      assume r: "verification_request_post_init (?mk st current v) = Inr r" and w: "?A (w_ext w) \<and> drawn env N v w"
      then have "r = ?mk st current v" by (auto simp: verification_request_post_init_def sbind_eq_Inr)
      with r w st that show "fresh_request r w \<and> drawn env N (vr_verification_id r) w"
        unfolding fresh_request_def by (intro conjI exI[of _ "(policy_id, policy_version)"] exI[of _ p] exI[of _ st]) simp_all
    qed
    show ?thesis
      unfolding Inr sum.case
      by (rule vg.safe_pre[where P' = "\<lambda>w. ?A (w_ext w)"],
          intro vg.safe_await[OF vsafe_instant[where A = ?A]] vg.safe_if vg.safe_raise
          vg.safe_await[OF vg.safe_pure[where Q = "\<lambda>(_::unit) w. ?A (w_ext w)"]] vg.safe_await[OF vsafe_draw[OF assms, where A = ?A]]
          vg.safe_await[OF made] vkeeps_then[OF vsafe_add_request] vkeeps_then[OF vkeeps_audit] vkeeps_ret) auto
  qed (simp add: vg.safe_raise)
qed

lemma vkeeps_cancel_request: "vkeeps env N (cancel_request env' v now causation_id)"
  unfolding cancel_request_def
  by (intro vkeeps_then[OF vkeeps_clock(2)] vg.safe_await[OF vsafe_get_request] vg.safe_if vg.safe_ret vg.safe_raise
      vkeeps_then[OF vg.safe_pre[OF vsafe_store_status]] vkeeps_then[OF vkeeps_audit] vkeeps_ret) auto

lemma vkeeps_validate_verifier: "vkeeps env N (validate_verifier env' v verifier)"
  unfolding validate_verifier_def
  by (intro vkeeps_then[OF vkeeps_get_request] vg.safe_if vkeeps_then[OF vkeeps_get_policy] vkeeps_then[OF vkeeps_pure]
      vkeeps_basic)

lemma vkeeps_submit_result: "vkeeps env N (submit_result env' x canonical)"
proof -
  have body: "vsafe env N (\<lambda>w. dict_get (sv_requests (w_ext w)) (vx_verification_id x) = Some r \<and> vr_status r = VR_PENDING)
    (await (get_policy (vr_policy_id r) (vr_policy_version r)) (\<lambda>policy.
     await (pure (enforce_independence policy r (vx_verifier x))) (\<lambda>_.
     await (record_result x r) (\<lambda>_. await (append_audit env' event) (\<lambda>_. ret x))))) (\<lambda>_ _. True)" for r event
    by (intro
        vg.safe_await[OF vsafe_get_policy[where A = "\<lambda>s. dict_get (sv_requests s) (vx_verification_id x) = Some r \<and> vr_status r = VR_PENDING"]]
        vg.safe_await[OF vg.safe_pure[where Q = "\<lambda>(_::unit) w. dict_get (sv_requests (w_ext w)) (vx_verification_id x) = Some r \<and> vr_status r = VR_PENDING"]]
        vkeeps_then[OF vsafe_record[where v = "vx_verification_id x"]] vkeeps_then[OF vkeeps_audit] vkeeps_ret) auto
  show ?thesis
    unfolding submit_result_def
    by (intro vkeeps_then[OF vkeeps_gets] vg.safe_if vkeeps_raise vg.safe_raise vg.safe_await[OF vsafe_get_request]
        vg.safe_pre[OF body[unfolded record_result_def await_assoc]]) auto
qed

lemma vkeeps_make_result: "vkeeps env N (make_result env' v verifier outcome subject findings evidence checks)"
  unfolding make_result_def
  by (intro vkeeps_then[OF vkeeps_clock(3)] vkeeps_then[OF vkeeps_clock(1)] vkeeps_pure)

lemma vkeeps_reference_verify: "vkeeps env N (reference_verify env' verifier_id checks request)"
  unfolding reference_verify_def
  by (intro vg.safe_if vkeeps_raise vkeeps_then[OF vkeeps_pure] vkeeps_make_result)

lemma vkeeps_run_deterministic:
  assumes "\<And>r. vkeeps env N (verify r)"
  shows "vkeeps env N (run_deterministic env' v verify)"
  unfolding run_deterministic_def
  by (intro vkeeps_then[OF vkeeps_get_request] vg.safe_if vkeeps_raise vkeeps_then[OF assms] vkeeps_submit_result)

lemma vkeeps_record_human_review: "vkeeps env N (record_human_review env' v reviewer outcome comment evidence)"
  unfolding record_human_review_def
  by (intro vkeeps_then[OF vkeeps_get_request] vkeeps_then[OF vkeeps_pure] vkeeps_then[OF vkeeps_make_result]
      vkeeps_submit_result)

lemma vkeeps_record_agent_review: "vkeeps env N (record_agent_review env' v verifier outcome findings evidence checks)"
  unfolding record_agent_review_def
  by (intro vg.safe_if vkeeps_raise vkeeps_then[OF vkeeps_get_request] vkeeps_then[OF vkeeps_make_result]
      vkeeps_submit_result)

lemma vkeeps_request_reverification:
  assumes "inj_on (env_uuid4 env) {..<N}"
  shows "vkeeps env N (request_reverification_after_repair env v subject correlation_id run_id result_id artifact_ids
    causation_id producer project_id capability_ids replace_context canonical)"
proof -
  have read: "vkeeps env N (\<lambda>w. (result_for (w_ext w) v, w))"
    by (rule vg.safeI) (auto simp: vg.G_refl)
  show ?thesis
    unfolding request_reverification_after_repair_def
    by (intro vkeeps_then[OF vkeeps_gets] vg.safe_if vkeeps_raise vkeeps_then[OF vkeeps_get_request] vkeeps_then[OF read]
        vkeeps_then[OF vkeeps_get_policy] vkeeps_request_verification[OF assms])
qed

lemma vkeeps_assess_completion: "vkeeps env N (assess_completion env' task_id subject policy_id policy_version now)"
  unfolding assess_completion_def
  by (intro vg.safe_option vg.safe_if vkeeps_raise vkeeps_pure vkeeps_then[OF vkeeps_get_policy]
      vkeeps_then[OF vkeeps_clock(2)] vkeeps_then[OF vkeeps_gets])

end
