(* ===== verification/Completion_Gate.thy ===== *)
theory Completion_Gate
  imports Verification_Safe
begin

text \<open>
  The completion authority of \<open>verification/gate.py\<close>: which policy governs a task, which exact output
  is bound for review, and the decision the kernel asks for. Its state extends the verification
  service's.
\<close>

section \<open>State\<close>

record task_verification_requirement =
  tr_task_id :: string
  tr_policy_id :: string
  tr_policy_version :: int
  tr_subject :: "verification_subject option"
  tr_created_at :: datetime
  tr_updated_at :: datetime

definition task_verification_requirement_post_init ::
  "task_verification_requirement \<Rightarrow> py_error + task_verification_requirement" where
  "task_verification_requirement_post_init x =
     sbind (validate_id (tr_task_id x) ''task'') (\<lambda>_.
     sbind (validate_id (tr_policy_id x) ''verification_policy'') (\<lambda>_.
     sbind (guard (1 \<le> tr_policy_version x) ValueError) (\<lambda>_.
     sbind (guard (tr_created_at x \<le> tr_updated_at x) ValueError) (\<lambda>_. Inr x))))"

record completion_authority = verification_service +
  ca_requirements :: "task_verification_requirement dict"

type_synonym 'm gate_world = "'m completion_authority_scheme world"
type_synonym 'm gate_env = "'m completion_authority_scheme kernel_env"

definition store_requirement :: "string \<Rightarrow> task_verification_requirement \<Rightarrow>
    ('m gate_world, task_verification_requirement) action" where
  \<comment> \<open>a constructed or replaced requirement, stored under the given task\<close>
  "store_requirement task_id requirement =
     await (pure (task_verification_requirement_post_init requirement)) (\<lambda>r.
     await (sv_update (\<lambda>s. s\<lparr>ca_requirements := dict_set task_id r (ca_requirements s)\<rparr>)) (\<lambda>_.
     ret r))"

definition find_requirement :: "string \<Rightarrow> ('m gate_world, task_verification_requirement option) action" where
  "find_requirement task_id = sv_gets (\<lambda>s. dict_get (ca_requirements s) task_id)"

section \<open>Requirements and subjects\<close>

definition require_task :: "'m gate_env \<Rightarrow> string \<Rightarrow> string \<Rightarrow> int \<Rightarrow> datetime option \<Rightarrow>
    ('m gate_world, task_verification_requirement) action" where
  "require_task env task_id policy_id policy_version now =
     await (pure (validate_id task_id ''task'')) (\<lambda>_.
     await (get_policy policy_id policy_version) (\<lambda>_.
     await (instant env now) (\<lambda>current.
     await (find_requirement task_id) (\<lambda>existing.
     case existing of
       Some r \<Rightarrow>
         if (tr_policy_id r, tr_policy_version r) \<noteq> (policy_id, policy_version)
         then raise (contract_error CONFLICT) else ret r
     | None \<Rightarrow> store_requirement task_id
         \<lparr>tr_task_id = task_id, tr_policy_id = policy_id, tr_policy_version = policy_version,
          tr_subject = None, tr_created_at = current, tr_updated_at = current\<rparr>))))"

definition requirement_for :: "string \<Rightarrow> ('m gate_world, task_verification_requirement option) action" where
  "requirement_for task_id = await (pure (validate_id task_id ''task'')) (\<lambda>_. find_requirement task_id)"

definition invalidate_task_subject :: "'m gate_env \<Rightarrow> string \<Rightarrow> datetime option \<Rightarrow>
    ('m gate_world, task_verification_requirement option) action" where
  "invalidate_task_subject env task_id now =
     await (pure (validate_id task_id ''task'')) (\<lambda>_.
     await (find_requirement task_id) (\<lambda>requirement.
     case requirement of
       None \<Rightarrow> ret None
     | Some r \<Rightarrow>
         if tr_subject r = None then ret (Some r)
         else
         await (instant env now) (\<lambda>current.
         await (store_requirement task_id (r\<lparr>tr_subject := None, tr_updated_at := current\<rparr>)) (\<lambda>updated.
         ret (Some updated)))))"

definition bind_subject :: "'m gate_env \<Rightarrow> string \<Rightarrow> verification_subject \<Rightarrow> datetime option \<Rightarrow>
    ('m gate_world, task_verification_requirement) action" where
  "bind_subject env task_id subject now =
     await (pure (validate_id task_id ''task'')) (\<lambda>_.
     await (find_requirement task_id) (\<lambda>requirement.
     case requirement of
       None \<Rightarrow> raise (contract_error CONFLICT)
     | Some r \<Rightarrow>
         await (instant env now) (\<lambda>current.
         if tr_subject r = Some subject then ret r
         else store_requirement task_id (r\<lparr>tr_subject := Some subject, tr_updated_at := current\<rparr>))))"

section \<open>Requests through the gate\<close>

definition bind_request :: "'m gate_env \<Rightarrow> datetime option \<Rightarrow> verification_request \<Rightarrow>
    ('m gate_world, verification_request) action" where
  \<comment> \<open>the shared end: the request's policy governs its task, its subject is bound\<close>
  "bind_request env now request =
     await (require_task env (vr_task_id request) (vr_policy_id request) (vr_policy_version request) now) (\<lambda>_.
     await (bind_subject env (vr_task_id request) (vr_subject request) now) (\<lambda>_.
     ret request))"

definition gate_request_verification :: "'m gate_env \<Rightarrow> string \<Rightarrow> string \<Rightarrow> int \<Rightarrow> string \<Rightarrow>
    verification_subject \<Rightarrow> string \<Rightarrow> string option \<Rightarrow> string option \<Rightarrow> string list \<Rightarrow> string option \<Rightarrow>
    string list \<Rightarrow> producer_identity option \<Rightarrow> int \<Rightarrow> string option \<Rightarrow> datetime option \<Rightarrow> bool \<Rightarrow>
    ('m gate_world, verification_request) action" where
  \<comment> \<open>\<open>request_verification\<close>, and with a canonical subject \<open>request_canonical_verification\<close>\<close>
  "gate_request_verification env task_id policy_id policy_version stage_id subject correlation_id run_id result_id
     artifact_ids project_id capability_ids producer repair_attempt causation_id now canonical_subject =
     await (request_verification env task_id policy_id policy_version stage_id subject correlation_id run_id
       result_id artifact_ids project_id capability_ids producer repair_attempt causation_id now canonical_subject)
     (\<lambda>request.
     await (require_task env task_id policy_id policy_version now) (\<lambda>_.
     await (bind_subject env task_id subject now) (\<lambda>_.
     ret request)))"

definition gate_request_reverification :: "'m gate_env \<Rightarrow> string \<Rightarrow> verification_subject \<Rightarrow> string \<Rightarrow>
    string option \<Rightarrow> string option \<Rightarrow> string list \<Rightarrow> string option \<Rightarrow>
    ('m gate_world, verification_request) action" where
  \<comment> \<open>\<open>request_reverification_after_repair\<close>\<close>
  "gate_request_reverification env verification_id new_subject correlation_id run_id result_id artifact_ids
     causation_id =
     await (request_reverification_after_repair env verification_id new_subject correlation_id run_id result_id
       artifact_ids causation_id None None None False False) (bind_request env None)"

definition gate_request_canonical_reverification :: "'m gate_env \<Rightarrow> string \<Rightarrow> verification_subject \<Rightarrow> string \<Rightarrow>
    string option \<Rightarrow> string option \<Rightarrow> string list \<Rightarrow> string option \<Rightarrow> string list \<Rightarrow>
    producer_identity option \<Rightarrow> string option \<Rightarrow> ('m gate_world, verification_request) action" where
  \<comment> \<open>\<open>request_canonical_reverification_after_repair\<close>\<close>
  "gate_request_canonical_reverification env verification_id new_subject correlation_id run_id result_id
     artifact_ids project_id capability_ids producer causation_id =
     await (request_reverification_after_repair env verification_id new_subject correlation_id run_id result_id
       artifact_ids causation_id producer project_id (Some capability_ids) True True) (bind_request env None)"

section \<open>The decision\<close>

definition gate_decision :: "string \<Rightarrow> completion_state \<Rightarrow> string \<Rightarrow> task_verification_requirement option \<Rightarrow>
    verification_subject option \<Rightarrow> py_error + completion_gate_decision" where
  "gate_decision task_id state reason requirement subject =
     completion_gate_decision_post_init
       \<lparr>cg_task_id = task_id, cg_state = state, cg_reason = reason,
        cg_policy_id = map_option tr_policy_id requirement,
        cg_policy_version = map_option tr_policy_version requirement, cg_subject = subject,
        cg_blocking_verification_ids = [], cg_repair_attempts_remaining = 0\<rparr>"

definition assessed_decision :: "string \<Rightarrow> completion_assessment \<Rightarrow> py_error + completion_gate_decision" where
  "assessed_decision task_id assessment =
     completion_gate_decision_post_init
       \<lparr>cg_task_id = task_id, cg_state = as_state assessment, cg_reason = as_reason assessment,
        cg_policy_id = as_policy_id assessment, cg_policy_version = as_policy_version assessment,
        cg_subject = Some (as_subject assessment),
        cg_blocking_verification_ids = as_blocking_verification_ids assessment,
        cg_repair_attempts_remaining = as_repair_attempts_remaining assessment\<rparr>"

definition assess_task_completion :: "'m gate_env \<Rightarrow> string \<Rightarrow>
    ('m gate_world, completion_gate_decision) action" where
  "assess_task_completion env task_id =
     await (pure (validate_id task_id ''task'')) (\<lambda>_.
     await (find_requirement task_id) (\<lambda>requirement.
     case requirement of
       None \<Rightarrow> pure (gate_decision task_id C_ACCEPTED
         ''no verification requirement is registered for task'' None None)
     | Some r \<Rightarrow>
         await (get_policy (tr_policy_id r) (tr_policy_version r)) (\<lambda>policy.
         if vp_stages policy = []
         then pure (gate_decision task_id C_ACCEPTED
           ''verification policy contains no required stages'' requirement (tr_subject r))
         else case tr_subject r of
           None \<Rightarrow> pure (gate_decision task_id C_WAITING
             ''required verification subject has not been bound yet'' requirement None)
         | Some subject \<Rightarrow>
             await (assess_completion env task_id subject (Some (tr_policy_id r)) (Some (tr_policy_version r)) None)
               (\<lambda>assessment. pure (assessed_decision task_id assessment)))))"

section \<open>The gate keeps the service's invariant\<close>

lemma service_requirements [simp]:
  "service_wf (s\<lparr>ca_requirements := x\<rparr>) = service_wf s"
  "service_grows s (s\<lparr>ca_requirements := x\<rparr>)"
  by (simp_all add: service_wf_def request_wf_def has_result_def service_grows_def request_after_refl)

lemma vkeeps_store_requirement: "vkeeps env N (store_requirement t r)"
  unfolding store_requirement_def
  by (intro vkeeps_then[OF vkeeps_pure] vkeeps_then[OF vsafe_sv_update] vkeeps_ret) auto

lemma vkeeps_find_requirement: "vkeeps env N (find_requirement t)"
  by (simp add: find_requirement_def vkeeps_gets)

lemmas vkeeps_gate_basic = vkeeps_basic vkeeps_store_requirement vkeeps_find_requirement

lemma vkeeps_gate:
  "vkeeps env N (require_task env' t p v now)"
  "vkeeps env N (requirement_for t)"
  "vkeeps env N (invalidate_task_subject env' t now)"
  "vkeeps env N (bind_subject env' t subject now)"
  unfolding require_task_def requirement_for_def invalidate_task_subject_def bind_subject_def
  by (intro vkeeps_then[OF vkeeps_pure] vkeeps_then[OF vkeeps_get_policy] vkeeps_then[OF vkeeps_clock(2)]
      vkeeps_then[OF vkeeps_find_requirement] vkeeps_then[OF vkeeps_store_requirement] vg.safe_option vg.safe_if
      vkeeps_gate_basic)+

lemma vkeeps_bind_request: "vkeeps env N (bind_request env' now r)"
  unfolding bind_request_def by (intro vkeeps_then[OF vkeeps_gate(1)] vkeeps_then[OF vkeeps_gate(4)] vkeeps_ret)

lemma vkeeps_gate_requests:
  assumes "inj_on (env_uuid4 env) {..<N}"
  shows "vkeeps env N (gate_request_verification env t p v stage subject correlation run_id result_id artifacts project
      capabilities producer attempt_no causation now canonical)"
    and "vkeeps env N (gate_request_reverification env vid subject correlation run_id result_id artifacts causation)"
    and "vkeeps env N (gate_request_canonical_reverification env vid subject correlation run_id result_id artifacts project
      capabilities producer causation)"
  unfolding gate_request_verification_def gate_request_reverification_def gate_request_canonical_reverification_def
  by (intro vkeeps_then[OF vkeeps_request_verification[OF assms]] vkeeps_then[OF vkeeps_gate(1)]
      vkeeps_then[OF vkeeps_gate(4)] vkeeps_ret vkeeps_then[OF vkeeps_request_reverification[OF assms]]
      vkeeps_bind_request)+

lemma vkeeps_assess_task_completion: "vkeeps env N (assess_task_completion env' t)"
  unfolding assess_task_completion_def
  by (intro vkeeps_then[OF vkeeps_pure] vkeeps_then[OF vkeeps_find_requirement] vg.safe_option
      vkeeps_then[OF vkeeps_get_policy] vg.safe_if vkeeps_then[OF vkeeps_assess_completion] vkeeps_pure)

end
