(* ===== verification/Verified_Kernel.thy ===== *)
theory Verified_Kernel
  imports Completion_Gate Kernel_Facade
begin

text \<open>
  The kernel with the verification gate as its completion authority, and the requests of the
  verification service and its gate as one datatype.
\<close>

section \<open>Requests of the verification service\<close>

datatype verification_command =
    Register_Policy verification_policy
  | Request_Verification string string int string verification_subject string "string option" "string option"
      "string list" "string option" "string list" "producer_identity option" int "string option"
      "datetime option" bool
  | Get_Request string "datetime option"
  | Cancel_Request string "datetime option" "string option"
  | Validate_Verifier string verifier_identity
  | Submit_Result verification_result bool
  | Run_Reference string string "deterministic_check list"
  | Record_Human_Review string string verification_outcome "string option" "string list"
  | Record_Agent_Review string verifier_identity verification_outcome "verification_finding list"
      "string list" "string list"
  | Request_Reverification string verification_subject string "string option" "string option" "string list"
      "string option"
  | Request_Canonical_Reverification string verification_subject string "string option" "string option"
      "string list" "string option" "string list" "producer_identity option" "string option"
  | Require_Task string string int "datetime option"
  | Invalidate_Task_Subject string "datetime option"
  | Bind_Subject string verification_subject "datetime option"
  | Assess_Task_Completion string

definition run_quiet :: "('w, 'a) action \<Rightarrow> 'w \<Rightarrow> 'w" where
  "run_quiet m w = snd (m w)"

fun verify_step :: "'m gate_env \<Rightarrow> verification_command \<Rightarrow> 'm gate_world \<Rightarrow> 'm gate_world" where
  "verify_step env (Register_Policy p) = run_quiet (register_policy env p)"
| "verify_step env (Request_Verification t p v stage subject correlation run_id result_id artifacts project
     capabilities producer attempt_no causation now canonical) =
     run_quiet (gate_request_verification env t p v stage subject correlation run_id result_id artifacts project
       capabilities producer attempt_no causation now canonical)"
| "verify_step env (Get_Request v now) = run_quiet (get_request env v now)"
| "verify_step env (Cancel_Request v now causation) = run_quiet (cancel_request env v now causation)"
| "verify_step env (Validate_Verifier v verifier) = run_quiet (validate_verifier env v verifier)"
| "verify_step env (Submit_Result x canonical) = run_quiet (submit_result env x canonical)"
| "verify_step env (Run_Reference v verifier_id checks) =
     run_quiet (run_deterministic env v (reference_verify env verifier_id checks))"
| "verify_step env (Record_Human_Review v reviewer outcome comment evidence) =
     run_quiet (record_human_review env v reviewer outcome comment evidence)"
| "verify_step env (Record_Agent_Review v verifier outcome findings evidence checks) =
     run_quiet (record_agent_review env v verifier outcome findings evidence checks)"
| "verify_step env (Request_Reverification v subject correlation run_id result_id artifacts causation) =
     run_quiet (gate_request_reverification env v subject correlation run_id result_id artifacts causation)"
| "verify_step env (Request_Canonical_Reverification v subject correlation run_id result_id artifacts project
     capabilities producer causation) =
     run_quiet (gate_request_canonical_reverification env v subject correlation run_id result_id artifacts project
       capabilities producer causation)"
| "verify_step env (Require_Task t p v now) = run_quiet (require_task env t p v now)"
| "verify_step env (Invalidate_Task_Subject t now) = run_quiet (invalidate_task_subject env t now)"
| "verify_step env (Bind_Subject t subject now) = run_quiet (bind_subject env t subject now)"
| "verify_step env (Assess_Task_Completion t) = run_quiet (assess_task_completion env t)"

lemma run_quiet_safe: "vkeeps env N m \<Longrightarrow> service_inv env N w \<Longrightarrow>
  service_inv env N (run_quiet m w) \<and> service_evolves N w (run_quiet m w)"
  using vg.safeD(1,2)[of env N "\<lambda>_. True" m "\<lambda>_ _. True" w] by (cases "m w") (auto simp: run_quiet_def)

lemma verify_step_safe:
  assumes "inj_on (env_uuid4 env) {..<N}" "service_inv env N w"
  shows "service_inv env N (verify_step env c w) \<and> service_evolves N w (verify_step env c w)"
  by (cases c; simp only: verify_step.simps; rule run_quiet_safe[OF _ assms(2)];
      intro vkeeps_register_policy vkeeps_gate_requests[OF assms(1)] vkeeps_get_request
      vkeeps_cancel_request vkeeps_validate_verifier vkeeps_submit_result vkeeps_run_deterministic vkeeps_reference_verify
      vkeeps_record_human_review vkeeps_record_agent_review vkeeps_gate vkeeps_assess_task_completion)

fun verify_serve :: "'m gate_env \<Rightarrow> verification_command list \<Rightarrow> 'm gate_world \<Rightarrow> 'm gate_world" where
  "verify_serve env [] w = w"
| "verify_serve env (c # cs) w = verify_serve env cs (verify_step env c w)"

lemma verify_serve_safe:
  assumes "inj_on (env_uuid4 env) {..<N}" "service_inv env N w"
  shows "service_inv env N (verify_serve env cs w) \<and> service_evolves N w (verify_serve env cs w)"
  using assms(2)
proof (induction cs arbitrary: w)
  case (Cons c cs)
  with verify_step_safe[OF assms(1) Cons.prems, of c] show ?case by (auto intro: vg.G_trans)
qed (simp add: vg.G_refl)

section \<open>The gate as the kernel's completion authority\<close>

definition verified_env :: "'m gate_env \<Rightarrow> 'm gate_env" where
  "verified_env env = env\<lparr>env_assess := Some (assess_task_completion env),
     env_invalidate := Some (\<lambda>task_id. await (invalidate_task_subject env task_id None) (\<lambda>_. ret ()))\<rparr>"

lemma verified_env_fields [simp]:
  "env_uuid4 (verified_env env) = env_uuid4 env" "env_utc_now (verified_env env) = env_utc_now env"
  "env_suspend (verified_env env) = env_suspend env" "env_assess (verified_env env) = Some (assess_task_completion env)"
  "env_plan (verified_env env) = env_plan env" "env_start (verified_env env) = env_start env"
  "env_get (verified_env env) = env_get env" "env_cancel (verified_env env) = env_cancel env"
  "env_event_sink (verified_env env) = env_event_sink env" "env_async_invalidate (verified_env env) = env_async_invalidate env"
  "env_observer (verified_env env) = env_observer env"
  "env_invalidate (verified_env env) = Some (\<lambda>task_id. await (invalidate_task_subject env task_id None) (\<lambda>_. ret ()))"
  by (simp_all add: verified_env_def)

text \<open>Reviews leave the repository alone, so they are admissible interference.\<close>

definition frame :: "'x world \<Rightarrow> 'x world \<Rightarrow> bool" where
  "frame w w' \<longleftrightarrow> w_repo w' = w_repo w \<and> w_draws w \<le> w_draws w'"

interpretation fr: rely_guarantee "\<lambda>_. True" frame
  by unfold_locales (auto simp: frame_def)

abbreviation framed :: "('x world, 'a) action \<Rightarrow> bool" where
  "framed m \<equiv> rely_guarantee.safe (\<lambda>_. True) frame (\<lambda>_. True) m (\<lambda>_ _. True)"

lemma framed_then: "framed m \<Longrightarrow> (\<And>x. framed (f x)) \<Longrightarrow> framed (await m f)"
  by (rule fr.safe_await)

lemma framed_basic:
  "framed (ret x)" "framed (pure r)" "framed (raise e)" "framed (sv_gets f)" "framed (sv_update g)"
  "framed (utc_now env)" "framed (new_id env pfx)"
  by (auto intro!: fr.safeI simp: ret_def pure_def raise_def sv_gets_def gets_def sv_update_def utc_now_def new_id_def frame_def)

lemma framed_instant: "framed (instant env now)"
  by (cases now) (simp_all add: instant_def framed_basic)

lemma framed_gate:
  "framed (get_policy p v)" "framed (find_requirement t)" "framed (store_requirement t r)"
  unfolding get_policy_def find_requirement_def store_requirement_def
  by (intro framed_then framed_basic fr.safe_option)+

lemma framed_assess: "framed (assess_task_completion env t)"
  unfolding assess_task_completion_def assess_completion_def
  by (intro framed_then framed_basic framed_gate framed_instant fr.safe_option fr.safe_if)

lemma framed_invalidate: "framed (invalidate_task_subject env t now)"
  unfolding invalidate_task_subject_def
  by (intro framed_then framed_basic framed_gate framed_instant fr.safe_option fr.safe_if)

lemma framed_external: "framed m \<Longrightarrow> external env N m"
  unfolding external_def using fr.safeD(2)[of "\<lambda>_. True" m "\<lambda>_ _. True"]
  by (auto simp: frame_def intro: same_repo_inv same_repo_interferes)

lemma verified_inv: "kernel_inv (verified_env env) N = kernel_inv env N"
  by (simp add: kernel_inv_def run_uuid_def fun_eq_iff)

lemma verified_external: "external (verified_env env) N m = external env N m"
  by (simp add: external_def verified_inv interferes_def run_uuid_def)

lemma external_gate:
  "external env N (assess_task_completion env' t)"
  "external env N (await (invalidate_task_subject env' t now) (\<lambda>_. ret ()))"
  by (rule framed_external framed_assess framed_then framed_invalidate framed_basic)+

lemma rely_verified_env:
  assumes "rely env N"
  shows "rely (verified_env env) N"
  using assms by (simp add: rely_def verified_external external_gate)

section \<open>What acceptance rests on\<close>

lemma gate_decision_state: "gate_decision t st reason q s = Inr d \<Longrightarrow> cg_state d = st"
  by (auto simp: gate_decision_def completion_gate_decision_post_init_def sbind_eq_Inr)

lemma assessed_decision_state: "assessed_decision t a = Inr d \<Longrightarrow> cg_state d = as_state a"
  by (auto simp: assessed_decision_def completion_gate_decision_post_init_def sbind_eq_Inr)

definition gate_accepts :: "'m gate_env \<Rightarrow> string \<Rightarrow> 'm gate_world \<Rightarrow> bool" where
  \<comment> \<open>no requirement, or each stage of the policy satisfied for the bound subject now\<close>
  "gate_accepts env t w \<longleftrightarrow> (case dict_get (ca_requirements (w_ext w)) t of None \<Rightarrow> True
     | Some q \<Rightarrow> (case dict_get (sv_policies (w_ext w)) (tr_policy_id q, tr_policy_version q) of None \<Rightarrow> False
     | Some p \<Rightarrow> vp_stages p = [] \<or> (case tr_subject q of None \<Rightarrow> False
     | Some subject \<Rightarrow> list_all (stage_satisfied (w_ext w) t subject p (env_utc_now env (w_ticks w))) (vp_stages p))))"

lemma assess_task_completion_accepts:
  assumes "assess_task_completion env t w = (Inr d, w')"
  shows "cg_state d = C_ACCEPTED \<longleftrightarrow> gate_accepts env t w"
proof -
  have "\<exists>x. validate_id t ''task'' = Inr x"
    using assms by (auto simp: assess_task_completion_def await_Inr_iff pure_def)
  then obtain x where x: "validate_id t ''task'' = Inr x" by blast
  show ?thesis
  proof (cases "dict_get (ca_requirements (w_ext w)) t")
    case None
    with assms x show ?thesis
      by (auto simp: assess_task_completion_def find_requirement_def sv_gets_def gets_def await_def ret_def pure_def
          gate_accepts_def dest!: gate_decision_state)
  next
    case (Some q)
    note run = assms[unfolded assess_task_completion_def find_requirement_def sv_gets_def gets_def await_def x pure_Inr ret_def]
    show ?thesis
    proof (cases "dict_get (sv_policies (w_ext w)) (tr_policy_id q, tr_policy_version q)")
      case None
      with Some run show ?thesis by (simp add: get_policy_def sv_gets_def gets_def await_def raise_def)
    next
      case p: (Some p)
      show ?thesis
      proof (cases "vp_stages p = [] \<or> tr_subject q = None")
        case True
        with Some p run show ?thesis
          by (auto simp: get_policy_def sv_gets_def gets_def await_def ret_def pure_def gate_accepts_def
              dest!: gate_decision_state split: if_splits)
      next
        case False
        then obtain subject where s: "vp_stages p \<noteq> []" "tr_subject q = Some subject" by auto
        let ?now = "env_utc_now env (w_ticks w)"
        obtain a where a: "assess_policy (w_ext w) t subject p ?now = Inr a" "cg_state d = as_state a"
          using Some p s run
          by (auto simp: get_policy_def assess_completion_def instant_def utc_now_def sv_gets_def gets_def await_def ret_def
              pure_def dest!: assessed_decision_state split: sum.splits)
        from assess_policy_accepted[OF a(1)] a(2) Some p s show ?thesis by (simp add: gate_accepts_def)
      qed
    qed
  qed
qed

lemma accepted_stage_evidence:
  assumes "stage_satisfied s t subject p now st" "1 \<le> sg_minimum_results st"
  shows "\<exists>k r x. (k, r) \<in> set (sv_requests s) \<and> vr_subject r = subject \<and> vr_task_id r = t \<and> vr_stage_id r = sg_stage_id st \<and>
    result_for s (vr_verification_id r) = Inr (Some x) \<and> vx_outcome x \<in> set (sg_accepted_outcomes st) \<and> \<not> result_expired p x now"
proof -
  obtain m where m: "matching_stage_results s t subject p (sg_stage_id st) now = Inr m" "1 \<le> accepted_count p st m"
    using assms by (auto simp: stage_satisfied_def split: sum.splits)
  then have "filter (\<lambda>(_, x). vx_outcome x \<in> set (sg_accepted_outcomes st)) m \<noteq> []"
    by (auto simp: accepted_count_def Let_def split: if_splits)
  then obtain r x where rx: "(r, x) \<in> set m" "vx_outcome x \<in> set (sg_accepted_outcomes st)"
    by (auto simp: filter_empty_conv)
  from matching_results_sound[OF m(1) rx(1)] rx(2) show ?thesis by blast
qed

end
