(* ===== verification/Verification_Properties.thy ===== *)
theory Verification_Properties
  imports Verified_Kernel Kernel_Demo
begin

text \<open>
  Properties of the verification service, of its gate, and of the kernel with that gate. The demo
  world holds a policy with one human stage, a request of it for the demo result, and its review.
\<close>

section \<open>A reviewed result\<close>

definition demo_subject :: "string \<Rightarrow> verification_subject" where
  "demo_subject digest = \<lparr>vs_subject_type = ''result'', vs_subject_id = demo_result, vs_revision = ''1'', vs_digest = digest\<rparr>"

definition demo_stage :: verification_stage where
  "demo_stage = \<lparr>sg_stage_id = ''human'', sg_verifier_kind = VK_HUMAN, sg_minimum_results = 1,
     sg_accepted_outcomes = [O_PASS], sg_capability_ref = None, sg_critical = True\<rparr>"

definition demo_policy :: verification_policy where
  "demo_policy = \<lparr>vp_name = ''review'',
     vp_stages = [demo_stage],
     vp_policy_id = ''verification_policy_'' @ unary_uuid 1, vp_version = 1,
     vp_scope = \<lparr>sc_task_ids = [], sc_project_ids = [], sc_agent_ids = [], sc_capability_ids = []\<rparr>,
     vp_independence = \<lparr>ri_producer_agent_must_differ = False, ri_model_must_differ = False,
       ri_provider_must_differ = False, ri_agent_reviewer_must_be_read_only = False,
       ri_human_reviewer_must_differ = False, ri_forbid_self_verification = True,
       ri_forbid_self_verification_risk_classes = [], ri_require_distinct_verifiers = True\<rparr>,
     vp_risk_classification = RISK_STANDARD, vp_max_repair_attempts = 1, vp_request_timeout_seconds = None,
     vp_result_expiry_seconds = None, vp_failure_policy = FP_FAIL, vp_timeout_failure_policy = FP_WAIT,
     vp_creator_ref = None, vp_created_at = 0, vp_provenance = None, vp_metadata = []\<rparr>"

definition demo_producer :: producer_identity where
  "demo_producer = \<lparr>pi_actor_ref = ''user:maker'', pi_agent_id = None, pi_agent_revision = None,
     pi_model_config_id = None, pi_provider_id = None\<rparr>"

definition demo_request :: "nat \<Rightarrow> verification_request_status \<Rightarrow> string \<Rightarrow> verification_request" where
  "demo_request n status digest = \<lparr>vr_task_id = demo_task, vr_policy_id = vp_policy_id demo_policy, vr_policy_version = 1,
     vr_stage_id = ''human'', vr_subject = demo_subject digest, vr_requested_verifier_kind = VK_HUMAN,
     vr_correlation_id = ''c'', vr_verification_id = ''verification_'' @ unary_uuid n, vr_run_id = None,
     vr_result_id = Some demo_result, vr_artifact_ids = [], vr_project_id = None, vr_capability_ids = [],
     vr_requested_capability_ref = None, vr_producer = Some demo_producer, vr_repair_attempt = 0,
     vr_status = status, vr_created_at = 0, vr_expires_at = None, vr_causation_id = None\<rparr>"

definition demo_review :: "nat \<Rightarrow> verification_outcome \<Rightarrow> string \<Rightarrow> verification_result" where
  "demo_review n outcome digest = \<lparr>vx_verification_id = ''verification_'' @ unary_uuid n,
     vx_verifier = \<lparr>vi_verifier_ref = ''user:checker'', vi_kind = VK_HUMAN, vi_agent_id = None,
       vi_agent_revision = None, vi_model_config_id = None, vi_provider_id = None, vi_read_only = True\<rparr>,
     vx_outcome = outcome, vx_subject = demo_subject digest,
     vx_verification_result_id = ''verification_result_'' @ unary_uuid 3, vx_findings = [],
     vx_evidence_artifact_ids = [], vx_evidence_bindings = [], vx_checks_executed = [''human_review''],
     vx_errors = [], vx_started_at = 0, vx_completed_at = 0, vx_metadata = []\<rparr>"

definition demo_authority :: completion_authority where
  "demo_authority = \<lparr>sv_require_canonical_subjects = False, sv_require_canonical_results = False,
     sv_policies = [((vp_policy_id demo_policy, 1), demo_policy)],
     sv_requests = [(''verification_'' @ unary_uuid 28, demo_request 28 VR_COMPLETED ''d''),
       (''verification_'' @ unary_uuid 29, demo_request 29 VR_PENDING ''e'')],
     sv_results = [(''verification_result_'' @ unary_uuid 3, demo_review 28 O_PASS ''d'')],
     sv_result_by_verification = [(''verification_'' @ unary_uuid 28, ''verification_result_'' @ unary_uuid 3)],
     sv_audit_events = [],
     ca_requirements = [(demo_task, \<lparr>tr_task_id = demo_task, tr_policy_id = vp_policy_id demo_policy,
       tr_policy_version = 1, tr_subject = Some (demo_subject ''d''), tr_created_at = 0, tr_updated_at = 0\<rparr>)]\<rparr>"

definition gate_demo_env :: "completion_authority kernel_env" where
  \<comment> \<open>providers that are unavailable, an event loop that runs nothing in between\<close>
  "gate_demo_env = \<lparr>env_uuid4 = unary_uuid, env_utc_now = (\<lambda>n. int n), env_suspend = ret (),
     env_plan = (\<lambda>_. raise (contract_error UNAVAILABLE)), env_start = (\<lambda>_. raise (contract_error UNAVAILABLE)),
     env_get = (\<lambda>_ _. raise (contract_error UNAVAILABLE)), env_cancel = (\<lambda>_ _. raise (contract_error UNAVAILABLE)),
     env_event_sink = None, env_assess = None, env_invalidate = None, env_async_invalidate = None,
     env_observer = None, env_interrupted = (\<lambda>_. False)\<rparr>"

definition gate_demo_world :: "completion_authority world" where
  "gate_demo_world = \<lparr>w_repo = empty_repo, w_draws = 0, w_ticks = 5, w_ext = demo_authority\<rparr>"

lemma rely_gate_demo_env: "rely gate_demo_env 16"
  using inj_on_subset[OF inj_unary_uuid, of "{..<16}"]
  by (auto simp: rely_def gate_demo_env_def framed_external framed_basic)

lemma gate_demo_inj: "inj_on (env_uuid4 gate_demo_env) {..<16}"
  using rely_gate_demo_env by (simp add: rely_def)

lemma gate_demo_inv: "kernel_inv gate_demo_env 16 gate_demo_world"
  by (simp add: kernel_inv_def gate_demo_world_def empty_repo_wf commands_ok_def recorded_runs_def stream_def
      stream_ok_def read_events_def find_command_def run_subjects_def empty_repo_def repo_wf_def all_event_ids_def)

lemma demo_policy_found [simp]:
  "dict_get (sv_policies (w_ext gate_demo_world)) (vp_policy_id demo_policy, 1) = Some demo_policy"
  by (simp add: gate_demo_world_def demo_authority_def)

lemma demo_policy_fields [simp]:
  "vp_stages demo_policy = [demo_stage]" "vp_version demo_policy = 1" "vp_max_repair_attempts demo_policy = 1"
  "sg_minimum_results demo_stage = 1" "sg_accepted_outcomes demo_stage = [O_PASS]"
  "ri_forbid_self_verification (vp_independence demo_policy)"
  by (simp_all add: demo_policy_def demo_stage_def)

lemma demo_request_fields [simp]:
  "vr_policy_id (demo_request n status d) = vp_policy_id demo_policy" "vr_policy_version (demo_request n status d) = 1"
  "vr_producer (demo_request n status d) = Some demo_producer" "vr_status (demo_request n status d) = status"
  "vx_verification_id (demo_review n outcome d) = ''verification_'' @ unary_uuid n"
  by (simp_all add: demo_request_def demo_review_def)

lemma demo_request_valid:
  "\<forall>n \<in> {28, 29}. verification_request_post_init (demo_request n VR_PENDING ''d'') = Inr (demo_request n VR_PENDING ''d'')"
  by code_simp

definition demo_requirement :: task_verification_requirement where
  "demo_requirement = \<lparr>tr_task_id = demo_task, tr_policy_id = vp_policy_id demo_policy,
       tr_policy_version = 1, tr_subject = Some (demo_subject ''d''), tr_created_at = 0, tr_updated_at = 0\<rparr>"

lemma demo_requirement_found [simp]:
  "dict_get (ca_requirements (w_ext gate_demo_world)) demo_task = Some demo_requirement"
  by (simp add: gate_demo_world_def demo_authority_def demo_requirement_def)

lemma demo_requirement_fields [simp]:
  "tr_policy_id demo_requirement = vp_policy_id demo_policy" "tr_policy_version demo_requirement = 1"
  "tr_subject demo_requirement = Some (demo_subject ''d'')"
  by (simp_all add: demo_requirement_def)

definition is_accepted :: "py_error + completion_assessment \<Rightarrow> bool" where
  "is_accepted r = (case r of Inl _ \<Rightarrow> False | Inr a \<Rightarrow> as_state a = C_ACCEPTED)"

lemma demo_accepted: "is_accepted (assess_policy demo_authority demo_task (demo_subject ''d'') demo_policy 5)"
  by code_simp

lemma demo_unreviewed: "\<not> isl (assess_policy demo_authority demo_task (demo_subject ''e'') demo_policy 5)"
  by code_simp

definition succeeds :: "(py_error + event_spec) \<times> 'w \<Rightarrow> bool" where
  "succeeds r = (case fst r of Inl _ \<Rightarrow> False | Inr spec \<Rightarrow> fst spec = ''task.succeeded'')"

lemma demo_completion: "succeeds (completion_task_spec (verified_env gate_demo_env) demo_task gate_demo_world)"
  by code_simp

section \<open>Running the service\<close>

lemma invalidated:
  assumes "invalidate_task_subject env tid now w = (Inr r, w1)" "dict_get (ca_requirements (w_ext w)) tid = Some q"
  shows "\<exists>q'. dict_get (ca_requirements (w_ext w1)) tid = Some q' \<and> tr_subject q' = None \<and>
    tr_policy_id q' = tr_policy_id q \<and> tr_policy_version q' = tr_policy_version q \<and> sv_policies (w_ext w1) = sv_policies (w_ext w)"
proof -
  obtain x where x: "validate_id tid ''task'' = Inr x"
    using assms(1) by (auto simp: invalidate_task_subject_def await_Inr_iff pure_def)
  note run = assms(1)[unfolded invalidate_task_subject_def x pure_Inr await_ret find_requirement_def sv_gets_def]
  show ?thesis
  proof (cases "tr_subject q")
    case None
    with run assms(2) have "w1 = w" by (simp add: gets_def ret_def)
    with assms(2) None show ?thesis by simp
  next
    case (Some subject)
    with run assms(2) show ?thesis
      by (cases now) (auto simp: gets_def await_Inr_iff instant_def utc_now_def ret_def store_requirement_def sv_update_def
          pure_def task_verification_requirement_post_init_def sbind_eq_Inr)
  qed
qed

lemma get_request_pending:
  assumes "get_request env v now w = (Inr q, w0)" "vr_status q = VR_PENDING"
  shows "dict_get (sv_requests (w_ext w)) v = Some q \<and> w_ext w0 = w_ext w"
proof -
  obtain r where r: "dict_get (sv_requests (w_ext w)) v = Some r"
    using assms(1) by (cases "dict_get (sv_requests (w_ext w)) v")
      (simp_all add: get_request_def sv_gets_def gets_def raise_def)
  obtain t w1 where t: "instant env now w = (Inr t, w1)" "w_ext w1 = w_ext w"
    by (cases now) (simp_all add: instant_def utc_now_def ret_def)
  show ?thesis
  proof (cases "overdue r t")
    case True
    with assms r t(1) show ?thesis
      by (auto simp: get_request_def sv_gets_def gets_def await_Inr_iff ret_def store_status_def pure_def
          verification_request_post_init_def sbind_eq_Inr)
  next
    case False
    with assms r t show ?thesis by (simp add: get_request_def sv_gets_def gets_def ret_def)
  qed
qed

lemma submit_result_steps:
  assumes "submit_result env x canonical w = (Inr y, w')"
  shows "\<exists>r p w1. get_request env (vx_verification_id x) None w = (Inr r, w1) \<and> vr_status r = VR_PENDING \<and>
    dict_get (sv_requests (w_ext w)) (vx_verification_id x) = Some r \<and> vx_subject x = vr_subject r \<and>
    dict_get (sv_policies (w_ext w)) (vr_policy_id r, vr_policy_version r) = Some p \<and>
    enforce_independence p r (vx_verifier x) = Inr ()"
proof -
  obtain r w1 where r: "get_request env (vx_verification_id x) None w = (Inr r, w1)"
    using assms by (auto simp: submit_result_def sv_gets_def gets_def await_Inr_iff raise_def split: if_splits)
  note run = assms[unfolded submit_result_def sv_gets_def gets_def, simplified await_run(1) r]
  have pend: "vr_status r = VR_PENDING" "vx_subject x = vr_subject r"
    using run by (auto simp: await_def r raise_def split: if_splits)
  note w1 = get_request_pending[OF r pend(1)]
  have "\<exists>p. dict_get (sv_policies (w_ext w)) (vr_policy_id r, vr_policy_version r) = Some p \<and>
      enforce_independence p r (vx_verifier x) = Inr ()"
    using run w1
    by (cases "dict_get (sv_policies (w_ext w)) (vr_policy_id r, vr_policy_version r)")
      (auto simp: await_def r raise_def get_policy_def sv_gets_def gets_def ret_def pure_def split: if_splits sum.splits)
  with r pend w1 show ?thesis by blast
qed

lemma append_audit_state:
  assumes "append_audit env e w = (Inr u, w')"
  shows "\<exists>x. w_ext w' = (w_ext w)\<lparr>sv_audit_events := x\<rparr>"
  using assms by (auto simp: append_audit_def await_Inr_iff new_id_def pure_def sv_update_def)

lemma submit_result_record:
  "submit_result env x canonical =
     await (sv_gets sv_require_canonical_results) (\<lambda>required.
     if required \<and> \<not> canonical then raise (contract_error FORBIDDEN)
     else if canonical \<and> \<not> evidence_bindings_complete x then raise (contract_error CONTRACT_VIOLATION)
     else
     await (get_request env (vx_verification_id x) None) (\<lambda>r.
     if vr_status r \<noteq> VR_PENDING then raise (contract_error CONFLICT)
     else if vx_subject x \<noteq> vr_subject r then raise (contract_error CONTRACT_VIOLATION)
     else if vi_kind (vx_verifier x) \<noteq> vr_requested_verifier_kind r then raise (contract_error CONTRACT_VIOLATION)
     else
     await (get_policy (vr_policy_id r) (vr_policy_version r)) (\<lambda>p.
     await (pure (enforce_independence p r (vx_verifier x))) (\<lambda>_.
     await (record_result x r) (\<lambda>_.
     await (append_audit env (\<lambda>event_id.
       (request_audit RESULT_RECORDED (vx_completed_at x) r event_id)
       \<lparr>ae_subject := Some (vx_subject x), ae_verifier := Some (vx_verifier x), ae_outcome := Some (vx_outcome x),
        ae_evidence_artifact_ids := vx_evidence_artifact_ids x, ae_checks_executed := vx_checks_executed x,
        ae_metadata := [(''finding_count'', JInt (int (length (vx_findings x)))),
          (''error_codes'', JList (map (JStr \<circ> ve_code) (vx_errors x)))]\<rparr>)) (\<lambda>_.
     ret x))))))"
  unfolding submit_result_def record_result_def await_assoc by (rule refl)

lemma submit_result_state:
  assumes "submit_result env x canonical w = (Inr y, w')" "service_wf (w_ext w)"
  shows "\<exists>a r. w_ext w' = (recorded x r (w_ext w))\<lparr>sv_audit_events := a\<rparr> \<and> vr_verification_id r = vx_verification_id x"
proof -
  obtain r p w1 where r: "get_request env (vx_verification_id x) None w = (Inr r, w1)" "vr_status r = VR_PENDING"
    "dict_get (sv_requests (w_ext w)) (vx_verification_id x) = Some r"
    using submit_result_steps[OF assms(1)] by blast
  note w1 = get_request_pending[OF r(1,2)]
  have rec: "record_result x r w1 = (Inr (r\<lparr>vr_status := VR_COMPLETED\<rparr>), w1\<lparr>w_ext := recorded x r (w_ext w)\<rparr>)"
    using record_result_run[of w1 "vx_verification_id x" r x] assms(2) w1 by simp
  have policy_same: "w2 = w1" if "get_policy i v w1 = (Inr q, w2)" for i v q w2
    using that by (auto simp: get_policy_def sv_gets_def gets_def await_Inr_iff ret_def raise_def split: option.splits)
  have "\<exists>e. await (append_audit env e) (\<lambda>_. ret x) (w1\<lparr>w_ext := recorded x r (w_ext w)\<rparr>) = (Inr y, w')"
    using assms(1)[unfolded submit_result_record] r(1) rec
    by (auto simp: sv_gets_def gets_def await_Inr_iff pure_def raise_def dest!: policy_same split: if_splits)
      (intro exI conjI; assumption)+
  then obtain e u where "append_audit env e (w1\<lparr>w_ext := recorded x r (w_ext w)\<rparr>) = (Inr u, w')"
    by (auto simp: await_Inr_iff ret_def)
  from append_audit_state[OF this] service_wfD(3)[OF assms(2) r(3)] show ?thesis by auto
qed

section \<open>Properties\<close>

text \<open>C3: acceptance is exact. The three passes of the completion assessment accept iff every stage of the
policy is satisfied: no counting result asks for changes, none of a critical stage failed, and
enough results (of distinct verifiers, when the policy asks for it) are accepted.\<close>

theorem acceptance_exact:
  assumes "assess_policy s task_id subject policy now = Inr a"
  shows "as_state a = C_ACCEPTED \<longleftrightarrow> list_all (stage_satisfied s task_id subject policy now) (vp_stages policy)"
  using assms by (rule assess_policy_accepted)

theorem acceptance_exact_witness:
  "list_all (stage_satisfied demo_authority demo_task (demo_subject ''d'') demo_policy 5) (vp_stages demo_policy)"
proof -
  obtain a where a: "assess_policy demo_authority demo_task (demo_subject ''d'') demo_policy 5 = Inr a" "as_state a = C_ACCEPTED"
    using demo_accepted by (auto simp: is_accepted_def split: sum.splits)
  from acceptance_exact[OF a(1)] a(2) show ?thesis by simp
qed

text \<open>C2: success rests on evidence for the bound output. When the kernel, with the verification gate as its
completion authority, decides that a task with a requirement succeeds, then for every stage of the
policy there is an unexpired accepted result, recorded for a request of this task and stage whose
subject is exactly the one bound now.\<close>

theorem success_needs_evidence:
  assumes "completion_task_spec (verified_env env) tid w = (Inr spec, w')" "fst spec = ''task.succeeded''"
    and "dict_get (ca_requirements (w_ext w)) tid = Some q"
    and "dict_get (sv_policies (w_ext w)) (tr_policy_id q, tr_policy_version q) = Some p"
    and "st \<in> set (vp_stages p)" "1 \<le> sg_minimum_results st"
  shows "\<exists>subject k r x. tr_subject q = Some subject \<and> (k, r) \<in> set (sv_requests (w_ext w)) \<and>
    vr_subject r = subject \<and> vr_task_id r = tid \<and> vr_stage_id r = sg_stage_id st \<and>
    result_for (w_ext w) (vr_verification_id r) = Inr (Some x) \<and> vx_outcome x \<in> set (sg_accepted_outcomes st) \<and>
    \<not> result_expired p x (env_utc_now env (w_ticks w))"
proof -
  obtain d w1 where d: "assess_task_completion env tid w = (Inr d, w1)" "cg_state d = C_ACCEPTED"
    using assms(1,2) by (auto simp: completion_task_spec_def await_Inr_iff ret_def split: if_splits)
  then have "gate_accepts env tid w" using assess_task_completion_accepts[OF d(1)] by simp
  then obtain subject where s: "tr_subject q = Some subject"
    "stage_satisfied (w_ext w) tid subject p (env_utc_now env (w_ticks w)) st"
    using assms(3-5) by (auto simp: gate_accepts_def list_all_iff split: option.splits)
  from accepted_stage_evidence[OF s(2) assms(6)] s(1) show ?thesis by blast
qed

theorem success_needs_evidence_witness:
  "\<exists>k r x. (k, r) \<in> set (sv_requests (w_ext gate_demo_world)) \<and> vr_subject r = demo_subject ''d'' \<and>
    result_for (w_ext gate_demo_world) (vr_verification_id r) = Inr (Some x) \<and> vx_outcome x = O_PASS"
proof -
  obtain spec w' where "completion_task_spec (verified_env gate_demo_env) demo_task gate_demo_world = (Inr spec, w')"
    "fst spec = ''task.succeeded''"
    using demo_completion by (cases "completion_task_spec (verified_env gate_demo_env) demo_task gate_demo_world")
      (auto simp: succeeds_def split: sum.splits)
  from success_needs_evidence[OF this demo_requirement_found, of demo_policy demo_stage] show ?thesis
    by auto
qed

lemma returned: "\<not> isl (fst p) \<Longrightarrow> \<exists>x w. p = (Inr x, w)"
  by (cases p; cases "fst p") auto

text \<open>C31: a changed output reopens the gate. Attaching an output invalidates the bound subject; until a new one
is bound, a task whose policy has stages can only be parked as waiting, never succeed.\<close>

theorem output_change_reopens_gate:
  assumes "invalidate_task_subject env tid now w = (Inr r, w1)"
    and "dict_get (ca_requirements (w_ext w)) tid = Some q"
    and "dict_get (sv_policies (w_ext w)) (tr_policy_id q, tr_policy_version q) = Some p" "vp_stages p \<noteq> []"
    and "completion_task_spec (verified_env env) tid w1 = (Inr spec, w2)"
  shows "fst spec = ''task.waiting''"
proof -
  obtain d w' where d: "assess_task_completion env tid w1 = (Inr d, w')"
    "spec = (if cg_state d = C_ACCEPTED then (''task.succeeded'', ''task'', tid, [], [])
       else (''task.waiting'', ''task'', tid, completion_payload d, []))"
    using assms(5) by (auto simp: completion_task_spec_def await_Inr_iff ret_def split: if_splits)
  have "\<not> gate_accepts env tid w1"
    using invalidated[OF assms(1,2)] assms(3,4) by (auto simp: gate_accepts_def)
  then show ?thesis using assess_task_completion_accepts[OF d(1)] d(2) by simp
qed

lemma demo_invalidated: "\<not> isl (fst (invalidate_task_subject gate_demo_env demo_task None gate_demo_world)) \<and>
    \<not> isl (fst (completion_task_spec (verified_env gate_demo_env) demo_task
      (snd (invalidate_task_subject gate_demo_env demo_task None gate_demo_world))))"
  by code_simp

theorem output_change_reopens_gate_witness:
  "\<exists>spec w2. completion_task_spec (verified_env gate_demo_env) demo_task
     (snd (invalidate_task_subject gate_demo_env demo_task None gate_demo_world)) = (Inr spec, w2) \<and>
     fst spec = ''task.waiting''"
proof -
  obtain r w1 where r: "invalidate_task_subject gate_demo_env demo_task None gate_demo_world = (Inr r, w1)"
    using returned[OF conjunct1[OF demo_invalidated]] by blast
  obtain spec w2 where "completion_task_spec (verified_env gate_demo_env) demo_task w1 = (Inr spec, w2)"
    using returned[OF conjunct2[OF demo_invalidated]] r by auto
  from output_change_reopens_gate[OF r demo_requirement_found _ _ this] this show ?thesis by (auto simp: r)
qed

text \<open>The kernel with the verification gate keeps every history valid, whatever is requested of it.\<close>

theorem verified_kernel_replay_safe:
  assumes "rely env N" "kernel_inv env N w"
  shows "kernel_inv env N (serve (verified_env env) cs w) \<and> evolves w (serve (verified_env env) cs w)"
  using serve_safe[OF rely_verified_env[OF assms(1)]] assms(2) by (simp add: verified_inv)

theorem verified_kernel_replay_safe_witness:
  "kernel_inv gate_demo_env 16 (serve (verified_env gate_demo_env) [Recover_All] gate_demo_world)"
  using verified_kernel_replay_safe[OF rely_gate_demo_env gate_demo_inv] by blast

text \<open>C32: nobody reviews their own work. When the policy of a request forbids self-verification, a result is only
recorded if the producer is known and the verifier is neither the producing actor nor the producing agent.\<close>

theorem no_self_verification:
  assumes "submit_result env x canonical w = (Inr y, w')"
    and "dict_get (sv_requests (w_ext w)) (vx_verification_id x) = Some r"
    and "dict_get (sv_policies (w_ext w)) (vr_policy_id r, vr_policy_version r) = Some p"
    and "ri_forbid_self_verification (vp_independence p)"
  shows "\<exists>producer. vr_producer r = Some producer \<and> vi_verifier_ref (vx_verifier x) \<noteq> pi_actor_ref producer \<and>
    (vi_kind (vx_verifier x) = VK_AGENT \<and> pi_agent_id producer \<noteq> None \<longrightarrow>
     vi_agent_id (vx_verifier x) \<noteq> pi_agent_id producer)"
proof -
  have "enforce_independence p r (vx_verifier x) = Inr ()"
    using submit_result_steps[OF assms(1)] assms(2,3) by auto
  then show ?thesis
    using assms(4) by (auto simp: enforce_independence_def Let_def split: if_splits option.splits)
qed

lemma demo_submitted: "\<not> isl (fst (submit_result gate_demo_env (demo_review 29 O_PASS ''e'') False gate_demo_world))"
  by code_simp

lemma demo_requests:
  "dict_get (sv_requests (w_ext gate_demo_world)) (''verification_'' @ unary_uuid 28) = Some (demo_request 28 VR_COMPLETED ''d'')"
  "dict_get (sv_requests (w_ext gate_demo_world)) (''verification_'' @ unary_uuid 29) = Some (demo_request 29 VR_PENDING ''e'')"
  using inj_onD[OF inj_unary_uuid, of 28 29] by (auto simp: gate_demo_world_def demo_authority_def)

theorem no_self_verification_witness:
  "vi_verifier_ref (vx_verifier (demo_review 29 O_PASS ''e'')) \<noteq> pi_actor_ref demo_producer"
proof -
  obtain y w' where "submit_result gate_demo_env (demo_review 29 O_PASS ''e'') False gate_demo_world = (Inr y, w')"
    using returned[OF demo_submitted] by blast
  from no_self_verification[OF this, of "demo_request 29 VR_PENDING ''e''" demo_policy] demo_requests(2) show ?thesis
    by simp
qed

section \<open>Every history of reviews\<close>

lemma demo_valid:
  "verification_request_post_init (demo_request 28 VR_COMPLETED ''d'') = Inr (demo_request 28 VR_COMPLETED ''d'')"
  "verification_request_post_init (demo_request 29 VR_PENDING ''e'') = Inr (demo_request 29 VR_PENDING ''e'')"
  by code_simp+

lemma gate_demo_service_inv: "service_inv gate_demo_env 16 gate_demo_world"
proof -
  have ne: "unary_uuid 28 \<noteq> unary_uuid 29" using inj_onD[OF inj_unary_uuid, of 28 29] by auto
  have neq: "unary_uuid k \<noteq> unary_uuid 28" "unary_uuid k \<noteq> unary_uuid 29" if "k < 16" for k
    using inj_onD[OF inj_unary_uuid, of k 28] inj_onD[OF inj_unary_uuid, of k 29] that by auto
  have wf: "request_wf demo_authority (demo_request 28 VR_COMPLETED ''d'')" "request_wf demo_authority (demo_request 29 VR_PENDING ''e'')"
    using demo_valid demo_policy_found
    by (auto simp: request_wf_def gate_demo_world_def demo_request_def policy_stage_def demo_stage_def)
  have "service_wf demo_authority"
    unfolding service_wf_def
    using wf ne by (auto simp: demo_authority_def has_result_def demo_request_def split: if_splits)
  then show ?thesis
    using neq by (auto simp: service_inv_def gate_demo_world_def demo_authority_def gate_demo_env_def)
qed

text \<open>C4: settled reviews are final. Whatever is requested of the service and its gate afterwards, a completed,
expired or cancelled request stays exactly as it is, a recorded result stays linked to its request,
a registered policy version keeps its rules, and the audit history is only extended.\<close>

theorem settled_reviews_final:
  assumes "inj_on (env_uuid4 env) {..<N}" "service_inv env N w" "w_draws (verify_serve env cs w) \<le> N"
  shows "prefix (sv_audit_events (w_ext w)) (sv_audit_events (w_ext (verify_serve env cs w))) \<and>
    (\<forall>v r. dict_get (sv_requests (w_ext w)) v = Some r \<and> vr_status r \<noteq> VR_PENDING \<longrightarrow>
       dict_get (sv_requests (w_ext (verify_serve env cs w))) v = Some r) \<and>
    (\<forall>v x. dict_get (sv_result_by_verification (w_ext w)) v = Some x \<longrightarrow>
       dict_get (sv_result_by_verification (w_ext (verify_serve env cs w))) v = Some x) \<and>
    (\<forall>k p. dict_get (sv_policies (w_ext w)) k = Some p \<longrightarrow>
       (\<exists>p'. dict_get (sv_policies (w_ext (verify_serve env cs w))) k = Some p' \<and> policy_core p' = policy_core p))"
  using verify_serve_safe[OF assms(1,2), of cs] assms(3)
  by (fastforce simp: service_evolves_def service_grows_def request_after_def)

theorem settled_reviews_final_witness:
  "dict_get (sv_requests (w_ext (verify_serve gate_demo_env [Get_Request demo_task None] gate_demo_world)))
     (''verification_'' @ unary_uuid 28) = Some (demo_request 28 VR_COMPLETED ''d'')"
proof -
  have "w_draws (verify_serve gate_demo_env [Get_Request demo_task None] gate_demo_world) \<le> 16"
    by (simp add: run_quiet_def get_request_def sv_gets_def gets_def gate_demo_world_def demo_authority_def raise_def demo_task_def)
  from settled_reviews_final[OF gate_demo_inj gate_demo_service_inv this, THEN conjunct2, THEN conjunct1, rule_format,
      of "''verification_'' @ unary_uuid 28" "demo_request 28 VR_COMPLETED ''d''"] demo_requests(1)
  show ?thesis by (simp del: verify_serve.simps append.simps)
qed

text \<open>C33: repairs are bounded. After any sequence of requests, every verification request belongs to a stage of a
registered policy, asks for that stage's kind of verifier, and its repair attempt lies between zero
and the policy's maximum.\<close>

theorem repair_attempts_bounded:
  assumes "inj_on (env_uuid4 env) {..<N}" "service_inv env N w" "w_draws (verify_serve env cs w) \<le> N"
    and "dict_get (sv_requests (w_ext (verify_serve env cs w))) v = Some r"
  shows "\<exists>p st. dict_get (sv_policies (w_ext (verify_serve env cs w))) (vr_policy_id r, vr_policy_version r) = Some p \<and>
    st \<in> set (vp_stages p) \<and> vr_stage_id r = sg_stage_id st \<and> vr_requested_verifier_kind r = sg_verifier_kind st \<and>
    0 \<le> vr_repair_attempt r \<and> vr_repair_attempt r \<le> vp_max_repair_attempts p"
proof -
  have "service_wf (w_ext (verify_serve env cs w))"
    using verify_serve_safe[OF assms(1,2), of cs] assms(3) by (simp add: service_inv_def)
  from service_wfD(3)[OF this assms(4)] have wf: "request_wf (w_ext (verify_serve env cs w)) r" ..
  then have "0 \<le> vr_repair_attempt r" by (auto simp: request_wf_def verification_request_post_init_def sbind_eq_Inr)
  moreover obtain p st where p: "dict_get (sv_policies (w_ext (verify_serve env cs w))) (vr_policy_id r, vr_policy_version r) = Some p"
    "policy_stage p (vr_stage_id r) = Inr st" "vr_requested_verifier_kind r = sg_verifier_kind st"
    "vr_repair_attempt r \<le> vp_max_repair_attempts p"
    using wf by (auto simp: request_wf_def)
  ultimately show ?thesis using policy_stage_id[OF p(2)] by (intro exI[of _ p] exI[of _ st]) simp
qed

theorem repair_attempts_bounded_witness:
  "\<exists>p st. dict_get (sv_policies (w_ext gate_demo_world)) (vp_policy_id demo_policy, 1) = Some p \<and> st \<in> set (vp_stages p) \<and>
     vr_stage_id (demo_request 28 VR_COMPLETED ''d'') = sg_stage_id st \<and>
     vr_repair_attempt (demo_request 28 VR_COMPLETED ''d'') \<le> vp_max_repair_attempts p"
  using repair_attempts_bounded[OF gate_demo_inj gate_demo_service_inv, of "[]" "''verification_'' @ unary_uuid 28"]
    demo_requests(1)
  by (auto simp: gate_demo_world_def)

section \<open>Defects\<close>

text \<open>C40: a reused result identifier rewrites an earlier review. Results are stored by their own identifier, which
\<open>submit_result\<close> does not check; a result that reuses the identifier of an earlier one replaces it, so
that the earlier request is from then on answered by the review of another request and subject.\<close>

theorem reused_result_id_rewrites:
  assumes "submit_result env x canonical w = (Inr y, w')" "service_wf (w_ext w)"
    and "dict_get (sv_result_by_verification (w_ext w)) v = Some (vx_verification_result_id x)" "v \<noteq> vx_verification_id x"
  shows "result_for (w_ext w') v = Inr (Some x)"
proof -
  obtain a r where "w_ext w' = (recorded x r (w_ext w))\<lparr>sv_audit_events := a\<rparr>" "vr_verification_id r = vx_verification_id x"
    using submit_result_state[OF assms(1,2)] by blast
  then show ?thesis using assms(3,4) by (simp add: result_for_def recorded_def)
qed

theorem reused_result_id_rewrites_witness:
  "\<exists>w' :: completion_authority world. result_for (w_ext gate_demo_world) (''verification_'' @ unary_uuid 28) = Inr (Some (demo_review 28 O_PASS ''d'')) \<and>
    result_for (w_ext w') (''verification_'' @ unary_uuid 28) = Inr (Some (demo_review 29 O_PASS ''e''))"
proof -
  obtain y w' where w': "submit_result gate_demo_env (demo_review 29 O_PASS ''e'') False gate_demo_world = (Inr y, w')"
    using returned[OF demo_submitted] by blast
  have wf: "service_wf (w_ext gate_demo_world)" using gate_demo_service_inv by (simp add: service_inv_def gate_demo_world_def)
  have by28: "dict_get (sv_result_by_verification (w_ext gate_demo_world)) (''verification_'' @ unary_uuid 28) =
      Some (vx_verification_result_id (demo_review 29 O_PASS ''e''))"
    by (simp add: gate_demo_world_def demo_authority_def demo_review_def)
  have "''verification_'' @ unary_uuid 28 \<noteq> vx_verification_id (demo_review 29 O_PASS ''e'')"
    using inj_onD[OF inj_unary_uuid, of 28 29] by auto
  note reused_result_id_rewrites[OF w' wf by28 this]
  moreover have "result_for (w_ext gate_demo_world) (''verification_'' @ unary_uuid 28) = Inr (Some (demo_review 28 O_PASS ''d''))"
    by (simp add: result_for_def gate_demo_world_def demo_authority_def)
  ultimately show ?thesis by blast
qed

lemma request_post_init_same: "verification_request_post_init x = Inr y \<Longrightarrow> y = x"
  by (auto simp: verification_request_post_init_def sbind_eq_Inr)

lemma blank_cause_rejected:
  assumes "verification_audit_event_post_init x = Inr y" and "py_blank cause"
  shows "verification_audit_event_post_init (x\<lparr>ae_causation_id := Some cause\<rparr>) = Inl ValueError"
  using assms
  by (cases "ae_policy_id x"; cases "ae_policy_version x")
    (auto simp: verification_audit_event_post_init_def sbind_def optional_nonblank_def require_nonblank_def guard_def
      split: sum.splits)

text \<open>A blank cause leaves an unaudited request. The request's validation accepts any \<open>causation_id\<close>, the
audit event's does not: a request that would be accepted without a cause and is made with a blank
one raises \<open>ValueError\<close>, yet stays stored and pending, and no audit event records it.\<close>

theorem blank_cause_unaudited:
  assumes "request_verification env task_id policy_id policy_version stage_id subject correlation_id run_id result_id
      artifact_ids project_id capability_ids producer repair_attempt None now canonical w = (Inr r, w1)"
    and "py_blank cause"
  shows "\<exists>w2. request_verification env task_id policy_id policy_version stage_id subject correlation_id run_id result_id
      artifact_ids project_id capability_ids producer repair_attempt (Some cause) now canonical w = (Inl ValueError, w2) \<and>
    dict_get (sv_requests (w_ext w2)) (vr_verification_id r) = Some (r\<lparr>vr_causation_id := Some cause\<rparr>) \<and>
    sv_audit_events (w_ext w2) = sv_audit_events (w_ext w)"
proof -
  obtain p stage where p: "dict_get (sv_policies (w_ext w)) (policy_id, policy_version) = Some p"
    "policy_stage p stage_id = Inr stage"
    and flag: "\<not> (sv_require_canonical_subjects (w_ext w) \<and> \<not> canonical)"
    using assms(1)
    by (auto simp: request_verification_def get_policy_def sv_gets_def gets_def await_Inr_iff ret_def raise_def
        split: if_splits option.splits sum.splits)
  obtain t w0 where t: "instant env now w = (Inr t, w0)" "w_ext w0 = w_ext w"
    by (cases now) (simp_all add: instant_def utc_now_def ret_def)
  let ?v = "''verification_'' @ env_uuid4 env (w_draws w0)"
  let ?w = "w0\<lparr>w_draws := Suc (w_draws w0)\<rparr>"
  let ?r = "\<lambda>c. \<lparr>vr_task_id = task_id, vr_policy_id = vp_policy_id p, vr_policy_version = vp_version p,
        vr_stage_id = sg_stage_id stage, vr_subject = subject,
        vr_requested_verifier_kind = sg_verifier_kind stage, vr_correlation_id = correlation_id,
        vr_verification_id = ?v, vr_run_id = run_id, vr_result_id = result_id,
        vr_artifact_ids = artifact_ids, vr_project_id = project_id, vr_capability_ids = capability_ids,
        vr_requested_capability_ref = sg_capability_ref stage, vr_producer = producer,
        vr_repair_attempt = repair_attempt, vr_status = VR_PENDING, vr_created_at = t,
        vr_expires_at = map_option (\<lambda>s. t + timedelta_us s) (vp_request_timeout_seconds p),
        vr_causation_id = c\<rparr>"
  let ?e = "\<lambda>c event_id. (request_audit (if 0 < repair_attempt then REVERIFICATION_REQUESTED else REQUESTED) t (?r c) event_id)
       \<lparr>ae_metadata := [(''result_id'', opt_json result_id), (''artifact_ids'', JList (map JStr artifact_ids)),
          (''capability_ids'', JList (map JStr capability_ids)),
          (''requested_capability_ref'', opt_json (sg_capability_ref stage))]\<rparr>"
  have run: "request_verification env task_id policy_id policy_version stage_id subject correlation_id run_id result_id
      artifact_ids project_id capability_ids producer repair_attempt c now canonical w =
    (if vp_max_repair_attempts p < repair_attempt then (Inl (contract_error CONFLICT), w0)
     else case require_policy_scope p task_id project_id capability_ids producer of Inl e \<Rightarrow> (Inl e, w0) | Inr _ \<Rightarrow>
       case verification_request_post_init (?r c) of Inl e \<Rightarrow> (Inl e, ?w) | Inr q \<Rightarrow>
       await (append_audit env (?e c)) (\<lambda>_. ret q)
         (?w\<lparr>w_ext := (w_ext w)\<lparr>sv_requests := dict_set ?v q (sv_requests (w_ext w))\<rparr>\<rparr>))" for c
  proof -
    have pol: "await (get_policy policy_id policy_version) f w = f p w" for f :: "verification_policy \<Rightarrow> ('a service_world, 'b) action"
      using p(1) by (simp add: get_policy_def sv_gets_def gets_def ret_def)
    have clock: "await (instant env now) f w = f t w0" for f :: "datetime \<Rightarrow> ('a service_world, 'b) action"
      by (simp add: t(1))
    have draw: "await (new_id env ''verification'') f w0 = f ?v ?w" for f :: "string \<Rightarrow> ('a service_world, 'b) action"
      by (simp add: new_id_def)
    have scope: "await (pure x) f = (case x of Inl e \<Rightarrow> raise e | Inr y \<Rightarrow> f y)"
      for x :: "py_error + 'c" and f :: "'c \<Rightarrow> ('a service_world, 'b) action" by (cases x) simp_all
    have put: "await (sv_update g) f v = f () (v\<lparr>w_ext := g (w_ext v)\<rparr>)"
      for g and f :: "unit \<Rightarrow> ('a service_world, 'b) action" and v by (simp add: sv_update_def)
    show ?thesis
      unfolding request_verification_def
      using flag t(2)
      by (cases "verification_request_post_init (?r c)"; cases "require_policy_scope p task_id project_id capability_ids producer")
        (auto simp: sv_gets_def gets_def pol p(2) clock scope draw put raise_def
          dest!: request_post_init_same)
  qed
  have ok: "\<not> vp_max_repair_attempts p < repair_attempt" "\<exists>u. require_policy_scope p task_id project_id capability_ids producer = Inr u"
    and made: "verification_request_post_init (?r None) = Inr r"
    and audited: "await (append_audit env (?e None)) (\<lambda>_. ret r)
         (?w\<lparr>w_ext := (w_ext w)\<lparr>sv_requests := dict_set ?v r (sv_requests (w_ext w))\<rparr>\<rparr>) = (Inr r, w1)"
    using assms(1) run[of None] by (auto split: if_splits sum.splits simp: await_Inr_iff ret_def)
  have r: "r = ?r None" and made': "verification_request_post_init (?r (Some cause)) = Inr (?r (Some cause))"
    using made by (auto simp: verification_request_post_init_def sbind_eq_Inr)
  obtain e where "verification_audit_event_post_init (?e None (''verification_audit_'' @ env_uuid4 env (Suc (w_draws w0)))) = Inr e"
    using audited by (auto simp: append_audit_def await_Inr_iff new_id_def pure_def)
  from blank_cause_rejected[OF this assms(2)]
  have rejected: "verification_audit_event_post_init (?e (Some cause) (''verification_audit_'' @ env_uuid4 env (Suc (w_draws w0)))) = Inl ValueError"
    by (simp add: request_audit_def)
  have "append_audit env (?e (Some cause)) v = (Inl ValueError, v\<lparr>w_draws := Suc (w_draws v)\<rparr>)"
    if "w_draws v = Suc (w_draws w0)" for v :: "'a service_world"
    using rejected that by (simp add: append_audit_def new_id_def pure_def await_def)
  then show ?thesis
    using run[of "Some cause"] ok made' t(2) by (auto simp: await_def r)
qed

definition demo_asked :: "py_error + verification_request" where
  "demo_asked = fst (request_verification gate_demo_env demo_task (vp_policy_id demo_policy) 1 ''human''
     (demo_subject ''d'') ''c'' None (Some demo_result) [] None [] (Some demo_producer) 0 None None False gate_demo_world)"

lemma demo_asked_returns: "\<not> isl demo_asked"
  by code_simp

theorem blank_cause_unaudited_witness:
  "\<exists>w2. request_verification gate_demo_env demo_task (vp_policy_id demo_policy) 1 ''human''
     (demo_subject ''d'') ''c'' None (Some demo_result) [] None [] (Some demo_producer) 0 (Some '' '') None False
     gate_demo_world = (Inl ValueError, w2) \<and> sv_audit_events (w_ext w2) = []"
proof -
  obtain r w1 where "request_verification gate_demo_env demo_task (vp_policy_id demo_policy) 1 ''human''
     (demo_subject ''d'') ''c'' None (Some demo_result) [] None [] (Some demo_producer) 0 None None False gate_demo_world =
     (Inr r, w1)"
    using demo_asked_returns unfolding demo_asked_def by (rule exE[OF returned]) blast
  moreover have "py_blank '' ''" by code_simp
  moreover have "sv_audit_events (w_ext gate_demo_world) = []" by (simp add: gate_demo_world_def demo_authority_def)
  ultimately show ?thesis by (metis blank_cause_unaudited)
qed

end
