(* ===== verification/Iso_Time.thy ===== *)
theory Iso_Time
  imports Platform_Prelude
begin

text \<open>
  The text of an instant: \<open>datetime.isoformat\<close> of a UTC datetime and the reading of that text by
  \<open>datetime.fromisoformat\<close>, which the durable repositories rely on. Instants are microseconds since
  1970-01-01T00:00:00+00:00; the calendar is the proleptic Gregorian one of the library, with the
  day ordinals of \<open>date.toordinal\<close>. Only the shapes that \<open>isoformat\<close> writes for UTC are read.
\<close>

section \<open>Decimal numbers of fixed width\<close>

definition digit_char :: "int \<Rightarrow> char" where
  "digit_char n = char_of (48 + n)"

definition digit_value :: "char \<Rightarrow> int option" where
  "digit_value c = (let n = of_char c :: int in if 48 \<le> n \<and> n \<le> 57 then Some (n - 48) else None)"

primrec padded :: "nat \<Rightarrow> int \<Rightarrow> string" where
  "padded 0 n = []"
| "padded (Suc k) n = padded k (n div 10) @ [digit_char (n mod 10)]"

primrec read_digits :: "int \<Rightarrow> string \<Rightarrow> int option" where
  "read_digits acc [] = Some acc"
| "read_digits acc (c # cs) =
     (case digit_value c of None \<Rightarrow> None | Some d \<Rightarrow> read_digits (acc * 10 + d) cs)"

lemma digit_value_digit [simp]: "0 \<le> d \<Longrightarrow> d < 10 \<Longrightarrow> digit_value (digit_char d) = Some d"
  by (simp add: digit_value_def digit_char_def)

lemma length_padded [simp]: "length (padded k n) = k"
  by (induction k arbitrary: n) simp_all

lemma read_digits_append:
  "read_digits acc (xs @ ys) = (case read_digits acc xs of None \<Rightarrow> None | Some a \<Rightarrow> read_digits a ys)"
  by (induction xs arbitrary: acc) (auto split: option.splits)

lemma read_padded: "read_digits acc (padded k n) = Some (acc * 10 ^ k + n mod 10 ^ k)"
proof (induction k arbitrary: n)
  case (Suc k)
  have "n mod 10 ^ Suc k = n div 10 mod 10 ^ k * 10 + n mod 10"
    using zmod_zmult2_eq[of "10 ^ k" n 10] by (simp add: mult.commute)
  with Suc show ?case by (simp add: read_digits_append algebra_simps)
qed simp

lemma read_padded_below [simp]: "0 \<le> n \<Longrightarrow> n < 10 ^ k \<Longrightarrow> read_digits 0 (padded k n) = Some n"
  by (simp add: read_padded)

section \<open>The calendar\<close>

definition is_leap :: "int \<Rightarrow> bool" where
  "is_leap y \<longleftrightarrow> y mod 4 = 0 \<and> (y mod 100 \<noteq> 0 \<or> y mod 400 = 0)"

definition days_before_year :: "int \<Rightarrow> int" where
  "days_before_year year = (let y = year - 1 in y * 365 + y div 4 - y div 100 + y div 400)"

definition days_before_month :: "int \<Rightarrow> nat \<Rightarrow> int" where
  "days_before_month year month =
     [0, 0, 31, 59, 90, 120, 151, 181, 212, 243, 273, 304, 334, 365] ! month +
     (if 2 < month \<and> is_leap year then 1 else 0)"

definition to_ordinal :: "int \<Rightarrow> nat \<Rightarrow> int \<Rightarrow> int" where
  "to_ordinal year month day = days_before_year year + days_before_month year month + day"

definition year_of :: "int \<Rightarrow> int" where
  \<comment> \<open>the year of an ordinal: the average year gives it up to one\<close>
  "year_of n = (let y = (n - 1) * 400 div 146097 + 1 in
     if n \<le> days_before_year y then y - 1 else if days_before_year (y + 1) < n then y + 1 else y)"

definition month_of :: "int \<Rightarrow> int \<Rightarrow> nat" where
  "month_of year day_of_year =
     Suc (length (takeWhile (\<lambda>m. days_before_month year (Suc m) < day_of_year) [1..<12]))"

lemma div_pred:
  fixes k d :: int
  assumes "0 < d"
  shows "k div d = (k - 1) div d + (if k mod d = 0 then 1 else 0)"
proof -
  define q r where qr: "q = (k - 1) div d" "r = (k - 1) mod d"
  then have k: "k = d * q + (r + 1)" by (metis add.assoc diff_add_cancel mult_div_mod_eq)
  have r: "0 \<le> r" "r < d" using assms qr(2) by simp_all
  show ?thesis
  proof (cases "r + 1 = d")
    case True
    then have "k = d * (q + 1)" using k by (simp add: algebra_simps)
    then have "k div d = q + 1" "k mod d = 0" using assms by simp_all
    then show ?thesis unfolding qr(1)[symmetric] by simp
  next
    case False
    then have "k div d = q" "k mod d = r + 1"
      using k r int_div_pos_eq[of k d q "r + 1"] int_mod_pos_eq[of k d q "r + 1"] by simp_all
    with r show ?thesis unfolding qr(1)[symmetric] by simp
  qed
qed

lemma days_before_year_next: "days_before_year (y + 1) = days_before_year y + (if is_leap y then 366 else 365)"
proof -
  have leap: "y mod 400 = 0 \<longrightarrow> y mod 100 = 0" "y mod 100 = 0 \<longrightarrow> y mod 4 = 0"
    using dvd_trans[of 100 400 y] dvd_trans[of 4 100 y] by (simp_all add: mod_eq_0_iff_dvd)
  note step = div_pred[of 4 y, OF zero_less_numeral] div_pred[of 100 y, OF zero_less_numeral]
    div_pred[of 400 y, OF zero_less_numeral]
  have "days_before_year (y + 1) = days_before_year y + 365 +
      ((if y mod 4 = 0 then 1 else 0) - (if y mod 100 = 0 then 1 else 0) + (if y mod 400 = 0 then 1 else 0))"
    unfolding days_before_year_def Let_def add_diff_cancel_right' step by (simp only: algebra_simps)
  moreover have leaps: "(if a then 1 else 0) - (if b then 1 else 0) + (if c then 1 else 0) =
      (if a \<and> (\<not> b \<or> c) then 1 else (0::int))" if "c \<longrightarrow> b" "b \<longrightarrow> a" for a b c
    using that by (cases a; cases b; cases c) simp_all
  ultimately show ?thesis unfolding leaps[OF leap] is_leap_def by (simp only: split: if_split) simp
qed

lemma days_before_year_near:
  "400 * days_before_year x \<le> 146097 * (x - 1) + 800" "146097 * (x - 1) - 800 \<le> 400 * days_before_year x"
proof -
  define a p q r where defs: "a = x - 1" "p = a div 4" "q = a div 100" "r = a div 400"
  have "4 * p \<le> a" "a \<le> 4 * p + 3" "100 * q \<le> a" "a \<le> 100 * q + 99" "400 * r \<le> a" "a \<le> 400 * r + 399"
    unfolding defs(2-4) by linarith+
  moreover have "days_before_year x = a * 365 + p - q + r" by (simp add: days_before_year_def Let_def defs)
  ultimately show "400 * days_before_year x \<le> 146097 * (x - 1) + 800" "146097 * (x - 1) - 800 \<le> 400 * days_before_year x"
    unfolding defs(1)[symmetric] by linarith+
qed

lemma year_of_bounds: "days_before_year (year_of n) < n \<and> n \<le> days_before_year (year_of n + 1)"
proof -
  define y where "y = (n - 1) * 400 div 146097 + 1"
  have y: "146097 * (y - 1) \<le> (n - 1) * 400" "(n - 1) * 400 < 146097 * y"
    unfolding y_def using mult_div_mod_eq[of 146097 "(n - 1) * 400"] pos_mod_bound[of 146097 "(n - 1) * 400"]
      pos_mod_sign[of 146097 "(n - 1) * 400"] by simp_all
  have "400 * days_before_year (y - 1) < 400 * n" using days_before_year_near(1)[of "y - 1"] y(1) by (simp add: algebra_simps)
  moreover have "400 * n \<le> 400 * days_before_year (y + 1 + 1)"
    using days_before_year_near(2)[of "y + 1 + 1"] y(2) by (simp add: algebra_simps)
  ultimately have "days_before_year (y - 1) < n" "n \<le> days_before_year (y + 1 + 1)" by simp_all
  then show ?thesis unfolding year_of_def Let_def y_def[symmetric] by auto
qed

lemma month_of_bounds:
  assumes "1 \<le> r" "r \<le> (if is_leap y then 366 else 365)"
  shows "1 \<le> month_of y r \<and> month_of y r \<le> 12 \<and> days_before_month y (month_of y r) < r \<and>
    r \<le> days_before_month y (Suc (month_of y r)) \<and>
    days_before_month y (Suc (month_of y r)) - days_before_month y (month_of y r) \<le> 31"
proof -
  have months: "[1..<12] = [1, 2, 3, 4, 5, 6, 7, 8, 9, 10, 11 :: nat]" by code_simp
  show ?thesis
    using assms unfolding month_of_def months
    by (cases "is_leap y") (auto simp: days_before_month_def)
qed

lemma year_of_range:
  assumes "1 \<le> n" "n \<le> 3652059"
  shows "1 \<le> year_of n \<and> year_of n \<le> 9999"
proof -
  note y = year_of_bounds[of n] and near = days_before_year_near
  have "year_of n \<noteq> 10000" "year_of n \<noteq> 0" using y assms by (auto simp: days_before_year_def)
  moreover have "0 \<le> year_of n" using near(1)[of "year_of n + 1"] y assms(1) by simp
  moreover have "year_of n \<le> 10000" using near(2)[of "year_of n"] y assms(2) by simp
  ultimately show ?thesis by simp
qed

section \<open>Writing and reading an instant\<close>

definition epoch_ordinal :: int where
  "epoch_ordinal = 719163"

definition day_ordinal :: "datetime \<Rightarrow> int" where
  "day_ordinal t = t div 86400000000 + epoch_ordinal"

definition isoformat :: "datetime \<Rightarrow> string" where
  "isoformat t =
     (let n = day_ordinal t; y = year_of n; r = n - days_before_year y; m = month_of y r;
          d = r - days_before_month y m; us = t mod 86400000000; s = us div 1000000 in
      padded 4 y @ ''-'' @ padded 2 (int m) @ ''-'' @ padded 2 d @ ''T'' @
      padded 2 (s div 3600) @ '':'' @ padded 2 (s div 60 mod 60) @ '':'' @ padded 2 (s mod 60) @
      (if us mod 1000000 = 0 then [] else ''.'' @ padded 6 (us mod 1000000)) @ ''+00:00'')"

definition read_number :: "nat \<Rightarrow> string \<Rightarrow> (int \<times> string) option" where
  "read_number k s =
     (if length s < k then None else map_option (\<lambda>n. (n, drop k s)) (read_digits 0 (take k s)))"

definition read_text :: "string \<Rightarrow> string \<Rightarrow> string option" where
  "read_text p s = (if py_startswith s p then Some (drop (length p) s) else None)"

definition read_date :: "string \<Rightarrow> ((int \<times> nat \<times> int) \<times> string) option" where
  "read_date s =
     Option.bind (read_number 4 s) (\<lambda>(y, s).
     Option.bind (read_text ''-'' s) (\<lambda>s. Option.bind (read_number 2 s) (\<lambda>(m, s).
     Option.bind (read_text ''-'' s) (\<lambda>s. Option.bind (read_number 2 s) (\<lambda>(d, s).
     if 1 \<le> y \<and> 1 \<le> m \<and> m \<le> 12 \<and> 1 \<le> d \<and>
        d \<le> days_before_month y (Suc (nat m)) - days_before_month y (nat m)
     then Some ((y, nat m, d), s) else None)))))"

definition read_time :: "string \<Rightarrow> (int \<times> string) option" where
  \<comment> \<open>seconds of the day\<close>
  "read_time s =
     Option.bind (read_number 2 s) (\<lambda>(hh, s).
     Option.bind (read_text '':'' s) (\<lambda>s. Option.bind (read_number 2 s) (\<lambda>(mm, s).
     Option.bind (read_text '':'' s) (\<lambda>s. Option.bind (read_number 2 s) (\<lambda>(ss, s).
     if hh < 24 \<and> mm < 60 \<and> ss < 60 then Some (hh * 3600 + mm * 60 + ss, s) else None)))))"

definition read_fraction :: "string \<Rightarrow> (int \<times> string) option" where
  "read_fraction s =
     (case read_text ''.'' s of None \<Rightarrow> Some (0, s) | Some s \<Rightarrow> read_number 6 s)"

definition fromisoformat :: "string \<Rightarrow> py_error + datetime" where
  "fromisoformat s =
     (case Option.bind (read_date s) (\<lambda>((y, m, d), s).
           Option.bind (read_text ''T'' s) (\<lambda>s. Option.bind (read_time s) (\<lambda>(secs, s).
           Option.bind (read_fraction s) (\<lambda>(us, s).
           if s = ''+00:00''
           then Some ((to_ordinal y m d - epoch_ordinal) * 86400000000 + secs * 1000000 + us)
           else None)))) of
        None \<Rightarrow> Inl ValueError
      | Some t \<Rightarrow> Inr t)"

text \<open>The instants that a \<open>datetime\<close> can hold: the years 1 to 9999.\<close>

definition representable :: "datetime \<Rightarrow> bool" where
  "representable t \<longleftrightarrow> 1 \<le> day_ordinal t \<and> day_ordinal t \<le> 3652059"

lemma read_number_padded [simp]: "0 \<le> n \<Longrightarrow> n < 10 ^ k \<Longrightarrow> read_number k (padded k n @ s) = Some (n, s)"
  by (simp add: read_number_def)

lemma read_text_append [simp]: "read_text p (p @ s) = Some s"
  by (simp add: read_text_def py_startswith_def)

lemma read_text_char [simp]: "read_text [c] (c # s) = Some s" "c \<noteq> d \<Longrightarrow> read_text [c] (d # s) = None"
  by (simp_all add: read_text_def py_startswith_def)

lemma read_date_written:
  assumes "1 \<le> y" "y \<le> 9999" "1 \<le> m" "m \<le> 12" "1 \<le> d" "d \<le> 31"
    "d \<le> days_before_month y (Suc m) - days_before_month y m"
  shows "read_date (padded 4 y @ ''-'' @ padded 2 (int m) @ ''-'' @ padded 2 d @ s) = Some ((y, m, d), s)"
  using assms by (simp add: read_date_def del: padded.simps)

lemma read_time_fields:
  assumes "0 \<le> hh" "hh < 24" "0 \<le> mm" "mm < 60" "0 \<le> ss" "ss < 60"
  shows "read_time (padded 2 hh @ '':'' @ padded 2 mm @ '':'' @ padded 2 ss @ s) = Some (hh * 3600 + mm * 60 + ss, s)"
  using assms by (simp add: read_time_def del: padded.simps)

lemma read_time_written:
  assumes "0 \<le> secs" "secs < 86400"
  shows "read_time (padded 2 (secs div 3600) @ '':'' @ padded 2 (secs div 60 mod 60) @ '':'' @ padded 2 (secs mod 60) @ s) =
    Some (secs, s)"
proof -
  have "0 \<le> secs div 3600" "secs div 3600 < 24" using assms by auto
  note read_time_fields[OF this pos_mod_sign pos_mod_bound pos_mod_sign pos_mod_bound, OF zero_less_numeral zero_less_numeral
    zero_less_numeral zero_less_numeral, of "secs div 60" secs]
  moreover have "secs div 3600 * 3600 + secs div 60 mod 60 * 60 + secs mod 60 = secs"
  proof -
    have "secs div 3600 = secs div 60 div 60" using zdiv_zmult2_eq[of 60 secs 60] by simp
    moreover have "secs div 60 div 60 * 60 + secs div 60 mod 60 = secs div 60" by (rule div_mult_mod_eq)
    moreover have "secs div 60 * 60 + secs mod 60 = secs" by (rule div_mult_mod_eq)
    ultimately show ?thesis by linarith
  qed
  ultimately show ?thesis by (simp only:)
qed

lemma read_fraction_written:
  assumes "0 \<le> us" "us < 1000000"
  shows "read_fraction ((if us = 0 then [] else ''.'' @ padded 6 us) @ ''+00:00'') = Some (us, ''+00:00'')"
  using assms by (simp add: read_fraction_def del: padded.simps)

lemma fromisoformat_isoformat:
  assumes "representable t"
  shows "fromisoformat (isoformat t) = Inr t"
proof -
  define n y r m where defs: "n = day_ordinal t" "y = year_of n" "r = n - days_before_year y" "m = month_of y r"
  define d where d: "d = r - days_before_month y m"
  define us where us: "us = t mod 86400000000"
  have y: "1 \<le> y" "y \<le> 9999" using year_of_range[of n] assms by (simp_all add: representable_def defs)
  have r: "1 \<le> r" "r \<le> (if is_leap y then 366 else 365)"
    using year_of_bounds[of n] days_before_year_next[of y] by (simp_all add: defs split: if_splits)
  note m = month_of_bounds[OF r, folded defs(4)]
  have day: "1 \<le> d" "d \<le> 31" "d \<le> days_before_month y (Suc m) - days_before_month y m"
    "to_ordinal y m d = n"
    using m by (auto simp: d to_ordinal_def defs(3))
  let ?s = "us div 1000000"
  have secs: "0 \<le> ?s" "?s < 86400" "?s * 1000000 + us mod 1000000 = t mod 86400000000"
    unfolding div_mult_mod_eq by (simp_all add: us)
  have iso: "isoformat t = padded 4 y @ ''-'' @ padded 2 (int m) @ ''-'' @ padded 2 d @ ''T'' @
      padded 2 (?s div 3600) @ '':'' @ padded 2 (?s div 60 mod 60) @ '':'' @ padded 2 (?s mod 60) @
      (if us mod 1000000 = 0 then [] else ''.'' @ padded 6 (us mod 1000000)) @ ''+00:00''"
    by (simp only: isoformat_def Let_def defs d us)
  have "read_date (isoformat t) = Some ((y, m, d), ''T'' @
      padded 2 (?s div 3600) @ '':'' @ padded 2 (?s div 60 mod 60) @ '':'' @ padded 2 (?s mod 60) @
      (if us mod 1000000 = 0 then [] else ''.'' @ padded 6 (us mod 1000000)) @ ''+00:00'')"
    unfolding iso by (rule read_date_written) (use y m day in auto)
  then have "fromisoformat (isoformat t) =
      Inr ((to_ordinal y m d - epoch_ordinal) * 86400000000 + ?s * 1000000 + us mod 1000000)"
    unfolding fromisoformat_def
    by (simp only: read_time_written[OF secs(1,2)] read_text_append read_fraction_written pos_mod_sign pos_mod_bound
        zero_less_numeral bind.simps prod.case option.case simp_thms if_True)
  moreover have "(to_ordinal y m d - epoch_ordinal) * 86400000000 + (?s * 1000000 + us mod 1000000) = t"
    unfolding secs(3) day(4) by (simp add: defs(1) day_ordinal_def)
  ultimately show ?thesis by (simp only: add.assoc)
qed

end
