(* ===== verification/Sqlite_Repository.thy ===== *)
theory Sqlite_Repository
  imports Event_Repository Iso_Time
begin

text \<open>
  The durable repository of \<open>kernel/sqlite_repository.py\<close>: the two tables with their uniqueness
  constraints, the transaction of \<open>commit\<close> with its rollbacks, faults of the database driver at any
  statement, and the encoding of events as JSON. A connection is the sequence of its statements: the
  oracle \<open>fault\<close> names the driver error each of them raises, if any. A text column that holds JSON
  is represented by the value that \<open>json.loads\<close> reads from it; \<open>json.dumps\<close> with \<open>sort_keys\<close> orders
  the keys of every object and writes tuples as arrays.
\<close>

section \<open>Driver errors\<close>

datatype sqlite_error = IntegrityError | OperationalError string | OtherSqliteError

definition BUSY_MARKERS :: "string list" where
  "BUSY_MARKERS =
     [''database is locked'', ''database table is locked'', ''database schema is locked'', ''database is busy'']"

definition py_casefold :: "string \<Rightarrow> string" where
  "py_casefold s = concat (map (\<lambda>c. if of_char c = (223::nat) then ''ss'' else [py_lower_char c]) s)"

definition map_sqlite_error :: "sqlite_error \<Rightarrow> py_error" where
  "map_sqlite_error e =
     (case e of
        OperationalError txt \<Rightarrow>
          if list_ex (\<lambda>marker. sublist marker (py_casefold txt)) BUSY_MARKERS
          then ContractError TRANSIENT_FAILURE True [] else contract_error BACKEND_ERROR
      | _ \<Rightarrow> contract_error BACKEND_ERROR)"

text \<open>What a database operation may raise: an exception of the driver or one of the program.\<close>

datatype tx_error = Driver sqlite_error | Program py_error

type_synonym faults = "nat \<Rightarrow> sqlite_error option"

definition no_faults :: faults where
  "no_faults k = None"

definition statement :: "faults \<Rightarrow> nat \<Rightarrow> tx_error + unit" where
  \<comment> \<open>the \<open>k\<close>-th statement of a connection runs or raises\<close>
  "statement fault k = (case fault k of None \<Rightarrow> Inr () | Some e \<Rightarrow> Inl (Driver e))"

definition run_sqlite :: "tx_error + 'a \<Rightarrow> py_error + 'a" where
  "run_sqlite r =
     (case r of Inl (Driver e) \<Rightarrow> Inl (map_sqlite_error e) | Inl (Program e) \<Rightarrow> Inl e | Inr x \<Rightarrow> Inr x)"

section \<open>Tables\<close>

record event_row =
  er_stream_id :: string
  er_sequence :: int
  er_event_id :: string
  er_event_json :: json

record sqlite_db =
  db_events :: "event_row list"
  db_commands :: "command_record list"

definition empty_db :: sqlite_db where
  "empty_db = \<lparr>db_events = [], db_commands = []\<rparr>"

definition stream_rows :: "sqlite_db \<Rightarrow> string \<Rightarrow> event_row list" where
  \<comment> \<open>\<open>WHERE stream_id = ? ORDER BY sequence ASC\<close>\<close>
  "stream_rows db stream_id = sort_key er_sequence (filter (\<lambda>row. er_stream_id row = stream_id) (db_events db))"

definition count_rows :: "sqlite_db \<Rightarrow> string \<Rightarrow> nat" where
  "count_rows db stream_id = length (filter (\<lambda>row. er_stream_id row = stream_id) (db_events db))"

definition select_command :: "sqlite_db \<Rightarrow> string \<Rightarrow> string \<Rightarrow> command_record option" where
  "select_command db scope key =
     find (\<lambda>c. cr_scope c = scope \<and> cr_idempotency_key c = key) (db_commands db)"

definition insert_event :: "event_row \<Rightarrow> sqlite_db \<Rightarrow> tx_error + sqlite_db" where
  \<comment> \<open>\<open>event_id\<close> is \<open>UNIQUE\<close>, \<open>(stream_id, sequence)\<close> the primary key\<close>
  "insert_event row db =
     (if list_ex (\<lambda>r. er_event_id r = er_event_id row \<or>
          er_stream_id r = er_stream_id row \<and> er_sequence r = er_sequence row) (db_events db)
      then Inl (Driver IntegrityError)
      else Inr (db\<lparr>db_events := db_events db @ [row]\<rparr>))"

definition insert_command :: "command_record \<Rightarrow> sqlite_db \<Rightarrow> tx_error + sqlite_db" where
  "insert_command c db =
     (if select_command db (cr_scope c) (cr_idempotency_key c) \<noteq> None then Inl (Driver IntegrityError)
      else Inr (db\<lparr>db_commands := db_commands db @ [c]\<rparr>))"

section \<open>Events as JSON\<close>

fun json_text :: "json \<Rightarrow> json" where
  \<comment> \<open>\<open>json.loads(json.dumps(_jsonable(v), sort_keys=True))\<close>\<close>
  "json_text (JObj kvs) = JObj (sort_key fst (map (\<lambda>(k, v). (k, json_text v)) kvs))"
| "json_text (JList xs) = JList (map json_text xs)"
| "json_text (JTuple xs) = JList (map json_text xs)"
| "json_text v = v"

definition encode_provenance :: "provenance option \<Rightarrow> json" where
  "encode_provenance p =
     (case p of None \<Rightarrow> JNull
      | Some p \<Rightarrow> JObj [(''source'', JStr (pv_source p)), (''actor_ref'', opt_json (pv_actor_ref p)),
          (''details'', JObj (pv_details p))])"

definition encode_ref :: "external_ref \<Rightarrow> json" where
  "encode_ref r = JObj [(''system'', JStr (xr_system r)), (''kind'', JStr (xr_kind r)), (''value'', JStr (xr_value r))]"

definition encode_event :: "event \<Rightarrow> json" where
  "encode_event e = json_text (JObj
     [(''id'', JStr (ev_id e)), (''event_type'', JStr (ev_event_type e)),
      (''subject_type'', JStr (ev_subject_type e)), (''subject_id'', JStr (ev_subject_id e)),
      (''correlation_id'', JStr (ev_correlation_id e)), (''causation_id'', opt_json (ev_causation_id e)),
      (''trace_id'', opt_json (ev_trace_id e)), (''occurred_at'', JStr (isoformat (ev_occurred_at e))),
      (''schema_version'', JStr (ev_schema_version e)), (''project_id'', opt_json (ev_project_id e)),
      (''owner_ref'', case ev_owner_ref e of None \<Rightarrow> JNull
         | Some o' \<Rightarrow> JObj [(''type'', JStr (ow_type o')), (''id'', JStr (ow_id o'))]),
      (''payload'', JObj (ev_payload e)), (''provenance'', encode_provenance (ev_provenance e)),
      (''external_refs'', JList (map encode_ref (ev_external_refs e)))])"

fun py_str :: "json \<Rightarrow> string" where
  \<comment> \<open>\<open>str(v)\<close>; the texts of numbers and containers, which no column read here holds, are left open\<close>
  "py_str (JStr s) = s"
| "py_str JNull = ''None''"
| "py_str (JBool b) = (if b then ''True'' else ''False'')"

definition nullable_string :: "json option \<Rightarrow> string option" where
  "nullable_string v = (case v of None \<Rightarrow> None | Some JNull \<Rightarrow> None | Some x \<Rightarrow> Some (py_str x))"

definition str_item :: "json dict \<Rightarrow> string \<Rightarrow> py_error + string" where
  \<comment> \<open>\<open>str(obj[key])\<close>\<close>
  "str_item obj key = (case dict_get obj key of None \<Rightarrow> Inl KeyError | Some v \<Rightarrow> Inr (py_str v))"

definition decode_owner :: "json option \<Rightarrow> py_error + owner_ref option" where
  "decode_owner v =
     (case v of None \<Rightarrow> Inr None | Some JNull \<Rightarrow> Inr None
      | Some (JObj o') \<Rightarrow> sbind (str_item o' ''type'') (\<lambda>t. sbind (str_item o' ''id'') (\<lambda>i.
          Inr (Some \<lparr>ow_type = t, ow_id = i\<rparr>)))
      | Some _ \<Rightarrow> Inl ValueError)"

definition decode_provenance :: "json option \<Rightarrow> py_error + provenance option" where
  "decode_provenance v =
     (case v of None \<Rightarrow> Inr None | Some JNull \<Rightarrow> Inr None
      | Some (JObj p) \<Rightarrow>
          (case (case dict_get p ''details'' of None \<Rightarrow> JObj [] | Some d \<Rightarrow> d) of
             JObj details \<Rightarrow> sbind (str_item p ''source'') (\<lambda>source.
               Inr (Some (provenance_post_init \<lparr>pv_source = source,
                 pv_actor_ref = nullable_string (dict_get p ''actor_ref''), pv_details = details\<rparr>)))
           | _ \<Rightarrow> Inl ValueError)
      | Some _ \<Rightarrow> Inl ValueError)"

fun decode_refs :: "json list \<Rightarrow> py_error + external_ref list" where
  \<comment> \<open>the generator keeps the objects; the length check then rejects anything else\<close>
  "decode_refs [] = Inr []"
| "decode_refs (JObj r # xs) =
     sbind (str_item r ''system'') (\<lambda>s. sbind (str_item r ''kind'') (\<lambda>k. sbind (str_item r ''value'') (\<lambda>v.
     sbind (decode_refs xs) (\<lambda>refs. Inr (\<lparr>xr_system = s, xr_kind = k, xr_value = v\<rparr> # refs)))))"
| "decode_refs (_ # xs) = decode_refs xs"

definition decode_external_refs :: "json option \<Rightarrow> py_error + external_ref list" where
  "decode_external_refs v =
     (case (case v of None \<Rightarrow> JList [] | Some x \<Rightarrow> x) of
        JList items \<Rightarrow> sbind (decode_refs items) (\<lambda>refs.
          if length refs \<noteq> length items then Inl ValueError else Inr refs)
      | _ \<Rightarrow> Inl ValueError)"

definition decode_event :: "json \<Rightarrow> py_error + event" where
  "decode_event raw =
     (case raw of
        JObj obj \<Rightarrow>
          (case dict_get obj ''payload'' of
             Some (JObj payload) \<Rightarrow>
               sbind (decode_owner (dict_get obj ''owner_ref'')) (\<lambda>owner.
               sbind (decode_provenance (dict_get obj ''provenance'')) (\<lambda>prov.
               sbind (decode_external_refs (dict_get obj ''external_refs'')) (\<lambda>refs.
               sbind (str_item obj ''id'') (\<lambda>i. sbind (str_item obj ''event_type'') (\<lambda>et.
               sbind (str_item obj ''subject_type'') (\<lambda>st. sbind (str_item obj ''subject_id'') (\<lambda>si.
               sbind (str_item obj ''correlation_id'') (\<lambda>ci.
               sbind (sbind (str_item obj ''occurred_at'') fromisoformat) (\<lambda>at'.
               sbind (str_item obj ''schema_version'') (\<lambda>sv.
               event_post_init \<lparr>ev_event_type = et, ev_subject_type = st, ev_subject_id = si,
                 ev_correlation_id = ci, ev_id = i, ev_owner_ref = owner,
                 ev_project_id = nullable_string (dict_get obj ''project_id''),
                 ev_causation_id = nullable_string (dict_get obj ''causation_id''),
                 ev_trace_id = nullable_string (dict_get obj ''trace_id''), ev_occurred_at = at',
                 ev_payload = payload, ev_schema_version = sv, ev_provenance = prov,
                 ev_external_refs = refs\<rparr>))))))))))
           | _ \<Rightarrow> Inl ValueError)
      | _ \<Rightarrow> Inl ValueError)"

section \<open>Queries\<close>

definition sqlite_read_events :: "faults \<Rightarrow> string \<Rightarrow> sqlite_db \<Rightarrow> py_error + event list" where
  "sqlite_read_events fault stream_id db =
     sbind (run_sqlite (sbind (statement fault 0) (\<lambda>_. sbind (statement fault 1) (\<lambda>_. Inr (stream_rows db stream_id)))))
       (smap (\<lambda>row. decode_event (er_event_json row)))"

definition sqlite_revision :: "faults \<Rightarrow> string \<Rightarrow> sqlite_db \<Rightarrow> py_error + nat" where
  "sqlite_revision fault stream_id db =
     run_sqlite (sbind (statement fault 0) (\<lambda>_. sbind (statement fault 1) (\<lambda>_. Inr (count_rows db stream_id))))"

definition sqlite_find_command :: "faults \<Rightarrow> string \<Rightarrow> string \<Rightarrow> sqlite_db \<Rightarrow> py_error + command_record option" where
  "sqlite_find_command fault scope key db =
     run_sqlite (sbind (statement fault 0) (\<lambda>_. sbind (statement fault 1) (\<lambda>_. Inr (select_command db scope key))))"

definition sqlite_list_stream_ids :: "faults \<Rightarrow> sqlite_db \<Rightarrow> py_error + string list" where
  "sqlite_list_stream_ids fault db =
     run_sqlite (sbind (statement fault 0) (\<lambda>_. sbind (statement fault 1) (\<lambda>_.
       Inr (sort (remdups (map er_stream_id (db_events db)))))))"

section \<open>The transaction\<close>

definition encode_row :: "string \<Rightarrow> int \<Rightarrow> event \<Rightarrow> event_row" where
  "encode_row stream_id sequence e =
     \<lparr>er_stream_id = stream_id, er_sequence = sequence, er_event_id = ev_id e, er_event_json = encode_event e\<rparr>"

fun insert_events :: "faults \<Rightarrow> nat \<Rightarrow> string \<Rightarrow> int \<Rightarrow> event list \<Rightarrow> sqlite_db \<Rightarrow> tx_error + (nat \<times> sqlite_db)" where
  \<comment> \<open>the loop over the events, with the number of the next statement\<close>
  "insert_events fault k stream_id n [] db = Inr (k, db)"
| "insert_events fault k stream_id n (e # es) db =
     (if ev_correlation_id e \<noteq> stream_id then Inl (Program (contract_error CONTRACT_VIOLATION))
      else sbind (statement fault k) (\<lambda>_.
           sbind (insert_event (encode_row stream_id (n + 1) e) db) (\<lambda>db.
           insert_events fault (Suc k) stream_id (n + 1) es db)))"

definition append_rows :: "faults \<Rightarrow> nat \<Rightarrow> string \<Rightarrow> int \<Rightarrow> event list \<Rightarrow> command_record option \<Rightarrow> sqlite_db \<Rightarrow>
    tx_error + (commit_result \<times> sqlite_db)" where
  "append_rows fault k stream_id expected_revision events command db =
     sbind (statement fault k) (\<lambda>_.
     if int (count_rows db stream_id) \<noteq> expected_revision
     then Inl (Program (stale_revision_error expected_revision (count_rows db stream_id)))
     else
     sbind (insert_events fault (Suc k) stream_id expected_revision events db) (\<lambda>(k, db).
     sbind (case command of None \<Rightarrow> Inr (k, db)
            | Some c \<Rightarrow> sbind (statement fault k) (\<lambda>_. sbind (insert_command c db) (\<lambda>db. Inr (Suc k, db)))) (\<lambda>(k, db).
     sbind (statement fault k) (\<lambda>_.
     Inr (\<lparr>cm_applied = True, cm_revision = nat (expected_revision + int (length events)), cm_command = command\<rparr>, db)))))"

definition transaction :: "faults \<Rightarrow> string \<Rightarrow> int \<Rightarrow> event list \<Rightarrow> command_record option \<Rightarrow> sqlite_db \<Rightarrow>
    tx_error + (commit_result \<times> sqlite_db)" where
  \<comment> \<open>statement 0 connects, statement 1 is \<open>BEGIN IMMEDIATE\<close>; the answer of a known command rolls back\<close>
  "transaction fault stream_id expected_revision events command db =
     sbind (statement fault 0) (\<lambda>_. sbind (statement fault 1) (\<lambda>_.
     case command of
       None \<Rightarrow> append_rows fault 2 stream_id expected_revision events None db
     | Some c \<Rightarrow>
         sbind (statement fault 2) (\<lambda>_.
         case select_command db (cr_scope c) (cr_idempotency_key c) of
           Some existing \<Rightarrow> sbind (statement fault 3) (\<lambda>_.
             Inr (\<lparr>cm_applied = False, cm_revision = count_rows db (cr_stream_id existing),
                   cm_command = Some existing\<rparr>, db))
         | None \<Rightarrow> append_rows fault 3 stream_id expected_revision events (Some c) db)))"

definition commit_sync :: "faults \<Rightarrow> string \<Rightarrow> int \<Rightarrow> event list \<Rightarrow> command_record option \<Rightarrow> sqlite_db \<Rightarrow>
    (tx_error + commit_result) \<times> sqlite_db" where
  \<comment> \<open>every exception rolls back; an \<open>IntegrityError\<close> becomes a conflict\<close>
  "commit_sync fault stream_id expected_revision events command db =
     (case transaction fault stream_id expected_revision events command db of
        Inr (res, db') \<Rightarrow> (Inr res, db')
      | Inl (Driver IntegrityError) \<Rightarrow> (Inl (Program (contract_error CONFLICT)), db)
      | Inl e \<Rightarrow> (Inl e, db))"

definition sqlite_commit :: "faults \<Rightarrow> string \<Rightarrow> int \<Rightarrow> event list \<Rightarrow> command_record option \<Rightarrow> sqlite_db \<Rightarrow>
    (py_error + commit_result) \<times> sqlite_db" where
  "sqlite_commit fault stream_id expected_revision events command db =
     (if expected_revision < 0 then (Inl ValueError, db)
      else if events = [] then (Inl ValueError, db)
      else let (r, db') = commit_sync fault stream_id expected_revision events command db in (run_sqlite r, db'))"

section \<open>What is written can be read\<close>

definition same_event :: "event \<Rightarrow> event \<Rightarrow> bool" where
  \<comment> \<open>\<open>==\<close> of the dataclass\<close>
  "same_event x y \<longleftrightarrow> x\<lparr>ev_payload := [], ev_provenance := None\<rparr> = y\<lparr>ev_payload := [], ev_provenance := None\<rparr> \<and>
     py_eq (JObj (ev_payload x)) (JObj (ev_payload y)) \<and> same_provenance (ev_provenance x) (ev_provenance y)"

lemma map_of_filter: "map_of d k = (case filter (\<lambda>p. fst p = k) d of [] \<Rightarrow> None | p # _ \<Rightarrow> Some (snd p))"
  by (induction d) auto

lemma dict_get_sorted [simp]: "dict_get (sort_key fst d) k = dict_get d k"
  by (simp add: dict_get_def map_of_filter sort_key_stable)

lemma map_fixed: "map f xs = xs \<Longrightarrow> x \<in> set xs \<Longrightarrow> f x = x"
  by (induction xs) auto

lemma py_eq_stored: "json_wf v \<Longrightarrow> deep_freeze v = v \<Longrightarrow> py_eq (deep_freeze (json_text v)) v"
proof (induction v)
  case (JObj kvs)
  have each: "py_eq (deep_freeze (json_text u)) u" if "(k, u) \<in> set kvs" for k u
  proof -
    have "deep_freeze u = u" using map_fixed[OF _ that, of "\<lambda>(k, v). (k, deep_freeze v)"] JObj.prems(2) by simp
    with JObj.IH[OF that] JObj.prems(1) that show ?thesis by (auto simp: list_all_iff)
  qed
  have "dict_get kvs k = Some u" if "(k, u) \<in> set kvs" for k u
    using JObj.prems(1) that by (simp add: dict_get_def)
  with each show ?case by (auto simp: list_all_iff)
next
  case (JTuple xs)
  then have "py_eq (deep_freeze (json_text x)) x" if "x \<in> set xs" for x
    using map_fixed[OF _ that, of deep_freeze] that by (simp add: list_all_iff)
  then show ?case by (simp add: list_all_iff zip_map1 zip_same_conv_map)
qed auto

lemma py_eq_stored_mapping:
  assumes "json_wf (JObj d)" "freeze_mapping d = d"
  shows "py_eq (JObj (freeze_mapping (sort_key fst (map (\<lambda>(k, v). (k, json_text v)) d)))) (JObj d)"
  using py_eq_stored[OF assms(1)] assms(2) by (simp add: freeze_mapping_def)

text \<open>Decoding finds each field under its key, however the keys are ordered.\<close>

lemma decode_owner_text:
  "decode_owner (Some (json_text (case v of None \<Rightarrow> JNull
     | Some o' \<Rightarrow> JObj [(''type'', JStr (ow_type o')), (''id'', JStr (ow_id o'))]))) = Inr v"
  by (cases v) (simp_all add: decode_owner_def str_item_def dict_get_def)

definition stored_provenance :: "provenance \<Rightarrow> provenance" where
  "stored_provenance p = provenance_post_init (p\<lparr>pv_details := sort_key fst (map (\<lambda>(k, v). (k, json_text v)) (pv_details p))\<rparr>)"

lemma nullable_opt_json [simp]: "nullable_string (Some (json_text (opt_json v))) = v"
  by (cases v) (simp_all add: nullable_string_def opt_json_def)

lemma decode_provenance_text:
  "decode_provenance (Some (json_text (encode_provenance v))) = Inr (map_option stored_provenance v)"
proof (cases v)
  case (Some p)
  have "json_text (encode_provenance v) = JObj (sort_key fst [(''source'', JStr (pv_source p)),
      (''actor_ref'', json_text (opt_json (pv_actor_ref p))),
      (''details'', JObj (sort_key fst (map (\<lambda>(k, v). (k, json_text v)) (pv_details p))))])"
    by (simp add: Some encode_provenance_def)
  then show ?thesis
    by (simp only: decode_provenance_def option.case json.case dict_get_sorted str_item_def)
      (simp add: dict_get_def Some stored_provenance_def provenance_post_init_def)
qed (simp add: decode_provenance_def encode_provenance_def)

lemma decode_ref_text: "json_text (encode_ref r) = JObj (sort_key fst [(''system'', JStr (xr_system r)),
    (''kind'', JStr (xr_kind r)), (''value'', JStr (xr_value r))])"
  by (simp add: encode_ref_def)

lemma decode_refs_text: "decode_refs (map (\<lambda>r. json_text (encode_ref r)) refs) = Inr refs"
proof (induction refs)
  case (Cons r refs)
  have "str_item (sort_key fst d) k = str_item d k" for d k by (simp add: str_item_def)
  with Cons show ?case
    by (simp only: list.map decode_ref_text decode_refs.simps) (simp add: str_item_def dict_get_def)
qed simp

lemma event_post_init_payload:
  assumes "event_post_init e = Inr e"
  shows "event_post_init (e\<lparr>ev_payload := d, ev_provenance := p\<rparr>) =
    Inr (e\<lparr>ev_payload := freeze_mapping d, ev_provenance := p\<rparr>)" and "freeze_mapping (ev_payload e) = ev_payload e"
proof -
  have "e = e\<lparr>ev_payload := freeze_mapping (ev_payload e)\<rparr>"
    using assms by (auto simp: event_post_init_def sbind_eq_Inr)
  then show "freeze_mapping (ev_payload e) = ev_payload e" by (metis event.select_convs(11) event.surjective event.update_convs(11))
  show "event_post_init (e\<lparr>ev_payload := d, ev_provenance := p\<rparr>) =
    Inr (e\<lparr>ev_payload := freeze_mapping d, ev_provenance := p\<rparr>)"
    using assms by (auto simp: event_post_init_def sbind_eq_Inr)
qed

lemma fields_of_event:
  "\<lparr>ev_event_type = ev_event_type e, ev_subject_type = ev_subject_type e, ev_subject_id = ev_subject_id e,
     ev_correlation_id = ev_correlation_id e, ev_id = ev_id e, ev_owner_ref = ev_owner_ref e,
     ev_project_id = ev_project_id e, ev_causation_id = ev_causation_id e, ev_trace_id = ev_trace_id e,
     ev_occurred_at = ev_occurred_at e, ev_payload = d, ev_schema_version = ev_schema_version e,
     ev_provenance = p, ev_external_refs = ev_external_refs e\<rparr> = e\<lparr>ev_payload := d, ev_provenance := p\<rparr>"
  by (cases e) simp

lemma decode_encode:
  assumes "event_post_init e = Inr e" "representable (ev_occurred_at e)"
  shows "decode_event (encode_event e) =
    Inr (e\<lparr>ev_payload := freeze_mapping (sort_key fst (map (\<lambda>(k, v). (k, json_text v)) (ev_payload e))),
       ev_provenance := map_option stored_provenance (ev_provenance e)\<rparr>)"
proof -
  have refs: "decode_external_refs (Some (JList (map (\<lambda>r. json_text (encode_ref r)) (ev_external_refs e)))) =
      Inr (ev_external_refs e)"
    by (simp add: decode_external_refs_def decode_refs_text)
  note at_text = fromisoformat_isoformat[OF assms(2)]
  note fields = decode_owner_text decode_provenance_text refs nullable_opt_json at_text
  show ?thesis
    unfolding encode_event_def json_text.simps list.map prod.case decode_event_def json.case dict_get_sorted str_item_def
    by (simp add: dict_get_def fields comp_def fields_of_event event_post_init_payload(1)[OF assms(1)] del: json_text.simps)
qed

lemma stored_event_same:
  assumes "event_post_init e = Inr e" "representable (ev_occurred_at e)" "json_wf (JObj (ev_payload e))"
    and "\<forall>p. ev_provenance e = Some p \<longrightarrow> json_wf (JObj (pv_details p)) \<and> provenance_post_init p = p"
  shows "\<exists>e'. decode_event (encode_event e) = Inr e' \<and> same_event e' e"
proof (intro exI conjI)
  show "decode_event (encode_event e) =
    Inr (e\<lparr>ev_payload := freeze_mapping (sort_key fst (map (\<lambda>(k, v). (k, json_text v)) (ev_payload e))),
       ev_provenance := map_option stored_provenance (ev_provenance e)\<rparr>)"
    by (rule decode_encode[OF assms(1,2)])
  have "same_provenance (map_option stored_provenance (ev_provenance e)) (ev_provenance e)"
  proof (cases "ev_provenance e")
    case (Some p)
    then have "json_wf (JObj (pv_details p))" "freeze_mapping (pv_details p) = pv_details p"
      using assms(4) by (auto simp: provenance_post_init_def) (metis provenance.select_convs(3) provenance.surjective provenance.update_convs(3))
    from py_eq_stored_mapping[OF this] show ?thesis
      by (simp add: Some same_provenance_def stored_provenance_def provenance_post_init_def)
  qed (simp add: same_provenance_def)
  then show "same_event (e\<lparr>ev_payload := freeze_mapping (sort_key fst (map (\<lambda>(k, v). (k, json_text v)) (ev_payload e))),
       ev_provenance := map_option stored_provenance (ev_provenance e)\<rparr>) e"
    using py_eq_stored_mapping[OF assms(3) event_post_init_payload(2)[OF assms(1)]] by (simp add: same_event_def)
qed

end
