(* ===== verification/Sqlite_Refinement.thy ===== *)
theory Sqlite_Refinement
  imports Sqlite_Repository
begin

text \<open>
  The durable repository keeps the contract of \<open>Event_Repository\<close> whatever statement of a transaction
  faults, and without faults it answers every sequence of commits as the in-memory repository does.
\<close>

section \<open>Faults\<close>

text \<open>A faulty run ends like the fault-free one, or with the exception of the driver.\<close>

definition or_faults :: "tx_error + 'a \<Rightarrow> tx_error + 'a \<Rightarrow> bool" where
  "or_faults r r0 \<longleftrightarrow> r = r0 \<or> (\<exists>e. r = Inl (Driver e))"

lemma or_faults_refl [simp]: "or_faults r r"
  by (simp add: or_faults_def)

lemma statement_no_faults [simp]: "statement no_faults k = Inr ()"
  by (simp add: statement_def no_faults_def)

lemma or_faults_sbind:
  "or_faults m m0 \<Longrightarrow> (\<And>x. or_faults (f x) (f0 x)) \<Longrightarrow> or_faults (sbind m f) (sbind m0 f0)"
  by (cases m; cases m0) (auto simp: or_faults_def)

lemma or_faults_statement: "(\<And>u. or_faults (f u) r0) \<Longrightarrow> or_faults (sbind (statement fault k) f) r0"
  by (cases "fault k") (auto simp: statement_def or_faults_def)

lemma insert_events_faults: "or_faults (insert_events fault k sid n es db) (insert_events no_faults k sid n es db)"
proof (induction es arbitrary: k n db)
  case (Cons e es)
  have "or_faults (sbind (statement fault k) (\<lambda>_. sbind (insert_event (encode_row sid (n + 1) e) db)
        (insert_events fault (Suc k) sid (n + 1) es)))
      (sbind (insert_event (encode_row sid (n + 1) e) db) (insert_events no_faults (Suc k) sid (n + 1) es))"
    by (intro or_faults_statement or_faults_sbind or_faults_refl Cons.IH)
  then show ?case by simp
qed simp

lemma append_rows_faults: "or_faults (append_rows fault k sid n es cmd db) (append_rows no_faults k sid n es cmd db)"
proof -
  have put: "or_faults (case cmd of None \<Rightarrow> Inr (k, db)
      | Some c \<Rightarrow> sbind (statement fault k) (\<lambda>_. sbind (insert_command c db) (\<lambda>db. Inr (Suc k, db))))
    (case cmd of None \<Rightarrow> Inr (k, db)
      | Some c \<Rightarrow> sbind (statement no_faults k) (\<lambda>_. sbind (insert_command c db) (\<lambda>db. Inr (Suc k, db))))" for k db
    by (cases cmd) (auto intro: or_faults_statement)
  have "or_faults (append_rows fault k sid n es cmd db) (sbind (statement no_faults k) (\<lambda>_.
     if int (count_rows db sid) \<noteq> n then Inl (Program (stale_revision_error n (count_rows db sid)))
     else
     sbind (insert_events no_faults (Suc k) sid n es db) (\<lambda>(k, db).
     sbind (case cmd of None \<Rightarrow> Inr (k, db)
            | Some c \<Rightarrow> sbind (statement no_faults k) (\<lambda>_. sbind (insert_command c db) (\<lambda>db. Inr (Suc k, db)))) (\<lambda>(k, db).
     sbind (statement no_faults k) (\<lambda>_.
     Inr (\<lparr>cm_applied = True, cm_revision = nat (n + int (length es)), cm_command = cmd\<rparr>, db))))))"
    unfolding append_rows_def statement_no_faults sbind_Inr
    by (intro or_faults_statement)
      (auto intro!: or_faults_sbind[OF insert_events_faults] or_faults_sbind[OF put[unfolded statement_no_faults sbind_Inr]]
        or_faults_statement)
  then show ?thesis by (simp only: append_rows_def)
qed

lemma transaction_faults: "or_faults (transaction fault sid n es cmd db) (transaction no_faults sid n es cmd db)"
  unfolding transaction_def statement_no_faults sbind_Inr
  by (intro or_faults_statement)
    (auto intro!: or_faults_statement append_rows_faults split: option.splits)

definition driver_errors :: "py_error set" where
  "driver_errors = {contract_error CONFLICT, contract_error BACKEND_ERROR, ContractError TRANSIENT_FAILURE True []}"

lemma commit_faults:
  "sqlite_commit fault sid n es cmd db = sqlite_commit no_faults sid n es cmd db \<or>
   (\<exists>e \<in> driver_errors. sqlite_commit fault sid n es cmd db = (Inl e, db))"
proof -
  consider "transaction fault sid n es cmd db = transaction no_faults sid n es cmd db"
    | e where "transaction fault sid n es cmd db = Inl (Driver e)"
    using transaction_faults[of fault sid n es cmd db] by (auto simp: or_faults_def)
  then show ?thesis
  proof cases
    case 1
    then show ?thesis by (simp add: sqlite_commit_def commit_sync_def)
  next
    case 2
    show ?thesis
    proof (cases "n < 0 \<or> es = []")
      case True
      then show ?thesis by (auto simp: sqlite_commit_def)
    next
      case False
      with 2 show ?thesis
        by (cases e) (auto simp: sqlite_commit_def commit_sync_def run_sqlite_def map_sqlite_error_def driver_errors_def)
    qed
  qed
qed

section \<open>What a transaction writes\<close>

definition rows_of :: "sqlite_db \<Rightarrow> string \<Rightarrow> event_row list" where
  "rows_of db sid = filter (\<lambda>row. er_stream_id row = sid) (db_events db)"

primrec encode_rows :: "string \<Rightarrow> int \<Rightarrow> event list \<Rightarrow> event_row list" where
  "encode_rows sid n [] = []"
| "encode_rows sid n (e # es) = encode_row sid (n + 1) e # encode_rows sid (n + 1) es"

lemma encode_rows_append: "encode_rows sid n (xs @ ys) = encode_rows sid n xs @ encode_rows sid (n + int (length xs)) ys"
  by (induction xs arbitrary: n) (simp_all add: algebra_simps)

lemma encode_rows_facts [simp]:
  "length (encode_rows sid n es) = length es"
  "map er_event_id (encode_rows sid n es) = map ev_id es"
  "map er_event_json (encode_rows sid n es) = map encode_event es"
  by (induction es arbitrary: n) (simp_all add: encode_row_def)

lemma encode_rows_stream: "row \<in> set (encode_rows sid n es) \<Longrightarrow> er_stream_id row = sid"
  by (induction es arbitrary: n) (auto simp: encode_row_def)

lemma encode_rows_sequence: "map er_sequence (encode_rows sid n es) = map (\<lambda>i. n + int i) [1..<Suc (length es)]"
proof (induction es rule: rev_induct)
  case (snoc e es)
  then show ?case by (simp add: encode_rows_append encode_row_def)
qed simp

lemma rows_of_append: "rows_of (db\<lparr>db_events := db_events db @ encode_rows sid n es\<rparr>) =
    (rows_of db)(sid := rows_of db sid @ encode_rows sid n es)"
  by (auto simp: rows_of_def fun_eq_iff filter_empty_conv dest: encode_rows_stream intro!: filter_True)

text \<open>The numbering of a stream, without which an insertion might hit the primary key.\<close>

definition rows_numbered :: "sqlite_db \<Rightarrow> bool" where
  "rows_numbered db \<longleftrightarrow> (\<forall>sid. map er_sequence (rows_of db sid) = map int [1..<Suc (length (rows_of db sid))])"

lemma stream_rows_numbered: "rows_numbered db \<Longrightarrow> stream_rows db sid = rows_of db sid"
proof -
  assume "rows_numbered db"
  then have "sorted (map er_sequence (rows_of db sid))" unfolding rows_numbered_def by (auto simp: sorted_map simp del: upt_Suc)
  then show ?thesis unfolding stream_rows_def rows_of_def[symmetric] by (rule sort_key_id_if_sorted)
qed

lemma count_rows_of: "count_rows db sid = length (rows_of db sid)"
  by (simp add: count_rows_def rows_of_def)

lemma insert_events_exact:
  assumes "\<forall>row \<in> set (rows_of db sid). er_sequence row \<le> n" "set existing = er_event_id ` set (db_events db)"
  shows "insert_events no_faults k sid n es db =
    (case check_events sid existing es of
       Inr _ \<Rightarrow> Inr (k + length es, db\<lparr>db_events := db_events db @ encode_rows sid n es\<rparr>)
     | Inl e \<Rightarrow> Inl (if e = contract_error CONFLICT then Driver IntegrityError else Program e))"
  using assms
proof (induction es arbitrary: k n db existing)
  case (Cons e es)
  let ?row = "encode_row sid (n + 1) e" and ?db = "db\<lparr>db_events := db_events db @ [encode_row sid (n + 1) e]\<rparr>"
  show ?case
  proof (cases "ev_correlation_id e \<noteq> sid \<or> ev_id e \<in> set existing")
    case True
    then show ?thesis using Cons.prems(2)
      by (cases "ev_correlation_id e = sid") (auto simp: insert_event_def list_ex_iff encode_row_def)
  next
    case False
    have fresh: "insert_event ?row db = Inr ?db"
    proof -
      have new: "ev_id e \<notin> er_event_id ` set (db_events db)" using False Cons.prems(2) by simp
      have "er_event_id r \<noteq> ev_id e" if "r \<in> set (db_events db)" for r using new that by (metis imageI)
      moreover have "\<not> (er_stream_id r = sid \<and> er_sequence r = n + 1)" if "r \<in> set (db_events db)" for r
        using that Cons.prems(1)[rule_format, of r] by (auto simp: rows_of_def)
      ultimately show ?thesis by (auto simp: insert_event_def list_ex_iff encode_row_def)
    qed
    have "\<forall>row \<in> set (rows_of ?db sid). er_sequence row \<le> n + 1"
      using Cons.prems(1) by (fastforce simp: rows_of_def encode_row_def)
    moreover have "set (ev_id e # existing) = er_event_id ` set (db_events ?db)"
      using Cons.prems(2) by (simp add: encode_row_def)
    ultimately show ?thesis using Cons.IH[of ?db "n + 1" "ev_id e # existing" "Suc k"] False fresh
      by (auto split: sum.splits)
  qed
qed simp

lemma find_append: "find P (xs @ ys) = (case find P xs of None \<Rightarrow> find P ys | Some x \<Rightarrow> Some x)"
  by (induction xs) auto

lemma select_inserted:
  assumes "select_command db (cr_scope c) (cr_idempotency_key c) = None"
  shows "select_command \<lparr>db_events = e, db_commands = db_commands db @ [c]\<rparr> s k =
    (if s = cr_scope c \<and> k = cr_idempotency_key c then Some c else select_command db s k)"
  using assms by (auto simp: select_command_def find_append split: option.splits)

text \<open>A fault-free append, as one case distinction.\<close>

lemma append_rows_exact:
  assumes "rows_numbered db" "set existing = er_event_id ` set (db_events db)"
    and "\<And>c. cmd = Some c \<Longrightarrow> select_command db (cr_scope c) (cr_idempotency_key c) = None"
  shows "append_rows no_faults k sid n es cmd db =
    (if int (length (rows_of db sid)) \<noteq> n then Inl (Program (stale_revision_error n (length (rows_of db sid))))
     else case check_events sid existing es of
       Inl e \<Rightarrow> Inl (if e = contract_error CONFLICT then Driver IntegrityError else Program e)
     | Inr _ \<Rightarrow> Inr (\<lparr>cm_applied = True, cm_revision = length (rows_of db sid) + length es, cm_command = cmd\<rparr>,
         \<lparr>db_events = db_events db @ encode_rows sid n es,
          db_commands = (case cmd of None \<Rightarrow> db_commands db | Some c \<Rightarrow> db_commands db @ [c])\<rparr>))"
proof (cases "int (length (rows_of db sid)) = n")
  case True
  have "er_sequence ` set (rows_of db sid) = int ` {1..<Suc (length (rows_of db sid))}"
    using assms(1) unfolding rows_numbered_def by (metis list.set_map set_upt)
  then have "er_sequence row \<in> int ` {1..<Suc (length (rows_of db sid))}" if "row \<in> set (rows_of db sid)" for row
    using that by blast
  then have "\<forall>row \<in> set (rows_of db sid). er_sequence row \<le> n" using True by fastforce
  note ins = insert_events_exact[OF this assms(2), of "Suc k" es]
  have select: "select_command (db\<lparr>db_events := x\<rparr>) s k = select_command db s k" for x s k
    by (simp add: select_command_def)
  show ?thesis
    unfolding append_rows_def ins
    using True assms(3) by (cases cmd) (auto simp: count_rows_of insert_command_def select split: sum.splits)
qed (simp add: append_rows_def count_rows_of)

section \<open>Simulation by the in-memory repository\<close>

definition simulates :: "sqlite_db \<Rightarrow> mem_repo \<Rightarrow> bool" where
  "simulates db r \<longleftrightarrow> repo_wf r \<and> (\<forall>sid. rows_of db sid = encode_rows sid 0 (read_events r sid)) \<and>
     (\<forall>s k. select_command db s k = find_command r s k)"

lemma simulates_empty: "simulates empty_db empty_repo"
  using empty_repo_wf
  by (simp add: simulates_def empty_db_def rows_of_def select_command_def read_events_def find_command_def empty_repo_def)

lemma simulates_numbered: "simulates db r \<Longrightarrow> rows_numbered db"
  by (simp add: simulates_def rows_numbered_def encode_rows_sequence)

lemma simulates_count: "simulates db r \<Longrightarrow> length (rows_of db sid) = length (read_events r sid)"
  by (simp add: simulates_def)

lemma all_event_ids_read:
  assumes "repo_wf r"
  shows "set (all_event_ids r) = (\<Union>sid. ev_id ` set (read_events r sid))"
proof -
  have "dict_get (mr_streams r) sid = Some evs" if "(sid, evs) \<in> set (mr_streams r)" for sid evs
    using assms that by (simp add: repo_wf_def dict_get_def)
  then have read: "read_events r sid = evs" if "(sid, evs) \<in> set (mr_streams r)" for sid evs
    using that by (simp add: read_events_def)
  have "x \<in> (\<Union>sid. ev_id ` set (read_events r sid))" if "x \<in> set (all_event_ids r)" for x
  proof -
    from that obtain sid evs where "(sid, evs) \<in> set (mr_streams r)" "x \<in> ev_id ` set evs"
      by (auto simp: all_event_ids_def)
    with read show ?thesis by blast
  qed
  moreover have "x \<in> set (all_event_ids r)" if "x \<in> ev_id ` set (read_events r sid)" for x sid
  proof -
    from that obtain evs where "(sid, evs) \<in> set (mr_streams r)" "x \<in> ev_id ` set evs"
      by (auto simp: read_events_def dict_get_def split: option.splits dest!: map_of_SomeD[OF sym])
    then show ?thesis by (force simp: all_event_ids_def)
  qed
  ultimately show ?thesis by blast
qed

lemma simulates_ids:
  assumes "simulates db r"
  shows "er_event_id ` set (db_events db) = set (all_event_ids r)"
proof -
  have "set (db_events db) = (\<Union>sid. set (rows_of db sid))" by (auto simp: rows_of_def)
  then have "er_event_id ` set (db_events db) = (\<Union>sid. set (map er_event_id (rows_of db sid)))" by auto
  also have "\<dots> = (\<Union>sid. ev_id ` set (read_events r sid))" using assms by (simp add: simulates_def)
  finally show ?thesis using assms all_event_ids_read by (simp add: simulates_def)
qed

lemma transaction_exact:
  assumes "rows_numbered db" "set existing = er_event_id ` set (db_events db)"
  shows "transaction no_faults sid n es cmd db =
    (case (case cmd of None \<Rightarrow> None | Some c \<Rightarrow> select_command db (cr_scope c) (cr_idempotency_key c)) of
       Some c \<Rightarrow> Inr (\<lparr>cm_applied = False, cm_revision = length (rows_of db (cr_stream_id c)), cm_command = Some c\<rparr>, db)
     | None \<Rightarrow>
         if int (length (rows_of db sid)) \<noteq> n then Inl (Program (stale_revision_error n (length (rows_of db sid))))
         else case check_events sid existing es of
           Inl e \<Rightarrow> Inl (if e = contract_error CONFLICT then Driver IntegrityError else Program e)
         | Inr _ \<Rightarrow> Inr (\<lparr>cm_applied = True, cm_revision = length (rows_of db sid) + length es, cm_command = cmd\<rparr>,
             \<lparr>db_events = db_events db @ encode_rows sid n es,
              db_commands = (case cmd of None \<Rightarrow> db_commands db | Some c \<Rightarrow> db_commands db @ [c])\<rparr>))"
proof (cases cmd)
  case None
  show ?thesis
    unfolding transaction_def None option.case using append_rows_exact[OF assms, of None 2 sid n es]
    by (simp split: sum.splits)
next
  case (Some c)
  show ?thesis
  proof (cases "select_command db (cr_scope c) (cr_idempotency_key c)")
    case None
    then show ?thesis
      using Some append_rows_exact[OF assms, of "Some c" 3 sid n es]
      by (simp add: transaction_def split: sum.splits)
  qed (simp add: transaction_def Some count_rows_of)
qed

lemma check_events_errors:
  "check_events sid existing es = Inl e \<Longrightarrow> e = contract_error CONFLICT \<or> e = contract_error CONTRACT_VIOLATION"
  by (induction es arbitrary: existing) (auto split: if_splits)

text \<open>One commit: the same answer, and states that still correspond.\<close>

lemma commit_simulated:
  assumes "simulates db r" "sqlite_commit no_faults sid n es cmd db = (out, db')" "commit sid n es cmd r = (out', r')"
  shows "out = out' \<and> simulates db' r'"
proof -
  define r1 where "r1 = r\<lparr>mr_streams := (case dict_get (mr_streams r) sid of
      None \<Rightarrow> dict_set sid [] (mr_streams r) | Some _ \<Rightarrow> mr_streams r)\<rparr>"
  have wf: "repo_wf r" "repo_wf r'" "repo_wf r1" "read_events r1 = read_events r"
    using assms(1) commit_wf[OF _ assms(3)] setdefault_wf[of r sid] by (simp_all add: simulates_def r1_def)
  have ids: "set (all_event_ids r1) = er_event_id ` set (db_events db)"
    using simulates_ids[OF assms(1)] all_event_ids_read wf by simp
  note tx = transaction_exact[OF simulates_numbered[OF assms(1)] ids, of sid n es cmd]
  have sel: "select_command db s k = find_command r s k" for s k using assms(1) by (simp add: simulates_def)
  note rows = simulates_count[OF assms(1)]
  show ?thesis
    using assms(3)
  proof (cases rule: commit_cases)
    case 1
    then have "n < 0 \<or> es = []" using assms(3)
      by (auto simp: commit_def commit_append_def Let_def stale_revision_error_def
          dest!: check_events_errors split: if_splits option.splits sum.splits)
    with 1 assms(1,2) show ?thesis by (auto simp: sqlite_commit_def split: if_splits)
  next
    case (2 c c')
    then have "\<not> (n < 0 \<or> es = [])" using assms(3) by (auto simp: commit_def split: if_splits)
    moreover have "transaction no_faults sid n es cmd db =
        Inr (\<lparr>cm_applied = False, cm_revision = length (read_events r (cr_stream_id c')), cm_command = Some c'\<rparr>, db)"
      unfolding tx by (simp add: 2 sel rows)
    ultimately show ?thesis
      using assms(1,2) 2(3,4) by (auto simp: sqlite_commit_def commit_sync_def run_sqlite_def)
  next
    case 3
    have known: "(case cmd of None \<Rightarrow> None | Some c \<Rightarrow> select_command db (cr_scope c) (cr_idempotency_key c)) = None"
      using 3(3) by (cases cmd) (simp_all add: sel)
    have pos: "\<not> n < 0" "es \<noteq> []"
      using assms(3) 3(1,2) by (auto simp: commit_def commit_append_def Let_def stale_revision_error_def)
    have db: "simulates db r1"
      using assms(1) wf(3,4) by (simp add: simulates_def r1_def)
    note app = 3(1)[unfolded commit_append_def Let_def r1_def[symmetric]]
    consider (stale) "int (length (read_events r sid)) \<noteq> n"
      | (bad) e where "int (length (read_events r sid)) = n" "check_events sid (all_event_ids r1) es = Inl e"
      | (good) u where "int (length (read_events r sid)) = n" "check_events sid (all_event_ids r1) es = Inr u"
      by (cases "check_events sid (all_event_ids r1) es") auto
    then show ?thesis
    proof cases
      case stale
      with app assms(2) pos db show ?thesis
        by (auto simp: sqlite_commit_def commit_sync_def tx known rows run_sqlite_def)
    next
      case bad
      with app assms(2) pos db check_events_errors[OF bad(2)] show ?thesis
        by (auto simp: sqlite_commit_def commit_sync_def tx known rows run_sqlite_def)
    next
      case good
      then have db': "db' = \<lparr>db_events = db_events db @ encode_rows sid n es,
          db_commands = (case cmd of None \<Rightarrow> db_commands db | Some c \<Rightarrow> db_commands db @ [c])\<rparr>"
        and outs: "out = Inr \<lparr>cm_applied = True, cm_revision = length (read_events r sid) + length es, cm_command = cmd\<rparr>"
          "out' = out"
        using app assms(2) pos by (auto simp: sqlite_commit_def commit_sync_def tx known rows run_sqlite_def)
      note new = commit_append_Inr[OF 3(1)[unfolded outs(1,2)]]
      have "rows_of db' = (rows_of db)(sid := rows_of db sid @ encode_rows sid n es)"
        using rows_of_append[of db sid n es] by (simp add: db' rows_of_def fun_eq_iff)
      then have "rows_of db' s = encode_rows s 0 (read_events r' s)" for s
        using assms(1) good(1) by (simp add: simulates_def new(3) encode_rows_append)
      moreover have "select_command db' s k = find_command r' s k" for s k
      proof (cases cmd)
        case None
        then show ?thesis using sel by (simp add: db' new(5) select_command_def)
      next
        case (Some c)
        then show ?thesis using select_inserted[of db c] 3(3) by (simp add: db' new(5) sel)
      qed
      ultimately show ?thesis using wf(2) outs by (simp add: simulates_def)
    qed
  qed
qed

section \<open>The contract, whatever faults\<close>

lemma numbers_append: "map int [1..<Suc a] @ map (\<lambda>i. int a + int i) [1..<Suc b] = map int [1..<Suc (a + b)]"
  by (induction b) simp_all

lemma applied_rows:
  assumes "rows_numbered db" "int (length (rows_of db sid)) = n"
    and "db' = \<lparr>db_events = db_events db @ encode_rows sid n es, db_commands = c\<rparr>"
  shows "rows_numbered db' \<and> rows_of db' = (rows_of db)(sid := rows_of db sid @ encode_rows sid n es)"
proof -
  have rows: "rows_of db' = (rows_of db)(sid := rows_of db sid @ encode_rows sid n es)"
    using rows_of_append[of db sid n es] by (simp add: assms(3) rows_of_def fun_eq_iff)
  have "map er_sequence (rows_of db' s) = map int [1..<Suc (length (rows_of db' s))]" for s
  proof (cases "s = sid")
    case True
    have "map er_sequence (rows_of db' sid) = map int [1..<Suc (length (rows_of db sid))] @
        map (\<lambda>i. int (length (rows_of db sid)) + int i) [1..<Suc (length es)]"
      using assms(1,2) unfolding rows fun_upd_same map_append encode_rows_sequence by (simp add: rows_numbered_def)
    also have "\<dots> = map int [1..<Suc (length (rows_of db' sid))]"
      unfolding numbers_append by (simp add: rows del: upt_Suc)
    finally show ?thesis using True by simp
  next
    case False
    with assms(1) show ?thesis by (simp add: rows rows_numbered_def del: upt_Suc)
  qed
  with rows show ?thesis by (simp add: rows_numbered_def)
qed

lemma commit_outcomes:
  assumes "rows_numbered db" "sqlite_commit fault sid n es cmd db = (out, db')"
  shows "(\<exists>e. out = Inl e) \<and> db' = db \<or>
    (\<exists>c c' m. cmd = Some c \<and> select_command db (cr_scope c) (cr_idempotency_key c) = Some c' \<and>
       out = Inr \<lparr>cm_applied = False, cm_revision = m, cm_command = Some c'\<rparr> \<and> db' = db) \<or>
    (es \<noteq> [] \<and> int (length (rows_of db sid)) = n \<and>
       out = Inr \<lparr>cm_applied = True, cm_revision = length (rows_of db sid) + length es, cm_command = cmd\<rparr> \<and>
       (\<forall>c. cmd = Some c \<longrightarrow> select_command db (cr_scope c) (cr_idempotency_key c) = None) \<and>
       db' = \<lparr>db_events = db_events db @ encode_rows sid n es,
         db_commands = (case cmd of None \<Rightarrow> db_commands db | Some c \<Rightarrow> db_commands db @ [c])\<rparr>)"
proof -
  note tx = transaction_exact[OF assms(1), of "map er_event_id (db_events db)" sid n es cmd, simplified]
  have "sqlite_commit no_faults sid n es cmd db = (out, db') \<or> (\<exists>e. out = Inl e) \<and> db' = db"
    using commit_faults[of fault sid n es cmd db] assms(2) by auto
  moreover have ?thesis if ff: "sqlite_commit no_faults sid n es cmd db = (out, db')"
  proof (cases "n < 0 \<or> es = []")
    case False
    consider (known) c where "(case cmd of None \<Rightarrow> None | Some c \<Rightarrow> select_command db (cr_scope c) (cr_idempotency_key c)) = Some c"
      | (failed) e where "transaction no_faults sid n es cmd db = Inl e"
      | (good) u where "(case cmd of None \<Rightarrow> None | Some c \<Rightarrow> select_command db (cr_scope c) (cr_idempotency_key c)) = None"
          "int (length (rows_of db sid)) = n" "check_events sid (map er_event_id (db_events db)) es = Inr u"
      unfolding tx by (cases "case cmd of None \<Rightarrow> None | Some c \<Rightarrow> select_command db (cr_scope c) (cr_idempotency_key c)";
        cases "int (length (rows_of db sid)) = n"; cases "check_events sid (map er_event_id (db_events db)) es") auto
    then show ?thesis
    proof cases
      case known
      then have "transaction no_faults sid n es cmd db =
          Inr (\<lparr>cm_applied = False, cm_revision = length (rows_of db (cr_stream_id c)), cm_command = Some c\<rparr>, db)"
        unfolding tx by simp
      with ff False known show ?thesis
        by (cases cmd) (auto simp: sqlite_commit_def commit_sync_def run_sqlite_def)
    next
      case failed
      with ff False show ?thesis
        by (auto simp: sqlite_commit_def commit_sync_def run_sqlite_def split: tx_error.splits sqlite_error.splits)
    next
      case good
      then have "transaction no_faults sid n es cmd db =
          Inr (\<lparr>cm_applied = True, cm_revision = length (rows_of db sid) + length es, cm_command = cmd\<rparr>,
            \<lparr>db_events = db_events db @ encode_rows sid n es,
              db_commands = (case cmd of None \<Rightarrow> db_commands db | Some c \<Rightarrow> db_commands db @ [c])\<rparr>)"
        unfolding tx by simp
      with ff False good show ?thesis
        by (auto simp: sqlite_commit_def commit_sync_def run_sqlite_def)
    qed
  qed (use ff in \<open>auto simp: sqlite_commit_def split: if_splits\<close>)
  ultimately show ?thesis by blast
qed

interpretation sq: event_repository "\<lambda>db sid. map er_event_json (stream_rows db sid)" select_command
  "sqlite_commit fault" rows_numbered encode_event for fault
proof (unfold_locales, goal_cases)
  case (1 r sid n es cmd out r')
  from commit_outcomes[OF this] show ?case using applied_rows[OF 1(1)] 1(1) by blast
next
  case (2 r sid n es cmd e r')
  from commit_outcomes[OF this] show ?case by auto
next
  case (3 r sid n es cmd res r')
  from commit_outcomes[OF 3(1,2)] 3(3) show ?case by auto
next
  case (4 r sid n es cmd res r')
  from commit_outcomes[OF 4(1,2)] 4(3)
  have good: "es \<noteq> []" "int (length (rows_of r sid)) = n" "cm_revision res = length (rows_of r sid) + length es"
    "\<forall>c. cmd = Some c \<longrightarrow> select_command r (cr_scope c) (cr_idempotency_key c) = None"
    "r' = \<lparr>db_events = db_events r @ encode_rows sid n es,
       db_commands = (case cmd of None \<Rightarrow> db_commands r | Some c \<Rightarrow> db_commands r @ [c])\<rparr>"
    by auto
  note rows = applied_rows[OF 4(1) good(2,5)]
  have read: "stream_rows r = rows_of r" "stream_rows r' = rows_of r'"
    using stream_rows_numbered 4(1) rows by (simp_all add: fun_eq_iff)
  have "(\<lambda>s. map er_event_json (stream_rows r' s)) =
      (\<lambda>s. map er_event_json (stream_rows r s))(sid := map er_event_json (stream_rows r sid) @ map encode_event es)"
    unfolding read conjunct2[OF rows] by (simp add: fun_eq_iff)
  moreover have "case cmd of None \<Rightarrow> select_command r' = select_command r
     | Some c \<Rightarrow> select_command r (cr_scope c) (cr_idempotency_key c) = None \<and>
         (\<forall>s k. select_command r' s k =
            (if s = cr_scope c \<and> k = cr_idempotency_key c then Some c else select_command r s k))"
    using good(4) select_inserted[of r]
    by (cases cmd) (simp_all add: good(5) fun_eq_iff, simp add: select_command_def)
  moreover have "n = int (length (stream_rows r sid))" "cm_revision res = length (stream_rows r' sid)"
    using good(2,3) conjunct2[OF rows] by (simp_all add: read)
  ultimately show ?case using good(1) by simp
qed

end
