(* ===== verification/Sqlite_Properties.thy ===== *)
theory Sqlite_Properties
  imports Sqlite_Refinement Kernel_Demo
begin

text \<open>
  What the durable repository guarantees: it answers like the in-memory one, reads back what was
  written, loses nothing that was committed, and a fault leaves no trace.
\<close>

section \<open>Sequences of commits\<close>

type_synonym commit_request = "string \<times> int \<times> event list \<times> command_record option"

fun serve_commits :: "(commit_request \<Rightarrow> 's \<Rightarrow> (py_error + commit_result) \<times> 's) \<Rightarrow> commit_request list \<Rightarrow> 's \<Rightarrow>
    (py_error + commit_result) list \<times> 's" where
  "serve_commits step [] s = ([], s)"
| "serve_commits step (q # qs) s =
     (let (out, s') = step q s; (outs, t) = serve_commits step qs s' in (out # outs, t))"

definition memory_step :: "commit_request \<Rightarrow> mem_repo \<Rightarrow> (py_error + commit_result) \<times> mem_repo" where
  "memory_step = (\<lambda>(sid, n, es, cmd). commit sid n es cmd)"

definition sqlite_step :: "commit_request \<Rightarrow> sqlite_db \<Rightarrow> (py_error + commit_result) \<times> sqlite_db" where
  "sqlite_step = (\<lambda>(sid, n, es, cmd). sqlite_commit no_faults sid n es cmd)"

lemma serve_simulated:
  assumes "simulates db r"
  shows "fst (serve_commits sqlite_step qs db) = fst (serve_commits memory_step qs r) \<and>
    simulates (snd (serve_commits sqlite_step qs db)) (snd (serve_commits memory_step qs r))"
  using assms
proof (induction qs arbitrary: db r)
  case (Cons q qs)
  obtain sid n es cmd where q: "q = (sid, n, es, cmd)" by (cases q)
  obtain out db' where s: "sqlite_commit no_faults sid n es cmd db = (out, db')" by fastforce
  obtain out' r' where m: "commit sid n es cmd r = (out', r')" by fastforce
  from commit_simulated[OF Cons.prems s m] have "out = out'" "simulates db' r'" by simp_all
  with Cons.IH[of db' r'] s m show ?case by (simp add: q sqlite_step_def memory_step_def case_prod_beta)
qed simp

abbreviation durable :: "commit_request list \<Rightarrow> sqlite_db" where
  "durable qs \<equiv> snd (serve_commits sqlite_step qs empty_db)"

abbreviation in_memory :: "commit_request list \<Rightarrow> mem_repo" where
  "in_memory qs \<equiv> snd (serve_commits memory_step qs empty_repo)"

lemma served: "simulates (durable qs) (in_memory qs)"
  using serve_simulated[OF simulates_empty] by blast

lemma listed_streams:
  assumes "simulates db r"
  shows "sort (remdups (map er_stream_id (db_events db))) =
    filter (\<lambda>sid. read_events r sid \<noteq> []) (list_stream_ids r)"
proof (rule sorted_distinct_set_unique)
  have wf: "distinct (map fst (mr_streams r))" using assms by (simp add: simulates_def repo_wf_def)
  then show "distinct (filter (\<lambda>sid. read_events r sid \<noteq> []) (list_stream_ids r))" by (simp add: list_stream_ids_def)
  have "sid \<in> er_stream_id ` set (db_events db) \<longleftrightarrow> rows_of db sid \<noteq> []" for sid
    by (auto simp: rows_of_def filter_empty_conv)
  moreover have "rows_of db sid \<noteq> [] \<longleftrightarrow> read_events r sid \<noteq> []" for sid
    using simulates_count[OF assms, of sid] by auto
  moreover have "read_events r sid \<noteq> [] \<Longrightarrow> sid \<in> fst ` set (mr_streams r)" for sid
    by (auto simp: read_events_def dict_get_None_iff split: option.splits) (metis dict_get_None_iff option.distinct(1))
  ultimately show "set (sort (remdups (map er_stream_id (db_events db)))) =
      set (filter (\<lambda>sid. read_events r sid \<noteq> []) (list_stream_ids r))"
    by (auto simp: list_stream_ids_def)
qed (simp_all add: list_stream_ids_def sorted_filter[of "\<lambda>x. x", simplified])

section \<open>Properties\<close>

text \<open>C14: the durable repository refines the in-memory one. Given the same commits, both answer alike (results and
errors), find the same commands and revisions, and list the same streams that hold events.\<close>

theorem sqlite_refines_memory:
  "fst (serve_commits sqlite_step qs empty_db) = fst (serve_commits memory_step qs empty_repo) \<and>
   sqlite_find_command no_faults s k (durable qs) = Inr (find_command (in_memory qs) s k) \<and>
   sqlite_revision no_faults sid (durable qs) = Inr (revision (in_memory qs) sid) \<and>
   sqlite_list_stream_ids no_faults (durable qs) =
     Inr (filter (\<lambda>sid. read_events (in_memory qs) sid \<noteq> []) (list_stream_ids (in_memory qs)))"
  using serve_simulated[OF simulates_empty] listed_streams[OF served] simulates_count[OF served] served
  by (simp add: sqlite_find_command_def sqlite_revision_def sqlite_list_stream_ids_def run_sqlite_def simulates_def
      count_rows_of revision_def)

text \<open>What an event needs to be read back: it was validated, holds JSON with unique keys and a possible time.\<close>

definition storable :: "event \<Rightarrow> bool" where
  "storable e \<longleftrightarrow> event_post_init e = Inr e \<and> representable (ev_occurred_at e) \<and> json_wf (JObj (ev_payload e)) \<and>
     (case ev_provenance e of None \<Rightarrow> True | Some p \<Rightarrow> json_wf (JObj (pv_details p)) \<and> provenance_post_init p = p)"

lemma storable_reads: "storable e \<Longrightarrow> \<exists>e'. decode_event (encode_event e) = Inr e' \<and> same_event e' e"
  by (rule stored_event_same) (auto simp: storable_def split: option.splits)

lemma decode_rows:
  "list_all storable es \<Longrightarrow> \<exists>es'. smap (\<lambda>row. decode_event (er_event_json row)) (encode_rows sid n es) = Inr es' \<and>
    list_all2 same_event es' es"
proof (induction es arbitrary: n)
  case (Cons e es)
  obtain e' where e': "decode_event (encode_event e) = Inr e'" "same_event e' e"
    using storable_reads Cons.prems by auto
  obtain es' where "smap (\<lambda>row. decode_event (er_event_json row)) (encode_rows sid (n + 1) es) = Inr es'"
    "list_all2 same_event es' es"
    using Cons by fastforce
  with e' show ?case by (intro exI[of _ "e' # es'"]) (simp add: encode_row_def)
qed simp

text \<open>C29: what was written is read back. A stream of validated events is read from the database in order, each
event equal to the one committed (as Python compares them: the keys of mappings may be reordered).\<close>

theorem stored_history_reads_back:
  assumes "list_all storable (read_events (in_memory qs) sid)"
  shows "\<exists>es. sqlite_read_events no_faults sid (durable qs) = Inr es \<and>
    list_all2 same_event es (read_events (in_memory qs) sid)"
proof -
  have "stream_rows (durable qs) sid = encode_rows sid 0 (read_events (in_memory qs) sid)"
    using stream_rows_numbered[OF simulates_numbered[OF served]] served by (simp add: simulates_def)
  with decode_rows[OF assms] show ?thesis by (simp add: sqlite_read_events_def run_sqlite_def)
qed

lemma demo_storable: "list_all storable (take 2 demo_history)"
  by code_simp

lemma demo_in_memory: "read_events (in_memory [(demo_task, 0, (take 2 demo_history), None)]) demo_task = (take 2 demo_history)"
  by code_simp

theorem stored_history_reads_back_witness:
  "\<exists>es. sqlite_read_events no_faults demo_task (durable [(demo_task, 0, (take 2 demo_history), None)]) = Inr es \<and>
    list_all2 same_event es (take 2 demo_history)"
  using stored_history_reads_back[of "[(demo_task, 0, (take 2 demo_history), None)]" demo_task] demo_storable demo_in_memory by simp

section \<open>Faults\<close>

definition faulty_step :: "faults \<times> commit_request \<Rightarrow> sqlite_db \<Rightarrow> sqlite_db" where
  "faulty_step = (\<lambda>(fault, sid, n, es, cmd) db. snd (sqlite_commit fault sid n es cmd db))"

text \<open>A fault leaves no trace. Whatever statement of a commit the driver fails, the commit either ends as
without the fault or raises a contract error and leaves the database as it was.\<close>

theorem sqlite_faults_atomic:
  "sqlite_commit fault sid n es cmd db = sqlite_commit no_faults sid n es cmd db \<or>
   (\<exists>c retryable. sqlite_commit fault sid n es cmd db = (Inl (ContractError c retryable []), db))"
  using commit_faults[of fault sid n es cmd db] by (auto simp: driver_errors_def)

lemma faulty_step_grows:
  assumes "rows_numbered db"
  shows "rows_numbered (faulty_step q db) \<and> sq.grows db (faulty_step q db)"
proof -
  obtain fault sid n es cmd where q: "q = (fault, sid, n, es, cmd)" by (cases q)
  obtain out db' where c: "sqlite_commit fault sid n es cmd db = (out, db')" by fastforce
  from sq.put_ok[OF assms c] sq.put_grows[OF assms c] show ?thesis by (simp add: q faulty_step_def c)
qed

lemma faulty_steps_grow: "rows_numbered db \<Longrightarrow> rows_numbered (fold faulty_step qs db) \<and> sq.grows db (fold faulty_step qs db)"
proof (induction qs arbitrary: db)
  case (Cons q qs)
  with faulty_step_grows[OF Cons.prems, of q] show ?case by (auto intro: sq.grows_trans)
qed (simp add: sq.grows_refl)

lemma numbered_empty: "rows_numbered empty_db"
  using simulates_numbered[OF simulates_empty] .

text \<open>C15: what was committed stays. After a commit was applied, with any commits before it and any after it, each
with any faults, its events are where they were stored, its command answers, and a commit with
the same scope and key is never applied again.\<close>

theorem sqlite_commit_durable:
  assumes "db = fold faulty_step before empty_db"
    and "sqlite_commit fault sid n es (Some c) db = (Inr res, db1)" "cm_applied res"
    and "db2 = fold faulty_step later db1"
  shows "prefix (map er_event_json (stream_rows db sid) @ map encode_event es) (map er_event_json (stream_rows db2 sid)) \<and>
    select_command db2 (cr_scope c) (cr_idempotency_key c) = Some c \<and>
    (\<forall>fault' sid' n' es' c' res' db3. cr_scope c' = cr_scope c \<and> cr_idempotency_key c' = cr_idempotency_key c \<and>
       sqlite_commit fault' sid' n' es' (Some c') db2 = (Inr res', db3) \<longrightarrow> \<not> cm_applied res' \<and> db3 = db2)"
proof -
  have db: "rows_numbered db" using faulty_steps_grow[OF numbered_empty] assms(1) by blast
  note app = sq.put_applied[OF db assms(2,3)] and ok1 = sq.put_ok[OF db assms(2)]
  have db2: "rows_numbered db2" "sq.grows db1 db2" using faulty_steps_grow[OF ok1] assms(4) by simp_all
  have read1: "map er_event_json (stream_rows db1 sid) = map er_event_json (stream_rows db sid) @ map encode_event es"
    using app by (metis fun_upd_same)
  have found: "select_command db2 (cr_scope c) (cr_idempotency_key c) = Some c"
    using app db2(2) by (simp add: sq.grows_def)
  have "\<not> cm_applied res' \<and> db3 = db2"
    if "cr_scope c' = cr_scope c" "cr_idempotency_key c' = cr_idempotency_key c"
      "sqlite_commit fault' sid' n' es' (Some c') db2 = (Inr res', db3)" for fault' sid' n' es' c' res' db3
    using commit_outcomes[OF db2(1) that(3)] found that(1,2) by auto
  moreover have "prefix (map er_event_json (stream_rows db1 sid)) (map er_event_json (stream_rows db2 sid))"
    using db2(2) by (simp add: sq.grows_def)
  ultimately show ?thesis using read1 found by auto
qed

definition demo_stored :: "(py_error + commit_result) \<times> sqlite_db" where
  "demo_stored = sqlite_commit no_faults demo_task 0 [hd demo_history] (Some demo_command) empty_db"

lemma demo_applied: "case fst demo_stored of Inl _ \<Rightarrow> False | Inr res \<Rightarrow> cm_applied res"
  by code_simp

theorem sqlite_commit_durable_witness:
  "select_command (fold faulty_step [(no_faults, demo_task, 1, [], None)] (snd demo_stored)) demo_task ''demo'' = Some demo_command"
proof -
  obtain res where "sqlite_commit no_faults demo_task 0 [hd demo_history] (Some demo_command) (fold faulty_step [] empty_db) =
      (Inr res, snd demo_stored)" "cm_applied res"
    using demo_applied by (cases demo_stored) (auto simp: demo_stored_def split: sum.splits)
  from sqlite_commit_durable[OF refl this refl, of "[(no_faults, demo_task, 1, [], None)]", THEN conjunct2, THEN conjunct1]
  show ?thesis by (simp add: demo_command_def del: fold_simps)
qed

end
