(* ===== verification/Coordination_Models.thy ===== *)
theory Coordination_Models
  imports Domain_Models
begin

text \<open>
  The data of the plan coordinator, \<open>coordination/models.py\<close>: retry policies with their back-off,
  durable waits, the coordination record of a step, the runtime state of a plan and the fenced
  claim under which a coordinator changes a step. \<open>X_post_init\<close> is the \<open>__post_init__\<close> of the
  dataclass and also runs on every \<open>dataclasses.replace\<close>.

  The floats of a retry policy are exact rationals; what remains of their arithmetic is the
  overflow of \<open>**\<close>, the rounding of a \<open>timedelta\<close> to whole microseconds and the ranges of
  \<open>timedelta\<close> and \<open>datetime\<close>.
\<close>

section \<open>Phases\<close>

datatype coordination_phase =
    CP_BLOCKED | CP_READY | CP_ATTEMPT_ACTIVE | CP_WAITING | CP_RETRY_SCHEDULED | CP_TERMINAL | CP_INCONSISTENT

datatype wait_type = WT_DEADLINE | WT_APPROVAL | WT_EVENT | WT_EXTERNAL_JOB

datatype wait_resolution = WR_SATISFIED | WR_REJECTED | WR_EXPIRED | WR_CANCELLED

datatype retry_state =
    RS_NONE | RS_SCHEDULED | RS_ACTIVE | RS_COMPLETED | RS_EXHAUSTED | RS_NOT_RETRYABLE | RS_CANCELLED

datatype predecessor_failure_policy = PF_FAIL_FAST | PF_CANCEL_DEPENDENT

datatype reconciliation_disposition =
    RD_CONSISTENT | RD_RUN_RECONCILED | RD_WAIT_RESUMED | RD_RETRY_RESUMED | RD_CANONICAL_TERMINAL
  | RD_MISSING_CANONICAL_RUN | RD_INCONSISTENT

datatype approval_outcome = AO_APPROVED | AO_REJECTED | AO_EXPIRED | AO_CANCELLED

section \<open>Times\<close>

definition round_half_even :: "rat \<Rightarrow> int" where
  "round_half_even q =
     (let f = \<lfloor>q\<rfloor>; d = q - of_int f
      in if d < 1 / 2 then f else if 1 / 2 < d then f + 1 else if even f then f else f + 1)"

definition TIMEDELTA_LIMIT :: int where
  \<comment> \<open>a billion days, in microseconds\<close>
  "TIMEDELTA_LIMIT = 86400000000000000000"

definition DATETIME_LIMIT :: datetime where
  \<comment> \<open>the end of the year 9999\<close>
  "DATETIME_LIMIT = 253402300800000000"

definition timedelta_seconds :: "rat \<Rightarrow> py_error + int" where
  "timedelta_seconds seconds =
     (let us = round_half_even (seconds * 1000000)
      in sbind (guard (- TIMEDELTA_LIMIT < us \<and> us < TIMEDELTA_LIMIT) OverflowError) (\<lambda>_. Inr us))"

definition datetime_add :: "datetime \<Rightarrow> int \<Rightarrow> py_error + datetime" where
  "datetime_add now delta = sbind (guard (now + delta < DATETIME_LIMIT) OverflowError) (\<lambda>_. Inr (now + delta))"

definition float_pow :: "rat \<Rightarrow> nat \<Rightarrow> py_error + rat" where
  \<comment> \<open>\<open>**\<close> raises where the power leaves the range of a double\<close>
  "float_pow base e = (let p = base ^ e in
     sbind (guard (p < 2 ^ 1024 - 2 ^ 970) OverflowError) (\<lambda>_. Inr p))"

section \<open>Retry policies\<close>

record step_retry_policy =
  rt_max_attempts :: int
  rt_initial_delay_seconds :: rat
  rt_multiplier :: rat
  rt_max_delay_seconds :: rat
  rt_retryable_categories :: "string list"
  rt_version :: int

definition default_retry_policy :: step_retry_policy where
  "default_retry_policy =
     \<lparr>rt_max_attempts = 1, rt_initial_delay_seconds = 1, rt_multiplier = 2, rt_max_delay_seconds = 300,
      rt_retryable_categories = [], rt_version = 1\<rparr>"

definition step_retry_policy_post_init :: "step_retry_policy \<Rightarrow> py_error + step_retry_policy" where
  "step_retry_policy_post_init p =
     sbind (guard (1 \<le> rt_max_attempts p) ValueError) (\<lambda>_.
     sbind (guard (0 \<le> rt_initial_delay_seconds p) ValueError) (\<lambda>_.
     sbind (guard (1 \<le> rt_multiplier p) ValueError) (\<lambda>_.
     sbind (guard (0 \<le> rt_max_delay_seconds p) ValueError) (\<lambda>_.
     sbind (guard (1 \<le> rt_version p) ValueError) (\<lambda>_.
     sbind (guard (distinct (rt_retryable_categories p)) ValueError) (\<lambda>_.
     sbind (guard (\<not> list_ex py_blank (rt_retryable_categories p)) ValueError) (\<lambda>_.
     Inr p)))))))"

definition delay_for_attempt :: "step_retry_policy \<Rightarrow> int \<Rightarrow> py_error + int" where
  "delay_for_attempt p next_attempt =
     sbind (guard (2 \<le> next_attempt) ValueError) (\<lambda>_.
     sbind (float_pow (rt_multiplier p) (nat (next_attempt - 2))) (\<lambda>factor.
     timedelta_seconds (min (rt_max_delay_seconds p) (rt_initial_delay_seconds p * factor))))"

definition retry_permits :: "step_retry_policy \<Rightarrow> string option \<Rightarrow> int \<Rightarrow> bool" where
  "retry_permits p category next_attempt =
     (case category of None \<Rightarrow> False
      | Some c \<Rightarrow> \<not> rt_max_attempts p < next_attempt \<and> c \<in> set (rt_retryable_categories p))"

section \<open>Waits\<close>

record step_wait =
  wt_wait_key :: string
  wt_wait_type :: wait_type
  wt_task_id :: string
  wt_plan_id :: string
  wt_step_id :: string
  wt_owner_ref :: owner_ref
  wt_project_id :: "string option"
  wt_deadline_at :: "datetime option"
  wt_approval_id :: "string option"
  wt_approval_subject_type :: "string option"
  wt_approval_subject_id :: "string option"
  wt_approval_action :: "string option"
  wt_event_type :: "string option"
  wt_correlation_key :: "string option"
  wt_external_job_ref :: "string option"
  wt_created_at :: datetime
  wt_resolved_at :: "datetime option"
  wt_resolution :: "wait_resolution option"
  wt_resolution_key :: "string option"

definition blank_text :: "string option \<Rightarrow> bool" where
  "blank_text v = (case v of None \<Rightarrow> True | Some s \<Rightarrow> py_blank s)"

definition step_wait_post_init :: "step_wait \<Rightarrow> py_error + step_wait" where
  "step_wait_post_init x =
     sbind (guard (\<not> py_blank (wt_wait_key x)) ValueError) (\<lambda>_.
     sbind (validate_id (wt_task_id x) ''task'') (\<lambda>_.
     sbind (validate_id (wt_plan_id x) ''plan'') (\<lambda>_.
     sbind (validate_id (wt_step_id x) ''step'') (\<lambda>_.
     sbind (validate_optional_id (wt_project_id x) ''project'') (\<lambda>_.
     sbind (guard (wt_wait_type x = WT_DEADLINE \<longrightarrow> wt_deadline_at x \<noteq> None) ValueError) (\<lambda>_.
     sbind (guard (wt_wait_type x = WT_APPROVAL \<longrightarrow> \<not> list_ex blank_text
       [wt_approval_id x, wt_approval_subject_type x, wt_approval_subject_id x, wt_approval_action x]) ValueError) (\<lambda>_.
     sbind (guard (wt_wait_type x = WT_EVENT \<longrightarrow>
       \<not> blank_text (wt_event_type x) \<and> \<not> blank_text (wt_correlation_key x)) ValueError) (\<lambda>_.
     sbind (guard (wt_wait_type x = WT_EXTERNAL_JOB \<longrightarrow> \<not> blank_text (wt_external_job_ref x)) ValueError) (\<lambda>_.
     Inr x)))))))))"

definition wait_resolved :: "step_wait \<Rightarrow> bool" where
  "wait_resolved x \<longleftrightarrow> wt_resolved_at x \<noteq> None"

section \<open>Coordination records\<close>

record step_coordination_record =
  co_task_id :: string
  co_plan_id :: string
  co_plan_revision :: int
  co_step_id :: string
  co_phase :: coordination_phase
  co_dependency_ids :: "string list"
  co_satisfied_dependency_ids :: "string list"
  co_latest_run_id :: "string option"
  co_current_attempt :: int
  co_retry_policy :: step_retry_policy
  co_retry_due_at :: "datetime option"
  co_retry_state :: retry_state
  co_wait :: "step_wait option"
  co_predecessor_failure_policy :: predecessor_failure_policy
  co_processed_keys :: "string list"
  co_reconciliation :: reconciliation_disposition
  co_reconciliation_detail :: "string option"
  co_correlation_id :: "string option"
  co_causation_id :: "string option"
  co_provenance_source :: string
  co_revision :: int
  co_created_at :: datetime
  co_updated_at :: datetime

definition step_coordination_record_post_init ::
  "step_coordination_record \<Rightarrow> py_error + step_coordination_record" where
  "step_coordination_record_post_init x =
     sbind (validate_id (co_task_id x) ''task'') (\<lambda>_.
     sbind (validate_id (co_plan_id x) ''plan'') (\<lambda>_.
     sbind (validate_id (co_step_id x) ''step'') (\<lambda>_.
     sbind (validate_ids (co_dependency_ids x) ''step'') (\<lambda>_.
     sbind (validate_ids (co_satisfied_dependency_ids x) ''step'') (\<lambda>_.
     sbind (validate_optional_id (co_latest_run_id x) ''run'') (\<lambda>_.
     sbind (guard (1 \<le> co_plan_revision x \<and> 1 \<le> co_revision x) ValueError) (\<lambda>_.
     sbind (guard (0 \<le> co_current_attempt x) ValueError) (\<lambda>_.
     sbind (guard (co_retry_state x = RS_SCHEDULED \<longrightarrow> co_retry_due_at x \<noteq> None) ValueError) (\<lambda>_.
     sbind (guard (co_retry_state x \<noteq> RS_SCHEDULED \<longrightarrow> co_retry_due_at x = None) ValueError) (\<lambda>_.
     sbind (guard (distinct (co_dependency_ids x)) ValueError) (\<lambda>_.
     sbind (guard (distinct (co_satisfied_dependency_ids x)) ValueError) (\<lambda>_.
     sbind (guard (set (co_satisfied_dependency_ids x) \<subseteq> set (co_dependency_ids x)) ValueError) (\<lambda>_.
     sbind (guard (distinct (co_processed_keys x)) ValueError) (\<lambda>_.
     Inr x))))))))))))))"

section \<open>Plans at run time\<close>

record plan_runtime_state =
  pl_plan :: plan
  pl_steps :: "step list"
  pl_store_revision :: int

definition plan_runtime_state_post_init :: "plan_runtime_state \<Rightarrow> py_error + plan_runtime_state" where
  "plan_runtime_state_post_init x =
     sbind (guard (1 \<le> pl_store_revision x) ValueError) (\<lambda>_.
     sbind (guard (p_active (pl_plan x)) ValueError) (\<lambda>_.
     sbind (guard (distinct (map s_id (pl_steps x))) ValueError) (\<lambda>_.
     sbind (guard (list_all (\<lambda>s. s_plan_id s = p_id (pl_plan x)) (pl_steps x)) ValueError) (\<lambda>_.
     Inr x))))"

definition runtime_step :: "plan_runtime_state \<Rightarrow> string \<Rightarrow> py_error + step" where
  "runtime_step x step_id =
     (case find (\<lambda>s. s_id s = step_id) (pl_steps x) of None \<Rightarrow> Inl KeyError | Some s \<Rightarrow> Inr s)"

record coordinator_claim =
  cl_step_id :: string
  cl_claim_id :: string
  cl_owner_id :: string
  cl_fence :: int
  cl_expires_at :: datetime

definition coordinator_claim_post_init :: "coordinator_claim \<Rightarrow> py_error + coordinator_claim" where
  "coordinator_claim_post_init x =
     sbind (validate_id (cl_step_id x) ''step'') (\<lambda>_.
     sbind (guard (\<not> py_blank (cl_claim_id x) \<and> \<not> py_blank (cl_owner_id x)) ValueError) (\<lambda>_.
     sbind (guard (1 \<le> cl_fence x) ValueError) (\<lambda>_.
     Inr x)))"

record step_coordination_projection =
  sj_step_id :: string
  sj_status :: step_status
  sj_phase :: coordination_phase
  sj_dependency_ids :: "string list"
  sj_satisfied_dependency_ids :: "string list"
  sj_latest_run_id :: "string option"
  sj_current_attempt :: int
  sj_retry_due_at :: "datetime option"
  sj_wait_type :: "wait_type option"
  sj_wait_deadline_at :: "datetime option"
  sj_reconciliation :: reconciliation_disposition

record plan_coordination_projection =
  pn_task_id :: string
  pn_plan_id :: string
  pn_plan_revision :: int
  pn_steps :: "step_coordination_projection list"

end
