(* ===== verification/Coordinator_Store.thy ===== *)
theory Coordinator_Store
  imports Coordination_Models
begin

text \<open>
  The persistence and claim boundary of \<open>coordination/repository.py\<close>: the in-memory coordinator store
  with its optimistic revisions and fenced claims, the invariant of its tables, and how a store may
  change. Each method runs under the lock of the store, so it is one step; one that raises leaves
  behind what it had written.
\<close>

section \<open>The store\<close>

record coordinator_store =
  st_plans :: "(string \<times> plan_runtime_state) list"
  st_records :: "(string \<times> step_coordination_record) list"
  st_claims :: "(string \<times> coordinator_claim) list"
  st_fences :: "(string \<times> int) list"

definition empty_store :: coordinator_store where
  "empty_store = \<lparr>st_plans = [], st_records = [], st_claims = [], st_fences = []\<rparr>"

definition same_plan :: "plan \<Rightarrow> plan \<Rightarrow> bool" where
  "same_plan p q \<longleftrightarrow> p\<lparr>p_provenance := None\<rparr> = q\<lparr>p_provenance := None\<rparr> \<and> same_provenance (p_provenance p) (p_provenance q)"

definition same_step :: "step \<Rightarrow> step \<Rightarrow> bool" where
  "same_step s t \<longleftrightarrow> s\<lparr>s_provenance := None\<rparr> = t\<lparr>s_provenance := None\<rparr> \<and> same_provenance (s_provenance s) (s_provenance t)"

definition create_plan :: "plan \<Rightarrow> step list \<Rightarrow> step_coordination_record list \<Rightarrow> 'm coordinator_store_scheme \<Rightarrow>
    (py_error + plan_runtime_state) \<times> 'm coordinator_store_scheme" where
  "create_plan plan steps records st =
     (case plan_runtime_state_post_init \<lparr>pl_plan = plan, pl_steps = steps, pl_store_revision = 1\<rparr> of
        Inl e \<Rightarrow> (Inl e, st)
      | Inr state \<Rightarrow>
      if co_step_id ` set records \<noteq> s_id ` set steps then (Inl ValueError, st)
      else case dict_get (st_plans st) (p_id plan) of
        Some existing \<Rightarrow>
          (if same_plan (pl_plan existing) plan \<and> list_all2 same_step (pl_steps existing) steps
           then Inr existing else Inl (contract_error CONFLICT), st)
      | None \<Rightarrow> (Inr state,
          st\<lparr>st_plans := dict_set (p_id plan) state (st_plans st),
             st_records := dict_update (st_records st) (map (\<lambda>r. (co_step_id r, r)) records)\<rparr>))"

definition get_plan :: "'m coordinator_store_scheme \<Rightarrow> string \<Rightarrow> py_error + plan_runtime_state" where
  "get_plan st plan_id =
     (case dict_get (st_plans st) plan_id of None \<Rightarrow> Inl (contract_error NOT_FOUND) | Some p \<Rightarrow> Inr p)"

definition get_plan_snapshot :: "'m coordinator_store_scheme \<Rightarrow> string \<Rightarrow>
    py_error + plan_runtime_state \<times> step_coordination_record list" where
  "get_plan_snapshot st plan_id =
     sbind (get_plan st plan_id) (\<lambda>state.
     Inr (state, sort_key co_step_id (filter (\<lambda>r. co_plan_id r = plan_id) (map snd (st_records st)))))"

definition get_step_record :: "'m coordinator_store_scheme \<Rightarrow> string \<Rightarrow> py_error + step_coordination_record" where
  "get_step_record st step_id =
     (case dict_get (st_records st) step_id of None \<Rightarrow> Inl (contract_error NOT_FOUND) | Some r \<Rightarrow> Inr r)"

definition list_step_records :: "'m coordinator_store_scheme \<Rightarrow> string \<Rightarrow> py_error + step_coordination_record list" where
  "list_step_records st plan_id = sbind (get_plan_snapshot st plan_id) (\<lambda>snapshot. Inr (snd snapshot))"

definition list_active_plans :: "'m coordinator_store_scheme \<Rightarrow> plan_runtime_state list" where
  "list_active_plans st = sort_key (\<lambda>p. p_id (pl_plan p)) (map snd (st_plans st))"

definition replace_step :: "step \<Rightarrow> step list \<Rightarrow> step list" where
  "replace_step s steps = map (\<lambda>item. if s_id item = s_id s then s else item) steps"

definition store_step :: "step \<Rightarrow> step_coordination_record \<Rightarrow> 'm coordinator_store_scheme \<Rightarrow>
    (py_error + step_coordination_record) \<times> 'm coordinator_store_scheme" where
  \<comment> \<open>the writes of \<open>save_step\<close>: the record first, then the plan\<close>
  "store_step s saved st =
     (case dict_get (st_plans st) (s_plan_id s) of
        None \<Rightarrow> (Inl KeyError, st)
      | Some plan_state \<Rightarrow>
      case step_coordination_record_post_init saved of
        Inl e \<Rightarrow> (Inl e, st)
      | Inr saved \<Rightarrow>
      let st = st\<lparr>st_records := dict_set (s_id s) saved (st_records st)\<rparr> in
      case plan_runtime_state_post_init
             (plan_state\<lparr>pl_steps := replace_step s (pl_steps plan_state),
                         pl_store_revision := pl_store_revision plan_state + 1\<rparr>) of
        Inl e \<Rightarrow> (Inl e, st)
      | Inr plan_state \<Rightarrow> (Inr saved, st\<lparr>st_plans := dict_set (s_plan_id s) plan_state (st_plans st)\<rparr>))"

definition live_claim :: "coordinator_claim option \<Rightarrow> string \<Rightarrow> datetime \<Rightarrow> 'm coordinator_store_scheme \<Rightarrow> bool" where
  "live_claim claim step_id commit_time st =
     (case claim of None \<Rightarrow> True
      | Some c \<Rightarrow> dict_get (st_claims st) step_id = Some c \<and> commit_time < cl_expires_at c)"

definition save_step :: "step \<Rightarrow> step_coordination_record \<Rightarrow> int \<Rightarrow> coordinator_claim option \<Rightarrow> datetime \<Rightarrow>
    'm coordinator_store_scheme \<Rightarrow> (py_error + step_coordination_record) \<times> 'm coordinator_store_scheme" where
  "save_step s record expected_revision claim commit_time st =
     (if s_id s \<noteq> co_step_id record \<or> s_plan_id s \<noteq> co_plan_id record then (Inl ValueError, st)
      else if \<not> live_claim claim (s_id s) commit_time st
      then (Inl (ContractError CONFLICT False
             [(''step_id'', JStr (s_id s)), (''fence'', case claim of None \<Rightarrow> JNull | Some c \<Rightarrow> JInt (cl_fence c))]), st)
      else case dict_get (st_records st) (s_id s) of
        None \<Rightarrow> (Inl (contract_error NOT_FOUND), st)
      | Some current \<Rightarrow>
      if co_revision current \<noteq> expected_revision
      then (Inl (ContractError CONFLICT False
             [(''step_id'', JStr (s_id s)), (''expected_revision'', JInt expected_revision),
              (''current_revision'', JInt (co_revision current))]), st)
      else store_step s (record\<lparr>co_revision := co_revision current + 1, co_updated_at := commit_time\<rparr>) st)"

definition fence_of :: "'m coordinator_store_scheme \<Rightarrow> string \<Rightarrow> int" where
  "fence_of st step_id = (case dict_get (st_fences st) step_id of None \<Rightarrow> 0 | Some n \<Rightarrow> n)"

definition acquire_claim :: "string \<Rightarrow> string \<Rightarrow> string \<Rightarrow> int \<Rightarrow> datetime \<Rightarrow> 'm coordinator_store_scheme \<Rightarrow>
    (py_error + coordinator_claim option) \<times> 'm coordinator_store_scheme" where
  \<comment> \<open>the first argument is the fresh claim identity\<close>
  "acquire_claim claim_id step_id owner_id ttl now st =
     (if ttl \<le> 0 then (Inl ValueError, st)
      else case get_step_record st step_id of
        Inl e \<Rightarrow> (Inl e, st)
      | Inr _ \<Rightarrow>
      if (case dict_get (st_claims st) step_id of None \<Rightarrow> False
          | Some current \<Rightarrow> now < cl_expires_at current \<and> cl_owner_id current \<noteq> owner_id)
      then (Inr None, st)
      else
      let fence = fence_of st step_id + 1;
          st = st\<lparr>st_fences := dict_set step_id fence (st_fences st)\<rparr>
      in case sbind (datetime_add now ttl) (\<lambda>expires_at. coordinator_claim_post_init
           \<lparr>cl_step_id = step_id, cl_claim_id = claim_id, cl_owner_id = owner_id, cl_fence = fence,
            cl_expires_at = expires_at\<rparr>) of
        Inl e \<Rightarrow> (Inl e, st)
      | Inr claim \<Rightarrow> (Inr (Some claim), st\<lparr>st_claims := dict_set step_id claim (st_claims st)\<rparr>))"

definition renew_claim :: "coordinator_claim \<Rightarrow> int \<Rightarrow> datetime \<Rightarrow> 'm coordinator_store_scheme \<Rightarrow>
    (py_error + coordinator_claim option) \<times> 'm coordinator_store_scheme" where
  "renew_claim claim ttl now st =
     (if ttl \<le> 0 then (Inl ValueError, st)
      else if dict_get (st_claims st) (cl_step_id claim) \<noteq> Some claim \<or> cl_expires_at claim \<le> now
      then (Inr None, st)
      else case sbind (datetime_add now ttl) (\<lambda>expires_at.
             coordinator_claim_post_init (claim\<lparr>cl_expires_at := expires_at\<rparr>)) of
        Inl e \<Rightarrow> (Inl e, st)
      | Inr renewed \<Rightarrow>
          (Inr (Some renewed), st\<lparr>st_claims := dict_set (cl_step_id claim) renewed (st_claims st)\<rparr>))"

definition release_claim :: "coordinator_claim \<Rightarrow> 'm coordinator_store_scheme \<Rightarrow> bool \<times> 'm coordinator_store_scheme" where
  "release_claim claim st =
     (if dict_get (st_claims st) (cl_step_id claim) \<noteq> Some claim then (False, st)
      else (True, st\<lparr>st_claims := filter (\<lambda>(k, _). k \<noteq> cl_step_id claim) (st_claims st)\<rparr>))"

section \<open>Valid stores\<close>

text \<open>\<open>step_of st plan_id step_id\<close> is the canonical step the store holds.\<close>

definition step_of :: "'m coordinator_store_scheme \<Rightarrow> string \<Rightarrow> string \<Rightarrow> step option" where
  "step_of st plan_id step_id =
     Option.bind (dict_get (st_plans st) plan_id) (\<lambda>p. find (\<lambda>s. s_id s = step_id) (pl_steps p))"

definition store_wf :: "'m coordinator_store_scheme \<Rightarrow> bool" where
  "store_wf st \<longleftrightarrow> distinct (map fst (st_records st)) \<and>
     (\<forall>k p. dict_get (st_plans st) k = Some p \<longrightarrow> p_id (pl_plan p) = k \<and> plan_runtime_state_post_init p = Inr p) \<and>
     (\<forall>k r. dict_get (st_records st) k = Some r \<longrightarrow> co_step_id r = k \<and> step_coordination_record_post_init r = Inr r \<and>
        step_of st (co_plan_id r) k \<noteq> None) \<and>
     (\<forall>k c. dict_get (st_claims st) k = Some c \<longrightarrow> cl_step_id c = k \<and> cl_fence c \<le> fence_of st k)"

lemma find_replace:
  "find (\<lambda>t. s_id t = k) (replace_step s steps) =
     (case find (\<lambda>t. s_id t = k) steps of None \<Rightarrow> None | Some t \<Rightarrow> Some (if k = s_id s then s else t))"
  by (induction steps) (auto simp: replace_step_def)

lemma replace_step_ids [simp]: "map s_id (replace_step s steps) = map s_id steps"
  by (auto simp: replace_step_def)

lemma dict_get_filter: "dict_get (filter (\<lambda>(k, _). k \<noteq> k') d) k = (if k = k' then None else dict_get d k)"
  by (induction d) (auto simp: dict_get_def)

lemma runtime_post_init_replace:
  assumes "plan_runtime_state_post_init p = Inr p" "s_plan_id s = p_id (pl_plan p)"
  shows "plan_runtime_state_post_init (p\<lparr>pl_steps := replace_step s (pl_steps p), pl_store_revision := pl_store_revision p + 1\<rparr>) =
    Inr (p\<lparr>pl_steps := replace_step s (pl_steps p), pl_store_revision := pl_store_revision p + 1\<rparr>)"
  using assms by (auto simp: plan_runtime_state_post_init_def guard_def list_all_iff replace_step_def comp_def
      if_distrib[of s_id] cong: if_cong split: if_splits)

end
