(* ===== verification/Coordinator_Evolution.thy ===== *)
theory Coordinator_Evolution
  imports Coordinator_Store
begin

text \<open>
  What every valid coordinator store satisfies and how it may change: a step moves along its lifecycle,
  a record keeps its identity, its consumed keys and its attempts, fences only grow. The effect of each
  operation of the store on this picture, and the mutual exclusion its claims give, as a locale.
\<close>

section \<open>Steps and records\<close>

definition step_moves :: "(step_status \<times> step_status) set" where
  "step_moves = {(a, b). b \<in> STEP_TRANSITIONS a}"

definition step_after :: "step \<Rightarrow> step \<Rightarrow> bool" where
  "step_after s s' \<longleftrightarrow> s_id s' = s_id s \<and> s_plan_id s' = s_plan_id s \<and> s_depends_on s' = s_depends_on s \<and>
     (s_status s, s_status s') \<in> step_moves\<^sup>*"

definition record_next :: "step_coordination_record \<Rightarrow> step_coordination_record \<Rightarrow> bool" where
  "record_next r r' \<longleftrightarrow> co_task_id r' = co_task_id r \<and> co_plan_id r' = co_plan_id r \<and>
     co_plan_revision r' = co_plan_revision r \<and> co_step_id r' = co_step_id r \<and>
     co_dependency_ids r' = co_dependency_ids r \<and> co_retry_policy r' = co_retry_policy r \<and>
     co_current_attempt r \<le> co_current_attempt r' \<and> prefix (co_processed_keys r) (co_processed_keys r')"

definition record_after :: "step_coordination_record \<Rightarrow> step_coordination_record \<Rightarrow> bool" where
  "record_after r r' \<longleftrightarrow> r' = r \<or> co_revision r < co_revision r' \<and> record_next r r'"

lemma record_next_refl [simp]: "record_next r r"
  by (simp add: record_next_def)

lemma record_next_trans: "record_next r r' \<Longrightarrow> record_next r' r'' \<Longrightarrow> record_next r r''"
  by (auto simp: record_next_def intro: order_trans prefix_order.trans)

lemma record_after_refl [simp]: "record_after r r"
  by (simp add: record_after_def)

lemma record_after_next: "record_after r r' \<Longrightarrow> record_next r r'"
  by (auto simp: record_after_def)

lemma record_after_trans: "record_after r r' \<Longrightarrow> record_after r' r'' \<Longrightarrow> record_after r r''"
  unfolding record_after_def using record_next_trans by fastforce

lemma record_after_same: "record_after r r' \<Longrightarrow> co_revision r' = co_revision r \<Longrightarrow> r' = r"
  by (auto simp: record_after_def)

lemma record_after_antisym: "record_after r r' \<Longrightarrow> record_after r' r \<Longrightarrow> r' = r"
  by (auto simp: record_after_def)

lemma step_after_refl [simp]: "step_after s s"
  by (simp add: step_after_def)

lemma step_after_trans: "step_after s s' \<Longrightarrow> step_after s' s'' \<Longrightarrow> step_after s s''"
  by (auto simp: step_after_def)

lemma step_post_init_id: "step_post_init x = Inr y \<Longrightarrow> y = x"
  by (auto simp: step_post_init_def sbind_eq_Inr)

lemma step_transition_after:
  assumes "step_transition_to now s target = Inr s'"
  shows "step_after s s' \<and> s_status s' = target \<and> target \<in> STEP_TRANSITIONS (s_status s)"
  using assms
  by (auto simp: step_transition_to_def sbind_eq_Inr require_transition_def can_transition_def step_after_def
      step_moves_def dest!: step_post_init_id)

text \<open>What a lifecycle can never leave or reach again.\<close>

definition done_statuses :: "step_status set" where
  "done_statuses = {S_SUCCEEDED, S_SKIPPED}"

definition started_statuses :: "step_status set" where
  "started_statuses = {S_READY, S_RUNNING, S_WAITING, S_SUCCEEDED, S_FAILED}"

lemma step_moves_closed:
  assumes "(a, b) \<in> step_moves\<^sup>*" "a \<in> A" "\<And>x y. x \<in> A \<Longrightarrow> y \<in> STEP_TRANSITIONS x \<Longrightarrow> y \<in> A"
  shows "b \<in> A"
  using assms(1,2) by (induction rule: rtrancl_induct) (auto simp: step_moves_def intro: assms(3))

lemma final_status:
  assumes "(a, b) \<in> step_moves\<^sup>*" "a \<in> {S_SUCCEEDED, S_SKIPPED, S_CANCELLED}"
  shows "b = a"
  using step_moves_closed[OF assms(1), of "{a}"] assms(2) by auto

lemma never_pending:
  assumes "(a, b) \<in> step_moves\<^sup>*" "a \<noteq> S_PENDING"
  shows "b \<noteq> S_PENDING"
proof -
  have "b \<in> - {S_PENDING}"
  proof (rule step_moves_closed[OF assms(1)])
    show "y \<in> - {S_PENDING}" if "x \<in> - {S_PENDING}" "y \<in> STEP_TRANSITIONS x" for x y
      using that by (cases x) auto
  qed (use assms(2) in simp)
  then show ?thesis by simp
qed

section \<open>Growth\<close>

definition plan_after :: "plan_runtime_state \<Rightarrow> plan_runtime_state \<Rightarrow> bool" where
  "plan_after p p' \<longleftrightarrow> pl_plan p' = pl_plan p \<and> pl_store_revision p \<le> pl_store_revision p' \<and>
     list_all2 step_after (pl_steps p) (pl_steps p')"

definition store_grows :: "'m coordinator_store_scheme \<Rightarrow> 'm coordinator_store_scheme \<Rightarrow> bool" where
  "store_grows st st' \<longleftrightarrow>
     (\<forall>k p. dict_get (st_plans st) k = Some p \<longrightarrow> (\<exists>p'. dict_get (st_plans st') k = Some p' \<and> plan_after p p')) \<and>
     (\<forall>k r. dict_get (st_records st) k = Some r \<longrightarrow>
        (\<exists>r'. dict_get (st_records st') k = Some r' \<and> record_after r r' \<and>
           (r' = r \<longrightarrow> step_of st' (co_plan_id r) k = step_of st (co_plan_id r) k))) \<and>
     (\<forall>k. fence_of st k \<le> fence_of st' k) \<and>
     (\<forall>k c. dict_get (st_claims st') k = Some c \<longrightarrow> fence_of st k < cl_fence c \<or>
        (\<exists>c0. dict_get (st_claims st) k = Some c0 \<and> cl_fence c0 = cl_fence c \<and> cl_claim_id c0 = cl_claim_id c))"

lemma plan_after_refl [simp]: "plan_after p p"
  by (simp add: plan_after_def list_all2_refl)

lemma plan_after_trans: "plan_after p p' \<Longrightarrow> plan_after p' p'' \<Longrightarrow> plan_after p p''"
  by (auto simp: plan_after_def intro: list_all2_trans[OF step_after_trans])

lemma store_grows_refl [simp]: "store_grows st st"
  by (auto simp: store_grows_def)

lemma store_growsD:
  assumes "store_grows st st'"
  shows "dict_get (st_plans st) k = Some p \<Longrightarrow> \<exists>p'. dict_get (st_plans st') k = Some p' \<and> plan_after p p'"
    and "dict_get (st_records st) k = Some r \<Longrightarrow> \<exists>r'. dict_get (st_records st') k = Some r' \<and> record_after r r' \<and>
           (r' = r \<longrightarrow> step_of st' (co_plan_id r) k = step_of st (co_plan_id r) k)"
    and "fence_of st k \<le> fence_of st' k"
    and "dict_get (st_claims st') k = Some c \<Longrightarrow> fence_of st k < cl_fence c \<or>
        (\<exists>c0. dict_get (st_claims st) k = Some c0 \<and> cl_fence c0 = cl_fence c \<and> cl_claim_id c0 = cl_claim_id c)"
  using assms unfolding store_grows_def by blast+

lemma store_grows_trans:
  assumes "store_grows st st'" "store_grows st' st''"
  shows "store_grows st st''"
  unfolding store_grows_def
proof (intro conjI allI impI)
  fix k p assume "dict_get (st_plans st) k = Some p"
  with store_growsD(1)[OF assms(1)] store_growsD(1)[OF assms(2)] plan_after_trans
  show "\<exists>p'. dict_get (st_plans st'') k = Some p' \<and> plan_after p p'" by meson
next
  fix k r assume r: "dict_get (st_records st) k = Some r"
  from store_growsD(2)[OF assms(1) r] obtain r' where r': "dict_get (st_records st') k = Some r'" "record_after r r'"
    "r' = r \<longrightarrow> step_of st' (co_plan_id r) k = step_of st (co_plan_id r) k" by blast
  from store_growsD(2)[OF assms(2) r'(1)] obtain r'' where r'': "dict_get (st_records st'') k = Some r''" "record_after r' r''"
    "r'' = r' \<longrightarrow> step_of st'' (co_plan_id r') k = step_of st' (co_plan_id r') k" by blast
  have "step_of st'' (co_plan_id r) k = step_of st (co_plan_id r) k" if "r'' = r"
    using record_after_antisym[OF r'(2)] r''(2,3) r'(3) that by auto
  with r'' record_after_trans[OF r'(2) r''(2)]
  show "\<exists>r'. dict_get (st_records st'') k = Some r' \<and> record_after r r' \<and>
      (r' = r \<longrightarrow> step_of st'' (co_plan_id r) k = step_of st (co_plan_id r) k)" by blast
next
  show "fence_of st k \<le> fence_of st'' k" for k
    using store_growsD(3)[OF assms(1), of k] store_growsD(3)[OF assms(2), of k] by simp
next
  fix k c assume "dict_get (st_claims st'') k = Some c"
  with store_growsD(4)[OF assms(2), of k c] store_growsD(4)[OF assms(1), of k] store_growsD(3)[OF assms(1), of k]
  show "fence_of st k < cl_fence c \<or> (\<exists>c0. dict_get (st_claims st) k = Some c0 \<and> cl_fence c0 = cl_fence c \<and> cl_claim_id c0 = cl_claim_id c)"
    by fastforce
qed

lemma find_step_after:
  assumes "list_all2 step_after ss ss'" "find (\<lambda>s. s_id s = k) ss = Some s"
  shows "\<exists>s'. find (\<lambda>s. s_id s = k) ss' = Some s' \<and> step_after s s'"
  using assms by (induction rule: list_all2_induct) (auto simp: step_after_def split: if_splits)

lemma step_of_grows:
  assumes "store_grows st st'" "step_of st p k = Some s"
  shows "\<exists>s'. step_of st' p k = Some s' \<and> step_after s s'"
proof -
  obtain q where q: "dict_get (st_plans st) p = Some q" "find (\<lambda>s. s_id s = k) (pl_steps q) = Some s"
    using assms(2) by (auto simp: step_of_def bind_eq_Some_conv)
  from store_growsD(1)[OF assms(1) q(1)] find_step_after[OF _ q(2)] show ?thesis
    by (fastforce simp: step_of_def plan_after_def)
qed

section \<open>Valid coordination\<close>

definition dependency_done :: "'m coordinator_store_scheme \<Rightarrow> string \<Rightarrow> string \<Rightarrow> bool" where
  "dependency_done st plan_id d \<longleftrightarrow> (case step_of st plan_id d of None \<Rightarrow> False | Some t \<Rightarrow> s_status t \<in> done_statuses)"

fun phase_matches :: "coordination_phase \<Rightarrow> step_status \<Rightarrow> bool" where
  "phase_matches CP_BLOCKED status = (status = S_PENDING)"
| "phase_matches CP_READY status = (status = S_READY)"
| "phase_matches CP_ATTEMPT_ACTIVE status = (status = S_RUNNING)"
| "phase_matches CP_WAITING status = (status = S_WAITING)"
| "phase_matches _ status = True"

definition pair_ok :: "'m coordinator_store_scheme \<Rightarrow> step_coordination_record \<Rightarrow> step \<Rightarrow> bool" where
  "pair_ok st r s \<longleftrightarrow> co_dependency_ids r = s_depends_on s \<and> phase_matches (co_phase r) (s_status s) \<and>
     (co_phase r = CP_RETRY_SCHEDULED \<longrightarrow> co_current_attempt r < rt_max_attempts (co_retry_policy r)) \<and>
     (\<forall>d\<in>set (co_satisfied_dependency_ids r). dependency_done st (co_plan_id r) d) \<and>
     (s_status s \<in> started_statuses \<longrightarrow> (\<forall>d\<in>set (co_dependency_ids r). dependency_done st (co_plan_id r) d))"

text \<open>A step identifier belongs to one plan: \<open>home\<close> says to which.\<close>

definition coord_ok :: "(string \<Rightarrow> string) \<Rightarrow> 'm coordinator_store_scheme \<Rightarrow> bool" where
  "coord_ok home st \<longleftrightarrow> store_wf st \<and>
     (\<forall>k r. dict_get (st_records st) k = Some r \<longrightarrow> home k = co_plan_id r \<and>
        (\<forall>s. step_of st (co_plan_id r) k = Some s \<longrightarrow> pair_ok st r s))"

lemma dependency_done_grows:
  assumes "store_grows st st'" "dependency_done st p d"
  shows "dependency_done st' p d"
proof -
  obtain t where t: "step_of st p d = Some t" "s_status t \<in> done_statuses"
    using assms(2) by (auto simp: dependency_done_def split: option.splits)
  obtain t' where t': "step_of st' p d = Some t'" "step_after t t'"
    using step_of_grows[OF assms(1) t(1)] by blast
  have "s_status t' = s_status t"
    using t(2) t'(2) final_status by (auto simp: step_after_def done_statuses_def)
  with t(2) t'(1) show ?thesis by (simp add: dependency_done_def)
qed

lemma pair_ok_grows: "store_grows st st' \<Longrightarrow> pair_ok st r s \<Longrightarrow> pair_ok st' r s"
  by (auto simp: pair_ok_def intro: dependency_done_grows)

lemma store_wfD:
  assumes "store_wf st"
  shows "dict_get (st_plans st) k = Some p \<Longrightarrow> p_id (pl_plan p) = k \<and> plan_runtime_state_post_init p = Inr p"
    and "dict_get (st_records st) k = Some r \<Longrightarrow>
      co_step_id r = k \<and> step_coordination_record_post_init r = Inr r \<and> (\<exists>s. step_of st (co_plan_id r) k = Some s)"
    and "dict_get (st_claims st) k = Some c \<Longrightarrow> cl_step_id c = k \<and> cl_fence c \<le> fence_of st k"
    and "distinct (map fst (st_records st))"
  using assms unfolding store_wf_def by fastforce+

lemma record_post_init_id: "step_coordination_record_post_init x = Inr y \<Longrightarrow> y = x"
  by (auto simp: step_coordination_record_post_init_def sbind_eq_Inr)

lemma runtime_post_init_id: "plan_runtime_state_post_init x = Inr y \<Longrightarrow> y = x"
  by (auto simp: plan_runtime_state_post_init_def sbind_eq_Inr)

lemma claim_post_init_id: "coordinator_claim_post_init x = Inr y \<Longrightarrow> y = x"
  by (auto simp: coordinator_claim_post_init_def sbind_eq_Inr)

lemma coord_okD:
  assumes "coord_ok home st"
  shows "store_wf st"
    and "dict_get (st_records st) k = Some r \<Longrightarrow> home k = co_plan_id r \<and> (\<exists>s. step_of st (co_plan_id r) k = Some s \<and> pair_ok st r s)"
  using assms store_wfD(2)[of st k r] unfolding coord_ok_def by blast+

text \<open>A step found in the store has the identity it was asked for.\<close>

lemma step_of_id: "step_of st p k = Some s \<Longrightarrow> s_id s = k"
  by (auto simp: step_of_def bind_eq_Some_conv find_Some_iff)

lemma step_of_plan:
  assumes "store_wf st" "step_of st p k = Some s"
  shows "s_plan_id s = p"
proof -
  obtain q where q: "dict_get (st_plans st) p = Some q" "s \<in> set (pl_steps q)"
    using assms(2) by (auto simp: step_of_def bind_eq_Some_conv find_Some_iff)
  with store_wfD(1)[OF assms(1) q(1)] show ?thesis
    by (auto simp: plan_runtime_state_post_init_def sbind_eq_Inr list_all_iff)
qed

lemma find_distinct: "distinct (map s_id ss) \<Longrightarrow> s \<in> set ss \<Longrightarrow> find (\<lambda>t. s_id t = s_id s) ss = Some s"
  by (induction ss) auto

section \<open>Saving a step\<close>

lemma step_of_saved:
  assumes "dict_get (st_plans st) P = Some q" "step_of st P (s_id s) \<noteq> None"
    and "dict_get (st_plans st') = (dict_get (st_plans st))(P \<mapsto> q\<lparr>pl_steps := replace_step s (pl_steps q), pl_store_revision := n\<rparr>)"
  shows "step_of st' p k = (if p = P \<and> k = s_id s then Some s else step_of st p k)"
proof (cases "p = P")
  case True
  with assms show ?thesis by (auto simp: step_of_def find_replace split: option.splits)
qed (simp add: step_of_def assms(3))

lemma plan_after_replace:
  assumes "find (\<lambda>t. s_id t = s_id s) (pl_steps q) = Some S" "step_after S s" "distinct (map s_id (pl_steps q))"
  shows "plan_after q (q\<lparr>pl_steps := replace_step s (pl_steps q), pl_store_revision := pl_store_revision q + 1\<rparr>)"
proof -
  have "s_id t = s_id s \<Longrightarrow> t = S" if "t \<in> set (pl_steps q)" for t
  proof -
    have "inj_on s_id (set (pl_steps q))" "S \<in> set (pl_steps q)" "s_id S = s_id s"
      using assms(1,3) by (auto simp: distinct_map find_Some_iff)
    then show "s_id t = s_id s \<Longrightarrow> t = S" using that by (metis inj_onD)
  qed
  then have "list_all2 step_after (pl_steps q) (replace_step s (pl_steps q))"
    using assms(2) by (auto simp: replace_step_def list_all2_map2 intro!: list.rel_refl_strong)
  then show ?thesis by (simp add: plan_after_def)
qed

definition saved_record :: "step_coordination_record \<Rightarrow> step_coordination_record \<Rightarrow> datetime \<Rightarrow> step_coordination_record" where
  "saved_record current r now = r\<lparr>co_revision := co_revision current + 1, co_updated_at := now\<rparr>"

lemma saved_record_fields [simp]:
  "co_phase (saved_record c r now) = co_phase r" "co_plan_id (saved_record c r now) = co_plan_id r"
  "co_step_id (saved_record c r now) = co_step_id r" "co_dependency_ids (saved_record c r now) = co_dependency_ids r"
  "co_satisfied_dependency_ids (saved_record c r now) = co_satisfied_dependency_ids r"
  "co_processed_keys (saved_record c r now) = co_processed_keys r" "co_revision (saved_record c r now) = co_revision c + 1"
  "co_current_attempt (saved_record c r now) = co_current_attempt r"
  "co_retry_policy (saved_record c r now) = co_retry_policy r"
  by (simp_all add: saved_record_def)

lemma record_after_saved: "record_next c r \<Longrightarrow> record_after c (saved_record c r now)"
  by (simp add: record_after_def record_next_def saved_record_def)

lemma pair_ok_saved [simp]: "pair_ok st (saved_record c r now) s = pair_ok st r s"
  by (simp add: pair_ok_def)

text \<open>A save either leaves the store alone or installs one record and one step.\<close>

lemma save_step_cases:
  assumes "store_wf st" "save_step s r n claim now st = (res, st')"
  obtains (refused) e where "res = Inl e" "st' = st"
  | (saved) current q where "dict_get (st_records st) (s_id s) = Some current" "co_revision current = n"
      "live_claim claim (s_id s) now st" "res = Inr (saved_record current r now)" "co_step_id r = s_id s" "co_plan_id r = s_plan_id s"
      "step_coordination_record_post_init (saved_record current r now) = Inr (saved_record current r now)"
      "dict_get (st_plans st) (s_plan_id s) = Some q"
      "st' = st\<lparr>st_records := dict_set (s_id s) (saved_record current r now) (st_records st),
        st_plans := dict_set (s_plan_id s) (q\<lparr>pl_steps := replace_step s (pl_steps q), pl_store_revision := pl_store_revision q + 1\<rparr>) (st_plans st)\<rparr>"
proof (cases "\<exists>e. res = Inl e \<and> st' = st")
  case False
  then obtain current where c: "s_id s = co_step_id r" "s_plan_id s = co_plan_id r" "live_claim claim (s_id s) now st"
    "dict_get (st_records st) (s_id s) = Some current" "co_revision current = n"
    "store_step s (saved_record current r now) st = (res, st')"
    using assms(2) by (auto simp: save_step_def saved_record_def split: if_splits option.splits)
  then obtain q where q: "dict_get (st_plans st) (s_plan_id s) = Some q"
    using False by (auto simp: store_step_def split: option.splits)
  note wf = store_wfD(1)[OF assms(1) q]
  have valid: "step_coordination_record_post_init (saved_record current r now) = Inr (saved_record current r now)"
  proof (cases "step_coordination_record_post_init (saved_record current r now)")
    case (Inl e)
    with c(6) q have "(res, st') = (Inl e, st)" by (simp add: store_step_def)
    with False show ?thesis by simp
  qed (auto dest: record_post_init_id)
  have "plan_runtime_state_post_init
      (q\<lparr>pl_steps := replace_step s (pl_steps q), pl_store_revision := pl_store_revision q + 1\<rparr>) =
      Inr (q\<lparr>pl_steps := replace_step s (pl_steps q), pl_store_revision := pl_store_revision q + 1\<rparr>)"
    by (rule runtime_post_init_replace) (use wf in auto)
  with c q valid show ?thesis
    by (intro saved[of current q]) (auto simp: store_step_def Let_def)
qed (use refused in blast)

lemma save_step_effect:
  assumes ok: "coord_ok home st" and save: "save_step s r n claim now st = (res, st')"
    and upd: "\<And>R S. dict_get (st_records st) (s_id s) = Some R \<Longrightarrow> co_revision R = n \<Longrightarrow>
      step_of st (co_plan_id R) (s_id s) = Some S \<Longrightarrow> live_claim claim (s_id s) now st \<Longrightarrow>
      step_after S s \<and> record_next R r \<and> pair_ok st r s"
  shows "coord_ok home st' \<and> store_grows st st' \<and>
    (\<forall>saved. res = Inr saved \<longrightarrow> dict_get (st_records st') (s_id s) = Some saved \<and>
       step_of st' (s_plan_id s) (s_id s) = Some s \<and> (\<exists>R. saved = saved_record R r now))"
proof -
  note wf = coord_okD(1)[OF ok]
  from wf save show ?thesis
  proof (cases rule: save_step_cases)
    case (refused e)
    with ok show ?thesis by simp
  next
    case (saved R q)
    let ?saved = "saved_record R r now"
    let ?q = "q\<lparr>pl_steps := replace_step s (pl_steps q), pl_store_revision := pl_store_revision q + 1\<rparr>"
    obtain S where S: "step_of st (co_plan_id R) (s_id s) = Some S"
      using coord_okD(2)[OF ok saved(1)] by blast
    from upd[OF saved(1,2) S saved(3)] have u: "step_after S s" "record_next R r" "pair_ok st r s" by blast+
    have plan: "s_plan_id s = co_plan_id R" using u(2) saved(6) by (simp add: record_next_def)
    have plans: "dict_get (st_plans st') = (dict_get (st_plans st))(s_plan_id s \<mapsto> ?q)"
      by (simp add: saved(9) fun_eq_iff)
    have steps: "step_of st' p k = (if p = s_plan_id s \<and> k = s_id s then Some s else step_of st p k)" for p k
      by (rule step_of_saved[OF saved(8) _ plans]) (simp add: plan S)
    have recs: "dict_get (st_records st') = (dict_get (st_records st))(s_id s \<mapsto> ?saved)"
      by (simp add: saved(9) fun_eq_iff)
    have rest: "fence_of st' = fence_of st" "st_claims st' = st_claims st"
      by (simp_all add: saved(9) fence_of_def fun_eq_iff)
    note q = store_wfD(1)[OF wf saved(8)]
    have valid: "plan_runtime_state_post_init ?q = Inr ?q"
      by (rule runtime_post_init_replace) (use q in auto)
    have "plan_after q ?q"
    proof (rule plan_after_replace)
      show "find (\<lambda>t. s_id t = s_id s) (pl_steps q) = Some S"
        using S saved(8) by (simp add: step_of_def plan)
      show "distinct (map s_id (pl_steps q))"
        using q by (auto simp: plan_runtime_state_post_init_def sbind_eq_Inr)
    qed (rule u(1))
    moreover have "co_revision ?saved \<noteq> co_revision R" by simp
    moreover from this have "?saved \<noteq> R" by metis
    moreover have "record_after R ?saved" by (rule record_after_saved[OF u(2)])
    ultimately have grows: "store_grows st st'"
      unfolding store_grows_def plans recs rest steps
      using saved(1,8) store_wfD(2)[OF wf] by (auto simp: step_of_id)
    have 1: "p_id (pl_plan p) = k \<and> plan_runtime_state_post_init p = Inr p" if "dict_get (st_plans st') k = Some p" for k p
      using that store_wfD(1)[OF wf] q valid by (auto simp: plans split: if_splits)
    have 2: "co_step_id x = k \<and> step_coordination_record_post_init x = Inr x \<and> step_of st' (co_plan_id x) k \<noteq> None"
      if "dict_get (st_records st') k = Some x" for k x
      using that store_wfD(2)[OF wf, of k] saved(5-7) by (auto simp: recs steps split: if_splits)
    have 3: "cl_step_id c = k \<and> cl_fence c \<le> fence_of st' k" if "dict_get (st_claims st') k = Some c" for k c
      using that store_wfD(3)[OF wf] by (simp add: rest)
    have 4: "home k = co_plan_id x \<and> (\<forall>t. step_of st' (co_plan_id x) k = Some t \<longrightarrow> pair_ok st' x t)"
      if x: "dict_get (st_records st') k = Some x" for k x
    proof (cases "k = s_id s")
      case True
      then have "x = ?saved" using x by (simp add: recs)
      then show ?thesis
        using True coord_okD(2)[OF ok saved(1)] pair_ok_grows[OF grows u(3)] plan saved(6) by (simp add: steps)
    next
      case False
      then show ?thesis
        using x coord_okD(2)[OF ok, of k x] pair_ok_grows[OF grows] by (auto simp: recs steps)
    qed
    have "distinct (map fst (st_records st'))"
      using store_wfD(4)[OF wf] by (simp add: saved(9) distinct_dict_set)
    with 1 2 3 4 have "coord_ok home st'" unfolding coord_ok_def store_wf_def by blast
    with grows show ?thesis using saved(4) by (auto simp: recs steps)
  qed
qed

section \<open>Claims\<close>

lemma step_of_plans: "st_plans st' = st_plans st \<Longrightarrow> step_of st' = step_of st"
  by (simp add: step_of_def fun_eq_iff)

lemma claims_only_ok:
  assumes ok: "coord_ok home st" and same: "st_plans st' = st_plans st" "st_records st' = st_records st"
    and fences: "\<And>k. fence_of st k \<le> fence_of st' k"
    and claims: "\<And>k c. dict_get (st_claims st') k = Some c \<Longrightarrow> cl_step_id c = k \<and> cl_fence c \<le> fence_of st' k \<and>
      (fence_of st k < cl_fence c \<or> (\<exists>c0. dict_get (st_claims st) k = Some c0 \<and> cl_fence c0 = cl_fence c \<and> cl_claim_id c0 = cl_claim_id c))"
  shows "coord_ok home st' \<and> store_grows st st'"
proof -
  have grows: "store_grows st st'"
    unfolding store_grows_def same step_of_plans[OF same(1)]
    using fences claims by (meson plan_after_refl record_after_refl)
  have "coord_ok home st'"
    using ok claims pair_ok_grows[OF grows]
    unfolding coord_ok_def store_wf_def same step_of_plans[OF same(1)] by blast
  with grows show ?thesis by blast
qed

lemma claims_kept: "store_wf st \<Longrightarrow> dict_get (st_claims st) k = Some c \<Longrightarrow> cl_step_id c = k \<and> cl_fence c \<le> fence_of st k"
  by (rule store_wfD(3))

lemma fence_of_claims [simp]: "fence_of (st\<lparr>st_claims := x\<rparr>) = fence_of st"
  by (simp add: fence_of_def fun_eq_iff)

lemma fence_of_set: "fence_of (st\<lparr>st_fences := dict_set k n (st_fences st)\<rparr>) j = (if j = k then n else fence_of st j)"
  by (simp add: fence_of_def)

lemma acquire_claim_effect:
  assumes ok: "coord_ok home st" and acq: "acquire_claim cid k owner ttl now st = (res, st')"
  shows "coord_ok home st' \<and> store_grows st st' \<and>
    (\<forall>c. res = Inr (Some c) \<longrightarrow> dict_get (st_claims st') k = Some c \<and> cl_step_id c = k \<and> cl_claim_id c = cid \<and>
       cl_owner_id c = owner \<and> cl_expires_at c = now + ttl \<and> fence_of st k < cl_fence c \<and> st_plans st' = st_plans st \<and>
       st_records st' = st_records st)"
proof -
  let ?f = "st\<lparr>st_fences := dict_set k (fence_of st k + 1) (st_fences st)\<rparr>"
  have "(\<forall>c. res \<noteq> Inr (Some c)) \<and> st' = st \<or> (\<exists>e. res = Inl e \<and> st' = ?f) \<or>
      (\<exists>c. res = Inr (Some c) \<and> c = \<lparr>cl_step_id = k, cl_claim_id = cid, cl_owner_id = owner,
      cl_fence = fence_of st k + 1, cl_expires_at = now + ttl\<rparr> \<and> st' = ?f\<lparr>st_claims := dict_set k c (st_claims st)\<rparr>)"
    using acq
    by (auto simp: acquire_claim_def Let_def sbind_eq_Inr datetime_add_def split: if_splits sum.splits dest!: claim_post_init_id)
  then show ?thesis
  proof (elim disjE exE conjE)
    assume "\<forall>c. res \<noteq> Inr (Some c)" "st' = st"
    with ok show ?thesis by simp
  next
    fix e assume e: "res = Inl e" "st' = ?f"
    have "coord_ok home st' \<and> store_grows st st'"
      by (rule claims_only_ok[OF ok]) (use claims_kept[OF coord_okD(1)[OF ok]] in \<open>fastforce simp: e fence_of_set\<close>)+
    with e show ?thesis by simp
  next
    fix c assume c: "res = Inr (Some c)" "c = \<lparr>cl_step_id = k, cl_claim_id = cid, cl_owner_id = owner,
      cl_fence = fence_of st k + 1, cl_expires_at = now + ttl\<rparr>" "st' = ?f\<lparr>st_claims := dict_set k c (st_claims st)\<rparr>"
    have cl: "cl_step_id c = k" "cl_fence c = fence_of st k + 1" by (simp_all add: c(2))
    have f: "fence_of st' j = (if j = k then fence_of st k + 1 else fence_of st j)" for j
      by (simp add: c(3) fence_of_def)
    have get: "dict_get (st_claims st') j = (if j = k then Some c else dict_get (st_claims st) j)" for j
      by (simp add: c(3))
    have "coord_ok home st' \<and> store_grows st st'"
    proof (rule claims_only_ok[OF ok])
      show "fence_of st j \<le> fence_of st' j" for j by (simp add: f)
      show "cl_step_id d = j \<and> cl_fence d \<le> fence_of st' j \<and>
          (fence_of st j < cl_fence d \<or> (\<exists>c0. dict_get (st_claims st) j = Some c0 \<and> cl_fence c0 = cl_fence d \<and> cl_claim_id c0 = cl_claim_id d))"
        if "dict_get (st_claims st') j = Some d" for j d
        using that claims_kept[OF coord_okD(1)[OF ok], of j d] cl by (cases "j = k") (auto simp: f get)
    qed (simp_all add: c(3))
    with c show ?thesis by simp
  qed
qed

lemma renew_claim_effect:
  assumes ok: "coord_ok home st" and ren: "renew_claim c ttl now st = (res, st')"
  shows "coord_ok home st' \<and> store_grows st st'"
proof (cases "st' = st")
  case False
  then obtain d where d: "dict_get (st_claims st) (cl_step_id c) = Some c" "cl_fence d = cl_fence c" "cl_step_id d = cl_step_id c"
    "cl_claim_id d = cl_claim_id c"
    "st' = st\<lparr>st_claims := dict_set (cl_step_id c) d (st_claims st)\<rparr>"
  proof -
    obtain x where "dict_get (st_claims st) (cl_step_id c) = Some c"
      "st' = st\<lparr>st_claims := dict_set (cl_step_id c) (c\<lparr>cl_expires_at := x\<rparr>) (st_claims st)\<rparr>"
      using ren False by (auto simp: renew_claim_def sbind_eq_Inr split: if_splits sum.splits dest!: claim_post_init_id)
    then show thesis by (intro that[of "c\<lparr>cl_expires_at := x\<rparr>"]) simp_all
  qed
  have f: "fence_of st' = fence_of st" by (simp add: d(5) fence_of_def fun_eq_iff)
  have get: "dict_get (st_claims st') j = (if j = cl_step_id c then Some d else dict_get (st_claims st) j)" for j
    by (simp add: d(5))
  show ?thesis
  proof (rule claims_only_ok[OF ok])
    show "cl_step_id x = j \<and> cl_fence x \<le> fence_of st' j \<and>
        (fence_of st j < cl_fence x \<or> (\<exists>c0. dict_get (st_claims st) j = Some c0 \<and> cl_fence c0 = cl_fence x \<and> cl_claim_id c0 = cl_claim_id x))"
      if "dict_get (st_claims st') j = Some x" for j x
    proof (cases "j = cl_step_id c")
      case True
      then have "x = d" using that by (simp add: get)
      then show ?thesis using True d(1-4) claims_kept[OF coord_okD(1)[OF ok] d(1)] by (simp add: f)
    next
      case False
      then show ?thesis using that claims_kept[OF coord_okD(1)[OF ok], of j x] by (simp add: f get)
    qed
  qed (simp_all add: d(5))
qed (use ok in simp)

lemma release_claim_effect:
  assumes ok: "coord_ok home st"
  shows "coord_ok home (snd (release_claim c st)) \<and> store_grows st (snd (release_claim c st))"
proof -
  let ?st = "st\<lparr>st_claims := filter (\<lambda>(k, _). k \<noteq> cl_step_id c) (st_claims st)\<rparr>"
  have f: "fence_of ?st = fence_of st" by (simp add: fence_of_def fun_eq_iff)
  have "coord_ok home ?st \<and> store_grows st ?st"
    by (rule claims_only_ok[OF ok]) (use claims_kept[OF coord_okD(1)[OF ok]] in \<open>auto simp: f dict_get_filter split: if_splits\<close>)
  with ok show ?thesis by (simp add: release_claim_def)
qed

section \<open>Registration\<close>

lemma dict_get_update:
  "distinct (map fst kvs) \<Longrightarrow>
     dict_get (dict_update d kvs) k = (case dict_get kvs k of None \<Rightarrow> dict_get d k | Some v \<Rightarrow> Some v)"
proof (induction kvs arbitrary: d)
  case (Cons kv kvs)
  moreover have "dict_get kvs (fst kv) = None" using Cons.prems by (simp add: dict_get_None_iff)
  ultimately show ?case by (cases kv) (auto split: option.splits)
qed simp

lemma distinct_dict_update: "distinct (map fst d) \<Longrightarrow> distinct (map fst (dict_update d kvs))"
  by (induction kvs arbitrary: d) (auto simp: distinct_dict_set)

lemma dict_get_records:
  assumes "distinct (map co_step_id rs)"
  shows "dict_get (map (\<lambda>r. (co_step_id r, r)) rs) k = Some r \<longleftrightarrow> r \<in> set rs \<and> co_step_id r = k"
  using assms by (auto simp: dict_get_def comp_def map_of_eq_Some_iff)

definition fresh_record :: "plan \<Rightarrow> step list \<Rightarrow> step_coordination_record \<Rightarrow> bool" where
  "fresh_record plan steps r \<longleftrightarrow> co_plan_id r = p_id plan \<and> step_coordination_record_post_init r = Inr r \<and>
     co_phase r = CP_BLOCKED \<and> co_satisfied_dependency_ids r = [] \<and>
     (\<exists>s\<in>set steps. s_id s = co_step_id r \<and> s_status s = S_PENDING \<and> s_depends_on s = co_dependency_ids r)"

lemma create_plan_effect:
  assumes ok: "coord_ok home st" and create: "create_plan plan steps records st = (res, st')"
    and records: "list_all (fresh_record plan steps) records" "distinct (map co_step_id records)"
    and home: "list_all (\<lambda>s. home (s_id s) = p_id plan) steps"
  shows "coord_ok home st' \<and> store_grows st st'"
proof (cases "st' = st")
  case False
  let ?p = "\<lparr>pl_plan = plan, pl_steps = steps, pl_store_revision = 1\<rparr>"
  obtain p where p: "plan_runtime_state_post_init ?p = Inr p"
    using create False by (cases "plan_runtime_state_post_init ?p") (simp_all add: create_plan_def)
  with create False have new: "dict_get (st_plans st) (p_id plan) = None" "plan_runtime_state_post_init ?p = Inr ?p"
    and st': "st' = st\<lparr>st_plans := dict_set (p_id plan) ?p (st_plans st),
      st_records := dict_update (st_records st) (map (\<lambda>r. (co_step_id r, r)) records)\<rparr>"
    using runtime_post_init_id[OF p] by (auto simp: create_plan_def split: if_splits option.splits)
  note wf = coord_okD(1)[OF ok]
  have steps: "distinct (map s_id steps)"
    using new(2) by (auto simp: plan_runtime_state_post_init_def sbind_eq_Inr)
  have found: "step_of st' (p_id plan) (s_id s) = Some s" if "s \<in> set steps" for s
    using find_distinct[OF steps that] by (simp add: st' step_of_def)
  have others: "step_of st' p k = step_of st p k" if "p \<noteq> p_id plan" for p k
    using that by (simp add: st' step_of_def)
  have old: "co_plan_id r \<noteq> p_id plan" if "dict_get (st_records st) k = Some r" for k r
    using store_wfD(2)[OF wf that] new(1) by (auto simp: step_of_def)
  have fresh: "dict_get (st_records st) (co_step_id r) = None" if "r \<in> set records" for r
  proof (rule ccontr)
    assume "dict_get (st_records st) (co_step_id r) \<noteq> None"
    then obtain x where x: "dict_get (st_records st) (co_step_id r) = Some x" by blast
    from that records(1) home have "home (co_step_id r) = p_id plan"
      by (fastforce simp: list_all_iff fresh_record_def)
    with coord_okD(2)[OF ok x] old[OF x] show False by simp
  qed
  have recs: "dict_get (st_records st') k = Some r \<longleftrightarrow>
      dict_get (st_records st) k = Some r \<or> r \<in> set records \<and> co_step_id r = k" for k r
  proof -
    let ?kvs = "map (\<lambda>r. (co_step_id r, r)) records"
    have get: "dict_get (st_records st') k = (case dict_get ?kvs k of None \<Rightarrow> dict_get (st_records st) k | Some v \<Rightarrow> Some v)"
      using records(2) by (simp add: st' dict_get_update comp_def)
    note in_records = dict_get_records[OF records(2), of k r]
    show ?thesis
    proof (cases "dict_get ?kvs k")
      case None
      then show ?thesis using in_records get by auto
    next
      case (Some x)
      then have "dict_get (st_records st) k = None"
        using fresh dict_get_records[OF records(2), of k x] by auto
      then show ?thesis using Some in_records get by auto
    qed
  qed
  have rest: "fence_of st' = fence_of st" "st_claims st' = st_claims st"
    by (simp_all add: st' fence_of_def fun_eq_iff)
  have grows: "store_grows st st'"
    unfolding store_grows_def rest
  proof (intro conjI allI impI)
    fix k q assume "dict_get (st_plans st) k = Some q"
    then show "\<exists>q'. dict_get (st_plans st') k = Some q' \<and> plan_after q q'"
      using new(1) by (intro exI[of _ q]) (auto simp: st')
  next
    fix k r assume r: "dict_get (st_records st) k = Some r"
    then show "\<exists>r'. dict_get (st_records st') k = Some r' \<and> record_after r r' \<and>
        (r' = r \<longrightarrow> step_of st' (co_plan_id r) k = step_of st (co_plan_id r) k)"
      using old[OF r] by (intro exI[of _ r]) (auto simp: recs others)
  qed simp_all
  have 1: "p_id (pl_plan q) = k \<and> plan_runtime_state_post_init q = Inr q" if "dict_get (st_plans st') k = Some q" for k q
    using that store_wfD(1)[OF wf, of k q] new(2) by (auto simp: st' split: if_splits)
  have 2: "co_step_id r = k \<and> step_coordination_record_post_init r = Inr r \<and> step_of st' (co_plan_id r) k \<noteq> None \<and>
      home k = co_plan_id r \<and> (\<forall>s. step_of st' (co_plan_id r) k = Some s \<longrightarrow> pair_ok st' r s)"
    if r: "dict_get (st_records st') k = Some r" for k r
  proof (cases "dict_get (st_records st) k = Some r")
    case True
    with coord_okD(2)[OF ok True] store_wfD(2)[OF wf True] pair_ok_grows[OF grows] old[OF True] show ?thesis
      by (auto simp: others)
  next
    case False
    with r have r: "r \<in> set records" "co_step_id r = k" by (simp_all add: recs)
    then have f: "fresh_record plan steps r" using records(1) by (simp add: list_all_iff)
    then obtain s where s: "s \<in> set steps" "s_id s = k" "s_status s = S_PENDING" "s_depends_on s = co_dependency_ids r"
      using r(2) by (auto simp: fresh_record_def)
    from f s home have "home k = p_id plan" by (auto simp: list_all_iff)
    with f s r(2) found[OF s(1)] show ?thesis
      by (auto simp: fresh_record_def pair_ok_def started_statuses_def)
  qed
  have "distinct (map fst (st_records st'))"
    using store_wfD(4)[OF wf] by (simp add: st' distinct_dict_update)
  then have "coord_ok home st'"
    unfolding coord_ok_def store_wf_def rest using 1 2 store_wfD(3)[OF wf] by blast
  with grows show ?thesis by blast
qed (use ok in simp)

end
