(* ===== verification/Coordination_Graph.thy ===== *)
theory Coordination_Graph
  imports Coordination_Models
begin

text \<open>
  The graph check of \<open>coordination/registration.py\<close>: which plans a coordinator accepts, and that its
  depth-first search rejects exactly the plans whose steps depend on each other in a circle.
\<close>

section \<open>Validation\<close>

definition step_ids :: "step list \<Rightarrow> string list" where
  "step_ids steps = map s_id steps"

definition check_step :: "plan \<Rightarrow> string list \<Rightarrow> step \<Rightarrow> py_error + unit" where
  "check_step plan ids s =
     (let missing = sort (remdups (filter (\<lambda>d. d \<notin> set ids) (s_depends_on s))) in
      sbind (guard (s_plan_id s = p_id plan) (contract_error INVALID_REQUEST)) (\<lambda>_.
      sbind (guard (s_status s = S_PENDING) (contract_error INVALID_REQUEST)) (\<lambda>_.
      sbind (guard (missing = []) (ContractError INVALID_REQUEST False
        [(''step_id'', JStr (s_id s)), (''dependencies'', JList (map JStr missing))])) (\<lambda>_.
      guard (case s_parent_step_id s of None \<Rightarrow> True | Some p \<Rightarrow> p \<in> set ids) (contract_error INVALID_REQUEST)))))"

text \<open>
  \<open>visit\<close> of the source marks a step while its predecessors are visited and unmarks it afterwards, so
  the marks are an argument here and the visited steps are the state that is handed on.
\<close>

function visit :: "(string \<times> string list) list \<Rightarrow> string set \<Rightarrow> string set \<Rightarrow> string \<Rightarrow> py_error + string set" where
  "visit graph visiting visited step_id =
     (if step_id \<in> visiting then Inl (contract_error INVALID_REQUEST)
      else if step_id \<in> visited then Inr visited
      else case dict_get graph step_id of
        None \<Rightarrow> Inl KeyError
      | Some predecessors \<Rightarrow>
          sbind (sfold (visit graph (insert step_id visiting)) visited predecessors)
            (\<lambda>visited'. Inr (insert step_id visited')))"
  by pat_completeness auto
termination
proof (relation "measure (\<lambda>(graph, visiting, visited, step_id). card (fst ` set graph - visiting))", goal_cases)
  case (2 graph visiting visited step_id predecessors s x)
  then have "step_id \<in> fst ` set graph - visiting"
    using dict_get_None_iff[of graph step_id] by auto
  then have "fst ` set graph - insert step_id visiting \<subset> fst ` set graph - visiting" by auto
  then show ?case by (simp add: psubset_card_mono)
qed simp

declare visit.simps [simp del]

lemma visit_run [simp]:
  "s \<in> visiting \<Longrightarrow> visit graph visiting V s = Inl (contract_error INVALID_REQUEST)"
  "s \<notin> visiting \<Longrightarrow> s \<in> V \<Longrightarrow> visit graph visiting V s = Inr V"
  "s \<notin> visiting \<Longrightarrow> s \<notin> V \<Longrightarrow> dict_get graph s = None \<Longrightarrow> visit graph visiting V s = Inl KeyError"
  "s \<notin> visiting \<Longrightarrow> s \<notin> V \<Longrightarrow> dict_get graph s = Some ds \<Longrightarrow> visit graph visiting V s =
     sbind (sfold (visit graph (insert s visiting)) V ds) (\<lambda>V'. Inr (insert s V'))"
  by (subst visit.simps, simp)+

definition validate_graph :: "plan \<Rightarrow> step list \<Rightarrow> py_error + unit" where
  "validate_graph plan steps =
     sbind (guard (steps \<noteq> []) (contract_error INVALID_REQUEST)) (\<lambda>_.
     let ids = step_ids steps in
     sbind (guard (distinct ids) (contract_error INVALID_REQUEST)) (\<lambda>_.
     sbind (smap (check_step plan ids) steps) (\<lambda>_.
     let graph = map (\<lambda>s. (s_id s, s_depends_on s)) steps in
     sbind (sfold (visit graph {}) {} ids) (\<lambda>_. Inr ()))))"

section \<open>The search\<close>

definition edges :: "(string \<times> string list) list \<Rightarrow> (string \<times> string) set" where
  "edges graph = {(s, d). \<exists>ds. dict_get graph s = Some ds \<and> d \<in> set ds}"

definition closed_graph :: "(string \<times> string list) list \<Rightarrow> bool" where
  "closed_graph graph \<longleftrightarrow> (\<forall>s ds. dict_get graph s = Some ds \<longrightarrow> set ds \<subseteq> fst ` set graph)"

text \<open>Visited steps are closed under dependencies and lie on no circle.\<close>

definition settled :: "(string \<times> string list) list \<Rightarrow> string set \<Rightarrow> bool" where
  "settled graph V \<longleftrightarrow> (\<forall>v\<in>V. (v, v) \<notin> (edges graph)\<^sup>+ \<and> (\<forall>d. (v, d) \<in> edges graph \<longrightarrow> d \<in> V))"

lemma settled_reaches: "(v, d) \<in> (edges graph)\<^sup>* \<Longrightarrow> settled graph V \<Longrightarrow> v \<in> V \<Longrightarrow> d \<in> V"
  by (induction rule: rtrancl_induct) (auto simp: settled_def)

lemma settled_insert:
  assumes "settled graph V" "s \<notin> V" "\<And>d. (s, d) \<in> edges graph \<Longrightarrow> d \<in> V"
  shows "settled graph (insert s V)"
proof -
  have "(s, s) \<notin> (edges graph)\<^sup>+"
  proof
    assume "(s, s) \<in> (edges graph)\<^sup>+"
    then obtain d where "(s, d) \<in> edges graph" "(d, s) \<in> (edges graph)\<^sup>*" by (meson tranclD)
    with settled_reaches[OF _ assms(1)] assms(2,3) show False by blast
  qed
  then show ?thesis using assms by (auto simp: settled_def)
qed

lemma sfold_collect:
  assumes "sfold f V ds = Inr V'" "P V"
    and "\<And>V d V'. d \<in> set ds \<Longrightarrow> P V \<Longrightarrow> f V d = Inr V' \<Longrightarrow> P V' \<and> V \<subseteq> V' \<and> d \<in> V'"
  shows "P V' \<and> V \<subseteq> V' \<and> set ds \<subseteq> V'"
  using assms
proof (induction ds arbitrary: V)
  case (Cons d ds)
  from Cons.prems(1) obtain U where U: "f V d = Inr U" "sfold f U ds = Inr V'" by (auto simp: sbind_eq_Inr)
  from Cons.prems(3)[OF _ Cons.prems(2) U(1)] have d: "P U" "V \<subseteq> U" "d \<in> U" by simp_all
  have "P V' \<and> U \<subseteq> V' \<and> set ds \<subseteq> V'"
    by (rule Cons.IH[OF U(2) d(1)], rule Cons.prems(3)) simp_all
  with d show ?case by auto
qed simp

lemma visit_settles:
  assumes "visit graph visiting V s = Inr V'" "settled graph V" "visiting \<inter> V = {}"
  shows "settled graph V' \<and> visiting \<inter> V' = {} \<and> V \<subseteq> V' \<and> s \<in> V'"
  using assms
proof (induction graph visiting V s arbitrary: V' rule: visit.induct)
  case (1 graph visiting V s)
  show ?case
  proof (cases "s \<in> visiting \<or> s \<in> V")
    case True
    with 1(2-4) show ?thesis by (cases "s \<in> visiting") simp_all
  next
    case False
    obtain ds where ds: "dict_get graph s = Some ds"
      using False 1(2) visit_run(3)[of s visiting V graph] by (cases "dict_get graph s") simp_all
    obtain U where U: "sfold (visit graph (insert s visiting)) V ds = Inr U" "V' = insert s U"
    proof -
      have "sbind (sfold (visit graph (insert s visiting)) V ds) (\<lambda>V'. Inr (insert s V')) = Inr V'"
        using 1(2) False ds by simp
      then show thesis using that unfolding sbind_eq_Inr by blast
    qed
    let ?P = "\<lambda>V. settled graph V \<and> insert s visiting \<inter> V = {}"
    have "?P U \<and> V \<subseteq> U \<and> set ds \<subseteq> U"
    proof (rule sfold_collect[OF U(1)])
      show "?P V" using False 1(3,4) by auto
    next
      fix W d W' assume "d \<in> set ds" "?P W" "visit graph (insert s visiting) W d = Inr W'"
      then show "?P W' \<and> W \<subseteq> W' \<and> d \<in> W'" using "1.IH"[of ds W d W'] False ds by blast
    qed
    moreover from this have "settled graph (insert s U)"
      using ds by (intro settled_insert) (auto simp: edges_def)
    ultimately show ?thesis using False U(2) by auto
  qed
qed

lemma sfold_total:
  assumes "\<And>V x. x \<in> set xs \<Longrightarrow> \<exists>V'. f V x = Inr V'"
  shows "\<exists>V'. sfold f V xs = Inr V'"
  using assms
proof (induction xs arbitrary: V)
  case (Cons x xs)
  obtain U where "f V x = Inr U" using Cons.prems by (meson list.set_intros(1))
  with Cons show ?case by simp
qed simp

lemma visit_accepts:
  assumes "acyclic (edges graph)" "closed_graph graph" "s \<in> fst ` set graph"
    and "\<And>u. u \<in> visiting \<Longrightarrow> (u, s) \<in> (edges graph)\<^sup>+"
  shows "\<exists>V'. visit graph visiting V s = Inr V'"
  using assms
proof (induction graph visiting V s rule: visit.induct)
  case (1 graph visiting V s)
  have "s \<notin> visiting" using 1(2,5) by (auto simp: acyclic_def)
  obtain ds where ds: "dict_get graph s = Some ds" using 1(4) dict_get_None_iff[of graph s] by auto
  show ?case
  proof (cases "s \<in> V")
    case False
    have "\<exists>V'. sfold (visit graph (insert s visiting)) V ds = Inr V'"
    proof (rule sfold_total)
      fix W d assume d: "d \<in> set ds"
      then have e: "(s, d) \<in> edges graph" using ds by (auto simp: edges_def)
      have "d \<in> fst ` set graph" using 1(3) ds d by (auto simp: closed_graph_def)
      moreover have "(u, d) \<in> (edges graph)\<^sup>+" if "u \<in> insert s visiting" for u
        using that e 1(5)[of u] by (auto intro: trancl_into_trancl)
      ultimately show "\<exists>V'. visit graph (insert s visiting) W d = Inr V'"
        using "1.IH"[OF \<open>s \<notin> visiting\<close> False ds] 1(2,3) by blast
    qed
    then show ?thesis using \<open>s \<notin> visiting\<close> False ds by auto
  qed (use \<open>s \<notin> visiting\<close> in simp)
qed

lemma search_exact:
  assumes "closed_graph graph"
  shows "(\<exists>V. sfold (visit graph {}) {} (map fst graph) = Inr V) \<longleftrightarrow> acyclic (edges graph)"
proof
  assume "\<exists>V. sfold (visit graph {}) {} (map fst graph) = Inr V"
  then obtain V where V: "sfold (visit graph {}) {} (map fst graph) = Inr V" by blast
  have "settled graph V \<and> {} \<subseteq> V \<and> set (map fst graph) \<subseteq> V"
  proof (rule sfold_collect[OF V])
    show "settled graph {}" by (simp add: settled_def)
    show "settled graph W' \<and> W \<subseteq> W' \<and> d \<in> W'" if "settled graph W" "visit graph {} W d = Inr W'" for W d W'
      using visit_settles[OF that(2,1)] by simp
  qed
  moreover have "v \<in> fst ` set graph" if "(v, v) \<in> (edges graph)\<^sup>+" for v
    using tranclD[OF that] dict_get_None_iff[of graph v] by (auto simp: edges_def)
  ultimately show "acyclic (edges graph)" by (auto simp: acyclic_def settled_def)
next
  assume "acyclic (edges graph)"
  from visit_accepts[OF this assms, of _ "{}"]
  show "\<exists>V. sfold (visit graph {}) {} (map fst graph) = Inr V" by (intro sfold_total) simp
qed

section \<open>What is accepted\<close>

definition step_dependencies :: "step list \<Rightarrow> (string \<times> string) set" where
  \<comment> \<open>a step and one it depends on\<close>
  "step_dependencies steps = {(s_id s, d) |s d. s \<in> set steps \<and> d \<in> set (s_depends_on s)}"

definition well_formed_steps :: "plan \<Rightarrow> step list \<Rightarrow> bool" where
  "well_formed_steps plan steps \<longleftrightarrow> steps \<noteq> [] \<and> distinct (step_ids steps) \<and>
     (\<forall>s\<in>set steps. s_plan_id s = p_id plan \<and> s_status s = S_PENDING \<and>
        set (s_depends_on s) \<subseteq> s_id ` set steps \<and> set_option (s_parent_step_id s) \<subseteq> s_id ` set steps)"

lemma sort_Nil_iff [simp]: "sort xs = [] \<longleftrightarrow> xs = []"
  by (metis length_0_conv length_sort)

lemma check_step_Inr:
  "check_step plan ids s = Inr u \<longleftrightarrow> s_plan_id s = p_id plan \<and> s_status s = S_PENDING \<and>
     set (s_depends_on s) \<subseteq> set ids \<and> set_option (s_parent_step_id s) \<subseteq> set ids"
  by (auto simp: check_step_def Let_def sbind_eq_Inr filter_empty_conv split: option.splits)

lemma graph_of_steps:
  assumes "distinct (step_ids steps)"
  shows "edges (map (\<lambda>s. (s_id s, s_depends_on s)) steps) = step_dependencies steps"
proof -
  have "dict_get (map (\<lambda>s. (s_id s, s_depends_on s)) steps) i = Some ds \<longleftrightarrow>
      (\<exists>s\<in>set steps. s_id s = i \<and> s_depends_on s = ds)" for i ds
    using assms by (auto simp: dict_get_def step_ids_def comp_def map_of_eq_Some_iff)
  then show ?thesis by (auto simp: edges_def step_dependencies_def)
qed

lemma smap_unit_Inr: "(\<exists>us. smap f xs = Inr us) \<longleftrightarrow> (\<forall>x\<in>set xs. \<exists>u. f x = Inr u)"
  by (induction xs) (auto simp: sbind_eq_Inr)

lemma validate_graph_iff:
  "validate_graph plan steps = Inr () \<longleftrightarrow> well_formed_steps plan steps \<and> acyclic (step_dependencies steps)"
proof -
  let ?g = "map (\<lambda>s. (s_id s, s_depends_on s)) steps"
  have ids: "map fst ?g = step_ids steps" by (simp add: step_ids_def)
  have wf: "well_formed_steps plan steps \<longleftrightarrow> steps \<noteq> [] \<and> distinct (step_ids steps) \<and>
      (\<exists>us. smap (check_step plan (step_ids steps)) steps = Inr us)"
    by (auto simp: well_formed_steps_def smap_unit_Inr check_step_Inr step_ids_def)
  have "closed_graph ?g" if "well_formed_steps plan steps"
    using that by (fastforce simp: closed_graph_def well_formed_steps_def dict_get_def image_image dest: map_of_SomeD)
  moreover have "edges ?g = step_dependencies steps" if "well_formed_steps plan steps"
    using that graph_of_steps by (simp add: well_formed_steps_def)
  ultimately have "well_formed_steps plan steps \<Longrightarrow>
      (\<exists>V. sfold (visit ?g {}) {} (step_ids steps) = Inr V) \<longleftrightarrow> acyclic (step_dependencies steps)"
    using search_exact[of ?g] ids by simp
  then show ?thesis unfolding wf by (auto simp: validate_graph_def Let_def sbind_eq_Inr)
qed

end
