(* ===== verification/Coordinator_Steps.thy ===== *)
theory Coordinator_Steps
  imports Coordinator_Store Coordination_Graph Kernel_Task_Commands
begin

text \<open>
  The operations by which the coordinator moves one step: registration (\<open>coordination/registration.py\<close>),
  the dependency barrier and the dispatch of attempts (\<open>progression.py\<close>), the outcomes of attempts and
  their retries (\<open>attempt_outcomes.py\<close>). They run on a kernel world whose collaborators keep the
  coordinator store; every call of the store is a suspension point before and after, and the kernel is
  the modelled one. Telemetry is left out.
\<close>

type_synonym 'm coord_world = "'m coordinator_store_scheme world"
type_synonym 'm coord_env = "'m coordinator_store_scheme kernel_env"

record coordinator_config =
  cc_coordinator_id :: string
  cc_claim_ttl :: int

definition coordinator_init :: "string \<Rightarrow> int \<Rightarrow> py_error + coordinator_config" where
  "coordinator_init coordinator_id claim_ttl =
     sbind (guard (\<not> py_blank coordinator_id) ValueError) (\<lambda>_.
     sbind (guard (0 < claim_ttl) ValueError) (\<lambda>_.
     Inr \<lparr>cc_coordinator_id = coordinator_id, cc_claim_ttl = claim_ttl\<rparr>))"

section \<open>Calls of the store\<close>

definition on_store :: "('m coordinator_store_scheme \<Rightarrow> (py_error + 'a) \<times> 'm coordinator_store_scheme) \<Rightarrow>
    ('m coord_world, 'a) action" where
  "on_store f = (\<lambda>w. case f (w_ext w) of (res, st) \<Rightarrow> (res, w\<lparr>w_ext := st\<rparr>))"

definition store_call :: "'m coord_env \<Rightarrow> ('m coord_world, 'a) action \<Rightarrow> ('m coord_world, 'a) action" where
  "store_call env m =
     await (env_suspend env) (\<lambda>_. await m (\<lambda>x. await (env_suspend env) (\<lambda>_. ret x)))"

definition store_read :: "'m coord_env \<Rightarrow> ('m coordinator_store_scheme \<Rightarrow> py_error + 'a) \<Rightarrow> ('m coord_world, 'a) action" where
  "store_read env f = store_call env (\<lambda>w. (f (w_ext w), w))"

definition fetch_record :: "'m coord_env \<Rightarrow> string \<Rightarrow> ('m coord_world, step_coordination_record) action" where
  "fetch_record env step_id = store_read env (\<lambda>st. get_step_record st step_id)"

definition fetch_plan :: "'m coord_env \<Rightarrow> string \<Rightarrow> ('m coord_world, plan_runtime_state) action" where
  "fetch_plan env plan_id = store_read env (\<lambda>st. get_plan st plan_id)"

definition fetch_step :: "'m coord_env \<Rightarrow> string \<Rightarrow> string \<Rightarrow> ('m coord_world, step) action" where
  \<comment> \<open>\<open>(await repository.get_plan(plan_id)).step(step_id)\<close>\<close>
  "fetch_step env plan_id step_id = await (fetch_plan env plan_id) (\<lambda>state. pure (runtime_step state step_id))"

definition save :: "'m coord_env \<Rightarrow> step \<Rightarrow> step_coordination_record \<Rightarrow> int \<Rightarrow> coordinator_claim \<Rightarrow> datetime \<Rightarrow>
    ('m coord_world, step_coordination_record) action" where
  "save env s record expected_revision claim now =
     store_call env (on_store (save_step s record expected_revision (Some claim) now))"

definition draw_claim :: "'m coord_env \<Rightarrow> (string \<Rightarrow> ('m coord_world, 'a) action) \<Rightarrow> ('m coord_world, 'a) action" where
  "draw_claim env f =
     (\<lambda>w. f (''claim-'' @ env_uuid4 env (w_draws w)) (w\<lparr>w_draws := Suc (w_draws w)\<rparr>))"

definition claim_step :: "'m coord_env \<Rightarrow> coordinator_config \<Rightarrow> string \<Rightarrow> datetime \<Rightarrow>
    ('m coord_world, coordinator_claim option) action" where
  "claim_step env cfg step_id now =
     await (store_call env (draw_claim env (\<lambda>claim_id.
       on_store (acquire_claim claim_id step_id (cc_coordinator_id cfg) (cc_claim_ttl cfg) now)))) (\<lambda>claim.
     if claim = None then await (fetch_record env step_id) (\<lambda>_. ret None) else ret claim)"

definition required_claim :: "'m coord_env \<Rightarrow> coordinator_config \<Rightarrow> string \<Rightarrow> datetime \<Rightarrow>
    ('m coord_world, coordinator_claim) action" where
  "required_claim env cfg step_id now =
     await (claim_step env cfg step_id now) (\<lambda>claim.
     case claim of None \<Rightarrow> raise (ContractError CONFLICT False [(''step_id'', JStr step_id)])
     | Some c \<Rightarrow> ret c)"

definition try_finally :: "('w, 'a) action \<Rightarrow> ('w, 'b) action \<Rightarrow> ('w, 'a) action" where
  "try_finally m f = (\<lambda>w. case m w of (r, w1) \<Rightarrow>
     (case f w1 of (Inl e, w2) \<Rightarrow> (Inl e, w2) | (Inr _, w2) \<Rightarrow> (r, w2)))"

definition holding :: "'m coord_env \<Rightarrow> coordinator_claim \<Rightarrow> ('m coord_world, 'a) action \<Rightarrow> ('m coord_world, 'a) action" where
  \<comment> \<open>\<open>try: m finally: await repository.release_claim(claim)\<close>\<close>
  "holding env claim m = try_finally m
     (store_call env (on_store (\<lambda>st. case release_claim claim st of (released, st) \<Rightarrow> (Inr released, st))))"

definition move_step :: "'m coord_env \<Rightarrow> step \<Rightarrow> step_status \<Rightarrow> ('m coord_world, step) action" where
  "move_step env s target = await (utc_now env) (\<lambda>t. pure (step_transition_to t s target))"

definition with_record :: "step_coordination_record \<Rightarrow> ('m coord_world, step_coordination_record) action" where
  \<comment> \<open>what \<open>dataclasses.replace\<close> builds is validated\<close>
  "with_record r = pure (step_coordination_record_post_init r)"

definition coordinator_now :: "'m coord_env \<Rightarrow> datetime option \<Rightarrow> ('m coord_world, datetime) action" where
  "coordinator_now env now = (case now of None \<Rightarrow> utc_now env | Some t \<Rightarrow> ret t)"

section \<open>Registration\<close>

definition registration_record :: "'m coord_env \<Rightarrow> plan \<Rightarrow> step_retry_policy dict \<Rightarrow> predecessor_failure_policy \<Rightarrow> step \<Rightarrow>
    ('m coord_world, step_coordination_record) action" where
  "registration_record env plan policies failure_policy s =
     await (utc_now env) (\<lambda>created.
     await (utc_now env) (\<lambda>updated.
     with_record
       \<lparr>co_task_id = p_task_id plan, co_plan_id = p_id plan, co_plan_revision = p_revision plan, co_step_id = s_id s,
        co_phase = CP_BLOCKED, co_dependency_ids = s_depends_on s, co_satisfied_dependency_ids = [],
        co_latest_run_id = None, co_current_attempt = 0,
        co_retry_policy = (case dict_get policies (s_id s) of None \<Rightarrow> default_retry_policy | Some p \<Rightarrow> p),
        co_retry_due_at = None, co_retry_state = RS_NONE, co_wait = None,
        co_predecessor_failure_policy = failure_policy, co_processed_keys = [], co_reconciliation = RD_CONSISTENT,
        co_reconciliation_detail = None, co_correlation_id = Some (p_task_id plan), co_causation_id = None,
        co_provenance_source = ''platform-coordinator'', co_revision = 1, co_created_at = created,
        co_updated_at = updated\<rparr>))"

definition register :: "'m coord_env \<Rightarrow> plan \<Rightarrow> step list \<Rightarrow> step_retry_policy dict \<Rightarrow> predecessor_failure_policy \<Rightarrow>
    ('m coord_world, unit) action" where
  "register env plan steps policies failure_policy =
     await (pure (validate_graph plan steps)) (\<lambda>_.
     await (get_task env (p_task_id plan)) (\<lambda>ts.
     if ts_plan_ref ts \<noteq> Some (p_id plan)
     then raise (ContractError CONFLICT False [(''task_id'', JStr (p_task_id plan)), (''plan_id'', JStr (p_id plan))])
     else if set (ts_step_ids ts) \<noteq> set (step_ids steps) then raise (contract_error CONFLICT)
     else
     let unknown = sort (remdups (filter (\<lambda>k. k \<notin> set (step_ids steps)) (map fst policies))) in
     if unknown \<noteq> [] then raise (ContractError INVALID_REQUEST False [(''step_ids'', JList (map JStr unknown))])
     else
     await (each (registration_record env plan policies failure_policy) steps) (\<lambda>records.
     await (store_call env (on_store (create_plan plan steps records))) (\<lambda>_. ret ()))))"

section \<open>The dependency barrier\<close>

definition dependency_outcome :: "'m coord_env \<Rightarrow> (string \<times> step) list \<Rightarrow> string \<Rightarrow>
    ('m coord_world, string \<times> bool option) action" where
  \<comment> \<open>whether the dependency is satisfied, has failed or is still open\<close>
  "dependency_outcome env by_id dependency_id =
     (case dict_get by_id dependency_id of
        None \<Rightarrow> raise KeyError
      | Some dependency \<Rightarrow>
        if s_status dependency = S_SUCCEEDED then ret (dependency_id, Some True)
        else if s_status dependency \<in> {S_FAILED, S_CANCELLED} then ret (dependency_id, Some False)
        else if s_status dependency = S_SKIPPED then
          await (fetch_record env dependency_id) (\<lambda>r.
          ret (dependency_id, Some (set (co_satisfied_dependency_ids r) = set (co_dependency_ids r))))
        else ret (dependency_id, None))"

definition fail_barrier :: "'m coord_env \<Rightarrow> step \<Rightarrow> string list \<Rightarrow> coordinator_claim \<Rightarrow> datetime \<Rightarrow>
    ('m coord_world, bool) action" where
  "fail_barrier env s satisfied claim now =
     await (fetch_record env (s_id s)) (\<lambda>current.
     await (fetch_step env (s_plan_id s) (s_id s)) (\<lambda>current_step.
     if s_status current_step \<noteq> S_PENDING then ret False
     else
     await (move_step env current_step
       (if co_predecessor_failure_policy current = PF_CANCEL_DEPENDENT then S_CANCELLED else S_SKIPPED)) (\<lambda>terminal.
     await (with_record (current\<lparr>co_phase := CP_TERMINAL, co_satisfied_dependency_ids := satisfied,
       co_reconciliation_detail := Some ''predecessor failed or cancelled''\<rparr>)) (\<lambda>updated.
     await (save env terminal updated (co_revision current) claim now) (\<lambda>_. ret True)))))"

definition advance_barrier :: "'m coord_env \<Rightarrow> step \<Rightarrow> string list \<Rightarrow> coordinator_claim \<Rightarrow> datetime \<Rightarrow>
    ('m coord_world, bool) action" where
  "advance_barrier env s satisfied claim now =
     await (fetch_record env (s_id s)) (\<lambda>current.
     await (fetch_step env (s_plan_id s) (s_id s)) (\<lambda>current_step.
     await (with_record (current\<lparr>co_satisfied_dependency_ids := satisfied\<rparr>)) (\<lambda>updated.
     if set satisfied = set (co_dependency_ids current) then
       await (move_step env current_step S_READY) (\<lambda>ready.
       await (with_record (updated\<lparr>co_phase := CP_READY\<rparr>)) (\<lambda>updated.
       await (save env ready updated (co_revision current) claim now) (\<lambda>_. ret True)))
     else
       await (save env current_step updated (co_revision current) claim now) (\<lambda>_. ret True))))"

definition open_barrier :: "'m coord_env \<Rightarrow> step \<Rightarrow> coordinator_claim \<Rightarrow> datetime \<Rightarrow> ('m coord_world, bool) action" where
  "open_barrier env s claim now =
     await (fetch_record env (s_id s)) (\<lambda>current.
     await (fetch_step env (s_plan_id s) (s_id s)) (\<lambda>current_step.
     if s_status current_step \<noteq> S_PENDING then ret False
     else
     await (move_step env current_step S_READY) (\<lambda>ready.
     await (with_record (current\<lparr>co_phase := CP_READY\<rparr>)) (\<lambda>updated.
     await (save env ready updated (co_revision current) claim now) (\<lambda>_. ret True)))))"

definition under_claim :: "'m coord_env \<Rightarrow> coordinator_config \<Rightarrow> string \<Rightarrow> datetime \<Rightarrow>
    (coordinator_claim \<Rightarrow> ('m coord_world, bool) action) \<Rightarrow> ('m coord_world, bool) action" where
  "under_claim env cfg step_id now f =
     await (claim_step env cfg step_id now) (\<lambda>claim.
     case claim of None \<Rightarrow> ret False | Some c \<Rightarrow> holding env c (f c))"

definition refresh_dependencies :: "'m coord_env \<Rightarrow> coordinator_config \<Rightarrow> step \<Rightarrow> step_coordination_record \<Rightarrow>
    (string \<times> step) list \<Rightarrow> datetime \<Rightarrow> ('m coord_world, bool) action" where
  "refresh_dependencies env cfg s record by_id now =
     (if s_status s \<noteq> S_PENDING then ret False
      else
      await (each (dependency_outcome env by_id) (co_dependency_ids record)) (\<lambda>outcomes.
      let satisfied = map fst (filter (\<lambda>(_, b). b = Some True) outcomes);
          failed = map fst (filter (\<lambda>(_, b). b = Some False) outcomes)
      in if failed \<noteq> [] then under_claim env cfg (s_id s) now (\<lambda>c. fail_barrier env s satisfied c now)
         else if set satisfied \<noteq> set (co_satisfied_dependency_ids record)
         then under_claim env cfg (s_id s) now (\<lambda>c. advance_barrier env s satisfied c now)
         else if co_dependency_ids record = [] then under_claim env cfg (s_id s) now (\<lambda>c. open_barrier env s c now)
         else ret False))"

section \<open>Dispatch of an attempt\<close>

fun decimal_digits :: "nat \<Rightarrow> string" where
  "decimal_digits n = (if n < 10 then [char_of (48 + n)] else decimal_digits (n div 10) @ [char_of (48 + n mod 10)])"

declare decimal_digits.simps [simp del]

definition py_str_int :: "int \<Rightarrow> string" where
  "py_str_int i = (if i < 0 then CHR ''-'' # decimal_digits (nat (- i)) else decimal_digits (nat i))"

definition attempt_key :: "step_coordination_record \<Rightarrow> int \<Rightarrow> string" where
  "attempt_key r n = ''coord:'' @ co_plan_id r @ '':'' @ co_step_id r @ '':attempt:'' @ py_str_int n"

definition start_key :: "step_coordination_record \<Rightarrow> int \<Rightarrow> string" where
  "start_key r n = attempt_key r n @ '':start''"

definition STALE_STREAM_RETRY_LIMIT :: nat where
  "STALE_STREAM_RETRY_LIMIT = 32"

fun retry_stale_stream :: "'m coord_env \<Rightarrow> nat \<Rightarrow> py_error option \<Rightarrow> ('m coord_world, 'a) action \<Rightarrow>
    ('m coord_world, 'a) action" where
  \<comment> \<open>each conflict is followed by \<open>await asyncio.sleep\<close>\<close>
  "retry_stale_stream env 0 last_stale_conflict m =
     (case last_stale_conflict of None \<Rightarrow> raise RuntimeError | Some e \<Rightarrow> raise e)"
| "retry_stale_stream env (Suc n) last_stale_conflict m =
     attempt m (\<lambda>e. if is_stale_revision_conflict e
       then await (env_suspend env) (\<lambda>_. retry_stale_stream env n (Some e) m) else raise e)"

definition start_attempt :: "'m coord_env \<Rightarrow> coordinator_config \<Rightarrow> step \<Rightarrow> step_coordination_record \<Rightarrow> datetime \<Rightarrow>
    ('m coord_world, bool) action" where
  "start_attempt env cfg s record now =
     under_claim env cfg (s_id s) now (\<lambda>claim.
     await (fetch_record env (s_id s)) (\<lambda>current.
     await (fetch_step env (s_plan_id s) (s_id s)) (\<lambda>current_step.
     if co_phase current \<noteq> CP_READY \<or> s_status current_step \<noteq> S_READY then ret False
     else
     let attempt_no = co_current_attempt current + 1 in
     await (retry_stale_stream env STALE_STREAM_RETRY_LIMIT None
       (create_run env (attempt_key current attempt_no) (co_task_id current) ''step'' (Some (co_step_id current)) None
          ''platform-coordinator'')) (\<lambda>run.
     if r_attempt (rs_run run) \<noteq> attempt_no
     then raise (ContractError CONFLICT False
       [(''expected_attempt'', JInt attempt_no), (''run_attempt'', JInt (r_attempt (rs_run run)))])
     else
     await (move_step env current_step S_RUNNING) (\<lambda>running.
     await (with_record (current\<lparr>co_phase := CP_ATTEMPT_ACTIVE, co_latest_run_id := Some (rs_run_id run),
       co_current_attempt := attempt_no, co_retry_due_at := None, co_reconciliation := RD_CONSISTENT,
       co_reconciliation_detail := None\<rparr>)) (\<lambda>updated.
     await (save env running updated (co_revision current) claim now) (\<lambda>_.
     await (retry_stale_stream env STALE_STREAM_RETRY_LIMIT None
       (start_run env (start_key current attempt_no) (co_task_id current) (rs_run_id run) None ''platform-coordinator'')) (\<lambda>_.
     ret True))))))))"

end
