(* ===== verification/Coordinator_Signals.thy ===== *)
theory Coordinator_Signals
  imports Coordinator_Steps
begin

text \<open>
  What changes a step from outside: the outcome of its run and the retry it schedules
  (\<open>coordination/attempt_outcomes.py\<close>), durable waits and the signals that resolve them (\<open>waits.py\<close>),
  the cancellation of a plan (\<open>cancellation.py\<close>) and the mark of a step whose run is gone
  (\<open>reconciliation.py\<close>).
\<close>

section \<open>Waits\<close>

definition close_wait :: "step_wait option \<Rightarrow> wait_resolution \<Rightarrow> string \<Rightarrow> datetime \<Rightarrow> py_error + step_wait option" where
  "close_wait wait resolution resolution_key now =
     (case wait of None \<Rightarrow> Inr None
      | Some x \<Rightarrow>
        if wait_resolved x then Inr (Some x)
        else sbind (step_wait_post_init (x\<lparr>wt_resolved_at := Some now, wt_resolution := Some resolution,
               wt_resolution_key := Some resolution_key\<rparr>)) (\<lambda>x. Inr (Some x)))"

definition validate_wait_scope :: "step_wait \<Rightarrow> plan \<Rightarrow> step \<Rightarrow> step_coordination_record \<Rightarrow> py_error + unit" where
  "validate_wait_scope wait plan s record =
     sbind (guard (wt_task_id wait = p_task_id plan \<and> wt_plan_id wait = p_id plan \<and> wt_step_id wait = s_id s)
       (contract_error CONFLICT)) (\<lambda>_.
     sbind (guard (wt_owner_ref wait = s_owner_ref s \<and> wt_project_id wait = s_project_id s)
       (contract_error FORBIDDEN)) (\<lambda>_.
     guard (wt_plan_id wait = co_plan_id record \<and> wt_task_id wait = co_task_id record) (contract_error CONFLICT)))"

definition require_scope :: "step_wait \<Rightarrow> owner_ref \<Rightarrow> string option \<Rightarrow> py_error + unit" where
  "require_scope wait owner project_id =
     guard (wt_owner_ref wait = owner \<and> wt_project_id wait = project_id) (contract_error FORBIDDEN)"

definition stopped_retry :: "step_coordination_record \<Rightarrow> retry_state \<Rightarrow> retry_state" where
  \<comment> \<open>a pending or running retry ends in the given state\<close>
  "stopped_retry r ended = (if co_retry_state r \<in> {RS_SCHEDULED, RS_ACTIVE} then ended else co_retry_state r)"

definition finished_retry :: "step_coordination_record \<Rightarrow> retry_state \<Rightarrow> retry_state" where
  "finished_retry r ended = (if co_retry_state r = RS_ACTIVE then ended else co_retry_state r)"

section \<open>Outcomes of attempts\<close>

text \<open>A mutation is the plan it is about and whether anything changed.\<close>

type_synonym mutation = "string \<times> bool"

definition default_key :: "string \<Rightarrow> run_status \<Rightarrow> string" where
  "default_key run_id status = ''run:'' @ run_id @ '':'' @ run_status_value status"

definition or_default :: "string option \<Rightarrow> string \<Rightarrow> string" where
  \<comment> \<open>\<open>value or default\<close>: an empty text counts as absent\<close>
  "or_default v d = (case v of None \<Rightarrow> d | Some s \<Rightarrow> if s = [] then d else s)"

definition observe_success :: "'m coord_env \<Rightarrow> step \<Rightarrow> step_coordination_record \<Rightarrow> step_coordination_record \<Rightarrow>
    ('m coord_world, step \<times> step_coordination_record) action" where
  "observe_success env s current next_record =
     (if s_status s = S_RUNNING then
        await (move_step env s S_SUCCEEDED) (\<lambda>next_step.
        await (with_record (next_record\<lparr>co_phase := CP_TERMINAL, co_retry_state := finished_retry current RS_COMPLETED\<rparr>))
        (\<lambda>r. ret (next_step, r)))
      else if s_status s = S_WAITING \<and> co_wait current \<noteq> None then
        await (with_record (next_record\<lparr>co_phase := CP_WAITING\<rparr>)) (\<lambda>r. ret (s, r))
      else if s_status s \<noteq> S_SUCCEEDED then
        await (with_record (next_record\<lparr>co_phase := CP_INCONSISTENT, co_reconciliation := RD_INCONSISTENT,
          co_reconciliation_detail := Some ''successful Run conflicts with canonical Step status''\<rparr>)) (\<lambda>r. ret (s, r))
      else ret (s, next_record))"

definition observe_failure :: "'m coord_env \<Rightarrow> step \<Rightarrow> step_coordination_record \<Rightarrow> step_coordination_record \<Rightarrow>
    run_state \<Rightarrow> string \<Rightarrow> string option \<Rightarrow> datetime \<Rightarrow> ('m coord_world, step \<times> step_coordination_record) action" where
  "observe_failure env s current next_record run key failure_category now =
     (let category = or_default failure_category (run_status_value (rs_status run));
          attempts = max (co_current_attempt current) (r_attempt (rs_run run));
          next_attempt = attempts + 1;
          policy = co_retry_policy current;
          category_retryable = category \<in> set (rt_retryable_categories policy)
      in
      await (if s_status s \<in> {S_RUNNING, S_WAITING} then move_step env s S_FAILED else ret s) (\<lambda>next_step.
      await (pure (close_wait (co_wait current) WR_CANCELLED key now)) (\<lambda>closed_wait.
      if category_retryable \<and> next_attempt \<le> rt_max_attempts policy then
        await (pure (sbind (delay_for_attempt policy next_attempt) (datetime_add now))) (\<lambda>due.
        await (with_record (next_record\<lparr>co_phase := CP_RETRY_SCHEDULED, co_current_attempt := attempts,
          co_retry_due_at := Some due, co_retry_state := RS_SCHEDULED, co_wait := closed_wait\<rparr>))
        (\<lambda>r. ret (next_step, r)))
      else
        await (with_record (next_record\<lparr>co_phase := CP_TERMINAL, co_current_attempt := attempts,
          co_retry_due_at := None,
          co_retry_state := (if category_retryable then RS_EXHAUSTED else RS_NOT_RETRYABLE),
          co_wait := closed_wait\<rparr>)) (\<lambda>r. ret (next_step, r)))))"

definition observe_cancelled :: "'m coord_env \<Rightarrow> step \<Rightarrow> step_coordination_record \<Rightarrow> step_coordination_record \<Rightarrow>
    string \<Rightarrow> datetime \<Rightarrow> ('m coord_world, step \<times> step_coordination_record) action" where
  "observe_cancelled env s current next_record key now =
     await (if s_status s \<in> {S_RUNNING, S_WAITING} then move_step env s S_CANCELLED else ret s) (\<lambda>next_step.
     await (pure (close_wait (co_wait current) WR_CANCELLED key now)) (\<lambda>closed_wait.
     await (with_record (next_record\<lparr>co_phase := CP_TERMINAL, co_retry_due_at := None,
       co_retry_state := stopped_retry current RS_CANCELLED, co_wait := closed_wait\<rparr>)) (\<lambda>r. ret (next_step, r))))"

definition observe_outcome :: "'m coord_env \<Rightarrow> run_state \<Rightarrow> string option \<Rightarrow> string option \<Rightarrow> string \<Rightarrow> datetime \<Rightarrow>
    step_coordination_record \<Rightarrow> coordinator_claim \<Rightarrow> ('m coord_world, mutation) action" where
  "observe_outcome env run failure_category observation_key run_id now record claim =
     (let key = or_default observation_key (default_key run_id (rs_status run)) in
      await (fetch_plan env (co_plan_id record)) (\<lambda>state.
      await (pure (runtime_step state (co_step_id record))) (\<lambda>s.
      await (fetch_record env (co_step_id record)) (\<lambda>current.
      if key \<in> set (co_processed_keys current) then ret (co_plan_id current, False)
      else
      await (with_record (current\<lparr>co_processed_keys := co_processed_keys current @ [key],
        co_latest_run_id := Some run_id\<rparr>)) (\<lambda>next_record.
      await (if rs_status run = R_SUCCEEDED then observe_success env s current next_record
             else if rs_status run \<in> {R_FAILED, R_TIMED_OUT}
             then observe_failure env s current next_record run key failure_category now
             else observe_cancelled env s current next_record key now) (\<lambda>(next_step, next_record).
      await (save env next_step next_record (co_revision current) claim now) (\<lambda>_.
      ret (co_plan_id current, True))))))))"

definition observe_run_outcome :: "'m coord_env \<Rightarrow> coordinator_config \<Rightarrow> string \<Rightarrow> string \<Rightarrow> string option \<Rightarrow>
    string option \<Rightarrow> datetime \<Rightarrow> ('m coord_world, mutation) action" where
  "observe_run_outcome env cfg task_id run_id failure_category observation_key now =
     await (get_run env task_id run_id) (\<lambda>run.
     if r_subject_type (rs_run run) \<noteq> ''step'' then raise (contract_error INVALID_REQUEST)
     else if rs_status run \<notin> TERMINAL_RUN_STATUSES then raise (contract_error CONFLICT)
     else
     await (fetch_record env (r_subject_id (rs_run run))) (\<lambda>record.
     if co_task_id record \<noteq> task_id then raise (contract_error CONFLICT)
     else if or_default observation_key (default_key run_id (rs_status run)) \<in> set (co_processed_keys record)
     then ret (co_plan_id record, False)
     else
     await (claim_step env cfg (co_step_id record) now) (\<lambda>claim.
     case claim of None \<Rightarrow> ret (co_plan_id record, False)
     | Some c \<Rightarrow> holding env c
         (observe_outcome env run failure_category observation_key run_id now record c))))"

definition activate_retry :: "'m coord_env \<Rightarrow> coordinator_config \<Rightarrow> step \<Rightarrow> step_coordination_record \<Rightarrow> datetime \<Rightarrow>
    ('m coord_world, bool) action" where
  "activate_retry env cfg s record now =
     (if s_status s \<noteq> S_FAILED then ret False
      else under_claim env cfg (s_id s) now (\<lambda>claim.
      await (fetch_record env (s_id s)) (\<lambda>current.
      await (fetch_step env (s_plan_id s) (s_id s)) (\<lambda>current_step.
      if co_phase current \<noteq> CP_RETRY_SCHEDULED \<or>
         (case co_retry_due_at current of None \<Rightarrow> True | Some due \<Rightarrow> now < due) then ret False
      else
      await (move_step env current_step S_READY) (\<lambda>ready.
      await (with_record (current\<lparr>co_phase := CP_READY, co_retry_due_at := None, co_retry_state := RS_ACTIVE\<rparr>)) (\<lambda>updated.
      await (save env ready updated (co_revision current) claim now) (\<lambda>_. ret True)))))))"

section \<open>Cancellation\<close>

definition cancel_active_run :: "'m coord_env \<Rightarrow> step_coordination_record \<Rightarrow> string \<Rightarrow> ('m coord_world, unit) action" where
  "cancel_active_run env record key =
     (case co_latest_run_id record of
        None \<Rightarrow> ret ()
      | Some run_id \<Rightarrow>
        await (get_run env (co_task_id record) run_id) (\<lambda>run.
        if rs_status run \<in> TERMINAL_RUN_STATUSES then ret ()
        else await (cancel_run env key (co_task_id record) run_id None ''platform-coordinator'') (\<lambda>_. ret ())))"

definition cancel_claimed_step :: "'m coord_env \<Rightarrow> string \<Rightarrow> string \<Rightarrow> string \<Rightarrow> datetime \<Rightarrow> coordinator_claim \<Rightarrow>
    ('m coord_world, unit) action" where
  "cancel_claimed_step env plan_id step_id idempotency_key now claim =
     await (fetch_record env step_id) (\<lambda>current.
     await (fetch_step env plan_id step_id) (\<lambda>current_step.
     await (cancel_active_run env current (idempotency_key @ '':run:'' @ step_id)) (\<lambda>_.
     await (if s_status current_step \<in> {S_PENDING, S_READY, S_RUNNING, S_WAITING}
            then move_step env current_step S_CANCELLED else ret current_step) (\<lambda>next_step.
     await (pure (close_wait (co_wait current) WR_CANCELLED (idempotency_key @ '':wait:'' @ step_id) now)) (\<lambda>closed_wait.
     await (with_record (current\<lparr>co_phase := CP_TERMINAL, co_retry_due_at := None,
       co_retry_state := stopped_retry current RS_CANCELLED, co_wait := closed_wait,
       co_reconciliation := RD_CANONICAL_TERMINAL\<rparr>)) (\<lambda>updated.
     await (save env next_step updated (co_revision current) claim now) (\<lambda>_. ret ())))))))"

definition cancel_plan_step :: "'m coord_env \<Rightarrow> coordinator_config \<Rightarrow> string \<Rightarrow> string \<Rightarrow> datetime \<Rightarrow>
    step_coordination_record \<Rightarrow> ('m coord_world, unit) action" where
  "cancel_plan_step env cfg plan_id idempotency_key now record =
     await (fetch_step env plan_id (co_step_id record)) (\<lambda>s.
     if s_status s \<in> {S_SUCCEEDED, S_SKIPPED, S_CANCELLED} then ret ()
     else
     await (claim_step env cfg (s_id s) now) (\<lambda>claim.
     case claim of None \<Rightarrow> ret ()
     | Some c \<Rightarrow> holding env c (cancel_claimed_step env plan_id (s_id s) idempotency_key now c)))"

definition cancel_plan_steps :: "'m coord_env \<Rightarrow> coordinator_config \<Rightarrow> string \<Rightarrow> string \<Rightarrow> datetime \<Rightarrow>
    ('m coord_world, string) action" where
  "cancel_plan_steps env cfg plan_id idempotency_key now =
     await (pure (guard (\<not> py_blank idempotency_key) ValueError)) (\<lambda>_.
     await (fetch_plan env plan_id) (\<lambda>state.
     await (store_read env (\<lambda>st. list_step_records st plan_id)) (\<lambda>records.
     await (each (cancel_plan_step env cfg plan_id idempotency_key now) records) (\<lambda>_.
     await (get_task env (p_task_id (pl_plan state))) (\<lambda>ts.
     await (if ts_status ts \<noteq> T_CANCELLED
            then await (cancel_task env (idempotency_key @ '':task'') (p_task_id (pl_plan state)) None
              ''platform-coordinator'') (\<lambda>_. ret ())
            else ret ()) (\<lambda>_.
     ret plan_id))))))"

section \<open>Entering and resolving a wait\<close>

definition wait_step_record :: "'m coord_env \<Rightarrow> coordinator_config \<Rightarrow> step_wait \<Rightarrow> datetime \<Rightarrow>
    ('m coord_world, mutation) action" where
  "wait_step_record env cfg wait now =
     await (fetch_plan env (wt_plan_id wait)) (\<lambda>state.
     await (pure (runtime_step state (wt_step_id wait))) (\<lambda>s.
     await (fetch_record env (wt_step_id wait)) (\<lambda>record.
     await (pure (validate_wait_scope wait (pl_plan state) s record)) (\<lambda>_.
     if (case co_wait record of None \<Rightarrow> False | Some x \<Rightarrow> wt_wait_key x = wt_wait_key wait)
     then ret (wt_plan_id wait, False)
     else if (case co_wait record of None \<Rightarrow> False | Some x \<Rightarrow> \<not> wait_resolved x) then raise (contract_error CONFLICT)
     else if s_status s \<noteq> S_RUNNING \<or> co_phase record \<noteq> CP_ATTEMPT_ACTIVE then raise (contract_error CONFLICT)
     else
     await (required_claim env cfg (s_id s) now) (\<lambda>claim.
     await (holding env claim (
       await (move_step env s S_WAITING) (\<lambda>waiting.
       await (with_record (record\<lparr>co_phase := CP_WAITING, co_wait := Some wait\<rparr>)) (\<lambda>updated.
       save env waiting updated (co_revision record) claim now)))) (\<lambda>_.
     ret (wt_plan_id wait, True)))))))"

definition satisfy_wait :: "'m coord_env \<Rightarrow> step \<Rightarrow> step_coordination_record \<Rightarrow>
    ('m coord_world, step \<times> coordination_phase \<times> retry_state) action" where
  \<comment> \<open>the step runs again, unless its run has settled meanwhile\<close>
  "satisfy_wait env s current =
     await (move_step env s S_RUNNING) (\<lambda>next_step.
     case co_latest_run_id current of
       None \<Rightarrow> ret (next_step, CP_ATTEMPT_ACTIVE, co_retry_state current)
     | Some run_id \<Rightarrow>
       await (get_run env (co_task_id current) run_id) (\<lambda>run.
       if rs_status run = R_SUCCEEDED then
         await (move_step env next_step S_SUCCEEDED) (\<lambda>s. ret (s, CP_TERMINAL, finished_retry current RS_COMPLETED))
       else if rs_status run \<in> {R_FAILED, R_TIMED_OUT} then
         await (move_step env next_step S_FAILED) (\<lambda>s. ret (s, CP_TERMINAL, finished_retry current RS_NOT_RETRYABLE))
       else if rs_status run = R_CANCELLED then
         await (move_step env next_step S_CANCELLED) (\<lambda>s. ret (s, CP_TERMINAL, finished_retry current RS_CANCELLED))
       else ret (next_step, CP_ATTEMPT_ACTIVE, co_retry_state current)))"

definition resolve_claimed :: "'m coord_env \<Rightarrow> string \<Rightarrow> wait_resolution \<Rightarrow> string \<Rightarrow> datetime \<Rightarrow> step_wait \<Rightarrow>
    coordinator_claim \<Rightarrow> ('m coord_world, mutation) action" where
  "resolve_claimed env step_id resolution resolution_key now wait claim =
     await (fetch_record env step_id) (\<lambda>current.
     if resolution_key \<in> set (co_processed_keys current) then ret (co_plan_id current, False)
     else
     await (fetch_step env (co_plan_id current) step_id) (\<lambda>s.
     let processed = co_processed_keys current @ [resolution_key] in
     await (pure (close_wait (Some wait) resolution resolution_key now)) (\<lambda>resolved_wait.
     await (case resolution of
         WR_SATISFIED \<Rightarrow>
           await (satisfy_wait env s current) (\<lambda>(next_step, phase, retry).
           await (with_record (current\<lparr>co_phase := phase, co_wait := resolved_wait, co_retry_state := retry,
             co_processed_keys := processed\<rparr>)) (\<lambda>r. ret (next_step, r)))
       | WR_CANCELLED \<Rightarrow>
           await (cancel_active_run env current (''wait:'' @ resolution_key @ '':cancel'')) (\<lambda>_.
           await (move_step env s S_CANCELLED) (\<lambda>next_step.
           await (with_record (current\<lparr>co_phase := CP_TERMINAL, co_wait := resolved_wait, co_retry_due_at := None,
             co_retry_state := stopped_retry current RS_CANCELLED, co_processed_keys := processed\<rparr>))
           (\<lambda>r. ret (next_step, r))))
       | _ \<Rightarrow>
           await (cancel_active_run env current (''wait:'' @ resolution_key @ '':fail'')) (\<lambda>_.
           await (move_step env s S_FAILED) (\<lambda>next_step.
           await (with_record (current\<lparr>co_phase := CP_TERMINAL, co_wait := resolved_wait, co_retry_due_at := None,
             co_retry_state := stopped_retry current RS_NOT_RETRYABLE, co_processed_keys := processed\<rparr>))
           (\<lambda>r. ret (next_step, r))))) (\<lambda>(next_step, updated).
     await (save env next_step updated (co_revision current) claim now) (\<lambda>_.
     ret (co_plan_id current, True))))))"

definition resolve_wait :: "'m coord_env \<Rightarrow> coordinator_config \<Rightarrow> string \<Rightarrow> wait_resolution \<Rightarrow> string \<Rightarrow> datetime \<Rightarrow>
    ('m coord_world, mutation) action" where
  "resolve_wait env cfg step_id resolution resolution_key now =
     await (pure (guard (\<not> py_blank resolution_key) ValueError)) (\<lambda>_.
     await (fetch_record env step_id) (\<lambda>record.
     if resolution_key \<in> set (co_processed_keys record) then ret (co_plan_id record, False)
     else case co_wait record of
       None \<Rightarrow> raise (contract_error CONFLICT)
     | Some wait \<Rightarrow>
       if wait_resolved wait \<or> co_phase record \<noteq> CP_WAITING then raise (contract_error CONFLICT)
       else
       await (required_claim env cfg step_id now) (\<lambda>claim.
       holding env claim (resolve_claimed env step_id resolution resolution_key now wait claim))))"

definition active_wait :: "'m coord_env \<Rightarrow> string \<Rightarrow> string \<Rightarrow> wait_type \<Rightarrow>
    (step_wait \<Rightarrow> ('m coord_world, mutation) action) \<Rightarrow> ('m coord_world, mutation) action" where
  \<comment> \<open>the prologue of every typed signal\<close>
  "active_wait env step_id resolution_key kind f =
     await (fetch_record env step_id) (\<lambda>record.
     if resolution_key \<in> set (co_processed_keys record) then ret (co_plan_id record, False)
     else case co_wait record of
       None \<Rightarrow> raise (contract_error CONFLICT)
     | Some wait \<Rightarrow> if wt_wait_type wait \<noteq> kind then raise (contract_error CONFLICT) else f wait)"

fun approval_resolution :: "approval_outcome \<Rightarrow> wait_resolution" where
  "approval_resolution AO_APPROVED = WR_SATISFIED"
| "approval_resolution AO_REJECTED = WR_REJECTED"
| "approval_resolution AO_EXPIRED = WR_EXPIRED"
| "approval_resolution AO_CANCELLED = WR_CANCELLED"

definition resolve_approval_wait :: "'m coord_env \<Rightarrow> coordinator_config \<Rightarrow> string \<Rightarrow> string \<Rightarrow> string \<Rightarrow> string \<Rightarrow> string \<Rightarrow>
    approval_outcome \<Rightarrow> string \<Rightarrow> owner_ref \<Rightarrow> string option \<Rightarrow> datetime \<Rightarrow> ('m coord_world, mutation) action" where
  "resolve_approval_wait env cfg step_id approval_id subject_type subject_id act outcome resolution_key owner project_id now =
     active_wait env step_id resolution_key WT_APPROVAL (\<lambda>wait.
     if wt_approval_id wait \<noteq> Some approval_id \<or> wt_approval_subject_type wait \<noteq> Some subject_type \<or>
        wt_approval_subject_id wait \<noteq> Some subject_id \<or> wt_approval_action wait \<noteq> Some act
     then raise (contract_error CONFLICT)
     else
     await (pure (require_scope wait owner project_id)) (\<lambda>_.
     resolve_wait env cfg step_id (approval_resolution outcome) resolution_key now))"

definition resolve_event_wait :: "'m coord_env \<Rightarrow> coordinator_config \<Rightarrow> string \<Rightarrow> string \<Rightarrow> string \<Rightarrow> string \<Rightarrow> owner_ref \<Rightarrow>
    string option \<Rightarrow> datetime \<Rightarrow> ('m coord_world, mutation) action" where
  "resolve_event_wait env cfg step_id event_id event_type correlation_key owner project_id now =
     await (pure (guard (\<not> py_blank event_id) ValueError)) (\<lambda>_.
     let resolution_key = ''event:'' @ event_id in
     active_wait env step_id resolution_key WT_EVENT (\<lambda>wait.
     await (pure (require_scope wait owner project_id)) (\<lambda>_.
     if wt_event_type wait \<noteq> Some event_type \<or> wt_correlation_key wait \<noteq> Some correlation_key
     then raise (contract_error CONFLICT)
     else resolve_wait env cfg step_id WR_SATISFIED resolution_key now)))"

definition resolve_external_job_wait :: "'m coord_env \<Rightarrow> coordinator_config \<Rightarrow> string \<Rightarrow> string \<Rightarrow> wait_resolution \<Rightarrow>
    string \<Rightarrow> owner_ref \<Rightarrow> string option \<Rightarrow> datetime \<Rightarrow> ('m coord_world, mutation) action" where
  "resolve_external_job_wait env cfg step_id external_job_ref resolution resolution_key owner project_id now =
     active_wait env step_id resolution_key WT_EXTERNAL_JOB (\<lambda>wait.
     await (pure (require_scope wait owner project_id)) (\<lambda>_.
     if wt_external_job_ref wait \<noteq> Some external_job_ref then raise (contract_error CONFLICT)
     else resolve_wait env cfg step_id resolution resolution_key now))"

section \<open>Lost runs\<close>

definition mark_claimed :: "'m coord_env \<Rightarrow> step_coordination_record \<Rightarrow> string \<Rightarrow> reconciliation_disposition \<Rightarrow> datetime \<Rightarrow>
    coordinator_claim \<Rightarrow> ('m coord_world, unit) action" where
  "mark_claimed env record detail disposition now claim =
     await (fetch_record env (co_step_id record)) (\<lambda>current.
     await (fetch_step env (co_plan_id record) (co_step_id record)) (\<lambda>s.
     await (with_record (current\<lparr>co_phase := CP_INCONSISTENT, co_reconciliation := disposition,
       co_reconciliation_detail := Some detail\<rparr>)) (\<lambda>updated.
     await (save env s updated (co_revision current) claim now) (\<lambda>_. ret ()))))"

definition mark_inconsistent :: "'m coord_env \<Rightarrow> coordinator_config \<Rightarrow> step_coordination_record \<Rightarrow> string \<Rightarrow>
    reconciliation_disposition \<Rightarrow> datetime \<Rightarrow> ('m coord_world, unit) action" where
  "mark_inconsistent env cfg record detail disposition now =
     await (claim_step env cfg (co_step_id record) now) (\<lambda>claim.
     case claim of None \<Rightarrow> ret ()
     | Some c \<Rightarrow> holding env c (mark_claimed env record detail disposition now c))"

end
