(* ===== verification/Coordinator_Runtime.thy ===== *)
theory Coordinator_Runtime
  imports Coordinator_Signals
begin

text \<open>
  The coordinator facade \<open>coordination/plan_step_coordinator.py\<close> with the aggregation of a task
  (\<open>aggregation.py\<close>), the restart reconciliation (\<open>reconciliation.py\<close>) and the operator repair
  (\<open>repair.py\<close>). The loop of \<open>advance\<close> goes on as long as an iteration makes progress, so it is
  given fuel: a result of None says that it was still running. \<open>coordinate\<close> dispatches requests.
\<close>

section \<open>Projection and aggregation\<close>

definition step_projection :: "(string \<times> step_coordination_record) list \<Rightarrow> step \<Rightarrow> py_error + step_coordination_projection" where
  "step_projection records s =
     (case dict_get records (s_id s) of None \<Rightarrow> Inl KeyError
      | Some r \<Rightarrow> Inr
        \<lparr>sj_step_id = s_id s, sj_status = s_status s, sj_phase = co_phase r,
         sj_dependency_ids = co_dependency_ids r, sj_satisfied_dependency_ids = co_satisfied_dependency_ids r,
         sj_latest_run_id = co_latest_run_id r, sj_current_attempt = co_current_attempt r,
         sj_retry_due_at = co_retry_due_at r, sj_wait_type = map_option wt_wait_type (co_wait r),
         sj_wait_deadline_at = Option.bind (co_wait r) wt_deadline_at, sj_reconciliation = co_reconciliation r\<rparr>)"

definition projection_from_state :: "plan_runtime_state \<Rightarrow> (string \<times> step_coordination_record) list \<Rightarrow>
    py_error + plan_coordination_projection" where
  "projection_from_state state records =
     sbind (smap (step_projection records) (pl_steps state)) (\<lambda>steps.
     Inr \<lparr>pn_task_id = p_task_id (pl_plan state), pn_plan_id = p_id (pl_plan state),
          pn_plan_revision = p_revision (pl_plan state), pn_steps = steps\<rparr>)"

definition fetch_snapshot :: "'m coord_env \<Rightarrow> string \<Rightarrow>
    ('m coord_world, plan_runtime_state \<times> step_coordination_record list) action" where
  "fetch_snapshot env plan_id = store_read env (\<lambda>st. get_plan_snapshot st plan_id)"

definition async_projection :: "'m coord_env \<Rightarrow> string \<Rightarrow> ('m coord_world, plan_coordination_projection) action" where
  "async_projection env plan_id =
     await (fetch_snapshot env plan_id) (\<lambda>(state, records).
     pure (projection_from_state state (dict_update [] (map (\<lambda>r. (co_step_id r, r)) records))))"

definition TERMINAL_STEPS :: "step_status set" where
  "TERMINAL_STEPS = {S_SUCCEEDED, S_FAILED, S_SKIPPED, S_CANCELLED}"

definition aggregate_task :: "'m coord_env \<Rightarrow> string \<Rightarrow> ('m coord_world, unit) action" where
  "aggregate_task env plan_id =
     await (fetch_plan env plan_id) (\<lambda>state.
     await (store_read env (\<lambda>st. list_step_records st plan_id)) (\<lambda>records.
     let statuses = map s_status (pl_steps state); task_id = p_task_id (pl_plan state) in
     if length records \<noteq> length (pl_steps state) \<or> list_ex (\<lambda>r. co_phase r \<noteq> CP_TERMINAL) records then ret ()
     else if pl_steps state = [] \<or> list_ex (\<lambda>x. x \<notin> TERMINAL_STEPS) statuses then ret ()
     else
     await (get_task env task_id) (\<lambda>ts.
     if ts_plan_ref ts \<noteq> Some plan_id then ret ()
     else if ts_status ts \<in> {T_SUCCEEDED, T_CANCELLED} then ret ()
     else if S_FAILED \<in> set statuses then
       (if ts_status ts \<in> {T_RUNNING, T_WAITING}
        then await (fail_task env (''coord:'' @ plan_id @ '':aggregate:failed'') task_id
               (Some ''canonical Plan contains a failed Step'') None ''platform-coordinator'') (\<lambda>_. ret ())
        else ret ())
     else if S_CANCELLED \<in> set statuses then
       (if ts_status ts \<in> {T_DRAFT, T_READY, T_RUNNING, T_WAITING}
        then await (cancel_task env (''coord:'' @ plan_id @ '':aggregate:cancelled'') task_id None
               ''platform-coordinator'') (\<lambda>_. ret ())
        else ret ())
     else if ts_status ts = T_RUNNING
     then await (complete_task env (''coord:'' @ plan_id @ '':aggregate:succeeded'') task_id None
            ''platform-coordinator'') (\<lambda>_. ret ())
     else ret ())))"

section \<open>Advance\<close>

definition capture :: "('w, 'a) action \<Rightarrow> ('w, py_error + 'a) action" where
  "capture m = (\<lambda>w. case m w of (r, w') \<Rightarrow> (Inr r, w'))"

definition gather :: "('a \<Rightarrow> ('w, 'b) action) \<Rightarrow> 'a list \<Rightarrow> ('w, 'b list) action" where
  \<comment> \<open>\<open>asyncio.gather\<close>: an exception does not stop the others; their overlap is interference\<close>
  "gather f xs = await (each (\<lambda>x. capture (f x)) xs) (\<lambda>rs. pure (smap (\<lambda>r. r) rs))"

definition keyed_steps :: "plan_runtime_state \<Rightarrow> (string \<times> step) list" where
  "keyed_steps state = map (\<lambda>s. (s_id s, s)) (pl_steps state)"

definition barrier_step :: "'m coord_env \<Rightarrow> coordinator_config \<Rightarrow> (string \<times> step) list \<Rightarrow> datetime \<Rightarrow>
    step_coordination_record \<Rightarrow> ('m coord_world, bool) action" where
  "barrier_step env cfg by_id now record =
     (case dict_get by_id (co_step_id record) of
        None \<Rightarrow> raise KeyError
      | Some s \<Rightarrow>
        if co_phase record = CP_RETRY_SCHEDULED then
          (case co_retry_due_at record of
             None \<Rightarrow> ret False
           | Some due \<Rightarrow> if due \<le> now then activate_retry env cfg s record now else ret False)
        else if co_phase record = CP_BLOCKED then refresh_dependencies env cfg s record by_id now
        else ret False)"

definition dispatch_step :: "'m coord_env \<Rightarrow> coordinator_config \<Rightarrow> (string \<times> step) list \<Rightarrow> datetime \<Rightarrow>
    step_coordination_record \<Rightarrow> ('m coord_world, bool) action" where
  "dispatch_step env cfg by_id now record =
     (case dict_get by_id (co_step_id record) of
        None \<Rightarrow> raise KeyError | Some s \<Rightarrow> start_attempt env cfg s record now)"

definition advance_once :: "'m coord_env \<Rightarrow> coordinator_config \<Rightarrow> string \<Rightarrow> datetime \<Rightarrow> ('m coord_world, bool) action" where
  \<comment> \<open>one iteration of the loop: whether it made progress\<close>
  "advance_once env cfg plan_id now =
     await (fetch_snapshot env plan_id) (\<lambda>(state, records).
     await (each (barrier_step env cfg (keyed_steps state) now) records) (\<lambda>moved.
     await (fetch_snapshot env plan_id) (\<lambda>(state, records).
     await (gather (dispatch_step env cfg (keyed_steps state) now) (filter (\<lambda>r. co_phase r = CP_READY) records)) (\<lambda>started.
     ret (list_ex (\<lambda>b. b) moved \<or> list_ex (\<lambda>b. b) started)))))"

fun advance_loop :: "'m coord_env \<Rightarrow> coordinator_config \<Rightarrow> nat \<Rightarrow> string \<Rightarrow> datetime \<Rightarrow> ('m coord_world, bool) action" where
  "advance_loop env cfg 0 plan_id now = ret False"
| "advance_loop env cfg (Suc fuel) plan_id now =
     await (advance_once env cfg plan_id now) (\<lambda>made_progress.
     if made_progress then advance_loop env cfg fuel plan_id now else ret True)"

definition advance :: "'m coord_env \<Rightarrow> coordinator_config \<Rightarrow> nat \<Rightarrow> string \<Rightarrow> datetime option \<Rightarrow>
    ('m coord_world, plan_coordination_projection option) action" where
  "advance env cfg fuel plan_id now =
     await (coordinator_now env now) (\<lambda>current_time.
     await (advance_loop env cfg fuel plan_id current_time) (\<lambda>finished.
     if \<not> finished then ret None
     else
     await (aggregate_task env plan_id) (\<lambda>_.
     await (async_projection env plan_id) (\<lambda>p. ret (Some p)))))"

definition and_then :: "('w, 'a option) action \<Rightarrow> ('a \<Rightarrow> ('w, 'b option) action) \<Rightarrow> ('w, 'b option) action" where
  "and_then m f = await m (\<lambda>r. case r of None \<Rightarrow> ret None | Some x \<Rightarrow> f x)"

definition projected :: "'m coord_env \<Rightarrow> string \<Rightarrow> ('m coord_world, plan_coordination_projection option) action" where
  "projected env plan_id = await (async_projection env plan_id) (\<lambda>p. ret (Some p))"

definition progress :: "'m coord_env \<Rightarrow> coordinator_config \<Rightarrow> nat \<Rightarrow> datetime \<Rightarrow> mutation \<Rightarrow>
    ('m coord_world, plan_coordination_projection option) action" where
  \<comment> \<open>a plan that changed is advanced before it is projected\<close>
  "progress env cfg fuel now result = (case result of (plan_id, changed) \<Rightarrow>
     if changed then and_then (advance env cfg fuel plan_id (Some now)) (\<lambda>_. projected env plan_id)
     else projected env plan_id)"

section \<open>Public operations\<close>

definition register_plan :: "'m coord_env \<Rightarrow> coordinator_config \<Rightarrow> nat \<Rightarrow> plan \<Rightarrow> step list \<Rightarrow> step_retry_policy dict \<Rightarrow>
    predecessor_failure_policy \<Rightarrow> ('m coord_world, plan_coordination_projection option) action" where
  "register_plan env cfg fuel plan steps policies failure_policy =
     await (register env plan steps policies failure_policy) (\<lambda>_.
     and_then (advance env cfg fuel (p_id plan) None) (\<lambda>_. projected env (p_id plan)))"

definition observe_run :: "'m coord_env \<Rightarrow> coordinator_config \<Rightarrow> nat \<Rightarrow> string \<Rightarrow> string \<Rightarrow> string option \<Rightarrow> string option \<Rightarrow>
    datetime option \<Rightarrow> ('m coord_world, plan_coordination_projection option) action" where
  "observe_run env cfg fuel task_id run_id failure_category observation_key now =
     await (coordinator_now env now) (\<lambda>t.
     await (observe_run_outcome env cfg task_id run_id failure_category observation_key t) (progress env cfg fuel t))"

definition wait_step :: "'m coord_env \<Rightarrow> coordinator_config \<Rightarrow> step_wait \<Rightarrow> datetime option \<Rightarrow>
    ('m coord_world, plan_coordination_projection option) action" where
  "wait_step env cfg wait now =
     await (coordinator_now env now) (\<lambda>t.
     await (wait_step_record env cfg wait t) (\<lambda>(plan_id, _). projected env plan_id))"

definition resolve_approval :: "'m coord_env \<Rightarrow> coordinator_config \<Rightarrow> nat \<Rightarrow> string \<Rightarrow> string \<Rightarrow> string \<Rightarrow> string \<Rightarrow> string \<Rightarrow>
    approval_outcome \<Rightarrow> string \<Rightarrow> owner_ref \<Rightarrow> string option \<Rightarrow> datetime option \<Rightarrow>
    ('m coord_world, plan_coordination_projection option) action" where
  "resolve_approval env cfg fuel step_id approval_id subject_type subject_id act outcome resolution_key owner project_id now =
     await (coordinator_now env now) (\<lambda>t.
     await (resolve_approval_wait env cfg step_id approval_id subject_type subject_id act outcome resolution_key owner
       project_id t) (progress env cfg fuel t))"

definition resolve_event :: "'m coord_env \<Rightarrow> coordinator_config \<Rightarrow> nat \<Rightarrow> string \<Rightarrow> string \<Rightarrow> string \<Rightarrow> string \<Rightarrow> owner_ref \<Rightarrow>
    string option \<Rightarrow> datetime option \<Rightarrow> ('m coord_world, plan_coordination_projection option) action" where
  "resolve_event env cfg fuel step_id event_id event_type correlation_key owner project_id now =
     await (coordinator_now env now) (\<lambda>t.
     await (resolve_event_wait env cfg step_id event_id event_type correlation_key owner project_id t)
       (progress env cfg fuel t))"

definition resolve_external_job :: "'m coord_env \<Rightarrow> coordinator_config \<Rightarrow> nat \<Rightarrow> string \<Rightarrow> string \<Rightarrow> wait_resolution \<Rightarrow> string \<Rightarrow>
    owner_ref \<Rightarrow> string option \<Rightarrow> datetime option \<Rightarrow> ('m coord_world, plan_coordination_projection option) action" where
  "resolve_external_job env cfg fuel step_id external_job_ref resolution resolution_key owner project_id now =
     await (coordinator_now env now) (\<lambda>t.
     await (resolve_external_job_wait env cfg step_id external_job_ref resolution resolution_key owner project_id t)
       (progress env cfg fuel t))"

definition cancel_plan :: "'m coord_env \<Rightarrow> coordinator_config \<Rightarrow> string \<Rightarrow> string \<Rightarrow> datetime option \<Rightarrow>
    ('m coord_world, plan_coordination_projection option) action" where
  "cancel_plan env cfg plan_id idempotency_key now =
     await (coordinator_now env now) (\<lambda>t.
     await (cancel_plan_steps env cfg plan_id idempotency_key t) (projected env))"

section \<open>Due work\<close>

fun each_opt :: "('a \<Rightarrow> ('w, 'b option) action) \<Rightarrow> 'a list \<Rightarrow> ('w, 'b list option) action" where
  "each_opt f [] = ret (Some [])"
| "each_opt f (x # xs) = and_then (f x) (\<lambda>y. and_then (each_opt f xs) (\<lambda>ys. ret (Some (y # ys))))"

datatype due_work = Nothing_Due | Wait_Resolved | Retry_Due

definition due_record :: "'m coord_env \<Rightarrow> coordinator_config \<Rightarrow> nat \<Rightarrow> datetime \<Rightarrow> step_coordination_record \<Rightarrow>
    ('m coord_world, due_work option) action" where
  "due_record env cfg fuel now record =
     (case co_wait record of
        Some wait \<Rightarrow>
          if co_phase record = CP_WAITING \<and> wt_wait_type wait = WT_DEADLINE \<and>
             (case wt_deadline_at wait of None \<Rightarrow> False | Some d \<Rightarrow> d \<le> now)
          then await (resolve_wait env cfg (co_step_id record) WR_SATISFIED (''deadline:'' @ wt_wait_key wait) now) (\<lambda>result.
               and_then (progress env cfg fuel now result) (\<lambda>_. ret (Some Wait_Resolved)))
          else if co_phase record = CP_RETRY_SCHEDULED \<and> (case co_retry_due_at record of None \<Rightarrow> False | Some d \<Rightarrow> d \<le> now)
          then ret (Some Retry_Due) else ret (Some Nothing_Due)
      | None \<Rightarrow>
          if co_phase record = CP_RETRY_SCHEDULED \<and> (case co_retry_due_at record of None \<Rightarrow> False | Some d \<Rightarrow> d \<le> now)
          then ret (Some Retry_Due) else ret (Some Nothing_Due))"

definition due_plan :: "'m coord_env \<Rightarrow> coordinator_config \<Rightarrow> nat \<Rightarrow> datetime \<Rightarrow> plan_runtime_state \<Rightarrow>
    ('m coord_world, (string \<times> due_work list) option) action" where
  "due_plan env cfg fuel now state =
     (let plan_id = p_id (pl_plan state) in
      await (store_read env (\<lambda>st. list_step_records st plan_id)) (\<lambda>records.
      and_then (each_opt (due_record env cfg fuel now) records) (\<lambda>works. ret (Some (plan_id, works)))))"

definition process_due :: "'m coord_env \<Rightarrow> coordinator_config \<Rightarrow> nat \<Rightarrow> datetime option \<Rightarrow>
    ('m coord_world, plan_coordination_projection list option) action" where
  "process_due env cfg fuel now =
     await (coordinator_now env now) (\<lambda>t.
     await (store_read env (\<lambda>st. Inr (list_active_plans st))) (\<lambda>plans.
     and_then (each_opt (due_plan env cfg fuel t) plans) (\<lambda>works.
     let retry_plans = sort (remdups (map fst (filter (\<lambda>(_, ws). Retry_Due \<in> set ws) works)));
         changed = sort (remdups (map fst (filter (\<lambda>(_, ws). Wait_Resolved \<in> set ws) works) @ retry_plans)) in
     and_then (each_opt (\<lambda>plan_id. advance env cfg fuel plan_id (Some t)) retry_plans) (\<lambda>_.
     each_opt (projected env) changed))))"

section \<open>Reconciliation\<close>

definition reconcile_record :: "'m coord_env \<Rightarrow> coordinator_config \<Rightarrow> nat \<Rightarrow> datetime \<Rightarrow> step_coordination_record \<Rightarrow>
    ('m coord_world, unit option) action" where
  "reconcile_record env cfg fuel now record =
     (if co_phase record \<noteq> CP_ATTEMPT_ACTIVE then ret (Some ())
      else case co_latest_run_id record of
        None \<Rightarrow> await (mark_inconsistent env cfg record ''active Step has no canonical Run reference''
                  RD_MISSING_CANONICAL_RUN now) (\<lambda>_. ret (Some ()))
      | Some run_id \<Rightarrow>
        on_not_found (get_run env (co_task_id record) run_id)
          (\<lambda>run.
          if rs_status run \<in> TERMINAL_RUN_STATUSES then
            and_then (observe_run env cfg fuel (co_task_id record) run_id None
              (Some (''reconcile:'' @ run_id @ '':'' @ run_status_value (rs_status run))) (Some now)) (\<lambda>_. ret (Some ()))
          else if rs_status run = R_QUEUED \<and> \<not> rs_recovery_required run then
            await (start_run env (start_key record (r_attempt (rs_run run))) (co_task_id record) (rs_run_id run) None
              ''platform-coordinator'') (\<lambda>_. ret (Some ()))
          else ret (Some ()))
          (await (mark_inconsistent env cfg record ''referenced canonical Run is missing''
             RD_MISSING_CANONICAL_RUN now) (\<lambda>_. ret (Some ()))))"

definition reconcile_plan :: "'m coord_env \<Rightarrow> coordinator_config \<Rightarrow> nat \<Rightarrow> string \<Rightarrow> datetime option \<Rightarrow>
    ('m coord_world, plan_coordination_projection option) action" where
  "reconcile_plan env cfg fuel plan_id now =
     await (coordinator_now env now) (\<lambda>t.
     await (fetch_plan env plan_id) (\<lambda>state.
     await (recover_task env (p_task_id (pl_plan state))) (\<lambda>_.
     await (store_read env (\<lambda>st. list_step_records st plan_id)) (\<lambda>records.
     and_then (each_opt (reconcile_record env cfg fuel t) records) (\<lambda>_.
     and_then (process_due env cfg fuel (Some t)) (\<lambda>_.
     and_then (advance env cfg fuel plan_id (Some t)) (\<lambda>_.
     projected env plan_id)))))))"

definition reconcile_all :: "'m coord_env \<Rightarrow> coordinator_config \<Rightarrow> nat \<Rightarrow> datetime option \<Rightarrow>
    ('m coord_world, plan_coordination_projection list option) action" where
  "reconcile_all env cfg fuel now =
     await (store_read env (\<lambda>st. Inr (list_active_plans st))) (\<lambda>plans.
     each_opt (\<lambda>state. reconcile_plan env cfg fuel (p_id (pl_plan state)) now) plans)"

section \<open>Operator repair\<close>

datatype repair_action = Cancel_Missing_Run | Acknowledge_Canonical_Terminal

fun repair_action_value :: "repair_action \<Rightarrow> string" where
  "repair_action_value Cancel_Missing_Run = ''cancel_missing_run''"
| "repair_action_value Acknowledge_Canonical_Terminal = ''acknowledge_canonical_terminal''"

definition require_repairable :: "step_coordination_record \<Rightarrow> int \<Rightarrow> py_error + unit" where
  "require_repairable r expected_revision =
     sbind (guard (co_phase r = CP_INCONSISTENT) (contract_error CONFLICT)) (\<lambda>_.
     guard (co_revision r = expected_revision) (ContractError CONFLICT False
       [(''expected_revision'', JInt expected_revision), (''current_revision'', JInt (co_revision r))]))"

definition repaired_step :: "'m coord_env \<Rightarrow> repair_action \<Rightarrow> step_coordination_record \<Rightarrow> step \<Rightarrow>
    ('m coord_world, step) action" where
  "repaired_step env act current s =
     (case act of
        Cancel_Missing_Run \<Rightarrow>
          if co_reconciliation current \<noteq> RD_MISSING_CANONICAL_RUN then raise (contract_error CONFLICT)
          else if s_status s \<in> TERMINAL_STEPS then raise (contract_error CONFLICT)
          else
          await (case co_latest_run_id current of
              None \<Rightarrow> ret ()
            | Some run_id \<Rightarrow> on_not_found (get_run env (co_task_id current) run_id)
                (\<lambda>_. raise (contract_error CONFLICT)) (ret ())) (\<lambda>_.
          move_step env s S_CANCELLED)
      | Acknowledge_Canonical_Terminal \<Rightarrow>
          if s_status s \<notin> TERMINAL_STEPS then raise (contract_error CONFLICT)
          else
          await (case co_latest_run_id current of
              None \<Rightarrow> ret ()
            | Some run_id \<Rightarrow> on_not_found (get_run env (co_task_id current) run_id)
                (\<lambda>run. if rs_status run \<notin> TERMINAL_RUN_STATUSES then raise (contract_error CONFLICT) else ret ())
                (raise (contract_error CONFLICT))) (\<lambda>_.
          ret s))"

definition repair_claimed :: "'m coord_env \<Rightarrow> string \<Rightarrow> string \<Rightarrow> repair_action \<Rightarrow> int \<Rightarrow> string \<Rightarrow> datetime \<Rightarrow>
    coordinator_claim \<Rightarrow> ('m coord_world, plan_coordination_projection option) action" where
  \<comment> \<open>the projection of a repair that was already applied, None after a new one\<close>
  "repair_claimed env plan_id step_id act expected_revision repair_key now claim =
     await (fetch_record env step_id) (\<lambda>current.
     if repair_key \<in> set (co_processed_keys current) then projected env plan_id
     else
     await (pure (require_repairable current expected_revision)) (\<lambda>_.
     await (fetch_step env plan_id step_id) (\<lambda>s.
     await (repaired_step env act current s) (\<lambda>next_step.
     let retained_wait = (case co_wait current of None \<Rightarrow> None
       | Some x \<Rightarrow> if wait_resolved x then Some x else None) in
     await (with_record (current\<lparr>co_phase := CP_TERMINAL, co_retry_due_at := None,
       co_retry_state := stopped_retry current RS_CANCELLED, co_wait := retained_wait,
       co_processed_keys := co_processed_keys current @ [repair_key],
       co_reconciliation := RD_CANONICAL_TERMINAL,
       co_reconciliation_detail := Some (''operator repair applied: '' @ repair_action_value act)\<rparr>)) (\<lambda>updated.
     await (save env next_step updated (co_revision current) claim now) (\<lambda>_. ret None))))))"

definition repair_step :: "'m coord_env \<Rightarrow> coordinator_config \<Rightarrow> nat \<Rightarrow> string \<Rightarrow> string \<Rightarrow> repair_action \<Rightarrow> int \<Rightarrow> string \<Rightarrow>
    datetime option \<Rightarrow> ('m coord_world, plan_coordination_projection option) action" where
  "repair_step env cfg fuel plan_id step_id act expected_revision idempotency_key now =
     await (pure (guard (1 \<le> expected_revision) (contract_error INVALID_REQUEST))) (\<lambda>_.
     await (pure (guard (\<not> py_blank idempotency_key) (contract_error INVALID_REQUEST))) (\<lambda>_.
     await (coordinator_now env now) (\<lambda>t.
     await (fetch_record env step_id) (\<lambda>record.
     let repair_key = ''repair:'' @ idempotency_key in
     if co_plan_id record \<noteq> plan_id then raise (contract_error NOT_FOUND)
     else if repair_key \<in> set (co_processed_keys record) then projected env plan_id
     else
     await (pure (require_repairable record expected_revision)) (\<lambda>_.
     await (store_call env (draw_claim env (\<lambda>claim_id.
       on_store (acquire_claim claim_id step_id (cc_coordinator_id cfg) (cc_claim_ttl cfg) t)))) (\<lambda>claim.
     case claim of None \<Rightarrow> raise (ContractError CONFLICT False [(''step_id'', JStr step_id)])
     | Some c \<Rightarrow>
       await (holding env c (repair_claimed env plan_id step_id act expected_revision repair_key t c)) (\<lambda>replayed.
       case replayed of Some p \<Rightarrow> ret (Some p)
       | None \<Rightarrow> and_then (advance env cfg fuel plan_id (Some t)) (\<lambda>_. projected env plan_id))))))))"

section \<open>Requests\<close>

datatype coordinator_command =
    Register_Plan plan "step list" "step_retry_policy dict" predecessor_failure_policy
  | Advance_Plan string "datetime option"
  | Observe_Run string string "string option" "string option" "datetime option"
  | Wait_Step step_wait "datetime option"
  | Resolve_Approval string string string string string approval_outcome string owner_ref "string option" "datetime option"
  | Resolve_Event string string string string owner_ref "string option" "datetime option"
  | Resolve_External_Job string string wait_resolution string owner_ref "string option" "datetime option"
  | Process_Due "datetime option"
  | Cancel_Plan string string "datetime option"
  | Reconcile_Plan string "datetime option"
  | Reconcile_All "datetime option"
  | Repair_Step string string repair_action int string "datetime option"

definition listed :: "('w, 'a option) action \<Rightarrow> ('w, 'a list option) action" where
  "listed m = and_then m (\<lambda>x. ret (Some [x]))"

fun coordinate :: "'m coord_env \<Rightarrow> coordinator_config \<Rightarrow> nat \<Rightarrow> coordinator_command \<Rightarrow>
    ('m coord_world, plan_coordination_projection list option) action" where
  "coordinate env cfg fuel (Register_Plan plan steps policies failure_policy) =
     listed (register_plan env cfg fuel plan steps policies failure_policy)"
| "coordinate env cfg fuel (Advance_Plan plan_id now) = listed (advance env cfg fuel plan_id now)"
| "coordinate env cfg fuel (Observe_Run task_id run_id failure_category observation_key now) =
     listed (observe_run env cfg fuel task_id run_id failure_category observation_key now)"
| "coordinate env cfg fuel (Wait_Step wait now) = listed (wait_step env cfg wait now)"
| "coordinate env cfg fuel (Resolve_Approval step_id approval_id subject_type subject_id act outcome resolution_key owner
     project_id now) =
     listed (resolve_approval env cfg fuel step_id approval_id subject_type subject_id act outcome resolution_key owner
       project_id now)"
| "coordinate env cfg fuel (Resolve_Event step_id event_id event_type correlation_key owner project_id now) =
     listed (resolve_event env cfg fuel step_id event_id event_type correlation_key owner project_id now)"
| "coordinate env cfg fuel (Resolve_External_Job step_id external_job_ref resolution resolution_key owner project_id now) =
     listed (resolve_external_job env cfg fuel step_id external_job_ref resolution resolution_key owner project_id now)"
| "coordinate env cfg fuel (Process_Due now) = process_due env cfg fuel now"
| "coordinate env cfg fuel (Cancel_Plan plan_id idempotency_key now) = listed (cancel_plan env cfg plan_id idempotency_key now)"
| "coordinate env cfg fuel (Reconcile_Plan plan_id now) = listed (reconcile_plan env cfg fuel plan_id now)"
| "coordinate env cfg fuel (Reconcile_All now) = reconcile_all env cfg fuel now"
| "coordinate env cfg fuel (Repair_Step plan_id step_id act expected_revision idempotency_key now) =
     listed (repair_step env cfg fuel plan_id step_id act expected_revision idempotency_key now)"

fun coordinates :: "'m coord_env \<Rightarrow> coordinator_config \<Rightarrow> nat \<Rightarrow> coordinator_command list \<Rightarrow> 'm coord_world \<Rightarrow> 'm coord_world" where
  "coordinates env cfg fuel [] w = w"
| "coordinates env cfg fuel (c # cs) w = coordinates env cfg fuel cs (snd (coordinate env cfg fuel c w))"

end
