(* ===== verification/Kernel_Frame.thy ===== *)
theory Kernel_Frame
  imports Kernel_Task_Commands
begin

text \<open>
  What the kernel does to the state its collaborators keep: nothing by itself. Whatever invariant and
  whatever relation the collaborators and the interference at each await maintain on that state, every
  command of the kernel maintains too. The locale is the interface a subsystem uses that keeps its own
  state in the world and calls the kernel.
\<close>

locale kernel_frame = rely_guarantee Inv G for Inv :: "'x world \<Rightarrow> bool" and G +
  fixes env :: "'x kernel_env"
  assumes own_step: "Inv w \<Longrightarrow> w_ext w' = w_ext w \<Longrightarrow> w_draws w \<le> w_draws w' \<Longrightarrow> Inv w' \<and> G w w'"
    and suspend_safe: "safe (\<lambda>_. True) (env_suspend env) (\<lambda>_ _. True)"
    and start_safe: "safe (\<lambda>_. True) (env_start env q) (\<lambda>_ _. True)"
    and get_safe: "safe (\<lambda>_. True) (env_get env rid cx) (\<lambda>_ _. True)"
    and cancel_safe: "safe (\<lambda>_. True) (env_cancel env rid cx) (\<lambda>_ _. True)"
    and sink_safe: "env_event_sink env = Some f \<Longrightarrow> safe (\<lambda>_. True) (f e) (\<lambda>_ _. True)"
    and assess_safe: "env_assess env = Some g \<Longrightarrow> safe (\<lambda>_. True) (g t) (\<lambda>_ _. True)"
begin

abbreviation keeps :: "('x world, 'a) action \<Rightarrow> bool" where
  "keeps m \<equiv> safe (\<lambda>_. True) m (\<lambda>_ _. True)"

lemma keeps_ret: "keeps (ret x)" "keeps (raise e)" "keeps (pure r)"
  by (simp_all add: safe_ret safe_raise safe_pure)

lemma keeps_await: "keeps m \<Longrightarrow> (\<And>x. keeps (f x)) \<Longrightarrow> keeps (await m f)"
  by (rule safe_await)

lemma keeps_attempt: "keeps m \<Longrightarrow> (\<And>e. keeps (h e)) \<Longrightarrow> keeps (attempt m h)"
  by (rule safe_attempt) simp_all

lemma keeps_if: "(b \<Longrightarrow> keeps m) \<Longrightarrow> (\<not> b \<Longrightarrow> keeps n) \<Longrightarrow> keeps (if b then m else n)"
  by simp

lemma keeps_option: "(v = None \<Longrightarrow> keeps m) \<Longrightarrow> (\<And>x. v = Some x \<Longrightarrow> keeps (f x)) \<Longrightarrow> keeps (case v of None \<Rightarrow> m | Some x \<Rightarrow> f x)"
  by (cases v) simp_all

lemma keeps_prod: "(\<And>a b. keeps (f a b)) \<Longrightarrow> keeps (case p of (a, b) \<Rightarrow> f a b)"
  by (cases p) simp

lemma keeps_each: "(\<And>x. keeps (f x)) \<Longrightarrow> keeps (each f xs)"
  by (induction xs) (auto intro!: keeps_ret keeps_await)

lemma keeps_own:
  assumes "\<And>w. w_ext (snd (m w)) = w_ext w \<and> w_draws w \<le> w_draws (snd (m w))"
  shows "keeps m"
proof (rule safeI)
  fix w r w' assume "Inv w" "m w = (r, w')"
  with own_step[of w w'] assms[of w] show "Inv w' \<and> G w w' \<and> (\<forall>x. r = Inr x \<longrightarrow> True)" by simp
qed

lemma keeps_basic: "keeps (gets p)" "keeps (new_id env pfx)" "keeps (utc_now env)" "keeps (on_repo h)"
  by (rule keeps_own, simp add: gets_def new_id_def utc_now_def on_repo_def split: prod.splits)+

lemma keeps_on_not_found:
  assumes "keeps m" "\<And>x. keeps (f x)" "keeps h"
  shows "keeps (on_not_found m f h)"
proof (rule safeI)
  fix w r w' assume *: "Inv w" "on_not_found m f h w = (r, w')"
  obtain r1 w1 where m: "m w = (r1, w1)" by (cases "m w")
  note 1 = safeD(1,2)[OF assms(1) *(1) TrueI m]
  show "Inv w' \<and> G w w' \<and> (\<forall>x. r = Inr x \<longrightarrow> True)"
  proof -
    consider "w1 = w'" | x where "f x w1 = (r, w')" | "h w1 = (r, w')"
      using *(2) m by (auto simp: on_not_found_def split: sum.splits py_error.splits error_code.splits)
    then have "Inv w' \<and> G w1 w'"
      by cases (use 1 G_refl safeD(1,2)[OF assms(2) 1(1) TrueI] safeD(1,2)[OF assms(3) 1(1) TrueI] in blast)+
    with 1 G_trans show ?thesis by blast
  qed
qed

lemmas keeps_rules = keeps_ret keeps_basic suspend_safe start_safe get_safe cancel_safe keeps_await keeps_attempt keeps_if
  keeps_option keeps_prod keeps_each keeps_on_not_found

section \<open>Queries and commits\<close>

lemma keeps_repo: "keeps (repo_read env s)" "keeps (repo_find env sc k)" "keeps (repo_list env)" "keeps (repo_commit env s n es c)"
  unfolding repo_read_def repo_find_def repo_list_def repo_commit_def by (intro keeps_rules)+

lemma keeps_get: "keeps (get_task env t)" "keeps (get_run env t r)"
  unfolding get_task_def get_run_def by (intro keeps_rules keeps_repo)+

lemma keeps_first_run: "keeps (first_run env t p rids)"
  by (induction rids) (auto intro!: keeps_rules keeps_get)

lemma keeps_runs: "keeps (active_runs env ts)" "keeps (active_run_for_subject env ts st sid)" "keeps (next_attempt env ts st sid)"
  "keeps (latest_active_run env ts)"
  unfolding active_runs_def active_run_for_subject_def next_attempt_def latest_active_run_def
  by (intro keeps_rules keeps_get keeps_first_run)+

lemma keeps_command: "keeps (existing_command env s k x)" "keeps (task_command env t k x)"
  unfolding task_command_def existing_command_def by (intro keeps_rules keeps_repo)+

lemma keeps_build: "keeps (build_events env ts c a src specs)"
  unfolding build_events_def build_event_def make_event_def by (intro keeps_rules)

lemma keeps_mirror: "keeps (mirror env es)"
  unfolding mirror_def by (intro keeps_rules sink_safe)

lemma keeps_commit: "keeps (commit_task_command env ts k x specs rid a src)" "keeps (append_system_events env ts c a src specs)"
  unfolding commit_task_command_def append_system_events_def
  by (intro keeps_rules keeps_command keeps_build keeps_repo keeps_mirror)+

lemma keeps_status: "keeps (task_status_command env k x ts specs a src)"
  unfolding task_status_command_def by (intro keeps_rules keeps_commit keeps_get)

section \<open>Lifecycle\<close>

lemma keeps_completion: "keeps (completion_task_spec env t)"
  unfolding completion_task_spec_def by (intro keeps_rules assess_safe)

lemma keeps_terminal: "keeps (terminal_specs env ts rs g out am q)"
  unfolding terminal_specs_def Let_def by (intro keeps_rules keeps_completion)

lemma keeps_apply: "keeps (apply_terminal_command env ts rs g out k x a src am q)"
  "keeps (apply_terminal_system env ts rs g out c src am)"
  unfolding apply_terminal_command_def apply_terminal_system_def by (intro keeps_rules keeps_terminal keeps_commit)+

lemma keeps_recovery_marks: "keeps (mark_recovery_required env t r reason c)" "keeps (clear_recovery_if_needed env t r c src)"
  unfolding mark_recovery_required_def clear_recovery_if_needed_def by (intro keeps_rules keeps_get keeps_commit)+

lemma keeps_snapshot_system: "keeps (apply_snapshot_system env t r sn c src)"
  unfolding apply_snapshot_system_def by (intro keeps_rules keeps_get keeps_commit keeps_apply keeps_recovery_marks)

lemma keeps_dispatch: "keeps (dispatch_started_run env t r c a src)"
  unfolding dispatch_started_run_def project_running_def by (intro keeps_rules keeps_get keeps_commit)

lemma keeps_reconcile: "keeps (reconcile_started_run env t r c)"
  unfolding reconcile_started_run_def
  by (intro keeps_rules keeps_get keeps_snapshot_system keeps_dispatch keeps_recovery_marks)

lemma keeps_finish_cancel: "keeps (finish_cancel env t r c)"
  unfolding finish_cancel_def
  by (intro keeps_rules keeps_get keeps_commit keeps_apply keeps_snapshot_system keeps_recovery_marks)

section \<open>Commands\<close>

lemma keeps_create_run: "keeps (create_run env k t st sid a src)"
  unfolding create_run_def validate_new_run_def Let_def
  by (intro keeps_rules keeps_get keeps_command keeps_runs keeps_commit)

lemma keeps_start_run: "keeps (start_run env k t r a src)"
  unfolding start_run_def
  by (intro keeps_rules keeps_get keeps_command keeps_runs keeps_commit keeps_dispatch keeps_reconcile)

lemma keeps_cancel_run: "keeps (cancel_run env k t r a src)"
  unfolding cancel_run_def by (intro keeps_rules keeps_get keeps_command keeps_commit keeps_apply keeps_finish_cancel)

lemma keeps_complete_task: "keeps (complete_task env k t a src)"
  unfolding complete_task_def Let_def
  by (intro keeps_rules keeps_get keeps_command keeps_runs keeps_completion keeps_status)

lemma keeps_fail_task: "keeps (fail_task env k t reason a src)"
  unfolding fail_task_def by (intro keeps_rules keeps_get keeps_command keeps_runs keeps_status)

lemma keeps_cancel_task: "keeps (cancel_task env k t a src)"
  unfolding cancel_task_def cancel_active_runs_def
  by (intro keeps_rules keeps_get keeps_command keeps_runs keeps_cancel_run keeps_status)

lemma keeps_recover_task: "keeps (recover_task env t)"
  unfolding recover_task_def recover_run_def Let_def
  by (intro keeps_rules keeps_get keeps_snapshot_system keeps_dispatch keeps_recovery_marks)

lemmas keeps_kernel = keeps_get keeps_create_run keeps_start_run keeps_cancel_run keeps_complete_task keeps_fail_task
  keeps_cancel_task keeps_recover_task

end

end
