(* ===== verification/Coordinator_Safe.thy ===== *)
theory Coordinator_Safe
  imports Coordinator_Evolution Coordinator_Runtime Kernel_Frame
begin

text \<open>
  The coordinator under interference. Between any two awaits other coordinators and other requests may
  change the store, as long as they keep it valid, only let it grow, and do not save a step while a
  claim drawn by this coroutine stands on it. Under that rely every operation keeps the store valid and
  only lets it grow.
\<close>

section \<open>Invariant, guarantee and rely\<close>

definition coord_evolves :: "'m coord_world \<Rightarrow> 'm coord_world \<Rightarrow> bool" where
  "coord_evolves w w' \<longleftrightarrow> store_grows (w_ext w) (w_ext w')"

definition our_claim :: "'m coord_env \<Rightarrow> coordinator_claim \<Rightarrow> bool" where
  "our_claim env c \<longleftrightarrow> (\<exists>j. cl_claim_id c = ''claim-'' @ env_uuid4 env j)"

definition stands :: "coordinator_claim \<Rightarrow> string \<Rightarrow> 'm coordinator_store_scheme \<Rightarrow> bool" where
  \<comment> \<open>the claim, possibly renewed, is the one in force\<close>
  "stands c k st \<longleftrightarrow> (\<exists>d. dict_get (st_claims st) k = Some d \<and> cl_fence d = cl_fence c \<and> cl_claim_id d = cl_claim_id c)"

definition coord_interferes :: "'m coord_env \<Rightarrow> 'm coord_world \<Rightarrow> 'm coord_world \<Rightarrow> bool" where
  "coord_interferes env w w' \<longleftrightarrow> coord_evolves w w' \<and>
     (\<forall>k c. our_claim env c \<longrightarrow> cl_fence c \<le> fence_of (w_ext w) k \<longrightarrow> stands c k (w_ext w) \<longrightarrow> stands c k (w_ext w') \<longrightarrow>
        dict_get (st_records (w_ext w')) k = dict_get (st_records (w_ext w)) k)"

definition coord_external :: "(string \<Rightarrow> string) \<Rightarrow> 'm coord_env \<Rightarrow> ('m coord_world, 'a) action \<Rightarrow> bool" where
  "coord_external home env m \<longleftrightarrow> (\<forall>w r w'. coord_ok home (w_ext w) \<longrightarrow> m w = (r, w') \<longrightarrow>
     coord_ok home (w_ext w') \<and> coord_interferes env w w')"

definition coord_rely :: "(string \<Rightarrow> string) \<Rightarrow> 'm coord_env \<Rightarrow> bool" where
  "coord_rely home env \<longleftrightarrow> coord_external home env (env_suspend env) \<and>
     (\<forall>q. coord_external home env (env_start env q)) \<and>
     (\<forall>i c. coord_external home env (env_get env i c)) \<and> (\<forall>i c. coord_external home env (env_cancel env i c)) \<and>
     (\<forall>f \<in> set_option (env_event_sink env). \<forall>e. coord_external home env (f e)) \<and>
     (\<forall>f \<in> set_option (env_assess env). \<forall>t. coord_external home env (f t))"

definition coord_inv :: "(string \<Rightarrow> string) \<Rightarrow> 'm coord_env \<Rightarrow> 'm coord_world \<Rightarrow> bool" where
  "coord_inv home env w \<longleftrightarrow> coord_rely home env \<and> coord_ok home (w_ext w)"

lemma stands_grows:
  assumes "store_grows st st'" "cl_fence c \<le> fence_of st k" "stands c k st'"
  shows "stands c k st"
proof -
  obtain d where d: "dict_get (st_claims st') k = Some d" "cl_fence d = cl_fence c" "cl_claim_id d = cl_claim_id c"
    using assms(3) by (auto simp: stands_def)
  from store_growsD(4)[OF assms(1) d(1)] d(2,3) assms(2) show ?thesis by (auto simp: stands_def)
qed

lemma coord_interferes_trans:
  assumes "coord_interferes env w w'" "coord_interferes env w' w''"
  shows "coord_interferes env w w''"
  unfolding coord_interferes_def
proof (intro conjI allI impI)
  show "coord_evolves w w''"
    using assms store_grows_trans by (auto simp: coord_interferes_def coord_evolves_def)
  fix k c assume c: "our_claim env c" "cl_fence c \<le> fence_of (w_ext w) k" "stands c k (w_ext w)" "stands c k (w_ext w'')"
  have f: "cl_fence c \<le> fence_of (w_ext w') k"
    using c(2) store_growsD(3)[of "w_ext w" "w_ext w'" k] assms(1) by (simp add: coord_interferes_def coord_evolves_def)
  have "stands c k (w_ext w')"
    using stands_grows[OF _ f c(4)] assms(2) by (simp add: coord_interferes_def coord_evolves_def)
  then show "dict_get (st_records (w_ext w'')) k = dict_get (st_records (w_ext w)) k"
    using assms c f unfolding coord_interferes_def by metis
qed

interpretation cg: rely_guarantee "coord_inv home env" coord_evolves for home env
  by unfold_locales (auto simp: coord_evolves_def intro: store_grows_trans)

interpretation ci: rely_guarantee "coord_inv home env" "coord_interferes env" for home env
  by unfold_locales (simp add: coord_interferes_def coord_evolves_def, rule coord_interferes_trans)

abbreviation csafe where "csafe home env \<equiv> rely_guarantee.safe (coord_inv home env) coord_evolves"
abbreviation isafe where "isafe home env \<equiv> rely_guarantee.safe (coord_inv home env) (coord_interferes env)"
abbreviation cstable where "cstable \<equiv> rely_guarantee.stable coord_evolves"
abbreviation istable where "istable env \<equiv> rely_guarantee.stable (coord_interferes env)"

lemma isafe_csafe: "isafe home env P m Q \<Longrightarrow> csafe home env P m Q"
  by (fastforce simp: cg.safe_def ci.safe_def coord_interferes_def)

lemma cstable_istable: "cstable P \<Longrightarrow> istable env P"
  by (auto simp: cg.stable_def ci.stable_def coord_interferes_def)

lemma same_ext_interferes: "w_ext w' = w_ext w \<Longrightarrow> coord_interferes env w w'"
  by (simp add: coord_interferes_def coord_evolves_def)

lemma coord_external_isafe: "coord_external home env m \<Longrightarrow> isafe home env (\<lambda>_. True) m (\<lambda>_ _. True)"
  by (auto simp: coord_external_def ci.safe_def coord_inv_def)

text \<open>What the kernel's collaborators may do is part of the invariant, so the kernel is framed by it.\<close>

lemma isafe_rely: "(coord_rely home env \<Longrightarrow> isafe home env P m Q) \<Longrightarrow> isafe home env P m Q"
  by (auto simp: ci.safe_def coord_inv_def)

interpretation kf: kernel_frame "coord_inv home env" "coord_interferes env" env for home env
  by unfold_locales
    (auto simp: coord_inv_def same_ext_interferes coord_rely_def intro!: isafe_rely[OF coord_external_isafe])


section \<open>What stays true\<close>

lemma cstable_dependency_done: "cstable (\<lambda>w. dependency_done (w_ext w) p d)"
  by (auto simp: cg.stable_def coord_evolves_def intro: dependency_done_grows)

definition step_reached :: "string \<Rightarrow> step \<Rightarrow> 'm coord_world \<Rightarrow> bool" where
  "step_reached p s w \<longleftrightarrow> (\<exists>s'. step_of (w_ext w) p (s_id s) = Some s' \<and> step_after s s')"

lemma cstable_step_reached: "cstable (step_reached p s)"
proof -
  have "step_reached p s w'" if "coord_evolves w w'" "step_reached p s w" for w w' :: "'a coord_world"
    using that step_of_grows[of "w_ext w" "w_ext w'"] step_after_trans
    unfolding coord_evolves_def step_reached_def by meson
  then show ?thesis by (auto simp: cg.stable_def)
qed

definition record_seen :: "string \<Rightarrow> step_coordination_record \<Rightarrow> 'm coord_world \<Rightarrow> bool" where
  "record_seen k R w \<longleftrightarrow> (\<exists>R'. dict_get (st_records (w_ext w)) k = Some R' \<and> record_after R R')"

lemma cstable_record_seen: "cstable (record_seen k R)"
proof -
  have "record_seen k R w'" if "coord_evolves w w'" "record_seen k R w" for w w' :: "'a coord_world"
    using that store_growsD(2)[of "w_ext w" "w_ext w'" k] record_after_trans
    unfolding coord_evolves_def record_seen_def by meson
  then show ?thesis by (auto simp: cg.stable_def)
qed

text \<open>A record and the step it was read with: as long as the record is current, so is the step.\<close>

definition pair_seen :: "string \<Rightarrow> step_coordination_record \<Rightarrow> step \<Rightarrow> 'm coord_world \<Rightarrow> bool" where
  "pair_seen k R S w \<longleftrightarrow> record_seen k R w \<and>
     (dict_get (st_records (w_ext w)) k = Some R \<longrightarrow> step_of (w_ext w) (co_plan_id R) k = Some S)"

lemma cstable_pair_seen: "cstable (pair_seen k R S)"
proof -
  have "pair_seen k R S w'" if g: "coord_evolves w w'" and p: "pair_seen k R S w" for w w' :: "'a coord_world"
    unfolding pair_seen_def
  proof (intro conjI impI)
    show "record_seen k R w'"
      using cstable_record_seen[of k R] g p by (auto simp: cg.stable_def pair_seen_def)
    assume R: "dict_get (st_records (w_ext w')) k = Some R"
    obtain R' where R': "dict_get (st_records (w_ext w)) k = Some R'" "record_after R R'"
      using p by (auto simp: pair_seen_def record_seen_def)
    from store_growsD(2)[of "w_ext w" "w_ext w'" k R'] g R'(1) R
    have after: "record_after R' R" "R = R' \<longrightarrow> step_of (w_ext w') (co_plan_id R') k = step_of (w_ext w) (co_plan_id R') k"
      by (auto simp: coord_evolves_def)
    have "R' = R" by (rule record_after_antisym[OF R'(2) after(1)])
    with after(2) R'(1) p show "step_of (w_ext w') (co_plan_id R) k = Some S" by (simp add: pair_seen_def)
  qed
  then show ?thesis by (auto simp: cg.stable_def)
qed

text \<open>A step read under a claim of ours: as long as the claim stands, it is current.\<close>

definition step_held :: "'m coord_env \<Rightarrow> coordinator_claim \<Rightarrow> string \<Rightarrow> string \<Rightarrow> step \<Rightarrow> 'm coord_world \<Rightarrow> bool" where
  "step_held env c k p S w \<longleftrightarrow> our_claim env c \<and> cl_fence c \<le> fence_of (w_ext w) k \<and>
     (stands c k (w_ext w) \<longrightarrow> (\<exists>R. dict_get (st_records (w_ext w)) k = Some R \<and> co_plan_id R = p) \<and>
        step_of (w_ext w) p k = Some S)"

definition claim_drawn :: "'m coord_env \<Rightarrow> coordinator_claim \<Rightarrow> string \<Rightarrow> 'm coord_world \<Rightarrow> bool" where
  "claim_drawn env c k w \<longleftrightarrow> our_claim env c \<and> cl_fence c \<le> fence_of (w_ext w) k"

lemma cstable_claim_drawn: "cstable (claim_drawn env c k)"
proof -
  have "claim_drawn env c k w'" if "coord_evolves w w'" "claim_drawn env c k w" for w w' :: "'a coord_world"
    using that store_growsD(3)[of "w_ext w" "w_ext w'" k] by (auto simp: claim_drawn_def coord_evolves_def)
  then show ?thesis by (auto simp: cg.stable_def)
qed

lemma istable_step_held: "istable env (step_held env c k p S)"
proof -
  have "step_held env c k p S w'" if i: "coord_interferes env w w'" and h: "step_held env c k p S w" for w w' :: "'a coord_world"
  proof -
    have g: "store_grows (w_ext w) (w_ext w')" using i by (simp add: coord_interferes_def coord_evolves_def)
    have o: "our_claim env c" "cl_fence c \<le> fence_of (w_ext w) k" using h by (simp_all add: step_held_def)
    have f: "cl_fence c \<le> fence_of (w_ext w') k" using o(2) store_growsD(3)[OF g, of k] by simp
    have "(\<exists>R. dict_get (st_records (w_ext w')) k = Some R \<and> co_plan_id R = p) \<and> step_of (w_ext w') p k = Some S"
      if st: "stands c k (w_ext w')"
    proof -
      have st': "stands c k (w_ext w)" by (rule stands_grows[OF g o(2) st])
      then obtain R where R: "dict_get (st_records (w_ext w)) k = Some R" "co_plan_id R = p" "step_of (w_ext w) p k = Some S"
        using h by (auto simp: step_held_def)
      have same: "dict_get (st_records (w_ext w')) k = Some R"
        using i o st st' R(1) unfolding coord_interferes_def by metis
      from store_growsD(2)[OF g R(1)] same R show ?thesis by auto
    qed
    with o(1) f show ?thesis by (simp add: step_held_def)
  qed
  then show ?thesis by (auto simp: ci.stable_def)
qed

lemmas cstable_seen = cstable_dependency_done cstable_step_reached cstable_record_seen cstable_pair_seen cstable_claim_drawn


section \<open>Calls of the store\<close>

lemma isafe_keeps: "istable env P \<Longrightarrow> isafe home env (\<lambda>_. True) m (\<lambda>_ _. True) \<Longrightarrow> isafe home env P m (\<lambda>_. P)"
  by (rule ci.safe_weaken[OF ci.safe_frame[of env P home "\<lambda>_. True" m "\<lambda>_ _. True"]]) simp_all

lemma isafe_suspend: "istable env P \<Longrightarrow> isafe home env P (env_suspend env) (\<lambda>_. P)"
  by (rule isafe_keeps[OF _ kf.suspend_safe])

lemma isafe_ret: "(\<And>w. P w \<Longrightarrow> Q x w) \<Longrightarrow> isafe home env P (ret x) Q"
  by (rule ci.safe_ret)

lemma isafe_pure: "(\<And>x w. r = Inr x \<Longrightarrow> P w \<Longrightarrow> Q x w) \<Longrightarrow> isafe home env P (pure r) Q"
  by (rule ci.safe_pure)

lemma isafe_read:
  assumes "\<And>w x. coord_ok home (w_ext w) \<Longrightarrow> P w \<Longrightarrow> f (w_ext w) = Inr x \<Longrightarrow> Q x w"
  shows "isafe home env P (\<lambda>w. (f (w_ext w), w)) Q"
  using assms by (auto simp: ci.safe_def coord_inv_def same_ext_interferes)

lemma isafe_store_call:
  assumes "istable env P" "isafe home env P m Q" "\<And>x. istable env (Q x)"
  shows "isafe home env P (store_call env m) Q"
  unfolding store_call_def
proof (rule ci.safe_await[OF isafe_suspend[OF assms(1)]], rule ci.safe_await[OF assms(2)])
  show "isafe home env (Q x) (await (env_suspend env) (\<lambda>_. ret x)) Q" for x
    by (rule ci.safe_await[OF isafe_suspend[OF assms(3)]]) (rule isafe_ret)
qed

lemma csafe_store_call:
  assumes "istable env P" "csafe home env P m (\<lambda>_ _. True)"
  shows "csafe home env P (store_call env m) (\<lambda>_ _. True)"
  unfolding store_call_def
proof (rule cg.safe_await[OF isafe_csafe[OF isafe_suspend[OF assms(1)]]], rule cg.safe_await[OF assms(2)])
  show "csafe home env (\<lambda>_. True) (await (env_suspend env) (\<lambda>_. ret x)) (\<lambda>_ _. True)" for x
    by (rule cg.safe_await[OF isafe_csafe[OF isafe_suspend]]) (simp_all add: cg.safe_ret)
qed

lemma isafe_store_read:
  assumes "istable env P" "\<And>x. istable env (Q x)"
    and "\<And>w x. coord_ok home (w_ext w) \<Longrightarrow> P w \<Longrightarrow> f (w_ext w) = Inr x \<Longrightarrow> Q x w"
  shows "isafe home env P (store_read env f) Q"
  unfolding store_read_def by (rule isafe_store_call[OF assms(1) isafe_read assms(2)]) (rule assms(3))

lemma istable_conj: "istable env P \<Longrightarrow> istable env Q \<Longrightarrow> istable env (\<lambda>w. P w \<and> Q w)"
  by (rule ci.stable_conj)

lemma istable_const [simp]: "istable env (\<lambda>w. c)"
  by (rule ci.stable_const)

lemmas istable_seen = cstable_seen[THEN cstable_istable] istable_step_held
lemmas istables = istable_conj istable_const istable_seen ci.stable_all ci.stable_ball ci.stable_imp_const

lemma isafe_fetch_record:
  assumes "istable env P"
  shows "isafe home env P (fetch_record env k) (\<lambda>R w. (co_step_id R = k \<and> home k = co_plan_id R) \<and> P w \<and> record_seen k R w)"
  unfolding fetch_record_def
proof (rule isafe_store_read[OF assms])
  fix w :: "'a coord_world" and R assume ok: "coord_ok home (w_ext w)" "P w" "get_step_record (w_ext w) k = Inr R"
  then have R: "dict_get (st_records (w_ext w)) k = Some R"
    by (auto simp: get_step_record_def split: option.splits)
  from store_wfD(2)[OF coord_okD(1)[OF ok(1)] R] coord_okD(2)[OF ok(1) R] ok(2) R
  show "(co_step_id R = k \<and> home k = co_plan_id R) \<and> P w \<and> record_seen k R w" by (auto simp: record_seen_def)
qed (intro istables assms)

lemma runtime_step_Inr: "runtime_step x k = Inr s \<longleftrightarrow> find (\<lambda>s. s_id s = k) (pl_steps x) = Some s"
  by (auto simp: runtime_step_def split: option.splits)

lemma runtime_step_of:
  "get_plan st p = Inr x \<Longrightarrow> runtime_step x k = Inr s \<Longrightarrow> step_of st p k = Some s"
  by (auto simp: get_plan_def step_of_def runtime_step_Inr split: option.splits)

lemma isafe_fetch_step:
  assumes "istable env P" "\<And>S. istable env (Q S)"
    and "\<And>w S. coord_ok home (w_ext w) \<Longrightarrow> P w \<Longrightarrow> step_of (w_ext w) p k = Some S \<Longrightarrow> Q S w"
  shows "isafe home env P (fetch_step env p k) (\<lambda>S w. (s_id S = k \<and> s_plan_id S = p) \<and> Q S w)"
  unfolding fetch_step_def fetch_plan_def
proof (rule ci.safe_await[OF isafe_store_read[OF assms(1)]])
  show "istable env (\<lambda>w. \<forall>S. runtime_step x k = Inr S \<longrightarrow> (s_id S = k \<and> s_plan_id S = p) \<and> Q S w)" for x
    by (intro istables assms(2))
  show "\<forall>S. runtime_step x k = Inr S \<longrightarrow> (s_id S = k \<and> s_plan_id S = p) \<and> Q S w"
    if "coord_ok home (w_ext w)" "P w" "get_plan (w_ext w) p = Inr x" for w :: "'a coord_world" and x
    using that runtime_step_of step_of_id step_of_plan[OF coord_okD(1)] assms(3) by meson
qed (rule isafe_pure, blast)

lemma isafe_fetch_pair:
  assumes "istable env P" "\<And>w. P w \<Longrightarrow> record_seen k R w" "p = co_plan_id R"
  shows "isafe home env P (fetch_step env p k) (\<lambda>S w. (s_id S = k \<and> s_plan_id S = p) \<and> P w \<and> pair_seen k R S w)"
proof (rule isafe_fetch_step[OF assms(1)])
  show "istable env (\<lambda>w. P w \<and> pair_seen k R S w)" for S by (intro istables assms(1))
qed (use assms(2,3) in \<open>simp add: pair_seen_def\<close>)

lemma isafe_move_step:
  assumes "istable env P"
  shows "isafe home env P (move_step env s target)
    (\<lambda>s' w. (step_after s s' \<and> s_status s' = target \<and> target \<in> STEP_TRANSITIONS (s_status s)) \<and> P w)"
  unfolding move_step_def
  by (rule ci.safe_await[OF isafe_keeps[OF assms kf.keeps_basic(3)]], rule isafe_pure) (auto dest: step_transition_after)

lemma isafe_with_record:
  "isafe home env P (with_record r) (\<lambda>r' w. (r' = r \<and> step_coordination_record_post_init r = Inr r) \<and> P w)"
  unfolding with_record_def by (rule isafe_pure) (auto dest: record_post_init_id)

section \<open>Claims and saves\<close>

lemma same_records_interferes:
  "store_grows (w_ext w) (w_ext w') \<Longrightarrow> st_records (w_ext w') = st_records (w_ext w) \<Longrightarrow> coord_interferes env w w'"
  by (simp add: coord_interferes_def coord_evolves_def)

lemma acquire_claim_records: "st_records (snd (acquire_claim cid k owner ttl now st)) = st_records st"
  by (auto simp: acquire_claim_def Let_def split: sum.splits)

lemma isafe_draw_claim:
  assumes "istable env P"
  shows "isafe home env P (draw_claim env (\<lambda>claim_id. on_store (acquire_claim claim_id k owner ttl now)))
    (\<lambda>cl w. P w \<and> (\<forall>c. cl = Some c \<longrightarrow> claim_drawn env c k w))"
proof (rule ci.safeI)
  fix w r w' assume *: "coord_inv home env w" "P w"
    "draw_claim env (\<lambda>claim_id. on_store (acquire_claim claim_id k owner ttl now)) w = (r, w')"
  let ?cid = "''claim-'' @ env_uuid4 env (w_draws w)"
  obtain st' where acq: "acquire_claim ?cid k owner ttl now (w_ext w) = (r, st')"
    and w': "w' = w\<lparr>w_draws := Suc (w_draws w), w_ext := st'\<rparr>"
    using *(3) by (auto simp: draw_claim_def on_store_def split: prod.splits)
  have ok: "coord_ok home (w_ext w)" using *(1) by (simp add: coord_inv_def)
  note e = acquire_claim_effect[OF ok acq]
  have "st_records st' = st_records (w_ext w)" using acquire_claim_records[of ?cid k owner ttl now "w_ext w"] acq by simp
  then have i: "coord_interferes env w w'" using e w' by (intro same_records_interferes) simp_all
  moreover from this have "P w'" using assms *(2) by (auto simp: ci.stable_def)
  moreover have "coord_inv home env w'" using *(1) e w' by (simp add: coord_inv_def)
  moreover have "claim_drawn env c k w'" if "r = Inr (Some c)" for c
    using e that store_wfD(3)[of st' k c] coord_okD(1)[of home st'] w' by (auto simp: claim_drawn_def our_claim_def)
  ultimately show "coord_inv home env w' \<and> coord_interferes env w w' \<and>
      (\<forall>x. r = Inr x \<longrightarrow> P w' \<and> (\<forall>c. x = Some c \<longrightarrow> claim_drawn env c k w'))" by simp
qed

lemma istable_drawn: "istable env P \<Longrightarrow> istable env (\<lambda>w. P w \<and> (\<forall>c. cl = Some c \<longrightarrow> claim_drawn env c k w))"
  by (intro istables)

lemma isafe_acquire:
  assumes "istable env P"
  shows "isafe home env P (store_call env (draw_claim env (\<lambda>claim_id. on_store (acquire_claim claim_id k owner ttl now))))
    (\<lambda>cl w. P w \<and> (\<forall>c. cl = Some c \<longrightarrow> claim_drawn env c k w))"
  by (rule isafe_store_call[OF assms isafe_draw_claim[OF assms] istable_drawn[OF assms]])

lemma isafe_claim_step:
  assumes "istable env P"
  shows "isafe home env P (claim_step env cfg k now) (\<lambda>cl w. P w \<and> (\<forall>c. cl = Some c \<longrightarrow> claim_drawn env c k w))"
  unfolding claim_step_def
proof (rule ci.safe_await[OF isafe_acquire[OF assms]], rule ci.safe_if)
  show "isafe home env (\<lambda>w. P w \<and> (\<forall>c. cl = Some c \<longrightarrow> claim_drawn env c k w)) (await (fetch_record env k) (\<lambda>_. ret None))
      (\<lambda>cl w. P w \<and> (\<forall>c. cl = Some c \<longrightarrow> claim_drawn env c k w))" for cl
    by (rule ci.safe_await[OF isafe_fetch_record[OF istable_drawn[OF assms]]], rule isafe_ret) simp
qed (rule isafe_ret)

lemma isafe_required_claim:
  assumes "istable env P"
  shows "isafe home env P (required_claim env cfg k now) (\<lambda>c w. P w \<and> claim_drawn env c k w)"
  unfolding required_claim_def
  by (rule ci.safe_await[OF isafe_claim_step[OF assms]], rule ci.safe_option, rule ci.safe_raise, rule isafe_ret) simp

lemma csafe_save:
  assumes "istable env P" and k: "s_id s = k"
    and upd: "\<And>w R S. coord_ok home (w_ext w) \<Longrightarrow> P w \<Longrightarrow> dict_get (st_records (w_ext w)) k = Some R \<Longrightarrow> co_revision R = n \<Longrightarrow>
      step_of (w_ext w) (co_plan_id R) k = Some S \<Longrightarrow> pair_ok (w_ext w) R S \<Longrightarrow>
      dict_get (st_claims (w_ext w)) k = Some c \<Longrightarrow> step_after S s \<and> record_next R r \<and> pair_ok (w_ext w) r s"
  shows "csafe home env P (save env s r n c now) (\<lambda>_ _. True)"
  unfolding save_def
proof (rule csafe_store_call[OF assms(1)], rule cg.safeI)
  fix w res w' assume *: "coord_inv home env w" "P w" "on_store (save_step s r n (Some c) now) w = (res, w')"
  obtain st' where save: "save_step s r n (Some c) now (w_ext w) = (res, st')" and w': "w' = w\<lparr>w_ext := st'\<rparr>"
    using *(3) by (auto simp: on_store_def split: prod.splits)
  have ok: "coord_ok home (w_ext w)" using *(1) by (simp add: coord_inv_def)
  have "coord_ok home st' \<and> store_grows (w_ext w) st'"
    using save_step_effect[OF ok save] upd[OF ok *(2)] coord_okD(2)[OF ok] k by (force simp: live_claim_def)
  with *(1) w' show "coord_inv home env w' \<and> coord_evolves w w' \<and> (\<forall>x. res = Inr x \<longrightarrow> True)"
    by (simp add: coord_inv_def coord_evolves_def)
qed

text \<open>The usual case: the record and the step were read in this order, and the record is expected.\<close>

lemma csafe_save_pair:
  assumes "istable env P" "\<And>w. P w \<Longrightarrow> pair_seen k R S w" "s_id s = k" "n = co_revision R"
    and "step_after S s" "record_next R r"
    and "\<And>w. P w \<Longrightarrow> dict_get (st_records (w_ext w)) k = Some R \<Longrightarrow>
      step_of (w_ext w) (co_plan_id R) k = Some S \<Longrightarrow> pair_ok (w_ext w) R S \<Longrightarrow> pair_ok (w_ext w) r s"
  shows "csafe home env P (save env s r n c now) (\<lambda>_ _. True)"
proof (rule csafe_save[OF assms(1,3)])
  fix w :: "'a coord_world" and R' S'
  assume *: "P w" "dict_get (st_records (w_ext w)) k = Some R'" "co_revision R' = n"
    "step_of (w_ext w) (co_plan_id R') k = Some S'" "pair_ok (w_ext w) R' S'"
  have "R' = R" using assms(2)[OF *(1)] *(2,3) assms(4) record_after_same[of R R']
    by (auto simp: pair_seen_def record_seen_def)
  moreover from this have "S' = S" using assms(2)[OF *(1)] *(2,4) by (simp add: pair_seen_def)
  ultimately show "step_after S' s \<and> record_next R' r \<and> pair_ok (w_ext w) r s"
    using assms(5-7) * by simp
qed

lemma csafe_release: "csafe home env (\<lambda>_. True) (on_store (\<lambda>st. case release_claim c st of (b, st) \<Rightarrow> (Inr b, st))) (\<lambda>_ _. True)"
proof (rule cg.safeI)
  fix w r w' assume "coord_inv home env w" "on_store (\<lambda>st. case release_claim c st of (b, st) \<Rightarrow> (Inr b, st)) w = (r, w')"
  with release_claim_effect[of home "w_ext w" c] show "coord_inv home env w' \<and> coord_evolves w w' \<and> (\<forall>x. r = Inr x \<longrightarrow> True)"
    by (auto simp: on_store_def coord_inv_def coord_evolves_def split: prod.splits)
qed

lemma csafe_holding:
  assumes "csafe home env P m (\<lambda>_ _. True)"
  shows "csafe home env P (holding env c m) (\<lambda>_ _. True)"
proof (rule cg.safeI)
  fix w r w' assume *: "coord_inv home env w" "P w" "holding env c m w = (r, w')"
  let ?f = "store_call env (on_store (\<lambda>st. case release_claim c st of (b, st) \<Rightarrow> (Inr b, st)))"
  obtain r1 w1 where m: "m w = (r1, w1)" by (cases "m w")
  obtain r2 w2 where f: "?f w1 = (r2, w2)" by (cases "?f w1")
  note 1 = cg.safeD(1,2)[OF assms *(1,2) m]
  have "csafe home env (\<lambda>_. True) ?f (\<lambda>_ _. True)" by (rule csafe_store_call[OF _ csafe_release]) simp
  note 2 = cg.safeD(1,2)[OF this 1(1) TrueI f]
  have "w' = w2" using *(3) m f by (auto simp: holding_def try_finally_def split: sum.splits)
  with 1 2 cg.G_trans show "coord_inv home env w' \<and> coord_evolves w w' \<and> (\<forall>x. r = Inr x \<longrightarrow> True)" by blast
qed

section \<open>Rules\<close>

text \<open>An operation keeps the store: no result is promised, only a valid store that has grown.\<close>

abbreviation ckeeps where
  "ckeeps home env P m \<equiv> csafe home env P m (\<lambda>_ _. True)"

lemma ckeeps_await: "isafe home env P m Q \<Longrightarrow> (\<And>x. ckeeps home env (Q x) (f x)) \<Longrightarrow> ckeeps home env P (await m f)"
  by (rule cg.safe_await[OF isafe_csafe])

lemma ckeeps_ret [simp]: "ckeeps home env P (ret x)" "ckeeps home env P (raise e)" "ckeeps home env P (pure r)"
  by (simp_all add: cg.safe_ret cg.safe_raise cg.safe_pure)

lemma ckeeps_pre: "ckeeps home env P' m \<Longrightarrow> (\<And>w. P w \<Longrightarrow> P' w) \<Longrightarrow> ckeeps home env P m"
  by (rule cg.safe_pre)

lemma ckeeps_then: "cstable P \<Longrightarrow> ckeeps home env P m \<Longrightarrow> (\<And>x. ckeeps home env P (f x)) \<Longrightarrow> ckeeps home env P (await m f)"
  by (erule cg.safe_await_frame, assumption) (rule ckeeps_pre, blast+)

lemma ckeeps_last: "ckeeps home env P m \<Longrightarrow> (\<And>x. ckeeps home env (\<lambda>_. True) (f x)) \<Longrightarrow> ckeeps home env P (await m f)"
  by (rule cg.safe_await)

lemma ckeeps_pure: "(\<And>x. r = Inr x \<Longrightarrow> ckeeps home env P (f x)) \<Longrightarrow> ckeeps home env P (await (pure r) f)"
  by (cases r) (auto simp: cg.safe_def cg.G_refl pure_def await_def split: prod.splits)

lemma ckeeps_own:
  assumes "istable env P" "kernel_frame.keeps (coord_inv home env) (coord_interferes env) m" "\<And>x. ckeeps home env P (f x)"
  shows "ckeeps home env P (await m f)"
  by (rule ckeeps_await[OF isafe_keeps[OF assms(1,2)] assms(3)])

lemma ckeeps_fetch_record:
  assumes "istable env P"
    and "\<And>R. co_step_id R = k \<Longrightarrow> home k = co_plan_id R \<Longrightarrow> ckeeps home env (\<lambda>w. P w \<and> record_seen k R w) (f R)"
  shows "ckeeps home env P (await (fetch_record env k) f)"
  by (rule ckeeps_await[OF isafe_fetch_record[OF assms(1)]], rule cg.safe_pre_const) (use assms(2) in blast)

lemma ckeeps_fetch_pair:
  assumes "istable env P" "\<And>w. P w \<Longrightarrow> record_seen k R w" "p = co_plan_id R"
    and "\<And>S. s_id S = k \<Longrightarrow> s_plan_id S = p \<Longrightarrow> ckeeps home env (\<lambda>w. P w \<and> pair_seen k R S w) (f S)"
  shows "ckeeps home env P (await (fetch_step env p k) f)"
  by (rule ckeeps_await[OF isafe_fetch_pair[OF assms(1-3)]], assumption, rule cg.safe_pre_const) (use assms(4) in blast)

lemma ckeeps_move_step:
  assumes "istable env P"
    and "\<And>s'. step_after s s' \<Longrightarrow> s_status s' = t \<Longrightarrow> t \<in> STEP_TRANSITIONS (s_status s) \<Longrightarrow> ckeeps home env P (f s')"
  shows "ckeeps home env P (await (move_step env s t) f)"
  by (rule ckeeps_await[OF isafe_move_step[OF assms(1)]], rule cg.safe_pre_const) (use assms(2) in blast)

lemma ckeeps_with_record: "ckeeps home env P (f r) \<Longrightarrow> ckeeps home env P (await (with_record r) f)"
  unfolding with_record_def by (rule ckeeps_pure) (auto dest: record_post_init_id)

lemma ckeeps_let: "ckeeps home env P (f x) \<Longrightarrow> ckeeps home env P (let y = x in f y)"
  by simp

lemma ckeeps_if: "(b \<Longrightarrow> ckeeps home env P m) \<Longrightarrow> (\<not> b \<Longrightarrow> ckeeps home env P n) \<Longrightarrow> ckeeps home env P (if b then m else n)"
  by simp

lemma ckeeps_option:
  "(v = None \<Longrightarrow> ckeeps home env P m) \<Longrightarrow> (\<And>x. v = Some x \<Longrightarrow> ckeeps home env P (f x)) \<Longrightarrow>
     ckeeps home env P (case v of None \<Rightarrow> m | Some x \<Rightarrow> f x)"
  by (cases v) simp_all

lemma ckeeps_claimed:
  assumes "istable env P"
    and "\<And>c. ckeeps home env (\<lambda>w. P w \<and> claim_drawn env c k w) (f c)" "ckeeps home env P g"
  shows "ckeeps home env P (await (claim_step env cfg k now) (\<lambda>claim. case claim of None \<Rightarrow> g | Some c \<Rightarrow> holding env c (f c)))"
proof (rule ckeeps_await[OF isafe_claim_step[OF assms(1)]], rule ckeeps_option)
  fix cl :: "coordinator_claim option" and c assume "cl = Some c"
  then show "ckeeps home env (\<lambda>w. P w \<and> (\<forall>c. cl = Some c \<longrightarrow> claim_drawn env c k w)) (holding env c (f c))"
    using csafe_holding[OF assms(2)[of c]] by simp
qed (rule ckeeps_pre[OF assms(3)], simp)

lemma ckeeps_under_claim:
  assumes "istable env P" "\<And>c. ckeeps home env (\<lambda>w. P w \<and> claim_drawn env c k w) (f c)"
  shows "ckeeps home env P (under_claim env cfg k now f)"
  unfolding under_claim_def by (rule ckeeps_claimed[OF assms(1) assms(2)]) simp_all

lemma ckeeps_each: "cstable P \<Longrightarrow> (\<And>x. x \<in> set xs \<Longrightarrow> ckeeps home env P (f x)) \<Longrightarrow> ckeeps home env P (each f xs)"
  by (induction xs) (auto intro!: ckeeps_then simp: each.simps)

end
