(* ===== verification/Coordinator_Barrier_Safe.thy ===== *)
theory Coordinator_Barrier_Safe
  imports Coordinator_Safe
begin

text \<open>
  The dependency barrier, the dispatch of attempts and the restart of failed attempts keep the
  coordinator store: what they decided on a snapshot still justifies what they save later.
\<close>

section \<open>Snapshots\<close>

definition steps_seen :: "string \<Rightarrow> (string \<times> step) list \<Rightarrow> 'm coord_world \<Rightarrow> bool" where
  "steps_seen p by_id w \<longleftrightarrow> (\<forall>k s. dict_get by_id k = Some s \<longrightarrow> s_id s = k \<and> s_plan_id s = p \<and> step_reached p s w)"

lemma cstable_steps_seen: "cstable (steps_seen p by_id)"
  unfolding steps_seen_def using cstable_step_reached unfolding cg.stable_def by meson

lemma istable_steps_seen: "istable env (steps_seen p by_id)"
  by (rule cstable_istable[OF cstable_steps_seen])

lemma step_reached_done:
  "step_reached p s w \<Longrightarrow> s_status s \<in> done_statuses \<Longrightarrow> dependency_done (w_ext w) p (s_id s)"
  using final_status[of "s_status s"]
  by (fastforce simp: step_reached_def dependency_done_def step_after_def done_statuses_def)

lemma step_reached_not_pending:
  "step_reached p s w \<Longrightarrow> s_status s \<noteq> S_PENDING \<Longrightarrow> step_of (w_ext w) p (s_id s) = Some S \<Longrightarrow> s_status S \<noteq> S_PENDING"
  using never_pending by (auto simp: step_reached_def step_after_def)

section \<open>The dependency barrier\<close>

definition all_done :: "string \<Rightarrow> string list \<Rightarrow> 'm coord_world \<Rightarrow> bool" where
  "all_done p ds w \<longleftrightarrow> (\<forall>d\<in>set ds. dependency_done (w_ext w) p d)"

lemma istable_all_done: "istable env (all_done p ds)"
  unfolding all_done_def by (intro istables)

lemma isafe_dependency_outcome:
  "isafe home env (steps_seen p by_id) (dependency_outcome env by_id d)
     (\<lambda>y w. snd y = Some True \<longrightarrow> dependency_done (w_ext w) p (fst y))"
  unfolding dependency_outcome_def
proof (rule ci.safe_option, rule ci.safe_raise)
  fix s assume s: "dict_get by_id d = Some s"
  then have found: "dependency_done (w_ext w) p d"
    if "s_status s \<in> done_statuses" "steps_seen p by_id w" for w :: "'a coord_world"
    using step_reached_done[of p s w] that by (auto simp: steps_seen_def)
  show "isafe home env (steps_seen p by_id)
      (if s_status s = S_SUCCEEDED then ret (d, Some True)
       else if s_status s \<in> {S_FAILED, S_CANCELLED} then ret (d, Some False)
       else if s_status s = S_SKIPPED then await (fetch_record env d)
         (\<lambda>r. ret (d, Some (set (co_satisfied_dependency_ids r) = set (co_dependency_ids r))))
       else ret (d, None)) (\<lambda>y w. snd y = Some True \<longrightarrow> dependency_done (w_ext w) p (fst y))"
  proof (intro ci.safe_if ci.safe_ret)
    assume skipped: "s_status s = S_SKIPPED"
    show "isafe home env (steps_seen p by_id) (await (fetch_record env d)
        (\<lambda>r. ret (d, Some (set (co_satisfied_dependency_ids r) = set (co_dependency_ids r)))))
      (\<lambda>y w. snd y = Some True \<longrightarrow> dependency_done (w_ext w) p (fst y))"
      by (rule ci.safe_await[OF isafe_fetch_record[OF istable_steps_seen]], rule isafe_ret)
        (use found skipped in \<open>auto simp: done_statuses_def\<close>)
  qed (use found in \<open>auto simp: done_statuses_def\<close>)
qed

lemma isafe_dependency_outcomes:
  "isafe home env (steps_seen p by_id) (each (dependency_outcome env by_id) ds)
     (\<lambda>ys. all_done p (map fst (filter (\<lambda>(_, b). b = Some True) ys)))"
proof (rule ci.safe_post)
  show "isafe home env (steps_seen p by_id) (each (dependency_outcome env by_id) ds)
      (\<lambda>ys w. list_all2 (\<lambda>x y. snd y = Some True \<longrightarrow> dependency_done (w_ext w) p (fst y)) ds ys)"
    by (rule ci.safe_each[OF isafe_dependency_outcome istable_steps_seen]) (intro istables)
  show "all_done p (map fst (filter (\<lambda>(_, b). b = Some True) ys)) w"
    if "list_all2 (\<lambda>x y. snd y = Some True \<longrightarrow> dependency_done (w_ext w) p (fst y)) ds ys" for ys and w :: "'a coord_world"
    using that unfolding all_done_def by (induction rule: list_all2_induct) auto
qed

text \<open>The record and its step are read, the step is moved, both are saved.\<close>

lemmas istables_seen = istables istable_all_done istable_steps_seen

lemma ckeeps_fetch_both:
  assumes "istable env P" "home k = p"
    and "\<And>R S. co_step_id R = k \<Longrightarrow> co_plan_id R = p \<Longrightarrow> s_id S = k \<Longrightarrow> s_plan_id S = p \<Longrightarrow>
      ckeeps home env (\<lambda>w. P w \<and> pair_seen k R S w) (f R S)"
  shows "ckeeps home env P (await (fetch_record env k) (\<lambda>R. await (fetch_step env p k) (f R)))"
proof (rule ckeeps_fetch_record[OF assms(1)])
  fix R :: step_coordination_record assume R: "co_step_id R = k" "home k = co_plan_id R"
  show "ckeeps home env (\<lambda>w. P w \<and> record_seen k R w) (await (fetch_step env p k) (f R))"
  proof (rule ckeeps_fetch_pair)
    show "ckeeps home env (\<lambda>w. (P w \<and> record_seen k R w) \<and> pair_seen k R S w) (f R S)"
      if "s_id S = k" "s_plan_id S = p" for S
      by (rule ckeeps_pre[OF assms(3)[of R S]]) (use R assms(2) that in auto)
  qed (use R assms(1,2) in \<open>auto intro!: istables\<close>)
qed

lemma ckeeps_save_pair:
  assumes "istable env P" "s_id S = k" "step_after S s" "record_next R r"
    and "\<And>w. P w \<Longrightarrow> dict_get (st_records (w_ext w)) k = Some R \<Longrightarrow>
      step_of (w_ext w) (co_plan_id R) k = Some S \<Longrightarrow> pair_ok (w_ext w) R S \<Longrightarrow> pair_ok (w_ext w) r s"
    and "\<And>x. ckeeps home env (\<lambda>_. True) (f x)"
  shows "ckeeps home env (\<lambda>w. P w \<and> pair_seen k R S w) (await (save env s r (co_revision R) c now) f)"
proof (rule ckeeps_last[OF csafe_save_pair[where R = R and S = S and k = k]])
  show "s_id s = k" using assms(2,3) by (simp add: step_after_def)
qed (use assms in \<open>auto intro!: istables\<close>)

lemma ckeeps_moved_save:
  assumes "istable env P" "s_id S = k" "record_next R r"
    and "\<And>w s. P w \<Longrightarrow> dict_get (st_records (w_ext w)) k = Some R \<Longrightarrow>
      step_of (w_ext w) (co_plan_id R) k = Some S \<Longrightarrow> pair_ok (w_ext w) R S \<Longrightarrow>
      step_after S s \<Longrightarrow> s_status s = t \<Longrightarrow> t \<in> STEP_TRANSITIONS (s_status S) \<Longrightarrow> pair_ok (w_ext w) r s"
    and "\<And>x. ckeeps home env (\<lambda>_. True) (f x)"
  shows "ckeeps home env (\<lambda>w. P w \<and> pair_seen k R S w)
     (await (move_step env S t) (\<lambda>s. await (with_record r) (\<lambda>r. await (save env s r (co_revision R) c now) f)))"
  by (rule ckeeps_move_step, intro istables assms(1), rule ckeeps_with_record, rule ckeeps_save_pair) (use assms in auto)

text \<open>What the side conditions of a save are about.\<close>

lemmas save_simps = record_next_def step_after_def pair_ok_def all_done_def started_statuses_def

lemma ckeeps_fail_barrier:
  assumes "home (s_id s) = s_plan_id s"
  shows "ckeeps home env (all_done (s_plan_id s) satisfied) (fail_barrier env s satisfied c now)"
  unfolding fail_barrier_def
  by (rule ckeeps_fetch_both, intro istables_seen, rule assms, rule ckeeps_if, rule ckeeps_ret, rule ckeeps_moved_save,
      intro istables_seen) (auto simp: save_simps split: if_splits)

lemma ckeeps_open_barrier:
  assumes "home (s_id s) = s_plan_id s" "co_dependency_ids r = []"
  shows "ckeeps home env (record_seen (s_id s) r) (open_barrier env s c now)"
  unfolding open_barrier_def
  by (rule ckeeps_fetch_both, intro istables_seen, rule assms(1), rule ckeeps_if, rule ckeeps_ret, rule ckeeps_moved_save,
      intro istables_seen)
    (use assms(2) in \<open>auto simp: save_simps record_seen_def dest: record_after_next split: if_splits\<close>)

lemma ckeeps_advance_barrier:
  assumes "home (s_id s) = s_plan_id s"
  shows "ckeeps home env (all_done (s_plan_id s) satisfied) (advance_barrier env s satisfied c now)"
  unfolding advance_barrier_def
  by (rule ckeeps_fetch_both, intro istables_seen, rule assms, rule ckeeps_with_record, rule ckeeps_if, rule ckeeps_moved_save,
      intro istables_seen) (auto simp: save_simps intro!: ckeeps_save_pair istables_seen split: if_splits)

lemma ckeeps_refresh:
  assumes "home (s_id s) = s_plan_id s"
  shows "ckeeps home env (\<lambda>w. steps_seen (s_plan_id s) by_id w \<and> record_seen (s_id s) record w)
     (refresh_dependencies env cfg s record by_id now)"
  unfolding refresh_dependencies_def
proof (rule ckeeps_if, rule ckeeps_ret, rule ckeeps_await)
  show "isafe home env (\<lambda>w. steps_seen (s_plan_id s) by_id w \<and> record_seen (s_id s) record w)
      (each (dependency_outcome env by_id) (co_dependency_ids record))
      (\<lambda>ys w. all_done (s_plan_id s) (map fst (filter (\<lambda>(_, b). b = Some True) ys)) w \<and> record_seen (s_id s) record w)"
    by (rule ci.safe_frame[OF _ isafe_dependency_outcomes]) (intro istables)
qed (unfold Let_def, intro ckeeps_if ckeeps_ret ckeeps_under_claim istables_seen,
    (rule ckeeps_pre, rule ckeeps_fail_barrier ckeeps_advance_barrier ckeeps_open_barrier; (rule assms | blast | simp))+)

section \<open>Dispatch and restart\<close>

lemma keeps_retry_stale_stream:
  assumes "kernel_frame.keeps (coord_inv home env) (coord_interferes env) m"
  shows "kernel_frame.keeps (coord_inv home env) (coord_interferes env) (retry_stale_stream env n e m)"
  by (induction n arbitrary: e) (auto intro!: kf.keeps_rules assms split: option.splits)

lemma ckeeps_start_attempt:
  assumes "home (s_id s) = s_plan_id s"
  shows "ckeeps home env (\<lambda>_. True) (start_attempt env cfg s record now)"
  unfolding start_attempt_def Let_def
  by (rule ckeeps_under_claim, intro istables_seen, rule ckeeps_fetch_both, intro istables_seen, rule assms,
      rule ckeeps_if, rule ckeeps_ret, rule ckeeps_own, intro istables_seen, rule keeps_retry_stale_stream,
      rule kf.keeps_kernel, rule ckeeps_if, rule ckeeps_ret, rule ckeeps_moved_save, intro istables_seen)
    (auto simp: save_simps split: if_splits intro!: ckeeps_own keeps_retry_stale_stream kf.keeps_kernel)

lemma ready_from_failed:
  assumes "step_reached p s w" "s_status s = S_FAILED" "step_of (w_ext w) p (s_id s) = Some S" "S_READY \<in> STEP_TRANSITIONS (s_status S)"
  shows "s_status S = S_FAILED"
  using step_reached_not_pending[OF assms(1) _ assms(3)] assms(2,4) by (cases "s_status S") auto

lemma ckeeps_activate_retry:
  assumes "home (s_id s) = s_plan_id s"
  shows "ckeeps home env (step_reached (s_plan_id s) s) (activate_retry env cfg s record now)"
  unfolding activate_retry_def
  by (rule ckeeps_if, rule ckeeps_ret, rule ckeeps_under_claim, intro istables_seen, rule ckeeps_fetch_both,
      intro istables_seen, rule assms, rule ckeeps_if, rule ckeeps_ret, rule ckeeps_moved_save, intro istables_seen)
    (auto simp: save_simps dest!: ready_from_failed split: if_splits)

section \<open>One iteration\<close>

definition records_seen :: "string \<Rightarrow> step_coordination_record list \<Rightarrow> 'm coord_world \<Rightarrow> bool" where
  "records_seen p rs w \<longleftrightarrow> (\<forall>r\<in>set rs. co_plan_id r = p \<and> record_seen (co_step_id r) r w)"

lemma cstable_records_seen: "cstable (records_seen p rs)"
  unfolding records_seen_def using cstable_record_seen unfolding cg.stable_def by meson

definition snapshot_seen :: "(string \<Rightarrow> string) \<Rightarrow> string \<Rightarrow> (string \<times> step) list \<Rightarrow> step_coordination_record list \<Rightarrow>
    'm coord_world \<Rightarrow> bool" where
  "snapshot_seen home p by_id rs w \<longleftrightarrow> (\<forall>r\<in>set rs. home (co_step_id r) = p) \<and> steps_seen p by_id w \<and> records_seen p rs w"

lemma cstable_snapshot_seen: "cstable (snapshot_seen home p by_id rs)"
  unfolding snapshot_seen_def by (intro cg.stable_conj cg.stable_const cstable_steps_seen cstable_records_seen)

lemma snapshot_seenD:
  assumes "snapshot_seen home p by_id rs w" "r \<in> set rs" "dict_get by_id (co_step_id r) = Some s"
  shows "s_id s = co_step_id r" "s_plan_id s = p" "home (co_step_id r) = p" "step_reached p s w" "steps_seen p by_id w"
    "record_seen (s_id s) r w" "home (s_id s) = s_plan_id s"
  using assms by (auto simp: snapshot_seen_def steps_seen_def records_seen_def)

lemma dict_get_keyed: "dict_get (keyed_steps q) k = Some s \<Longrightarrow> s \<in> set (pl_steps q) \<and> s_id s = k"
  by (auto simp: keyed_steps_def dict_get_def comp_def dest!: map_of_SomeD)

lemma snapshot_read:
  assumes ok: "coord_ok home (w_ext w)" and read: "get_plan_snapshot (w_ext w) p = Inr (q, rs)"
  shows "snapshot_seen home p (keyed_steps q) rs w"
proof -
  have q: "dict_get (st_plans (w_ext w)) p = Some q" and rs: "rs = sort_key co_step_id (filter (\<lambda>r. co_plan_id r = p) (map snd (st_records (w_ext w))))"
    using read by (auto simp: get_plan_snapshot_def get_plan_def sbind_eq_Inr split: option.splits)
  note wf = coord_okD(1)[OF ok]
  note plan = store_wfD(1)[OF wf q]
  have found: "step_of (w_ext w) p (s_id s) = Some s" "s_plan_id s = p" if "s \<in> set (pl_steps q)" for s
  proof -
    have "distinct (map s_id (pl_steps q))" "s_plan_id s = p"
      using plan that by (auto simp: plan_runtime_state_post_init_def sbind_eq_Inr list_all_iff)
    moreover from this that have "find (\<lambda>t. s_id t = s_id s) (pl_steps q) = Some s" by (simp add: find_distinct)
    ultimately show "step_of (w_ext w) p (s_id s) = Some s" "s_plan_id s = p" by (simp_all add: step_of_def q)
  qed
  have "steps_seen p (keyed_steps q) w"
    using found by (auto simp: steps_seen_def step_reached_def dest!: dict_get_keyed)
  moreover have "home (co_step_id r) = p \<and> co_plan_id r = p \<and> record_seen (co_step_id r) r w" if r: "r \<in> set rs" for r
  proof -
    obtain k where "(k, r) \<in> set (st_records (w_ext w))" "co_plan_id r = p" using r rs by auto
    moreover from this have k: "dict_get (st_records (w_ext w)) k = Some r"
      using store_wfD(4)[OF wf] by (simp add: dict_get_def map_of_eq_Some_iff)
    ultimately show ?thesis using store_wfD(2)[OF wf k] coord_okD(2)[OF ok k] by (auto simp: record_seen_def)
  qed
  ultimately show ?thesis by (simp add: snapshot_seen_def records_seen_def)
qed

lemma isafe_fetch_snapshot:
  assumes "istable env P"
  shows "isafe home env P (fetch_snapshot env p) (\<lambda>(q, rs) w. P w \<and> snapshot_seen home p (keyed_steps q) rs w)"
  unfolding fetch_snapshot_def
proof (rule isafe_store_read[OF assms])
  show "istable env ((\<lambda>(q, rs) w. P w \<and> snapshot_seen home p (keyed_steps q) rs w) x)" for x
    by (cases x) (auto intro!: istables assms cstable_istable[OF cstable_snapshot_seen])
qed (auto dest: snapshot_read)

lemma ckeeps_given:
  assumes "c \<Longrightarrow> ckeeps home env P' m" "\<And>w. P w \<Longrightarrow> c" "\<And>w. P w \<Longrightarrow> P' w"
  shows "ckeeps home env P m"
  using assms by (auto simp: cg.safe_def)

lemma ckeeps_barrier_step:
  assumes "r \<in> set rs"
  shows "ckeeps home env (snapshot_seen home p by_id rs) (barrier_step env cfg by_id now r)"
  unfolding barrier_step_def
proof (rule ckeeps_option, rule ckeeps_ret)
  fix s assume s: "dict_get by_id (co_step_id r) = Some s"
  note seen = snapshot_seenD[OF _ assms s]
  show "ckeeps home env (snapshot_seen home p by_id rs)
     (if co_phase r = CP_RETRY_SCHEDULED then
        (case co_retry_due_at r of None \<Rightarrow> ret False
         | Some due \<Rightarrow> if due \<le> now then activate_retry env cfg s r now else ret False)
      else if co_phase r = CP_BLOCKED then refresh_dependencies env cfg s r by_id now else ret False)"
  proof (intro ckeeps_if ckeeps_option ckeeps_ret)
    show "ckeeps home env (snapshot_seen home p by_id rs) (activate_retry env cfg s r now)"
      by (rule ckeeps_given[where c = "home (s_id s) = s_plan_id s"], erule ckeeps_activate_retry) (auto dest: seen)
    show "ckeeps home env (snapshot_seen home p by_id rs) (refresh_dependencies env cfg s r by_id now)"
      by (rule ckeeps_given[where c = "home (s_id s) = s_plan_id s"], erule ckeeps_refresh) (auto dest: seen)
  qed
qed

lemma ckeeps_dispatch_step:
  assumes "r \<in> set rs"
  shows "ckeeps home env (snapshot_seen home p by_id rs) (dispatch_step env cfg by_id now r)"
  unfolding dispatch_step_def
proof (rule ckeeps_option, rule ckeeps_ret)
  fix s assume s: "dict_get by_id (co_step_id r) = Some s"
  note seen = snapshot_seenD[OF _ assms s]
  show "ckeeps home env (snapshot_seen home p by_id rs) (start_attempt env cfg s r now)"
    by (rule ckeeps_given[where c = "home (s_id s) = s_plan_id s"], erule ckeeps_start_attempt) (auto dest: seen)
qed

lemma ckeeps_capture: "ckeeps home env P m \<Longrightarrow> ckeeps home env P (capture m)"
  by (auto simp: cg.safe_def capture_def split: prod.splits)

lemma ckeeps_gather:
  "cstable P \<Longrightarrow> (\<And>x. x \<in> set xs \<Longrightarrow> ckeeps home env P (f x)) \<Longrightarrow> ckeeps home env P (gather f xs)"
  unfolding gather_def by (rule ckeeps_last[OF ckeeps_each]) (auto intro: ckeeps_capture)

lemma ckeeps_fetch_snapshot:
  assumes "istable env P" "\<And>q rs. ckeeps home env (\<lambda>w. P w \<and> snapshot_seen home p (keyed_steps q) rs w) (f q rs)"
  shows "ckeeps home env P (await (fetch_snapshot env p) (\<lambda>(q, rs). f q rs))"
proof (rule ckeeps_await[OF isafe_fetch_snapshot[OF assms(1)]])
  show "ckeeps home env (case x of (q, rs) \<Rightarrow> \<lambda>w. P w \<and> snapshot_seen home p (keyed_steps q) rs w)
      (case x of (q, rs) \<Rightarrow> f q rs)" for x
    using assms(2) by (cases x) simp
qed

lemma ckeeps_advance_once: "ckeeps home env (\<lambda>_. True) (advance_once env cfg p now)"
  unfolding advance_once_def
proof (intro ckeeps_fetch_snapshot istables ckeeps_last ckeeps_ret)
  show "ckeeps home env (\<lambda>w. True \<and> snapshot_seen home p (keyed_steps q) rs w)
      (each (barrier_step env cfg (keyed_steps q) now) rs)" for q rs
    by (rule ckeeps_pre[OF ckeeps_each[OF cstable_snapshot_seen ckeeps_barrier_step]]) simp_all
  show "ckeeps home env (\<lambda>w. True \<and> snapshot_seen home p (keyed_steps q) rs w)
      (gather (dispatch_step env cfg (keyed_steps q) now) (filter (\<lambda>r. co_phase r = CP_READY) rs))" for q rs
    by (rule ckeeps_pre[OF ckeeps_gather[OF cstable_snapshot_seen ckeeps_dispatch_step]]) auto
qed

lemma ckeeps_advance_loop: "ckeeps home env (\<lambda>_. True) (advance_loop env cfg n p now)"
  by (induction n) (auto intro!: ckeeps_last[OF ckeeps_advance_once])

end
