(* ===== verification/Coordinator_Signals_Safe.thy ===== *)
theory Coordinator_Signals_Safe
  imports Coordinator_Barrier_Safe
begin

text \<open>
  The outcomes of attempts, the waits, the cancellation, the marks of lost runs and the repair keep the
  coordinator store.
\<close>

section \<open>Outcomes of attempts\<close>

lemma await_if: "await (if b then m else n) f = (if b then await m f else await n f)"
  by simp

lemma await_option: "await (case v of None \<Rightarrow> m | Some x \<Rightarrow> n x) f = (case v of None \<Rightarrow> await m f | Some x \<Rightarrow> await (n x) f)"
  by (cases v) simp_all

lemma await_prod: "await (case p of (a, b) \<Rightarrow> n a b) f = (case p of (a, b) \<Rightarrow> await (n a b) f)"
  by (cases p) simp

lemmas await_simps = await_assoc await_if await_option await_prod await_ret await_raise Let_def prod.case

text \<open>What an observation makes of a step and its record may be saved in their place.\<close>

definition replaces :: "'m coord_env \<Rightarrow> step_coordination_record \<Rightarrow> step \<Rightarrow> step \<times> step_coordination_record \<Rightarrow> bool" where
  "replaces env R S y \<longleftrightarrow> (case y of (s, r) \<Rightarrow> step_after S s \<and> record_next R r \<and>
     (\<forall>w::'m coord_world. pair_ok (w_ext w) R S \<longrightarrow> pair_ok (w_ext w) r s))"

lemma ckeeps_observe_success:
  assumes "istable env P" "record_next R r" "co_dependency_ids r = co_dependency_ids R" "co_phase r = co_phase R"
    "co_satisfied_dependency_ids r = co_satisfied_dependency_ids R" "co_current_attempt r = co_current_attempt R"
    and "\<And>y. replaces env R S y \<Longrightarrow> ckeeps home env P (f y)"
  shows "ckeeps home env P (await (observe_success env S R r) f)"
  unfolding observe_success_def await_simps
proof (intro ckeeps_if)
  show "ckeeps home env P (await (move_step env S S_SUCCEEDED) (\<lambda>s.
      await (with_record (r\<lparr>co_phase := CP_TERMINAL, co_retry_state := finished_retry R RS_COMPLETED\<rparr>)) (\<lambda>r. f (s, r))))"
    if "s_status S = S_RUNNING"
    by (rule ckeeps_move_step[OF assms(1)], rule ckeeps_with_record, rule assms(7))
      (use assms(2-6) that in \<open>auto simp: replaces_def save_simps\<close>)
qed (use assms in \<open>auto simp: replaces_def save_simps intro!: ckeeps_with_record\<close>)

lemma ckeeps_moved_if:
  assumes "istable env P"
    and "\<And>s. step_after S s \<Longrightarrow> if b then s_status s = t \<and> t \<in> STEP_TRANSITIONS (s_status S) else s = S \<Longrightarrow> ckeeps home env P (f s)"
  shows "ckeeps home env P (await (if b then move_step env S t else ret S) f)"
  unfolding await_simps by (intro ckeeps_if ckeeps_move_step assms) auto

lemma ckeeps_observe_failure:
  assumes "istable env P" "record_next R r" "co_satisfied_dependency_ids r = co_satisfied_dependency_ids R"
    and "\<And>y. replaces env R S y \<Longrightarrow> ckeeps home env P (f y)"
  shows "ckeeps home env P (await (observe_failure env S R r run key category now) f)"
proof -
  have "co_current_attempt R \<le> max (co_current_attempt R) n" for n by simp
  with assms(2,3) show ?thesis
    unfolding observe_failure_def Let_def await_assoc
    by (intro ckeeps_moved_if[OF assms(1)] ckeeps_pure) (unfold await_simps,
      auto intro!: ckeeps_with_record ckeeps_pure assms(4) simp: replaces_def save_simps split: if_splits)
qed

lemma ckeeps_observe_cancelled:
  assumes "istable env P" "record_next R r" "co_satisfied_dependency_ids r = co_satisfied_dependency_ids R"
    and "\<And>y. replaces env R S y \<Longrightarrow> ckeeps home env P (f y)"
  shows "ckeeps home env P (await (observe_cancelled env S R r key now) f)"
  using assms(2,3) unfolding observe_cancelled_def Let_def await_assoc
  by (intro ckeeps_moved_if[OF assms(1)] ckeeps_pure) (unfold await_simps,
    auto intro!: ckeeps_with_record assms(4) simp: replaces_def save_simps split: if_splits)

text \<open>The step read under a claim is still the current one when the claim is.\<close>

lemma ckeeps_hold_step:
  assumes "istable env P" "\<And>w. P w \<Longrightarrow> claim_drawn env c k w \<and> record_seen k R w" "p = co_plan_id R"
    and "\<And>S. s_id S = k \<Longrightarrow> s_plan_id S = p \<Longrightarrow> ckeeps home env (\<lambda>w. P w \<and> step_held env c k p S w) (f S)"
  shows "ckeeps home env P (await (fetch_step env p k) f)"
proof (rule ckeeps_await[OF isafe_fetch_step[OF assms(1), of "\<lambda>S w. P w \<and> step_held env c k p S w"]])
  show "istable env (\<lambda>w. P w \<and> step_held env c k p S w)" for S by (intro istables assms(1))
  show "P w \<and> step_held env c k p S w" if "P w" "step_of (w_ext w) p k = Some S" for w :: "'a coord_world" and S
    using assms(2)[OF that(1)] that assms(3)
    by (auto simp: step_held_def claim_drawn_def record_seen_def record_next_def dest!: record_after_next)
qed (rule cg.safe_pre_const, use assms(4) in blast)

lemma ckeeps_save_held:
  assumes "istable env P" "\<And>w. P w \<Longrightarrow> step_held env c k p S w \<and> record_seen k R w" "co_plan_id R = p" "s_id S = k"
    and "replaces env R S (s, r)" "\<And>x. ckeeps home env (\<lambda>_. True) (f x)"
  shows "ckeeps home env P (await (save env s r (co_revision R) c now) f)"
proof (rule ckeeps_last[OF csafe_save[OF assms(1)]])
  fix w :: "'a coord_world" and R' S'
  assume *: "P w" "dict_get (st_records (w_ext w)) k = Some R'" "co_revision R' = co_revision R"
    "step_of (w_ext w) (co_plan_id R') k = Some S'" "pair_ok (w_ext w) R' S'" "dict_get (st_claims (w_ext w)) k = Some c"
  have "R' = R" using assms(2)[OF *(1)] *(2,3) record_after_same[of R R'] by (auto simp: record_seen_def)
  moreover have "stands c k (w_ext w)" using *(6) by (simp add: stands_def)
  ultimately have "R' = R \<and> S' = S" using assms(2)[OF *(1)] *(4) assms(3) by (auto simp: step_held_def)
  with *(5) assms(5) show "step_after S' s \<and> record_next R' r \<and> pair_ok (w_ext w) r s" by (auto simp: replaces_def)
qed (use assms in \<open>auto simp: replaces_def step_after_def\<close>)

lemma fetch_step_bind: "await (fetch_plan env p) (\<lambda>q. await (pure (runtime_step q k)) f) = await (fetch_step env p k) f"
  by (simp add: fetch_step_def await_assoc)

lemma ckeeps_observe_outcome:
  assumes "home (co_step_id rd) = co_plan_id rd"
  shows "ckeeps home env (\<lambda>w. record_seen (co_step_id rd) rd w \<and> claim_drawn env c (co_step_id rd) w)
     (observe_outcome env run category okey run_id now rd c)"
  unfolding observe_outcome_def Let_def fetch_step_bind
proof (rule ckeeps_hold_step[where R = rd and c = c], intro istables, simp, rule refl, rule ckeeps_fetch_record, intro istables,
    rule ckeeps_if, rule ckeeps_ret, rule ckeeps_with_record)
  fix S :: step and R :: step_coordination_record
  assume *: "s_id S = co_step_id rd" "co_step_id R = co_step_id rd" "home (co_step_id rd) = co_plan_id R"
  let ?P = "\<lambda>w. ((record_seen (co_step_id rd) rd w \<and> claim_drawn env c (co_step_id rd) w) \<and>
      step_held env c (co_step_id rd) (co_plan_id rd) S w) \<and> record_seen (co_step_id rd) R w"
  let ?key = "or_default okey (default_key run_id (rs_status run))"
  let ?r = "R\<lparr>co_processed_keys := co_processed_keys R @ [?key], co_latest_run_id := Some run_id\<rparr>"
  have st: "istable env ?P" by (intro istables)
  have saves: "ckeeps home env ?P ((\<lambda>(s, r). await (save env s r (co_revision R) c now) (\<lambda>_. ret (co_plan_id R, True))) y)"
    if "replaces env R S y" for y
    using that * assms
    by (cases y) (auto intro!: ckeeps_save_held[where S = S and k = "co_step_id rd" and p = "co_plan_id rd"] istables)
  have r: "record_next R ?r" "co_dependency_ids ?r = co_dependency_ids R" "co_phase ?r = co_phase R"
    "co_satisfied_dependency_ids ?r = co_satisfied_dependency_ids R" "co_current_attempt ?r = co_current_attempt R"
    by (simp_all add: record_next_def)
  show "ckeeps home env ?P (await (if rs_status run = R_SUCCEEDED then observe_success env S R ?r
      else if rs_status run \<in> {R_FAILED, R_TIMED_OUT} then observe_failure env S R ?r run ?key category now
      else observe_cancelled env S R ?r ?key now)
      (\<lambda>(s, r). await (save env s r (co_revision R) c now) (\<lambda>_. ret (co_plan_id R, True))))"
    unfolding await_if
    by (intro ckeeps_if ckeeps_observe_success[OF st r] ckeeps_observe_failure[OF st r(1,4)]
        ckeeps_observe_cancelled[OF st r(1,4)] saves)
qed

lemma ckeeps_observe_run_outcome: "ckeeps home env (\<lambda>_. True) (observe_run_outcome env cfg tid rid category okey now)"
  unfolding observe_run_outcome_def
proof (rule ckeeps_own[OF istable_const kf.keeps_kernel(2)], intro ckeeps_if ckeeps_ret, rule ckeeps_fetch_record[OF istable_const],
    intro ckeeps_if ckeeps_ret)
  fix run :: run_state and R :: step_coordination_record
  assume R: "co_step_id R = r_subject_id (rs_run run)" "home (r_subject_id (rs_run run)) = co_plan_id R"
  show "ckeeps home env (\<lambda>w. True \<and> record_seen (r_subject_id (rs_run run)) R w)
      (await (claim_step env cfg (co_step_id R) now) (\<lambda>claim. case claim of None \<Rightarrow> ret (co_plan_id R, False)
        | Some c \<Rightarrow> holding env c (observe_outcome env run category okey rid now R c)))"
    by (rule ckeeps_claimed, intro istables, rule ckeeps_pre[OF ckeeps_observe_outcome]) (use R in auto)
qed

section \<open>Cancellation and lost runs\<close>

lemma keeps_cancel_active_run: "kernel_frame.keeps (coord_inv home env) (coord_interferes env) (cancel_active_run env r k)"
  unfolding cancel_active_run_def by (intro kf.keeps_rules kf.keeps_kernel)

lemma ckeeps_cancel_claimed:
  assumes "home step_id = plan_id"
  shows "ckeeps home env (\<lambda>_. True) (cancel_claimed_step env plan_id step_id key now c)"
  unfolding cancel_claimed_step_def
  by (rule ckeeps_fetch_both, intro istables, rule assms, rule ckeeps_own, intro istables, rule keeps_cancel_active_run,
      rule ckeeps_moved_if, intro istables, rule ckeeps_pure, rule ckeeps_with_record, rule ckeeps_save_pair, intro istables)
    (auto simp: save_simps split: if_splits)

lemma ckeeps_mark_claimed:
  assumes "home (co_step_id r) = co_plan_id r"
  shows "ckeeps home env (\<lambda>_. True) (mark_claimed env r detail disposition now c)"
  unfolding mark_claimed_def
  by (rule ckeeps_fetch_both, intro istables, rule assms, rule ckeeps_with_record, rule ckeeps_save_pair, intro istables)
    (auto simp: save_simps)

lemma ckeeps_mark_inconsistent:
  assumes "home (co_step_id r) = co_plan_id r"
  shows "ckeeps home env (\<lambda>_. True) (mark_inconsistent env cfg r detail disposition now)"
  unfolding mark_inconsistent_def
  by (rule ckeeps_claimed, intro istables, rule ckeeps_pre, rule ckeeps_mark_claimed) (simp_all add: assms)

text \<open>Reads that promise nothing.\<close>

lemma ckeeps_store_read: "ckeeps home env (\<lambda>_. True) (store_read env f)"
  by (rule isafe_csafe[OF isafe_store_read]) simp_all

lemma ckeeps_reads: "ckeeps home env (\<lambda>_. True) (fetch_plan env p)" "ckeeps home env (\<lambda>_. True) (fetch_step env p k)"
  "ckeeps home env (\<lambda>_. True) (fetch_record env k)" "ckeeps home env (\<lambda>_. True) (fetch_snapshot env p)"
  unfolding fetch_plan_def fetch_step_def fetch_record_def fetch_snapshot_def
  by (intro ckeeps_store_read ckeeps_last ckeeps_ret)+

lemma ckeeps_list_records:
  assumes "\<And>rs. (\<And>r. r \<in> set rs \<Longrightarrow> home (co_step_id r) = p \<and> co_plan_id r = p) \<Longrightarrow> ckeeps home env (\<lambda>_. True) (f rs)"
  shows "ckeeps home env (\<lambda>_. True) (await (store_read env (\<lambda>st. list_step_records st p)) f)"
proof (rule ckeeps_await[OF isafe_store_read[where Q = "\<lambda>rs _. \<forall>r\<in>set rs. home (co_step_id r) = p \<and> co_plan_id r = p"]])
  show "ckeeps home env (\<lambda>w::'a coord_world. (\<forall>r\<in>set rs. home (co_step_id r) = p \<and> co_plan_id r = p)) (f rs)" for rs
    by (rule ckeeps_given[where c = "\<forall>r\<in>set rs. home (co_step_id r) = p \<and> co_plan_id r = p"], rule assms) auto
  show "\<forall>r\<in>set rs. home (co_step_id r) = p \<and> co_plan_id r = p"
    if "coord_ok home (w_ext w)" "list_step_records (w_ext w) p = Inr rs" for w :: "'a coord_world" and rs
    using that snapshot_read[of home w p] by (fastforce simp: list_step_records_def sbind_eq_Inr snapshot_seen_def records_seen_def)
qed simp_all

lemma ckeeps_cancel_plan_step:
  assumes "home (co_step_id r) = p"
  shows "ckeeps home env (\<lambda>_. True) (cancel_plan_step env cfg p key now r)"
  unfolding cancel_plan_step_def
proof (rule ckeeps_await[OF isafe_fetch_step[where P = "\<lambda>_. True" and Q = "\<lambda>_ _. True"]])
  show "ckeeps home env (\<lambda>w::'a coord_world. (s_id s = co_step_id r \<and> s_plan_id s = p) \<and> True)
     (if s_status s \<in> {S_SUCCEEDED, S_SKIPPED, S_CANCELLED} then ret ()
      else await (claim_step env cfg (s_id s) now) (\<lambda>claim. case claim of None \<Rightarrow> ret ()
        | Some c \<Rightarrow> holding env c (cancel_claimed_step env p (s_id s) key now c)))" for s
    by (rule cg.safe_pre_const, intro ckeeps_if ckeeps_ret ckeeps_claimed istables, rule ckeeps_pre[OF ckeeps_cancel_claimed])
      (use assms in auto)
qed simp_all

lemma ckeeps_cancel_plan_steps: "ckeeps home env (\<lambda>_. True) (cancel_plan_steps env cfg p key now)"
  unfolding cancel_plan_steps_def
  by (intro ckeeps_pure ckeeps_last[OF ckeeps_reads(1)] ckeeps_list_records ckeeps_last[OF ckeeps_each] ckeeps_cancel_plan_step
      ckeeps_own kf.keeps_rules kf.keeps_kernel istable_const cg.stable_const ckeeps_ret) simp_all

section \<open>Waits\<close>

lemma ckeeps_required:
  assumes "istable env P" "\<And>c. ckeeps home env (\<lambda>w. P w \<and> claim_drawn env c k w) (f c)"
  shows "ckeeps home env P (await (required_claim env cfg k now) f)"
  by (rule ckeeps_await[OF isafe_required_claim[OF assms(1)] assms(2)])

lemma ckeeps_fetch_plan_step:
  assumes "istable env P"
    and "\<And>q S. s_id S = k \<Longrightarrow> s_plan_id S = p \<Longrightarrow> ckeeps home env (\<lambda>w. P w \<and> step_reached p S w) (f q S)"
  shows "ckeeps home env P (await (fetch_plan env p) (\<lambda>q. await (pure (runtime_step q k)) (f q)))"
proof -
  let ?Q = "\<lambda>q w. P w \<and> (\<forall>S. runtime_step q k = Inr S \<longrightarrow> (s_id S = k \<and> s_plan_id S = p) \<and> step_reached p S w)"
  show ?thesis
    unfolding fetch_plan_def
  proof (rule ckeeps_await[OF isafe_store_read[where Q = ?Q, OF assms(1)]])
    show "istable env (?Q q)" for q by (intro istables assms(1))
    show "?Q q w" if "coord_ok home (w_ext w)" "P w" "get_plan (w_ext w) p = Inr q" for w :: "'a coord_world" and q
      using that runtime_step_of[of "w_ext w" p q k] step_of_id step_of_plan[OF coord_okD(1)] by (fastforce simp: step_reached_def)
    show "ckeeps home env (?Q q) (await (pure (runtime_step q k)) (f q))" for q
    proof (rule ckeeps_pure)
      fix S assume S: "runtime_step q k = Inr S"
      show "ckeeps home env (?Q q) (f q S)"
        by (rule ckeeps_given[where c = "s_id S = k \<and> s_plan_id S = p"], rule assms(2)) (use S in auto)
    qed
  qed
qed

text \<open>A record that says an attempt is active says that its step is running, whenever the step was read.\<close>

lemma ckeeps_save_waiting:
  assumes "s_id s = k" "step_after s s'" "s_status s = S_RUNNING" "s_status s' = S_WAITING" "co_phase R = CP_ATTEMPT_ACTIVE"
    "co_plan_id R = p"
  shows "ckeeps home env (\<lambda>w. step_reached p s w \<and> record_seen k R w)
     (save env s' (R\<lparr>co_phase := CP_WAITING, co_wait := Some wait\<rparr>) (co_revision R) c now)"
proof (rule csafe_save, intro istables)
  fix w :: "'a coord_world" and R' S'
  assume *: "step_reached p s w \<and> record_seen k R w" "dict_get (st_records (w_ext w)) k = Some R'" "co_revision R' = co_revision R"
    "step_of (w_ext w) (co_plan_id R') k = Some S'" "pair_ok (w_ext w) R' S'"
  have R: "R' = R" using *(1-3) record_after_same[of R R'] by (auto simp: record_seen_def)
  with *(5) assms(5) have "s_status S' = S_RUNNING" by (simp add: pair_ok_def)
  moreover have "step_after s S'" using *(1,4) assms(1,6) R by (auto simp: step_reached_def)
  ultimately show "step_after S' s' \<and> record_next R' (R\<lparr>co_phase := CP_WAITING, co_wait := Some wait\<rparr>) \<and>
      pair_ok (w_ext w) (R\<lparr>co_phase := CP_WAITING, co_wait := Some wait\<rparr>) s'"
    using R *(5) assms(2-4) by (auto simp: save_simps)
qed (use assms(1,2) in \<open>simp add: step_after_def\<close>)

lemma ckeeps_wait_step_record: "ckeeps home env (\<lambda>_. True) (wait_step_record env cfg wait now)"
  unfolding wait_step_record_def
proof (rule ckeeps_fetch_plan_step, intro istables, rule ckeeps_fetch_record, intro istables, rule ckeeps_pure,
    intro ckeeps_if ckeeps_ret, rule ckeeps_required, intro istables, rule ckeeps_last[OF csafe_holding],
    rule ckeeps_move_step, intro istables, rule ckeeps_with_record)
  fix S s' :: step and R :: step_coordination_record and q x c
  assume *: "s_id S = wt_step_id wait" "s_plan_id S = wt_plan_id wait" "step_after S s'" "s_status s' = S_WAITING"
    "validate_wait_scope wait (pl_plan q) S R = Inr x" "\<not> (s_status S \<noteq> S_RUNNING \<or> co_phase R \<noteq> CP_ATTEMPT_ACTIVE)"
  have "co_plan_id R = wt_plan_id wait" using *(5) by (auto simp: validate_wait_scope_def sbind_eq_Inr)
  with * show "ckeeps home env (\<lambda>w. ((True \<and> step_reached (wt_plan_id wait) S w) \<and> record_seen (wt_step_id wait) R w) \<and>
      claim_drawn env c (s_id S) w)
     (save env s' (R\<lparr>co_phase := CP_WAITING, co_wait := Some wait\<rparr>) (co_revision R) c now)"
    by (intro ckeeps_pre[OF ckeeps_save_waiting]) auto
qed simp_all

lemma ckeeps_satisfy_wait:
  assumes "istable env P" "\<And>s phase retry. step_after S s \<Longrightarrow> s_status S \<in> started_statuses \<Longrightarrow> phase_matches phase (s_status s) \<Longrightarrow>
      phase \<noteq> CP_RETRY_SCHEDULED \<Longrightarrow> ckeeps home env P (f (s, phase, retry))"
  shows "ckeeps home env P (await (satisfy_wait env S R) f)"
proof -
  have started: "s_status S \<in> started_statuses" if "S_RUNNING \<in> STEP_TRANSITIONS (s_status S)"
    using that by (cases "s_status S") (auto simp: started_statuses_def)
  show ?thesis
    unfolding satisfy_wait_def await_simps
    by (rule ckeeps_move_step[OF assms(1)], rule ckeeps_option, rule assms(2)[OF _ started], assumption+, simp, simp,
        rule ckeeps_own[OF assms(1) kf.keeps_kernel(2)], intro ckeeps_if)
      (auto intro!: ckeeps_move_step assms(1) intro: assms(2) step_after_trans started)
qed

lemma ckeeps_resolve_claimed: "ckeeps home env (\<lambda>_. True) (resolve_claimed env k resolution key now wait c)"
  unfolding resolve_claimed_def Let_def
proof (rule ckeeps_fetch_record, intro istables, intro ckeeps_if ckeeps_ret, rule ckeeps_fetch_pair, intro istables, blast, rule refl,
    rule ckeeps_pure)
  fix S :: step and R :: step_coordination_record and closed
  assume *: "co_step_id R = k" "s_id S = k" "s_plan_id S = co_plan_id R"
  let ?P = "\<lambda>w. (True \<and> record_seen k R w) \<and> pair_seen k R S w"
  let ?keys = "co_processed_keys R @ [key]"
  have st: "istable env (pair_seen k R S)" by (intro istables)
  have failed: "s_status S \<in> started_statuses" if "S_FAILED \<in> STEP_TRANSITIONS (s_status S)"
    using that by (cases "s_status S") (auto simp: started_statuses_def)
  have saves: "ckeeps home env (pair_seen k R S) (await (with_record r) (\<lambda>r. await (save env s r (co_revision R) c now) (\<lambda>_. ret x)))"
    if "replaces env R S (s, r)" for s r x
    by (rule ckeeps_with_record, rule ckeeps_pre[OF ckeeps_save_pair[where P = "\<lambda>_. True" and S = S and R = R and k = k]])
      (use that * in \<open>auto simp: replaces_def\<close>)
  show "ckeeps home env ?P
     (await (case resolution of
         WR_SATISFIED \<Rightarrow>
           await (satisfy_wait env S R) (\<lambda>(next_step, phase, retry).
           await (with_record (R\<lparr>co_phase := phase, co_wait := closed, co_retry_state := retry,
             co_processed_keys := ?keys\<rparr>)) (\<lambda>r. ret (next_step, r)))
       | WR_CANCELLED \<Rightarrow>
           await (cancel_active_run env R (''wait:'' @ key @ '':cancel'')) (\<lambda>_.
           await (move_step env S S_CANCELLED) (\<lambda>next_step.
           await (with_record (R\<lparr>co_phase := CP_TERMINAL, co_wait := closed, co_retry_due_at := None,
             co_retry_state := stopped_retry R RS_CANCELLED, co_processed_keys := ?keys\<rparr>))
           (\<lambda>r. ret (next_step, r))))
       | _ \<Rightarrow>
           await (cancel_active_run env R (''wait:'' @ key @ '':fail'')) (\<lambda>_.
           await (move_step env S S_FAILED) (\<lambda>next_step.
           await (with_record (R\<lparr>co_phase := CP_TERMINAL, co_wait := closed, co_retry_due_at := None,
             co_retry_state := stopped_retry R RS_NOT_RETRYABLE, co_processed_keys := ?keys\<rparr>))
           (\<lambda>r. ret (next_step, r)))))
       (\<lambda>(next_step, updated). await (save env next_step updated (co_revision R) c now) (\<lambda>_. ret (co_plan_id R, True))))"
    by (rule ckeeps_pre[where P' = "pair_seen k R S"], cases resolution; simp only: wait_resolution.case await_simps)
      (auto intro!: ckeeps_own[OF st keeps_cancel_active_run] ckeeps_move_step[OF st] ckeeps_satisfy_wait[OF st] saves dest: failed
        simp: replaces_def save_simps)
qed

lemma ckeeps_resolve_wait: "ckeeps home env (\<lambda>_. True) (resolve_wait env cfg k resolution key now)"
  unfolding resolve_wait_def
  by (intro ckeeps_pure ckeeps_last[OF ckeeps_reads(3)] ckeeps_if ckeeps_option ckeeps_ret ckeeps_required istables
      csafe_holding ckeeps_pre[OF ckeeps_resolve_claimed]) simp_all

lemma ckeeps_active_wait:
  "(\<And>x. ckeeps home env (\<lambda>_. True) (f x)) \<Longrightarrow> ckeeps home env (\<lambda>_. True) (active_wait env k key kind f)"
  unfolding active_wait_def by (intro ckeeps_last[OF ckeeps_reads(3)] ckeeps_if ckeeps_option ckeeps_ret)

lemma ckeeps_typed_waits:
  "ckeeps home env (\<lambda>_. True) (resolve_approval_wait env cfg k aid st sid act outcome key owner pid now)"
  "ckeeps home env (\<lambda>_. True) (resolve_event_wait env cfg k eid et ck owner pid now)"
  "ckeeps home env (\<lambda>_. True) (resolve_external_job_wait env cfg k ref resolution key owner pid now)"
  unfolding resolve_approval_wait_def resolve_event_wait_def resolve_external_job_wait_def Let_def
  by (intro ckeeps_pure ckeeps_active_wait ckeeps_if ckeeps_ret ckeeps_resolve_wait)+

section \<open>Repair\<close>

interpretation ke: kernel_frame "coord_inv home env" coord_evolves env for home env
  by unfold_locales
    (auto simp: coord_inv_def coord_evolves_def intro: isafe_csafe[OF kf.suspend_safe] isafe_csafe[OF kf.start_safe]
      isafe_csafe[OF kf.get_safe] isafe_csafe[OF kf.cancel_safe] isafe_csafe[OF kf.sink_safe] isafe_csafe[OF kf.assess_safe])

lemma ckeeps_projection: "ckeeps home env (\<lambda>_. True) (async_projection env p)"
  unfolding async_projection_def by (intro ke.keeps_rules ckeeps_reads)

lemma ckeeps_projected: "ckeeps home env (\<lambda>_. True) (projected env p)"
  unfolding projected_def by (intro ke.keeps_rules ckeeps_projection)

lemma ckeeps_repaired_step:
  assumes "istable env P"
    and "\<And>s. step_after S s \<Longrightarrow> s_status s = S_CANCELLED \<or> s = S \<Longrightarrow> ckeeps home env P (f s)"
  shows "ckeeps home env P (await (repaired_step env act R S) f)"
  unfolding repaired_step_def
  by (cases act) (auto simp: await_assoc intro!: ckeeps_own[OF assms(1)] ckeeps_move_step[OF assms(1)] assms(2)
      kf.keeps_rules kf.keeps_kernel split: option.split)

lemma ckeeps_repair_claimed:
  assumes "home k = p"
  shows "ckeeps home env (\<lambda>_. True) (repair_claimed env p k act expected key now c)"
  unfolding repair_claimed_def Let_def
proof (rule ckeeps_fetch_record, intro istables, intro ckeeps_if, rule ckeeps_pre[OF ckeeps_projected], simp, rule ckeeps_pure,
    rule ckeeps_fetch_pair, intro istables, blast, simp add: assms, rule ckeeps_repaired_step, intro istables,
    rule ckeeps_with_record, rule ckeeps_save_pair, intro istables)
  fix S s :: step and R :: step_coordination_record and w :: "'a coord_world"
  assume "s_status s = S_CANCELLED \<or> s = S" "step_after S s" "pair_ok (w_ext w) R S"
  then show "pair_ok (w_ext w) (R\<lparr>co_phase := CP_TERMINAL, co_retry_due_at := None, co_retry_state := stopped_retry R RS_CANCELLED,
      co_wait := case co_wait R of None \<Rightarrow> None | Some x \<Rightarrow> if wait_resolved x then Some x else None,
      co_processed_keys := co_processed_keys R @ [key], co_reconciliation := RD_CANONICAL_TERMINAL,
      co_reconciliation_detail := Some (''operator repair applied: '' @ repair_action_value act)\<rparr>) s"
    by (elim disjE) (auto simp: save_simps)
qed (simp_all add: record_next_def)

section \<open>Registration\<close>

lemma isafe_registration_record:
  "isafe home env (\<lambda>_. True) (registration_record env plan policies failure_policy s)
     (\<lambda>r _. co_plan_id r = p_id plan \<and> co_step_id r = s_id s \<and> step_coordination_record_post_init r = Inr r \<and>
        co_phase r = CP_BLOCKED \<and> co_satisfied_dependency_ids r = [] \<and> co_dependency_ids r = s_depends_on s)"
  unfolding registration_record_def with_record_def
  by (rule ci.safe_await[OF kf.keeps_basic(3)], rule ci.safe_await[OF kf.keeps_basic(3)], rule isafe_pure)
    (auto dest: record_post_init_id)

lemma fresh_records:
  assumes "list_all2 (\<lambda>s r. co_plan_id r = p_id plan \<and> co_step_id r = s_id s \<and> step_coordination_record_post_init r = Inr r \<and>
      co_phase r = CP_BLOCKED \<and> co_satisfied_dependency_ids r = [] \<and> co_dependency_ids r = s_depends_on s) steps rs"
    and "list_all (\<lambda>s. s_status s = S_PENDING) steps"
  shows "map co_step_id rs = map s_id steps" "list_all (fresh_record plan steps) rs"
proof -
  show "map co_step_id rs = map s_id steps"
    using assms(1) by (induction rule: list_all2_induct) auto
  have "\<exists>s\<in>set steps. co_plan_id r = p_id plan \<and> co_step_id r = s_id s \<and> step_coordination_record_post_init r = Inr r \<and>
      co_phase r = CP_BLOCKED \<and> co_satisfied_dependency_ids r = [] \<and> co_dependency_ids r = s_depends_on s" if "r \<in> set rs" for r
    using assms(1) that by (induction rule: list_all2_induct) (simp, fastforce)
  with assms(2) show "list_all (fresh_record plan steps) rs"
    by (fastforce simp: list_all_iff fresh_record_def)
qed

lemma ckeeps_create_plan:
  assumes "list_all (fresh_record plan steps) rs" "distinct (map co_step_id rs)" "list_all (\<lambda>s. home (s_id s) = p_id plan) steps"
  shows "ckeeps home env (\<lambda>_. True) (on_store (create_plan plan steps rs))"
proof (rule cg.safeI)
  fix w :: "'a coord_world" and r w' assume *: "coord_inv home env w" "on_store (create_plan plan steps rs) w = (r, w')"
  obtain st' where c: "create_plan plan steps rs (w_ext w) = (r, st')" and w': "w' = w\<lparr>w_ext := st'\<rparr>"
    using *(2) by (auto simp: on_store_def split: prod.splits)
  from create_plan_effect[OF _ c assms] *(1) w' show "coord_inv home env w' \<and> coord_evolves w w' \<and> (\<forall>x. r = Inr x \<longrightarrow> True)"
    by (simp add: coord_inv_def coord_evolves_def)
qed

lemma ckeeps_register:
  assumes "list_all (\<lambda>s. home (s_id s) = p_id plan) steps"
  shows "ckeeps home env (\<lambda>_. True) (register env plan steps policies failure_policy)"
  unfolding register_def Let_def
proof (rule ckeeps_pure, rule ckeeps_own[OF istable_const kf.keeps_kernel(1)], intro ckeeps_if ckeeps_ret,
    rule ckeeps_await[OF ci.safe_each[OF isafe_registration_record]], simp, simp)
  fix x rs assume valid: "validate_graph plan steps = Inr x"
  let ?C = "list_all2 (\<lambda>s r. co_plan_id r = p_id plan \<and> co_step_id r = s_id s \<and> step_coordination_record_post_init r = Inr r \<and>
        co_phase r = CP_BLOCKED \<and> co_satisfied_dependency_ids r = [] \<and> co_dependency_ids r = s_depends_on s) steps rs"
  have wf: "distinct (map s_id steps)" "list_all (\<lambda>s. s_status s = S_PENDING) steps"
    using valid validate_graph_iff[of plan steps] by (auto simp: well_formed_steps_def step_ids_def list_all_iff)
  show "ckeeps home env (\<lambda>w::'a coord_world. ?C) (await (store_call env (on_store (create_plan plan steps rs))) (\<lambda>_. ret ()))"
  proof (rule ckeeps_given[where c = ?C and P' = "\<lambda>_. True"])
    assume ?C
    from fresh_records[OF this wf(2)] wf(1)
    show "ckeeps home env (\<lambda>_. True) (await (store_call env (on_store (create_plan plan steps rs))) (\<lambda>_. ret ()))"
      by (intro ckeeps_last[OF csafe_store_call] ckeeps_create_plan assms istable_const ckeeps_ret) auto
  qed auto
qed

end
