(* ===== verification/Coordinator_Runtime_Safe.thy ===== *)
theory Coordinator_Runtime_Safe
  imports Coordinator_Signals_Safe
begin

text \<open>
  Every request of the coordinator facade keeps the store valid and only lets it grow, whatever the
  other coordinators and the collaborators of the kernel do within the rely.
\<close>

section \<open>Advance and projection\<close>

lemma ckeeps_aggregate: "ckeeps home env (\<lambda>_. True) (aggregate_task env p)"
  unfolding aggregate_task_def Let_def by (intro ke.keeps_rules ke.keeps_kernel ckeeps_reads ckeeps_store_read)

lemma ckeeps_now: "ckeeps home env (\<lambda>_. True) (coordinator_now env now)"
  unfolding coordinator_now_def by (intro ke.keeps_rules)

lemma ckeeps_advance: "ckeeps home env (\<lambda>_. True) (advance env cfg fuel p now)"
  unfolding advance_def
  by (intro ke.keeps_rules ckeeps_now ckeeps_advance_loop ckeeps_aggregate ckeeps_projection)

lemma ckeeps_and_then:
  "ckeeps home env (\<lambda>_. True) m \<Longrightarrow> (\<And>x. ckeeps home env (\<lambda>_. True) (f x)) \<Longrightarrow> ckeeps home env (\<lambda>_. True) (and_then m f)"
  unfolding and_then_def by (intro ke.keeps_rules)

lemma ckeeps_progress: "ckeeps home env (\<lambda>_. True) (progress env cfg fuel now r)"
  unfolding progress_def by (intro ke.keeps_rules ckeeps_and_then ckeeps_advance ckeeps_projected)

lemma ckeeps_each_opt:
  "(\<And>x. x \<in> set xs \<Longrightarrow> ckeeps home env (\<lambda>_. True) (f x)) \<Longrightarrow> ckeeps home env (\<lambda>_. True) (each_opt f xs)"
  by (induction xs) (auto intro!: ckeeps_and_then)

lemmas ckeeps_steps = ke.keeps_rules ckeeps_now ckeeps_and_then ckeeps_advance ckeeps_projected ckeeps_progress ckeeps_store_read
  ckeeps_reads

section \<open>Requests\<close>

lemma ckeeps_observe_run: "ckeeps home env (\<lambda>_. True) (observe_run env cfg fuel tid rid category okey now)"
  unfolding observe_run_def by (intro ckeeps_steps ckeeps_observe_run_outcome)

lemma ckeeps_resolutions:
  "ckeeps home env (\<lambda>_. True) (wait_step env cfg wait now)"
  "ckeeps home env (\<lambda>_. True) (resolve_approval env cfg fuel k aid st sid act outcome key owner pid now)"
  "ckeeps home env (\<lambda>_. True) (resolve_event env cfg fuel k eid et ck owner pid now)"
  "ckeeps home env (\<lambda>_. True) (resolve_external_job env cfg fuel k ref resolution key owner pid now)"
  "ckeeps home env (\<lambda>_. True) (cancel_plan env cfg p key now)"
  unfolding wait_step_def resolve_approval_def resolve_event_def resolve_external_job_def cancel_plan_def
  by (intro ckeeps_steps ckeeps_wait_step_record ckeeps_typed_waits ckeeps_cancel_plan_steps)+

lemma ckeeps_process_due: "ckeeps home env (\<lambda>_. True) (process_due env cfg fuel now)"
  unfolding process_due_def due_plan_def due_record_def Let_def
  by (intro ckeeps_steps ckeeps_each_opt ckeeps_resolve_wait)

lemma ckeeps_on_not_found_run:
  assumes "\<And>run. ckeeps home env (\<lambda>_. True) (f run)" "ckeeps home env (\<lambda>_. True) h"
  shows "ckeeps home env (\<lambda>_. True) (on_not_found (get_run env t r) f h)"
  by (intro ke.keeps_on_not_found ke.keeps_kernel assms)

lemma ckeeps_reconcile_record:
  "home (co_step_id r) = co_plan_id r \<Longrightarrow> ckeeps home env (\<lambda>_. True) (reconcile_record env cfg fuel now r)"
  unfolding reconcile_record_def
  by (intro ckeeps_steps ckeeps_on_not_found_run ckeeps_mark_inconsistent ckeeps_observe_run ke.keeps_kernel)

lemma ckeeps_reconcile_plan: "ckeeps home env (\<lambda>_. True) (reconcile_plan env cfg fuel p now)"
  unfolding reconcile_plan_def
  by (intro ke.keeps_await ckeeps_now ckeeps_reads ke.keeps_kernel ckeeps_list_records ckeeps_and_then ckeeps_each_opt
      ckeeps_reconcile_record ckeeps_process_due ckeeps_advance ckeeps_projected) simp

lemma ckeeps_reconcile_all: "ckeeps home env (\<lambda>_. True) (reconcile_all env cfg fuel now)"
  unfolding reconcile_all_def by (intro ckeeps_steps ckeeps_each_opt ckeeps_reconcile_plan)

lemma ckeeps_repair_step: "ckeeps home env (\<lambda>_. True) (repair_step env cfg fuel p k act expected key now)"
  unfolding repair_step_def Let_def
proof (intro ckeeps_pure, rule ckeeps_own[OF istable_const], unfold coordinator_now_def, intro kf.keeps_rules,
    rule ckeeps_fetch_record[OF istable_const], intro ckeeps_if ckeeps_ret, rule ckeeps_pre[OF ckeeps_projected], simp, intro ckeeps_pure)
  fix t and R :: step_coordination_record
  assume R: "home k = co_plan_id R" "\<not> co_plan_id R \<noteq> p"
  show "ckeeps home env (\<lambda>w. True \<and> record_seen k R w)
     (await (store_call env (draw_claim env (\<lambda>claim_id. on_store (acquire_claim claim_id k (cc_coordinator_id cfg) (cc_claim_ttl cfg) t))))
       (\<lambda>claim. case claim of None \<Rightarrow> raise (ContractError CONFLICT False [(''step_id'', JStr k)])
       | Some c \<Rightarrow> await (holding env c (repair_claimed env p k act expected (''repair:'' @ key) t c))
          (\<lambda>replayed. case replayed of Some p \<Rightarrow> ret (Some p)
           | None \<Rightarrow> and_then (advance env cfg fuel p (Some t)) (\<lambda>_. projected env p))))"
  proof (rule ckeeps_await[OF isafe_acquire], intro istables, rule ckeeps_option, rule ckeeps_ret)
    show "ckeeps home env Q (await (holding env c (repair_claimed env p k act expected (''repair:'' @ key) t c))
          (\<lambda>replayed. case replayed of Some p \<Rightarrow> ret (Some p)
           | None \<Rightarrow> and_then (advance env cfg fuel p (Some t)) (\<lambda>_. projected env p)))" for Q c
      by (rule ckeeps_pre[where P' = "\<lambda>_. True"], intro ckeeps_steps csafe_holding ckeeps_repair_claimed) (use R in auto)
  qed
qed

text \<open>A registration must agree with the plan each of its steps belongs to; nothing else is asked.\<close>

fun admissible :: "(string \<Rightarrow> string) \<Rightarrow> coordinator_command \<Rightarrow> bool" where
  "admissible home (Register_Plan plan steps policies failure_policy) = list_all (\<lambda>s. home (s_id s) = p_id plan) steps"
| "admissible home _ = True"

lemma ckeeps_coordinate: "admissible home cmd \<Longrightarrow> ckeeps home env (\<lambda>_. True) (coordinate env cfg fuel cmd)"
  by (cases cmd) (auto simp: listed_def register_plan_def intro!: ckeeps_and_then ckeeps_register ke.keeps_await ckeeps_advance
      ckeeps_projected ckeeps_observe_run ckeeps_resolutions ckeeps_process_due ckeeps_reconcile_plan ckeeps_reconcile_all
      ckeeps_repair_step)

lemma coordinate_step:
  assumes "coord_rely home env" "coord_ok home (w_ext w)" "admissible home cmd"
  shows "coord_ok home (w_ext (snd (coordinate env cfg fuel cmd w))) \<and> store_grows (w_ext w) (w_ext (snd (coordinate env cfg fuel cmd w)))"
proof -
  obtain r w' where run: "coordinate env cfg fuel cmd w = (r, w')" by (cases "coordinate env cfg fuel cmd w")
  have "coord_inv home env w" using assms(1,2) by (simp add: coord_inv_def)
  from cg.safeD(1,2)[OF ckeeps_coordinate[OF assms(3)] this TrueI run] show ?thesis
    by (simp add: run coord_inv_def coord_evolves_def)
qed

lemma coordinates_steps:
  assumes "coord_rely home env" "coord_ok home (w_ext w)" "list_all (admissible home) cmds"
  shows "coord_ok home (w_ext (coordinates env cfg fuel cmds w)) \<and> store_grows (w_ext w) (w_ext (coordinates env cfg fuel cmds w))"
  using assms(2,3)
proof (induction cmds arbitrary: w)
  case (Cons cmd cmds)
  let ?w = "snd (coordinate env cfg fuel cmd w)"
  have 1: "coord_ok home (w_ext ?w)" "store_grows (w_ext w) (w_ext ?w)"
    using coordinate_step[OF assms(1) Cons.prems(1)] Cons.prems(2) by simp_all
  with Cons.IH[OF 1(1)] Cons.prems(2) store_grows_trans[OF 1(2)] show ?case by simp
qed simp

end
