(* ===== verification/Coordinator_Demo.thy ===== *)
theory Coordinator_Demo
  imports Coordinator_Runtime_Safe Kernel_Demo
begin

text \<open>
  A concrete coordination at which the properties are instantiated: a plan of two steps, the second of
  which depends on the first, in a world where nothing else runs and the lifecycle backend refuses
  every call.
\<close>

section \<open>The world\<close>

definition still_env :: "unit coord_env" where
  "still_env = \<lparr>env_uuid4 = unary_uuid, env_utc_now = (\<lambda>n. int n), env_suspend = ret (),
     env_plan = (\<lambda>_. raise RuntimeError), env_start = (\<lambda>_. raise RuntimeError),
     env_get = (\<lambda>_ _. raise RuntimeError), env_cancel = (\<lambda>_ _. raise RuntimeError),
     env_event_sink = None, env_assess = None, env_invalidate = None, env_async_invalidate = None,
     env_observer = None, env_interrupted = (\<lambda>_. False)\<rparr>"

definition demo_cfg :: coordinator_config where
  "demo_cfg = \<lparr>cc_coordinator_id = ''c'', cc_claim_ttl = 1000\<rparr>"

definition demo_plan_id :: string where
  "demo_plan_id = ''plan_11111111-1111-1111-1111-111111111110''"

definition demo_first :: string where
  "demo_first = ''step_11111111-1111-1111-1111-111111111110''"

definition demo_second :: string where
  "demo_second = ''step_11111111-1111-1111-1111-111111111100''"

definition demo_run2 :: string where
  "demo_run2 = ''run_11111111-1111-1111-1111-111111111110''"

definition demo_owner :: owner_ref where
  "demo_owner = \<lparr>ow_type = ''user'', ow_id = ''u''\<rparr>"

definition demo_plan :: plan where
  "demo_plan = \<lparr>p_task_id = demo_task, p_owner_ref = demo_owner, p_id = demo_plan_id, p_revision = 1, p_active = True,
     p_project_id = None, p_created_at = 0, p_schema_version = SCHEMA_VERSION, p_provenance = None, p_external_refs = []\<rparr>"

definition demo_step :: "string \<Rightarrow> step_status \<Rightarrow> string list \<Rightarrow> step" where
  "demo_step k status deps = \<lparr>s_plan_id = demo_plan_id, s_title = ''S'', s_owner_ref = demo_owner, s_id = k, s_status = status,
     s_parent_step_id = None, s_depends_on = deps, s_project_id = None, s_created_at = 0, s_updated_at = 0,
     s_schema_version = SCHEMA_VERSION, s_provenance = None, s_external_refs = []\<rparr>"

definition demo_policy :: step_retry_policy where
  "demo_policy = \<lparr>rt_max_attempts = 2, rt_initial_delay_seconds = 1, rt_multiplier = 2, rt_max_delay_seconds = 300,
     rt_retryable_categories = [''failed''], rt_version = 1\<rparr>"

definition demo_failed_key :: string where
  "demo_failed_key = default_key demo_run R_FAILED"

definition demo_record :: "string \<Rightarrow> coordination_phase \<Rightarrow> string list \<Rightarrow> string list \<Rightarrow> step_coordination_record" where
  "demo_record k phase deps satisfied =
     \<lparr>co_task_id = demo_task, co_plan_id = demo_plan_id, co_plan_revision = 1, co_step_id = k, co_phase = phase,
      co_dependency_ids = deps, co_satisfied_dependency_ids = satisfied, co_latest_run_id = None, co_current_attempt = 0,
      co_retry_policy = demo_policy, co_retry_due_at = None, co_retry_state = RS_NONE, co_wait = None,
      co_predecessor_failure_policy = PF_FAIL_FAST, co_processed_keys = [], co_reconciliation = RD_CONSISTENT,
      co_reconciliation_detail = None, co_correlation_id = Some demo_task, co_causation_id = None,
      co_provenance_source = ''platform-coordinator'', co_revision = 1, co_created_at = 0, co_updated_at = 0\<rparr>"

definition demo_store :: "step_status \<Rightarrow> step_coordination_record \<Rightarrow> step_status \<Rightarrow> step_coordination_record \<Rightarrow> coordinator_store" where
  "demo_store s1 r1 s2 r2 =
     \<lparr>st_plans = [(demo_plan_id, \<lparr>pl_plan = demo_plan, pl_steps = [demo_step demo_first s1 [], demo_step demo_second s2 [demo_first]],
        pl_store_revision = 1\<rparr>)],
      st_records = [(demo_first, r1), (demo_second, r2)], st_claims = [], st_fences = []\<rparr>"

definition coord_world_of :: "event list \<Rightarrow> coordinator_store \<Rightarrow> coordinator_store world" where
  "coord_world_of evs st = \<lparr>w_repo = \<lparr>mr_streams = [(demo_task, evs)], mr_commands = []\<rparr>, w_draws = 0, w_ticks = 0, w_ext = st\<rparr>"

text \<open>The first step failed once and its retry is scheduled; the second is blocked on it.\<close>

definition retrying_first :: step_coordination_record where
  "retrying_first = (demo_record demo_first CP_RETRY_SCHEDULED [] [])
     \<lparr>co_latest_run_id := Some demo_run, co_current_attempt := 1, co_retry_due_at := Some 100, co_retry_state := RS_SCHEDULED,
      co_processed_keys := [demo_failed_key]\<rparr>"

definition retrying_store :: coordinator_store where
  "retrying_store = demo_store S_FAILED retrying_first S_PENDING (demo_record demo_second CP_BLOCKED [demo_first] [])"

text \<open>Its second attempt runs, or has succeeded and the second step was dispatched.\<close>

definition running_first :: step_coordination_record where
  "running_first = (demo_record demo_first CP_ATTEMPT_ACTIVE [] [])
     \<lparr>co_latest_run_id := Some demo_run2, co_current_attempt := 2, co_retry_state := RS_ACTIVE, co_processed_keys := [demo_failed_key]\<rparr>"

definition running_store :: coordinator_store where
  "running_store = demo_store S_RUNNING running_first S_PENDING (demo_record demo_second CP_BLOCKED [demo_first] [])"

definition succeeded_store :: coordinator_store where
  "succeeded_store = demo_store S_SUCCEEDED (running_first\<lparr>co_phase := CP_TERMINAL, co_retry_state := RS_COMPLETED\<rparr>)
     S_RUNNING ((demo_record demo_second CP_ATTEMPT_ACTIVE [demo_first] [demo_first])\<lparr>co_current_attempt := 1\<rparr>)"

section \<open>It is valid and nothing interferes\<close>

lemma still_rely: "coord_rely home still_env"
  by (auto simp: coord_rely_def still_env_def coord_external_def ret_def raise_def same_ext_interferes)

lemma demo_valid_ids [simp]:
  "validate_id demo_task ''task'' = Inr demo_task" "validate_id demo_plan_id ''plan'' = Inr demo_plan_id"
  "validate_id demo_first ''step'' = Inr demo_first" "validate_id demo_second ''step'' = Inr demo_second"
  "validate_id demo_run ''run'' = Inr demo_run" "validate_id demo_run2 ''run'' = Inr demo_run2"
  by code_simp+

lemma demo_apart [simp]: "demo_first \<noteq> demo_second" "demo_second \<noteq> demo_first" "demo_run2 \<noteq> demo_run" "demo_failed_key \<noteq> ''again''"
  "''again'' \<noteq> demo_failed_key"
  by code_simp+

lemmas demo_simps = demo_record_def demo_step_def demo_plan_def retrying_first_def running_first_def demo_policy_def guard_def
  step_coordination_record_post_init_def plan_runtime_state_post_init_def validate_ids_def validate_optional_id_def

lemma demo_plan_valid: "plan_runtime_state_post_init
    \<lparr>pl_plan = demo_plan, pl_steps = [demo_step demo_first s1 [], demo_step demo_second s2 [demo_first]], pl_store_revision = n\<rparr> =
    (if 1 \<le> n then Inr \<lparr>pl_plan = demo_plan, pl_steps = [demo_step demo_first s1 [], demo_step demo_second s2 [demo_first]], pl_store_revision = n\<rparr>
     else Inl ValueError)"
  by (simp add: demo_simps)

lemma demo_step_fields [simp]: "s_id (demo_step k s ds) = k" "s_status (demo_step k s ds) = s" "s_depends_on (demo_step k s ds) = ds"
  "s_plan_id (demo_step k s ds) = demo_plan_id"
  by (simp_all add: demo_step_def)

lemma demo_plan_fields [simp]: "p_id demo_plan = demo_plan_id" "p_task_id demo_plan = demo_task" "p_revision demo_plan = 1"
  by (simp_all add: demo_plan_def)

text \<open>A store of the two steps is valid when its two records are.\<close>

lemma demo_store_ok:
  assumes "step_coordination_record_post_init r1 = Inr r1" "step_coordination_record_post_init r2 = Inr r2"
    and "co_step_id r1 = demo_first" "co_step_id r2 = demo_second" "co_plan_id r1 = demo_plan_id" "co_plan_id r2 = demo_plan_id"
    and "pair_ok (demo_store s1 r1 s2 r2) r1 (demo_step demo_first s1 [])"
    and "pair_ok (demo_store s1 r1 s2 r2) r2 (demo_step demo_second s2 [demo_first])"
  shows "coord_ok (\<lambda>_. demo_plan_id) (demo_store s1 r1 s2 r2)"
proof -
  let ?st = "demo_store s1 r1 s2 r2"
  have "step_of ?st demo_plan_id k = (if k = demo_first then Some (demo_step demo_first s1 [])
      else if k = demo_second then Some (demo_step demo_second s2 [demo_first]) else None)" for k
    by (simp add: demo_store_def step_of_def)
  moreover have "dict_get (st_records ?st) k = (if k = demo_first then Some r1 else if k = demo_second then Some r2 else None)" for k
    by (simp add: demo_store_def)
  moreover have "dict_get (st_plans ?st) k = (if k = demo_plan_id then Some \<lparr>pl_plan = demo_plan,
      pl_steps = [demo_step demo_first s1 [], demo_step demo_second s2 [demo_first]], pl_store_revision = 1\<rparr> else None)" for k
    by (simp add: demo_store_def)
  moreover have "dict_get (st_claims ?st) k = None" "distinct (map fst (st_records ?st))" for k
    by (simp_all add: demo_store_def)
  ultimately show ?thesis
    using assms demo_plan_valid[of s1 s2 1] by (auto simp: coord_ok_def store_wf_def split: if_splits)
qed

lemma demo_dependency_done:
  "dependency_done (demo_store s1 r1 s2 r2) demo_plan_id demo_first \<longleftrightarrow> s1 \<in> done_statuses"
  by (simp add: dependency_done_def step_of_def demo_store_def)

lemma demo_stores_ok:
  "coord_ok (\<lambda>_. demo_plan_id) retrying_store" "coord_ok (\<lambda>_. demo_plan_id) running_store" "coord_ok (\<lambda>_. demo_plan_id) succeeded_store"
  unfolding retrying_store_def running_store_def succeeded_store_def
  by (rule demo_store_ok; simp add: demo_simps pair_ok_def demo_dependency_done started_statuses_def done_statuses_def)+

end
