(* ===== verification/Coordinator_Claims.thy ===== *)
theory Coordinator_Claims
  imports Coordinator_Evolution
begin

text \<open>
  What a claim is worth. A store whose claims carry growing fences, and whose writes to a step name the
  claim they are made under, excludes every other writer for as long as the claim stands: proved once
  in a locale and obtained here for the in-memory coordinator store; the durable one obtains it in
  \<open>Coordinator_Durable_Safe\<close>.
\<close>

section \<open>The contract\<close>

locale fenced_store =
  fixes entry :: "'s \<Rightarrow> string \<Rightarrow> 'e"
    and claim :: "'s \<Rightarrow> string \<Rightarrow> coordinator_claim option"
    and fence :: "'s \<Rightarrow> string \<Rightarrow> int"
    and ok :: "'s \<Rightarrow> bool"
    and apply_op :: "'o \<Rightarrow> 's \<Rightarrow> 's"
    and writes :: "'o \<Rightarrow> string \<Rightarrow> coordinator_claim option option"
  assumes ok_apply: "ok s \<Longrightarrow> ok (apply_op x s)"
    and claim_below_fence: "ok s \<Longrightarrow> claim s k = Some c \<Longrightarrow> cl_fence c \<le> fence s k"
    and fence_grows: "ok s \<Longrightarrow> fence s k \<le> fence (apply_op x s) k"
    and claim_origin: "ok s \<Longrightarrow> claim (apply_op x s) k = Some c \<Longrightarrow>
      fence s k < cl_fence c \<or> (\<exists>c0. claim s k = Some c0 \<and> cl_fence c0 = cl_fence c)"
    and write_claimed: "ok s \<Longrightarrow> entry (apply_op x s) k \<noteq> entry s k \<Longrightarrow>
      (\<exists>cl. writes x k = Some cl \<and> (\<forall>c. cl = Some c \<longrightarrow> (\<exists>d. claim s k = Some d \<and> cl_fence d = cl_fence c)))"
begin

definition other_writer :: "coordinator_claim \<Rightarrow> string \<Rightarrow> 'o \<Rightarrow> bool" where
  \<comment> \<open>whoever does not hold the claim: writes to the step, if any, are made under another claim\<close>
  "other_writer c k x \<longleftrightarrow> (\<forall>cl. writes x k = Some cl \<longrightarrow> (\<exists>d. cl = Some d \<and> cl_fence d \<noteq> cl_fence c))"

lemma claim_lasts:
  assumes "ok s" "claim s k = Some c" "list_all (other_writer c k) xs"
    and "claim (fold apply_op xs s) k = Some c'" "cl_fence c' = cl_fence c"
  shows "entry (fold apply_op xs s) k = entry s k"
proof -
  let ?J = "\<lambda>t. ok t \<and> cl_fence c \<le> fence t k \<and>
    ((\<exists>d. claim t k = Some d \<and> cl_fence d = cl_fence c) \<longrightarrow> entry t k = entry s k)"
  have "?J (fold apply_op xs t)" if "?J t" "list_all (other_writer c k) xs" for t
    using that
  proof (induction xs arbitrary: t)
    case (Cons x xs)
    let ?t = "apply_op x t"
    have "entry ?t k = entry s k" if d: "claim ?t k = Some d" "cl_fence d = cl_fence c" for d
    proof -
      obtain d0 where d0: "claim t k = Some d0" "cl_fence d0 = cl_fence c"
        using claim_origin[OF _ d(1)] Cons.prems(1) d(2) by force
      have "entry ?t k = entry t k"
      proof (rule ccontr)
        assume "entry ?t k \<noteq> entry t k"
        then obtain cl where cl: "writes x k = Some cl" "\<And>c. cl = Some c \<Longrightarrow> \<exists>d. claim t k = Some d \<and> cl_fence d = cl_fence c"
          using write_claimed Cons.prems(1) by blast
        with Cons.prems(2) d0 show False by (auto simp: other_writer_def)
      qed
      with Cons.prems(1) d0 show ?thesis by auto
    qed
    moreover have "cl_fence c \<le> fence ?t k" using fence_grows[of t k x] Cons.prems(1) by simp
    ultimately have "?J ?t" using ok_apply Cons.prems(1) by blast
    from Cons.IH[OF this] Cons.prems(2) show ?case by simp
  qed simp
  moreover have "?J s" using assms(1,2) claim_below_fence by auto
  ultimately show ?thesis using assms(3-5) by blast
qed

text \<open>A claim that stopped standing never stands again.\<close>

lemma claim_lost:
  assumes "ok s" "cl_fence c \<le> fence s k" "\<And>d. claim s k = Some d \<Longrightarrow> cl_fence d \<noteq> cl_fence c"
    and "claim (fold apply_op xs s) k = Some d"
  shows "cl_fence d \<noteq> cl_fence c"
  using assms
proof (induction xs arbitrary: s)
  case (Cons x xs)
  show ?case
  proof (rule Cons.IH[of "apply_op x s"])
    show "cl_fence c \<le> fence (apply_op x s) k" using fence_grows[OF Cons.prems(1), of k x] Cons.prems(2) by simp
    show "cl_fence d \<noteq> cl_fence c" if "claim (apply_op x s) k = Some d" for d
      using claim_origin[OF Cons.prems(1) that] Cons.prems(2,3) by force
  qed (use Cons.prems ok_apply in simp_all)
qed simp

text \<open>Where no claim stands, the next ones are newer than every claim there was.\<close>

lemma claims_newer:
  assumes "ok s" "claim s k = None" "claim (fold apply_op xs s) k = Some d"
  shows "fence s k < cl_fence d"
proof -
  let ?J = "\<lambda>t. ok t \<and> fence s k \<le> fence t k \<and> (\<forall>d. claim t k = Some d \<longrightarrow> fence s k < cl_fence d)"
  have "?J (fold apply_op xs t)" if "?J t" for t
    using that
  proof (induction xs arbitrary: t)
    case (Cons x xs)
    have "fence s k < cl_fence e" if "claim (apply_op x t) k = Some e" for e
      using claim_origin[OF _ that] Cons.prems by force
    moreover have "fence s k \<le> fence (apply_op x t) k" using fence_grows[of t k x] Cons.prems by simp
    ultimately have "?J (apply_op x t)" using ok_apply Cons.prems by blast
    from Cons.IH[OF this] show ?case by simp
  qed simp
  from this[of s] assms show ?thesis by simp
qed

end

section \<open>The operations of the store\<close>

datatype store_op =
    Create_Plan plan "step list" "step_coordination_record list"
  | Save_Step step step_coordination_record int "coordinator_claim option" datetime
  | Acquire_Claim string string string int datetime
  | Renew_Claim coordinator_claim int datetime
  | Release_Claim coordinator_claim

fun apply_store_op :: "store_op \<Rightarrow> 'm coordinator_store_scheme \<Rightarrow> 'm coordinator_store_scheme" where
  "apply_store_op (Create_Plan plan steps records) st = snd (create_plan plan steps records st)"
| "apply_store_op (Save_Step s record expected claim now) st = snd (save_step s record expected claim now st)"
| "apply_store_op (Acquire_Claim claim_id step_id owner_id ttl now) st = snd (acquire_claim claim_id step_id owner_id ttl now st)"
| "apply_store_op (Renew_Claim claim ttl now) st = snd (renew_claim claim ttl now st)"
| "apply_store_op (Release_Claim claim) st = snd (release_claim claim st)"

fun store_op_writes :: "store_op \<Rightarrow> string \<Rightarrow> coordinator_claim option option" where
  "store_op_writes (Save_Step s record expected claim now) k = (if k = s_id s then Some claim else None)"
| "store_op_writes (Create_Plan plan steps records) k =
     (if k \<in> s_id ` set steps \<union> co_step_id ` set records then Some None else None)"
| "store_op_writes _ k = None"

definition store_entry :: "'m coordinator_store_scheme \<Rightarrow> string \<Rightarrow>
    step_coordination_record option \<times> (string \<Rightarrow> step option)" where
  "store_entry st k = (dict_get (st_records st) k, \<lambda>p. step_of st p k)"

definition claims_wf :: "'m coordinator_store_scheme \<Rightarrow> bool" where
  "claims_wf st \<longleftrightarrow> (\<forall>k c. dict_get (st_claims st) k = Some c \<longrightarrow> cl_step_id c = k \<and> cl_fence c \<le> fence_of st k)"

lemma save_step_claims:
  "st_claims (snd (save_step s r n claim now st)) = st_claims st"
  "st_fences (snd (save_step s r n claim now st)) = st_fences st"
  by (auto simp: save_step_def store_step_def Let_def split: option.splits sum.splits)

lemma create_plan_claims:
  "st_claims (snd (create_plan plan steps records st)) = st_claims st"
  "st_fences (snd (create_plan plan steps records st)) = st_fences st"
  by (auto simp: create_plan_def split: option.splits sum.splits)

lemma same_fences: "st_fences st' = st_fences st \<Longrightarrow> fence_of st' = fence_of st"
  by (simp add: fence_of_def fun_eq_iff)

lemma claims_wf_kept:
  assumes "claims_wf st" "st_claims st' = st_claims st" "st_fences st' = st_fences st"
  shows "claims_wf st'"
  using assms(1) by (simp add: claims_wf_def assms(2) same_fences[OF assms(3)])

text \<open>What an operation does to the claims and fences of the store.\<close>

lemma acquire_claim_cases:
  obtains (refused) "snd (acquire_claim cid k owner ttl now st) = st"
  | (fenced) "snd (acquire_claim cid k owner ttl now st) = st\<lparr>st_fences := dict_set k (fence_of st k + 1) (st_fences st)\<rparr>"
  | (claimed) c where "snd (acquire_claim cid k owner ttl now st) =
      st\<lparr>st_fences := dict_set k (fence_of st k + 1) (st_fences st), st_claims := dict_set k c (st_claims st)\<rparr>"
      "cl_step_id c = k" "cl_fence c = fence_of st k + 1"
proof (cases "acquire_claim cid k owner ttl now st")
  case (Pair res st')
  then show ?thesis
    using that by (auto simp: acquire_claim_def Let_def sbind_eq_Inr split: if_splits sum.splits dest!: claim_post_init_id)
qed

lemma renew_claim_cases:
  obtains (refused) "snd (renew_claim c ttl now st) = st"
  | (renewed) d where "snd (renew_claim c ttl now st) = st\<lparr>st_claims := dict_set (cl_step_id c) d (st_claims st)\<rparr>"
      "dict_get (st_claims st) (cl_step_id c) = Some c" "cl_step_id d = cl_step_id c" "cl_fence d = cl_fence c"
proof (cases "renew_claim c ttl now st")
  case (Pair res st')
  then show ?thesis
    using that by (fastforce simp: renew_claim_def sbind_eq_Inr split: if_splits sum.splits dest!: claim_post_init_id)
qed

lemma release_claim_cases:
  obtains (refused) "snd (release_claim c st) = st"
  | (released) "snd (release_claim c st) = st\<lparr>st_claims := filter (\<lambda>(k, _). k \<noteq> cl_step_id c) (st_claims st)\<rparr>"
  by (cases "dict_get (st_claims st) (cl_step_id c) = Some c") (simp_all add: release_claim_def)


lemma claims_laws:
  assumes "claims_wf st"
  shows "claims_wf (apply_store_op x st) \<and> (\<forall>k. fence_of st k \<le> fence_of (apply_store_op x st) k) \<and>
    (\<forall>k c. dict_get (st_claims (apply_store_op x st)) k = Some c \<longrightarrow> fence_of st k < cl_fence c \<or>
       (\<exists>c0. dict_get (st_claims st) k = Some c0 \<and> cl_fence c0 = cl_fence c))" (is "?laws (apply_store_op x st)")
proof -
  have same: "?laws st'" if "st_claims st' = st_claims st" "st_fences st' = st_fences st" for st'
    using claims_wf_kept[OF assms that] by (auto simp: that same_fences[OF that(2)])
  show ?thesis
  proof (cases x)
    case (Acquire_Claim cid k owner ttl now)
    show ?thesis unfolding Acquire_Claim apply_store_op.simps
    proof (cases rule: acquire_claim_cases[of cid k owner ttl now st])
      case refused
      show "?laws (snd (acquire_claim cid k owner ttl now st))" by (rule same) (simp_all add: refused)
    next
      case fenced
      show "?laws (snd (acquire_claim cid k owner ttl now st))"
        using assms unfolding fenced claims_wf_def by (fastforce simp: fence_of_set)
    next
      case (claimed c)
      have f: "fence_of (snd (acquire_claim cid k owner ttl now st)) j = (if j = k then fence_of st k + 1 else fence_of st j)" for j
        unfolding claimed(1) by (simp add: fence_of_def)
      have g: "dict_get (st_claims (snd (acquire_claim cid k owner ttl now st))) j =
          (if j = k then Some c else dict_get (st_claims st) j)" for j
        by (simp add: claimed(1))
      show "?laws (snd (acquire_claim cid k owner ttl now st))"
        using assms claimed(2,3) unfolding claims_wf_def f g by auto
    qed
  next
    case (Renew_Claim c ttl now)
    show ?thesis unfolding Renew_Claim apply_store_op.simps
    proof (cases rule: renew_claim_cases[of c ttl now st])
      case refused
      show "?laws (snd (renew_claim c ttl now st))" by (rule same) (simp_all add: refused)
    next
      case (renewed d)
      have g: "dict_get (st_claims (snd (renew_claim c ttl now st))) j =
          (if j = cl_step_id c then Some d else dict_get (st_claims st) j)" for j
        by (simp add: renewed(1))
      have f: "fence_of (snd (renew_claim c ttl now st)) = fence_of st" by (simp add: renewed(1))
      have d: "cl_step_id d = cl_step_id c \<and> cl_fence d \<le> fence_of st (cl_step_id c)"
        using assms renewed(2) unfolding renewed(3,4) claims_wf_def by blast
      have "claims_wf (snd (renew_claim c ttl now st))"
        unfolding claims_wf_def f g
      proof (intro allI impI)
        fix k e assume "(if k = cl_step_id c then Some d else dict_get (st_claims st) k) = Some e"
        then have "k = cl_step_id c \<and> e = d \<or> dict_get (st_claims st) k = Some e" by (simp split: if_splits)
        then show "cl_step_id e = k \<and> cl_fence e \<le> fence_of st k" using assms d unfolding claims_wf_def by blast
      qed
      moreover have "\<exists>c0. dict_get (st_claims st) k = Some c0 \<and> cl_fence c0 = cl_fence e"
        if "(if k = cl_step_id c then Some d else dict_get (st_claims st) k) = Some e" for k e
        using that renewed(2,4) by (cases "k = cl_step_id c") simp_all
      ultimately show "?laws (snd (renew_claim c ttl now st))" unfolding f g by blast
    qed
  next
    case (Release_Claim c)
    show ?thesis unfolding Release_Claim apply_store_op.simps
    proof (cases rule: release_claim_cases[of c st])
      case refused
      show "?laws (snd (release_claim c st))" by (rule same) (simp_all add: refused)
    next
      case released
      show "?laws (snd (release_claim c st))"
        using assms unfolding released claims_wf_def by (auto simp: dict_get_filter split: if_splits)
    qed
  next
    case (Create_Plan plan steps records)
    show ?thesis unfolding Create_Plan apply_store_op.simps by (rule same[OF create_plan_claims])
  next
    case (Save_Step s r n claim now)
    show ?thesis unfolding Save_Step apply_store_op.simps by (rule same[OF save_step_claims])
  qed
qed

lemma step_of_store_step:
  assumes "k \<noteq> s_id s" "dict_get (st_plans st) P = Some q"
    and "dict_get (st_plans st') = (dict_get (st_plans st))(P \<mapsto> q\<lparr>pl_steps := replace_step s (pl_steps q), pl_store_revision := n\<rparr>)"
  shows "step_of st' p k = step_of st p k"
  using assms by (auto simp: step_of_def find_replace split: option.splits)

lemma save_step_entry:
  assumes "store_entry (snd (save_step s r n claim now st)) k \<noteq> store_entry st k"
  shows "k = s_id s \<and> live_claim claim k now st"
proof -
  have live: "live_claim claim (s_id s) now st"
    using assms by (auto simp: save_step_def split: if_splits)
  have "store_entry (snd (store_step s x st)) k = store_entry st k" if "k \<noteq> s_id s" for x
  proof -
    have "dict_get (st_records (snd (store_step s x st))) k = dict_get (st_records st) k"
      using that by (auto simp: store_step_def Let_def split: option.splits sum.splits)
    moreover have "step_of (snd (store_step s x st)) p k = step_of st p k" for p
    proof (cases "st_plans (snd (store_step s x st)) = st_plans st")
      case False
      then obtain q where q: "dict_get (st_plans st) (s_plan_id s) = Some q"
        "dict_get (st_plans (snd (store_step s x st))) = (dict_get (st_plans st))
           (s_plan_id s \<mapsto> q\<lparr>pl_steps := replace_step s (pl_steps q), pl_store_revision := pl_store_revision q + 1\<rparr>)"
        by (auto simp: store_step_def Let_def fun_eq_iff split: option.splits sum.splits dest!: runtime_post_init_id)
      show ?thesis by (rule step_of_store_step[OF that q])
    qed (metis step_of_plans)
    ultimately show ?thesis by (simp add: store_entry_def)
  qed
  then have "k = s_id s"
    using assms by (auto simp: save_step_def split: if_splits option.splits)
  with live show ?thesis by simp
qed

lemma create_plan_entry:
  assumes "store_entry (snd (create_plan plan steps records st)) k \<noteq> store_entry st k"
  shows "k \<in> s_id ` set steps \<union> co_step_id ` set records"
proof (rule ccontr)
  assume k: "k \<notin> s_id ` set steps \<union> co_step_id ` set records"
  have recs: "dict_get (dict_update d (map (\<lambda>r. (co_step_id r, r)) rs)) k = dict_get d k" if "set rs \<subseteq> set records" for d rs
    using that k by (induction rs arbitrary: d) auto
  have none: "find (\<lambda>s. s_id s = k) steps = None" using k by (auto simp: find_None_iff)
  show False
    using assms k recs[of records] none
    by (auto simp: create_plan_def store_entry_def step_of_def fun_eq_iff split: sum.splits option.splits if_splits
        dest!: runtime_post_init_id)
qed

lemma claim_op_entry:
  "store_entry (snd (acquire_claim cid j owner ttl now st)) k = store_entry st k"
  "store_entry (snd (renew_claim c ttl now st)) k = store_entry st k"
  "store_entry (snd (release_claim c st)) k = store_entry st k"
proof -
  show "store_entry (snd (acquire_claim cid j owner ttl now st)) k = store_entry st k"
    by (cases rule: acquire_claim_cases[of cid j owner ttl now st]) (simp_all add: store_entry_def step_of_def)
  show "store_entry (snd (renew_claim c ttl now st)) k = store_entry st k"
    by (cases rule: renew_claim_cases[of c ttl now st]) (simp_all add: store_entry_def step_of_def)
  show "store_entry (snd (release_claim c st)) k = store_entry st k"
    by (cases rule: release_claim_cases[of c st]) (simp_all add: store_entry_def step_of_def)
qed

interpretation cs: fenced_store store_entry "\<lambda>st. dict_get (st_claims st)" fence_of claims_wf apply_store_op store_op_writes
proof (unfold_locales, goal_cases)
  case (1 st x)
  then show ?case using claims_laws by blast
next
  case (2 st k c)
  then show ?case by (simp add: claims_wf_def)
next
  case (3 st k x)
  then show ?case using claims_laws by blast
next
  case (4 st x k c)
  then show ?case using claims_laws by blast
next
  case (5 st x k)
  show ?case
  proof (cases x)
    case (Create_Plan plan steps records)
    then show ?thesis using 5 create_plan_entry[of plan steps records st k] by auto
  next
    case (Save_Step s r n claim now)
    then show ?thesis using 5 save_step_entry[of s r n claim now st k] by (auto simp: live_claim_def split: option.splits)
  qed (use 5 in \<open>simp_all add: claim_op_entry\<close>)
qed

end
