(* ===== verification/Coordinator_Returns.thy ===== *)
theory Coordinator_Returns
  imports Coordinator_Runtime_Safe
begin

text \<open>
  The requests of the coordinator return. As long as nobody else saves a step, each round of \<open>advance\<close>
  that makes progress uses up some of the work its store still has, so the loop ends; every request is
  a finite sequence of such loops and of calls that return.
\<close>

section \<open>Collaborators that save nothing\<close>

definition same_work :: "'m coord_world \<Rightarrow> 'm coord_world \<Rightarrow> bool" where
  "same_work w w' \<longleftrightarrow> st_plans (w_ext w') = st_plans (w_ext w) \<and> st_records (w_ext w') = st_records (w_ext w)"

definition idle_action :: "('m coord_world, 'a) action \<Rightarrow> bool" where
  "idle_action m \<longleftrightarrow> (\<forall>w. same_work w (snd (m w)))"

definition quiet_env :: "'m coord_env \<Rightarrow> bool" where
  \<comment> \<open>claims may come and go, steps are saved by this coroutine only\<close>
  "quiet_env env \<longleftrightarrow> idle_action (env_suspend env) \<and> (\<forall>q. idle_action (env_start env q)) \<and>
     (\<forall>i c. idle_action (env_get env i c)) \<and> (\<forall>i c. idle_action (env_cancel env i c)) \<and>
     (\<forall>f \<in> set_option (env_event_sink env). \<forall>e. idle_action (f e)) \<and>
     (\<forall>f \<in> set_option (env_assess env). \<forall>t. idle_action (f t))"

lemma same_work_refl [simp]: "same_work w w"
  by (simp add: same_work_def)

lemma same_work_trans: "same_work w w' \<Longrightarrow> same_work w' w'' \<Longrightarrow> same_work w w''"
  by (simp add: same_work_def)

definition quiet_inv :: "'m coord_env \<Rightarrow> 'm coord_world \<Rightarrow> bool" where
  "quiet_inv env w \<longleftrightarrow> quiet_env env"

interpretation qg: rely_guarantee "quiet_inv env" same_work for env
  by unfold_locales (auto intro: same_work_trans)

abbreviation qsafe where "qsafe env \<equiv> rely_guarantee.safe (quiet_inv env) same_work"
abbreviation qkeeps where "qkeeps env m \<equiv> qsafe env (\<lambda>_. True) m (\<lambda>_ _. True)"

lemma qkeeps_idle: "(quiet_env env \<Longrightarrow> idle_action m) \<Longrightarrow> qkeeps env m"
proof (rule qg.safeI)
  fix w r w' assume idle: "quiet_env env \<Longrightarrow> idle_action m" and inv: "quiet_inv env w" and run: "m w = (r, w')"
  have "same_work w (snd (m w))" using idle inv by (simp add: quiet_inv_def idle_action_def)
  with inv run show "quiet_inv env w' \<and> same_work w w' \<and> (\<forall>x. r = Inr x \<longrightarrow> True)" by (simp add: quiet_inv_def)
qed

interpretation qk: kernel_frame "quiet_inv env" same_work env for env
  by unfold_locales (auto simp: same_work_def quiet_inv_def quiet_env_def intro!: qkeeps_idle)

lemma qkeepsD: "qkeeps env m \<Longrightarrow> quiet_env env \<Longrightarrow> m w = (r, w') \<Longrightarrow> same_work w w'"
  by (auto simp: qg.safe_def quiet_inv_def)

lemma qkeeps_store_read: "qkeeps env (store_read env f)"
  unfolding store_read_def store_call_def
  by (intro qk.keeps_rules) (auto simp: qg.safe_def)

lemma qkeeps_fetch: "qkeeps env (fetch_record env k)" "qkeeps env (fetch_plan env p)" "qkeeps env (fetch_step env p k)"
  "qkeeps env (fetch_snapshot env p)"
  unfolding fetch_record_def fetch_plan_def fetch_step_def fetch_snapshot_def by (intro qk.keeps_rules qkeeps_store_read)+

lemma store_read_Inr:
  assumes "quiet_env env" "store_read env f w = (Inr x, w')"
  shows "same_work w w' \<and> (\<exists>v. same_work w v \<and> f (w_ext v) = Inr x)"
proof -
  obtain a w1 where 1: "env_suspend env w = (Inr a, w1)" "f (w_ext w1) = Inr x"
    using assms(2) by (auto simp: store_read_def store_call_def await_Inr_iff ret_def)
  from qkeepsD[OF qk.suspend_safe assms(1) 1(1)] 1(2) qkeepsD[OF qkeeps_store_read assms] show ?thesis by blast
qed

lemma fetch_record_Inr:
  "quiet_env env \<Longrightarrow> fetch_record env k w = (Inr R, w') \<Longrightarrow> same_work w w' \<and> dict_get (st_records (w_ext w)) k = Some R"
  unfolding fetch_record_def
  by (drule (1) store_read_Inr) (auto simp: get_step_record_def same_work_def split: option.splits)

lemma fetch_step_Inr:
  assumes "quiet_env env" "fetch_step env p k w = (Inr S, w')"
  shows "same_work w w' \<and> s_id S = k"
proof -
  obtain q w1 where 1: "runtime_step q k = Inr S" using assms(2) by (auto simp: fetch_step_def await_Inr_iff pure_def)
  then have "s_id S = k" by (auto simp: runtime_step_Inr find_Some_iff)
  with qkeepsD[OF qkeeps_fetch(3) assms] show ?thesis by blast
qed

lemma fetch_snapshot_Inr:
  assumes "quiet_env env" "fetch_snapshot env p w = (Inr (q, rs), w')"
  shows "same_work w w' \<and> get_plan_snapshot (w_ext w) p = Inr (q, rs)"
proof -
  obtain v where v: "same_work w w'" "same_work w v" "get_plan_snapshot (w_ext v) p = Inr (q, rs)"
    using store_read_Inr[OF assms(1) assms(2)[unfolded fetch_snapshot_def]] by blast
  then have "get_plan_snapshot (w_ext v) p = get_plan_snapshot (w_ext w) p"
    by (simp add: get_plan_snapshot_def get_plan_def same_work_def)
  with v show ?thesis by simp
qed

lemma move_step_Inr:
  assumes "quiet_env env" "move_step env s t w = (Inr s', w')"
  shows "same_work w w' \<and> s_id s' = s_id s"
proof -
  have "qkeeps env (move_step env s t)" unfolding move_step_def by (intro qk.keeps_rules)
  moreover have "s_id s' = s_id s"
    using assms(2) by (auto simp: move_step_def await_Inr_iff pure_def step_after_def dest!: step_transition_after)
  ultimately show ?thesis using qkeepsD[of env _ w] assms by blast
qed

lemma with_record_Inr: "with_record r w = (Inr r', w') \<Longrightarrow> w' = w \<and> r' = r"
  by (auto simp: with_record_def pure_def dest: record_post_init_id)

lemma claim_step_Inr: "quiet_env env \<Longrightarrow> claim_step env cfg k now w = (r, w') \<Longrightarrow> same_work w w'"
proof (erule qkeepsD[rotated])
  have "qkeeps env (draw_claim env (\<lambda>claim_id. on_store (acquire_claim claim_id k owner ttl now)))" for owner ttl
    by (auto simp: qg.safe_def quiet_inv_def draw_claim_def on_store_def same_work_def acquire_claim_def Let_def split: prod.splits sum.splits if_splits)
  then show "qkeeps env (claim_step env cfg k now)"
    unfolding claim_step_def store_call_def by (intro qk.keeps_rules qkeeps_fetch)
qed

lemma holding_Inr:
  assumes "quiet_env env" "holding env c m w = (Inr x, w')"
  shows "\<exists>v. m w = (Inr x, v) \<and> same_work v w'"
proof -
  let ?f = "store_call env (on_store (\<lambda>st. case release_claim c st of (b, st) \<Rightarrow> (Inr b, st)))"
  have "qkeeps env (on_store (\<lambda>st. case release_claim c st of (b, st) \<Rightarrow> (Inr b, st)))"
    by (auto simp: qg.safe_def quiet_inv_def on_store_def same_work_def release_claim_def split: prod.splits if_splits)
  then have "qkeeps env ?f" unfolding store_call_def by (intro qk.keeps_rules)
  then have f: "same_work v v'" if "?f v = (r, v')" for v v' r using qkeepsD assms(1) that by blast
  obtain r1 w1 where m: "m w = (r1, w1)" by (cases "m w")
  obtain r2 w2 where f2: "?f w1 = (r2, w2)" by (cases "?f w1")
  from m f2 f[OF f2] assms(2) show ?thesis by (auto simp: holding_def try_finally_def split: sum.splits)
qed

lemma under_claim_Inr:
  assumes "quiet_env env" "under_claim env cfg k now f w = (Inr b, w')"
  shows "\<not> b \<and> same_work w w' \<or> (\<exists>c v v'. same_work w v \<and> f c v = (Inr b, v') \<and> same_work v' w')"
proof -
  obtain cl v where v: "claim_step env cfg k now w = (Inr cl, v)"
    "(case cl of None \<Rightarrow> ret False | Some c \<Rightarrow> holding env c (f c)) v = (Inr b, w')"
    using assms(2) by (auto simp: under_claim_def await_Inr_iff)
  note same = claim_step_Inr[OF assms(1) v(1)]
  show ?thesis
  proof (cases cl)
    case None
    with v(2) same show ?thesis by (auto simp: ret_def)
  next
    case (Some c)
    with v(2) holding_Inr[OF assms(1), of c "f c" v b w'] same show ?thesis by auto
  qed
qed

section \<open>The work left\<close>

definition record_work :: "step_coordination_record \<Rightarrow> nat" where
  "record_work r = (case co_phase r of
      CP_BLOCKED \<Rightarrow> 3 + card (set (co_dependency_ids r) - set (co_satisfied_dependency_ids r))
    | CP_RETRY_SCHEDULED \<Rightarrow> 2 | CP_READY \<Rightarrow> 1 | _ \<Rightarrow> 0)"

lemma record_work_phase:
  "co_phase r = CP_BLOCKED \<Longrightarrow> record_work r = 3 + card (set (co_dependency_ids r) - set (co_satisfied_dependency_ids r))"
  "co_phase r = CP_RETRY_SCHEDULED \<Longrightarrow> record_work r = 2"
  "co_phase r = CP_READY \<Longrightarrow> record_work r = 1"
  "co_phase r \<in> {CP_ATTEMPT_ACTIVE, CP_WAITING, CP_TERMINAL, CP_INCONSISTENT} \<Longrightarrow> record_work r = 0"
  unfolding record_work_def by auto

definition remaining_work :: "'m coordinator_store_scheme \<Rightarrow> nat" where
  "remaining_work st = sum_list (map (\<lambda>k. case dict_get (st_records st) k of None \<Rightarrow> 0 | Some r \<Rightarrow> record_work r)
     (remdups (map fst (st_records st))))"

lemma record_work_stamp [simp]: "record_work (r\<lparr>co_revision := n, co_updated_at := t\<rparr>) = record_work r"
  by (cases "co_phase r") (simp_all add: record_work_def)

lemma dom_dict: "dom (dict_get d) = fst ` set d"
  by (rule set_eqI) (simp add: domIff dict_get_None_iff)

lemma remaining_work_sum:
  "remaining_work st = (\<Sum>k\<in>dom (dict_get (st_records st)). case dict_get (st_records st) k of None \<Rightarrow> 0 | Some r \<Rightarrow> record_work r)"
proof -
  have "set (remdups (map fst (st_records st))) = dom (dict_get (st_records st))"
    by (simp add: dom_dict)
  then show ?thesis unfolding remaining_work_def by (subst sum_list_distinct_conv_sum_set) simp_all
qed

text \<open>An operation on the step \<open>k\<close> that reports progress has replaced its record by one with less work.\<close>

definition worked :: "string \<Rightarrow> bool \<Rightarrow> 'm coord_world \<Rightarrow> 'm coord_world \<Rightarrow> bool" where
  "worked k b w w' \<longleftrightarrow> (if b then \<exists>r r'. dict_get (st_records (w_ext w)) k = Some r \<and> record_work r' < record_work r \<and>
       dict_get (st_records (w_ext w')) = (dict_get (st_records (w_ext w)))(k \<mapsto> r')
     else st_records (w_ext w') = st_records (w_ext w))"

lemma worked_True: "worked k True w w' \<Longrightarrow> remaining_work (w_ext w') < remaining_work (w_ext w)"
proof -
  assume "worked k True w w'"
  then obtain r r' where r: "dict_get (st_records (w_ext w)) k = Some r" "record_work r' < record_work r"
    "dict_get (st_records (w_ext w')) = (dict_get (st_records (w_ext w)))(k \<mapsto> r')" by (auto simp: worked_def)
  let ?d = "dict_get (st_records (w_ext w))"
  let ?f = "\<lambda>d k. case d k of None \<Rightarrow> 0 | Some r \<Rightarrow> record_work r"
  have fin: "finite (dom ?d)" by (simp add: dom_dict)
  have k: "k \<in> dom ?d" using r(1) by auto
  have "sum (?f (?d(k \<mapsto> r'))) (dom ?d - {k}) = sum (?f ?d) (dom ?d - {k})" by (rule sum.cong) auto
  then show ?thesis
    unfolding remaining_work_sum r(3) using r(1,2) sum.remove[OF fin k, of "?f ?d"] sum.remove[OF fin k, of "?f (?d(k \<mapsto> r'))"] k
    by (simp add: insert_absorb)
qed

lemma worked_around: "same_work w v \<Longrightarrow> worked k b v v' \<Longrightarrow> same_work v' w' \<Longrightarrow> worked k b w w'"
  unfolding worked_def same_work_def by (elim conjE) (cases b; simp only: if_True if_False; metis)

lemma worked_idle: "same_work w w' \<Longrightarrow> worked k False w w'"
  by (simp add: worked_def same_work_def)

lemma save_worked:
  assumes "quiet_env env" "save env s r n c now w = (Inr x, w')"
    and "dict_get (st_records (w_ext w)) (s_id s) = Some R" "record_work r < record_work R"
  shows "worked (s_id s) True w w'"
proof -
  obtain a b w1 w2 where 1: "env_suspend env w = (Inr a, w1)" "on_store (save_step s r n (Some c) now) w1 = (Inr x, w2)"
    "env_suspend env w2 = (Inr b, w')"
    using assms(2) by (auto simp: save_def store_call_def await_Inr_iff ret_def)
  obtain m where "st_records (w_ext w2) = dict_set (s_id s) (r\<lparr>co_revision := m, co_updated_at := now\<rparr>) (st_records (w_ext w1))"
    using 1(2) by (auto simp: on_store_def save_step_def store_step_def Let_def split: prod.splits if_splits option.splits sum.splits
        dest!: record_post_init_id)
  then have "worked (s_id s) True w1 w2"
    using assms(3,4) qkeepsD[OF qk.suspend_safe assms(1) 1(1)] by (auto simp: worked_def same_work_def fun_eq_iff)
  with qkeepsD[OF qk.suspend_safe assms(1)] 1(1,3) worked_around show ?thesis by blast
qed

section \<open>One round\<close>

lemma saved_worked:
  assumes "quiet_env env" "await (with_record r) (\<lambda>r. await (save env s r n c now) f) v = (Inr b, v')"
    and "dict_get (st_records (w_ext v)) (s_id s) = Some R" "record_work r < record_work R"
    and f: "\<And>x u b u'. f x u = (Inr b, u') \<Longrightarrow> b \<and> same_work u u'"
  shows "worked (s_id s) b v v'"
proof -
  obtain r' v1 where "with_record r v = (Inr r', v1)" and 1: "await (save env s r' n c now) f v1 = (Inr b, v')"
    using assms(2) by (auto simp: await_Inr_iff)
  then have same: "v1 = v" "r' = r" by (auto dest: with_record_Inr)
  obtain x u where 2: "save env s r n c now v = (Inr x, u)" "f x u = (Inr b, v')"
    using 1 unfolding same by (auto simp: await_Inr_iff)
  have b: "b = True" "same_work u v'" using f[OF 2(2)] by simp_all
  from worked_around[OF same_work_refl save_worked[OF assms(1) 2(1) assms(3,4)] b(2)] b(1) show ?thesis by simp
qed

lemma moved_worked:
  assumes "quiet_env env" "await (move_step env S t) (\<lambda>s. await (with_record r) (\<lambda>r. await (save env s r n c now) f)) v = (Inr b, v')"
    and "dict_get (st_records (w_ext v)) (s_id S) = Some R" "record_work r < record_work R"
    and f: "\<And>x u b u'. f x u = (Inr b, u') \<Longrightarrow> b \<and> same_work u u'"
  shows "worked (s_id S) b v v'"
proof -
  obtain s u where 1: "move_step env S t v = (Inr s, u)" "await (with_record r) (\<lambda>r. await (save env s r n c now) f) u = (Inr b, v')"
    using assms(2) by (auto simp: await_Inr_iff)
  from move_step_Inr[OF assms(1) 1(1)] have u: "same_work v u" "s_id s = s_id S" by simp_all
  have "worked (s_id s) b u v'"
    by (rule saved_worked[OF assms(1) 1(2) _ assms(4) f]) (use assms(3) u in \<open>simp add: same_work_def\<close>)
  from worked_around[OF u(1) this same_work_refl] u(2) show ?thesis by simp
qed

text \<open>The record and the step are read again under the claim.\<close>

lemma under_claim_worked:
  assumes "quiet_env env"
    and "under_claim env cfg k now (\<lambda>c. await (fetch_record env k) (\<lambda>R. await (fetch_step env p k) (f c R))) w = (Inr b, w')"
    and f: "\<And>c R S v b v'. dict_get (st_records (w_ext v)) k = Some R \<Longrightarrow> st_records (w_ext v) = st_records (w_ext w) \<Longrightarrow> s_id S = k \<Longrightarrow>
      f c R S v = (Inr b, v') \<Longrightarrow> worked k b v v'"
  shows "worked k b w w'"
  using under_claim_Inr[OF assms(1,2)]
proof (elim disjE exE conjE)
  fix c v v' assume v: "same_work w v" "same_work v' w'"
    "await (fetch_record env k) (\<lambda>R. await (fetch_step env p k) (f c R)) v = (Inr b, v')"
  obtain R S v1 v2 where 1: "fetch_record env k v = (Inr R, v1)" "fetch_step env p k v1 = (Inr S, v2)" "f c R S v2 = (Inr b, v')"
    using v(3) by (auto simp: await_Inr_iff)
  note R = fetch_record_Inr[OF assms(1) 1(1)] and S = fetch_step_Inr[OF assms(1) 1(2)]
  have same: "same_work w v2" using v(1) R S by (simp add: same_work_def)
  have "worked k b v2 v'" by (rule f[OF _ _ _ 1(3)]) (use R S v(1) same in \<open>simp_all add: same_work_def\<close>)
  from worked_around[OF same this v(2)] show ?thesis .
qed (auto simp: worked_idle)

lemma return_True: "ret True u = (Inr b, u') \<Longrightarrow> b \<and> same_work u u'"
  by (simp add: ret_def)

lemma qkeeps_retry_stale_stream: "qkeeps env m \<Longrightarrow> qkeeps env (retry_stale_stream env n e m)"
  by (induction n arbitrary: e) (auto intro!: qk.keeps_rules split: option.splits)

lemma await_idle:
  assumes "quiet_env env" "await m f v = (Inr b, v')" "qkeeps env m"
  shows "\<exists>x u. same_work v u \<and> f x u = (Inr b, v')"
proof -
  obtain x u where "m v = (Inr x, u)" "f x u = (Inr b, v')" using assms(2) by (auto simp: await_Inr_iff)
  with qkeepsD[OF assms(3,1)] show ?thesis by blast
qed

lemma activate_retry_worked:
  assumes "quiet_env env" "activate_retry env cfg s record now w = (Inr b, w')"
  shows "worked (s_id s) b w w'"
proof (cases "s_status s = S_FAILED")
  case True
  show ?thesis
  proof (rule under_claim_worked[OF assms(1)])
    show "under_claim env cfg (s_id s) now (\<lambda>claim. await (fetch_record env (s_id s)) (\<lambda>current.
        await (fetch_step env (s_plan_id s) (s_id s)) (\<lambda>current_step.
        if co_phase current \<noteq> CP_RETRY_SCHEDULED \<or> (case co_retry_due_at current of None \<Rightarrow> True | Some due \<Rightarrow> now < due) then ret False
        else await (move_step env current_step S_READY) (\<lambda>ready.
          await (with_record (current\<lparr>co_phase := CP_READY, co_retry_due_at := None, co_retry_state := RS_ACTIVE\<rparr>)) (\<lambda>updated.
          await (save env ready updated (co_revision current) claim now) (\<lambda>_. ret True)))))) w = (Inr b, w')"
      using assms(2) True by (simp add: activate_retry_def)
  next
    fix c b v v' and R :: step_coordination_record and S :: step
    assume *: "dict_get (st_records (w_ext v)) (s_id s) = Some R" "s_id S = s_id s"
      "(if co_phase R \<noteq> CP_RETRY_SCHEDULED \<or> (case co_retry_due_at R of None \<Rightarrow> True | Some due \<Rightarrow> now < due) then ret False
        else await (move_step env S S_READY) (\<lambda>ready.
          await (with_record (R\<lparr>co_phase := CP_READY, co_retry_due_at := None, co_retry_state := RS_ACTIVE\<rparr>)) (\<lambda>updated.
          await (save env ready updated (co_revision R) c now) (\<lambda>_. ret True)))) v = (Inr b, v')"
    show "worked (s_id s) b v v'"
    proof (cases "co_phase R \<noteq> CP_RETRY_SCHEDULED \<or> (case co_retry_due_at R of None \<Rightarrow> True | Some due \<Rightarrow> now < due)")
      case False
      then have phase: "co_phase R = CP_RETRY_SCHEDULED" by simp
      have "worked (s_id S) b v v'"
        by (rule moved_worked[where R = R, OF assms(1) *(3)[unfolded if_not_P[OF False]] _ _ return_True])
          (use *(1,2) phase in \<open>simp_all add: record_work_phase\<close>)
      with *(2) show ?thesis by simp
    qed (use *(3) in \<open>simp add: ret_def worked_def\<close>)
  qed
qed (use assms(2) in \<open>simp add: activate_retry_def ret_def worked_def\<close>)

lemma start_attempt_worked:
  assumes "quiet_env env" "start_attempt env cfg s record now w = (Inr b, w')"
  shows "worked (s_id s) b w w'"
proof (rule under_claim_worked[OF assms(1) assms(2)[unfolded start_attempt_def]])
  fix c b v v' and R :: step_coordination_record and S :: step
  let ?attempt_no = "co_current_attempt R + 1"
  let ?r = "\<lambda>run. R\<lparr>co_phase := CP_ATTEMPT_ACTIVE, co_latest_run_id := Some (rs_run_id run), co_current_attempt := ?attempt_no,
    co_retry_due_at := None, co_reconciliation := RD_CONSISTENT, co_reconciliation_detail := None\<rparr>"
  let ?f = "\<lambda>run _. await (retry_stale_stream env STALE_STREAM_RETRY_LIMIT None
    (start_run env (start_key R ?attempt_no) (co_task_id R) (rs_run_id run) None ''platform-coordinator'')) (\<lambda>_. ret True)"
  assume *: "dict_get (st_records (w_ext v)) (s_id s) = Some R" "s_id S = s_id s"
    and run: "(if co_phase R \<noteq> CP_READY \<or> s_status S \<noteq> S_READY then ret False
      else let attempt_no = ?attempt_no in
        await (retry_stale_stream env STALE_STREAM_RETRY_LIMIT None
          (create_run env (attempt_key R attempt_no) (co_task_id R) ''step'' (Some (co_step_id R)) None ''platform-coordinator'')) (\<lambda>run.
        if r_attempt (rs_run run) \<noteq> attempt_no
        then raise (ContractError CONFLICT False
          [(''expected_attempt'', JInt attempt_no), (''run_attempt'', JInt (r_attempt (rs_run run)))])
        else await (move_step env S S_RUNNING) (\<lambda>running.
          await (with_record (R\<lparr>co_phase := CP_ATTEMPT_ACTIVE, co_latest_run_id := Some (rs_run_id run),
            co_current_attempt := attempt_no, co_retry_due_at := None, co_reconciliation := RD_CONSISTENT,
            co_reconciliation_detail := None\<rparr>)) (\<lambda>updated.
          await (save env running updated (co_revision R) c now) (\<lambda>_.
          await (retry_stale_stream env STALE_STREAM_RETRY_LIMIT None
            (start_run env (start_key R attempt_no) (co_task_id R) (rs_run_id run) None ''platform-coordinator'')) (\<lambda>_.
          ret True)))))) v = (Inr b, v')"
  show "worked (s_id s) b v v'"
  proof (cases "co_phase R \<noteq> CP_READY \<or> s_status S \<noteq> S_READY")
    case True
    with run show ?thesis by (simp add: ret_def worked_def)
  next
    case False
    obtain run u where u: "same_work v u" and moved: "await (move_step env S S_RUNNING) (\<lambda>s. await (with_record (?r run)) (\<lambda>r.
        await (save env s r (co_revision R) c now) (?f run))) u = (Inr b, v')"
      using await_idle[OF assms(1) run[unfolded if_not_P[OF False] Let_def]]
      by (auto simp: raise_def qkeeps_retry_stale_stream qk.keeps_kernel split: if_splits)
    have "worked (s_id S) b u v'"
    proof (rule moved_worked[where R = R, OF assms(1) moved])
      show "b \<and> same_work x x'" if "?f run y x = (Inr b, x')" for y x b x'
        using await_idle[OF assms(1) that] by (auto simp: ret_def same_work_def qkeeps_retry_stale_stream qk.keeps_kernel)
    qed (use *(1,2) u False in \<open>simp_all add: record_work_phase same_work_def\<close>)
    from worked_around[OF u this same_work_refl] *(2) show ?thesis by simp
  qed
qed

text \<open>A dependency whose step is done is answered as satisfied or as failed.\<close>

lemma dependency_outcomes_decided:
  "qsafe env (\<lambda>_. True) (each (dependency_outcome env by_id) ds)
     (\<lambda>ys _. list_all2 (\<lambda>d y. fst y = d \<and> (\<forall>t. dict_get by_id d = Some t \<longrightarrow> s_status t \<in> done_statuses \<longrightarrow> snd y \<noteq> None)) ds ys)"
proof (rule qg.safe_each)
  show "qsafe env (\<lambda>_. True) (dependency_outcome env by_id d)
      (\<lambda>y _. fst y = d \<and> (\<forall>t. dict_get by_id d = Some t \<longrightarrow> s_status t \<in> done_statuses \<longrightarrow> snd y \<noteq> None))" for d
    unfolding dependency_outcome_def
    by (intro qg.safe_option qg.safe_raise qg.safe_if qg.safe_ret qg.safe_await[OF qkeeps_fetch(1)]) (auto simp: done_statuses_def)
qed simp_all

lemma fail_barrier_lessens:
  assumes "co_phase R = CP_BLOCKED"
  shows "record_work (R\<lparr>co_phase := CP_TERMINAL, co_satisfied_dependency_ids := ds, co_reconciliation_detail := x\<rparr>) < record_work R"
    and "record_work (R\<lparr>co_phase := CP_READY\<rparr>) < record_work R"
    and "record_work (R\<lparr>co_satisfied_dependency_ids := ds, co_phase := CP_READY\<rparr>) < record_work R"
  using assms by (simp_all add: record_work_phase)

lemma advance_barrier_lessens:
  assumes "co_phase R = CP_BLOCKED" "set (co_satisfied_dependency_ids R) \<subset> set ds" "set ds \<subseteq> set (co_dependency_ids R)"
  shows "record_work (R\<lparr>co_satisfied_dependency_ids := ds\<rparr>) < record_work R"
proof -
  have "set (co_dependency_ids R) - set ds \<subset> set (co_dependency_ids R) - set (co_satisfied_dependency_ids R)"
    using assms(2,3) by auto
  then show ?thesis using assms(1) by (simp add: record_work_phase psubset_card_mono)
qed

lemma moved_unless:
  assumes "quiet_env env" "s_id S = k" "dict_get (st_records (w_ext v)) k = Some R" "record_work r < record_work R"
    and "(if c then ret False else await (move_step env S t) (\<lambda>s. await (with_record r) (\<lambda>r. await (save env s r n cl now)
      (\<lambda>_. ret True)))) v = (Inr b, v')"
  shows "worked k b v v'"
proof (cases c)
  case False
  from moved_worked[where R = R, OF assms(1) assms(5)[unfolded if_not_P[OF False]] _ assms(4) return_True] assms(2,3)
  show ?thesis by simp
qed (use assms(5) in \<open>simp add: ret_def worked_def\<close>)

lemma barriers_worked:
  assumes "quiet_env env" "dict_get (st_records (w_ext w)) (s_id s) = Some r" "co_phase r = CP_BLOCKED"
  shows "under_claim env cfg (s_id s) now (\<lambda>c. fail_barrier env s ds c now) w = (Inr b, w') \<Longrightarrow> worked (s_id s) b w w'"
    and "under_claim env cfg (s_id s) now (\<lambda>c. open_barrier env s c now) w = (Inr b, w') \<Longrightarrow> worked (s_id s) b w w'"
    and "set (co_satisfied_dependency_ids r) \<subset> set ds \<Longrightarrow> set ds \<subseteq> set (co_dependency_ids r) \<Longrightarrow>
      under_claim env cfg (s_id s) now (\<lambda>c. advance_barrier env s ds c now) w = (Inr b, w') \<Longrightarrow> worked (s_id s) b w w'"
proof -
  have same: "R = r" if "dict_get (st_records (w_ext v)) (s_id s) = Some R" "st_records (w_ext v) = st_records (w_ext w)" for R v
    using that assms(2) by simp
  show "worked (s_id s) b w w'" if "under_claim env cfg (s_id s) now (\<lambda>c. fail_barrier env s ds c now) w = (Inr b, w')"
    by (rule under_claim_worked[OF assms(1) that[unfolded fail_barrier_def]], erule moved_unless[OF assms(1), rotated -1])
      (use same fail_barrier_lessens assms(3) in \<open>blast+\<close>)
  show "worked (s_id s) b w w'" if "under_claim env cfg (s_id s) now (\<lambda>c. open_barrier env s c now) w = (Inr b, w')"
    by (rule under_claim_worked[OF assms(1) that[unfolded open_barrier_def]], erule moved_unless[OF assms(1), rotated -1])
      (use same fail_barrier_lessens assms(3) in \<open>blast+\<close>)
  show "worked (s_id s) b w w'"
    if less: "set (co_satisfied_dependency_ids r) \<subset> set ds" "set ds \<subseteq> set (co_dependency_ids r)"
      and run: "under_claim env cfg (s_id s) now (\<lambda>c. advance_barrier env s ds c now) w = (Inr b, w')"
  proof (rule under_claim_worked[OF assms(1) run[unfolded advance_barrier_def]])
    fix c R S v b v'
    assume seen: "dict_get (st_records (w_ext v)) (s_id s) = Some R" "st_records (w_ext v) = st_records (w_ext w)" "s_id S = s_id s"
      and run: "await (with_record (R\<lparr>co_satisfied_dependency_ids := ds\<rparr>)) (\<lambda>updated.
        if set ds = set (co_dependency_ids R) then
          await (move_step env S S_READY) (\<lambda>ready. await (with_record (updated\<lparr>co_phase := CP_READY\<rparr>)) (\<lambda>updated.
          await (save env ready updated (co_revision R) c now) (\<lambda>_. ret True)))
        else await (save env S updated (co_revision R) c now) (\<lambda>_. ret True)) v = (Inr b, v')"
    have R: "R = r" by (rule same[OF seen(1,2)])
    show "worked (s_id s) b v v'"
    proof (cases "set ds = set (co_dependency_ids R)")
      case True
      then obtain u where "with_record (R\<lparr>co_satisfied_dependency_ids := ds\<rparr>) v = (Inr u, v)"
        "await (move_step env S S_READY) (\<lambda>ready. await (with_record (u\<lparr>co_phase := CP_READY\<rparr>)) (\<lambda>updated.
          await (save env ready updated (co_revision R) c now) (\<lambda>_. ret True))) v = (Inr b, v')"
        "u = R\<lparr>co_satisfied_dependency_ids := ds\<rparr>"
        using run by (auto simp: await_Inr_iff[of "with_record _"] dest: with_record_Inr)
      with moved_worked[where R = R, OF assms(1) _ _ _ return_True] fail_barrier_lessens(3)[of R ds] R assms(3) seen
      show ?thesis by metis
    next
      case False
      with run have "await (with_record (R\<lparr>co_satisfied_dependency_ids := ds\<rparr>)) (\<lambda>updated.
          await (save env S updated (co_revision R) c now) (\<lambda>_. ret True)) v = (Inr b, v')" by simp
      with saved_worked[where R = R, OF assms(1) _ _ _ return_True] advance_barrier_lessens[of R ds] R assms(3) less seen
      show ?thesis by metis
    qed
  qed
qed

lemma refresh_worked:
  assumes "quiet_env env" "refresh_dependencies env cfg s r by_id now w = (Inr b, w')"
    and r: "dict_get (st_records (w_ext w)) (s_id s) = Some r" "co_phase r = CP_BLOCKED"
    and known: "set (co_satisfied_dependency_ids r) \<subseteq> set (co_dependency_ids r)"
      "\<And>d. d \<in> set (co_satisfied_dependency_ids r) \<Longrightarrow> \<exists>t. dict_get by_id d = Some t \<and> s_status t \<in> done_statuses"
  shows "worked (s_id s) b w w'"
proof (cases "s_status s = S_PENDING")
  case True
  obtain ys u where outcomes: "each (dependency_outcome env by_id) (co_dependency_ids r) w = (Inr ys, u)"
    and rest: "(let satisfied = map fst (filter (\<lambda>(_, b). b = Some True) ys); failed = map fst (filter (\<lambda>(_, b). b = Some False) ys)
      in if failed \<noteq> [] then under_claim env cfg (s_id s) now (\<lambda>c. fail_barrier env s satisfied c now)
         else if set satisfied \<noteq> set (co_satisfied_dependency_ids r)
         then under_claim env cfg (s_id s) now (\<lambda>c. advance_barrier env s satisfied c now)
         else if co_dependency_ids r = [] then under_claim env cfg (s_id s) now (\<lambda>c. open_barrier env s c now)
         else ret False) u = (Inr b, w')"
    using assms(2) True by (auto simp: refresh_dependencies_def await_Inr_iff)
  have inv: "quiet_inv env w" using assms(1) by (simp add: quiet_inv_def)
  note decided = qg.safeD[OF dependency_outcomes_decided inv TrueI outcomes]
  define satisfied where "satisfied = map fst (filter (\<lambda>(_, b). b = Some True) ys)"
  define failed where "failed = map fst (filter (\<lambda>(_, b). b = Some False) ys)"
  have all: "list_all2 (\<lambda>d y. fst y = d \<and> (\<forall>t. dict_get by_id d = Some t \<longrightarrow> s_status t \<in> done_statuses \<longrightarrow> snd y \<noteq> None)) (co_dependency_ids r) ys"
    using decided(3) by simp
  have within: "set satisfied \<subseteq> set (co_dependency_ids r)"
    unfolding satisfied_def using all by (induction rule: list_all2_induct) auto
  have more: "set (co_satisfied_dependency_ids r) \<subseteq> set satisfied" if "failed = []"
  proof
    fix d assume d: "d \<in> set (co_satisfied_dependency_ids r)"
    then obtain i where i: "i < length (co_dependency_ids r)" "co_dependency_ids r ! i = d" using known(1) by (meson in_mono in_set_conv_nth)
    then have y: "fst (ys ! i) = d" "snd (ys ! i) \<noteq> None" "ys ! i \<in> set ys"
      using all known(2)[OF d] by (auto simp: list_all2_conv_all_nth)
    with that have "snd (ys ! i) = Some True" by (force simp: failed_def filter_empty_conv)
    with y show "d \<in> set satisfied" by (force simp: satisfied_def)
  qed
  have r': "dict_get (st_records (w_ext u)) (s_id s) = Some r" using r(1) decided(2) by (simp add: same_work_def)
  note worked = barriers_worked[OF assms(1) r' r(2)]
  have "worked (s_id s) b u w'"
  proof (cases "failed = []")
    case True
    with rest[unfolded Let_def, folded satisfied_def failed_def] worked(2,3) within psubsetI[OF more[OF True]]
    show ?thesis by (cases "set satisfied = set (co_satisfied_dependency_ids r)") (auto simp: ret_def worked_idle split: if_splits)
  qed (use rest[unfolded Let_def, folded satisfied_def failed_def] worked(1) in simp)
  with decided(2) show ?thesis by (rule worked_around) simp
qed (use assms(2) in \<open>simp add: refresh_dependencies_def ret_def worked_def\<close>)

text \<open>The records of the snapshot, and the steps it was read with.\<close>

lemma barrier_step_worked:
  assumes "quiet_env env" "barrier_step env cfg by_id now r w = (Inr b, w')"
    and "dict_get (st_records (w_ext w)) (co_step_id r) = Some r"
    and "\<And>s. dict_get by_id (co_step_id r) = Some s \<Longrightarrow> s_id s = co_step_id r"
    and "set (co_satisfied_dependency_ids r) \<subseteq> set (co_dependency_ids r)"
    and "\<And>d. d \<in> set (co_satisfied_dependency_ids r) \<Longrightarrow> \<exists>t. dict_get by_id d = Some t \<and> s_status t \<in> done_statuses"
  shows "worked (co_step_id r) b w w'"
proof -
  obtain s where s: "dict_get by_id (co_step_id r) = Some s"
    using assms(2) by (cases "dict_get by_id (co_step_id r)") (simp_all add: barrier_step_def raise_def)
  have id: "s_id s = co_step_id r" by (rule assms(4)[OF s])
  have idle: "ret False w = (Inr b, w') \<Longrightarrow> worked (co_step_id r) b w w'" by (auto simp: ret_def worked_def)
  from assms(2)[unfolded barrier_step_def s option.case] idle show ?thesis
    using activate_retry_worked[OF assms(1), of cfg s r now w b w'] refresh_worked[OF assms(1), of cfg s r by_id now w b w'] id assms(3,5,6)
    by (simp split: if_splits option.splits)
qed

lemma each_worked:
  assumes "distinct (map g xs)" "each f xs w = (Inr bs, w')" "\<And>x. x \<in> set xs \<Longrightarrow> P x (dict_get (st_records (w_ext w)) (g x))"
    and f: "\<And>x w b w'. x \<in> set xs \<Longrightarrow> P x (dict_get (st_records (w_ext w)) (g x)) \<Longrightarrow> f x w = (Inr b, w') \<Longrightarrow> worked (g x) b w w'"
  shows "if list_ex (\<lambda>b. b) bs then remaining_work (w_ext w') < remaining_work (w_ext w)
    else st_records (w_ext w') = st_records (w_ext w)"
  using assms
proof (induction xs arbitrary: w bs)
  case (Cons x xs)
  obtain b u cs where run: "f x w = (Inr b, u)" "each f xs u = (Inr cs, w')" "bs = b # cs"
    using Cons.prems(2) by (auto simp: await_Inr_iff ret_def)
  have first: "worked (g x) b w u" using Cons.prems(3,4) run(1) by simp
  have kept: "dict_get (st_records (w_ext u)) (g y) = dict_get (st_records (w_ext w)) (g y)" if "y \<in> set xs" for y
  proof -
    have "g y \<noteq> g x" using that Cons.prems(1) by (metis distinct.simps(2) image_eqI list.simps(9) set_map)
    then show ?thesis using first by (cases b) (auto simp: worked_def)
  qed
  have rest: "if list_ex (\<lambda>b. b) cs then remaining_work (w_ext w') < remaining_work (w_ext u)
      else st_records (w_ext w') = st_records (w_ext u)"
    by (rule Cons.IH[OF _ run(2)]) (use Cons.prems kept in simp_all)
  have less: "b \<Longrightarrow> remaining_work (w_ext u) < remaining_work (w_ext w)" using first worked_True by (cases b) simp_all
  have same: "\<not> b \<Longrightarrow> st_records (w_ext u) = st_records (w_ext w)" using first by (simp add: worked_def)
  show ?case
  proof (cases b)
    case True
    then have "remaining_work (w_ext w') \<le> remaining_work (w_ext u)"
      using rest by (cases "list_ex (\<lambda>b. b) cs") (simp_all add: remaining_work_def)
    with less[OF True] True show ?thesis by (simp add: run(3))
  next
    case False
    have "remaining_work (w_ext u) = remaining_work (w_ext w)" using same[OF False] by (simp add: remaining_work_def)
    with rest same[OF False] False show ?thesis by (simp add: run(3) split: if_splits)
  qed
qed (auto simp: ret_def)

lemma snapshot_exact:
  assumes ok: "coord_ok home (w_ext w)" and read: "get_plan_snapshot (w_ext w) p = Inr (q, rs)"
  shows "distinct (map co_step_id rs)" "r \<in> set rs \<Longrightarrow> dict_get (st_records (w_ext w)) (co_step_id r) = Some r"
    and "r \<in> set rs \<Longrightarrow> set (co_satisfied_dependency_ids r) \<subseteq> set (co_dependency_ids r)"
    and "r \<in> set rs \<Longrightarrow> d \<in> set (co_satisfied_dependency_ids r) \<Longrightarrow>
      \<exists>t. dict_get (keyed_steps q) d = Some t \<and> s_status t \<in> done_statuses"
proof -
  have q: "dict_get (st_plans (w_ext w)) p = Some q"
    and rs: "rs = sort_key co_step_id (filter (\<lambda>r. co_plan_id r = p) (map snd (st_records (w_ext w))))"
    using read by (auto simp: get_plan_snapshot_def get_plan_def sbind_eq_Inr split: option.splits)
  note wf = coord_okD(1)[OF ok]
  have own: "dict_get (st_records (w_ext w)) k = Some r \<and> co_step_id r = k" if "(k, r) \<in> set (st_records (w_ext w))" for k r
    using that store_wfD(4)[OF wf] store_wfD(2)[OF wf, of k r] by (simp add: dict_get_def map_of_eq_Some_iff)
  have "map co_step_id (map snd (st_records (w_ext w))) = map fst (st_records (w_ext w))" using own by auto
  then have "distinct (map co_step_id (map snd (st_records (w_ext w))))" using store_wfD(4)[OF wf] by (simp only:)
  from distinct_map_filter[OF this, of "\<lambda>r. co_plan_id r = p"] show "distinct (map co_step_id rs)" by (simp add: rs distinct_map)
  show rec: "dict_get (st_records (w_ext w)) (co_step_id r) = Some r" if "r \<in> set rs" for r
    using that own by (auto simp: rs)
  show "set (co_satisfied_dependency_ids r) \<subseteq> set (co_dependency_ids r)" if "r \<in> set rs"
    using store_wfD(2)[OF wf rec[OF that]] by (auto simp: step_coordination_record_post_init_def sbind_eq_Inr)
  show "\<exists>t. dict_get (keyed_steps q) d = Some t \<and> s_status t \<in> done_statuses" if r: "r \<in> set rs" and d: "d \<in> set (co_satisfied_dependency_ids r)"
  proof -
    have "co_plan_id r = p" using r by (auto simp: rs)
    with coord_okD(2)[OF ok rec[OF r]] d obtain t where t: "step_of (w_ext w) p d = Some t" "s_status t \<in> done_statuses"
      by (auto simp: pair_ok_def dependency_done_def split: option.splits)
    have "find (\<lambda>s. s_id s = d) ss = dict_get (map (\<lambda>s. (s_id s, s)) ss) d" for ss :: "step list" by (induction ss) auto
    with t q show ?thesis by (auto simp: step_of_def keyed_steps_def)
  qed
qed

lemma gather_Inr:
  assumes "gather f xs w = (Inr ys, w')"
  shows "each f xs w = (Inr ys, w')"
proof -
  obtain rs where "each (\<lambda>x. capture (f x)) xs w = (Inr rs, w')" "smap (\<lambda>r. r) rs = Inr ys"
    using assms by (auto simp: gather_def await_Inr_iff pure_def)
  then show ?thesis
  proof (induction xs arbitrary: w rs ys)
    case (Cons x xs)
    obtain r u rs' where run: "f x w = (r, u)" "each (\<lambda>x. capture (f x)) xs u = (Inr rs', w')" "rs = r # rs'"
      using Cons.prems(1) by (auto simp: await_Inr_iff capture_def ret_def split: prod.splits)
    obtain y ys' where "r = Inr y" "smap (\<lambda>r. r) rs' = Inr ys'" "ys = y # ys'"
      using Cons.prems(2) unfolding run(3) by (auto simp: sbind_eq_Inr)
    with Cons.IH[OF run(2)] run(1) show ?case by (simp add: await_def ret_def)
  qed (simp add: ret_def)
qed

lemma dispatch_step_worked:
  assumes "quiet_env env" "dispatch_step env cfg (keyed_steps q) now r w = (Inr b, w')"
  shows "worked (co_step_id r) b w w'"
proof -
  obtain s where s: "dict_get (keyed_steps q) (co_step_id r) = Some s" "start_attempt env cfg s r now w = (Inr b, w')"
    using assms(2) by (auto simp: dispatch_step_def raise_def split: option.splits)
  with start_attempt_worked[OF assms(1) s(2)] dict_get_keyed[OF s(1)] show ?thesis by simp
qed

lemma await_pair_Inr:
  "await m (\<lambda>(a, b). f a b) w = (Inr y, v) \<longleftrightarrow> (\<exists>a b w'. m w = (Inr (a, b), w') \<and> f a b w' = (Inr y, v))"
  by (simp add: await_Inr_iff split_paired_Ex)

lemma advance_once_worked:
  assumes "quiet_env env" "coord_inv home env w" "advance_once env cfg p now w = (Inr b, w')"
  shows "b \<Longrightarrow> remaining_work (w_ext w') < remaining_work (w_ext w)"
proof -
  obtain q rs w1 where 1: "fetch_snapshot env p w = (Inr (q, rs), w1)" and
    r1: "await (each (barrier_step env cfg (keyed_steps q) now) rs) (\<lambda>moved.
      await (fetch_snapshot env p) (\<lambda>(state, records).
      await (gather (dispatch_step env cfg (keyed_steps state) now) (filter (\<lambda>r. co_phase r = CP_READY) records)) (\<lambda>started.
      ret (list_ex (\<lambda>b. b) moved \<or> list_ex (\<lambda>b. b) started)))) w1 = (Inr b, w')"
    using assms(3) unfolding advance_once_def await_pair_Inr by blast
  obtain moved w2 where 2: "each (barrier_step env cfg (keyed_steps q) now) rs w1 = (Inr moved, w2)" and
    r2: "await (fetch_snapshot env p) (\<lambda>(state, records).
      await (gather (dispatch_step env cfg (keyed_steps state) now) (filter (\<lambda>r. co_phase r = CP_READY) records)) (\<lambda>started.
      ret (list_ex (\<lambda>b. b) moved \<or> list_ex (\<lambda>b. b) started))) w2 = (Inr b, w')"
    using r1 unfolding await_Inr_iff[of "each _ _"] by blast
  obtain q' rs' w3 where 3: "fetch_snapshot env p w2 = (Inr (q', rs'), w3)" and
    r3: "await (gather (dispatch_step env cfg (keyed_steps q') now) (filter (\<lambda>r. co_phase r = CP_READY) rs')) (\<lambda>started.
      ret (list_ex (\<lambda>b. b) moved \<or> list_ex (\<lambda>b. b) started)) w3 = (Inr b, w')"
    using r2 unfolding await_pair_Inr by blast
  obtain started where
    4: "gather (dispatch_step env cfg (keyed_steps q') now) (filter (\<lambda>r. co_phase r = CP_READY) rs') w3 = (Inr started, w')"
    and b: "b = (list_ex (\<lambda>b. b) moved \<or> list_ex (\<lambda>b. b) started)"
    using r3 unfolding await_Inr_iff[of "gather _ _"] by (auto simp: ret_def)
  have ok: "coord_ok home (w_ext w)" using assms(2) by (simp add: coord_inv_def)
  note s1 = fetch_snapshot_Inr[OF assms(1) 1] and s3 = fetch_snapshot_Inr[OF assms(1) 3]
  note exact = snapshot_exact[OF ok conjunct2[OF s1]]
  have work: "same_work v v' \<Longrightarrow> remaining_work (w_ext v') = remaining_work (w_ext v)" for v v' :: "'a coord_world"
    by (simp add: remaining_work_def same_work_def)
  have barrier: "if list_ex (\<lambda>b. b) moved then remaining_work (w_ext w2) < remaining_work (w_ext w1)
      else st_records (w_ext w2) = st_records (w_ext w1)"
  proof (rule each_worked[where P = "\<lambda>r. (=) (Some r)", OF exact(1) 2])
    show "Some r = dict_get (st_records (w_ext w1)) (co_step_id r)" if "r \<in> set rs" for r
      using exact(2)[OF that] s1 by (simp add: same_work_def)
    show "worked (co_step_id r) c v v'" if "r \<in> set rs" "Some r = dict_get (st_records (w_ext v)) (co_step_id r)"
      "barrier_step env cfg (keyed_steps q) now r v = (Inr c, v')" for r v c v'
      by (rule barrier_step_worked[OF assms(1) that(3)]) (use that(1,2) exact(3,4) dict_get_keyed in auto)
  qed
  have "coord_ok home (w_ext w2)"
  proof -
    note keep = isafe_csafe[OF isafe_fetch_snapshot[of env "\<lambda>_. True"]]
    have barrier_safe: "csafe home env (\<lambda>w. True \<and> snapshot_seen home p (keyed_steps q) rs w) (each (barrier_step env cfg (keyed_steps q) now) rs) (\<lambda>_ _. True)"
      by (rule ckeeps_pre[OF ckeeps_each[OF cstable_snapshot_seen ckeeps_barrier_step]]) simp_all
    have "coord_inv home env w1" "True \<and> snapshot_seen home p (keyed_steps q) rs w1"
      using cg.safeD[OF keep assms(2) _ 1] by auto
    from cg.safeD(1)[OF barrier_safe this 2] show ?thesis by (simp add: coord_inv_def)
  qed
  note exact' = snapshot_exact[OF this conjunct2[OF s3]]
  have dispatch: "if list_ex (\<lambda>b. b) started then remaining_work (w_ext w') < remaining_work (w_ext w3)
      else st_records (w_ext w') = st_records (w_ext w3)"
    by (rule each_worked[where P = "\<lambda>_ _. True" and g = co_step_id, OF _ gather_Inr[OF 4] TrueI dispatch_step_worked[OF assms(1)]])
      (use exact'(1) in \<open>simp_all add: distinct_map_filter\<close>)
  assume b
  with b barrier dispatch work[of w w1] work[of w2 w3] s1 s3
  show "remaining_work (w_ext w') < remaining_work (w_ext w)"
    by (auto simp: remaining_work_def split: if_splits)
qed

section \<open>The loop\<close>

lemma advance_once_inv: "coord_inv home env w \<Longrightarrow> advance_once env cfg p now w = (r, w') \<Longrightarrow> coord_inv home env w'"
  by (rule cg.safeD(1)[OF ckeeps_advance_once _ TrueI])

lemma advance_loop_ends:
  assumes "quiet_env env" "coord_inv home env w" "remaining_work (w_ext w) < fuel"
  shows "fst (advance_loop env cfg fuel p now w) \<noteq> Inr False"
  using assms(2,3)
proof (induction fuel arbitrary: w)
  case (Suc fuel)
  obtain r u where run: "advance_once env cfg p now w = (r, u)" by (cases "advance_once env cfg p now w")
  show ?case
  proof (cases r)
    case (Inr b)
    note run = run[unfolded Inr]
    show ?thesis
    proof (cases b)
      case True
      have "remaining_work (w_ext u) < fuel"
        using advance_once_worked[OF assms(1) Suc.prems(1) run True] Suc.prems(2) by simp
      from Suc.IH[OF advance_once_inv[OF Suc.prems(1) run] this] show ?thesis by (simp add: run True)
    qed (simp add: run ret_def)
  qed (simp add: run)
qed simp

lemma advance_loop_more:
  assumes "fst (advance_loop env cfg n p now w) \<noteq> Inr False" "n \<le> m"
  shows "advance_loop env cfg m p now w = advance_loop env cfg n p now w"
  using assms
proof (induction n arbitrary: m w)
  case (Suc n)
  obtain k where m: "m = Suc k" "n \<le> k" using Suc.prems(2) by (cases m) simp_all
  obtain r u where run: "advance_once env cfg p now w = (r, u)" by (cases "advance_once env cfg p now w")
  show ?case
  proof (cases r)
    case (Inr b)
    with run Suc.prems(1) Suc.IH[OF _ m(2), of u] show ?thesis by (cases b) (simp_all add: m(1))
  qed (simp add: run m(1))
qed (simp add: ret_def)

section \<open>Every request\<close>

text \<open>From some fuel on the answer is the same, and it is not that the fuel has run out.\<close>

definition settles :: "(string \<Rightarrow> string) \<Rightarrow> 'm coord_env \<Rightarrow> ('m coord_world \<Rightarrow> bool) \<Rightarrow>
    (nat \<Rightarrow> ('m coord_world, 'a option) action) \<Rightarrow> bool" where
  "settles home env P F \<longleftrightarrow> (\<forall>w. coord_inv home env w \<longrightarrow> P w \<longrightarrow>
     (\<exists>n. fst (F n w) \<noteq> Inr None \<and> (\<forall>m\<ge>n. F m w = F n w)))"

lemma settlesD:
  assumes "settles home env P F" "coord_inv home env w" "P w"
  obtains n where "fst (F n w) \<noteq> Inr None" "\<And>m. n \<le> m \<Longrightarrow> F m w = F n w"
  using assms unfolding settles_def by blast

lemma settles_pre: "settles home env P' F \<Longrightarrow> (\<And>w. P w \<Longrightarrow> P' w) \<Longrightarrow> settles home env P F"
  unfolding settles_def by blast

lemma settles_given: "(c \<Longrightarrow> settles home env P' F) \<Longrightarrow> (\<And>w. P w \<Longrightarrow> c \<and> P' w) \<Longrightarrow> settles home env P F"
  unfolding settles_def by blast

lemma settles_total: "(\<And>w. fst (f w) \<noteq> Inr None) \<Longrightarrow> settles home env P (\<lambda>_. f)"
  by (simp add: settles_def)

lemma settles_ret [simp]: "settles home env P (\<lambda>_. ret (Some x))" "settles home env P (\<lambda>_. raise e)"
  by (simp_all add: settles_def ret_def raise_def)

lemma settles_await:
  assumes "csafe home env P m Q" "\<And>x. settles home env (Q x) (\<lambda>n. F n x)"
  shows "settles home env P (\<lambda>n. await m (F n))"
  unfolding settles_def
proof (intro allI impI)
  fix w :: "'a coord_world" assume w: "coord_inv home env w" "P w"
  obtain r u where run: "m w = (r, u)" by (cases "m w")
  note u = cg.safeD[OF assms(1) w run]
  show "\<exists>n. fst (await m (F n) w) \<noteq> Inr None \<and> (\<forall>m'\<ge>n. await m (F m') w = await m (F n) w)"
  proof (cases r)
    case (Inr x)
    obtain n where n: "fst (F n x u) \<noteq> Inr None" "\<And>m. n \<le> m \<Longrightarrow> F m x u = F n x u"
      using settlesD[OF assms(2) u(1) u(3)[OF Inr]] by blast
    have "await m (F k) w = F k x u" for k by (rule await_run(1)) (simp add: run Inr)
    with n show ?thesis by metis
  qed (simp add: run)
qed

lemma settles_and_then:
  assumes "settles home env P F" "\<And>n. ckeeps home env P (F n)" "\<And>x. settles home env (\<lambda>_. True) (\<lambda>n. G n x)"
  shows "settles home env P (\<lambda>n. and_then (F n) (G n))"
  unfolding settles_def
proof (intro allI impI)
  fix w :: "'a coord_world" assume w: "coord_inv home env w" "P w"
  obtain n where n: "fst (F n w) \<noteq> Inr None" "\<And>m. n \<le> m \<Longrightarrow> F m w = F n w" using settlesD[OF assms(1) w] by blast
  obtain r u where run: "F n w = (r, u)" by (cases "F n w")
  have u: "coord_inv home env u" by (rule cg.safeD(1)[OF assms(2) w run])
  show "\<exists>n. fst (and_then (F n) (G n) w) \<noteq> Inr None \<and> (\<forall>m\<ge>n. and_then (F m) (G m) w = and_then (F n) (G n) w)"
  proof (cases r)
    case (Inl e)
    then show ?thesis using n run by (intro exI[of _ n]) (simp add: and_then_def await_def)
  next
    case (Inr v)
    then obtain x where x: "v = Some x" using n(1) run by auto
    obtain k where k: "fst (G k x u) \<noteq> Inr None" "\<And>m. k \<le> m \<Longrightarrow> G m x u = G k x u" using settlesD[OF assms(3) u TrueI] by blast
    have "and_then (F m) (G m) w = G k x u" if "max n k \<le> m" for m
      using that n(2)[of m] k(2)[of m] run Inr x by (simp add: and_then_def await_def)
    then show ?thesis using k(1) by (intro exI[of _ "max n k"]) simp
  qed
qed

lemma settles_each_opt:
  assumes "\<And>x. x \<in> set xs \<Longrightarrow> settles home env (\<lambda>_. True) (\<lambda>n. f n x)" "\<And>n x. x \<in> set xs \<Longrightarrow> ckeeps home env (\<lambda>_. True) (f n x)"
  shows "settles home env (\<lambda>_. True) (\<lambda>n. each_opt (f n) xs)"
  using assms by (induction xs) (auto intro!: settles_and_then ckeeps_each_opt)

lemma await_answers:
  "(\<And>x u. m w = (Inr x, u) \<Longrightarrow> fst (f x u) \<noteq> Inr None) \<Longrightarrow> fst (await m f w) \<noteq> Inr None"
  by (cases "m w"; cases "fst (m w)") auto

lemma settles_advance:
  assumes quiet: "quiet_env env"
  shows "settles home env (\<lambda>_. True) (\<lambda>n. advance env cfg n p now)"
  unfolding advance_def
proof (rule settles_await[OF ckeeps_now], unfold settles_def, intro allI impI)
  fix t and w :: "'a coord_world" assume w: "coord_inv home env w"
  let ?f = "\<lambda>finished. if \<not> finished then ret None else await (aggregate_task env p) (\<lambda>_. await (async_projection env p) (\<lambda>p. ret (Some p)))"
  let ?n = "Suc (remaining_work (w_ext w))"
  have ends: "fst (advance_loop env cfg ?n p t w) \<noteq> Inr False" by (rule advance_loop_ends[OF quiet w]) simp
  have "await (advance_loop env cfg m p t) ?f w = await (advance_loop env cfg ?n p t) ?f w" if "?n \<le> m" for m
    unfolding await_def advance_loop_more[OF ends that] ..
  moreover have "fst (await (advance_loop env cfg ?n p t) ?f w) \<noteq> Inr None"
  proof (rule await_answers)
    fix x u assume "advance_loop env cfg ?n p t w = (Inr x, u)"
    then have "?f x = await (aggregate_task env p) (\<lambda>_. await (async_projection env p) (\<lambda>p. ret (Some p)))" using ends by simp
    moreover have "fst (await (aggregate_task env p) (\<lambda>_. await (async_projection env p) (\<lambda>p. ret (Some p))) u) \<noteq> Inr None"
      by (intro await_answers) (simp add: ret_def)
    ultimately show "fst (?f x u) \<noteq> Inr None" by simp
  qed
  ultimately show "\<exists>n. fst (await (advance_loop env cfg n p t) ?f w) \<noteq> Inr None \<and>
    (\<forall>m\<ge>n. await (advance_loop env cfg m p t) ?f w = await (advance_loop env cfg n p t) ?f w)" by blast
qed

lemma settles_projected: "settles home env P (\<lambda>_. projected env p)"
  unfolding projected_def by (rule settles_total, rule await_answers) (simp add: ret_def)

lemma settles_if:
  "(b \<Longrightarrow> settles home env P F) \<Longrightarrow> (\<not> b \<Longrightarrow> settles home env P G) \<Longrightarrow> settles home env P (\<lambda>n. if b then F n else G n)"
  by (cases b) simp_all

lemma settles_option:
  "(v = None \<Longrightarrow> settles home env P F) \<Longrightarrow> (\<And>x. v = Some x \<Longrightarrow> settles home env P (\<lambda>n. G n x)) \<Longrightarrow>
     settles home env P (\<lambda>n. case v of None \<Rightarrow> F n | Some x \<Rightarrow> G n x)"
  by (cases v) simp_all

lemma settles_progress: "quiet_env env \<Longrightarrow> settles home env (\<lambda>_. True) (\<lambda>n. progress env cfg n now result)"
  unfolding progress_def
  by (cases result) (simp, intro settles_if settles_and_then settles_advance ckeeps_advance settles_projected)

lemma on_not_found_run:
  assumes "m w = (x, u)"
  shows "(\<exists>e. \<forall>f h. on_not_found m f h w = (Inl e, u)) \<or> (\<exists>y. \<forall>f h. on_not_found m f h w = f y u) \<or>
    (\<forall>f h. on_not_found m f h w = h u)"
proof (cases x)
  case (Inl e)
  show ?thesis
  proof (cases e)
    case (ContractError code retryable details)
    then show ?thesis using assms Inl by (cases code) (simp_all add: on_not_found_def)
  qed (use assms Inl in \<open>simp_all add: on_not_found_def\<close>)
qed (use assms in \<open>auto simp: on_not_found_def\<close>)

lemma settles_on_not_found:
  fixes f :: "nat \<Rightarrow> run_state \<Rightarrow> ('a coord_world, 'b option) action"
  assumes "\<And>run. settles home env (\<lambda>_. True) (\<lambda>n. f n run)" "settles home env (\<lambda>_. True) h"
  shows "settles home env (\<lambda>_. True) (\<lambda>n. on_not_found (get_run env t r) (f n) (h n))"
  unfolding settles_def
proof (intro allI impI)
  fix w :: "'a coord_world" assume w: "coord_inv home env w"
  obtain x u where run: "get_run env t r w = (x, u)" by (cases "get_run env t r w")
  have u: "coord_inv home env u" by (rule cg.safeD(1)[OF ke.keeps_get(2) w TrueI run])
  show "\<exists>n. fst (on_not_found (get_run env t r) (f n) (h n) w) \<noteq> Inr None \<and>
      (\<forall>m\<ge>n. on_not_found (get_run env t r) (f m) (h m) w = on_not_found (get_run env t r) (f n) (h n) w)"
    using on_not_found_run[of "get_run env t r" w x u, OF run]
  proof (elim disjE exE)
    fix y assume y: "\<forall>(f :: run_state \<Rightarrow> ('a coord_world, 'b option) action) h. on_not_found (get_run env t r) f h w = f y u"
    obtain n where "fst (f n y u) \<noteq> Inr None" "\<And>m. n \<le> m \<Longrightarrow> f m y u = f n y u" using settlesD[OF assms(1)[of y] u TrueI] by blast
    then show ?thesis unfolding y[rule_format] by blast
  next
    assume y: "\<forall>(f :: run_state \<Rightarrow> ('a coord_world, 'b option) action) h. on_not_found (get_run env t r) f h w = h u"
    obtain n where "fst (h n u) \<noteq> Inr None" "\<And>m. n \<le> m \<Longrightarrow> h m u = h n u" using settlesD[OF assms(2) u TrueI] by blast
    then show ?thesis unfolding y[rule_format] by blast
  next
    fix e assume y: "\<forall>(f :: run_state \<Rightarrow> ('a coord_world, 'b option) action) h. on_not_found (get_run env t r) f h w = (Inl e, u)"
    show ?thesis unfolding y[rule_format] by simp
  qed
qed

lemma settles_observe_run: "quiet_env env \<Longrightarrow> settles home env (\<lambda>_. True) (\<lambda>n. observe_run env cfg n tid rid category okey now)"
  unfolding observe_run_def
  by (intro settles_await[OF ckeeps_now] settles_await[OF ckeeps_observe_run_outcome] settles_progress)

lemma settles_resolutions:
  assumes "quiet_env env"
  shows "settles home env (\<lambda>_. True) (\<lambda>_. wait_step env cfg wait now)"
    and "settles home env (\<lambda>_. True) (\<lambda>n. resolve_approval env cfg n k aid st sid act outcome key owner pid now)"
    and "settles home env (\<lambda>_. True) (\<lambda>n. resolve_event env cfg n k eid et ck owner pid now)"
    and "settles home env (\<lambda>_. True) (\<lambda>n. resolve_external_job env cfg n k ref resolution key owner pid now)"
    and "settles home env (\<lambda>_. True) (\<lambda>_. cancel_plan env cfg p key now)"
  unfolding wait_step_def resolve_approval_def resolve_event_def resolve_external_job_def cancel_plan_def
  by (intro settles_await[OF ckeeps_now] settles_await[OF ckeeps_typed_waits(1)] settles_await[OF ckeeps_typed_waits(2)]
      settles_await[OF ckeeps_typed_waits(3)] settles_await[OF ckeeps_wait_step_record] settles_await[OF ckeeps_cancel_plan_steps]
      settles_progress settles_projected assms | simp add: settles_projected split: prod.split)+

lemma ckeeps_due_record: "ckeeps home env (\<lambda>_. True) (due_record env cfg fuel now r)"
  unfolding due_record_def by (intro ckeeps_steps ckeeps_resolve_wait)

lemma ckeeps_due_plan: "ckeeps home env (\<lambda>_. True) (due_plan env cfg fuel now state)"
  unfolding due_plan_def Let_def by (intro ckeeps_steps ckeeps_each_opt ckeeps_due_record)

lemma settles_due_record: "quiet_env env \<Longrightarrow> settles home env (\<lambda>_. True) (\<lambda>n. due_record env cfg n now r)"
  unfolding due_record_def
  by (intro settles_option settles_if settles_ret settles_await[OF ckeeps_resolve_wait] settles_and_then settles_progress ckeeps_progress)

lemma settles_due_plan: "quiet_env env \<Longrightarrow> settles home env (\<lambda>_. True) (\<lambda>n. due_plan env cfg n now state)"
  unfolding due_plan_def Let_def
  by (intro settles_await[OF ckeeps_store_read] settles_and_then settles_each_opt settles_due_record settles_ret
      ckeeps_each_opt ckeeps_due_record)

lemma settles_process_due: "quiet_env env \<Longrightarrow> settles home env (\<lambda>_. True) (\<lambda>n. process_due env cfg n now)"
  unfolding process_due_def Let_def
  by (intro settles_await[OF ckeeps_now] settles_await[OF ckeeps_store_read] settles_and_then settles_each_opt settles_due_plan
      settles_advance settles_projected ckeeps_each_opt ckeeps_due_plan ckeeps_advance ckeeps_projected)

lemma settles_reconcile_record:
  assumes "quiet_env env" "home (co_step_id r) = co_plan_id r"
  shows "settles home env (\<lambda>_. True) (\<lambda>n. reconcile_record env cfg n now r)"
  unfolding reconcile_record_def
  by (intro settles_if settles_option settles_ret settles_on_not_found settles_await[OF ckeeps_mark_inconsistent] settles_and_then
      settles_observe_run ckeeps_observe_run settles_await[OF ke.keeps_start_run] assms)

lemma settles_list_records:
  assumes "\<And>rs. (\<And>r. r \<in> set rs \<Longrightarrow> home (co_step_id r) = p \<and> co_plan_id r = p) \<Longrightarrow> settles home env (\<lambda>_. True) (\<lambda>n. F n rs)"
  shows "settles home env (\<lambda>_. True) (\<lambda>n. await (store_read env (\<lambda>st. list_step_records st p)) (F n))"
proof (rule settles_await[OF isafe_csafe[OF isafe_store_read[where Q = "\<lambda>rs _. \<forall>r\<in>set rs. home (co_step_id r) = p \<and> co_plan_id r = p"]]])
  show "settles home env (\<lambda>w::'a coord_world. (\<forall>r\<in>set rs. home (co_step_id r) = p \<and> co_plan_id r = p)) (\<lambda>n. F n rs)" for rs
    by (rule settles_given[where c = "\<forall>r\<in>set rs. home (co_step_id r) = p \<and> co_plan_id r = p"], rule assms) auto
  show "\<forall>r\<in>set rs. home (co_step_id r) = p \<and> co_plan_id r = p"
    if "coord_ok home (w_ext w)" "list_step_records (w_ext w) p = Inr rs" for w :: "'a coord_world" and rs
    using that snapshot_read[of home w p] by (fastforce simp: list_step_records_def sbind_eq_Inr snapshot_seen_def records_seen_def)
qed simp_all

lemma settles_reconcile_plan: "quiet_env env \<Longrightarrow> settles home env (\<lambda>_. True) (\<lambda>n. reconcile_plan env cfg n p now)"
  unfolding reconcile_plan_def
  by (intro settles_await[OF ckeeps_now] settles_await[OF ckeeps_reads(1)] settles_await[OF ke.keeps_recover_task]
      settles_list_records settles_and_then settles_each_opt settles_reconcile_record settles_process_due settles_advance
      settles_projected ckeeps_each_opt ckeeps_reconcile_record ckeeps_process_due ckeeps_advance) simp_all

lemma settles_reconcile_all: "quiet_env env \<Longrightarrow> settles home env (\<lambda>_. True) (\<lambda>n. reconcile_all env cfg n now)"
  unfolding reconcile_all_def
  by (intro settles_await[OF ckeeps_store_read] settles_each_opt settles_reconcile_plan ckeeps_reconcile_plan)

lemma settles_repair_step: "quiet_env env \<Longrightarrow> settles home env (\<lambda>_. True) (\<lambda>n. repair_step env cfg n p k act expected key now)"
  unfolding repair_step_def Let_def
proof (rule settles_await[OF ckeeps_ret(3)], rule settles_await[OF ckeeps_ret(3)], rule settles_await[OF ckeeps_now],
    rule settles_await[OF isafe_csafe[OF isafe_fetch_record[OF istable_const[where c = True]]]], intro settles_if settles_ret settles_projected)
  fix x y t and R :: step_coordination_record
  assume quiet: "quiet_env env" and p: "\<not> co_plan_id R \<noteq> p"
  show "settles home env (\<lambda>w. (co_step_id R = k \<and> home k = co_plan_id R) \<and> True \<and> record_seen k R w)
    (\<lambda>n. await (pure (require_repairable R expected)) (\<lambda>_.
     await (store_call env (draw_claim env (\<lambda>claim_id. on_store (acquire_claim claim_id k (cc_coordinator_id cfg) (cc_claim_ttl cfg) t))))
       (\<lambda>claim. case claim of None \<Rightarrow> raise (ContractError CONFLICT False [(''step_id'', JStr k)])
       | Some c \<Rightarrow> await (holding env c (repair_claimed env p k act expected (''repair:'' @ key) t c))
          (\<lambda>replayed. case replayed of Some p \<Rightarrow> ret (Some p)
           | None \<Rightarrow> and_then (advance env cfg n p (Some t)) (\<lambda>_. projected env p)))))"
  proof (rule settles_given[where c = "home k = p" and P' = "\<lambda>_. True"], rule settles_await[OF ckeeps_ret(3)],
      rule settles_await[OF isafe_csafe[OF isafe_acquire[OF istable_const[where c = True]]]], rule settles_option, rule settles_ret)
    fix c assume home: "home k = p"
    show "settles home env P (\<lambda>n. await (holding env c (repair_claimed env p k act expected (''repair:'' @ key) t c))
       (\<lambda>replayed. case replayed of Some p \<Rightarrow> ret (Some p)
        | None \<Rightarrow> and_then (advance env cfg n p (Some t)) (\<lambda>_. projected env p)))" for P
      by (rule settles_pre[where P' = "\<lambda>_. True"], rule settles_await[OF csafe_holding[OF ckeeps_repair_claimed]],
          rule home, rule settles_option) (auto intro!: settles_and_then settles_advance[OF quiet] ckeeps_advance settles_projected)
  qed (use p in simp)
qed

lemma settles_coordinate:
  "quiet_env env \<Longrightarrow> admissible home cmd \<Longrightarrow> settles home env (\<lambda>_. True) (\<lambda>n. coordinate env cfg n cmd)"
  by (cases cmd) (auto simp: listed_def register_plan_def intro!: settles_and_then settles_await[OF ckeeps_register] settles_advance
      settles_projected settles_observe_run settles_resolutions settles_process_due settles_reconcile_plan settles_reconcile_all
      settles_repair_step ckeeps_and_then ckeeps_register ke.keeps_await ckeeps_advance ckeeps_projected ckeeps_observe_run
      ckeeps_resolutions ckeeps_reconcile_plan ckeeps_repair_step)

end
