(* ===== verification/Coordinator_Properties.thy ===== *)
theory Coordinator_Properties
  imports Coordinator_Demo Coordinator_Claims Coordinator_Returns
begin

text \<open>
  The properties of the plan coordinator: what any sequence of its requests keeps under interference,
  what a claim excludes, which plans are accepted, when an attempt is retried and how long after, and
  how the dependency barrier decides.
\<close>

section \<open>Requests under interference\<close>

text \<open>C5: Every public request of the plan coordinator, successful or raising, with other coordinators and
  the collaborators of the kernel acting at every await, keeps the coordinator store valid (records
  and steps agree, dependencies of started steps are done) and only lets it grow.\<close>

theorem coordination_stays_valid:
  assumes "coord_rely home env" "coord_ok home (w_ext w)" "list_all (admissible home) cmds"
  shows "coord_ok home (w_ext (coordinates env cfg fuel cmds w)) \<and>
    store_grows (w_ext w) (w_ext (coordinates env cfg fuel cmds w))"
  by (rule coordinates_steps[OF assms])

definition demo_requests :: "coordinator_command list" where
  "demo_requests = [Advance_Plan demo_plan_id (Some 10), Observe_Run demo_task demo_run None None (Some 11),
     Cancel_Plan demo_plan_id ''stop'' (Some 12), Reconcile_All None]"

lemma demo_requests_admissible: "list_all (admissible home) demo_requests"
  by (simp add: demo_requests_def)

lemma coord_world_of_ext [simp]: "w_ext (coord_world_of evs st) = st"
  by (simp add: coord_world_of_def)

theorem coordination_stays_valid_witness:
  "coord_ok (\<lambda>_. demo_plan_id) (w_ext (coordinates still_env demo_cfg 5 demo_requests (coord_world_of [] running_store))) \<and>
   store_grows running_store (w_ext (coordinates still_env demo_cfg 5 demo_requests (coord_world_of [] running_store)))"
  using coordination_stays_valid[OF still_rely, of "\<lambda>_. demo_plan_id" "coord_world_of [] running_store" demo_requests demo_cfg 5]
  by (simp add: demo_stores_ok demo_requests_admissible)

text \<open>C8: A step that succeeded, was skipped or was cancelled is final: whatever requests follow, under
  interference, it keeps its status and its dependencies.\<close>

theorem finished_steps_final:
  assumes "coord_rely home env" "coord_ok home (w_ext w)" "list_all (admissible home) cmds"
    and "step_of (w_ext w) p k = Some s" "s_status s \<in> {S_SUCCEEDED, S_SKIPPED, S_CANCELLED}"
  shows "\<exists>s'. step_of (w_ext (coordinates env cfg fuel cmds w)) p k = Some s' \<and> s_status s' = s_status s \<and>
    s_depends_on s' = s_depends_on s"
proof -
  obtain s' where "step_of (w_ext (coordinates env cfg fuel cmds w)) p k = Some s'" "step_after s s'"
    using coordinates_steps[OF assms(1-3)] step_of_grows assms(4) by blast
  with final_status assms(5) show ?thesis by (auto simp: step_after_def)
qed

lemma demo_step_of:
  "step_of (demo_store s1 r1 s2 r2) demo_plan_id demo_first = Some (demo_step demo_first s1 [])"
  "step_of (demo_store s1 r1 s2 r2) demo_plan_id demo_second = Some (demo_step demo_second s2 [demo_first])"
  by (simp_all add: demo_store_def step_of_def)

theorem finished_steps_final_witness:
  "\<exists>s'. step_of (w_ext (coordinates still_env demo_cfg 5 demo_requests (coord_world_of [] succeeded_store))) demo_plan_id demo_first = Some s' \<and>
     s_status s' = S_SUCCEEDED \<and> s_depends_on s' = []"
  using finished_steps_final[OF still_rely, of "\<lambda>_. demo_plan_id" "coord_world_of [] succeeded_store" demo_requests demo_plan_id demo_first
      "demo_step demo_first S_SUCCEEDED []" demo_cfg 5] demo_stores_ok(3)
  by (simp add: demo_requests_admissible succeeded_store_def demo_step_of)

text \<open>C7: After any sequence of requests under interference a step that is ready, running, waiting, succeeded
  or failed has only dependencies that succeeded or were skipped.\<close>

theorem started_after_dependencies:
  assumes "coord_rely home env" "coord_ok home (w_ext w)" "list_all (admissible home) cmds"
    and "dict_get (st_records (w_ext (coordinates env cfg fuel cmds w))) k = Some r"
    and "step_of (w_ext (coordinates env cfg fuel cmds w)) (co_plan_id r) k = Some s"
    and "s_status s \<in> {S_READY, S_RUNNING, S_WAITING, S_SUCCEEDED, S_FAILED}" "d \<in> set (s_depends_on s)"
  shows "\<exists>t. step_of (w_ext (coordinates env cfg fuel cmds w)) (co_plan_id r) d = Some t \<and> s_status t \<in> {S_SUCCEEDED, S_SKIPPED}"
proof -
  have "coord_ok home (w_ext (coordinates env cfg fuel cmds w))" using coordinates_steps[OF assms(1-3)] by blast
  from coord_okD(2)[OF this assms(4)] assms(5-7)
  have "dependency_done (w_ext (coordinates env cfg fuel cmds w)) (co_plan_id r) d"
    by (auto simp: pair_ok_def started_statuses_def)
  then show ?thesis by (auto simp: dependency_done_def done_statuses_def split: option.splits)
qed

lemma empty_store_ok: "coord_ok home empty_store"
  by (simp add: coord_ok_def store_wf_def empty_store_def)

text \<open>A request that is refused at once, and what it leaves.\<close>

lemma blank_cancel_refused:
  "w_ext (coordinates still_env cfg fuel [Cancel_Plan plan_id [] (Some t)] w) = w_ext w"
  by (simp add: listed_def and_then_def cancel_plan_def coordinator_now_def cancel_plan_steps_def py_blank_def guard_def raise_run)

lemma demo_store_records:
  "dict_get (st_records (demo_store s1 r1 s2 r2)) demo_first = Some r1"
  "dict_get (st_records (demo_store s1 r1 s2 r2)) demo_second = Some r2"
  by (simp_all add: demo_store_def)

theorem started_after_dependencies_witness:
  "\<exists>t. step_of (w_ext (coordinates still_env demo_cfg 5 [Cancel_Plan demo_plan_id [] (Some 1)] (coord_world_of [] succeeded_store)))
     demo_plan_id demo_first = Some t \<and> s_status t \<in> {S_SUCCEEDED, S_SKIPPED}"
proof -
  let ?r = "(demo_record demo_second CP_ATTEMPT_ACTIVE [demo_first] [demo_first])\<lparr>co_current_attempt := 1\<rparr>"
  have "\<exists>t. step_of (w_ext (coordinates still_env demo_cfg 5 [Cancel_Plan demo_plan_id [] (Some 1)] (coord_world_of [] succeeded_store)))
     (co_plan_id ?r) demo_first = Some t \<and> s_status t \<in> {S_SUCCEEDED, S_SKIPPED}"
  proof (rule started_after_dependencies[OF still_rely, where k = demo_second and s = "demo_step demo_second S_RUNNING [demo_first]"])
    show "coord_ok (\<lambda>_. demo_plan_id) (w_ext (coord_world_of [] succeeded_store))" by (simp add: demo_stores_ok)
  qed (unfold blank_cancel_refused, simp_all add: succeeded_store_def demo_store_records demo_step_of demo_record_def)
  then show ?thesis by (simp add: demo_record_def)
qed

text \<open>C26: Signals stay consumed: whatever requests follow, under interference, the record of a step keeps its
  identity, its dependencies and its retry policy, the keys it has processed and the attempts it has
  counted, and its revision never goes back.\<close>

theorem consumed_signals_kept:
  assumes "coord_rely home env" "coord_ok home (w_ext w)" "list_all (admissible home) cmds"
    and "dict_get (st_records (w_ext w)) k = Some r"
  shows "\<exists>r'. dict_get (st_records (w_ext (coordinates env cfg fuel cmds w))) k = Some r' \<and>
     co_task_id r' = co_task_id r \<and> co_plan_id r' = co_plan_id r \<and> co_step_id r' = co_step_id r \<and>
     co_dependency_ids r' = co_dependency_ids r \<and> co_retry_policy r' = co_retry_policy r \<and>
     prefix (co_processed_keys r) (co_processed_keys r') \<and> co_current_attempt r \<le> co_current_attempt r' \<and>
     co_revision r \<le> co_revision r'"
proof -
  obtain r' where "dict_get (st_records (w_ext (coordinates env cfg fuel cmds w))) k = Some r'" "record_after r r'"
    using coordinates_steps[OF assms(1-3)] store_growsD(2)[OF _ assms(4)] by blast
  then show ?thesis by (auto simp: record_after_def record_next_def)
qed

theorem consumed_signals_kept_witness:
  "\<exists>r'. dict_get (st_records (w_ext (coordinates still_env demo_cfg 5 demo_requests (coord_world_of [] retrying_store)))) demo_first = Some r' \<and>
     prefix [demo_failed_key] (co_processed_keys r') \<and> 1 \<le> co_current_attempt r'"
  using consumed_signals_kept[OF still_rely, of "\<lambda>_. demo_plan_id" "coord_world_of [] retrying_store" demo_requests demo_first
      retrying_first demo_cfg 5] demo_stores_ok(1)
  by (auto simp: demo_requests_admissible retrying_store_def demo_store_records retrying_first_def)

text \<open>C25: A retry is only ever scheduled within the policy: after any sequence of requests under interference,
  a record whose retry is scheduled has used fewer attempts than its policy allows.\<close>

theorem retry_within_policy:
  assumes "coord_rely home env" "coord_ok home (w_ext w)" "list_all (admissible home) cmds"
    and "dict_get (st_records (w_ext (coordinates env cfg fuel cmds w))) k = Some r" "co_phase r = CP_RETRY_SCHEDULED"
  shows "co_current_attempt r < rt_max_attempts (co_retry_policy r)"
proof -
  have "coord_ok home (w_ext (coordinates env cfg fuel cmds w))" using coordinates_steps[OF assms(1-3)] by blast
  from coord_okD(2)[OF this assms(4)] assms(5) show ?thesis by (auto simp: pair_ok_def)
qed

theorem retry_within_policy_witness: "co_current_attempt retrying_first < rt_max_attempts (co_retry_policy retrying_first)"
  by (rule retry_within_policy[OF still_rely, of "\<lambda>_. demo_plan_id" "coord_world_of [] retrying_store"
        "[Cancel_Plan demo_plan_id [] (Some 1)]" demo_cfg 5 demo_first], unfold blank_cancel_refused)
    (simp_all add: demo_stores_ok, simp_all add: retrying_store_def demo_store_records retrying_first_def demo_record_def)

section \<open>Requests return\<close>

text \<open>C6: Every request of the coordinator returns. While nobody else saves a step, some number of rounds of the
  \<open>advance\<close> loop is enough for the whole request: with it and with any larger one the request ends in
  the same way, with an answer or an exception, and never because its rounds have run out.\<close>

theorem requests_return:
  assumes "coord_rely home env" "quiet_env env" "coord_ok home (w_ext w)" "admissible home cmd"
  shows "\<exists>n. fst (coordinate env cfg n cmd w) \<noteq> Inr None \<and>
    (\<forall>m. n \<le> m \<longrightarrow> coordinate env cfg m cmd w = coordinate env cfg n cmd w)"
proof -
  have "coord_inv home env w" using assms(1,3) by (simp add: coord_inv_def)
  from settlesD[OF settles_coordinate[OF assms(2,4)] this TrueI] show ?thesis by metis
qed

lemma still_quiet: "quiet_env still_env"
  by (simp add: quiet_env_def still_env_def idle_action_def ret_def raise_def)

theorem requests_return_witness:
  "\<exists>n. fst (coordinate still_env demo_cfg n (Advance_Plan demo_plan_id (Some 10)) (coord_world_of [] retrying_store)) \<noteq> Inr None"
proof -
  let ?w = "coord_world_of [] retrying_store" and ?cmd = "Advance_Plan demo_plan_id (Some 10)"
  have "\<exists>n. fst (coordinate still_env demo_cfg n ?cmd ?w) \<noteq> Inr None \<and>
      (\<forall>m. n \<le> m \<longrightarrow> coordinate still_env demo_cfg m ?cmd ?w = coordinate still_env demo_cfg n ?cmd ?w)"
    by (rule requests_return[OF still_rely still_quiet, where home = "\<lambda>_. demo_plan_id"]) (simp_all only: admissible.simps coord_world_of_ext demo_stores_ok)
  then show ?thesis by blast
qed

section \<open>Claims and revisions\<close>


definition demo_claim :: coordinator_claim where
  "demo_claim = \<lparr>cl_step_id = demo_first, cl_claim_id = ''claim-1'', cl_owner_id = ''c'', cl_fence = 1, cl_expires_at = 1000\<rparr>"

definition claimed_store :: coordinator_store where
  "claimed_store = running_store\<lparr>st_claims := [(demo_first, demo_claim)], st_fences := [(demo_first, 1)]\<rparr>"




text \<open>A save made under a claim that is not in force or has expired, or that expects another revision of the
  record, is refused and leaves the store as it was.\<close>

theorem stale_save_refused:
  assumes "dict_get (st_claims st) (s_id s) \<noteq> Some c \<or> cl_expires_at c \<le> now \<or>
    (case dict_get (st_records st) (s_id s) of None \<Rightarrow> True | Some r \<Rightarrow> co_revision r \<noteq> n)"
  shows "\<exists>e. save_step s record_new n (Some c) now st = (Inl e, st)"
  using assms by (auto simp: save_step_def live_claim_def split: option.splits)

theorem stale_save_refused_witness:
  "\<exists>e. save_step (demo_step demo_first S_SUCCEEDED []) running_first 1 (Some demo_claim) 1000 claimed_store = (Inl e, claimed_store)"
  by (rule stale_save_refused) (simp add: demo_claim_def)

section \<open>Registration\<close>

text \<open>C24: The graph check of a registration accepts exactly the plans that are not empty, whose steps have
  distinct identifiers, belong to the plan, are pending and name only steps of the plan as
  dependencies and parents, and whose dependency relation is acyclic.\<close>

theorem validate_graph_exact:
  "(validate_graph plan steps = Inr ()) =
     (steps \<noteq> [] \<and> distinct (map s_id steps) \<and>
      list_all (\<lambda>s. s_plan_id s = p_id plan \<and> s_status s = S_PENDING \<and> set (s_depends_on s) \<subseteq> s_id ` set steps \<and>
        set_option (s_parent_step_id s) \<subseteq> s_id ` set steps) steps \<and>
      acyclic {(k, d). \<exists>s. s \<in> set steps \<and> s_id s = k \<and> d \<in> set (s_depends_on s)})"
proof -
  have "step_dependencies steps = {(k, d). \<exists>s. s \<in> set steps \<and> s_id s = k \<and> d \<in> set (s_depends_on s)}"
    by (auto simp: step_dependencies_def)
  then show ?thesis by (simp add: validate_graph_iff well_formed_steps_def step_ids_def list_all_iff)
qed

section \<open>Retries\<close>

lemma round_half_even_mono: "x \<le> y \<Longrightarrow> round_half_even x \<le> round_half_even y"
proof -
  assume le: "x \<le> y"
  have near: "round_half_even q = \<lfloor>q\<rfloor> \<or> round_half_even q = \<lfloor>q\<rfloor> + 1" for q by (simp add: round_half_even_def Let_def)
  show ?thesis
  proof (cases "\<lfloor>x\<rfloor> < \<lfloor>y\<rfloor>")
    case True
    with near[of x] near[of y] show ?thesis by auto
  next
    case False
    then have "\<lfloor>x\<rfloor> = \<lfloor>y\<rfloor>" using floor_mono[OF le] by simp
    with le show ?thesis by (auto simp: round_half_even_def Let_def)
  qed
qed

lemma round_half_even_nonneg: "0 \<le> x \<Longrightarrow> 0 \<le> round_half_even x"
  using round_half_even_mono[of 0 x] by (simp add: round_half_even_def)

lemma delay_Inr:
  assumes "delay_for_attempt p n = Inr d"
  shows "2 \<le> n \<and> d = round_half_even (min (rt_max_delay_seconds p) (rt_initial_delay_seconds p * rt_multiplier p ^ nat (n - 2)) * 1000000)"
  using assms by (auto simp: delay_for_attempt_def float_pow_def timedelta_seconds_def sbind_eq_Inr Let_def)

text \<open>The back-off of a valid retry policy is never negative, never shrinks from one attempt to a later one
  and never exceeds the maximal delay, all after the rounding to whole microseconds.\<close>

theorem retry_delay_bounded:
  assumes "step_retry_policy_post_init p = Inr q" "delay_for_attempt p n = Inr d" "delay_for_attempt p m = Inr e" "n \<le> m"
    and "timedelta_seconds (rt_max_delay_seconds p) = Inr limit"
  shows "0 \<le> d \<and> d \<le> e \<and> e \<le> limit"
proof -
  have p: "0 \<le> rt_initial_delay_seconds p" "1 \<le> rt_multiplier p" "0 \<le> rt_max_delay_seconds p"
    using assms(1) by (auto simp: step_retry_policy_post_init_def sbind_eq_Inr)
  have "rt_multiplier p ^ nat (n - 2) \<le> rt_multiplier p ^ nat (m - 2)"
    using p(2) assms(4) by (intro power_increasing) auto
  then have "rt_initial_delay_seconds p * rt_multiplier p ^ nat (n - 2) \<le> rt_initial_delay_seconds p * rt_multiplier p ^ nat (m - 2)"
    by (rule mult_left_mono) (rule p(1))
  then have le: "min (rt_max_delay_seconds p) (rt_initial_delay_seconds p * rt_multiplier p ^ nat (n - 2)) * 1000000
      \<le> min (rt_max_delay_seconds p) (rt_initial_delay_seconds p * rt_multiplier p ^ nat (m - 2)) * 1000000" by simp
  have "0 \<le> rt_initial_delay_seconds p * rt_multiplier p ^ nat (n - 2)" using p(1,2) by simp
  then have "0 \<le> d" using delay_Inr[OF assms(2)] p(3) by (simp add: round_half_even_nonneg)
  moreover have "d \<le> e" using delay_Inr[OF assms(2)] delay_Inr[OF assms(3)] round_half_even_mono[OF le] by simp
  moreover have "e \<le> limit"
    using delay_Inr[OF assms(3)] assms(5) round_half_even_mono[of _ "rt_max_delay_seconds p * 1000000"]
    by (auto simp: timedelta_seconds_def sbind_eq_Inr Let_def)
  ultimately show ?thesis by blast
qed

lemma demo_delays:
  "delay_for_attempt default_retry_policy 3 = Inr 2000000" "delay_for_attempt default_retry_policy 20 = Inr 300000000"
  "timedelta_seconds (rt_max_delay_seconds default_retry_policy) = Inr 300000000"
  "step_retry_policy_post_init default_retry_policy = Inr default_retry_policy"
  by (simp_all add: delay_for_attempt_def default_retry_policy_def float_pow_def timedelta_seconds_def round_half_even_def
      TIMEDELTA_LIMIT_def step_retry_policy_post_init_def guard_def Let_def)

theorem retry_delay_bounded_witness: "(0::int) \<le> 2000000 \<and> (2000000::int) \<le> 300000000 \<and> (300000000::int) \<le> 300000000"
  using retry_delay_bounded[OF demo_delays(4,1,2) _ demo_delays(3)] by simp

text \<open>C27: What a failed run means for its step: the category of the failure is retryable and an attempt is left
  exactly when a retry is scheduled, due after the delay of the policy; otherwise the record is
  terminal and says why. A running or waiting step fails either way.\<close>

theorem retry_scheduled_exactly:
  assumes "observe_failure env s R r run key category now w = (Inr (s', r'), w')"
  shows "(if or_default category (run_status_value (rs_status run)) \<in> set (rt_retryable_categories (co_retry_policy R)) \<and>
          max (co_current_attempt R) (r_attempt (rs_run run)) + 1 \<le> rt_max_attempts (co_retry_policy R)
        then co_phase r' = CP_RETRY_SCHEDULED \<and> co_retry_state r' = RS_SCHEDULED \<and>
          (\<exists>d. delay_for_attempt (co_retry_policy R) (max (co_current_attempt R) (r_attempt (rs_run run)) + 1) = Inr d \<and>
             co_retry_due_at r' = Some (now + d))
        else co_phase r' = CP_TERMINAL \<and> co_retry_due_at r' = None \<and> co_retry_state r' =
          (if or_default category (run_status_value (rs_status run)) \<in> set (rt_retryable_categories (co_retry_policy R))
           then RS_EXHAUSTED else RS_NOT_RETRYABLE)) \<and>
    co_current_attempt r' = max (co_current_attempt R) (r_attempt (rs_run run)) \<and>
    s_status s' = (if s_status s \<in> {S_RUNNING, S_WAITING} then S_FAILED else s_status s)"
proof -
  let ?category = "or_default category (run_status_value (rs_status run))"
  let ?attempts = "max (co_current_attempt R) (r_attempt (rs_run run))"
  let ?again = "?category \<in> set (rt_retryable_categories (co_retry_policy R)) \<and> ?attempts + 1 \<le> rt_max_attempts (co_retry_policy R)"
  let ?moved = "if s_status s \<in> {S_RUNNING, S_WAITING} then move_step env s S_FAILED else ret s"
  from assms obtain w1 closed where moved: "?moved w = (Inr s', w1)" and rest: "if ?again
      then \<exists>d. delay_for_attempt (co_retry_policy R) (?attempts + 1) = Inr d \<and> r' = r\<lparr>co_phase := CP_RETRY_SCHEDULED,
        co_current_attempt := ?attempts, co_retry_due_at := Some (now + d), co_retry_state := RS_SCHEDULED, co_wait := closed\<rparr>
      else r' = r\<lparr>co_phase := CP_TERMINAL, co_current_attempt := ?attempts, co_retry_due_at := None,
        co_retry_state := (if ?category \<in> set (rt_retryable_categories (co_retry_policy R)) then RS_EXHAUSTED else RS_NOT_RETRYABLE),
        co_wait := closed\<rparr>"
  proof (cases ?again)
    case True
    from assms[unfolded observe_failure_def Let_def if_P[OF True]] True show thesis
      by (intro that[of w' "co_wait r'"]) (auto simp: await_Inr_iff pure_run ret_run with_record_def sbind_eq_Inr datetime_add_def
        dest!: record_post_init_id)
  next
    case False
    from assms[unfolded observe_failure_def Let_def if_not_P[OF False]] False show thesis
      by (intro that[of w' "co_wait r'"]) (auto simp: await_Inr_iff pure_run ret_run with_record_def dest!: record_post_init_id)
  qed
  have "s_status s' = (if s_status s \<in> {S_RUNNING, S_WAITING} then S_FAILED else s_status s)"
    using moved by (auto simp: move_step_def await_Inr_iff pure_run ret_run dest: step_transition_after split: if_splits)
  then show ?thesis using rest by (auto split: if_splits)
qed

definition failed_run :: run_state where
  "failed_run = \<lparr>rs_run = \<lparr>r_subject_type = ''step'', r_subject_id = demo_first, r_owner_ref = demo_owner,
     r_correlation_id = demo_task, r_id = demo_run, r_attempt = 1, r_status = R_FAILED, r_project_id = None,
     r_causation_id = None, r_trace_id = None, r_worker_id = None, r_created_at = 0, r_updated_at = 0, r_started_at = None,
     r_finished_at = None, r_schema_version = SCHEMA_VERSION, r_provenance = None, r_external_refs = [], r_metadata = []\<rparr>,
     rs_revision = 1, rs_backend_ref = None, rs_output = [], rs_artifact_ids = [], rs_result_ids = [],
     rs_dispatch_attempts = 0, rs_recovery_required = False, rs_recovery_reason = None\<rparr>"

lemma failed_run_fields [simp]: "rs_status failed_run = R_FAILED" "r_attempt (rs_run failed_run) = 1"
  "r_subject_type (rs_run failed_run) = ''step''" "r_subject_id (rs_run failed_run) = demo_first"
  by (simp_all add: failed_run_def rs_status_def)

lemma demo_fails: "step_transition_to t (demo_step demo_first S_RUNNING []) S_FAILED =
    Inr ((demo_step demo_first S_FAILED [])\<lparr>s_updated_at := t\<rparr>)"
  by (simp add: step_transition_to_def require_transition_def can_transition_def step_post_init_def demo_simps)

text \<open>The first attempt fails, one more is allowed.\<close>

definition attempted_first :: step_coordination_record where
  "attempted_first = (demo_record demo_first CP_ATTEMPT_ACTIVE [] [])\<lparr>co_latest_run_id := Some demo_run, co_current_attempt := 1\<rparr>"

definition scheduled_first :: step_coordination_record where
  "scheduled_first = attempted_first\<lparr>co_phase := CP_RETRY_SCHEDULED, co_retry_due_at := Some 1000010, co_retry_state := RS_SCHEDULED\<rparr>"

lemma demo_schedules:
  "observe_failure still_env (demo_step demo_first S_RUNNING []) attempted_first attempted_first failed_run ''k'' None 10
     (coord_world_of [] running_store) =
   (Inr ((demo_step demo_first S_FAILED [])\<lparr>s_updated_at := 0\<rparr>, scheduled_first), (coord_world_of [] running_store)\<lparr>w_ticks := 1\<rparr>)"
proof -
  have "step_coordination_record_post_init scheduled_first = Inr scheduled_first"
    by (simp add: scheduled_first_def attempted_first_def demo_simps)
  moreover have "delay_for_attempt demo_policy 2 = Inr 1000000"
    by (simp add: delay_for_attempt_def demo_policy_def float_pow_def timedelta_seconds_def round_half_even_def TIMEDELTA_LIMIT_def)
  ultimately show ?thesis
    by (simp add: observe_failure_def Let_def move_step_def demo_fails utc_now_def still_env_def await_def ret_run pure_run
        close_wait_def attempted_first_def scheduled_first_def demo_record_def or_default_def demo_policy_def datetime_add_def
        DATETIME_LIMIT_def with_record_def coord_world_of_def)
qed

theorem retry_scheduled_exactly_witness:
  "co_phase scheduled_first = CP_RETRY_SCHEDULED \<and>
   (\<exists>d. delay_for_attempt demo_policy 2 = Inr d \<and> co_retry_due_at scheduled_first = Some (10 + d))"
  using retry_scheduled_exactly[OF demo_schedules] by (simp add: attempted_first_def demo_record_def demo_policy_def or_default_def)

section \<open>Observations\<close>

lemma get_run_still:
  assumes "env_suspend env = ret ()" "get_run env t rid w = (res, w')"
  shows "w' = w"
  using assms by (auto simp: get_run_def repo_read_def gets_def await_def ret_run pure_run raise_run split: sum.splits if_splits)

text \<open>An outcome is consumed once per key: without interference the observation of a terminal run of a step
  under a key the record has processed answers with the plan and changes nothing.\<close>

theorem repeated_observation_inert:
  assumes "env_suspend env = ret ()" "get_run env task_id run_id w = (Inr run, w')"
    and "r_subject_type (rs_run run) = ''step''" "rs_status run \<in> TERMINAL_RUN_STATUSES"
    and "dict_get (st_records (w_ext w)) (r_subject_id (rs_run run)) = Some r" "co_task_id r = task_id"
    and "or_default observation_key (default_key run_id (rs_status run)) \<in> set (co_processed_keys r)"
  shows "observe_run_outcome env cfg task_id run_id category observation_key now w = (Inr (co_plan_id r, False), w)"
proof -
  have "w' = w" by (rule get_run_still[OF assms(1,2)])
  then show ?thesis
    using assms by (simp add: observe_run_outcome_def fetch_record_def store_read_def store_call_def get_step_record_def await_def ret_run)
qed

text \<open>A failed first attempt of the first step, as the kernel reads it.\<close>

definition demo_step_failure :: "event list" where
  "demo_step_failure =
     [demo_event ''task.created'' ''task'' demo_task
        [(''title'', JStr ''T''), (''objective'', JStr ''O''), (''owner_type'', JStr ''user''), (''owner_id'', JStr ''u'')] 20,
      demo_event ''run.created'' ''run'' demo_run
        [(''task_id'', JStr demo_task), (''subject_type'', JStr ''step''), (''subject_id'', JStr demo_first),
         (''attempt'', JInt 1), (''owner_type'', JStr ''user''), (''owner_id'', JStr ''u'')] 22,
      demo_event ''run.starting'' ''run'' demo_run [] 23, demo_event ''run.failed'' ''run'' demo_run [] 24]"

definition step_failure_read :: bool where
  "step_failure_read = (case get_run still_env demo_task demo_run (coord_world_of demo_step_failure running_store) of
     (Inr run, _) \<Rightarrow> r_subject_type (rs_run run) = ''step'' \<and> rs_status run = R_FAILED \<and> r_subject_id (rs_run run) = demo_first
   | _ \<Rightarrow> False)"

lemma step_failure_reads: step_failure_read
  by code_simp

theorem repeated_observation_inert_witness:
  "observe_run_outcome still_env demo_cfg demo_task demo_run None None 10 (coord_world_of demo_step_failure running_store) =
     (Inr (demo_plan_id, False), coord_world_of demo_step_failure running_store)"
proof -
  let ?w = "coord_world_of demo_step_failure running_store"
  obtain run w' where run: "get_run still_env demo_task demo_run ?w = (Inr run, w')" "r_subject_type (rs_run run) = ''step''"
    "rs_status run = R_FAILED" "r_subject_id (rs_run run) = demo_first"
    using step_failure_reads by (auto simp: step_failure_read_def split: prod.splits sum.splits)
  have "observe_run_outcome still_env demo_cfg demo_task demo_run None None 10 ?w = (Inr (co_plan_id running_first, False), ?w)"
    by (rule repeated_observation_inert[OF _ run(1)])
      (use run in \<open>simp_all add: still_env_def TERMINAL_RUN_STATUSES_def running_store_def demo_store_records running_first_def
         demo_record_def or_default_def demo_failed_key_def\<close>)
  then show ?thesis by (simp add: running_first_def demo_record_def)
qed

section \<open>The barrier\<close>






section \<open>An outcome observed again\<close>







end
