(* ===== verification/Coordinator_Codec.thy ===== *)
theory Coordinator_Codec
  imports Coordinator_Store Sqlite_Repository
begin

text \<open>
  The text in which \<open>coordination/sqlite_repository.py\<close> keeps plans, steps and coordination records: the
  writers \<open>_plan_to_dict\<close>, \<open>_step_to_dict\<close>, \<open>_wait_to_dict\<close> and \<open>_record_to_dict\<close> under \<open>_dump\<close>, the readers
  that rebuild the dataclasses with their validation, and what of a value survives the two. As for
  events, a text column that holds JSON is the value \<open>json.loads\<close> reads from it. A reader that meets a value of the wrong type raises as Python does; the few
  conversions of texts and containers that no written column reaches are left open.
\<close>

section \<open>Enumerations\<close>

fun step_status_value :: "step_status \<Rightarrow> string" where
  "step_status_value S_PENDING = ''pending''"
| "step_status_value S_READY = ''ready''"
| "step_status_value S_RUNNING = ''running''"
| "step_status_value S_WAITING = ''waiting''"
| "step_status_value S_SUCCEEDED = ''succeeded''"
| "step_status_value S_FAILED = ''failed''"
| "step_status_value S_SKIPPED = ''skipped''"
| "step_status_value S_CANCELLED = ''cancelled''"

fun coordination_phase_value :: "coordination_phase \<Rightarrow> string" where
  "coordination_phase_value CP_BLOCKED = ''blocked''"
| "coordination_phase_value CP_READY = ''ready''"
| "coordination_phase_value CP_ATTEMPT_ACTIVE = ''attempt_active''"
| "coordination_phase_value CP_WAITING = ''waiting''"
| "coordination_phase_value CP_RETRY_SCHEDULED = ''retry_scheduled''"
| "coordination_phase_value CP_TERMINAL = ''terminal''"
| "coordination_phase_value CP_INCONSISTENT = ''inconsistent''"

fun wait_type_value :: "wait_type \<Rightarrow> string" where
  "wait_type_value WT_DEADLINE = ''deadline''"
| "wait_type_value WT_APPROVAL = ''approval''"
| "wait_type_value WT_EVENT = ''event''"
| "wait_type_value WT_EXTERNAL_JOB = ''external_job''"

fun wait_resolution_value :: "wait_resolution \<Rightarrow> string" where
  "wait_resolution_value WR_SATISFIED = ''satisfied''"
| "wait_resolution_value WR_REJECTED = ''rejected''"
| "wait_resolution_value WR_EXPIRED = ''expired''"
| "wait_resolution_value WR_CANCELLED = ''cancelled''"

fun retry_state_value :: "retry_state \<Rightarrow> string" where
  "retry_state_value RS_NONE = ''none''"
| "retry_state_value RS_SCHEDULED = ''scheduled''"
| "retry_state_value RS_ACTIVE = ''active''"
| "retry_state_value RS_COMPLETED = ''completed''"
| "retry_state_value RS_EXHAUSTED = ''exhausted''"
| "retry_state_value RS_NOT_RETRYABLE = ''not_retryable''"
| "retry_state_value RS_CANCELLED = ''cancelled''"

fun predecessor_failure_policy_value :: "predecessor_failure_policy \<Rightarrow> string" where
  "predecessor_failure_policy_value PF_FAIL_FAST = ''fail_fast''"
| "predecessor_failure_policy_value PF_CANCEL_DEPENDENT = ''cancel_dependent''"

fun reconciliation_value :: "reconciliation_disposition \<Rightarrow> string" where
  "reconciliation_value RD_CONSISTENT = ''consistent''"
| "reconciliation_value RD_RUN_RECONCILED = ''run_reconciled''"
| "reconciliation_value RD_WAIT_RESUMED = ''wait_resumed''"
| "reconciliation_value RD_RETRY_RESUMED = ''retry_resumed''"
| "reconciliation_value RD_CANONICAL_TERMINAL = ''canonical_terminal''"
| "reconciliation_value RD_MISSING_CANONICAL_RUN = ''missing_canonical_run''"
| "reconciliation_value RD_INCONSISTENT = ''inconsistent''"

definition enum_member :: "('a \<Rightarrow> string) \<Rightarrow> 'a list \<Rightarrow> string \<Rightarrow> py_error + 'a" where
  \<comment> \<open>calling a \<open>StrEnum\<close> class with the value of one of its members\<close>
  "enum_member enum_value members s = (case find (\<lambda>m. enum_value m = s) members of None \<Rightarrow> Inl ValueError | Some m \<Rightarrow> Inr m)"

definition step_statuses :: "step_status list" where
  "step_statuses = [S_PENDING, S_READY, S_RUNNING, S_WAITING, S_SUCCEEDED, S_FAILED, S_SKIPPED, S_CANCELLED]"

definition coordination_phases :: "coordination_phase list" where
  "coordination_phases =
     [CP_BLOCKED, CP_READY, CP_ATTEMPT_ACTIVE, CP_WAITING, CP_RETRY_SCHEDULED, CP_TERMINAL, CP_INCONSISTENT]"

definition wait_types :: "wait_type list" where
  "wait_types = [WT_DEADLINE, WT_APPROVAL, WT_EVENT, WT_EXTERNAL_JOB]"

definition wait_resolutions :: "wait_resolution list" where
  "wait_resolutions = [WR_SATISFIED, WR_REJECTED, WR_EXPIRED, WR_CANCELLED]"

definition retry_states :: "retry_state list" where
  "retry_states = [RS_NONE, RS_SCHEDULED, RS_ACTIVE, RS_COMPLETED, RS_EXHAUSTED, RS_NOT_RETRYABLE, RS_CANCELLED]"

definition predecessor_failure_policies :: "predecessor_failure_policy list" where
  "predecessor_failure_policies = [PF_FAIL_FAST, PF_CANCEL_DEPENDENT]"

definition reconciliations :: "reconciliation_disposition list" where
  "reconciliations = [RD_CONSISTENT, RD_RUN_RECONCILED, RD_WAIT_RESUMED, RD_RETRY_RESUMED, RD_CANONICAL_TERMINAL,
     RD_MISSING_CANONICAL_RUN, RD_INCONSISTENT]"

lemma enum_member_value [simp]:
  "enum_member step_status_value step_statuses (step_status_value a) = Inr a"
  "enum_member coordination_phase_value coordination_phases (coordination_phase_value b) = Inr b"
  "enum_member wait_type_value wait_types (wait_type_value c) = Inr c"
  "enum_member wait_resolution_value wait_resolutions (wait_resolution_value d) = Inr d"
  "enum_member retry_state_value retry_states (retry_state_value e) = Inr e"
  "enum_member predecessor_failure_policy_value predecessor_failure_policies (predecessor_failure_policy_value f) = Inr f"
  "enum_member reconciliation_value reconciliations (reconciliation_value g) = Inr g"
  subgoal by (cases a) (simp_all add: enum_member_def step_statuses_def)
  subgoal by (cases b) (simp_all add: enum_member_def coordination_phases_def)
  subgoal by (cases c) (simp_all add: enum_member_def wait_types_def)
  subgoal by (cases d) (simp_all add: enum_member_def wait_resolutions_def)
  subgoal by (cases e) (simp_all add: enum_member_def retry_states_def)
  subgoal by (cases f) (simp_all add: enum_member_def predecessor_failure_policies_def)
  subgoal by (cases g) (simp_all add: enum_member_def reconciliations_def)
  done

section \<open>Reading JSON\<close>

definition item :: "json dict \<Rightarrow> string \<Rightarrow> py_error + json" where
  \<comment> \<open>\<open>value[key]\<close>\<close>
  "item obj key = (case dict_get obj key of None \<Rightarrow> Inl KeyError | Some v \<Rightarrow> Inr v)"

fun as_object :: "json \<Rightarrow> py_error + json dict" where
  \<comment> \<open>what indexing a value with a text requires of it\<close>
  "as_object (JObj d) = Inr d"
| "as_object _ = Inl TypeError"

fun maybe_text :: "json option \<Rightarrow> string option" where
  \<comment> \<open>\<open>cast(str | None, value.get(key))\<close>; a cast checks nothing, and other values are left open\<close>
  "maybe_text None = None"
| "maybe_text (Some JNull) = None"
| "maybe_text (Some (JStr s)) = Some s"

fun plain_text :: "json \<Rightarrow> string" where
  "plain_text (JStr s) = s"

fun py_iter :: "json \<Rightarrow> py_error + json list" where
  \<comment> \<open>what a \<open>for\<close> loop or \<open>tuple\<close> goes through\<close>
  "py_iter (JList xs) = Inr xs"
| "py_iter (JTuple xs) = Inr xs"
| "py_iter (JObj d) = Inr (map (\<lambda>(k, _). JStr k) d)"
| "py_iter (JStr s) = Inr (map (\<lambda>c. JStr [c]) s)"
| "py_iter _ = Inl TypeError"

definition text_tuple :: "json \<Rightarrow> py_error + string list" where
  \<comment> \<open>\<open>tuple(cast(list[str], v))\<close>\<close>
  "text_tuple v = sbind (py_iter v) (\<lambda>xs. Inr (map plain_text xs))"

fun py_int :: "json \<Rightarrow> py_error + int" where
  \<comment> \<open>\<open>int(v)\<close>; texts are left open\<close>
  "py_int (JInt i) = Inr i"
| "py_int (JBool b) = Inr (if b then 1 else 0)"
| "py_int (JFloat q) = Inr (if 0 \<le> q then \<lfloor>q\<rfloor> else \<lceil>q\<rceil>)"
| "py_int JNull = Inl TypeError"
| "py_int (JList _) = Inl TypeError"
| "py_int (JTuple _) = Inl TypeError"
| "py_int (JObj _) = Inl TypeError"

fun py_float :: "json \<Rightarrow> py_error + rat" where
  \<comment> \<open>\<open>float(v)\<close>; texts are left open\<close>
  "py_float (JFloat q) = Inr q"
| "py_float (JInt i) = Inr (of_int i)"
| "py_float (JBool b) = Inr (if b then 1 else 0)"
| "py_float JNull = Inl TypeError"
| "py_float (JList _) = Inl TypeError"
| "py_float (JTuple _) = Inl TypeError"
| "py_float (JObj _) = Inl TypeError"

definition int_item :: "json dict \<Rightarrow> string \<Rightarrow> py_error + int" where
  "int_item obj key = sbind (item obj key) py_int"

definition float_item :: "json dict \<Rightarrow> string \<Rightarrow> py_error + rat" where
  "float_item obj key = sbind (item obj key) py_float"

definition time_item :: "json dict \<Rightarrow> string \<Rightarrow> py_error + datetime" where
  "time_item obj key = sbind (str_item obj key) fromisoformat"

fun optional_time :: "json option \<Rightarrow> py_error + datetime option" where
  \<comment> \<open>\<open>_dt\<close>\<close>
  "optional_time None = Inr None"
| "optional_time (Some JNull) = Inr None"
| "optional_time (Some (JStr s)) = sbind (fromisoformat s) (\<lambda>t. Inr (Some t))"
| "optional_time (Some _) = Inl TypeError"

definition time_json :: "datetime option \<Rightarrow> json" where
  "time_json t = (case t of None \<Rightarrow> JNull | Some t \<Rightarrow> JStr (isoformat t))"

section \<open>Owners, provenance and references\<close>

definition owner_to_dict :: "owner_ref \<Rightarrow> json" where
  "owner_to_dict x = JObj [(''type'', JStr (ow_type x)), (''id'', JStr (ow_id x))]"

definition owner_from_dict :: "json \<Rightarrow> py_error + owner_ref" where
  "owner_from_dict v =
     sbind (as_object v) (\<lambda>obj.
     sbind (str_item obj ''type'') (\<lambda>t.
     sbind (guard (t \<in> {''user'', ''organization'', ''team'', ''service''}) ValueError) (\<lambda>_.
     sbind (str_item obj ''id'') (\<lambda>i.
     Inr \<lparr>ow_type = t, ow_id = i\<rparr>))))"

fun mapping_inside :: "json \<Rightarrow> bool" where
  \<comment> \<open>whether a frozen value holds a \<open>MappingProxyType\<close>, which \<open>json.dumps\<close> refuses\<close>
  "mapping_inside (JObj _) = True"
| "mapping_inside (JList xs) = list_ex mapping_inside xs"
| "mapping_inside (JTuple xs) = list_ex mapping_inside xs"
| "mapping_inside _ = False"

definition flat_provenance :: "provenance option \<Rightarrow> bool" where
  \<comment> \<open>\<open>dict(value.details)\<close> thaws the outermost mapping only\<close>
  "flat_provenance p = (case p of None \<Rightarrow> True | Some p \<Rightarrow> \<not> list_ex (\<lambda>(_, v). mapping_inside v) (pv_details p))"

fun details_from :: "json \<Rightarrow> py_error + json dict" where
  \<comment> \<open>\<open>dict(details)\<close> of \<open>Provenance\<close>; what reads lists and texts as pairs is left open\<close>
  "details_from (JObj d) = Inr d"
| "details_from JNull = Inl TypeError"
| "details_from (JBool _) = Inl TypeError"
| "details_from (JInt _) = Inl TypeError"
| "details_from (JFloat _) = Inl TypeError"

definition provenance_from_dict :: "json option \<Rightarrow> py_error + provenance option" where
  "provenance_from_dict v =
     (case v of None \<Rightarrow> Inr None | Some JNull \<Rightarrow> Inr None
      | Some x \<Rightarrow>
          sbind (as_object x) (\<lambda>p.
          sbind (str_item p ''source'') (\<lambda>source.
          sbind (details_from (case dict_get p ''details'' of None \<Rightarrow> JObj [] | Some d \<Rightarrow> d)) (\<lambda>details.
          Inr (Some (provenance_post_init \<lparr>pv_source = source,
            pv_actor_ref = maybe_text (dict_get p ''actor_ref''), pv_details = details\<rparr>))))))"

definition ref_from_dict :: "json \<Rightarrow> py_error + external_ref" where
  "ref_from_dict v =
     sbind (as_object v) (\<lambda>r.
     sbind (str_item r ''system'') (\<lambda>s. sbind (str_item r ''kind'') (\<lambda>k. sbind (str_item r ''value'') (\<lambda>x.
     Inr \<lparr>xr_system = s, xr_kind = k, xr_value = x\<rparr>))))"

definition refs_from :: "json dict \<Rightarrow> py_error + external_ref list" where
  "refs_from obj =
     sbind (py_iter (case dict_get obj ''external_refs'' of None \<Rightarrow> JList [] | Some v \<Rightarrow> v)) (smap ref_from_dict)"

section \<open>Plans and steps\<close>

definition plan_to_dict :: "plan \<Rightarrow> json" where
  "plan_to_dict p = JObj
     [(''id'', JStr (p_id p)), (''task_id'', JStr (p_task_id p)), (''owner_ref'', owner_to_dict (p_owner_ref p)),
      (''revision'', JInt (p_revision p)), (''active'', JBool (p_active p)),
      (''project_id'', opt_json (p_project_id p)), (''created_at'', JStr (isoformat (p_created_at p))),
      (''schema_version'', JStr (p_schema_version p)), (''provenance'', encode_provenance (p_provenance p)),
      (''external_refs'', JList (map encode_ref (p_external_refs p)))]"

definition dump_plan :: "plan \<Rightarrow> py_error + json" where
  \<comment> \<open>\<open>_dump(_plan_to_dict(plan))\<close>\<close>
  "dump_plan p = sbind (guard (flat_provenance (p_provenance p)) TypeError) (\<lambda>_. Inr (json_text (plan_to_dict p)))"

definition load_object :: "json \<Rightarrow> py_error + json dict" where
  \<comment> \<open>\<open>_load\<close>\<close>
  "load_object v = (case v of JObj d \<Rightarrow> Inr d | _ \<Rightarrow> Inl ValueError)"

definition plan_from_dict :: "json dict \<Rightarrow> py_error + plan" where
  "plan_from_dict obj =
     sbind (str_item obj ''id'') (\<lambda>i.
     sbind (str_item obj ''task_id'') (\<lambda>ti.
     sbind (sbind (item obj ''owner_ref'') owner_from_dict) (\<lambda>owner.
     sbind (int_item obj ''revision'') (\<lambda>rev.
     sbind (item obj ''active'') (\<lambda>act.
     sbind (time_item obj ''created_at'') (\<lambda>created.
     sbind (str_item obj ''schema_version'') (\<lambda>sv.
     sbind (provenance_from_dict (dict_get obj ''provenance'')) (\<lambda>prov.
     sbind (refs_from obj) (\<lambda>refs.
     plan_post_init \<lparr>p_task_id = ti, p_owner_ref = owner, p_id = i, p_revision = rev, p_active = py_truthy act,
       p_project_id = maybe_text (dict_get obj ''project_id''), p_created_at = created, p_schema_version = sv,
       p_provenance = prov, p_external_refs = refs\<rparr>)))))))))"

definition step_to_dict :: "step \<Rightarrow> json" where
  "step_to_dict s = JObj
     [(''id'', JStr (s_id s)), (''plan_id'', JStr (s_plan_id s)), (''title'', JStr (s_title s)),
      (''owner_ref'', owner_to_dict (s_owner_ref s)), (''status'', JStr (step_status_value (s_status s))),
      (''parent_step_id'', opt_json (s_parent_step_id s)), (''depends_on'', JList (map JStr (s_depends_on s))),
      (''project_id'', opt_json (s_project_id s)), (''created_at'', JStr (isoformat (s_created_at s))),
      (''updated_at'', JStr (isoformat (s_updated_at s))), (''schema_version'', JStr (s_schema_version s)),
      (''provenance'', encode_provenance (s_provenance s)),
      (''external_refs'', JList (map encode_ref (s_external_refs s)))]"

definition dump_step :: "step \<Rightarrow> py_error + json" where
  "dump_step s = sbind (guard (flat_provenance (s_provenance s)) TypeError) (\<lambda>_. Inr (json_text (step_to_dict s)))"

definition text_tuple_item :: "json dict \<Rightarrow> string \<Rightarrow> py_error + string list" where
  "text_tuple_item obj key = sbind (item obj key) text_tuple"

definition step_from_dict :: "json dict \<Rightarrow> py_error + step" where
  "step_from_dict obj =
     sbind (str_item obj ''id'') (\<lambda>i.
     sbind (str_item obj ''plan_id'') (\<lambda>pi.
     sbind (str_item obj ''title'') (\<lambda>title.
     sbind (sbind (item obj ''owner_ref'') owner_from_dict) (\<lambda>owner.
     sbind (sbind (str_item obj ''status'') (enum_member step_status_value step_statuses)) (\<lambda>status.
     sbind (text_tuple (case dict_get obj ''depends_on'' of None \<Rightarrow> JList [] | Some v \<Rightarrow> v)) (\<lambda>deps.
     sbind (time_item obj ''created_at'') (\<lambda>created.
     sbind (time_item obj ''updated_at'') (\<lambda>updated.
     sbind (str_item obj ''schema_version'') (\<lambda>sv.
     sbind (provenance_from_dict (dict_get obj ''provenance'')) (\<lambda>prov.
     sbind (refs_from obj) (\<lambda>refs.
     step_post_init \<lparr>s_plan_id = pi, s_title = title, s_owner_ref = owner, s_id = i, s_status = status,
       s_parent_step_id = maybe_text (dict_get obj ''parent_step_id''), s_depends_on = deps,
       s_project_id = maybe_text (dict_get obj ''project_id''), s_created_at = created, s_updated_at = updated,
       s_schema_version = sv, s_provenance = prov, s_external_refs = refs\<rparr>)))))))))))"

section \<open>Waits and coordination records\<close>

definition wait_to_dict :: "step_wait option \<Rightarrow> json" where
  "wait_to_dict w =
     (case w of None \<Rightarrow> JNull
      | Some x \<Rightarrow> JObj
          [(''wait_key'', JStr (wt_wait_key x)), (''wait_type'', JStr (wait_type_value (wt_wait_type x))),
           (''task_id'', JStr (wt_task_id x)), (''plan_id'', JStr (wt_plan_id x)), (''step_id'', JStr (wt_step_id x)),
           (''owner_ref'', owner_to_dict (wt_owner_ref x)), (''project_id'', opt_json (wt_project_id x)),
           (''deadline_at'', time_json (wt_deadline_at x)), (''approval_id'', opt_json (wt_approval_id x)),
           (''approval_subject_type'', opt_json (wt_approval_subject_type x)),
           (''approval_subject_id'', opt_json (wt_approval_subject_id x)),
           (''approval_action'', opt_json (wt_approval_action x)), (''event_type'', opt_json (wt_event_type x)),
           (''correlation_key'', opt_json (wt_correlation_key x)),
           (''external_job_ref'', opt_json (wt_external_job_ref x)),
           (''created_at'', JStr (isoformat (wt_created_at x))), (''resolved_at'', time_json (wt_resolved_at x)),
           (''resolution'', case wt_resolution x of None \<Rightarrow> JNull | Some r \<Rightarrow> JStr (wait_resolution_value r)),
           (''resolution_key'', opt_json (wt_resolution_key x))])"

definition optional_member :: "(string \<Rightarrow> py_error + 'a) \<Rightarrow> json option \<Rightarrow> py_error + 'a option" where
  \<comment> \<open>\<open>Enum(str(v)) if v is not None else None\<close>\<close>
  "optional_member member v =
     (case v of None \<Rightarrow> Inr None | Some JNull \<Rightarrow> Inr None
      | Some x \<Rightarrow> sbind (member (py_str x)) (\<lambda>m. Inr (Some m)))"

definition wait_from_object :: "json dict \<Rightarrow> py_error + step_wait" where
  "wait_from_object obj =
     sbind (str_item obj ''wait_key'') (\<lambda>wait_key.
     sbind (sbind (str_item obj ''wait_type'') (enum_member wait_type_value wait_types)) (\<lambda>wait_type.
     sbind (str_item obj ''task_id'') (\<lambda>task_id.
     sbind (str_item obj ''plan_id'') (\<lambda>plan_id.
     sbind (str_item obj ''step_id'') (\<lambda>step_id.
     sbind (sbind (item obj ''owner_ref'') owner_from_dict) (\<lambda>owner.
     sbind (optional_time (dict_get obj ''deadline_at'')) (\<lambda>deadline.
     sbind (time_item obj ''created_at'') (\<lambda>created.
     sbind (optional_time (dict_get obj ''resolved_at'')) (\<lambda>resolved.
     sbind (optional_member (enum_member wait_resolution_value wait_resolutions) (dict_get obj ''resolution'')) (\<lambda>resolution.
     step_wait_post_init
       \<lparr>wt_wait_key = wait_key, wt_wait_type = wait_type, wt_task_id = task_id, wt_plan_id = plan_id,
        wt_step_id = step_id, wt_owner_ref = owner, wt_project_id = maybe_text (dict_get obj ''project_id''),
        wt_deadline_at = deadline, wt_approval_id = maybe_text (dict_get obj ''approval_id''),
        wt_approval_subject_type = maybe_text (dict_get obj ''approval_subject_type''),
        wt_approval_subject_id = maybe_text (dict_get obj ''approval_subject_id''),
        wt_approval_action = maybe_text (dict_get obj ''approval_action''),
        wt_event_type = maybe_text (dict_get obj ''event_type''),
        wt_correlation_key = maybe_text (dict_get obj ''correlation_key''),
        wt_external_job_ref = maybe_text (dict_get obj ''external_job_ref''), wt_created_at = created,
        wt_resolved_at = resolved, wt_resolution = resolution,
        wt_resolution_key = maybe_text (dict_get obj ''resolution_key'')\<rparr>))))))))))"

definition wait_from_dict :: "json option \<Rightarrow> py_error + step_wait option" where
  "wait_from_dict v =
     (case v of None \<Rightarrow> Inr None | Some JNull \<Rightarrow> Inr None
      | Some x \<Rightarrow> sbind (sbind (as_object x) wait_from_object) (\<lambda>w. Inr (Some w)))"

definition retry_policy_to_dict :: "step_retry_policy \<Rightarrow> json" where
  "retry_policy_to_dict p = JObj
     [(''max_attempts'', JInt (rt_max_attempts p)), (''initial_delay_seconds'', JFloat (rt_initial_delay_seconds p)),
      (''multiplier'', JFloat (rt_multiplier p)), (''max_delay_seconds'', JFloat (rt_max_delay_seconds p)),
      (''retryable_categories'', JList (map JStr (rt_retryable_categories p))), (''version'', JInt (rt_version p))]"

definition record_to_dict :: "step_coordination_record \<Rightarrow> json" where
  "record_to_dict r = JObj
     [(''task_id'', JStr (co_task_id r)), (''plan_id'', JStr (co_plan_id r)),
      (''plan_revision'', JInt (co_plan_revision r)), (''step_id'', JStr (co_step_id r)),
      (''phase'', JStr (coordination_phase_value (co_phase r))),
      (''dependency_ids'', JList (map JStr (co_dependency_ids r))),
      (''satisfied_dependency_ids'', JList (map JStr (co_satisfied_dependency_ids r))),
      (''latest_run_id'', opt_json (co_latest_run_id r)), (''current_attempt'', JInt (co_current_attempt r)),
      (''retry_policy'', retry_policy_to_dict (co_retry_policy r)),
      (''retry_due_at'', time_json (co_retry_due_at r)), (''retry_state'', JStr (retry_state_value (co_retry_state r))),
      (''wait'', wait_to_dict (co_wait r)),
      (''predecessor_failure_policy'', JStr (predecessor_failure_policy_value (co_predecessor_failure_policy r))),
      (''processed_keys'', JList (map JStr (co_processed_keys r))),
      (''reconciliation'', JStr (reconciliation_value (co_reconciliation r))),
      (''reconciliation_detail'', opt_json (co_reconciliation_detail r)),
      (''correlation_id'', opt_json (co_correlation_id r)), (''causation_id'', opt_json (co_causation_id r)),
      (''provenance_source'', JStr (co_provenance_source r)), (''revision'', JInt (co_revision r)),
      (''created_at'', JStr (isoformat (co_created_at r))), (''updated_at'', JStr (isoformat (co_updated_at r)))]"

definition dump_record :: "step_coordination_record \<Rightarrow> json" where
  "dump_record r = json_text (record_to_dict r)"

definition retry_policy_from_dict :: "json dict \<Rightarrow> py_error + step_retry_policy" where
  "retry_policy_from_dict obj =
     sbind (int_item obj ''max_attempts'') (\<lambda>n.
     sbind (float_item obj ''initial_delay_seconds'') (\<lambda>d.
     sbind (float_item obj ''multiplier'') (\<lambda>m.
     sbind (float_item obj ''max_delay_seconds'') (\<lambda>md.
     sbind (text_tuple_item obj ''retryable_categories'') (\<lambda>cs.
     sbind (int_item obj ''version'') (\<lambda>v.
     step_retry_policy_post_init
       \<lparr>rt_max_attempts = n, rt_initial_delay_seconds = d, rt_multiplier = m, rt_max_delay_seconds = md,
        rt_retryable_categories = cs, rt_version = v\<rparr>))))))"

definition inferred_retry_state :: "coordination_phase \<Rightarrow> datetime option \<Rightarrow> int \<Rightarrow> retry_state" where
  \<comment> \<open>for records written before the retry state was a field\<close>
  "inferred_retry_state phase retry_due_at current_attempt =
     (if phase = CP_RETRY_SCHEDULED \<and> retry_due_at \<noteq> None then RS_SCHEDULED
      else if phase = CP_READY \<and> 1 \<le> current_attempt then RS_ACTIVE
      else if phase \<in> {CP_ATTEMPT_ACTIVE, CP_WAITING} \<and> 1 < current_attempt then RS_ACTIVE
      else RS_NONE)"

definition retry_state_from :: "json option \<Rightarrow> coordination_phase \<Rightarrow> datetime option \<Rightarrow> int \<Rightarrow> py_error + retry_state" where
  "retry_state_from v phase retry_due_at current_attempt =
     (case v of None \<Rightarrow> Inr (inferred_retry_state phase retry_due_at current_attempt)
      | Some JNull \<Rightarrow> Inr (inferred_retry_state phase retry_due_at current_attempt)
      | Some x \<Rightarrow> enum_member retry_state_value retry_states (py_str x))"

definition record_from_dict :: "json dict \<Rightarrow> py_error + step_coordination_record" where
  "record_from_dict obj =
     sbind (item obj ''retry_policy'') (\<lambda>retry.
     sbind (sbind (str_item obj ''phase'') (enum_member coordination_phase_value coordination_phases)) (\<lambda>phase.
     sbind (int_item obj ''current_attempt'') (\<lambda>current_attempt.
     sbind (optional_time (dict_get obj ''retry_due_at'')) (\<lambda>retry_due_at.
     sbind (retry_state_from (dict_get obj ''retry_state'') phase retry_due_at current_attempt) (\<lambda>retry_state.
     sbind (str_item obj ''task_id'') (\<lambda>task_id.
     sbind (str_item obj ''plan_id'') (\<lambda>plan_id.
     sbind (int_item obj ''plan_revision'') (\<lambda>plan_revision.
     sbind (str_item obj ''step_id'') (\<lambda>step_id.
     sbind (text_tuple_item obj ''dependency_ids'') (\<lambda>deps.
     sbind (text_tuple_item obj ''satisfied_dependency_ids'') (\<lambda>satisfied.
     sbind (sbind (as_object retry) retry_policy_from_dict) (\<lambda>policy.
     sbind (wait_from_dict (dict_get obj ''wait'')) (\<lambda>wait.
     sbind (sbind (str_item obj ''predecessor_failure_policy'')
       (enum_member predecessor_failure_policy_value predecessor_failure_policies)) (\<lambda>failure_policy.
     sbind (text_tuple_item obj ''processed_keys'') (\<lambda>processed.
     sbind (sbind (str_item obj ''reconciliation'') (enum_member reconciliation_value reconciliations)) (\<lambda>reconciliation.
     sbind (str_item obj ''provenance_source'') (\<lambda>source.
     sbind (int_item obj ''revision'') (\<lambda>revision.
     sbind (time_item obj ''created_at'') (\<lambda>created.
     sbind (time_item obj ''updated_at'') (\<lambda>updated.
     step_coordination_record_post_init
       \<lparr>co_task_id = task_id, co_plan_id = plan_id, co_plan_revision = plan_revision, co_step_id = step_id,
        co_phase = phase, co_dependency_ids = deps, co_satisfied_dependency_ids = satisfied,
        co_latest_run_id = maybe_text (dict_get obj ''latest_run_id''), co_current_attempt = current_attempt,
        co_retry_policy = policy, co_retry_due_at = retry_due_at, co_retry_state = retry_state, co_wait = wait,
        co_predecessor_failure_policy = failure_policy, co_processed_keys = processed,
        co_reconciliation = reconciliation,
        co_reconciliation_detail = maybe_text (dict_get obj ''reconciliation_detail''),
        co_correlation_id = maybe_text (dict_get obj ''correlation_id''),
        co_causation_id = maybe_text (dict_get obj ''causation_id''), co_provenance_source = source,
        co_revision = revision, co_created_at = created, co_updated_at = updated\<rparr>))))))))))))))))))))"

section \<open>What is written can be read\<close>

lemma maybe_text_json [simp]: "maybe_text (Some (json_text (opt_json v))) = v"
  by (cases v) (simp_all add: opt_json_def)

lemma plain_texts [simp]: "text_tuple (json_text (JList (map JStr xs))) = Inr xs"
  by (induction xs) (simp_all add: text_tuple_def)

lemma optional_time_json [simp]:
  "(\<And>t. v = Some t \<Longrightarrow> representable t) \<Longrightarrow> optional_time (Some (json_text (time_json v))) = Inr v"
  by (cases v) (simp_all add: time_json_def fromisoformat_isoformat)

lemma object_text [simp]: "as_object (json_text (JObj d)) = Inr (sort_key fst (map (\<lambda>(k, v). (k, json_text v)) d))"
  by simp

definition known_owner :: "owner_ref \<Rightarrow> bool" where
  \<comment> \<open>the literal type of the field\<close>
  "known_owner x \<longleftrightarrow> ow_type x \<in> {''user'', ''organization'', ''team'', ''service''}"

lemma owner_text [simp]: "known_owner x \<Longrightarrow> owner_from_dict (json_text (owner_to_dict x)) = Inr x"
  unfolding owner_to_dict_def owner_from_dict_def object_text sbind_Inr str_item_def dict_get_sorted
  by (auto simp: dict_get_def guard_def known_owner_def)

lemma provenance_text [simp]:
  "provenance_from_dict (Some (json_text (encode_provenance v))) = Inr (map_option stored_provenance v)"
proof (cases v)
  case (Some p)
  have "json_text (encode_provenance v) = JObj (sort_key fst [(''source'', JStr (pv_source p)),
      (''actor_ref'', json_text (opt_json (pv_actor_ref p))),
      (''details'', JObj (sort_key fst (map (\<lambda>(k, v). (k, json_text v)) (pv_details p))))])"
    by (simp add: Some encode_provenance_def)
  then show ?thesis
    by (simp only: provenance_from_dict_def option.case json.case as_object.simps sbind_Inr dict_get_sorted str_item_def)
      (simp add: dict_get_def Some stored_provenance_def provenance_post_init_def)
qed (simp add: provenance_from_dict_def encode_provenance_def)

lemma ref_text [simp]: "ref_from_dict (json_text (encode_ref r)) = Inr r"
  unfolding encode_ref_def ref_from_dict_def object_text sbind_Inr str_item_def dict_get_sorted
  by (simp add: dict_get_def)

lemma refs_text [simp]: "py_iter (json_text (JList (map encode_ref refs))) = Inr (map (\<lambda>r. json_text (encode_ref r)) refs)"
  by simp

lemma smap_refs [simp]: "smap ref_from_dict (map (\<lambda>r. json_text (encode_ref r)) refs) = Inr refs"
  by (induction refs) simp_all

lemma scalar_texts [simp]:
  "py_str (json_text (JStr s)) = s" "py_int (json_text (JInt n)) = Inr n" "py_float (json_text (JFloat q)) = Inr q"
  "py_truthy (json_text (JBool b)) = b"
  by simp_all

lemma time_text [simp]: "representable t \<Longrightarrow> fromisoformat (py_str (json_text (JStr (isoformat t)))) = Inr t"
  by (simp add: fromisoformat_isoformat)

lemma load_text: "load_object (json_text (JObj d)) = Inr (sort_key fst (map (\<lambda>(k, v). (k, json_text v)) d))"
  by (simp add: load_object_def)

lemmas codec_simps = str_item_def int_item_def float_item_def time_item_def text_tuple_item_def item_def dict_get_sorted

definition provenance_wf :: "provenance option \<Rightarrow> bool" where
  \<comment> \<open>details are frozen mappings\<close>
  "provenance_wf p = (case p of None \<Rightarrow> True | Some p \<Rightarrow> json_wf (JObj (pv_details p)) \<and> freeze_mapping (pv_details p) = pv_details p)"

definition plan_storable :: "plan \<Rightarrow> bool" where
  "plan_storable p \<longleftrightarrow> plan_post_init p = Inr p \<and> known_owner (p_owner_ref p) \<and> representable (p_created_at p) \<and>
     provenance_wf (p_provenance p)"

definition step_storable :: "step \<Rightarrow> bool" where
  "step_storable s \<longleftrightarrow> step_post_init s = Inr s \<and> known_owner (s_owner_ref s) \<and>
     representable (s_created_at s) \<and> representable (s_updated_at s) \<and> provenance_wf (s_provenance s)"

definition stored_plan :: "plan \<Rightarrow> plan" where
  \<comment> \<open>what is read back: the details in the order of the text\<close>
  "stored_plan p = p\<lparr>p_provenance := map_option stored_provenance (p_provenance p)\<rparr>"

definition stored_step :: "step \<Rightarrow> step" where
  "stored_step s = s\<lparr>s_provenance := map_option stored_provenance (s_provenance s)\<rparr>"

lemma fields_of_plan:
  "\<lparr>p_task_id = p_task_id x, p_owner_ref = p_owner_ref x, p_id = p_id x, p_revision = p_revision x,
     p_active = p_active x, p_project_id = p_project_id x, p_created_at = p_created_at x,
     p_schema_version = p_schema_version x, p_provenance = v, p_external_refs = p_external_refs x\<rparr> = x\<lparr>p_provenance := v\<rparr>"
  by (cases x) simp

lemma plan_post_init_provenance:
  "plan_post_init x = Inr x \<Longrightarrow> plan_post_init (x\<lparr>p_provenance := v\<rparr>) = Inr (x\<lparr>p_provenance := v\<rparr>)"
  by (auto simp: plan_post_init_def sbind_eq_Inr)

lemma plan_read_back:
  assumes "plan_storable p"
  shows "sbind (load_object (json_text (plan_to_dict p))) plan_from_dict = Inr (stored_plan p)"
  using assms unfolding plan_to_dict_def load_text sbind_Inr plan_from_dict_def codec_simps plan_storable_def list.map prod.case
  by (simp add: dict_get_def refs_from_def fields_of_plan fromisoformat_isoformat plan_post_init_provenance stored_plan_def
      del: json_text.simps)

lemma fields_of_step:
  "\<lparr>s_plan_id = s_plan_id x, s_title = s_title x, s_owner_ref = s_owner_ref x, s_id = s_id x, s_status = s_status x,
     s_parent_step_id = s_parent_step_id x, s_depends_on = s_depends_on x, s_project_id = s_project_id x,
     s_created_at = s_created_at x, s_updated_at = s_updated_at x, s_schema_version = s_schema_version x,
     s_provenance = v, s_external_refs = s_external_refs x\<rparr> = x\<lparr>s_provenance := v\<rparr>"
  by (cases x) simp

lemma step_post_init_provenance:
  "step_post_init x = Inr x \<Longrightarrow> step_post_init (x\<lparr>s_provenance := v\<rparr>) = Inr (x\<lparr>s_provenance := v\<rparr>)"
  by (auto simp: step_post_init_def sbind_eq_Inr)

lemma step_read_back:
  assumes "step_storable s"
  shows "sbind (load_object (json_text (step_to_dict s))) step_from_dict = Inr (stored_step s)"
  using assms unfolding step_to_dict_def load_text sbind_Inr step_from_dict_def codec_simps step_storable_def list.map prod.case
  by (simp add: dict_get_def refs_from_def fields_of_step fromisoformat_isoformat step_post_init_provenance stored_step_def
      del: json_text.simps)

lemma stored_provenance_same: "provenance_wf p \<Longrightarrow> same_provenance (map_option stored_provenance p) p"
  using py_eq_stored_mapping
  by (cases p) (simp_all add: same_provenance_def stored_provenance_def provenance_post_init_def provenance_wf_def)

lemma stored_plan_same: "plan_storable p \<Longrightarrow> same_plan (stored_plan p) p"
  by (simp add: plan_storable_def stored_plan_def same_plan_def stored_provenance_same)

lemma stored_step_same: "step_storable s \<Longrightarrow> same_step (stored_step s) s"
  by (simp add: step_storable_def stored_step_def same_step_def stored_provenance_same)

lemma stored_ids [simp]:
  "s_id (stored_step s) = s_id s" "s_plan_id (stored_step s) = s_plan_id s"
  "p_id (stored_plan p) = p_id p" "p_active (stored_plan p) = p_active p" "p_task_id (stored_plan p) = p_task_id p"
  by (simp_all add: stored_step_def stored_plan_def)

fun if_given :: "('a \<Rightarrow> bool) \<Rightarrow> 'a option \<Rightarrow> bool" where
  "if_given P None = True"
| "if_given P (Some x) = P x"

definition wait_storable :: "step_wait \<Rightarrow> bool" where
  "wait_storable w \<longleftrightarrow> step_wait_post_init w = Inr w \<and> known_owner (wt_owner_ref w) \<and> representable (wt_created_at w) \<and>
     if_given representable (wt_deadline_at w) \<and> if_given representable (wt_resolved_at w)"

definition record_storable :: "step_coordination_record \<Rightarrow> bool" where
  "record_storable r \<longleftrightarrow> step_coordination_record_post_init r = Inr r \<and>
     step_retry_policy_post_init (co_retry_policy r) = Inr (co_retry_policy r) \<and>
     if_given wait_storable (co_wait r) \<and> if_given representable (co_retry_due_at r) \<and>
     representable (co_created_at r) \<and> representable (co_updated_at r)"

lemma resolution_text [simp]:
  "optional_member (enum_member wait_resolution_value wait_resolutions)
     (Some (json_text (case v of None \<Rightarrow> JNull | Some r \<Rightarrow> JStr (wait_resolution_value r)))) = Inr v"
  by (cases v) (simp_all add: optional_member_def)

lemma optional_time_text [simp]:
  "if_given representable v \<Longrightarrow> optional_time (Some (json_text (time_json v))) = Inr v"
  by (rule optional_time_json) simp

lemma fields_of_wait:
  "\<lparr>wt_wait_key = wt_wait_key x, wt_wait_type = wt_wait_type x, wt_task_id = wt_task_id x, wt_plan_id = wt_plan_id x,
     wt_step_id = wt_step_id x, wt_owner_ref = wt_owner_ref x, wt_project_id = wt_project_id x,
     wt_deadline_at = wt_deadline_at x, wt_approval_id = wt_approval_id x,
     wt_approval_subject_type = wt_approval_subject_type x, wt_approval_subject_id = wt_approval_subject_id x,
     wt_approval_action = wt_approval_action x, wt_event_type = wt_event_type x,
     wt_correlation_key = wt_correlation_key x, wt_external_job_ref = wt_external_job_ref x,
     wt_created_at = wt_created_at x, wt_resolved_at = wt_resolved_at x, wt_resolution = wt_resolution x,
     wt_resolution_key = wt_resolution_key x\<rparr> = x"
  by (cases x) simp

lemma wait_read_back:
  assumes "wait_storable w" "wait_to_dict (Some w) = JObj d"
  shows "wait_from_object (sort_key fst (map (\<lambda>(k, v). (k, json_text v)) d)) = Inr w"
proof -
  note d = assms(2)[unfolded wait_to_dict_def option.case json.inject, symmetric]
  show ?thesis
    using assms(1) unfolding d wait_from_object_def codec_simps wait_storable_def list.map prod.case
    by (simp add: dict_get_def fields_of_wait fromisoformat_isoformat del: json_text.simps)
qed

lemma wait_text [simp]: "if_given wait_storable w \<Longrightarrow> wait_from_dict (Some (json_text (wait_to_dict w))) = Inr w"
proof (cases w)
  case (Some x)
  assume "if_given wait_storable w"
  then have x: "wait_storable x" using Some by simp
  obtain d where d: "wait_to_dict (Some x) = JObj d" by (simp add: wait_to_dict_def)
  show ?thesis by (simp add: Some d wait_from_dict_def wait_read_back[OF x d])
qed (simp add: wait_to_dict_def wait_from_dict_def)

lemma fields_of_policy:
  "\<lparr>rt_max_attempts = rt_max_attempts x, rt_initial_delay_seconds = rt_initial_delay_seconds x,
     rt_multiplier = rt_multiplier x, rt_max_delay_seconds = rt_max_delay_seconds x,
     rt_retryable_categories = rt_retryable_categories x, rt_version = rt_version x\<rparr> = x"
  by (cases x) simp

lemma policy_text:
  assumes "step_retry_policy_post_init p = Inr p"
  obtains d where "as_object (json_text (retry_policy_to_dict p)) = Inr d" "retry_policy_from_dict d = Inr p"
proof -
  have "sbind (as_object (json_text (retry_policy_to_dict p))) retry_policy_from_dict = Inr p"
    using assms unfolding retry_policy_to_dict_def object_text sbind_Inr retry_policy_from_dict_def codec_simps list.map prod.case
    by (simp add: dict_get_def fields_of_policy del: json_text.simps)
  then show thesis using that by (auto simp only: sbind_eq_Inr)
qed

lemma retry_state_text [simp]: "retry_state_from (Some (json_text (JStr (retry_state_value v)))) p t n = Inr v"
  by (simp add: retry_state_from_def)

lemma fields_of_record:
  "\<lparr>co_task_id = co_task_id x, co_plan_id = co_plan_id x, co_plan_revision = co_plan_revision x,
     co_step_id = co_step_id x, co_phase = co_phase x, co_dependency_ids = co_dependency_ids x,
     co_satisfied_dependency_ids = co_satisfied_dependency_ids x, co_latest_run_id = co_latest_run_id x,
     co_current_attempt = co_current_attempt x, co_retry_policy = co_retry_policy x,
     co_retry_due_at = co_retry_due_at x, co_retry_state = co_retry_state x, co_wait = co_wait x,
     co_predecessor_failure_policy = co_predecessor_failure_policy x, co_processed_keys = co_processed_keys x,
     co_reconciliation = co_reconciliation x, co_reconciliation_detail = co_reconciliation_detail x,
     co_correlation_id = co_correlation_id x, co_causation_id = co_causation_id x,
     co_provenance_source = co_provenance_source x, co_revision = co_revision x, co_created_at = co_created_at x,
     co_updated_at = co_updated_at x\<rparr> = x"
  by (cases x) simp

lemma record_read_back:
  assumes "record_storable r"
  shows "sbind (load_object (dump_record r)) record_from_dict = Inr r"
proof -
  obtain d where d: "as_object (json_text (retry_policy_to_dict (co_retry_policy r))) = Inr d"
    "retry_policy_from_dict d = Inr (co_retry_policy r)"
    by (rule policy_text[of "co_retry_policy r"]) (use assms in \<open>simp_all add: record_storable_def\<close>)
  show ?thesis
    using assms unfolding dump_record_def record_to_dict_def load_text sbind_Inr record_from_dict_def codec_simps
      record_storable_def list.map prod.case
    by (simp add: dict_get_def fields_of_record d fromisoformat_isoformat del: json_text.simps)
qed

end
