(* ===== verification/Coordinator_Retirement.thy ===== *)
theory Coordinator_Retirement
  imports Coordinator_Store
begin

text \<open>
  Retired plans, the store of \<open>coordination/retirement.py\<close>: the evidence that a superseded plan must
  never be dispatched again, and the in-memory store that keeps it beside the tables of
  \<open>Coordinator_Store\<close>. A plan has one retirement; retiring it again in the same way answers the first.
\<close>

record plan_retirement =
  re_plan_id :: string
  re_task_id :: string
  re_superseded_by_plan_id :: "string option"
  re_reason :: string
  re_retired_at :: datetime

definition plan_retirement_post_init :: "plan_retirement \<Rightarrow> py_error + plan_retirement" where
  "plan_retirement_post_init x =
     sbind (validate_id (re_plan_id x) ''plan'') (\<lambda>_.
     sbind (validate_id (re_task_id x) ''task'') (\<lambda>_.
     sbind (validate_optional_id (re_superseded_by_plan_id x) ''plan'') (\<lambda>_.
     sbind (guard (\<not> py_blank (re_reason x)) ValueError) (\<lambda>_.
     Inr x))))"

record retiring_store = coordinator_store +
  st_retirements :: "(string \<times> plan_retirement) list"

definition empty_retiring_store :: retiring_store where
  "empty_retiring_store = coordinator_store.extend empty_store \<lparr>st_retirements = []\<rparr>"

definition same_retirement :: "plan_retirement \<Rightarrow> plan_retirement \<Rightarrow> bool" where
  \<comment> \<open>the same decision, whenever it was taken\<close>
  "same_retirement existing candidate \<longleftrightarrow>
     re_superseded_by_plan_id existing = re_superseded_by_plan_id candidate \<and> re_reason existing = re_reason candidate"

definition retire_plan :: "string \<Rightarrow> string option \<Rightarrow> string \<Rightarrow> datetime \<Rightarrow> retiring_store \<Rightarrow>
    (py_error + plan_retirement) \<times> retiring_store" where
  "retire_plan plan_id superseded_by reason retired_at st =
     (case sbind (get_plan st plan_id) (\<lambda>state. plan_retirement_post_init
             \<lparr>re_plan_id = plan_id, re_task_id = p_task_id (pl_plan state), re_superseded_by_plan_id = superseded_by,
              re_reason = reason, re_retired_at = retired_at\<rparr>) of
        Inl e \<Rightarrow> (Inl e, st)
      | Inr candidate \<Rightarrow>
      case dict_get (st_retirements st) plan_id of
        Some existing \<Rightarrow>
          (if same_retirement existing candidate then Inr existing else Inl (contract_error CONFLICT), st)
      | None \<Rightarrow> (Inr candidate, st\<lparr>st_retirements := dict_set plan_id candidate (st_retirements st)\<rparr>))"

definition plan_retirement_of :: "retiring_store \<Rightarrow> string \<Rightarrow> py_error + plan_retirement option" where
  "plan_retirement_of st plan_id = sbind (get_plan st plan_id) (\<lambda>_. Inr (dict_get (st_retirements st) plan_id))"

definition list_unretired_plans :: "retiring_store \<Rightarrow> plan_runtime_state list" where
  \<comment> \<open>\<open>list_active_plans\<close> of the retiring store\<close>
  "list_unretired_plans st =
     filter (\<lambda>state. p_id (pl_plan state) \<notin> fst ` set (st_retirements st)) (list_active_plans st)"

end
