(* ===== verification/Coordinator_Sqlite.thy ===== *)
theory Coordinator_Sqlite
  imports Coordinator_Codec Coordinator_Retirement
begin

text \<open>
  The durable coordinator store, \<open>SQLiteCoordinatorRepository\<close> of \<open>coordination/sqlite_repository_v3.py\<close>
  with what it inherits from \<open>coordination/sqlite_repository.py\<close>, over its five tables. A method is a
  sequence of statements: \<open>faults\<close> of \<open>Sqlite_Repository\<close> names the driver error each of them raises,
  if any. Leaving a connection by an exception rolls back, so an operation that fails carries no
  database; every method writes in at most one of its connections, the last. A text column that
  holds JSON is the value that is read from it.
\<close>

section \<open>Tables\<close>

record plan_row =
  pw_task_id :: string
  pw_plan_json :: json
  pw_store_revision :: int

record step_row =
  sw_plan_id :: string
  sw_step_json :: json
  sw_record_json :: json
  sw_revision :: int

record claim_row =
  cw_claim_id :: string
  cw_owner_id :: string
  cw_fence :: int
  cw_expires_at :: string

record retirement_row =
  rw_task_id :: string
  rw_superseded_by_plan_id :: "string option"
  rw_reason :: string
  rw_retired_at :: string

text \<open>Each table by its primary key.\<close>

record coordinator_db =
  cd_plans :: "(string \<times> plan_row) list"
  cd_steps :: "(string \<times> step_row) list"
  cd_claims :: "(string \<times> claim_row) list"
  cd_fences :: "(string \<times> int) list"
  cd_retirements :: "(string \<times> retirement_row) list"

definition empty_coordinator_db :: coordinator_db where
  "empty_coordinator_db = \<lparr>cd_plans = [], cd_steps = [], cd_claims = [], cd_fences = [], cd_retirements = []\<rparr>"

section \<open>Connections\<close>

type_synonym ('a, 's) tx = "faults \<Rightarrow> nat \<Rightarrow> 's \<Rightarrow> tx_error + 'a \<times> nat \<times> 's"
type_synonym 'a coord_tx = "('a, coordinator_db) tx"

definition tx_return :: "'a \<Rightarrow> ('a, 's) tx" where
  "tx_return x fault k db = Inr (x, k, db)"

definition tx_bind :: "('a, 's) tx \<Rightarrow> ('a \<Rightarrow> ('b, 's) tx) \<Rightarrow> ('b, 's) tx" where
  "tx_bind m f fault k db = sbind (m fault k db) (\<lambda>(x, k, db). f x fault k db)"

definition compute :: "py_error + 'a \<Rightarrow> ('a, 's) tx" where
  \<comment> \<open>a step of the program\<close>
  "compute r fault k db = (case r of Inl e \<Rightarrow> Inl (Program e) | Inr x \<Rightarrow> Inr (x, k, db))"

definition run_statement :: "('s \<Rightarrow> tx_error + 'a \<times> 's) \<Rightarrow> ('a, 's) tx" where
  \<comment> \<open>a statement of the connection\<close>
  "run_statement stmt fault k db =
     sbind (statement fault k) (\<lambda>_. sbind (stmt db) (\<lambda>(x, db). Inr (x, Suc k, db)))"

definition select :: "('s \<Rightarrow> 'a) \<Rightarrow> ('a, 's) tx" where
  "select q = run_statement (\<lambda>db. Inr (q db, db))"

definition connected :: "('a, 's) tx \<Rightarrow> ('a, 's) tx" where
  \<comment> \<open>\<open>with self._connect() as connection\<close>: the connection, its two pragmas, the body and the commit\<close>
  "connected body =
     tx_bind (select (\<lambda>_. ())) (\<lambda>_. tx_bind (select (\<lambda>_. ())) (\<lambda>_. tx_bind (select (\<lambda>_. ())) (\<lambda>_.
     tx_bind body (\<lambda>x. tx_bind (select (\<lambda>_. ())) (\<lambda>_. tx_return x)))))"

definition begin_immediate :: "(unit, 's) tx" where
  "begin_immediate = select (\<lambda>_. ())"

definition sql_method :: "('a, 's) tx \<Rightarrow> faults \<Rightarrow> 's \<Rightarrow> (tx_error + 'a) \<times> 's" where
  "sql_method m fault db = (case m fault 0 db of Inl e \<Rightarrow> (Inl e, db) | Inr (x, k, db') \<Rightarrow> (Inr x, db'))"

section \<open>Reading plans\<close>

definition steps_of_plan :: "string \<Rightarrow> coordinator_db \<Rightarrow> step_row list" where
  \<comment> \<open>\<open>WHERE plan_id = ? ORDER BY step_id\<close>\<close>
  "steps_of_plan plan_id db = map snd (sort_key fst (filter (\<lambda>(_, r). sw_plan_id r = plan_id) (cd_steps db)))"

definition load_plan :: "plan_row \<Rightarrow> step_row list \<Rightarrow> py_error + plan_runtime_state" where
  "load_plan row rows =
     sbind (smap (\<lambda>r. sbind (load_object (sw_step_json r)) step_from_dict) rows) (\<lambda>steps.
     sbind (sbind (load_object (pw_plan_json row)) plan_from_dict) (\<lambda>plan.
     plan_runtime_state_post_init \<lparr>pl_plan = plan, pl_steps = steps, pl_store_revision = pw_store_revision row\<rparr>))"

definition load_record :: "step_row \<Rightarrow> py_error + step_coordination_record" where
  "load_record r = sbind (load_object (sw_record_json r)) record_from_dict"

definition sq_get_plan :: "string \<Rightarrow> plan_runtime_state coord_tx" where
  "sq_get_plan plan_id = connected (
     tx_bind (select (\<lambda>db. dict_get (cd_plans db) plan_id)) (\<lambda>row.
     case row of None \<Rightarrow> compute (Inl (contract_error NOT_FOUND))
     | Some row \<Rightarrow>
         tx_bind (select (steps_of_plan plan_id)) (\<lambda>rows. compute (load_plan row rows))))"

definition sq_get_plan_snapshot :: "string \<Rightarrow> (plan_runtime_state \<times> step_coordination_record list) coord_tx" where
  \<comment> \<open>one \<open>LEFT JOIN\<close>; the rows are read after the connection is closed\<close>
  "sq_get_plan_snapshot plan_id =
     tx_bind (connected (select (\<lambda>db.
       map_option (\<lambda>row. (row, steps_of_plan plan_id db)) (dict_get (cd_plans db) plan_id)))) (\<lambda>found.
     compute (case found of None \<Rightarrow> Inl (contract_error NOT_FOUND)
       | Some (row, rows) \<Rightarrow>
           sbind (smap (\<lambda>r. sbind (load_object (sw_step_json r)) step_from_dict) rows) (\<lambda>steps.
           sbind (smap load_record rows) (\<lambda>records.
           sbind (sbind (load_object (pw_plan_json row)) plan_from_dict) (\<lambda>plan.
           sbind (plan_runtime_state_post_init
             \<lparr>pl_plan = plan, pl_steps = steps, pl_store_revision = pw_store_revision row\<rparr>) (\<lambda>state.
           Inr (state, records)))))))"

definition sq_get_step_record :: "string \<Rightarrow> step_coordination_record coord_tx" where
  "sq_get_step_record step_id = connected (
     tx_bind (select (\<lambda>db. dict_get (cd_steps db) step_id)) (\<lambda>row.
     compute (case row of None \<Rightarrow> Inl (contract_error NOT_FOUND) | Some r \<Rightarrow> load_record r)))"

definition sq_list_step_records :: "string \<Rightarrow> step_coordination_record list coord_tx" where
  "sq_list_step_records plan_id =
     tx_bind (sq_get_plan plan_id) (\<lambda>_. connected (
     tx_bind (select (steps_of_plan plan_id)) (\<lambda>rows. compute (smap load_record rows))))"

fun tx_map :: "('a \<Rightarrow> ('b, 's) tx) \<Rightarrow> 'a list \<Rightarrow> ('b list, 's) tx" where
  "tx_map f [] = tx_return []"
| "tx_map f (x # xs) = tx_bind (f x) (\<lambda>y. tx_bind (tx_map f xs) (\<lambda>ys. tx_return (y # ys)))"

definition unretired_ids :: "coordinator_db \<Rightarrow> string list" where
  \<comment> \<open>\<open>LEFT JOIN coordinator_plan_retirements ... WHERE r.plan_id IS NULL ORDER BY p.plan_id\<close>\<close>
  "unretired_ids db = sort (filter (\<lambda>p. dict_get (cd_retirements db) p = None) (map fst (cd_plans db)))"

definition sq_list_active_plans :: "plan_runtime_state list coord_tx" where
  "sq_list_active_plans = tx_bind (connected (select unretired_ids)) (tx_map sq_get_plan)"

section \<open>Registering plans\<close>

definition insert_plan :: "string \<Rightarrow> plan_row \<Rightarrow> coordinator_db \<Rightarrow> tx_error + unit \<times> coordinator_db" where
  "insert_plan plan_id row db =
     (if dict_get (cd_plans db) plan_id \<noteq> None then Inl (Driver IntegrityError)
      else Inr ((), db\<lparr>cd_plans := dict_set plan_id row (cd_plans db)\<rparr>))"

definition insert_step :: "string \<Rightarrow> step_row \<Rightarrow> coordinator_db \<Rightarrow> tx_error + unit \<times> coordinator_db" where
  \<comment> \<open>the step identity is the primary key, the plan a foreign key\<close>
  "insert_step step_id row db =
     (if dict_get (cd_steps db) step_id \<noteq> None \<or> dict_get (cd_plans db) (sw_plan_id row) = None
      then Inl (Driver IntegrityError)
      else Inr ((), db\<lparr>cd_steps := dict_set step_id row (cd_steps db)\<rparr>))"

fun insert_steps :: "string \<Rightarrow> step list \<Rightarrow> step_coordination_record list \<Rightarrow> unit coord_tx" where
  \<comment> \<open>\<open>zip(steps, records, strict=True)\<close>\<close>
  "insert_steps plan_id (s # ss) (r # rs) =
     tx_bind (compute (dump_step s)) (\<lambda>step_json.
     tx_bind (run_statement (insert_step (s_id s)
       \<lparr>sw_plan_id = plan_id, sw_step_json = step_json, sw_record_json = dump_record r, sw_revision = co_revision r\<rparr>)) (\<lambda>_.
     insert_steps plan_id ss rs))"
| "insert_steps plan_id [] [] = tx_return ()"
| "insert_steps plan_id _ _ = compute (Inl ValueError)"

definition sq_create_plan :: "plan \<Rightarrow> step list \<Rightarrow> step_coordination_record list \<Rightarrow> plan_runtime_state coord_tx" where
  "sq_create_plan plan steps records =
     tx_bind (compute (plan_runtime_state_post_init \<lparr>pl_plan = plan, pl_steps = steps, pl_store_revision = 1\<rparr>)) (\<lambda>state.
     tx_bind (compute (guard (co_step_id ` set records = s_id ` set steps) ValueError)) (\<lambda>_.
     connected (
     tx_bind (select (\<lambda>db. dict_get (cd_plans db) (p_id plan))) (\<lambda>row.
     case row of
       Some _ \<Rightarrow>
         tx_bind (sq_get_plan (p_id plan)) (\<lambda>existing.
         compute (if same_plan (pl_plan existing) plan \<and> list_all2 same_step (pl_steps existing) steps
                  then Inr existing else Inl (contract_error CONFLICT)))
     | None \<Rightarrow>
         tx_bind (compute (dump_plan plan)) (\<lambda>plan_json.
         tx_bind (run_statement (insert_plan (p_id plan)
           \<lparr>pw_task_id = p_task_id plan, pw_plan_json = plan_json, pw_store_revision = 1\<rparr>)) (\<lambda>_.
         tx_bind (insert_steps (p_id plan) steps records) (\<lambda>_.
         tx_return state)))))))"

section \<open>Saving steps\<close>

definition claim_stands :: "claim_row option \<Rightarrow> coordinator_claim \<Rightarrow> datetime \<Rightarrow> py_error + bool" where
  \<comment> \<open>the row is that of the claim and has not expired; the expiry the caller knows is not compared\<close>
  "claim_stands row c now =
     (case row of None \<Rightarrow> Inr False
      | Some r \<Rightarrow>
          if cw_claim_id r \<noteq> cl_claim_id c \<or> cw_owner_id r \<noteq> cl_owner_id c \<or> cw_fence r \<noteq> cl_fence c then Inr False
          else sbind (fromisoformat (cw_expires_at r)) (\<lambda>expires_at. Inr (now < expires_at)))"

definition require_claim :: "string \<Rightarrow> coordinator_claim option \<Rightarrow> datetime \<Rightarrow> unit coord_tx" where
  "require_claim step_id claim now =
     (case claim of None \<Rightarrow> tx_return ()
      | Some c \<Rightarrow>
          tx_bind (select (\<lambda>db. dict_get (cd_claims db) step_id)) (\<lambda>row.
          tx_bind (compute (claim_stands row c now)) (\<lambda>stands.
          compute (guard stands (ContractError CONFLICT False
            [(''step_id'', JStr step_id), (''fence'', JInt (cl_fence c))])))))"

definition update_step :: "string \<Rightarrow> int \<Rightarrow> json \<Rightarrow> json \<Rightarrow> int \<Rightarrow> coordinator_db \<Rightarrow> tx_error + nat \<times> coordinator_db" where
  \<comment> \<open>\<open>UPDATE ... WHERE step_id = ? AND revision = ?\<close> and its row count\<close>
  "update_step step_id expected step_json record_json new_revision db =
     (case dict_get (cd_steps db) step_id of
        Some row \<Rightarrow>
          if sw_revision row = expected
          then Inr (1, db\<lparr>cd_steps := dict_set step_id
            (row\<lparr>sw_step_json := step_json, sw_record_json := record_json, sw_revision := new_revision\<rparr>) (cd_steps db)\<rparr>)
          else Inr (0, db)
      | None \<Rightarrow> Inr (0, db))"

definition touch_plan :: "string \<Rightarrow> coordinator_db \<Rightarrow> tx_error + unit \<times> coordinator_db" where
  "touch_plan plan_id db =
     (case dict_get (cd_plans db) plan_id of None \<Rightarrow> Inr ((), db)
      | Some row \<Rightarrow> Inr ((), db\<lparr>cd_plans :=
          dict_set plan_id (row\<lparr>pw_store_revision := pw_store_revision row + 1\<rparr>) (cd_plans db)\<rparr>))"

definition sq_save_step :: "step \<Rightarrow> step_coordination_record \<Rightarrow> int \<Rightarrow> coordinator_claim option \<Rightarrow> datetime \<Rightarrow>
    step_coordination_record coord_tx" where
  "sq_save_step s record expected_revision claim commit_time =
     tx_bind (compute (guard (s_id s = co_step_id record \<and> s_plan_id s = co_plan_id record) ValueError)) (\<lambda>_.
     connected (
     tx_bind begin_immediate (\<lambda>_.
     tx_bind (require_claim (s_id s) claim commit_time) (\<lambda>_.
     tx_bind (select (\<lambda>db. map_option sw_revision (dict_get (cd_steps db) (s_id s)))) (\<lambda>row.
     case row of None \<Rightarrow> compute (Inl (contract_error NOT_FOUND))
     | Some current_revision \<Rightarrow>
         tx_bind (compute (guard (current_revision = expected_revision) (ContractError CONFLICT False
           [(''step_id'', JStr (s_id s)), (''expected_revision'', JInt expected_revision),
            (''current_revision'', JInt current_revision)]))) (\<lambda>_.
         tx_bind (compute (step_coordination_record_post_init
           (record\<lparr>co_revision := current_revision + 1, co_updated_at := commit_time\<rparr>))) (\<lambda>saved.
         tx_bind (compute (dump_step s)) (\<lambda>step_json.
         tx_bind (run_statement (update_step (s_id s) expected_revision step_json (dump_record saved) (co_revision saved))) (\<lambda>updated.
         tx_bind (compute (guard (updated = 1) (contract_error CONFLICT))) (\<lambda>_.
         tx_bind (run_statement (touch_plan (s_plan_id s))) (\<lambda>_.
         tx_return saved)))))))))))"

section \<open>Claims\<close>

definition upsert_fence :: "string \<Rightarrow> int \<Rightarrow> coordinator_db \<Rightarrow> tx_error + unit \<times> coordinator_db" where
  "upsert_fence step_id fence db = Inr ((), db\<lparr>cd_fences := dict_set step_id fence (cd_fences db)\<rparr>)"

definition row_of_claim :: "coordinator_claim \<Rightarrow> claim_row" where
  "row_of_claim c = \<lparr>cw_claim_id = cl_claim_id c, cw_owner_id = cl_owner_id c, cw_fence = cl_fence c,
     cw_expires_at = isoformat (cl_expires_at c)\<rparr>"

definition upsert_claim :: "coordinator_claim \<Rightarrow> coordinator_db \<Rightarrow> tx_error + unit \<times> coordinator_db" where
  \<comment> \<open>the step is a foreign key\<close>
  "upsert_claim c db =
     (if dict_get (cd_steps db) (cl_step_id c) = None then Inl (Driver IntegrityError)
      else Inr ((), db\<lparr>cd_claims := dict_set (cl_step_id c) (row_of_claim c) (cd_claims db)\<rparr>))"

definition held_by_other :: "claim_row option \<Rightarrow> string \<Rightarrow> datetime \<Rightarrow> py_error + bool" where
  "held_by_other row owner_id now =
     (case row of None \<Rightarrow> Inr False
      | Some r \<Rightarrow> sbind (fromisoformat (cw_expires_at r)) (\<lambda>expiry. Inr (now < expiry \<and> cw_owner_id r \<noteq> owner_id)))"

definition sq_acquire_claim :: "string \<Rightarrow> string \<Rightarrow> string \<Rightarrow> int \<Rightarrow> datetime \<Rightarrow> coordinator_claim option coord_tx" where
  "sq_acquire_claim claim_id step_id owner_id ttl now =
     tx_bind (compute (guard (0 < ttl) ValueError)) (\<lambda>_.
     connected (
     tx_bind begin_immediate (\<lambda>_.
     tx_bind (select (\<lambda>db. dict_get (cd_steps db) step_id \<noteq> None)) (\<lambda>exists_step.
     tx_bind (compute (guard exists_step (contract_error NOT_FOUND))) (\<lambda>_.
     tx_bind (select (\<lambda>db. dict_get (cd_claims db) step_id)) (\<lambda>current.
     tx_bind (compute (held_by_other current owner_id now)) (\<lambda>held.
     if held then tx_return None
     else
     tx_bind (select (\<lambda>db. dict_get (cd_fences db) step_id)) (\<lambda>fence_row.
     let fence = (case fence_row of None \<Rightarrow> 0 | Some n \<Rightarrow> n) + 1 in
     tx_bind (run_statement (upsert_fence step_id fence)) (\<lambda>_.
     tx_bind (compute (sbind (datetime_add now ttl) (\<lambda>expires_at. coordinator_claim_post_init
       \<lparr>cl_step_id = step_id, cl_claim_id = claim_id, cl_owner_id = owner_id, cl_fence = fence,
        cl_expires_at = expires_at\<rparr>))) (\<lambda>claim.
     tx_bind (run_statement (upsert_claim claim)) (\<lambda>_.
     tx_return (Some claim))))))))))))"

definition update_expiry :: "string \<Rightarrow> datetime \<Rightarrow> coordinator_db \<Rightarrow> tx_error + unit \<times> coordinator_db" where
  "update_expiry step_id expires_at db =
     (case dict_get (cd_claims db) step_id of None \<Rightarrow> Inr ((), db)
      | Some row \<Rightarrow> Inr ((), db\<lparr>cd_claims :=
          dict_set step_id (row\<lparr>cw_expires_at := isoformat expires_at\<rparr>) (cd_claims db)\<rparr>))"

definition sq_renew_claim :: "coordinator_claim \<Rightarrow> int \<Rightarrow> datetime \<Rightarrow> coordinator_claim option coord_tx" where
  "sq_renew_claim claim ttl now =
     tx_bind (compute (guard (0 < ttl) ValueError)) (\<lambda>_.
     connected (
     tx_bind begin_immediate (\<lambda>_.
     tx_bind (select (\<lambda>db. dict_get (cd_claims db) (cl_step_id claim))) (\<lambda>row.
     tx_bind (compute (claim_stands row claim now)) (\<lambda>stands.
     if \<not> stands then tx_return None
     else
     tx_bind (compute (sbind (datetime_add now ttl) (\<lambda>expires_at.
       coordinator_claim_post_init (claim\<lparr>cl_expires_at := expires_at\<rparr>)))) (\<lambda>renewed.
     tx_bind (run_statement (update_expiry (cl_step_id claim) (cl_expires_at renewed))) (\<lambda>_.
     tx_return (Some renewed))))))))"

definition delete_claim :: "coordinator_claim \<Rightarrow> coordinator_db \<Rightarrow> tx_error + nat \<times> coordinator_db" where
  "delete_claim c db =
     (case dict_get (cd_claims db) (cl_step_id c) of
        Some r \<Rightarrow>
          if cw_claim_id r = cl_claim_id c \<and> cw_owner_id r = cl_owner_id c \<and> cw_fence r = cl_fence c
          then Inr (1, db\<lparr>cd_claims := filter (\<lambda>(k, _). k \<noteq> cl_step_id c) (cd_claims db)\<rparr>)
          else Inr (0, db)
      | None \<Rightarrow> Inr (0, db))"

definition sq_release_claim :: "coordinator_claim \<Rightarrow> bool coord_tx" where
  "sq_release_claim claim = connected (tx_bind (run_statement (delete_claim claim)) (\<lambda>rowcount. tx_return (rowcount = 1)))"

section \<open>Retirement\<close>

definition row_of_retirement :: "plan_retirement \<Rightarrow> retirement_row" where
  "row_of_retirement x = \<lparr>rw_task_id = re_task_id x, rw_superseded_by_plan_id = re_superseded_by_plan_id x,
     rw_reason = re_reason x, rw_retired_at = isoformat (re_retired_at x)\<rparr>"

definition retirement_from_row :: "string \<Rightarrow> retirement_row \<Rightarrow> py_error + plan_retirement" where
  "retirement_from_row plan_id row =
     sbind (fromisoformat (rw_retired_at row)) (\<lambda>retired_at. plan_retirement_post_init
       \<lparr>re_plan_id = plan_id, re_task_id = rw_task_id row, re_superseded_by_plan_id = rw_superseded_by_plan_id row,
        re_reason = rw_reason row, re_retired_at = retired_at\<rparr>)"

definition insert_retirement :: "plan_retirement \<Rightarrow> coordinator_db \<Rightarrow> tx_error + unit \<times> coordinator_db" where
  "insert_retirement x db =
     (if dict_get (cd_retirements db) (re_plan_id x) \<noteq> None \<or> dict_get (cd_plans db) (re_plan_id x) = None
      then Inl (Driver IntegrityError)
      else Inr ((), db\<lparr>cd_retirements := dict_set (re_plan_id x) (row_of_retirement x) (cd_retirements db)\<rparr>))"

definition sq_retire_plan :: "string \<Rightarrow> string option \<Rightarrow> string \<Rightarrow> datetime \<Rightarrow> plan_retirement coord_tx" where
  "sq_retire_plan plan_id superseded_by reason retired_at =
     tx_bind (sq_get_plan plan_id) (\<lambda>state.
     tx_bind (compute (plan_retirement_post_init
       \<lparr>re_plan_id = plan_id, re_task_id = p_task_id (pl_plan state), re_superseded_by_plan_id = superseded_by,
        re_reason = reason, re_retired_at = retired_at\<rparr>)) (\<lambda>candidate.
     connected (
     tx_bind begin_immediate (\<lambda>_.
     tx_bind (select (\<lambda>db. dict_get (cd_retirements db) plan_id)) (\<lambda>row.
     case row of
       Some row \<Rightarrow>
         compute (sbind (retirement_from_row plan_id row) (\<lambda>existing.
           if same_retirement existing candidate then Inr existing else Inl (contract_error CONFLICT)))
     | None \<Rightarrow> tx_bind (run_statement (insert_retirement candidate)) (\<lambda>_. tx_return candidate))))))"

definition sq_plan_retirement :: "string \<Rightarrow> plan_retirement option coord_tx" where
  "sq_plan_retirement plan_id =
     tx_bind (sq_get_plan plan_id) (\<lambda>_.
     tx_bind (connected (select (\<lambda>db. dict_get (cd_retirements db) plan_id))) (\<lambda>row.
     compute (case row of None \<Rightarrow> Inr None | Some r \<Rightarrow> sbind (retirement_from_row plan_id r) (\<lambda>x. Inr (Some x)))))"

end
