(* ===== verification/Coordinator_Durable.thy ===== *)
theory Coordinator_Durable
  imports Coordinator_Sqlite
begin

text \<open>
  The durable coordinator store as its callers see it: every method as one operation behind the
  adapter of \<open>coordination/async_repository.py\<close>, and the rules by which operations are evaluated. A
  method meets a fault of the driver or does exactly what it does without faults.
\<close>

section \<open>Evaluation\<close>

definition run_tx :: "('a, 's) tx \<Rightarrow> 's \<Rightarrow> tx_error + 'a \<times> 's" where
  \<comment> \<open>what is done when no statement fails\<close>
  "run_tx m db = (case m no_faults 0 db of Inl e \<Rightarrow> Inl e | Inr (x, k, db') \<Rightarrow> Inr (x, db'))"

definition transparent :: "('a, 's) tx \<Rightarrow> bool" where
  "transparent m \<longleftrightarrow> (\<forall>fault k db.
     (case run_tx m db of Inl e \<Rightarrow> m fault k db = Inl e | Inr (x, db') \<Rightarrow> (\<exists>k'. m fault k db = Inr (x, k', db'))) \<or>
     (\<exists>j e. fault j = Some e \<and> m fault k db = Inl (Driver e)))"

named_theorems tx_simps \<open>evaluation of the methods of the durable store\<close>

lemma transparentI:
  assumes "\<And>fault k db. (\<exists>j e. fault j = Some e \<and> m fault k db = Inl (Driver e)) \<or>
    (case r db of Inl e \<Rightarrow> m fault k db = Inl e | Inr (x, db') \<Rightarrow> \<exists>k'. m fault k db = Inr (x, k', db'))"
  shows "transparent m" and "run_tx m db = r db"
proof -
  have "run_tx m db = r db" for db
    using assms[where fault = no_faults and k = 0 and db = db] by (auto simp: run_tx_def no_faults_def split: sum.splits)
  then show "transparent m" "run_tx m db = r db" using assms by (auto simp: transparent_def)
qed

lemma transparentE:
  assumes "transparent m"
  obtains (fault) j e where "fault j = Some e" "m fault k db = Inl (Driver e)"
  | (error) e where "run_tx m db = Inl e" "m fault k db = Inl e"
  | (result) x db' k' where "run_tx m db = Inr (x, db')" "m fault k db = Inr (x, k', db')"
  using assms[unfolded transparent_def, THEN spec, THEN spec, THEN spec, of fault k db] that by (auto split: sum.splits)

lemma transparent_return [simp, tx_simps]: "transparent (tx_return x)" "run_tx (tx_return x) db = Inr (x, db)"
  by (rule transparentI[where r = "\<lambda>db. Inr (x, db)"], simp add: tx_return_def)+

lemma transparent_compute [simp, tx_simps]:
  "transparent (compute r)" "run_tx (compute r) db = (case r of Inl e \<Rightarrow> Inl (Program e) | Inr x \<Rightarrow> Inr (x, db))"
  by (rule transparentI[where r = "\<lambda>db. case r of Inl e \<Rightarrow> Inl (Program e) | Inr x \<Rightarrow> Inr (x, db)"],
      cases r, simp_all add: compute_def)+

lemma transparent_statement [simp, tx_simps]: "transparent (run_statement q)" "run_tx (run_statement q) db = q db"
proof -
  have run: "(\<exists>j e. fault j = Some e \<and> run_statement q fault k db = Inl (Driver e)) \<or>
    (case q db of Inl e \<Rightarrow> run_statement q fault k db = Inl e
     | Inr (y, db') \<Rightarrow> \<exists>k'. run_statement q fault k db = Inr (y, k', db'))" for fault k db
    by (cases "fault k"; cases "q db") (auto simp: run_statement_def statement_def)
  show "transparent (run_statement q)" "run_tx (run_statement q) db = q db"
    by (rule transparentI[where r = q], rule run)+
qed

lemma transparent_select [simp, tx_simps]: "transparent (select q)" "run_tx (select q) db = Inr (q db, db)"
  by (simp_all add: select_def)

lemma transparent_begin [simp, tx_simps]: "transparent begin_immediate" "run_tx begin_immediate db = Inr ((), db)"
  by (simp_all add: begin_immediate_def)

lemma transparent_bind [simp, tx_simps]:
  assumes "transparent m" "\<And>x. transparent (f x)"
  shows "transparent (tx_bind m f)" and "run_tx (tx_bind m f) db = sbind (run_tx m db) (\<lambda>(x, db). run_tx (f x) db)"
proof -
  have "(\<exists>j e. fault j = Some e \<and> tx_bind m f fault k db = Inl (Driver e)) \<or>
    (case sbind (run_tx m db) (\<lambda>(x, db). run_tx (f x) db) of Inl e \<Rightarrow> tx_bind m f fault k db = Inl e
     | Inr (y, db') \<Rightarrow> \<exists>k'. tx_bind m f fault k db = Inr (y, k', db'))" for fault k db
  using assms(1)
  proof (cases rule: transparentE[where fault = fault and k = k and db = db])
    case (result x db' k')
    then show ?thesis
      by (cases rule: transparentE[OF assms(2)[of x], of fault k' db']) (auto simp: tx_bind_def)
  qed (auto simp: tx_bind_def)
  note run = this
  show "transparent (tx_bind m f)" "run_tx (tx_bind m f) db = sbind (run_tx m db) (\<lambda>(x, db). run_tx (f x) db)"
    by (rule transparentI[where r = "\<lambda>db. sbind (run_tx m db) (\<lambda>(x, db). run_tx (f x) db)"], rule run)+
qed

lemma transparent_connected [simp, tx_simps]:
  assumes "transparent m"
  shows "transparent (connected m)" "run_tx (connected m) db = run_tx m db"
  using assms by (simp_all add: connected_def case_prod_beta sbind_def split: sum.splits)

lemma transparent_cases [simp]:
  "transparent a \<Longrightarrow> (\<And>x. transparent (f x)) \<Longrightarrow> transparent (case v of None \<Rightarrow> a | Some x \<Rightarrow> f x)"
  "transparent m \<Longrightarrow> transparent m' \<Longrightarrow> transparent (if b then m else m')"
  "(\<And>x. transparent (f x)) \<Longrightarrow> transparent (Let t f)"
  by (cases v) simp_all

lemma transparent_map [simp]: "(\<And>x. transparent (f x)) \<Longrightarrow> transparent (tx_map f xs)"
  by (induction xs) simp_all

lemma transparent_insert_steps [simp]: "transparent (insert_steps plan_id ss rs)"
  by (induction plan_id ss rs rule: insert_steps.induct) simp_all

lemma transparent_require [simp]: "transparent (require_claim k claim now)"
  by (simp add: require_claim_def)

lemma transparent_methods [simp]:
  "transparent (sq_get_plan p)" "transparent (sq_get_plan_snapshot p)" "transparent (sq_get_step_record k)"
  "transparent (sq_list_step_records p)" "transparent sq_list_active_plans"
  "transparent (sq_create_plan plan ss rs)" "transparent (sq_save_step s r n claim now)"
  "transparent (sq_acquire_claim cid k owner ttl now)" "transparent (sq_renew_claim c ttl now)"
  "transparent (sq_release_claim c)" "transparent (sq_retire_plan p q reason t)" "transparent (sq_plan_retirement p)"
  by (simp_all add: sq_get_plan_def sq_get_plan_snapshot_def sq_get_step_record_def sq_list_step_records_def
      sq_list_active_plans_def sq_create_plan_def sq_save_step_def require_claim_def sq_acquire_claim_def
      sq_renew_claim_def sq_release_claim_def sq_retire_plan_def sq_plan_retirement_def)

lemmas method_defs = sq_get_plan_def sq_get_plan_snapshot_def sq_get_step_record_def sq_list_step_records_def
  sq_list_active_plans_def sq_create_plan_def sq_save_step_def require_claim_def sq_acquire_claim_def
  sq_renew_claim_def sq_release_claim_def sq_retire_plan_def sq_plan_retirement_def

section \<open>The adapter\<close>

definition adapter_run :: "tx_error + 'a \<Rightarrow> py_error + 'a" where
  \<comment> \<open>\<open>AsyncCoordinatorRepositoryAdapter._run\<close>: a driver error becomes a contract error\<close>
  "adapter_run r = (case r of Inl (Driver e) \<Rightarrow> Inl (map_sqlite_error e) | Inl (Program e) \<Rightarrow> Inl e | Inr x \<Rightarrow> Inr x)"

datatype durable_op =
    Do_Create_Plan plan "step list" "step_coordination_record list"
  | Do_Get_Plan string
  | Do_Get_Snapshot string
  | Do_Get_Record string
  | Do_List_Records string
  | Do_List_Active
  | Do_Save_Step step step_coordination_record int "coordinator_claim option" datetime
  | Do_Acquire_Claim string string string int datetime
  | Do_Renew_Claim coordinator_claim int datetime
  | Do_Release_Claim coordinator_claim
  | Do_Retire_Plan string "string option" string datetime
  | Do_Plan_Retirement string

datatype durable_answer =
    A_Plan plan_runtime_state
  | A_Snapshot plan_runtime_state "step_coordination_record list"
  | A_Record step_coordination_record
  | A_Records "step_coordination_record list"
  | A_Plans "plan_runtime_state list"
  | A_Claim "coordinator_claim option"
  | A_Released bool
  | A_Retirement plan_retirement
  | A_Retirement_Of "plan_retirement option"

definition tx_answer :: "('a \<Rightarrow> durable_answer) \<Rightarrow> 'a coord_tx \<Rightarrow> durable_answer coord_tx" where
  "tx_answer f m = tx_bind m (\<lambda>x. tx_return (f x))"

fun durable_tx :: "durable_op \<Rightarrow> durable_answer coord_tx" where
  "durable_tx (Do_Create_Plan plan steps records) = tx_answer A_Plan (sq_create_plan plan steps records)"
| "durable_tx (Do_Get_Plan p) = tx_answer A_Plan (sq_get_plan p)"
| "durable_tx (Do_Get_Snapshot p) = tx_answer (\<lambda>(state, records). A_Snapshot state records) (sq_get_plan_snapshot p)"
| "durable_tx (Do_Get_Record k) = tx_answer A_Record (sq_get_step_record k)"
| "durable_tx (Do_List_Records p) = tx_answer A_Records (sq_list_step_records p)"
| "durable_tx Do_List_Active = tx_answer A_Plans sq_list_active_plans"
| "durable_tx (Do_Save_Step s record expected claim now) = tx_answer A_Record (sq_save_step s record expected claim now)"
| "durable_tx (Do_Acquire_Claim claim_id k owner ttl now) = tx_answer A_Claim (sq_acquire_claim claim_id k owner ttl now)"
| "durable_tx (Do_Renew_Claim claim ttl now) = tx_answer A_Claim (sq_renew_claim claim ttl now)"
| "durable_tx (Do_Release_Claim claim) = tx_answer A_Released (sq_release_claim claim)"
| "durable_tx (Do_Retire_Plan p q reason t) = tx_answer A_Retirement (sq_retire_plan p q reason t)"
| "durable_tx (Do_Plan_Retirement p) = tx_answer A_Retirement_Of (sq_plan_retirement p)"

definition durable_call :: "faults \<Rightarrow> durable_op \<Rightarrow> coordinator_db \<Rightarrow> (py_error + durable_answer) \<times> coordinator_db" where
  "durable_call fault x db = (let (r, db') = sql_method (durable_tx x) fault db in (adapter_run r, db'))"

text \<open>The same operations on the in-memory store.\<close>

fun memory_call :: "durable_op \<Rightarrow> retiring_store \<Rightarrow> (py_error + durable_answer) \<times> retiring_store" where
  "memory_call (Do_Create_Plan plan steps records) st = map_prod (map_sum id A_Plan) id (create_plan plan steps records st)"
| "memory_call (Do_Get_Plan p) st = (map_sum id A_Plan (get_plan st p), st)"
| "memory_call (Do_Get_Snapshot p) st = (map_sum id (\<lambda>(state, records). A_Snapshot state records) (get_plan_snapshot st p), st)"
| "memory_call (Do_Get_Record k) st = (map_sum id A_Record (get_step_record st k), st)"
| "memory_call (Do_List_Records p) st = (map_sum id A_Records (list_step_records st p), st)"
| "memory_call Do_List_Active st = (Inr (A_Plans (list_unretired_plans st)), st)"
| "memory_call (Do_Save_Step s record expected claim now) st =
     map_prod (map_sum id A_Record) id (save_step s record expected claim now st)"
| "memory_call (Do_Acquire_Claim claim_id k owner ttl now) st =
     map_prod (map_sum id A_Claim) id (acquire_claim claim_id k owner ttl now st)"
| "memory_call (Do_Renew_Claim claim ttl now) st = map_prod (map_sum id A_Claim) id (renew_claim claim ttl now st)"
| "memory_call (Do_Release_Claim claim) st = map_prod (\<lambda>b. Inr (A_Released b)) id (release_claim claim st)"
| "memory_call (Do_Retire_Plan p q reason t) st = map_prod (map_sum id A_Retirement) id (retire_plan p q reason t st)"
| "memory_call (Do_Plan_Retirement p) st = (map_sum id A_Retirement_Of (plan_retirement_of st p), st)"

lemma durable_transparent [simp]: "transparent (durable_tx x)"
  by (cases x) (simp_all add: tx_answer_def)

lemma method_transparent:
  assumes "transparent m"
  obtains (fault) j e where "fault j = Some e" "sql_method m fault db = (Inl (Driver e), db)"
  | (same) "sql_method m fault db = (case run_tx m db of Inl e \<Rightarrow> (Inl e, db) | Inr (x, db') \<Rightarrow> (Inr x, db'))"
  using that by (cases rule: transparentE[OF assms, of fault 0 db]) (auto simp: sql_method_def)

lemma durable_fault_free:
  "durable_call no_faults x db =
     (case run_tx (durable_tx x) db of Inl e \<Rightarrow> (adapter_run (Inl e), db) | Inr (a, db') \<Rightarrow> (Inr a, db'))"
  by (cases rule: method_transparent[OF durable_transparent[of x], where fault = no_faults and db = db])
    (auto simp: no_faults_def durable_call_def adapter_run_def split: sum.splits)

lemma durable_faulty:
  obtains (fault) j e where "fault j = Some e" "durable_call fault x db = (Inl (map_sqlite_error e), db)"
  | (same) "durable_call fault x db = durable_call no_faults x db"
  using durable_transparent[of x]
proof (cases rule: method_transparent[where fault = fault and db = db])
  case (fault j e)
  then show ?thesis using that(1)[OF fault(1)] by (simp add: durable_call_def adapter_run_def)
next
  case same
  then show ?thesis
    using that(2) unfolding durable_fault_free by (auto simp: durable_call_def adapter_run_def split: sum.splits)
qed

lemma durable_db:
  "snd (durable_call fault x db) = db \<or> snd (durable_call fault x db) = snd (durable_call no_faults x db)"
  by (cases rule: durable_faulty[where fault = fault and x = x and db = db]) simp_all

end
