(* ===== verification/Coordinator_Durable_Safe.thy ===== *)
theory Coordinator_Durable_Safe
  imports Coordinator_Durable Coordinator_Claims
begin

text \<open>
  What every operation of the durable store keeps, whatever faults it meets: the contract of
  \<open>Coordinator_Claims\<close>, the tables that an operation may change, and retirements, which are final.
\<close>

section \<open>What an operation changes\<close>

lemma run_tx_cases [tx_simps]:
  "run_tx (case v of None \<Rightarrow> a | Some x \<Rightarrow> f x) db = (case v of None \<Rightarrow> run_tx a db | Some x \<Rightarrow> run_tx (f x) db)"
  "run_tx (if b then m else m') db = (if b then run_tx m db else run_tx m' db)"
  "run_tx (Let t g) db = run_tx (g t) db"
  by (simp_all split: option.split)

lemma compute_eq_Inr [simp]:
  "(case r of Inl e \<Rightarrow> Inl (Program e) | Inr x \<Rightarrow> Inr (x, db)) = Inr p \<longleftrightarrow> (\<exists>x. r = Inr x \<and> p = (x, db))"
  by (cases r) auto

definition read_only :: "('a, 's) tx \<Rightarrow> bool" where
  "read_only m \<longleftrightarrow> transparent m \<and> (\<forall>db x db'. run_tx m db = Inr (x, db') \<longrightarrow> db' = db)"

lemma read_only_rules [intro, simp]:
  "read_only (tx_return x)" "read_only (compute r)" "read_only (select q)"
  "read_only m \<Longrightarrow> (\<And>x. read_only (f x)) \<Longrightarrow> read_only (tx_bind m f)"
  "read_only m \<Longrightarrow> read_only (connected m)"
  "read_only a \<Longrightarrow> (\<And>x. read_only (g x)) \<Longrightarrow> read_only (case v of None \<Rightarrow> a | Some x \<Rightarrow> g x)"
  by (auto simp: read_only_def tx_simps sbind_eq_Inr split: option.splits) blast

lemma read_only_map [simp]: "(\<And>x. read_only (f x)) \<Longrightarrow> read_only (tx_map f xs)"
  by (induction xs) simp_all

lemma read_only_methods [simp]:
  "read_only (sq_get_plan p)" "read_only (sq_get_plan_snapshot p)" "read_only (sq_get_step_record k)"
  "read_only (sq_list_step_records p)" "read_only sq_list_active_plans" "read_only (sq_plan_retirement p)"
  by (simp_all add: sq_get_plan_def sq_get_plan_snapshot_def sq_get_step_record_def sq_list_step_records_def
      sq_list_active_plans_def sq_plan_retirement_def)

lemma read_onlyD: "read_only m \<Longrightarrow> run_tx m db = Inr (x, db') \<Longrightarrow> db' = db"
  by (simp add: read_only_def)

lemmas reads_keep = read_only_methods[THEN read_onlyD]

text \<open>\<open>only_steps K db db'\<close>: beside the plans, only rows of the steps in \<open>K\<close> differ.\<close>

definition only_steps :: "string set \<Rightarrow> coordinator_db \<Rightarrow> coordinator_db \<Rightarrow> bool" where
  "only_steps K db db' \<longleftrightarrow> cd_claims db' = cd_claims db \<and> cd_fences db' = cd_fences db \<and>
     cd_retirements db' = cd_retirements db \<and> (\<forall>k. k \<notin> K \<longrightarrow> dict_get (cd_steps db') k = dict_get (cd_steps db) k)"

lemma only_steps_refl [simp]: "only_steps K db db"
  by (simp add: only_steps_def)

lemma insert_steps_changes:
  "run_tx (insert_steps plan_id ss rs) db = Inr (u, db') \<Longrightarrow> only_steps (s_id ` set ss) db db'"
proof (induction plan_id ss rs arbitrary: db rule: insert_steps.induct)
  case (1 plan_id s ss r rs)
  then obtain row where row: "run_tx (insert_steps plan_id ss rs) (db\<lparr>cd_steps := dict_set (s_id s) row (cd_steps db)\<rparr>) = Inr (u, db')"
    by (auto simp: tx_simps sbind_eq_Inr insert_step_def split: if_splits)
  from "1.IH"[OF this] show ?case by (auto simp: only_steps_def)
qed (simp_all add: tx_simps)

lemma create_changes:
  "run_tx (sq_create_plan plan ss rs) db = Inr (a, db') \<Longrightarrow> only_steps (s_id ` set ss) db db'"
  by (auto simp: sq_create_plan_def tx_simps sbind_eq_Inr insert_plan_def only_steps_def split: option.splits if_splits
      dest!: insert_steps_changes read_onlyD[OF read_only_methods(1)])

lemma save_changes:
  assumes "run_tx (sq_save_step s r n claim now) db = Inr (a, db')"
  shows "only_steps {s_id s} db db' \<and>
    (\<forall>c. claim = Some c \<longrightarrow> claim_stands (dict_get (cd_claims db) (s_id s)) c now = Inr True)"
  using assms by (auto simp: sq_save_step_def require_claim_def tx_simps sbind_eq_Inr update_step_def touch_plan_def
      only_steps_def split: option.splits if_splits)

definition durable_fence :: "coordinator_db \<Rightarrow> string \<Rightarrow> int" where
  "durable_fence db k = (case dict_get (cd_fences db) k of None \<Rightarrow> 0 | Some n \<Rightarrow> n)"

lemma acquire_changes:
  assumes "run_tx (sq_acquire_claim cid k owner ttl now) db = Inr (a, db')"
  shows "case a of None \<Rightarrow> db' = db
    | Some c \<Rightarrow> cl_step_id c = k \<and> cl_fence c = durable_fence db k + 1 \<and>
        db' = db\<lparr>cd_fences := dict_set k (durable_fence db k + 1) (cd_fences db),
                  cd_claims := dict_set k (row_of_claim c) (cd_claims db)\<rparr>"
  using assms by (auto simp: sq_acquire_claim_def tx_simps sbind_eq_Inr upsert_fence_def upsert_claim_def Let_def
      durable_fence_def split: if_splits dest!: claim_post_init_id)

lemma renew_changes:
  assumes "run_tx (sq_renew_claim c ttl now) db = Inr (a, db')"
  shows "db' = db \<or> (\<exists>r t. dict_get (cd_claims db) (cl_step_id c) = Some r \<and>
    db' = db\<lparr>cd_claims := dict_set (cl_step_id c) (r\<lparr>cw_expires_at := t\<rparr>) (cd_claims db)\<rparr>)"
  using assms by (auto simp: sq_renew_claim_def tx_simps sbind_eq_Inr update_expiry_def claim_stands_def
      split: if_splits option.splits dest!: claim_post_init_id)

lemma release_changes:
  assumes "run_tx (sq_release_claim c) db = Inr (a, db')"
  shows "db' = db \<or> db' = db\<lparr>cd_claims := filter (\<lambda>(k, _). k \<noteq> cl_step_id c) (cd_claims db)\<rparr>"
  using assms by (auto simp: sq_release_claim_def tx_simps sbind_eq_Inr delete_claim_def split: if_splits option.splits)

lemma retire_changes:
  assumes "run_tx (sq_retire_plan p q reason t) db = Inr (a, db')"
  shows "db' = db \<or> (\<exists>row. dict_get (cd_retirements db) p = None \<and>
    db' = db\<lparr>cd_retirements := dict_set p row (cd_retirements db)\<rparr>)"
  using assms by (auto simp: sq_retire_plan_def tx_simps sbind_eq_Inr insert_retirement_def plan_retirement_post_init_def
      split: if_splits option.splits dest!: read_onlyD[OF read_only_methods(1)])

section \<open>Claims\<close>

definition durable_claim :: "coordinator_db \<Rightarrow> string \<Rightarrow> coordinator_claim option" where
  "durable_claim db k = map_option (\<lambda>r. \<lparr>cl_step_id = k, cl_claim_id = cw_claim_id r, cl_owner_id = cw_owner_id r,
     cl_fence = cw_fence r, cl_expires_at = (case fromisoformat (cw_expires_at r) of Inl _ \<Rightarrow> 0 | Inr t \<Rightarrow> t)\<rparr>)
     (dict_get (cd_claims db) k)"

definition durable_entry :: "coordinator_db \<Rightarrow> string \<Rightarrow> step_row option" where
  "durable_entry db k = dict_get (cd_steps db) k"

definition durable_claims_wf :: "coordinator_db \<Rightarrow> bool" where
  "durable_claims_wf db \<longleftrightarrow> (\<forall>k r. dict_get (cd_claims db) k = Some r \<longrightarrow> cw_fence r \<le> durable_fence db k)"

definition durable_apply :: "faults \<times> durable_op \<Rightarrow> coordinator_db \<Rightarrow> coordinator_db" where
  "durable_apply x db = snd (durable_call (fst x) (snd x) db)"

fun durable_writes :: "faults \<times> durable_op \<Rightarrow> string \<Rightarrow> coordinator_claim option option" where
  "durable_writes (fault, Do_Save_Step s record expected claim now) k = (if k = s_id s then Some claim else None)"
| "durable_writes (fault, Do_Create_Plan plan steps records) k = (if k \<in> s_id ` set steps then Some None else None)"
| "durable_writes _ k = None"

text \<open>The database after an operation is the one before it or that of the method without faults.\<close>

lemma durable_apply_cases:
  obtains (unchanged) "durable_apply (fault, x) db = db"
  | (effect) a where "run_tx (durable_tx x) db = Inr (a, durable_apply (fault, x) db)"
proof (cases rule: durable_faulty[where fault = fault and x = x and db = db])
  case (fault j e)
  then show ?thesis using that(1) by (simp add: durable_apply_def)
next
  case same
  then show ?thesis
    using that unfolding durable_apply_def by (auto simp: durable_fault_free split: sum.splits)
qed

lemma tx_answer_Inr:
  "transparent m \<Longrightarrow> run_tx (tx_answer f m) db = Inr (a, db') \<longleftrightarrow> (\<exists>x. a = f x \<and> run_tx m db = Inr (x, db'))"
  by (auto simp: tx_answer_def tx_simps sbind_eq_Inr)

definition claims_evolve :: "coordinator_db \<Rightarrow> coordinator_db \<Rightarrow> bool" where
  "claims_evolve db db' \<longleftrightarrow> durable_claims_wf db' \<and> (\<forall>k. durable_fence db k \<le> durable_fence db' k) \<and>
     (\<forall>k r. dict_get (cd_claims db') k = Some r \<longrightarrow> durable_fence db k < cw_fence r \<or>
        (\<exists>r0. dict_get (cd_claims db) k = Some r0 \<and> cw_fence r0 = cw_fence r))"

lemma claims_evolve_same:
  "durable_claims_wf db \<Longrightarrow> cd_claims db' = cd_claims db \<Longrightarrow> cd_fences db' = cd_fences db \<Longrightarrow> claims_evolve db db'"
  by (simp add: claims_evolve_def durable_claims_wf_def durable_fence_def)

lemma claims_evolve_steps: "durable_claims_wf db \<Longrightarrow> only_steps K db db' \<Longrightarrow> claims_evolve db db'"
  by (rule claims_evolve_same) (simp_all add: only_steps_def)

lemma claims_evolve_tx:
  assumes "durable_claims_wf db" "run_tx (durable_tx x) db = Inr (a, db')"
  shows "claims_evolve db db'"
proof (cases x)
  case (Do_Create_Plan plan ss rs)
  with assms show ?thesis by (auto simp: tx_answer_Inr dest!: create_changes intro: claims_evolve_steps)
next
  case (Do_Save_Step s r n claim now)
  with assms show ?thesis by (auto simp: tx_answer_Inr dest!: save_changes intro: claims_evolve_steps)
next
  case (Do_Acquire_Claim cid k owner ttl now)
  then obtain c where c: "run_tx (sq_acquire_claim cid k owner ttl now) db = Inr (c, db')"
    using assms(2) by (auto simp: tx_answer_Inr)
  show ?thesis
  proof (cases c)
    case None
    with acquire_changes[OF c] show ?thesis using assms(1) by (simp add: claims_evolve_same)
  next
    case (Some d)
    from acquire_changes[OF c] assms(1) show ?thesis
      by (auto simp: Some claims_evolve_def durable_claims_wf_def durable_fence_def row_of_claim_def)
  qed
next
  case (Do_Renew_Claim c ttl now)
  then obtain d where d: "run_tx (sq_renew_claim c ttl now) db = Inr (d, db')"
    using assms(2) by (auto simp: tx_answer_Inr)
  from renew_changes[OF d] assms(1) show ?thesis
    by (auto simp: claims_evolve_def durable_claims_wf_def durable_fence_def split: if_splits)
next
  case (Do_Release_Claim c)
  with assms show ?thesis
    by (auto simp: tx_answer_Inr claims_evolve_def durable_claims_wf_def durable_fence_def dict_get_filter
        split: if_splits dest!: release_changes)
next
  case (Do_Retire_Plan p q reason t)
  with assms show ?thesis by (auto simp: tx_answer_Inr dest!: retire_changes intro: claims_evolve_same)
qed (use assms in \<open>auto simp: tx_answer_Inr claims_evolve_same dest!: reads_keep\<close>)

lemma durable_claims_evolve: "durable_claims_wf db \<Longrightarrow> claims_evolve db (durable_apply x db)"
  by (cases x, cases rule: durable_apply_cases[of "fst x" "snd x" db]) (auto simp: claims_evolve_same intro: claims_evolve_tx)

lemma durable_entry_writes:
  assumes "durable_entry (durable_apply (fault, x) db) k \<noteq> durable_entry db k"
  shows "\<exists>cl. durable_writes (fault, x) k = Some cl \<and>
    (\<forall>c. cl = Some c \<longrightarrow> (\<exists>d. durable_claim db k = Some d \<and> cl_fence d = cl_fence c))"
proof (cases rule: durable_apply_cases[of fault x db])
  case unchanged
  with assms show ?thesis by simp
next
  case (effect a)
  then show ?thesis
  proof (cases x)
    case (Do_Create_Plan plan ss rs)
    then have "only_steps (s_id ` set ss) db (durable_apply (fault, x) db)"
      using effect by (auto simp: tx_answer_Inr dest!: create_changes)
    then have "k \<in> s_id ` set ss" using assms unfolding durable_entry_def only_steps_def by blast
    then show ?thesis by (simp add: Do_Create_Plan)
  next
    case (Do_Save_Step s r n claim now)
    with assms effect show ?thesis
      by (auto simp: tx_answer_Inr durable_entry_def only_steps_def durable_claim_def claim_stands_def
          split: option.splits if_splits dest!: save_changes)
  next
    case (Do_Acquire_Claim cid j owner ttl now)
    with assms effect show ?thesis
      by (auto simp: tx_answer_Inr durable_entry_def split: option.splits dest!: acquire_changes)
  next
    case (Do_Renew_Claim c ttl now)
    with assms effect show ?thesis by (auto simp: tx_answer_Inr durable_entry_def dest!: renew_changes)
  next
    case (Do_Release_Claim c)
    with assms effect show ?thesis by (auto simp: tx_answer_Inr durable_entry_def dest!: release_changes)
  next
    case (Do_Retire_Plan p q reason t)
    with assms effect show ?thesis by (auto simp: tx_answer_Inr durable_entry_def dest!: retire_changes)
  qed (use assms effect in \<open>auto simp: tx_answer_Inr dest!: reads_keep\<close>)
qed

interpretation ds: fenced_store durable_entry durable_claim durable_fence durable_claims_wf durable_apply durable_writes
proof (unfold_locales, goal_cases)
  case (1 db x)
  then show ?case using durable_claims_evolve by (simp add: claims_evolve_def)
next
  case (2 db k c)
  then show ?case by (auto simp: durable_claims_wf_def durable_claim_def)
next
  case (3 db k x)
  then show ?case using durable_claims_evolve by (simp add: claims_evolve_def)
next
  case (4 db x k c)
  then obtain r where r: "dict_get (cd_claims (durable_apply x db)) k = Some r" "cl_fence c = cw_fence r"
    by (auto simp: durable_claim_def)
  with durable_claims_evolve[OF 4(1), of x] consider "durable_fence db k < cw_fence r"
    | r0 where "dict_get (cd_claims db) k = Some r0" "cw_fence r0 = cw_fence r"
    unfolding claims_evolve_def by blast
  then show ?case by cases (simp_all add: r(2) durable_claim_def)
next
  case (5 db x k)
  then show ?case using durable_entry_writes[of "fst x" "snd x" db k] by simp
qed

end
