(* ===== verification/Coordinator_Durable_Refinement.thy ===== *)
theory Coordinator_Durable_Refinement
  imports Coordinator_Durable_Safe
begin

text \<open>
  The durable store implements the in-memory store: \<open>stored_as db st\<close> says which tables hold the plans,
  records, claims, fences and retirements of \<open>st\<close>; every operation keeps the relation and gives the same
  answer. The two stores differ on inputs that \<open>portable\<close> excludes: provenance details with mappings
  inside, steps registered again in another order, step identities of another plan, a claim object
  older than its renewal.
\<close>

section \<open>Equality of what is read\<close>

lemma py_eq_stored_left: "json_wf v \<Longrightarrow> deep_freeze v = v \<Longrightarrow> py_eq (deep_freeze (json_text v)) w = py_eq v w"
proof (induction v arbitrary: w)
  case (JObj kvs)
  have each: "py_eq (deep_freeze (json_text u)) x = py_eq u x" if "(k, u) \<in> set kvs" for k u x
  proof -
    have "deep_freeze u = u" using map_fixed[OF _ that, of "\<lambda>(k, v). (k, deep_freeze v)"] JObj.prems(2) by simp
    with JObj.IH[OF that] JObj.prems(1) that show ?thesis by (auto simp: list_all_iff)
  qed
  show ?case
  proof (cases w)
    case (JObj right)
    have "(\<forall>x\<in>set kvs. case dict_get right (fst x) of None \<Rightarrow> False | Some v' \<Rightarrow> py_eq (deep_freeze (json_text (snd x))) v') =
        (\<forall>x\<in>set kvs. case dict_get right (fst x) of None \<Rightarrow> False | Some v' \<Rightarrow> py_eq (snd x) v')"
      by (rule ball_cong[OF refl]) (auto simp: each split: option.splits)
    then show ?thesis by (simp add: JObj list_all_iff case_prod_beta cong: option.case_cong)
  qed simp_all
next
  case (JTuple xs)
  have each: "py_eq (deep_freeze (json_text x)) y = py_eq x y" if "x \<in> set xs" for x y
    using JTuple.IH[OF that] JTuple.prems map_fixed[OF _ that, of deep_freeze] that by (simp add: list_all_iff)
  show ?case
  proof (cases w)
    case (JTuple ys)
    have "(\<forall>p\<in>set (zip xs ys). py_eq (deep_freeze (json_text (fst p))) (snd p)) = (\<forall>p\<in>set (zip xs ys). py_eq (fst p) (snd p))"
      by (rule ball_cong[OF refl]) (metis each set_zip_leftD prod.collapse)
    then show ?thesis by (simp add: JTuple list_all_iff case_prod_beta zip_map1)
  qed simp_all
qed auto

lemma same_provenance_stored: "provenance_wf p \<Longrightarrow> same_provenance (map_option stored_provenance p) q = same_provenance p q"
proof (cases p)
  case (Some x)
  assume "provenance_wf p"
  then have "json_wf (JObj (pv_details x))" "deep_freeze (JObj (pv_details x)) = JObj (pv_details x)"
    by (simp_all add: Some provenance_wf_def freeze_mapping_def)
  from py_eq_stored_left[OF this] show ?thesis
    by (cases q) (simp_all add: Some same_provenance_def stored_provenance_def provenance_post_init_def freeze_mapping_def del: py_eq.simps)
qed (simp add: same_provenance_def)

lemma same_plan_stored: "plan_storable p \<Longrightarrow> same_plan (stored_plan p) q = same_plan p q"
  by (simp add: plan_storable_def same_plan_def stored_plan_def same_provenance_stored)

lemma same_step_stored: "step_storable s \<Longrightarrow> same_step (stored_step s) t = same_step s t"
  by (simp add: step_storable_def same_step_def stored_step_def same_provenance_stored)

section \<open>The relation\<close>

definition plan_row_of :: "plan_runtime_state \<Rightarrow> plan_row" where
  "plan_row_of q = \<lparr>pw_task_id = p_task_id (pl_plan q), pw_plan_json = json_text (plan_to_dict (pl_plan q)),
     pw_store_revision = pl_store_revision q\<rparr>"

definition step_row_of :: "step \<Rightarrow> step_coordination_record \<Rightarrow> step_row" where
  "step_row_of s r = \<lparr>sw_plan_id = co_plan_id r, sw_step_json = json_text (step_to_dict s),
     sw_record_json = dump_record r, sw_revision = co_revision r\<rparr>"

definition portable_store :: "retiring_store \<Rightarrow> bool" where
  "portable_store st \<longleftrightarrow>
     distinct (map fst (st_plans st)) \<and> distinct (map fst (st_records st)) \<and>
     (\<forall>p q. dict_get (st_plans st) p = Some q \<longrightarrow> p_id (pl_plan q) = p \<and>
        plan_runtime_state_post_init q = Inr q \<and> plan_storable (pl_plan q) \<and>
        (\<forall>s\<in>set (pl_steps q). step_storable s \<and>
           (\<exists>r. dict_get (st_records st) (s_id s) = Some r \<and> co_plan_id r = p))) \<and>
     (\<forall>k r. dict_get (st_records st) k = Some r \<longrightarrow> co_step_id r = k \<and> record_storable r \<and>
        step_of st (co_plan_id r) k \<noteq> None) \<and>
     (\<forall>k c. dict_get (st_claims st) k = Some c \<longrightarrow> cl_step_id c = k \<and> representable (cl_expires_at c)) \<and>
     (\<forall>k n. dict_get (st_fences st) k = Some n \<longrightarrow> 0 \<le> n) \<and>
     (\<forall>p x. dict_get (st_retirements st) p = Some x \<longrightarrow> re_plan_id x = p \<and>
        plan_retirement_post_init x = Inr x \<and> representable (re_retired_at x))"

definition stored_as :: "coordinator_db \<Rightarrow> retiring_store \<Rightarrow> bool" where
  "stored_as db st \<longleftrightarrow> portable_store st \<and>
     distinct (map fst (cd_plans db)) \<and> distinct (map fst (cd_steps db)) \<and>
     (\<forall>p. dict_get (cd_plans db) p = map_option plan_row_of (dict_get (st_plans st) p)) \<and>
     (\<forall>k. dict_get (cd_steps db) k =
        map_option (\<lambda>r. step_row_of (the (step_of st (co_plan_id r) k)) r) (dict_get (st_records st) k)) \<and>
     (\<forall>k. dict_get (cd_claims db) k = map_option row_of_claim (dict_get (st_claims st) k)) \<and>
     (\<forall>k. dict_get (cd_fences db) k = dict_get (st_fences st) k) \<and>
     (\<forall>p. dict_get (cd_retirements db) p = map_option row_of_retirement (dict_get (st_retirements st) p))"

definition plan_as_read :: "plan_runtime_state \<Rightarrow> plan_runtime_state" where
  "plan_as_read q = q\<lparr>pl_plan := stored_plan (pl_plan q), pl_steps := map stored_step (sort_key s_id (pl_steps q))\<rparr>"

definition same_state :: "plan_runtime_state \<Rightarrow> plan_runtime_state \<Rightarrow> bool" where
  \<comment> \<open>equal up to the order of the steps\<close>
  "same_state p q \<longleftrightarrow> same_plan (pl_plan p) (pl_plan q) \<and> pl_store_revision p = pl_store_revision q \<and>
     list_all2 same_step (sort_key s_id (pl_steps p)) (sort_key s_id (pl_steps q))"

lemma stored_asD:
  assumes "stored_as db st"
  shows "portable_store st" "distinct (map fst (cd_plans db))" "distinct (map fst (cd_steps db))"
    "dict_get (cd_plans db) p = map_option plan_row_of (dict_get (st_plans st) p)"
    "dict_get (cd_steps db) k = map_option (\<lambda>r. step_row_of (the (step_of st (co_plan_id r) k)) r) (dict_get (st_records st) k)"
    "dict_get (cd_claims db) k = map_option row_of_claim (dict_get (st_claims st) k)"
    "dict_get (cd_fences db) k = dict_get (st_fences st) k"
    "dict_get (cd_retirements db) p = map_option row_of_retirement (dict_get (st_retirements st) p)"
  using assms by (simp_all add: stored_as_def)

lemma portable_planD:
  assumes "portable_store st" "dict_get (st_plans st) p = Some q"
  shows "p_id (pl_plan q) = p" "plan_runtime_state_post_init q = Inr q" "plan_storable (pl_plan q)"
    "s \<in> set (pl_steps q) \<Longrightarrow> step_storable s"
    "s \<in> set (pl_steps q) \<Longrightarrow> \<exists>r. dict_get (st_records st) (s_id s) = Some r \<and> co_plan_id r = p"
    "distinct (map s_id (pl_steps q))"
proof -
  show "p_id (pl_plan q) = p" "plan_runtime_state_post_init q = Inr q" "plan_storable (pl_plan q)"
    "s \<in> set (pl_steps q) \<Longrightarrow> step_storable s"
    "s \<in> set (pl_steps q) \<Longrightarrow> \<exists>r. dict_get (st_records st) (s_id s) = Some r \<and> co_plan_id r = p"
    using assms unfolding portable_store_def by blast+
  then show "distinct (map s_id (pl_steps q))" by (simp add: plan_runtime_state_post_init_def sbind_eq_Inr)
qed

lemma portable_recordD:
  assumes "portable_store st" "dict_get (st_records st) k = Some r"
  obtains s q where "co_step_id r = k" "record_storable r" "dict_get (st_plans st) (co_plan_id r) = Some q"
    "s \<in> set (pl_steps q)" "s_id s = k" "step_of st (co_plan_id r) k = Some s"
proof -
  have r: "co_step_id r = k" "record_storable r" "step_of st (co_plan_id r) k \<noteq> None"
    using assms unfolding portable_store_def by blast+
  then obtain s where s: "step_of st (co_plan_id r) k = Some s" by blast
  then obtain q where "dict_get (st_plans st) (co_plan_id r) = Some q" "find (\<lambda>s. s_id s = k) (pl_steps q) = Some s"
    by (auto simp: step_of_def split: Option.bind_splits)
  with r s that show thesis by (auto simp: find_Some_iff in_set_conv_nth)
qed

lemma distinct_map_sorted: "distinct (map f (sort_key f xs)) = distinct (map f xs)"
  by (simp add: distinct_map)

text \<open>Two tables with the same rows read the same in the order of their keys.\<close>

lemma sorted_keys_unique:
  assumes "distinct (map f xs)" "distinct (map g ys)" "(\<lambda>x. (f x, F x)) ` set xs = (\<lambda>y. (g y, G y)) ` set ys"
  shows "map (\<lambda>x. (f x, F x)) (sort_key f xs) = map (\<lambda>y. (g y, G y)) (sort_key g ys)"
proof (rule map_sorted_distinct_set_unique[where f = fst])
  have inj: "inj_on f (set xs)" using assms(1) by (simp add: distinct_map)
  show "inj_on fst (set (map (\<lambda>x. (f x, F x)) (sort_key f xs)) \<union> set (map (\<lambda>y. (g y, G y)) (sort_key g ys)))"
    using inj unfolding set_map set_sort assms(3)[symmetric] by (auto simp: inj_on_def)
qed (use assms in \<open>simp_all add: comp_def distinct_map\<close>)

section \<open>Reading\<close>

lemma row_in_table: "distinct (map fst d) \<Longrightarrow> (k, v) \<in> set d \<longleftrightarrow> dict_get d k = Some v"
  by (simp add: dict_get_def map_of_eq_Some_iff)

lemma found_step: "distinct (map s_id (pl_steps q)) \<Longrightarrow> dict_get (st_plans st) p = Some q \<Longrightarrow> s \<in> set (pl_steps q) \<Longrightarrow>
    step_of st p (s_id s) = Some s"
  by (simp add: step_of_def find_distinct)

definition record_in :: "retiring_store \<Rightarrow> step \<Rightarrow> step_coordination_record" where
  "record_in st s = the (dict_get (st_records st) (s_id s))"

lemma steps_of_stored_plan:
  assumes "stored_as db st" "dict_get (st_plans st) p = Some q"
  shows "steps_of_plan p db = map (\<lambda>s. step_row_of s (record_in st s)) (sort_key s_id (pl_steps q))"
proof -
  note D = stored_asD[OF assms(1)] and P = portable_planD[OF stored_asD(1)[OF assms(1)] assms(2)]
  let ?rows = "filter (\<lambda>(_, r). sw_plan_id r = p) (cd_steps db)"
  let ?G = "\<lambda>s. step_row_of s (record_in st s)"
  have "(\<lambda>x. (fst x, snd x)) ` set ?rows = (\<lambda>s. (s_id s, ?G s)) ` set (pl_steps q)"
  proof (intro equalityI subsetI)
    fix x assume "x \<in> (\<lambda>x. (fst x, snd x)) ` set ?rows"
    then obtain k row where x: "x = (k, row)" "(k, row) \<in> set (cd_steps db)" "sw_plan_id row = p" by auto
    with D(5)[of k] obtain r where r: "dict_get (st_records st) k = Some r"
      "row = step_row_of (the (step_of st (co_plan_id r) k)) r"
      by (auto simp: row_in_table[OF D(3)])
    then have "co_plan_id r = p" using x(3) by (simp add: step_row_of_def)
    obtain s q' where s: "dict_get (st_plans st) (co_plan_id r) = Some q'" "s \<in> set (pl_steps q')" "s_id s = k"
      "step_of st (co_plan_id r) k = Some s"
      by (rule portable_recordD[OF D(1) r(1)])
    have "s \<in> set (pl_steps q)" "row = step_row_of s r" using s r(2) \<open>co_plan_id r = p\<close> assms(2) by simp_all
    then show "x \<in> (\<lambda>s. (s_id s, ?G s)) ` set (pl_steps q)" using x(1) r(1) s(3) by (auto simp: record_in_def)
  next
    fix x assume "x \<in> (\<lambda>s. (s_id s, ?G s)) ` set (pl_steps q)"
    then obtain s where s: "s \<in> set (pl_steps q)" "x = (s_id s, ?G s)" by blast
    obtain r where r: "dict_get (st_records st) (s_id s) = Some r" "co_plan_id r = p" using P(5)[OF s(1)] by blast
    have "x = (s_id s, step_row_of s r)" using s(2) r(1) by (simp add: record_in_def)
    moreover have "(s_id s, step_row_of s r) \<in> set (cd_steps db)"
      using D(5)[of "s_id s"] r found_step[OF P(6) assms(2) s(1)] by (simp add: row_in_table[OF D(3)])
    ultimately show "x \<in> (\<lambda>x. (fst x, snd x)) ` set ?rows" using r(2) by (simp add: step_row_of_def image_iff)
  qed
  moreover have "distinct (map fst ?rows)" using D(3) by (simp add: distinct_map_filter)
  ultimately have "map (\<lambda>x. (fst x, snd x)) (sort_key fst ?rows) = map (\<lambda>s. (s_id s, ?G s)) (sort_key s_id (pl_steps q))"
    using P(6) by (intro sorted_keys_unique) auto
  from arg_cong[OF this, of "map snd"] show ?thesis by (simp add: steps_of_plan_def comp_def)
qed

lemma records_of_stored_plan:
  assumes "portable_store st" "dict_get (st_plans st) p = Some q"
  shows "sort_key co_step_id (filter (\<lambda>r. co_plan_id r = p) (map snd (st_records st))) =
    map (record_in st) (sort_key s_id (pl_steps q))"
proof -
  note P = portable_planD[OF assms]
  let ?rs = "filter (\<lambda>r. co_plan_id r = p) (map snd (st_records st))"
  have d: "distinct (map fst (st_records st))" using assms(1) by (simp add: portable_store_def)
  have key: "co_step_id r = k" if "(k, r) \<in> set (st_records st)" for k r
    using that assms(1) by (auto simp: row_in_table[OF d] portable_store_def)
  have "map co_step_id (map snd (st_records st)) = map fst (st_records st)"
    using key by (auto simp: comp_def)
  then have "distinct (map co_step_id (map snd (st_records st)))" using d by (simp only:)
  then have ids: "distinct (map co_step_id ?rs)" by (rule distinct_map_filter)
  have "(\<lambda>r. (co_step_id r, r)) ` set ?rs = (\<lambda>s. (s_id s, record_in st s)) ` set (pl_steps q)"
  proof (intro equalityI subsetI)
    fix x assume "x \<in> (\<lambda>r. (co_step_id r, r)) ` set ?rs"
    then obtain k r where x: "x = (co_step_id r, r)" "(k, r) \<in> set (st_records st)" "co_plan_id r = p" by auto
    then have r: "dict_get (st_records st) k = Some r" by (simp add: row_in_table[OF d])
    obtain s q' where s: "dict_get (st_plans st) (co_plan_id r) = Some q'" "s \<in> set (pl_steps q')" "s_id s = k"
      by (rule portable_recordD[OF assms(1) r])
    then have "s \<in> set (pl_steps q)" using x(3) assms(2) by simp
    with r s(3) show "x \<in> (\<lambda>s. (s_id s, record_in st s)) ` set (pl_steps q)"
      using x(1) key[OF x(2)] by (auto simp: record_in_def)
  next
    fix x assume "x \<in> (\<lambda>s. (s_id s, record_in st s)) ` set (pl_steps q)"
    then obtain s where s: "s \<in> set (pl_steps q)" "x = (s_id s, record_in st s)" by blast
    obtain r where r: "dict_get (st_records st) (s_id s) = Some r" "co_plan_id r = p" using P(5)[OF s(1)] by blast
    then have "(s_id s, r) \<in> set (st_records st)" by (simp add: row_in_table[OF d])
    with key[OF this] r s(2) show "x \<in> (\<lambda>r. (co_step_id r, r)) ` set ?rs"
      by (force simp: record_in_def)
  qed
  from sorted_keys_unique[OF ids P(6) this]
  have "map snd (map (\<lambda>r. (co_step_id r, r)) (sort_key co_step_id ?rs)) =
      map snd (map (\<lambda>s. (s_id s, record_in st s)) (sort_key s_id (pl_steps q)))" by (rule arg_cong)
  then show ?thesis by (simp add: comp_def)
qed

lemma smap_map_Inr: "(\<And>x. x \<in> set xs \<Longrightarrow> f (g x) = Inr (h x)) \<Longrightarrow> smap f (map g xs) = Inr (map h xs)"
  by (induction xs) simp_all

lemma plan_as_read_valid:
  "plan_runtime_state_post_init q = Inr q \<Longrightarrow> plan_runtime_state_post_init (plan_as_read q) = Inr (plan_as_read q)"
  by (auto simp: plan_runtime_state_post_init_def plan_as_read_def sbind_eq_Inr comp_def distinct_map list_all_iff inj_on_def)

lemma load_stored:
  assumes "stored_as db st" "dict_get (st_plans st) p = Some q"
  shows "smap (\<lambda>r. sbind (load_object (sw_step_json r)) step_from_dict) (steps_of_plan p db) =
      Inr (map stored_step (sort_key s_id (pl_steps q)))"
    and "sbind (load_object (pw_plan_json (plan_row_of q))) plan_from_dict = Inr (stored_plan (pl_plan q))"
    and "smap load_record (steps_of_plan p db) = Inr (map (record_in st) (sort_key s_id (pl_steps q)))"
    and "load_plan (plan_row_of q) (steps_of_plan p db) = Inr (plan_as_read q)"
proof -
  note P = portable_planD[OF stored_asD(1)[OF assms(1)] assms(2)]
  show steps: "smap (\<lambda>r. sbind (load_object (sw_step_json r)) step_from_dict) (steps_of_plan p db) =
      Inr (map stored_step (sort_key s_id (pl_steps q)))"
    unfolding steps_of_stored_plan[OF assms]
    by (rule smap_map_Inr) (simp add: step_row_of_def step_read_back[OF P(4)])
  show plan: "sbind (load_object (pw_plan_json (plan_row_of q))) plan_from_dict = Inr (stored_plan (pl_plan q))"
    by (simp only: plan_row_of_def plan_row.select_convs plan_read_back[OF P(3)])
  show "smap load_record (steps_of_plan p db) = Inr (map (record_in st) (sort_key s_id (pl_steps q)))"
    unfolding steps_of_stored_plan[OF assms]
  proof (rule smap_map_Inr)
    fix s assume "s \<in> set (sort_key s_id (pl_steps q))"
    with P(5) obtain r where r: "dict_get (st_records st) (s_id s) = Some r" by auto
    from portable_recordD[OF stored_asD(1)[OF assms(1)] r] have "record_storable r" by blast
    then show "load_record (step_row_of s (record_in st s)) = Inr (record_in st s)"
      by (simp add: record_in_def r load_record_def step_row_of_def record_read_back)
  qed
  show "load_plan (plan_row_of q) (steps_of_plan p db) = Inr (plan_as_read q)"
    unfolding load_plan_def steps plan sbind_Inr
    using plan_as_read_valid[OF P(2)] by (cases q) (simp add: plan_as_read_def plan_row_of_def)
qed

lemma run_get_plan:
  assumes "stored_as db st"
  shows "run_tx (sq_get_plan p) db = (case get_plan st p of Inl e \<Rightarrow> Inl (Program e) | Inr q \<Rightarrow> Inr (plan_as_read q, db))"
  using stored_asD(4)[OF assms, of p] load_stored(4)[OF assms, of p]
  by (cases "dict_get (st_plans st) p") (simp_all add: sq_get_plan_def tx_simps get_plan_def)

lemma run_get_snapshot:
  assumes "stored_as db st"
  shows "run_tx (sq_get_plan_snapshot p) db =
    (case get_plan_snapshot st p of Inl e \<Rightarrow> Inl (Program e) | Inr (q, rs) \<Rightarrow> Inr ((plan_as_read q, rs), db))"
proof (cases "dict_get (st_plans st) p")
  case (Some q)
  note L = load_stored[OF assms Some]
  from plan_as_read_valid[OF portable_planD(2)[OF stored_asD(1)[OF assms] Some]]
  have "plan_runtime_state_post_init
      \<lparr>pl_plan = stored_plan (pl_plan q), pl_steps = map stored_step (sort_key s_id (pl_steps q)),
       pl_store_revision = pw_store_revision (plan_row_of q)\<rparr> = Inr (plan_as_read q)"
    by (cases q) (simp add: plan_as_read_def plan_row_of_def)
  moreover obtain d where "load_object (pw_plan_json (plan_row_of q)) = Inr d" "plan_from_dict d = Inr (stored_plan (pl_plan q))"
    using L(2) by (auto simp: sbind_eq_Inr)
  ultimately show ?thesis
    using stored_asD(4)[OF assms, of p] Some L(1,3) records_of_stored_plan[OF stored_asD(1)[OF assms] Some]
    by (simp add: sq_get_plan_snapshot_def tx_simps get_plan_snapshot_def get_plan_def)
qed (use stored_asD(4)[OF assms, of p] in \<open>simp add: sq_get_plan_snapshot_def tx_simps get_plan_snapshot_def get_plan_def\<close>)

lemma run_get_record:
  assumes "stored_as db st"
  shows "run_tx (sq_get_step_record k) db = (case get_step_record st k of Inl e \<Rightarrow> Inl (Program e) | Inr r \<Rightarrow> Inr (r, db))"
proof (cases "dict_get (st_records st) k")
  case (Some r)
  have "record_storable r" by (rule portable_recordD[OF stored_asD(1)[OF assms] Some])
  then show ?thesis
    using stored_asD(5)[OF assms, of k] Some
    by (simp add: sq_get_step_record_def tx_simps get_step_record_def load_record_def step_row_of_def record_read_back)
qed (use stored_asD(5)[OF assms, of k] in \<open>simp add: sq_get_step_record_def tx_simps get_step_record_def\<close>)

lemma run_list_records:
  assumes "stored_as db st"
  shows "run_tx (sq_list_step_records p) db = (case list_step_records st p of Inl e \<Rightarrow> Inl (Program e) | Inr rs \<Rightarrow> Inr (rs, db))"
proof (cases "dict_get (st_plans st) p")
  case (Some q)
  then show ?thesis
    using load_stored(3)[OF assms Some] records_of_stored_plan[OF stored_asD(1)[OF assms] Some]
    by (simp add: sq_list_step_records_def tx_simps run_get_plan[OF assms] list_step_records_def get_plan_snapshot_def get_plan_def)
qed (simp add: sq_list_step_records_def tx_simps run_get_plan[OF assms] list_step_records_def get_plan_snapshot_def get_plan_def)

lemma run_tx_map:
  "(\<And>x. transparent (f x)) \<Longrightarrow> (\<And>x. x \<in> set xs \<Longrightarrow> run_tx (f (g x)) db = Inr (h x, db)) \<Longrightarrow>
     run_tx (tx_map f (map g xs)) db = Inr (map h xs, db)"
  by (induction xs) (simp_all add: tx_simps)

lemma unretired_stored:
  assumes "stored_as db st"
  shows "unretired_ids db = map (\<lambda>q. p_id (pl_plan q)) (list_unretired_plans st)"
    and "q \<in> set (list_unretired_plans st) \<Longrightarrow> dict_get (st_plans st) (p_id (pl_plan q)) = Some q"
proof -
  note D = stored_asD[OF assms]
  have d: "distinct (map fst (st_plans st))" using D(1) by (simp add: portable_store_def)
  have key: "p_id (pl_plan q) = k" if "(k, q) \<in> set (st_plans st)" for k q
    using that portable_planD(1)[OF D(1)] by (simp add: row_in_table[OF d])
  have ids: "map (\<lambda>q. p_id (pl_plan q)) (map snd (st_plans st)) = map fst (st_plans st)"
    using key by (auto simp: comp_def)
  have unretired: "dict_get (cd_retirements db) p = None \<longleftrightarrow> p \<notin> fst ` set (st_retirements st)" for p
    by (simp add: D(8) dict_get_None_iff)
  have plans: "fst ` set (cd_plans db) = fst ` set (st_plans st)"
  proof -
    have "k \<notin> fst ` set (cd_plans db) \<longleftrightarrow> k \<notin> fst ` set (st_plans st)" for k
      by (simp add: dict_get_None_iff[symmetric] D(4))
    then show ?thesis by blast
  qed
  let ?f = "\<lambda>q. p_id (pl_plan q)"
  show "unretired_ids db = map ?f (list_unretired_plans st)"
  proof (rule sorted_distinct_set_unique)
    show "sorted (unretired_ids db)" by (simp add: unretired_ids_def)
    show "distinct (unretired_ids db)" using D(2) by (simp add: unretired_ids_def)
    show "sorted (map ?f (list_unretired_plans st))"
      by (simp add: list_unretired_plans_def list_active_plans_def sorted_filter)
    have "distinct (map ?f (map snd (st_plans st)))" using ids d by (simp only:)
    then have "distinct (map ?f (list_active_plans st))" by (simp only: list_active_plans_def distinct_map_sorted)
    then show "distinct (map ?f (list_unretired_plans st))"
      unfolding list_unretired_plans_def by (rule distinct_map_filter)
    have "set (map ?f (list_unretired_plans st)) = {p \<in> set (map ?f (map snd (st_plans st))). p \<notin> fst ` set (st_retirements st)}"
      by (auto simp: list_unretired_plans_def list_active_plans_def)
    also have "\<dots> = set (unretired_ids db)" unfolding ids by (auto simp: unretired_ids_def unretired plans)
    finally show "set (unretired_ids db) = set (map ?f (list_unretired_plans st))" ..
  qed
  show "q \<in> set (list_unretired_plans st) \<Longrightarrow> dict_get (st_plans st) (?f q) = Some q"
    using key by (auto simp: list_unretired_plans_def list_active_plans_def row_in_table[OF d, symmetric])
qed

lemma run_list_active:
  assumes "stored_as db st"
  shows "run_tx sq_list_active_plans db = Inr (map plan_as_read (list_unretired_plans st), db)"
proof -
  have "run_tx (tx_map sq_get_plan (map (\<lambda>q. p_id (pl_plan q)) (list_unretired_plans st))) db =
      Inr (map plan_as_read (list_unretired_plans st), db)"
    by (rule run_tx_map) (simp_all add: run_get_plan[OF assms] get_plan_def unretired_stored(2)[OF assms])
  then show ?thesis by (simp add: sq_list_active_plans_def tx_simps unretired_stored(1)[OF assms])
qed

lemma retirement_read_back:
  assumes "plan_retirement_post_init x = Inr x" "representable (re_retired_at x)"
  shows "retirement_from_row (re_plan_id x) (row_of_retirement x) = Inr x"
  using assms by (cases x) (simp add: retirement_from_row_def row_of_retirement_def fromisoformat_isoformat)

lemma portable_retirementD:
  assumes "portable_store st" "dict_get (st_retirements st) p = Some x"
  shows "re_plan_id x = p" "plan_retirement_post_init x = Inr x" "representable (re_retired_at x)"
    "retirement_from_row p (row_of_retirement x) = Inr x"
proof -
  show x: "re_plan_id x = p" "plan_retirement_post_init x = Inr x" "representable (re_retired_at x)"
    using assms unfolding portable_store_def by blast+
  show "retirement_from_row p (row_of_retirement x) = Inr x" using retirement_read_back[OF x(2,3)] x(1) by simp
qed

lemma run_plan_retirement:
  assumes "stored_as db st"
  shows "run_tx (sq_plan_retirement p) db =
    (case plan_retirement_of st p of Inl e \<Rightarrow> Inl (Program e) | Inr x \<Rightarrow> Inr (x, db))"
  using stored_asD(8)[OF assms, of p] portable_retirementD(4)[OF stored_asD(1)[OF assms], of p]
  by (cases "get_plan st p"; cases "dict_get (st_retirements st) p")
    (simp_all add: sq_plan_retirement_def tx_simps run_get_plan[OF assms] plan_retirement_of_def)

end
