(* ===== verification/Coordinator_Durable_Simulation.thy ===== *)
theory Coordinator_Durable_Simulation
  imports Coordinator_Durable_Refinement
begin

text \<open>
  The simulation of the in-memory store by the durable one, operation by operation: from related
  stores and on portable input both give the same answer, and the stores are related again.
\<close>

section \<open>Portable operations\<close>

definition known_claim :: "retiring_store \<Rightarrow> string \<Rightarrow> coordinator_claim \<Rightarrow> bool" where
  \<comment> \<open>if the claim is the one in force, then as it is now: not the object from before its renewal\<close>
  "known_claim st k c \<longleftrightarrow>
     (case dict_get (st_claims st) k of None \<Rightarrow> True
      | Some d \<Rightarrow> cl_claim_id d = cl_claim_id c \<and> cl_owner_id d = cl_owner_id c \<and> cl_fence d = cl_fence c \<longrightarrow> d = c)"

definition storable_steps :: "step list \<Rightarrow> bool" where
  "storable_steps steps \<longleftrightarrow> list_all (\<lambda>s. step_storable s \<and> flat_provenance (s_provenance s)) steps"

definition records_for :: "plan \<Rightarrow> step list \<Rightarrow> step_coordination_record list \<Rightarrow> bool" where
  \<comment> \<open>one record for each step, in their order\<close>
  "records_for plan steps records \<longleftrightarrow>
     map co_step_id records = map s_id steps \<and> list_all (\<lambda>r. record_storable r \<and> co_plan_id r = p_id plan) records"

fun portable :: "retiring_store \<Rightarrow> durable_op \<Rightarrow> bool" where
  "portable st (Do_Create_Plan plan steps records) \<longleftrightarrow>
     plan_storable plan \<and> flat_provenance (p_provenance plan) \<and> storable_steps steps \<and> records_for plan steps records \<and>
     (case dict_get (st_plans st) (p_id plan) of
        None \<Rightarrow> list_all (\<lambda>s. dict_get (st_records st) (s_id s) = None) steps
      | Some q \<Rightarrow> sorted (map s_id steps) \<and> sorted (map s_id (pl_steps q)))"
| "portable st (Do_Save_Step s r n claim now) \<longleftrightarrow>
     step_storable s \<and> flat_provenance (s_provenance s) \<and> record_storable r \<and> representable now \<and>
     if_given (known_claim st (s_id s)) claim \<and>
     (case dict_get (st_records st) (s_id s) of None \<Rightarrow> True | Some current \<Rightarrow> co_plan_id current = co_plan_id r)"
| "portable st (Do_Acquire_Claim claim_id k owner ttl now) \<longleftrightarrow>
     representable now \<and> now + ttl < DATETIME_LIMIT \<and> \<not> py_blank claim_id \<and> \<not> py_blank owner"
| "portable st (Do_Renew_Claim claim ttl now) \<longleftrightarrow> representable now \<and> known_claim st (cl_step_id claim) claim"
| "portable st (Do_Release_Claim claim) \<longleftrightarrow> known_claim st (cl_step_id claim) claim"
| "portable st (Do_Retire_Plan p q reason t) \<longleftrightarrow> representable t"
| "portable st _ \<longleftrightarrow> True"

fun same_answer :: "durable_answer \<Rightarrow> durable_answer \<Rightarrow> bool" where
  "same_answer (A_Plan p) (A_Plan q) \<longleftrightarrow> same_state p q"
| "same_answer (A_Snapshot p rs) (A_Snapshot q rs') \<longleftrightarrow> same_state p q \<and> rs = rs'"
| "same_answer (A_Plans ps) (A_Plans qs) \<longleftrightarrow> list_all2 same_state ps qs"
| "same_answer x y \<longleftrightarrow> x = y"

definition same_result :: "py_error + durable_answer \<Rightarrow> py_error + durable_answer \<Rightarrow> bool" where
  "same_result x y \<longleftrightarrow> rel_sum (=) same_answer x y"

definition sim_call :: "'a coord_tx \<Rightarrow> coordinator_db \<Rightarrow> ('a \<Rightarrow> 'b \<Rightarrow> bool) \<Rightarrow> (py_error + 'b) \<times> retiring_store \<Rightarrow> bool" where
  "sim_call m db R out \<longleftrightarrow>
     (case run_tx m db of
        Inl e \<Rightarrow> (\<exists>pe. e = Program pe \<and> fst out = Inl pe) \<and> stored_as db (snd out)
      | Inr (x, db') \<Rightarrow> (\<exists>y. fst out = Inr y \<and> R x y) \<and> stored_as db' (snd out))"

lemma same_state_read:
  assumes "portable_store st" "dict_get (st_plans st) p = Some q"
  shows "same_state (plan_as_read q) q"
proof -
  note P = portable_planD[OF assms]
  have "sort_key s_id (map stored_step (sort_key s_id (pl_steps q))) = map stored_step (sort_key s_id (pl_steps q))"
    by (rule sort_key_id_if_sorted) (simp add: comp_def)
  then show ?thesis
    using P(3,4) by (simp add: same_state_def plan_as_read_def stored_plan_same list_all2_map1 list_all2_same stored_step_same)
qed

section \<open>Claims\<close>

lemma representable_between:
  "representable now \<Longrightarrow> now \<le> t \<Longrightarrow> t < DATETIME_LIMIT \<Longrightarrow> representable t"
  by (auto simp: representable_def day_ordinal_def epoch_ordinal_def DATETIME_LIMIT_def)

lemma stored_claims:
  assumes "stored_as db st"
    and "\<And>k. dict_get claims k = map_option row_of_claim (dict_get claims' k)"
    and "\<And>k. dict_get fences k = dict_get fences' k"
    and "\<And>k c. dict_get claims' k = Some c \<Longrightarrow> cl_step_id c = k \<and> representable (cl_expires_at c)"
    and "\<And>k n. dict_get fences' k = Some n \<Longrightarrow> 0 \<le> n"
  shows "stored_as (db\<lparr>cd_fences := fences, cd_claims := claims\<rparr>) (st\<lparr>st_fences := fences', st_claims := claims'\<rparr>)"
proof -
  have "step_of (st\<lparr>st_fences := fences', st_claims := claims'\<rparr>) = step_of st" by (rule step_of_plans) simp
  with assms show ?thesis unfolding stored_as_def portable_store_def by simp
qed

lemma portable_claimD:
  assumes "portable_store st" "dict_get (st_claims st) k = Some c"
  shows "cl_step_id c = k" "representable (cl_expires_at c)" "fromisoformat (cw_expires_at (row_of_claim c)) = Inr (cl_expires_at c)"
  using assms unfolding portable_store_def row_of_claim_def by (auto simp: fromisoformat_isoformat)

lemma stored_fences: "stored_as db st \<Longrightarrow> 0 \<le> fence_of st k"
  by (cases "dict_get (st_fences st) k") (auto simp: fence_of_def stored_as_def portable_store_def)

lemma claim_stands_stored:
  assumes "stored_as db st" "known_claim st k c"
  shows "claim_stands (dict_get (cd_claims db) k) c now = Inr (dict_get (st_claims st) k = Some c \<and> now < cl_expires_at c)"
proof (cases "dict_get (st_claims st) k")
  case (Some d)
  note d = portable_claimD[OF stored_asD(1)[OF assms(1)] Some]
  show ?thesis
    using assms(2) stored_asD(6)[OF assms(1), of k] Some d
    by (auto simp: claim_stands_def known_claim_def row_of_claim_def)
qed (use stored_asD(6)[OF assms(1), of k] in \<open>simp add: claim_stands_def\<close>)

lemma held_by_other_stored:
  assumes "stored_as db st"
  shows "held_by_other (dict_get (cd_claims db) k) owner now = Inr (case dict_get (st_claims st) k of None \<Rightarrow> False
    | Some current \<Rightarrow> now < cl_expires_at current \<and> cl_owner_id current \<noteq> owner)"
proof (cases "dict_get (st_claims st) k")
  case (Some d)
  note d = portable_claimD[OF stored_asD(1)[OF assms(1)] Some]
  show ?thesis
    using stored_asD(6)[OF assms(1), of k] Some d
    by (auto simp: held_by_other_def row_of_claim_def)
qed (use stored_asD(6)[OF assms(1), of k] in \<open>simp add: held_by_other_def\<close>)

lemma sim_acquire:
  assumes st: "stored_as db st" and "portable st (Do_Acquire_Claim cid k owner ttl now)"
  shows "sim_call (sq_acquire_claim cid k owner ttl now) db (=) (acquire_claim cid k owner ttl now st)"
proof (cases "0 < ttl \<and> dict_get (st_records st) k \<noteq> None")
  case False
  then show ?thesis
    using stored_asD(5)[OF st, of k] st
    by (auto simp: sim_call_def sq_acquire_claim_def acquire_claim_def tx_simps guard_def get_step_record_def)
next
  case True
  then obtain r where r: "dict_get (st_records st) k = Some r" by blast
  have "validate_id k ''step'' = Inr k"
    by (rule portable_recordD[OF stored_asD(1)[OF st] r])
      (auto simp: record_storable_def step_coordination_record_post_init_def sbind_eq_Inr dest: validate_id_same)
  moreover define c where "c = \<lparr>cl_step_id = k, cl_claim_id = cid, cl_owner_id = owner, cl_fence = fence_of st k + 1,
    cl_expires_at = now + ttl\<rparr>"
  ultimately have c: "sbind (datetime_add now ttl) (\<lambda>expires_at. coordinator_claim_post_init
      \<lparr>cl_step_id = k, cl_claim_id = cid, cl_owner_id = owner, cl_fence = fence_of st k + 1, cl_expires_at = expires_at\<rparr>) = Inr c"
    using assms(2) stored_fences[OF st, of k] by (simp add: coordinator_claim_post_init_def datetime_add_def guard_def)
  have rep: "representable (now + ttl)" using assms(2) True representable_between[of now "now + ttl"] by simp
  have "stored_as (db\<lparr>cd_fences := dict_set k (fence_of st k + 1) (cd_fences db), cd_claims := dict_set k (row_of_claim c) (cd_claims db)\<rparr>)
      (st\<lparr>st_fences := dict_set k (fence_of st k + 1) (st_fences st), st_claims := dict_set k c (st_claims st)\<rparr>)"
    using rep stored_fences[OF st, of k] stored_asD(1)[OF st] stored_asD(6,7)[OF st]
    by (intro stored_claims[OF st]) (auto simp: c_def portable_store_def split: if_splits)
  moreover have "durable_fence db k = fence_of st k"
    using stored_asD(7)[OF st, of k] by (simp add: durable_fence_def fence_of_def)
  ultimately show ?thesis
    using True r c stored_asD(5)[OF st, of k] held_by_other_stored[OF st, of k owner now] st
    by (simp add: sim_call_def sq_acquire_claim_def acquire_claim_def tx_simps guard_def get_step_record_def upsert_fence_def
        upsert_claim_def Let_def durable_fence_def c_def)
qed

lemma stored_claims_only:
  assumes "stored_as db st"
    and "\<And>k. dict_get claims k = map_option row_of_claim (dict_get claims' k)"
    and "\<And>k c. dict_get claims' k = Some c \<Longrightarrow> cl_step_id c = k \<and> representable (cl_expires_at c)"
  shows "stored_as (db\<lparr>cd_claims := claims\<rparr>) (st\<lparr>st_claims := claims'\<rparr>)"
proof -
  have "stored_as (db\<lparr>cd_fences := cd_fences db, cd_claims := claims\<rparr>) (st\<lparr>st_fences := st_fences st, st_claims := claims'\<rparr>)"
    using assms(2,3) stored_asD(7)[OF assms(1)] stored_asD(1)[OF assms(1)]
    by (intro stored_claims[OF assms(1)]) (auto simp: portable_store_def)
  then show ?thesis by simp
qed

lemma sim_renew:
  assumes st: "stored_as db st" and op: "portable st (Do_Renew_Claim c ttl now)"
  shows "sim_call (sq_renew_claim c ttl now) db (=) (renew_claim c ttl now st)"
proof (cases "0 < ttl \<and> dict_get (st_claims st) (cl_step_id c) = Some c \<and> now < cl_expires_at c")
  case False
  then show ?thesis
    using st op claim_stands_stored[OF st, of "cl_step_id c" c now]
    by (auto simp: sim_call_def sq_renew_claim_def renew_claim_def tx_simps guard_def)
next
  case True
  let ?renewed = "sbind (datetime_add now ttl) (\<lambda>expires_at. coordinator_claim_post_init (c\<lparr>cl_expires_at := expires_at\<rparr>))"
  note run = True op claim_stands_stored[OF st, of "cl_step_id c" c now] stored_asD(6)[OF st, of "cl_step_id c"]
  show ?thesis
  proof (cases ?renewed)
    case (Inl e)
    then show ?thesis using run st by (simp add: sim_call_def sq_renew_claim_def renew_claim_def tx_simps guard_def)
  next
    case (Inr d)
    then have d: "d = c\<lparr>cl_expires_at := now + ttl\<rparr>" "now + ttl < DATETIME_LIMIT"
      by (auto simp: sbind_eq_Inr datetime_add_def dest!: claim_post_init_id)
    have rep: "representable (cl_expires_at d)"
      using d op True representable_between[of now "now + ttl"] by simp
    have "stored_as (db\<lparr>cd_claims := dict_set (cl_step_id c) ((row_of_claim c)\<lparr>cw_expires_at := isoformat (cl_expires_at d)\<rparr>) (cd_claims db)\<rparr>)
        (st\<lparr>st_claims := dict_set (cl_step_id c) d (st_claims st)\<rparr>)"
      using rep stored_asD(1)[OF st] stored_asD(6)[OF st]
      by (intro stored_claims_only[OF st]) (auto simp: d(1) row_of_claim_def portable_store_def split: if_splits)
    then show ?thesis
      using Inr run by (simp add: sim_call_def sq_renew_claim_def renew_claim_def tx_simps guard_def update_expiry_def)
  qed
qed

lemma sim_release:
  assumes st: "stored_as db st" and op: "portable st (Do_Release_Claim c)"
  shows "sim_call (sq_release_claim c) db (=) (map_prod Inr id (release_claim c st))"
proof (cases "dict_get (st_claims st) (cl_step_id c) = Some c")
  case True
  have "stored_as (db\<lparr>cd_claims := filter (\<lambda>(k, _). k \<noteq> cl_step_id c) (cd_claims db)\<rparr>)
      (st\<lparr>st_claims := filter (\<lambda>(k, _). k \<noteq> cl_step_id c) (st_claims st)\<rparr>)"
    using stored_asD(1)[OF st] stored_asD(6)[OF st]
    by (intro stored_claims_only[OF st]) (auto simp: dict_get_filter portable_store_def split: if_splits)
  then show ?thesis
    using True stored_asD(6)[OF st, of "cl_step_id c"]
    by (simp add: sim_call_def sq_release_claim_def release_claim_def tx_simps delete_claim_def row_of_claim_def)
next
  case False
  then have "run_tx (sq_release_claim c) db = Inr (False, db)"
    using op stored_asD(6)[OF st, of "cl_step_id c"]
    by (auto simp: sq_release_claim_def tx_simps delete_claim_def row_of_claim_def known_claim_def split: option.splits)
  with False st show ?thesis by (simp add: sim_call_def release_claim_def)
qed

section \<open>Retirement\<close>

lemma sim_retire:
  assumes st: "stored_as db st" and op: "portable st (Do_Retire_Plan p q reason t)"
  shows "sim_call (sq_retire_plan p q reason t) db (=) (retire_plan p q reason t st)"
proof -
  let ?make = "\<lambda>state. plan_retirement_post_init
    \<lparr>re_plan_id = p, re_task_id = p_task_id (pl_plan state), re_superseded_by_plan_id = q, re_reason = reason, re_retired_at = t\<rparr>"
  show ?thesis
  proof (cases "sbind (get_plan st p) ?make")
    case (Inl e)
    then show ?thesis
      using st by (cases "get_plan st p")
        (simp_all add: sim_call_def sq_retire_plan_def retire_plan_def tx_simps run_get_plan[OF st] plan_as_read_def)
  next
    case (Inr x)
    then obtain state where state: "get_plan st p = Inr state" "?make state = Inr x" by (auto simp: sbind_eq_Inr)
    then have x: "re_plan_id x = p" "re_retired_at x = t" "plan_retirement_post_init x = Inr x"
      by (auto simp: plan_retirement_post_init_def sbind_eq_Inr)
    note run = state sim_call_def sq_retire_plan_def retire_plan_def tx_simps run_get_plan[OF st] plan_as_read_def
    show ?thesis
    proof (cases "dict_get (st_retirements st) p")
      case None
      have "stored_as (db\<lparr>cd_retirements := dict_set p (row_of_retirement x) (cd_retirements db)\<rparr>)
          (st\<lparr>st_retirements := dict_set p x (st_retirements st)\<rparr>)"
      proof -
        have "step_of (st\<lparr>st_retirements := dict_set p x (st_retirements st)\<rparr>) = step_of st" by (rule step_of_plans) simp
        with st x op show ?thesis unfolding stored_as_def portable_store_def by simp
      qed
      moreover have "dict_get (cd_plans db) p \<noteq> None"
        using state(1) stored_asD(4)[OF st, of p] by (auto simp: get_plan_def split: option.splits)
      ultimately show ?thesis
        using None stored_asD(8)[OF st, of p] x by (simp add: run insert_retirement_def)
    next
      case (Some y)
      then show ?thesis
        using stored_asD(8)[OF st, of p] portable_retirementD(4)[OF stored_asD(1)[OF st] Some] st by (simp add: run)
    qed
  qed
qed

section \<open>Saving\<close>

lemma saved_storable:
  assumes "record_storable r" "record_storable current" "representable now"
  shows "record_storable (saved_record current r now)"
    "step_coordination_record_post_init (saved_record current r now) = Inr (saved_record current r now)"
  using assms by (auto simp: record_storable_def saved_record_def step_coordination_record_post_init_def sbind_eq_Inr)

lemma stored_save:
  assumes st: "stored_as db st" and s: "step_storable s" and r: "record_storable r" "representable now"
    and ids: "co_step_id r = s_id s" "co_plan_id r = s_plan_id s"
    and current: "dict_get (st_records st) (s_id s) = Some current" "co_plan_id current = co_plan_id r"
    and q: "dict_get (st_plans st) (s_plan_id s) = Some q"
  shows "stored_as
    (db\<lparr>cd_steps := dict_set (s_id s) (step_row_of s (saved_record current r now)) (cd_steps db),
        cd_plans := dict_set (s_plan_id s) ((plan_row_of q)\<lparr>pw_store_revision := pl_store_revision q + 1\<rparr>) (cd_plans db)\<rparr>)
    (st\<lparr>st_records := dict_set (s_id s) (saved_record current r now) (st_records st),
        st_plans := dict_set (s_plan_id s)
          (q\<lparr>pl_steps := replace_step s (pl_steps q), pl_store_revision := pl_store_revision q + 1\<rparr>) (st_plans st)\<rparr>)"
    (is "stored_as ?db ?st")
proof -
  let ?P = "s_plan_id s" let ?saved = "saved_record current r now"
  let ?q = "q\<lparr>pl_steps := replace_step s (pl_steps q), pl_store_revision := pl_store_revision q + 1\<rparr>"
  note D = stored_asD[OF st]
  note plan = portable_planD[OF D(1) q]
  have old: "record_storable current" by (rule portable_recordD[OF D(1) current(1)])
  note saved = saved_storable[OF r(1) old r(2)]
  have known: "step_of st ?P (s_id s) \<noteq> None"
    by (rule portable_recordD[OF D(1) current(1)]) (use current(2) ids(2) in simp)
  have steps: "step_of ?st p k = (if p = ?P \<and> k = s_id s then Some s else step_of st p k)" for p k
    by (rule step_of_saved[OF q known]) (simp add: fun_eq_iff)
  have valid: "plan_runtime_state_post_init ?q = Inr ?q"
    by (rule runtime_post_init_replace) (use plan in auto)
  have portable: "portable_store ?st"
  proof -
    have plans: "p_id (pl_plan q') = p \<and> plan_runtime_state_post_init q' = Inr q' \<and> plan_storable (pl_plan q') \<and>
        (\<forall>t\<in>set (pl_steps q'). step_storable t \<and> (\<exists>r'. dict_get (st_records ?st) (s_id t) = Some r' \<and> co_plan_id r' = p))"
      if "dict_get (st_plans ?st) p = Some q'" for p q'
    proof (cases "p = ?P")
      case True
      then have q': "q' = ?q" using that by simp
      have "step_storable t \<and> (\<exists>r'. dict_get (st_records ?st) (s_id t) = Some r' \<and> co_plan_id r' = ?P)"
        if "t \<in> set (replace_step s (pl_steps q))" for t
        using that plan(4,5) s ids(2) by (auto simp: replace_step_def)
      then show ?thesis using plan(1,3) valid by (simp add: q' True)
    next
      case False
      then have q': "dict_get (st_plans st) p = Some q'" using that by simp
      have "s_id t \<noteq> s_id s" if "t \<in> set (pl_steps q')" for t
        using portable_planD(5)[OF D(1) q' that] current False ids(2) by auto
      then show ?thesis using portable_planD[OF D(1) q'] by auto
    qed
    have records: "co_step_id r' = k \<and> record_storable r' \<and> step_of ?st (co_plan_id r') k \<noteq> None"
      if "dict_get (st_records ?st) k = Some r'" for k r'
    proof (cases "k = s_id s")
      case True
      then have r': "r' = ?saved" using that by simp
      show ?thesis using saved(1) ids by (simp add: r' True steps)
    next
      case False
      then have "dict_get (st_records st) k = Some r'" using that by simp
      then show ?thesis by (rule portable_recordD[OF D(1)]) (simp add: steps False)
    qed
    show ?thesis
      unfolding portable_store_def using plans records D(1)
      by (simp add: portable_store_def distinct_dict_set)
  qed
  have rows: "dict_get (cd_steps ?db) k = map_option (\<lambda>r. step_row_of (the (step_of ?st (co_plan_id r) k)) r) (dict_get (st_records ?st) k)" for k
    using D(5)[of k] ids by (simp add: steps)
  have planrows: "dict_get (cd_plans ?db) p = map_option plan_row_of (dict_get (st_plans ?st) p)" for p
    using D(4)[of p] by (simp add: plan_row_of_def)
  show ?thesis
    unfolding stored_as_def using portable rows planrows D(2,3,6,7,8) by (simp add: distinct_dict_set)
qed

lemma sim_save:
  assumes st: "stored_as db st" and op: "portable st (Do_Save_Step s r n claim now)"
  shows "sim_call (sq_save_step s r n claim now) db (=) (save_step s r n claim now st)"
proof -
  note D = stored_asD[OF st]
  have claim: "run_tx (require_claim (s_id s) claim now) db = (if live_claim claim (s_id s) now st then Inr ((), db)
      else Inl (Program (ContractError CONFLICT False
        [(''step_id'', JStr (s_id s)), (''fence'', case claim of None \<Rightarrow> JNull | Some c \<Rightarrow> JInt (cl_fence c))])))"
    using op claim_stands_stored[OF st, of "s_id s" _ now]
    by (cases claim) (simp_all add: require_claim_def live_claim_def tx_simps guard_def)
  show ?thesis
  proof (cases "s_id s = co_step_id r \<and> s_plan_id s = co_plan_id r \<and> live_claim claim (s_id s) now st")
    case False
    show ?thesis
    proof (cases "s_id s = co_step_id r \<and> s_plan_id s = co_plan_id r")
      case True
      with False have "\<not> live_claim claim (s_id s) now st" by simp
      then show ?thesis using True st claim by (simp add: sim_call_def sq_save_step_def save_step_def tx_simps guard_def)
    next
      case False
      then show ?thesis using st by (auto simp: sim_call_def sq_save_step_def save_step_def tx_simps guard_def)
    qed
  next
    case True
    then have same: "co_step_id r = s_id s" "co_plan_id r = s_plan_id s" "live_claim claim (s_id s) now st" by auto
    with claim have live: "run_tx (require_claim (s_id s) claim now) db = Inr ((), db)" by simp
    note run = sim_call_def sq_save_step_def save_step_def tx_simps guard_def
    show ?thesis
    proof (cases "dict_get (st_records st) (s_id s)")
      case None
      then show ?thesis using same st D(5)[of "s_id s"] live by (simp add: run)
    next
      case (Some current)
      have row: "dict_get (cd_steps db) (s_id s) = Some (step_row_of (the (step_of st (co_plan_id current) (s_id s))) current)"
        using D(5)[of "s_id s"] Some by simp
      show ?thesis
      proof (cases "co_revision current = n")
        case False
        then show ?thesis using same Some row st live by (simp add: run step_row_of_def)
      next
        case rev: True
        obtain q where q: "dict_get (st_plans st) (s_plan_id s) = Some q" and old: "record_storable current"
          by (rule portable_recordD[OF D(1) Some]) (use op Some same in simp)
        note P = portable_planD[OF D(1) q]
        have valid: "plan_runtime_state_post_init
            (q\<lparr>pl_steps := replace_step s (pl_steps q), pl_store_revision := pl_store_revision q + 1\<rparr>) =
            Inr (q\<lparr>pl_steps := replace_step s (pl_steps q), pl_store_revision := pl_store_revision q + 1\<rparr>)"
          by (rule runtime_post_init_replace) (use P in auto)
        have r: "step_storable s" "record_storable r" "representable now" "co_plan_id current = co_plan_id r"
          "flat_provenance (s_provenance s)"
          using op Some by simp_all
        note saved = saved_storable[OF r(2) old r(3)]
        note stored = stored_save[OF st r(1,2,3) _ _ Some r(4) q]
        have mem: "save_step s r n claim now st = (Inr (saved_record current r now),
            st\<lparr>st_records := dict_set (s_id s) (saved_record current r now) (st_records st),
               st_plans := dict_set (s_plan_id s)
                 (q\<lparr>pl_steps := replace_step s (pl_steps q), pl_store_revision := pl_store_revision q + 1\<rparr>) (st_plans st)\<rparr>)"
          using same Some rev q valid saved(2) by (simp add: save_step_def store_step_def Let_def saved_record_def)
        have "run_tx (sq_save_step s r n claim now) db = Inr (saved_record current r now,
            db\<lparr>cd_steps := dict_set (s_id s) (step_row_of s (saved_record current r now)) (cd_steps db),
               cd_plans := dict_set (s_plan_id s) ((plan_row_of q)\<lparr>pw_store_revision := pl_store_revision q + 1\<rparr>) (cd_plans db)\<rparr>)"
          using same row rev q r(4,5) saved(2) D(4)[of "s_plan_id s"] live
          by (simp add: sq_save_step_def tx_simps guard_def saved_record_def dump_step_def update_step_def
              touch_plan_def step_row_of_def plan_row_of_def)
        then show ?thesis using mem stored same by (simp add: sim_call_def)
      qed
    qed
  qed
qed

section \<open>Registration\<close>

lemma run_insert_steps:
  assumes "map co_step_id rs = map s_id ss" "storable_steps ss" "list_all (\<lambda>r. co_plan_id r = p) rs" "distinct (map s_id ss)"
    and "list_all (\<lambda>s. dict_get (cd_steps db) (s_id s) = None) ss" "dict_get (cd_plans db) p \<noteq> None"
  shows "run_tx (insert_steps p ss rs) db =
    Inr ((), db\<lparr>cd_steps := dict_update (cd_steps db) (map2 (\<lambda>s r. (s_id s, step_row_of s r)) ss rs)\<rparr>)"
  using assms
proof (induction ss arbitrary: rs db)
  case (Cons s ss)
  then obtain r rs' where rs: "rs = r # rs'" by (cases rs) auto
  let ?db = "db\<lparr>cd_steps := dict_set (s_id s) (step_row_of s r) (cd_steps db)\<rparr>"
  have "run_tx (insert_steps p ss rs') ?db =
      Inr ((), ?db\<lparr>cd_steps := dict_update (cd_steps ?db) (map2 (\<lambda>s r. (s_id s, step_row_of s r)) ss rs')\<rparr>)"
  proof (rule Cons.IH)
    show "list_all (\<lambda>t. dict_get (cd_steps ?db) (s_id t) = None) ss"
      using Cons.prems(4,5) by (simp add: list_all_iff image_iff) metis
  qed (use Cons.prems in \<open>simp_all add: rs storable_steps_def\<close>)
  moreover have "\<lparr>sw_plan_id = p, sw_step_json = json_text (step_to_dict s), sw_record_json = dump_record r, sw_revision = co_revision r\<rparr> =
      step_row_of s r"
    using Cons.prems(3) by (simp add: rs step_row_of_def)
  ultimately show ?case
    using Cons.prems by (simp add: rs tx_simps dump_step_def guard_def storable_steps_def insert_step_def)
qed (simp add: tx_simps)

lemma dict_get_map2:
  assumes "map co_step_id rs = map s_id ss" "distinct (map s_id ss)"
  shows "dict_get (map2 (\<lambda>s r. (s_id s, f s r)) ss rs) k =
    (case dict_get (map (\<lambda>r. (co_step_id r, r)) rs) k of None \<Rightarrow> None
     | Some r \<Rightarrow> Some (f (the (find (\<lambda>s. s_id s = k) ss)) r))"
  using assms
proof (induction ss arbitrary: rs)
  case (Cons s ss)
  then obtain r rs' where rs: "rs = r # rs'" by (cases rs) auto
  with Cons show ?case by (auto cong: option.case_cong)
qed simp

lemma map2_keys: "map co_step_id rs = map s_id ss \<Longrightarrow> map fst (map2 (\<lambda>s r. (s_id s, f s r)) ss rs) = map s_id ss"
  by (rule nth_equalityI) (auto dest: arg_cong[of _ _ length])

lemma stored_create:
  assumes st: "stored_as db st" and new: "dict_get (st_plans st) (p_id plan) = None"
    and valid: "plan_runtime_state_post_init \<lparr>pl_plan = plan, pl_steps = ss, pl_store_revision = 1\<rparr> =
      Inr \<lparr>pl_plan = plan, pl_steps = ss, pl_store_revision = 1\<rparr>"
    and plan: "plan_storable plan" and ss: "storable_steps ss" and rs: "records_for plan ss rs"
    and fresh: "list_all (\<lambda>s. dict_get (st_records st) (s_id s) = None) ss"
  shows "stored_as
    (db\<lparr>cd_plans := dict_set (p_id plan)
          \<lparr>pw_task_id = p_task_id plan, pw_plan_json = json_text (plan_to_dict plan), pw_store_revision = 1\<rparr> (cd_plans db),
        cd_steps := dict_update (cd_steps db) (map2 (\<lambda>s r. (s_id s, step_row_of s r)) ss rs)\<rparr>)
    (st\<lparr>st_plans := dict_set (p_id plan) \<lparr>pl_plan = plan, pl_steps = ss, pl_store_revision = 1\<rparr> (st_plans st),
        st_records := dict_update (st_records st) (map (\<lambda>r. (co_step_id r, r)) rs)\<rparr>)"
    (is "stored_as ?db ?st")
proof -
  let ?P = "p_id plan" and ?q = "\<lparr>pl_plan = plan, pl_steps = ss, pl_store_revision = 1\<rparr>"
  note D = stored_asD[OF st]
  have ids: "map co_step_id rs = map s_id ss" and rec: "record_storable r \<and> co_plan_id r = ?P" if "r \<in> set rs" for r
    using rs that by (auto simp: records_for_def list_all_iff)
  have ids: "map co_step_id rs = map s_id ss" using rs by (simp add: records_for_def)
  have d: "distinct (map s_id ss)" using valid by (simp add: plan_runtime_state_post_init_def sbind_eq_Inr)
  then have dr: "distinct (map co_step_id rs)" using ids by (simp only:)
  have keys: "distinct (map fst (map (\<lambda>r. (co_step_id r, r)) rs))" using dr by (simp add: comp_def)
  have recs: "dict_get (dict_update (st_records st) (map (\<lambda>r. (co_step_id r, r)) rs)) k =
      (case dict_get (map (\<lambda>r. (co_step_id r, r)) rs) k of None \<Rightarrow> dict_get (st_records st) k | Some r \<Rightarrow> Some r)" for k
    by (rule dict_get_update[OF keys])
  have found: "dict_get (map (\<lambda>r. (co_step_id r, r)) rs) k = Some r \<longleftrightarrow> r \<in> set rs \<and> co_step_id r = k" for k r
    by (rule dict_get_records[OF dr])
  have steps: "step_of ?st p k = (if p = ?P then find (\<lambda>s. s_id s = k) ss else step_of st p k)" for p k
    by (simp add: step_of_def)
  have covered: "\<exists>r\<in>set rs. co_step_id r = s_id s" if "s \<in> set ss" for s
    using that arg_cong[OF ids, of set] by (auto simp: set_eq_iff image_iff) metis
  have covers: "\<exists>s\<in>set ss. s_id s = co_step_id r" if "r \<in> set rs" for r
    using that arg_cong[OF ids, of set] by (auto simp: set_eq_iff image_iff) metis
  have old: "co_plan_id r \<noteq> ?P" if "dict_get (st_records st) k = Some r" for k r
    by (rule portable_recordD[OF D(1) that]) (use new in auto)
  have portable: "portable_store ?st"
  proof -
    have plans: "p_id (pl_plan q) = p \<and> plan_runtime_state_post_init q = Inr q \<and> plan_storable (pl_plan q) \<and>
        (\<forall>t\<in>set (pl_steps q). step_storable t \<and> (\<exists>r. dict_get (st_records ?st) (s_id t) = Some r \<and> co_plan_id r = p))"
      if "dict_get (st_plans ?st) p = Some q" for p q
    proof (cases "p = ?P")
      case True
      then have q: "q = ?q" using that by simp
      have "step_storable t \<and> (\<exists>r. dict_get (st_records ?st) (s_id t) = Some r \<and> co_plan_id r = ?P)" if t: "t \<in> set ss" for t
      proof -
        obtain r where r: "r \<in> set rs" "co_step_id r = s_id t" using covered[OF t] by blast
        then have "dict_get (st_records ?st) (s_id t) = Some r" using found[of "s_id t" r] by (simp add: recs)
        with rec[OF r(1)] ss t show ?thesis by (simp add: storable_steps_def list_all_iff)
      qed
      then show ?thesis using plan valid by (simp add: q True)
    next
      case False
      then have q: "dict_get (st_plans st) p = Some q" using that by simp
      have "\<exists>r. dict_get (st_records ?st) (s_id t) = Some r \<and> co_plan_id r = p" if t: "t \<in> set (pl_steps q)" for t
      proof -
        obtain r where r: "dict_get (st_records st) (s_id t) = Some r" "co_plan_id r = p"
          using portable_planD(5)[OF D(1) q t] by blast
        have "dict_get (map (\<lambda>r. (co_step_id r, r)) rs) (s_id t) = None"
        proof (rule ccontr)
          assume "dict_get (map (\<lambda>r. (co_step_id r, r)) rs) (s_id t) \<noteq> None"
          then obtain r' where "r' \<in> set rs" "co_step_id r' = s_id t" using found by blast
          then obtain s where "s \<in> set ss" "s_id s = s_id t" using covers by metis
          with fresh r(1) show False by (auto simp: list_all_iff)
        qed
        with r show ?thesis by (simp add: recs)
      qed
      then show ?thesis using portable_planD[OF D(1) q] by blast
    qed
    have records: "co_step_id r = k \<and> record_storable r \<and> step_of ?st (co_plan_id r) k \<noteq> None"
      if "dict_get (st_records ?st) k = Some r" for k r
    proof (cases "dict_get (map (\<lambda>r. (co_step_id r, r)) rs) k")
      case None
      then have r: "dict_get (st_records st) k = Some r" using that by (simp add: recs)
      then show ?thesis by (rule portable_recordD[OF D(1)]) (use old[OF r] in \<open>simp add: steps\<close>)
    next
      case (Some r')
      then have r: "r \<in> set rs" "co_step_id r = k" using that found[of k r'] by (simp_all add: recs)
      obtain s where "s \<in> set ss" "s_id s = k" using covers[OF r(1)] r(2) by blast
      then have "find (\<lambda>s. s_id s = k) ss \<noteq> None" by (auto simp: find_None_iff)
      then show ?thesis using rec[OF r(1)] r(2) by (simp add: steps)
    qed
    show ?thesis
      unfolding portable_store_def using plans records D(1)
      by (simp add: portable_store_def distinct_dict_set distinct_dict_update)
  qed
  have rows: "dict_get (cd_steps ?db) k = map_option (\<lambda>r. step_row_of (the (step_of ?st (co_plan_id r) k)) r) (dict_get (st_records ?st) k)" for k
  proof -
    have kd: "distinct (map fst (map2 (\<lambda>s r. (s_id s, step_row_of s r)) ss rs))" using d by (simp only: map2_keys[OF ids])
    have "dict_get (cd_steps ?db) k = (case dict_get (map (\<lambda>r. (co_step_id r, r)) rs) k of None \<Rightarrow> dict_get (cd_steps db) k
        | Some r \<Rightarrow> Some (step_row_of (the (find (\<lambda>s. s_id s = k) ss)) r))"
      by (simp add: dict_get_update[OF kd] dict_get_map2[OF ids d] split: option.splits)
    note row = this
    show ?thesis
    proof (cases "dict_get (map (\<lambda>r. (co_step_id r, r)) rs) k")
      case None
      show ?thesis
      proof (cases "dict_get (st_records st) k")
        case (Some r)
        then show ?thesis using row None D(5)[of k] old[OF Some] by (simp add: recs steps)
      qed (use row None D(5)[of k] in \<open>simp add: recs\<close>)
    next
      case (Some r)
      then have "co_plan_id r = ?P" using found[of k r] rec[of r] by simp
      then show ?thesis using row Some by (simp add: recs steps)
    qed
  qed
  have planrows: "dict_get (cd_plans ?db) p = map_option plan_row_of (dict_get (st_plans ?st) p)" for p
    using D(4)[of p] by (simp add: plan_row_of_def)
  show ?thesis
    unfolding stored_as_def using portable rows planrows D(2,3,6,7,8) by (simp add: distinct_dict_set distinct_dict_update)
qed

lemma same_steps_stored:
  "list_all step_storable xs \<Longrightarrow> list_all2 same_step (map stored_step xs) ys = list_all2 same_step xs ys"
  by (auto simp: list_all2_map1 list_all2_conv_all_nth same_step_stored list_all_length)

lemma same_step_refl: "step_storable s \<Longrightarrow> same_step s s"
  using stored_step_same same_step_stored by blast

lemma same_plan_refl: "plan_storable p \<Longrightarrow> same_plan p p"
  using stored_plan_same same_plan_stored by blast

lemma sim_create:
  assumes st: "stored_as db st" and op: "portable st (Do_Create_Plan plan ss rs)"
  shows "sim_call (sq_create_plan plan ss rs) db same_state (create_plan plan ss rs st)"
proof -
  let ?q = "\<lparr>pl_plan = plan, pl_steps = ss, pl_store_revision = 1\<rparr>"
  note D = stored_asD[OF st]
  have ids: "co_step_id ` set rs = s_id ` set ss"
  proof -
    have "set (map co_step_id rs) = set (map s_id ss)" using op by (simp add: records_for_def)
    then show ?thesis by simp
  qed
  show ?thesis
  proof (cases "plan_runtime_state_post_init ?q")
    case (Inl e)
    then show ?thesis using st by (simp add: sim_call_def sq_create_plan_def create_plan_def tx_simps)
  next
    case (Inr q')
    then have valid: "plan_runtime_state_post_init ?q = Inr ?q" by (auto dest: runtime_post_init_id)
    then have d: "distinct (map s_id ss)" by (simp add: plan_runtime_state_post_init_def sbind_eq_Inr)
    show ?thesis
    proof (cases "dict_get (st_plans st) (p_id plan)")
      case None
      let ?row = "\<lparr>pw_task_id = p_task_id plan, pw_plan_json = json_text (plan_to_dict plan), pw_store_revision = 1\<rparr>"
      let ?db = "db\<lparr>cd_plans := dict_set (p_id plan) ?row (cd_plans db)\<rparr>"
      have fresh: "list_all (\<lambda>s. dict_get (st_records st) (s_id s) = None) ss" using op None by simp
      then have free: "list_all (\<lambda>s. dict_get (cd_steps ?db) (s_id s) = None) ss" by (simp add: D(5) list_all_iff)
      have "run_tx (insert_steps (p_id plan) ss rs) ?db =
          Inr ((), ?db\<lparr>cd_steps := dict_update (cd_steps ?db) (map2 (\<lambda>s r. (s_id s, step_row_of s r)) ss rs)\<rparr>)"
        by (rule run_insert_steps) (use op d free in \<open>auto simp: records_for_def list_all_iff\<close>)
      then have "run_tx (sq_create_plan plan ss rs) db =
          Inr (?q, ?db\<lparr>cd_steps := dict_update (cd_steps db) (map2 (\<lambda>s r. (s_id s, step_row_of s r)) ss rs)\<rparr>)"
        using None D(4)[of "p_id plan"] op valid ids
        by (simp add: sq_create_plan_def tx_simps guard_def dump_plan_def insert_plan_def)
      moreover have "create_plan plan ss rs st = (Inr ?q,
          st\<lparr>st_plans := dict_set (p_id plan) ?q (st_plans st),
             st_records := dict_update (st_records st) (map (\<lambda>r. (co_step_id r, r)) rs)\<rparr>)"
        using None valid ids by (simp add: create_plan_def)
      moreover have "same_state ?q ?q"
        using op by (auto simp: same_state_def same_plan_refl storable_steps_def list_all_iff list_all2_same same_step_refl)
      ultimately show ?thesis
        using stored_create[OF st None valid _ _ _ fresh] op by (simp add: sim_call_def)
    next
      case (Some q)
      note P = portable_planD[OF D(1) Some]
      have sorted: "sort_key s_id (pl_steps q) = pl_steps q"
        by (rule sort_key_id_if_sorted) (use op Some in simp)
      have "list_all step_storable (pl_steps q)" using P(4) by (simp add: list_all_iff)
      then have same: "same_plan (stored_plan (pl_plan q)) plan \<and> list_all2 same_step (map stored_step (pl_steps q)) ss \<longleftrightarrow>
          same_plan (pl_plan q) plan \<and> list_all2 same_step (pl_steps q) ss"
        by (simp add: same_plan_stored[OF P(3)] same_steps_stored)
      have read: "pl_plan (plan_as_read q) = stored_plan (pl_plan q)" "pl_steps (plan_as_read q) = map stored_step (pl_steps q)"
        by (simp_all add: plan_as_read_def sorted)
      show ?thesis
        using Some D(4)[of "p_id plan"] op valid ids st same_state_read[OF D(1) Some]
        by (simp add: sim_call_def sq_create_plan_def create_plan_def tx_simps guard_def run_get_plan[OF st] get_plan_def
            read same)
    qed
  qed
qed

section \<open>Every operation\<close>

lemma sim_read:
  assumes "stored_as db st" "run_tx m db = (case r of Inl e \<Rightarrow> Inl (Program e) | Inr x \<Rightarrow> Inr (f x, db))"
    and "\<And>x. r = Inr x \<Longrightarrow> R (f x) x"
  shows "sim_call m db R (r, st)"
  using assms by (cases r) (simp_all add: sim_call_def)

lemma sim_answer:
  assumes "sim_call m db R out" "transparent m" "\<And>x y. R x y \<Longrightarrow> same_answer (f x) (g y)"
    and "out' = map_prod (map_sum id g) id out"
  shows "sim_call (tx_answer f m) db same_answer out'"
  using assms by (cases out) (auto simp: sim_call_def tx_answer_def tx_simps split: sum.splits)

lemma sim_memory_call:
  assumes st: "stored_as db st" and op: "portable st x"
  shows "sim_call (durable_tx x) db same_answer (memory_call x st)"
proof -
  note D = stored_asD[OF st]
  have state: "same_state (plan_as_read q) q" if "get_plan st p = Inr q" for p q
    using same_state_read[OF D(1)] that by (auto simp: get_plan_def split: option.splits)
  show ?thesis
  proof (cases x)
    case (Do_Create_Plan plan ss rs)
    with op have "sim_call (sq_create_plan plan ss rs) db same_state (create_plan plan ss rs st)"
      by (intro sim_create[OF st]) simp
    then show ?thesis unfolding Do_Create_Plan durable_tx.simps by (rule sim_answer) simp_all
  next
    case (Do_Get_Plan p)
    have "sim_call (sq_get_plan p) db same_state (get_plan st p, st)"
      by (rule sim_read[OF st run_get_plan[OF st]]) (rule state)
    then show ?thesis unfolding Do_Get_Plan durable_tx.simps by (rule sim_answer) simp_all
  next
    case (Do_Get_Snapshot p)
    have "sim_call (sq_get_plan_snapshot p) db (\<lambda>(q, rs) (q', rs'). same_state q q' \<and> rs = rs') (get_plan_snapshot st p, st)"
      using run_get_snapshot[OF st, of p] st state[of p]
      by (cases "get_plan st p") (simp_all add: sim_call_def get_plan_snapshot_def)
    then show ?thesis unfolding Do_Get_Snapshot durable_tx.simps by (rule sim_answer) auto
  next
    case (Do_Get_Record k)
    have "sim_call (sq_get_step_record k) db (=) (get_step_record st k, st)"
      by (rule sim_read[OF st, where f = "\<lambda>r. r"]) (simp_all add: run_get_record[OF st])
    then show ?thesis unfolding Do_Get_Record durable_tx.simps by (rule sim_answer) simp_all
  next
    case (Do_List_Records p)
    have "sim_call (sq_list_step_records p) db (=) (list_step_records st p, st)"
      by (rule sim_read[OF st, where f = "\<lambda>r. r"]) (simp_all add: run_list_records[OF st])
    then show ?thesis unfolding Do_List_Records durable_tx.simps by (rule sim_answer) simp_all
  next
    case Do_List_Active
    have "list_all2 same_state (map plan_as_read (list_unretired_plans st)) (list_unretired_plans st)"
      using unretired_stored(2)[OF st] same_state_read[OF D(1)] by (auto simp: list_all2_map1 list_all2_same)
    then have "sim_call sq_list_active_plans db (list_all2 same_state) (Inr (list_unretired_plans st), st)"
      using run_list_active[OF st] st by (simp add: sim_call_def)
    then show ?thesis unfolding Do_List_Active durable_tx.simps by (rule sim_answer) simp_all
  next
    case (Do_Save_Step s r n claim now)
    with op have "sim_call (sq_save_step s r n claim now) db (=) (save_step s r n claim now st)"
      by (intro sim_save[OF st]) simp
    then show ?thesis unfolding Do_Save_Step durable_tx.simps by (rule sim_answer) simp_all
  next
    case (Do_Acquire_Claim cid k owner ttl now)
    with op have "sim_call (sq_acquire_claim cid k owner ttl now) db (=) (acquire_claim cid k owner ttl now st)"
      by (intro sim_acquire[OF st]) simp
    then show ?thesis unfolding Do_Acquire_Claim durable_tx.simps by (rule sim_answer) simp_all
  next
    case (Do_Renew_Claim c ttl now)
    with op have "sim_call (sq_renew_claim c ttl now) db (=) (renew_claim c ttl now st)"
      by (intro sim_renew[OF st]) simp
    then show ?thesis unfolding Do_Renew_Claim durable_tx.simps by (rule sim_answer) simp_all
  next
    case (Do_Release_Claim c)
    with op have "sim_call (sq_release_claim c) db (=) (map_prod Inr id (release_claim c st))"
      by (intro sim_release[OF st]) simp
    then show ?thesis unfolding Do_Release_Claim durable_tx.simps
      by (rule sim_answer) (simp_all add: map_prod_def case_prod_beta)
  next
    case (Do_Retire_Plan p q reason t)
    with op have "sim_call (sq_retire_plan p q reason t) db (=) (retire_plan p q reason t st)"
      by (intro sim_retire[OF st]) simp
    then show ?thesis unfolding Do_Retire_Plan durable_tx.simps by (rule sim_answer) simp_all
  next
    case (Do_Plan_Retirement p)
    have "sim_call (sq_plan_retirement p) db (=) (plan_retirement_of st p, st)"
      by (rule sim_read[OF st, where f = "\<lambda>r. r"]) (simp_all add: run_plan_retirement[OF st])
    then show ?thesis unfolding Do_Plan_Retirement durable_tx.simps by (rule sim_answer) simp_all
  qed
qed

lemma durable_simulates:
  assumes "stored_as db st" "portable st x"
  shows "same_result (fst (durable_call no_faults x db)) (fst (memory_call x st))"
    and "stored_as (snd (durable_call no_faults x db)) (snd (memory_call x st))"
  using sim_memory_call[OF assms]
  by (auto simp: sim_call_def same_result_def durable_fault_free adapter_run_def split: sum.splits)

section \<open>Sequences of operations\<close>

fun portable_run :: "retiring_store \<Rightarrow> durable_op list \<Rightarrow> bool" where
  "portable_run st [] \<longleftrightarrow> True"
| "portable_run st (x # xs) \<longleftrightarrow> portable st x \<and> portable_run (snd (memory_call x st)) xs"

definition durable_run :: "durable_op list \<Rightarrow> coordinator_db \<Rightarrow> coordinator_db" where
  "durable_run xs db = fold (\<lambda>x db. snd (durable_call no_faults x db)) xs db"

definition memory_run :: "durable_op list \<Rightarrow> retiring_store \<Rightarrow> retiring_store" where
  "memory_run xs st = fold (\<lambda>x st. snd (memory_call x st)) xs st"

lemma empty_stored: "stored_as empty_coordinator_db empty_retiring_store"
  by (simp add: stored_as_def portable_store_def empty_coordinator_db_def empty_retiring_store_def empty_store_def
      coordinator_store.defs)

lemma runs_stored: "stored_as db st \<Longrightarrow> portable_run st xs \<Longrightarrow> stored_as (durable_run xs db) (memory_run xs st)"
proof (induction xs arbitrary: db st)
  case (Cons x xs)
  then have "stored_as (durable_run xs (snd (durable_call no_faults x db))) (memory_run xs (snd (memory_call x st)))"
    using durable_simulates(2) by simp
  then show ?case by (simp add: durable_run_def memory_run_def)
qed (simp add: durable_run_def memory_run_def)

end
