(* ===== verification/Coordinator_Migration.thy ===== *)
theory Coordinator_Migration
  imports Coordinator_Durable_Safe
begin

text \<open>
  The life of a coordinator store file: how \<open>coordination/sqlite_repository_v3.py\<close> creates or opens it and
  how \<open>coordination/migrations.py\<close> inspects an older one and brings it to the current schema. A file is
  its tables, the rows of its version table, the answer of the integrity check and the contents of
  \<open>Coordinator_Sqlite\<close>. Every error of the migration module is a \<open>CoordinatorMigrationError\<close>, a
  \<open>RuntimeError\<close>. The statements of \<open>executescript\<close> commit one by one.
\<close>

section \<open>Files\<close>

record store_file =
  sf_tables :: "string list"
  sf_meta :: "string dict"
  sf_sound :: bool
  sf_db :: coordinator_db

definition fresh_file :: store_file where
  "fresh_file = \<lparr>sf_tables = [], sf_meta = [], sf_sound = True, sf_db = empty_coordinator_db\<rparr>"

definition COORDINATOR_SCHEMA_VERSION :: int where
  "COORDINATOR_SCHEMA_VERSION = 3"

definition COORDINATOR_MIGRATION_REVISION :: string where
  "COORDINATOR_MIGRATION_REVISION = ''coordination-0003''"

definition V2_MIGRATION_REVISION :: string where
  "V2_MIGRATION_REVISION = ''coordination-0002''"

definition BASE_REQUIRED_TABLES :: "string list" where
  "BASE_REQUIRED_TABLES =
     [''coordinator_meta'', ''coordinator_plans'', ''coordinator_steps'', ''coordinator_claims'', ''coordinator_fences'']"

definition CURRENT_REQUIRED_TABLES :: "string list" where
  "CURRENT_REQUIRED_TABLES = BASE_REQUIRED_TABLES @ [''coordinator_plan_retirements'']"

record store_metadata =
  md_schema_version :: int
  md_migration_revision :: "string option"

definition metadata_current :: "store_metadata \<Rightarrow> bool" where
  "metadata_current m \<longleftrightarrow> md_schema_version m = COORDINATOR_SCHEMA_VERSION \<and>
     md_migration_revision m = Some COORDINATOR_MIGRATION_REVISION"

section \<open>Reading the version\<close>

definition is_digit :: "char \<Rightarrow> bool" where
  "is_digit c \<longleftrightarrow> (let n = of_char c :: nat in 48 \<le> n \<and> n \<le> 57)"

fun read_int_digits :: "int \<Rightarrow> string \<Rightarrow> int option" where
  \<comment> \<open>digits, single underscores between them\<close>
  "read_int_digits acc [] = Some acc"
| "read_int_digits acc [c] = (if is_digit c then Some (acc * 10 + (of_char c - 48)) else None)"
| "read_int_digits acc (c # d # s) =
     (if is_digit c then read_int_digits (acc * 10 + (of_char c - 48)) (d # s)
      else if c = CHR ''_'' \<and> is_digit d then read_int_digits (acc * 10 + (of_char d - 48)) s
      else None)"

definition read_natural :: "string \<Rightarrow> int option" where
  "read_natural s = (case s of [] \<Rightarrow> None | c # _ \<Rightarrow> if is_digit c then read_int_digits 0 s else None)"

definition py_strip :: "string \<Rightarrow> string" where
  "py_strip s = rev (dropWhile py_isspace (rev (dropWhile py_isspace s)))"

definition text_int :: "string \<Rightarrow> py_error + int" where
  \<comment> \<open>\<open>int\<close> of a text\<close>
  "text_int s =
     (case (case py_strip s of
              CHR ''-'' # t \<Rightarrow> map_option uminus (read_natural t)
            | CHR ''+'' # t \<Rightarrow> read_natural t
            | t \<Rightarrow> read_natural t) of
        None \<Rightarrow> Inl ValueError | Some n \<Rightarrow> Inr n)"

definition version_text :: string where
  \<comment> \<open>\<open>str(COORDINATOR_SCHEMA_VERSION)\<close>\<close>
  "version_text = ''3''"

section \<open>Inspecting\<close>

definition opened :: "('a, 's) tx \<Rightarrow> ('a, 's) tx" where
  \<comment> \<open>\<open>with sqlite3.connect(...) as connection\<close>\<close>
  "opened body =
     tx_bind (select (\<lambda>_. ())) (\<lambda>_. tx_bind body (\<lambda>x. tx_bind (select (\<lambda>_. ())) (\<lambda>_. tx_return x)))"

definition meta_value :: "string \<Rightarrow> (string option, store_file) tx" where
  "meta_value key = select (\<lambda>f. dict_get (sf_meta f) key)"

definition table_exists :: "string \<Rightarrow> (bool, store_file) tx" where
  "table_exists t = select (\<lambda>f. t \<in> set (sf_tables f))"

definition validate_tables :: "string list \<Rightarrow> (unit, store_file) tx" where
  "validate_tables required =
     tx_bind (select sf_tables) (\<lambda>tables. compute (guard (set required \<subseteq> set tables) RuntimeError))"

definition quick_check :: "(unit, store_file) tx" where
  "quick_check = tx_bind (select sf_sound) (\<lambda>ok. compute (guard ok RuntimeError))"

definition inspect_store :: "(store_metadata option, store_file) tx" where
  "inspect_store = opened (
     tx_bind (table_exists ''coordinator_meta'') (\<lambda>found.
     if \<not> found then tx_return None
     else
     tx_bind (validate_tables BASE_REQUIRED_TABLES) (\<lambda>_.
     tx_bind quick_check (\<lambda>_.
     tx_bind (meta_value ''schema_version'') (\<lambda>row.
     tx_bind (compute (case row of None \<Rightarrow> Inl RuntimeError
       | Some v \<Rightarrow> (case text_int v of Inl _ \<Rightarrow> Inl RuntimeError | Inr n \<Rightarrow> Inr n))) (\<lambda>version.
     tx_bind (if COORDINATOR_SCHEMA_VERSION \<le> version then validate_tables CURRENT_REQUIRED_TABLES else tx_return ()) (\<lambda>_.
     tx_bind (meta_value ''migration_revision'') (\<lambda>rev.
     tx_return (Some \<lparr>md_schema_version = version, md_migration_revision = rev\<rparr>)))))))))"

definition migration_plan :: "store_metadata option \<Rightarrow> py_error + string list" where
  "migration_plan metadata =
     (case metadata of None \<Rightarrow> Inr []
      | Some m \<Rightarrow>
          if metadata_current m then Inr []
          else if md_schema_version m = 1
          then if md_migration_revision m \<in> {None, Some '''', Some ''baseline''}
               then Inr [COORDINATOR_MIGRATION_REVISION] else Inl RuntimeError
          else if md_schema_version m = 2
          then if md_migration_revision m = Some V2_MIGRATION_REVISION
               then Inr [COORDINATOR_MIGRATION_REVISION] else Inl RuntimeError
          else Inl RuntimeError)"

section \<open>Migrating\<close>

definition delete_claims :: "store_file \<Rightarrow> tx_error + unit \<times> store_file" where
  "delete_claims f = Inr ((), f\<lparr>sf_db := (sf_db f)\<lparr>cd_claims := []\<rparr>\<rparr>)"

definition create_if_missing :: "string \<Rightarrow> store_file \<Rightarrow> tx_error + unit \<times> store_file" where
  "create_if_missing t f = Inr ((), f\<lparr>sf_tables := (if t \<in> set (sf_tables f) then sf_tables f else sf_tables f @ [t])\<rparr>)"

definition set_meta :: "string \<Rightarrow> string \<Rightarrow> store_file \<Rightarrow> tx_error + unit \<times> store_file" where
  "set_meta key v f = Inr ((), f\<lparr>sf_meta := dict_set key v (sf_meta f)\<rparr>)"

definition migrate_tx :: "(unit, store_file) tx" where
  "migrate_tx = opened (
     tx_bind (select (\<lambda>_. ())) (\<lambda>_.
     tx_bind begin_immediate (\<lambda>_.
     tx_bind (validate_tables BASE_REQUIRED_TABLES) (\<lambda>_.
     tx_bind quick_check (\<lambda>_.
     tx_bind (meta_value ''schema_version'') (\<lambda>row.
     tx_bind (compute (case row of None \<Rightarrow> Inl RuntimeError | Some v \<Rightarrow> text_int v)) (\<lambda>version.
     tx_bind (compute (guard (version \<in> {1, 2}) RuntimeError)) (\<lambda>_.
     tx_bind (meta_value ''migration_revision'') (\<lambda>rev.
     tx_bind (compute (guard (version = 1 \<longrightarrow> rev \<in> {None, Some '''', Some ''baseline''}) RuntimeError)) (\<lambda>_.
     tx_bind (compute (guard (version = 2 \<longrightarrow> rev = Some V2_MIGRATION_REVISION) RuntimeError)) (\<lambda>_.
     tx_bind (run_statement delete_claims) (\<lambda>_.
     tx_bind (run_statement (create_if_missing ''coordinator_plan_retirements'')) (\<lambda>_.
     tx_bind (run_statement (set_meta ''migration_revision'' COORDINATOR_MIGRATION_REVISION)) (\<lambda>_.
     tx_bind (run_statement (set_meta ''schema_version'' version_text)) (\<lambda>_.
     tx_bind (validate_tables CURRENT_REQUIRED_TABLES) (\<lambda>_.
     quick_check))))))))))))))))"

definition plan_of_file :: "(string list, store_file) tx" where
  "plan_of_file = tx_bind inspect_store (\<lambda>m. compute (migration_plan m))"

definition migrate_store :: "faults \<Rightarrow> store_file option \<Rightarrow> (py_error + string list) \<times> store_file option" where
  \<comment> \<open>an absent or empty file has nothing to migrate; the last inspection comes after the commit\<close>
  "migrate_store fault file =
     (case file of None \<Rightarrow> (Inr [], None)
      | Some f \<Rightarrow>
      case plan_of_file fault 0 f of
        Inl _ \<Rightarrow> (Inl RuntimeError, file)
      | Inr (planned, k, _) \<Rightarrow>
      if planned = [] then (Inr [], file)
      else case migrate_tx fault k f of
        Inl _ \<Rightarrow> (Inl RuntimeError, file)
      | Inr (_, k, f') \<Rightarrow>
      case inspect_store fault k f' of
        Inr (Some m, _, _) \<Rightarrow> (if metadata_current m then Inr planned else Inl RuntimeError, Some f')
      | _ \<Rightarrow> (Inl RuntimeError, Some f'))"

section \<open>Opening\<close>

definition check_current :: "(bool, store_file) tx" where
  \<comment> \<open>whether the tables exist; an existing store must be the current one\<close>
  "check_current =
     tx_bind (table_exists ''coordinator_meta'') (\<lambda>found.
     if \<not> found then tx_return False
     else
     tx_bind (meta_value ''schema_version'') (\<lambda>schema_row.
     tx_bind (meta_value ''migration_revision'') (\<lambda>revision_row.
     tx_bind (table_exists ''coordinator_plan_retirements'') (\<lambda>retirement_table.
     tx_bind (compute (case schema_row of None \<Rightarrow> Inl RuntimeError | Some v \<Rightarrow> text_int v)) (\<lambda>version.
     tx_bind (compute (guard (version = COORDINATOR_SCHEMA_VERSION \<and>
       revision_row = Some COORDINATOR_MIGRATION_REVISION \<and> retirement_table) RuntimeError)) (\<lambda>_.
     tx_return True))))))"

fun create_tables :: "faults \<Rightarrow> nat \<Rightarrow> string list \<Rightarrow> store_file \<Rightarrow> (tx_error + nat) \<times> store_file" where
  \<comment> \<open>\<open>executescript\<close>: what was created before an error stays\<close>
  "create_tables fault k [] f = (Inr k, f)"
| "create_tables fault k (t # ts) f =
     (case fault k of Some e \<Rightarrow> (Inl (Driver e), f)
      | None \<Rightarrow>
          if t \<in> set (sf_tables f) then (Inl (Driver (OperationalError ''table already exists'')), f)
          else create_tables fault (Suc k) ts (f\<lparr>sf_tables := sf_tables f @ [t]\<rparr>))"

definition insert_meta_row :: "string \<Rightarrow> string \<Rightarrow> store_file \<Rightarrow> tx_error + unit \<times> store_file" where
  "insert_meta_row key v f =
     (if dict_get (sf_meta f) key \<noteq> None then Inl (Driver IntegrityError)
      else Inr ((), f\<lparr>sf_meta := dict_set key v (sf_meta f)\<rparr>))"

definition insert_meta :: "(unit, store_file) tx" where
  \<comment> \<open>\<open>executemany\<close> and the commit\<close>
  "insert_meta =
     tx_bind (run_statement (insert_meta_row ''schema_version'' version_text)) (\<lambda>_.
     tx_bind (run_statement (insert_meta_row ''migration_revision'' COORDINATOR_MIGRATION_REVISION)) (\<lambda>_.
     select (\<lambda>_. ())))"

definition open_connection :: "(bool, store_file) tx" where
  "open_connection =
     tx_bind (select (\<lambda>_. ())) (\<lambda>_. tx_bind (select (\<lambda>_. ())) (\<lambda>_. tx_bind (select (\<lambda>_. ())) (\<lambda>_. check_current)))"

definition initialize_store :: "faults \<Rightarrow> store_file \<Rightarrow> (tx_error + unit) \<times> store_file" where
  "initialize_store fault f =
     (case open_connection fault 0 f of
        Inl e \<Rightarrow> (Inl e, f)
      | Inr (True, k, _) \<Rightarrow> (statement fault k, f)
      | Inr (False, k, _) \<Rightarrow>
      case create_tables fault k CURRENT_REQUIRED_TABLES f of
        (Inl e, f') \<Rightarrow> (Inl e, f')
      | (Inr k, f') \<Rightarrow>
      case insert_meta fault k f' of
        Inl e \<Rightarrow> (Inl e, f')
      | Inr (_, _, f'') \<Rightarrow> (Inr (), f''))"

section \<open>What a migration does\<close>

lemma transparent_opened [simp, tx_simps]:
  assumes "transparent m"
  shows "transparent (opened m)" "run_tx (opened m) f = run_tx m f"
  using assms by (simp_all add: opened_def case_prod_beta sbind_def split: sum.splits)

lemma transparent_checks [simp, tx_simps]:
  "transparent (meta_value key)" "run_tx (meta_value key) f = Inr (dict_get (sf_meta f) key, f)"
  "transparent (table_exists t)" "run_tx (table_exists t) f = Inr (t \<in> set (sf_tables f), f)"
  "transparent (validate_tables required)"
  "run_tx (validate_tables required) f =
     (if set required \<subseteq> set (sf_tables f) then Inr ((), f) else Inl (Program RuntimeError))"
  "transparent quick_check" "run_tx quick_check f = (if sf_sound f then Inr ((), f) else Inl (Program RuntimeError))"
  by (simp_all add: meta_value_def table_exists_def validate_tables_def quick_check_def tx_simps guard_def)

lemma transparent_stores [simp]:
  "transparent inspect_store" "transparent plan_of_file" "transparent migrate_tx" "transparent check_current"
  "transparent open_connection" "transparent insert_meta"
  by (simp_all add: inspect_store_def plan_of_file_def migrate_tx_def check_current_def open_connection_def insert_meta_def)

definition migrated :: "store_file \<Rightarrow> store_file" where
  "migrated f =
     f\<lparr>sf_tables := (if ''coordinator_plan_retirements'' \<in> set (sf_tables f) then sf_tables f
                     else sf_tables f @ [''coordinator_plan_retirements'']),
       sf_meta := dict_set ''schema_version'' version_text
         (dict_set ''migration_revision'' COORDINATOR_MIGRATION_REVISION (sf_meta f)),
       sf_db := (sf_db f)\<lparr>cd_claims := []\<rparr>\<rparr>"

lemma migrate_tx_effect:
  assumes "run_tx migrate_tx f = Inr (u, f')"
  shows "f' = migrated f \<and> set BASE_REQUIRED_TABLES \<subseteq> set (sf_tables f) \<and>
    (\<exists>v n. dict_get (sf_meta f) ''schema_version'' = Some v \<and> text_int v = Inr n \<and> n \<in> {1, 2})"
  using assms by (auto simp: migrate_tx_def tx_simps sbind_eq_Inr delete_claims_def create_if_missing_def set_meta_def
      migrated_def split: if_splits option.splits)

lemma transparent_outcome:
  assumes "transparent m" "m fault k f = Inr (x, k', f')"
  shows "run_tx m f = Inr (x, f')"
  using assms(1) by (cases rule: transparentE[where fault = fault and k = k and db = f]) (use assms(2) in simp_all)

lemma transparent_error:
  assumes "transparent m" "run_tx m f = Inl e"
  obtains e' where "m fault k f = Inl e'"
  using assms(1) by (cases rule: transparentE[where fault = fault and k = k and db = f]) (use assms(2) that in simp_all)

lemma migrate_store_effect:
  assumes "migrate_store fault (Some f) = (res, Some f')" "f' \<noteq> f"
  shows "f' = migrated f \<and> set BASE_REQUIRED_TABLES \<subseteq> set (sf_tables f)"
proof -
  obtain k u k' where "migrate_tx fault k f = Inr (u, k', f')"
    using assms by (auto simp: migrate_store_def split: sum.splits option.splits if_splits)
  from migrate_tx_effect[OF transparent_outcome[OF transparent_stores(3) this]] show ?thesis by blast
qed

lemma version_current: "text_int version_text = Inr COORDINATOR_SCHEMA_VERSION"
  by code_simp

lemma initialize_current:
  assumes "''coordinator_meta'' \<in> set (sf_tables f)" "''coordinator_plan_retirements'' \<in> set (sf_tables f)"
    and "dict_get (sf_meta f) ''schema_version'' = Some version_text"
    and "dict_get (sf_meta f) ''migration_revision'' = Some COORDINATOR_MIGRATION_REVISION"
  shows "initialize_store no_faults f = (Inr (), f)"
proof -
  have "run_tx open_connection f = Inr (True, f)"
    using assms by (simp add: open_connection_def check_current_def tx_simps version_current guard_def)
  with transparent_stores(5) obtain k where "open_connection no_faults 0 f = Inr (True, k, f)"
    by (cases rule: transparentE[where fault = no_faults and k = 0 and db = f and m = open_connection])
      (auto simp: no_faults_def)
  then show ?thesis by (simp add: initialize_store_def statement_def no_faults_def)
qed

lemma migrated_opens: "set BASE_REQUIRED_TABLES \<subseteq> set (sf_tables f) \<Longrightarrow> initialize_store no_faults (migrated f) = (Inr (), migrated f)"
  by (rule initialize_current) (auto simp: migrated_def BASE_REQUIRED_TABLES_def)

section \<open>Interrupted creation\<close>

lemma create_tables_partial:
  "create_tables fault k ts f = (r, f') \<Longrightarrow> \<exists>n. f' = f\<lparr>sf_tables := sf_tables f @ take n ts\<rparr>"
proof (induction ts arbitrary: k f)
  case (Cons t ts)
  show ?case
  proof (cases "fault k = None \<and> t \<notin> set (sf_tables f)")
    case True
    with Cons.prems have "create_tables fault (Suc k) ts (f\<lparr>sf_tables := sf_tables f @ [t]\<rparr>) = (r, f')" by simp
    from Cons.IH[OF this] obtain n where "f' = f\<lparr>sf_tables := sf_tables f @ take (Suc n) (t # ts)\<rparr>" by auto
    then show ?thesis by blast
  next
    case False
    with Cons.prems have "f' = f" by (auto split: option.splits if_splits)
    then have "f' = f\<lparr>sf_tables := sf_tables f @ take 0 (t # ts)\<rparr>" by simp
    then show ?thesis by blast
  qed
qed simp

lemma interrupted_file:
  assumes "initialize_store fault fresh_file = (Inl e, f')" "f' \<noteq> fresh_file"
  shows "''coordinator_meta'' \<in> set (sf_tables f') \<and> sf_meta f' = []"
proof -
  obtain k r where "create_tables fault k CURRENT_REQUIRED_TABLES fresh_file = (r, f')"
    using assms by (auto simp: initialize_store_def split: sum.splits prod.splits bool.splits)
  from create_tables_partial[OF this] obtain n where n: "f' = fresh_file\<lparr>sf_tables := sf_tables fresh_file @ take n CURRENT_REQUIRED_TABLES\<rparr>"
    by blast
  with assms(2) have "n \<noteq> 0" by (cases n) simp_all
  then show ?thesis by (cases n) (simp_all add: n fresh_file_def CURRENT_REQUIRED_TABLES_def BASE_REQUIRED_TABLES_def)
qed

lemma wedged_file:
  assumes "''coordinator_meta'' \<in> set (sf_tables f)" "sf_meta f = []"
  shows "\<exists>e. initialize_store fault f = (Inl e, f)" and "migrate_store fault (Some f) = (Inl RuntimeError, Some f)"
proof -
  have "run_tx open_connection f = Inl (Program RuntimeError)"
    using assms by (simp add: open_connection_def check_current_def tx_simps)
  from transparent_error[OF transparent_stores(5) this, where fault = fault and k = 0]
  obtain e where "open_connection fault 0 f = Inl e" by blast
  then show "\<exists>e. initialize_store fault f = (Inl e, f)" by (simp add: initialize_store_def)
  have "run_tx plan_of_file f = Inl (Program RuntimeError)"
    using assms by (simp add: plan_of_file_def inspect_store_def tx_simps)
  from transparent_error[OF transparent_stores(2) this, where fault = fault and k = 0]
  obtain e' where "plan_of_file fault 0 f = Inl e'" by blast
  then show "migrate_store fault (Some f) = (Inl RuntimeError, Some f)" by (simp add: migrate_store_def)
qed

end
