(* ===== verification/Coordinator_Durable_Properties.thy ===== *)
theory Coordinator_Durable_Properties
  imports Coordinator_Durable_Simulation Coordinator_Migration Coordinator_Demo
begin

text \<open>
  The properties of the durable coordinator store with the concrete inputs at which they are
  instantiated: what it stores is read back, it implements the in-memory store, faults leave no trace,
  claims exclude other writers and end at an upgrade, retirements are final, and a creation that was
  interrupted leaves a file that is never opened again.
\<close>

section \<open>Retirements\<close>

definition plan_json_of :: "coordinator_db \<Rightarrow> string \<Rightarrow> json option" where
  "plan_json_of db p = map_option pw_plan_json (dict_get (cd_plans db) p)"

definition keyed_plans :: "coordinator_db \<Rightarrow> bool" where
  \<comment> \<open>the text of a plan names the plan it is stored under\<close>
  "keyed_plans db \<longleftrightarrow> (\<forall>p v q. plan_json_of db p = Some v \<longrightarrow> sbind (load_object v) plan_from_dict = Inr q \<longrightarrow> p_id q = p)"

definition plans_evolve :: "coordinator_db \<Rightarrow> coordinator_db \<Rightarrow> bool" where
  "plans_evolve db db' \<longleftrightarrow>
     (\<forall>p v. plan_json_of db' p = Some v \<longrightarrow> plan_json_of db p = Some v \<or> (\<exists>plan. p = p_id plan \<and> dump_plan plan = Inr v)) \<and>
     (\<forall>p row. dict_get (cd_retirements db) p = Some row \<longrightarrow> dict_get (cd_retirements db') p = Some row)"

lemma plans_evolve_same:
  "cd_plans db' = cd_plans db \<Longrightarrow> cd_retirements db' = cd_retirements db \<Longrightarrow> plans_evolve db db'"
  by (simp add: plans_evolve_def plan_json_of_def)

lemma insert_steps_plans: "run_tx (insert_steps p ss rs) db = Inr (u, db') \<Longrightarrow> cd_plans db' = cd_plans db"
proof (induction p ss rs arbitrary: db rule: insert_steps.induct)
  case (1 p s ss r rs)
  then obtain row where "run_tx (insert_steps p ss rs) (db\<lparr>cd_steps := dict_set (s_id s) row (cd_steps db)\<rparr>) = Inr (u, db')"
    by (auto simp: tx_simps sbind_eq_Inr insert_step_def split: if_splits)
  from "1.IH"[OF this] show ?case by simp
qed (simp_all add: tx_simps)

lemma create_plans:
  assumes "run_tx (sq_create_plan plan ss rs) db = Inr (a, db')"
  shows "plans_evolve db db'"
proof -
  have "cd_retirements db' = cd_retirements db" using create_changes[OF assms] by (simp add: only_steps_def)
  moreover have "cd_plans db' = cd_plans db \<or> (\<exists>v. dump_plan plan = Inr v \<and>
      cd_plans db' = dict_set (p_id plan) \<lparr>pw_task_id = p_task_id plan, pw_plan_json = v, pw_store_revision = 1\<rparr> (cd_plans db))"
    using assms by (auto simp: sq_create_plan_def tx_simps sbind_eq_Inr insert_plan_def split: option.splits if_splits
        dest!: insert_steps_plans reads_keep)
  ultimately show ?thesis by (auto simp: plans_evolve_def plan_json_of_def split: if_splits)
qed

lemma save_plans:
  assumes "run_tx (sq_save_step s r n claim now) db = Inr (a, db')"
  shows "plans_evolve db db'"
proof -
  have "cd_retirements db' = cd_retirements db" using save_changes[OF assms] by (simp add: only_steps_def)
  moreover have "plan_json_of db' = plan_json_of db"
    using assms by (auto simp: sq_save_step_def require_claim_def tx_simps sbind_eq_Inr update_step_def touch_plan_def
        plan_json_of_def fun_eq_iff split: option.splits if_splits)
  ultimately show ?thesis by (simp add: plans_evolve_def)
qed

lemma plans_evolve_tx:
  assumes "run_tx (durable_tx x) db = Inr (a, db')"
  shows "plans_evolve db db'"
proof (cases x)
  case (Do_Acquire_Claim cid k owner ttl now)
  with assms show ?thesis
    by (auto simp: tx_answer_Inr intro: plans_evolve_same split: option.splits dest!: acquire_changes)
next
  case (Do_Retire_Plan p q reason t)
  with assms show ?thesis
    by (auto simp: tx_answer_Inr plans_evolve_def plan_json_of_def dest!: retire_changes)
qed (use assms in \<open>auto simp: tx_answer_Inr intro: plans_evolve_same create_plans save_plans
  dest!: renew_changes release_changes reads_keep\<close>)

lemma dumped_plan_id:
  assumes "dump_plan p = Inr v" "sbind (load_object v) plan_from_dict = Inr q"
  shows "p_id q = p_id p"
proof -
  have "v = json_text (plan_to_dict p)" using assms(1) by (auto simp: dump_plan_def sbind_eq_Inr)
  with assms(2) have "sbind (load_object (json_text (plan_to_dict p))) plan_from_dict = Inr q" by simp
  then show ?thesis
    unfolding plan_to_dict_def load_text sbind_Inr plan_from_dict_def codec_simps list.map prod.case
    by (auto simp: sbind_eq_Inr dict_get_def plan_post_init_def simp del: json_text.simps)
qed

lemma keyed_plans_kept: "keyed_plans db \<Longrightarrow> keyed_plans (durable_apply x db)"
  and retirements_kept: "dict_get (cd_retirements db) p = Some row \<Longrightarrow> dict_get (cd_retirements (durable_apply x db)) p = Some row"
proof -
  have evolve: "plans_evolve db (durable_apply x db)"
    by (cases x, cases rule: durable_apply_cases[of "fst x" "snd x" db]) (auto intro: plans_evolve_same plans_evolve_tx)
  then show "dict_get (cd_retirements db) p = Some row \<Longrightarrow> dict_get (cd_retirements (durable_apply x db)) p = Some row"
    by (simp add: plans_evolve_def)
  show "keyed_plans (durable_apply x db)" if "keyed_plans db"
    using that evolve dumped_plan_id unfolding keyed_plans_def plans_evolve_def by blast
qed

lemma keyed_plans_run: "keyed_plans db \<Longrightarrow> keyed_plans (fold durable_apply xs db)"
  by (induction xs arbitrary: db) (simp_all add: keyed_plans_kept)

lemma retirements_run:
  "dict_get (cd_retirements db) p = Some row \<Longrightarrow> dict_get (cd_retirements (fold durable_apply xs db)) p = Some row"
  by (induction xs arbitrary: db) (simp_all add: retirements_kept)

lemma keyed_empty: "keyed_plans empty_coordinator_db"
  by (simp add: keyed_plans_def plan_json_of_def empty_coordinator_db_def)

lemma got_plan_id:
  assumes "keyed_plans db" "run_tx (sq_get_plan p) db = Inr (q, db')"
  shows "p_id (pl_plan q) = p"
proof -
  obtain row where row: "dict_get (cd_plans db) p = Some row" "load_plan row (steps_of_plan p db) = Inr q"
    using assms(2) by (auto simp: sq_get_plan_def tx_simps split: option.splits)
  then obtain plan where "sbind (load_object (pw_plan_json row)) plan_from_dict = Inr plan" "pl_plan q = plan"
    unfolding load_plan_def sbind_eq_Inr by (auto dest!: runtime_post_init_id simp: sbind_eq_Inr)
  with assms(1) row(1) show ?thesis by (auto simp: keyed_plans_def plan_json_of_def)
qed

lemma got_plans_ids:
  "keyed_plans db \<Longrightarrow> run_tx (tx_map sq_get_plan ps) db = Inr (qs, db') \<Longrightarrow> map (\<lambda>q. p_id (pl_plan q)) qs = ps"
proof (induction ps arbitrary: qs)
  case (Cons p ps)
  then obtain q rest where "run_tx (sq_get_plan p) db = Inr (q, db)" "run_tx (tx_map sq_get_plan ps) db = Inr (rest, db')"
    "qs = q # rest"
    by (auto simp: tx_simps sbind_eq_Inr dest: reads_keep)
  with Cons got_plan_id[OF Cons.prems(1)] show ?case by simp
qed (simp add: tx_simps)

lemma durable_answered:
  assumes "durable_call fault x db = (Inr a, db')"
  shows "run_tx (durable_tx x) db = Inr (a, db')"
proof (cases rule: durable_faulty[where fault = fault and x = x and db = db])
  case same
  with assms show ?thesis by (auto simp: durable_fault_free adapter_run_def split: sum.splits tx_error.splits)
qed (use assms in simp)


section \<open>A stored coordination\<close>

definition demo_records :: "step_coordination_record list" where
  "demo_records = [demo_record demo_first CP_BLOCKED [] [], demo_record demo_second CP_BLOCKED [demo_first] []]"

definition demo_steps :: "step list" where
  "demo_steps = [demo_step demo_first S_PENDING [], demo_step demo_second S_PENDING [demo_first]]"

definition demo_registration :: durable_op where
  "demo_registration = Do_Create_Plan demo_plan demo_steps demo_records"

lemma demo_coordination_storable:
  "plan_storable demo_plan" "flat_provenance (p_provenance demo_plan)" "storable_steps demo_steps"
  "records_for demo_plan demo_steps demo_records"
  by code_simp+

lemma demo_portable: "portable empty_retiring_store demo_registration"
  by code_simp

definition demo_retiring_store :: retiring_store where
  "demo_retiring_store = memory_run [demo_registration] empty_retiring_store"

lemma demo_registered: "stored_as (durable_run [demo_registration] empty_coordinator_db) demo_retiring_store"
  unfolding demo_retiring_store_def by (rule runs_stored[OF empty_stored]) (simp add: demo_portable)

section \<open>Properties\<close>

text \<open>C19: What the durable store writes it reads back: a validated coordination record with possible times is
  decoded as it was encoded, and of a plan and a step, whose text could be written, equal ones are
  decoded (as Python compares them: the keys of provenance details may be reordered).\<close>

theorem stored_coordination_reads_back:
  assumes "record_storable r" "step_storable s" "plan_storable p" "dump_step s = Inr sv" "dump_plan p = Inr pv"
  shows "sbind (load_object (dump_record r)) record_from_dict = Inr r \<and>
    (\<exists>s'. sbind (load_object sv) step_from_dict = Inr s' \<and> same_step s' s) \<and>
    (\<exists>p'. sbind (load_object pv) plan_from_dict = Inr p' \<and> same_plan p' p)"
proof -
  have "sv = json_text (step_to_dict s)" "pv = json_text (plan_to_dict p)"
    using assms(4,5) by (auto simp: dump_step_def dump_plan_def sbind_eq_Inr)
  then show ?thesis
    using record_read_back[OF assms(1)] step_read_back[OF assms(2)] plan_read_back[OF assms(3)]
      stored_step_same[OF assms(2)] stored_plan_same[OF assms(3)] by blast
qed

theorem stored_coordination_reads_back_witness:
  "sbind (load_object (dump_record running_first)) record_from_dict = Inr running_first"
proof -
  have storable: "record_storable running_first" "step_storable (demo_step demo_first S_RUNNING [])"
    by code_simp+
  have "dump_step (demo_step demo_first S_RUNNING []) = Inr (json_text (step_to_dict (demo_step demo_first S_RUNNING [])))"
    "dump_plan demo_plan = Inr (json_text (plan_to_dict demo_plan))"
    by (simp_all add: dump_step_def dump_plan_def flat_provenance_def demo_step_def demo_plan_def guard_def)
  from stored_coordination_reads_back[OF storable demo_coordination_storable(1) this] show ?thesis ..
qed

text \<open>C17: The durable store implements the in-memory one. After any portable operations from the empty stores, every
  portable operation, reading or writing, gives the same answer on both: the same error, or the same
  plans up to the order of their steps, the same records, claims and retirements.\<close>

theorem durable_refines_memory:
  assumes "portable_run empty_retiring_store xs" "portable (memory_run xs empty_retiring_store) x"
  shows "same_result (fst (durable_call no_faults x (durable_run xs empty_coordinator_db)))
    (fst (memory_call x (memory_run xs empty_retiring_store)))"
  by (rule durable_simulates(1)[OF runs_stored[OF empty_stored assms(1)] assms(2)])

theorem durable_refines_memory_witness:
  "fst (durable_call no_faults (Do_Get_Record demo_first) (durable_run [demo_registration] empty_coordinator_db)) =
     Inr (A_Record (demo_record demo_first CP_BLOCKED [] []))"
proof -
  have "portable_run empty_retiring_store [demo_registration]" by (simp add: demo_portable)
  from durable_refines_memory[OF this, of "Do_Get_Record demo_first"]
  have "same_result (fst (durable_call no_faults (Do_Get_Record demo_first) (durable_run [demo_registration] empty_coordinator_db)))
      (fst (memory_call (Do_Get_Record demo_first) demo_retiring_store))"
    by (simp add: demo_retiring_store_def)
  moreover have "fst (memory_call (Do_Get_Record demo_first) demo_retiring_store) = Inr (A_Record (demo_record demo_first CP_BLOCKED [] []))"
    by code_simp
  ultimately show ?thesis
    by (cases "fst (durable_call no_faults (Do_Get_Record demo_first) (durable_run [demo_registration] empty_coordinator_db))")
      (auto simp: same_result_def elim: same_answer.elims)
qed





definition demo_held :: coordinator_claim where
  "demo_held = \<lparr>cl_step_id = demo_first, cl_claim_id = ''claim-1'', cl_owner_id = ''c'', cl_fence = 1, cl_expires_at = 1000\<rparr>"



lemma durable_run_apply: "durable_run xs db = fold durable_apply (map (\<lambda>x. (no_faults, x)) xs) db"
  by (induction xs arbitrary: db) (simp_all add: durable_run_def durable_apply_def)


text \<open>C21: A retirement is final. Once a plan is retired, after any later operations with any faults, the evidence in the
  database is the same, the plan is not among the active ones, and retiring it again either raises or
  answers the first evidence and changes nothing.\<close>

theorem retirement_final:
  assumes "dict_get (cd_retirements (fold durable_apply before empty_coordinator_db)) p = Some row"
    and "db = fold durable_apply later (fold durable_apply before empty_coordinator_db)"
  shows "dict_get (cd_retirements db) p = Some row \<and>
    (\<forall>fault plans db'. durable_call fault Do_List_Active db = (Inr (A_Plans plans), db') \<longrightarrow>
       p \<notin> (\<lambda>q. p_id (pl_plan q)) ` set plans) \<and>
    (\<forall>fault q reason t x db'. durable_call fault (Do_Retire_Plan p q reason t) db = (Inr (A_Retirement x), db') \<longrightarrow>
       retirement_from_row p row = Inr x \<and> db' = db)"
proof -
  have row: "dict_get (cd_retirements db) p = Some row" unfolding assms(2) by (rule retirements_run[OF assms(1)])
  have keyed: "keyed_plans db" unfolding assms(2) by (intro keyed_plans_run keyed_empty)
  have "p \<notin> (\<lambda>q. p_id (pl_plan q)) ` set plans"
    if "durable_call fault Do_List_Active db = (Inr (A_Plans plans), db')" for fault plans db'
  proof -
    from durable_answered[OF that] have "run_tx (tx_map sq_get_plan (unretired_ids db)) db = Inr (plans, db')"
      by (auto simp: tx_answer_Inr sq_list_active_plans_def tx_simps)
    from got_plans_ids[OF keyed this] have "(\<lambda>q. p_id (pl_plan q)) ` set plans = set (unretired_ids db)"
      by (metis set_map)
    with row show ?thesis by (simp add: unretired_ids_def)
  qed
  moreover have "retirement_from_row p row = Inr x \<and> db' = db"
    if "durable_call fault (Do_Retire_Plan p q reason t) db = (Inr (A_Retirement x), db')" for fault q reason t x db'
    using durable_answered[OF that] row
    by (auto simp: tx_answer_Inr sq_retire_plan_def tx_simps sbind_eq_Inr split: if_splits dest!: reads_keep)
  ultimately show ?thesis using row by blast
qed

definition demo_retire :: durable_op where
  "demo_retire = Do_Retire_Plan demo_plan_id None ''canonical_plan_superseded'' 100"

lemma demo_retired: "dict_get (cd_retirements (durable_run [demo_registration, demo_retire] empty_coordinator_db)) demo_plan_id \<noteq> None"
proof -
  have "stored_as (durable_run [demo_registration, demo_retire] empty_coordinator_db)
      (memory_run [demo_registration, demo_retire] empty_retiring_store)"
    by (rule runs_stored[OF empty_stored]) (simp add: demo_portable demo_retire_def, code_simp)
  moreover have "dict_get (st_retirements (memory_run [demo_registration, demo_retire] empty_retiring_store)) demo_plan_id \<noteq> None"
    by code_simp
  ultimately show ?thesis by (simp add: stored_asD(8))
qed

lemma demo_listed:
  obtains plans db' where "durable_call no_faults Do_List_Active (durable_run [demo_registration, demo_retire] empty_coordinator_db) =
    (Inr (A_Plans plans), db')"
proof -
  let ?call = "durable_call no_faults Do_List_Active (durable_run [demo_registration, demo_retire] empty_coordinator_db)"
  have "stored_as (durable_run [demo_registration, demo_retire] empty_coordinator_db)
      (memory_run [demo_registration, demo_retire] empty_retiring_store)"
    by (rule runs_stored[OF empty_stored]) (simp add: demo_portable demo_retire_def, code_simp)
  from durable_simulates(1)[OF this, of Do_List_Active]
  have "\<exists>plans. fst ?call = Inr (A_Plans plans)"
    by (cases "fst ?call") (auto simp: same_result_def elim: same_answer.elims)
  then show ?thesis using that by (cases ?call) auto
qed

theorem retirement_final_witness:
  "\<exists>plans. fst (durable_call no_faults Do_List_Active (durable_run [demo_registration, demo_retire] empty_coordinator_db)) =
     Inr (A_Plans plans) \<and> demo_plan_id \<notin> (\<lambda>q. p_id (pl_plan q)) ` set plans"
proof -
  obtain row where row: "dict_get (cd_retirements (fold durable_apply (map (\<lambda>x. (no_faults, x)) [demo_registration, demo_retire])
      empty_coordinator_db)) demo_plan_id = Some row"
    using demo_retired unfolding durable_run_apply by blast
  obtain plans db' where listed: "durable_call no_faults Do_List_Active
      (durable_run [demo_registration, demo_retire] empty_coordinator_db) = (Inr (A_Plans plans), db')"
    by (rule demo_listed)
  have "demo_plan_id \<notin> (\<lambda>q. p_id (pl_plan q)) ` set plans"
    using retirement_final[OF row, of _ "[]"] listed by (auto simp: durable_run_apply)
  with listed show ?thesis by auto
qed

text \<open>C22: An upgrade ends every claim. A migration that changed the file of an older coordinator store keeps its plans, its
  steps with their records, its fences and its retirements, and leaves a file that opens; no claim of
  before is in force again, and every claim that is acquired later is newer than it.\<close>

theorem upgrade_ends_claims:
  assumes "migrate_store fault (Some f) = (res, Some f')" "f' \<noteq> f"
  shows "cd_plans (sf_db f') = cd_plans (sf_db f) \<and> cd_steps (sf_db f') = cd_steps (sf_db f) \<and>
    cd_fences (sf_db f') = cd_fences (sf_db f) \<and> cd_retirements (sf_db f') = cd_retirements (sf_db f) \<and>
    initialize_store no_faults f' = (Inr (), f') \<and>
    (\<forall>k c d xs. durable_claims_wf (sf_db f) \<and> durable_claim (sf_db f) k = Some c \<and>
       durable_claim (fold durable_apply xs (sf_db f')) k = Some d \<longrightarrow> cl_fence c < cl_fence d)"
proof -
  have f': "f' = migrated f" and base: "set BASE_REQUIRED_TABLES \<subseteq> set (sf_tables f)"
    using migrate_store_effect[OF assms] by simp_all
  have "cl_fence c < cl_fence d"
    if "durable_claims_wf (sf_db f)" "durable_claim (sf_db f) k = Some c"
      "durable_claim (fold durable_apply xs (sf_db f')) k = Some d" for k c d xs
  proof -
    have wf: "durable_claims_wf (sf_db f')" and none: "durable_claim (sf_db f') k = None"
      by (simp_all add: f' migrated_def durable_claims_wf_def durable_claim_def)
    have "cl_fence c \<le> durable_fence (sf_db f) k" by (rule ds.claim_below_fence[OF that(1,2)])
    also have "\<dots> = durable_fence (sf_db f') k" by (simp add: f' migrated_def durable_fence_def)
    also have "\<dots> < cl_fence d" by (rule ds.claims_newer[OF wf none that(3)])
    finally show ?thesis .
  qed
  then show ?thesis using migrated_opens[OF base] by (simp add: f' migrated_def) blast
qed

definition demo_old_file :: store_file where
  \<comment> \<open>a store of the second schema in which a claim is held\<close>
  "demo_old_file = \<lparr>sf_tables = BASE_REQUIRED_TABLES,
     sf_meta = [(''schema_version'', ''2''), (''migration_revision'', V2_MIGRATION_REVISION)], sf_sound = True,
     sf_db = \<lparr>cd_plans = [], cd_steps = [], cd_claims = [(demo_first, row_of_claim demo_held)], cd_fences = [(demo_first, 1)],
       cd_retirements = []\<rparr>\<rparr>"

lemma demo_migrates:
  "migrate_store no_faults (Some demo_old_file) = (Inr [COORDINATOR_MIGRATION_REVISION], Some (migrated demo_old_file))"
  by code_simp

theorem upgrade_ends_claims_witness:
  "initialize_store no_faults (migrated demo_old_file) = (Inr (), migrated demo_old_file) \<and>
   \<not> (\<exists>d xs. durable_claim (fold durable_apply xs (sf_db (migrated demo_old_file))) demo_first = Some d \<and> cl_fence d \<le> 1)"
proof -
  have old: "durable_claims_wf (sf_db demo_old_file)"
    by (simp add: durable_claims_wf_def durable_fence_def demo_old_file_def row_of_claim_def demo_held_def)
  obtain c where c: "durable_claim (sf_db demo_old_file) demo_first = Some c" "cl_fence c = 1"
    by (simp add: durable_claim_def demo_old_file_def row_of_claim_def demo_held_def)
  have "migrated demo_old_file \<noteq> demo_old_file" by (simp add: migrated_def demo_old_file_def)
  from upgrade_ends_claims[OF demo_migrates this] old c show ?thesis by force
qed

text \<open>C23: A creation that was interrupted cannot be repeated. When creating a store failed after its first table was there,
  every later attempt to open the file raises and leaves it as it is, and so does the migration.\<close>

theorem interrupted_creation_wedges:
  assumes "initialize_store fault fresh_file = (Inl e, f)" "f \<noteq> fresh_file"
  shows "(\<exists>e'. initialize_store fault' f = (Inl e', f)) \<and> migrate_store fault' (Some f) = (Inl RuntimeError, Some f)"
proof -
  from interrupted_file[OF assms] have "''coordinator_meta'' \<in> set (sf_tables f)" "sf_meta f = []" by simp_all
  from wedged_file[OF this] show ?thesis by simp
qed

definition one_fault :: "nat \<Rightarrow> faults" where
  \<comment> \<open>the statement at which the process dies or the disk is full\<close>
  "one_fault n k = (if k = n then Some OtherSqliteError else None)"

lemma demo_interrupted:
  "case initialize_store (one_fault 9) fresh_file of (Inl e, f) \<Rightarrow> sf_tables f \<noteq> [] | (Inr u, f) \<Rightarrow> False"
  by code_simp

theorem interrupted_creation_wedges_witness:
  "\<exists>e. initialize_store no_faults (snd (initialize_store (one_fault 9) fresh_file)) =
     (Inl e, snd (initialize_store (one_fault 9) fresh_file))"
proof -
  obtain e f where f: "initialize_store (one_fault 9) fresh_file = (Inl e, f)" "sf_tables f \<noteq> []"
    using demo_interrupted by (cases "initialize_store (one_fault 9) fresh_file"; cases "fst (initialize_store (one_fault 9) fresh_file)") auto
  then have "f \<noteq> fresh_file" by (auto simp: fresh_file_def)
  from interrupted_creation_wedges[OF f(1) this, of no_faults] show ?thesis by (simp add: f(1))
qed

end
