(* ===== verification/Spec2Isabelle.thy ===== *)
theory Spec2Isabelle
  imports Kernel_Guarantees Kernel_Refinement Repository_Properties Data_Properties Verification_Properties Sqlite_Properties
    Coordinator_Properties Coordinator_Durable_Properties
begin

text \<open>
  \<^bold>\<open>The canonical kernel of the multi-agent platform\<close>

  The platform (package \<open>ai_multi_agent_platform\<close>, under \<open>src/src/\<close>) keeps the life of every task as an
  append-only history of events. Its kernel validates a request, reads the histories it needs,
  appends events at the revision it read, and calls providers (an orchestrator that plans, a
  lifecycle backend that executes runs, a completion authority, an event sink, an output observer)
  around those appends. Everything a client sees of a task or a run is the reduction of its
  history. This development models that core from the entities up to the public requests and proves
  that no sequence of requests, with providers and other coroutines running at every await, leaves
  a history that does not replay to a state obeying the lifecycle rules. It models the verification
  service as well, whose gate is the kernel's completion authority, and proves that the kernel with
  that gate completes a task only on accepted evidence for the output the task has now. And it models
  the plan coordinator, the layer above the kernel that moves the steps of a plan: registration,
  dependency barriers, attempts with retries, durable waits, cancellation, reconciliation and repair,
  over a store with optimistic revisions and fenced claims that several coordinators share. Of that
  store it models the in-memory and the durable implementation, with the text in which the durable one
  keeps plans and records, its upgrades from older schemas and the retirement of plans.

  \<^bold>\<open>Theories and sources\<close> (paths below \<open>ai_multi_agent_platform/\<close>)

  \<^item> \<open>Platform_Prelude\<close>: what the code uses of Python (strings, \<open>dict\<close>, JSON values, exceptions), the
    type of operations that read and write a state and may raise, and the locale \<open>rely_guarantee\<close>
    with the rules by which stateful code is verified. \<open>error_code\<close> and \<open>py_error\<close> are
    \<open>contracts/errors.py\<close>.
  \<^item> \<open>Domain_Ids\<close>, \<open>Domain_Models\<close>, \<open>Domain_Entities\<close>: \<open>domain/models.py\<close> and \<open>domain/lifecycle.py\<close>, one
    record per entity with its \<open>__post_init__\<close>, the status enumerations, the transition tables and
    every \<open>transition_to\<close>.
  \<^item> \<open>Contracts\<close>: the values exchanged with providers (\<open>contracts/types.py\<close>) and the completion gate's
    decision (\<open>verification/models.py\<close>, \<open>verification/gate.py\<close>).
  \<^item> \<open>Kernel_State\<close>: \<open>kernel/models.py\<close> and the reducers of \<open>kernel/state.py\<close>, branch for branch.
    \<open>Kernel_History\<close> has the abstract lifecycle (\<open>lifecycle_ok\<close>, \<open>lifecycle_step\<close>), \<open>Kernel_Replay\<close> what
    each kind of event does to it, \<open>Kernel_Refinement\<close> that one more event is one abstract step.
  \<^item> \<open>Event_Repository\<close>: \<open>kernel/repository.py\<close>. The locale \<open>event_repository\<close> states the contract of
    the protocol (prefix growth, one winner per revision, one effect per command), interpreted on
    \<open>InMemoryKernelRepository\<close>. \<open>Sqlite_Repository\<close>: \<open>kernel/sqlite_repository.py\<close> with the error mapping
    of \<open>kernel/_sqlite_async.py\<close>, over tables of rows; \<open>Iso_Time\<close> is the text of instants it stores.
    \<open>Sqlite_Refinement\<close>: the same locale interpreted on it under any driver faults, and its simulation by
    the in-memory repository.
  \<^item> \<open>Kernel_World\<close>: the collaborators of \<open>PlatformKernel.__init__\<close> as parameters, the world they share,
    the invariant \<open>kernel_inv\<close> and the assumption \<open>rely\<close> on everyone else.
  \<^item> \<open>Kernel_Commit\<close> (\<open>kernel/queries.py\<close>, \<open>kernel/commit_support.py\<close>), \<open>Kernel_Lifecycle\<close>
    (\<open>kernel/lifecycle.py\<close>), \<open>Kernel_Commands\<close> (\<open>kernel/run_commands.py\<close>, \<open>plan_task\<close> of
    \<open>kernel/kernel.py\<close>), \<open>Kernel_Task_Commands\<close> (\<open>kernel/task_commands.py\<close>, \<open>kernel/recovery.py\<close>),
    \<open>Task_Mutations\<close> (\<open>kernel/task_mutations.py\<close>), \<open>Output_Observer\<close> (\<open>kernel/output_observer.py\<close>): one
    definition per handler, with the guards, awaits, early returns and raises in the source's order.
    \<open>Kernel_Facade\<close> collects the handlers as one datatype of requests.
  \<^item> \<open>Kernel_Rules\<close>, \<open>Kernel_Specs\<close>, \<open>Kernel_Append\<close>, \<open>Kernel_Recorded\<close>: shared proof rules for reads,
    event specifications and commits. \<open>Kernel_Lifecycle_Safe\<close>, \<open>Kernel_Commands_Safe\<close>, \<open>Kernel_Safe\<close>,
    \<open>Kernel_Recovery_Safe\<close>: each handler keeps the invariant.
  \<^item> \<open>Fake_Providers\<close>: the deterministic providers of \<open>testing/fakes.py\<close>, which satisfy \<open>rely\<close>;
    \<open>Kernel_Demo\<close> a history made with them, at which hypotheses are discharged.
  \<^item> \<open>Verification_Models\<close>: \<open>verification/models.py\<close> and \<open>verification/audit.py\<close>, every value with its
    validation. \<open>Verification_Service\<close>: the operations of \<open>VerificationService\<close>
    (\<open>verification/verification_authority.py\<close>) and the reference verifier of
    \<open>verification/deterministic.py\<close>, over the record \<open>verification_service\<close> of its dictionaries and audit
    list. \<open>Verification_Assessment\<close>: \<open>assess_completion\<close> with its helpers, and the declarative rule
    \<open>stage_satisfied\<close> it is compared with. \<open>Verification_Safe\<close>: the invariant \<open>service_wf\<close>, the growth
    relation \<open>service_grows\<close> and that every operation respects them (the locale \<open>rely_guarantee\<close>,
    interpreted a second time).
  \<^item> \<open>Completion_Gate\<close>: \<open>verification/gate.py\<close>, requirements and bound subjects on top of the service.
    \<open>Verified_Kernel\<close>: the requests of service and gate as one datatype, and the kernel environment in
    which that gate is the completion authority (\<open>verified_env\<close>).
  \<^item> \<open>Coordination_Models\<close>: \<open>coordination/models.py\<close>. \<open>Coordination_Graph\<close>: the graph check of
    \<open>coordination/registration.py\<close> and that its depth-first search is exact. \<open>Coordinator_Store\<close>:
    \<open>InMemoryCoordinatorRepository\<close> of \<open>coordination/repository.py\<close>; \<open>Coordinator_Claims\<close> its contract on
    claims, the locale \<open>fenced_store\<close>, interpreted on it.
  \<^item> \<open>Coordinator_Steps\<close>: the awaitable store calls (\<open>coordination/async_repository.py\<close>), registration and
    \<open>coordination/progression.py\<close>. \<open>Coordinator_Signals\<close>: \<open>coordination/attempt_outcomes.py\<close>, \<open>waits.py\<close>,
    \<open>cancellation.py\<close> and the marking of \<open>reconciliation.py\<close>. \<open>Coordinator_Runtime\<close>: \<open>aggregation.py\<close>,
    \<open>reconciliation.py\<close>, \<open>repair.py\<close> and the public requests of \<open>plan_step_coordinator.py\<close>, collected in
    the datatype \<open>coordinator_command\<close> and run by \<open>coordinate\<close>.
  \<^item> \<open>Coordinator_Evolution\<close>: the invariant \<open>coord_ok\<close> of a store, the relation \<open>store_grows\<close> between a
    store and a later one, and that a save which moves a step along its transition table respects both.
    \<open>Kernel_Frame\<close>: the kernel's requests leave the coordinator's part of the world alone.
    \<open>Coordinator_Safe\<close> (the assumption \<open>coord_rely\<close>), \<open>Coordinator_Barrier_Safe\<close>,
    \<open>Coordinator_Signals_Safe\<close>, \<open>Coordinator_Runtime_Safe\<close>: each request keeps the invariant.
    \<open>Coordinator_Returns\<close>: each round that makes progress uses up work, so each request returns.
    \<open>Coordinator_Demo\<close> has an environment and stores at which hypotheses are discharged.
  \<^item> \<open>Coordinator_Codec\<close>: the conversions of \<open>coordination/sqlite_repository.py\<close> between plans, steps, waits
    and records and the JSON they are stored as. \<open>Coordinator_Retirement\<close>: the evidence and the in-memory
    store of \<open>coordination/retirement.py\<close>. \<open>Coordinator_Sqlite\<close>: the tables and methods of
    \<open>SQLiteCoordinatorRepository\<close> (\<open>coordination/sqlite_repository.py\<close>, \<open>sqlite_repository_v3.py\<close>), each
    a sequence of statements any of which may fail. \<open>Coordinator_Durable\<close>: the methods as one datatype of
    operations behind the adapter of \<open>async_repository.py\<close>, on both stores (\<open>durable_call\<close>,
    \<open>memory_call\<close>), and that a fault changes nothing but the answer.
  \<^item> \<open>Coordinator_Durable_Safe\<close>: which tables an operation touches; the locale \<open>fenced_store\<close> interpreted a
    second time. \<open>Coordinator_Durable_Refinement\<close> (the relation \<open>stored_as\<close> of a database to the store it
    keeps) and \<open>Coordinator_Durable_Simulation\<close>: each operation preserves it and answers alike.
    \<open>Coordinator_Migration\<close>: store files, their creation in \<open>sqlite_repository_v3.py\<close> and
    \<open>coordination/migrations.py\<close>.
  \<^item> \<open>Kernel_Guarantees\<close>, \<open>Kernel_Sequential\<close>, \<open>Repository_Properties\<close>, \<open>Data_Properties\<close>,
    \<open>Sqlite_Properties\<close>, \<open>Verification_Properties\<close>, \<open>Coordinator_Properties\<close>,
    \<open>Coordinator_Durable_Properties\<close> and this theory hold the properties.

  \<^bold>\<open>State and effects\<close>

  An operation is a function from a world to a result or an exception together with the world it
  leaves, so a handler that raises keeps what it committed before. \<open>await\<close> sequences operations. Every
  repository call first performs \<open>env_suspend\<close>, which may run other coroutines on the same world and
  may raise (a cancellation); a provider call is an operation of the environment and may do the same.
  The hypothesis \<open>rely env N\<close> says that this foreign work keeps the invariant, only extends histories
  and command records, and does not use the run identifiers this coroutine is about to draw; \<open>uuid4\<close> is
  a stream of identifiers, distinct among the first \<open>N\<close>. Nothing is claimed once more than \<open>N\<close> were
  drawn. The retry loop of \<open>record_run_outcome\<close> has the source's limit of eight attempts; no other
  loop needs a bound, since each runs over a finite list.

  \<open>await_started_effect\<close> models the shielded await: the operation runs to its end, and whether the
  caller was cancelled meanwhile only decides what it is answered.

  A connection of the SQLite repository is its sequence of statements; the oracle \<open>faults\<close> says which of
  them the driver fails and how. A column that holds JSON is represented by the value \<open>json.loads\<close>
  reads from it, dates are real ISO text. 64-bit limits of SQLite integers are not reached by counts, nor by the integers of
  a coordination record. The connections of the durable coordinator store follow the same scheme; their
  statements may fail with any driver error, \<open>OtherSqliteError\<close> standing for the classes no code
  distinguishes, and leaving a connection by an exception rolls it back. The creation of a store file is
  the exception: \<open>executescript\<close> commits every statement, so \<open>create_tables\<close> keeps what was created before
  an error. A process that dies is a statement that fails, with nothing of the caller left to answer.
  \<open>portable\<close> names the operations on which both coordinator stores must agree: values that passed their
  validation and can be written as JSON, claims that were acquired and not altered, registered identifiers
  that are not those of another plan, times that have a text.

  The verification service is synchronous: its operations run without interference, on the extension
  part of the same world. Identifiers it makes itself are distinct under the same bound \<open>N\<close>; result
  identifiers chosen by a caller are arbitrary. The tokens by which the canonical runtime proves its
  identity are a boolean argument. Times are instants in microseconds (the checks for time zones are
  the type), seconds given as floats are rationals rounded to microseconds as \<open>timedelta\<close> does.

  The coordinator store is a further extension of the same world, so that a request of the coordinator
  calls the kernel's handlers on the world they share. \<open>store_call\<close> suspends before and after the
  store's operation, as the thread offload does, and may raise at either point. \<open>coord_rely home env\<close>
  says of everyone else what the coordinator does itself: they keep \<open>coord_ok home\<close> and let the store
  grow, and do not touch a record under a claim that stands; \<open>home\<close> names the one plan a step
  identifier belongs to. The \<open>asyncio.gather\<close> of the attempts of a frontier runs them one after another,
  each surrounded by interference, and raises the first error after all have run. \<open>advance\<close> loops while
  it makes progress; \<open>advance_loop\<close> takes the number of rounds as fuel and answers None when it has run
  out. The statements on the store hold for any fuel; \<open>Coordinator_Returns\<close> shows that one more round than
  the work the store has left (\<open>remaining_work\<close>, what its records still can advance) is enough while nobody
  else saves a step, and that every request returns.

  \<^bold>\<open>What is shown\<close>

  Safety of every request under interference and its consequences for the replayed states (this
  theory); refinement of the abstract lifecycle by the reducers; permanence of settled facts; the
  branches of the handlers with their errors (\<open>Kernel_Sequential\<close>); the repository contract
  (\<open>Repository_Properties\<close>), the durable repository as a refinement of the in-memory one
  (\<open>Sqlite_Properties\<close>); identifiers, JSON, provider values and planning metadata
  (\<open>Data_Properties\<close>); exactness of the completion assessment, permanence of settled reviews,
  independence of reviewers, the bound on repairs, what success of a task rests on, and two defects of
  the service (\<open>Verification_Properties\<close>); that every request of the coordinator keeps its store valid
  under interference, that each returns, what of a step is permanent, the bound on retries, exclusion by fenced claims,
  exactness of the graph check, the branches of the dependency barrier and of a failed attempt
  (\<open>Coordinator_Properties\<close>); that the durable coordinator store reads back what it wrote, answers like the
  in-memory one, loses nothing but the answer to a fault, excludes other writers by its claims, keeps
  retirements, and what an upgrade and an interrupted creation do to its file
  (\<open>Coordinator_Durable_Properties\<close>).

  \<^bold>\<open>Not modelled\<close>

  The message, provider identifier and adapter metadata of \<open>ContractError\<close> (no modelled code branches
  on them); characters beyond code point 255; the striped outcome locks of \<open>record_run_outcome\<close> (they
  only exclude interleavings that \<open>rely\<close> admits); the PostgreSQL repository; the verification
  workflows around the service (agent reviewers, evidence resolution, persistence);
  of the coordinator, its telemetry, the service that retires superseded plans (it is built on the
  requests and the store modelled here), the capacity limits of the thread offload, the creation code of
  the first two schemas (replaced by the third; their files are modelled as inputs of the migration) and
  the control plane of \<open>coordination\<close>;
  the other application layers above the kernel (governance, planning, accounting, the control plane,
  the command line and others), which reach tasks and runs through the requests modelled here.
\<close>

section \<open>Every request keeps every history valid\<close>

text \<open>C1: every request is replay safe. From a valid world, any request of the kernel, the observing kernel
or the task mutation boundary, successful or not, ends in a valid world that extends the first:
no stored event or command record changes, and every stream replays to a state with the
lifecycle invariant. Collaborators may run other work at every await.\<close>

theorem every_request_replay_safe:
  assumes "rely env N" "kernel_inv env N w" "execute env c w = (r, w')"
  shows "kernel_inv env N w' \<and> evolves w w'"
  using assms by (rule execute_safe)

theorem every_request_replay_safe_witness:
  "kernel_inv fake_env 16 (snd (execute fake_env (Recover_Task demo_task) (demo_world demo_prefix)))"
  using every_request_replay_safe[OF rely_fake_env demo_world_inv, of demo_prefix "Recover_Task demo_task"]
  by (cases "execute fake_env (Recover_Task demo_task) (demo_world demo_prefix)") simp

text \<open>C28: every history replays. After any sequence of requests, each stream that holds events reduces to its
task, and every run the task lists reduces as well; no reducer raises on what the kernel wrote.\<close>

theorem served_histories_replay:
  assumes "rely env N" "kernel_inv env N w" "w_draws (serve env cs w) \<le> N" "stream (serve env cs w) tid \<noteq> []"
  shows "\<exists>ts. reduce_task (stream (serve env cs w) tid) tid = Inr ts \<and>
    list_all (\<lambda>rid. \<not> isl (reduce_run (stream (serve env cs w) tid) rid)) (ts_run_ids ts)"
proof -
  let ?w = "serve env cs w"
  have inv: "kernel_inv env N ?w" using serve_safe[OF assms(1,2)] by blast
  obtain L ts where L: "view tid (stream ?w tid) = Some L" "lifecycle_ok tid L" "reduce_task (stream ?w tid) tid = Inr ts"
    "ts_run_ids ts = lc_run_ids L"
    using stream_ok_reduces[OF inv_stream_ok[OF inv assms(3)] assms(4)] by metis
  have "\<not> isl (reduce_run (stream ?w tid) rid)" if rid: "rid \<in> set (ts_run_ids ts)" for rid
  proof -
    obtain r where "lc_run L rid = Some r"
      using lifecycle_okD(4)[OF L(2) rid[unfolded L(4)]] by blast
    from view_runs(2)[OF L(1) this] show ?thesis by auto
  qed
  with L(3) show ?thesis by (auto simp: list_all_iff)
qed

theorem served_histories_replay_witness:
  "\<exists>ts. reduce_task (stream (demo_world demo_history) demo_task) demo_task = Inr ts \<and>
    list_all (\<lambda>rid. \<not> isl (reduce_run (stream (demo_world demo_history) demo_task) rid)) (ts_run_ids ts)"
  using served_histories_replay[OF rely_fake_env demo_world_inv[OF demo_in(2)], of "[]" demo_task] demo_nonempty by simp

section \<open>Lifecycle rules in every reached state\<close>

text \<open>C10: active runs exclude each other. After any sequence of requests, a subject has at most one active run,
and runs of the task itself and runs of its steps are never active together.\<close>

theorem active_runs_exclusive:
  assumes "rely env N" "kernel_inv env N w" "w_draws (serve env cs w) \<le> N" "stream (serve env cs w) tid = evs"
  shows "(\<exists>rid. active_ids evs (has_subject sty sid) \<subseteq> {rid}) \<and>
    (active_ids evs (\<lambda>rs. r_subject_type (rs_run rs) = ''task'') = {} \<or>
     active_ids evs (\<lambda>rs. r_subject_type (rs_run rs) = ''step'') = {})"
proof (cases "evs = []")
  case True
  then have "active_ids evs p = {}" for p using reduce_run_nonempty by (auto simp: active_ids_def)
  then show ?thesis by simp
next
  case False
  obtain L where L: "view tid evs = Some L" "lifecycle_ok tid L"
    using inv_view[OF conjunct1[OF serve_safe[OF assms(1,2)]] assms(3)] False assms(4) by metis
  note one = one_active[OF L]
  have "i = j" if "i \<in> active_ids evs (has_subject sty sid)" "j \<in> active_ids evs (has_subject sty sid)" for i j
    by (rule one[OF that]) (simp add: has_subject_def)
  then have "\<exists>rid. active_ids evs (has_subject sty sid) \<subseteq> {rid}" by blast
  moreover have "i = j" if "i \<in> active_ids evs (\<lambda>rs. r_subject_type (rs_run rs) = ''task'')"
    "j \<in> active_ids evs (\<lambda>rs. r_subject_type (rs_run rs) = ''step'')" for i j
    by (rule one[OF that]) simp
  then have "active_ids evs (\<lambda>rs. r_subject_type (rs_run rs) = ''task'') = {} \<or>
     active_ids evs (\<lambda>rs. r_subject_type (rs_run rs) = ''step'') = {}"
    unfolding active_ids_def by force
  ultimately show ?thesis ..
qed

theorem active_runs_exclusive_witness:
  "(\<exists>rid. active_ids demo_prefix (has_subject ''task'' demo_task) \<subseteq> {rid}) \<and>
    (active_ids demo_prefix (\<lambda>rs. r_subject_type (rs_run rs) = ''task'') = {} \<or>
     active_ids demo_prefix (\<lambda>rs. r_subject_type (rs_run rs) = ''step'') = {})"
  by (rule active_runs_exclusive[OF rely_fake_env demo_world_inv[OF demo_in(1)], of "[]" demo_task]) simp_all

text \<open>A closed task is idle. After any sequence of requests, a task that is a draft, succeeded, failed or
cancelled has no active run.\<close>

theorem closed_task_idle:
  assumes "rely env N" "kernel_inv env N w" "w_draws (serve env cs w) \<le> N"
    and "reduce_task (stream (serve env cs w) tid) tid = Inr ts" "ts_status ts \<in> CLOSED_TASK_STATUSES"
    and "reduce_run (stream (serve env cs w) tid) rid = Inr rs"
  shows "rs_status rs \<in> TERMINAL_RUN_STATUSES"
proof -
  obtain L where L: "view tid (stream (serve env cs w) tid) = Some L" "lifecycle_ok tid L"
    using inv_view[OF conjunct1[OF serve_safe[OF assms(1,2)]] assms(3) reduce_run_nonempty[OF assms(6)]] by blast
  have "idle L" using lifecycle_okD(3)[OF L(2)] view_task_of(1)[OF L(1) assms(4)] assms(5) by (simp add: ts_status_def)
  then show ?thesis using active_run[OF L(1) assms(6)] by (auto simp: idle_def is_active_def)
qed

theorem closed_task_idle_witness: "rs_status (demo_rs demo_closed) \<in> TERMINAL_RUN_STATUSES"
  by (rule closed_task_idle[OF rely_fake_env demo_world_inv, of demo_closed "[]" demo_task "demo_ts demo_closed" demo_run])
    (use demo_reduced(1,2,6)[of demo_closed] in \<open>simp_all add: CLOSED_TASK_STATUSES_def\<close>)

text \<open>C34: attempts are numbered from one without gaps. After any sequence of requests, for every run each smaller
positive attempt number of its subject is that of a recorded run, and no other run of the subject
has its number.\<close>

theorem attempts_without_gaps:
  assumes "rely env N" "kernel_inv env N w" "w_draws (serve env cs w) \<le> N"
    and "reduce_run (stream (serve env cs w) tid) i = Inr r"
  shows "1 \<le> rs_attempt r \<and>
    (\<forall>n. 1 \<le> n \<and> n \<le> rs_attempt r \<longrightarrow> (\<exists>j s. reduce_run (stream (serve env cs w) tid) j = Inr s \<and>
       same_subject (rs_run r) (rs_run s) \<and> rs_attempt s = n)) \<and>
    (\<forall>j s. reduce_run (stream (serve env cs w) tid) j = Inr s \<and> same_subject (rs_run r) (rs_run s) \<and>
       rs_attempt s = rs_attempt r \<longrightarrow> j = i)"
proof -
  let ?evs = "stream (serve env cs w) tid"
  obtain L where L: "view tid ?evs = Some L" "lifecycle_ok tid L"
    using inv_view[OF conjunct1[OF serve_safe[OF assms(1,2)]] assms(3) reduce_run_nonempty[OF assms(4)]] by blast
  note num = lifecycle_okD(2)[OF L(2)] and run = view_runs[OF L(1)]
  have i: "lc_run L i = Some (rs_run r)" by (rule run(1)[OF assms(4)])
  have "1 \<le> rs_attempt r" using lifecycle_okD(5)[OF L(2) i] by (simp add: run_wf_iff rs_attempt_def)
  moreover have "\<exists>j s. reduce_run ?evs j = Inr s \<and> same_subject (rs_run r) (rs_run s) \<and> rs_attempt s = n"
    if n: "1 \<le> n" "n \<le> rs_attempt r" for n
  proof -
    obtain j a where a: "lc_run L j = Some a" "same_subject (rs_run r) a" "r_attempt a = n"
      using attempts_down[OF num i n(1)] n(2) by (auto simp: rs_attempt_def)
    from run(2)[OF a(1)] a(2,3) show ?thesis by (auto simp: rs_attempt_def)
  qed
  moreover have "j = i" if s: "reduce_run ?evs j = Inr s" "same_subject (rs_run r) (rs_run s)"
    "rs_attempt s = rs_attempt r" for j s
    using attempts_distinct[OF num i run(1)[OF s(1)] _ s(2)] s(3) by (auto simp: rs_attempt_def)
  ultimately show ?thesis by blast
qed

theorem attempts_without_gaps_witness: "1 \<le> rs_attempt (demo_rs demo_history)"
  using attempts_without_gaps[OF rely_fake_env demo_world_inv[OF demo_in(2)], of "[]" demo_task demo_run "demo_rs demo_history"]
    demo_reduced(2)[of demo_history]
  by simp



section \<open>What no request can undo\<close>

text \<open>C12: a finished run stays as it ended. Whatever is requested afterwards, the run still replays, to the very
same run: status, times, attempt, subject and provenance.\<close>

theorem finished_run_survives:
  assumes "rely env N" "kernel_inv env N w" "w_draws (serve env cs w) \<le> N"
    and "reduce_run (stream w tid) rid = Inr rs" "rs_status rs \<in> TERMINAL_RUN_STATUSES"
  shows "\<exists>rs'. reduce_run (stream (serve env cs w) tid) rid = Inr rs' \<and> rs_run rs' = rs_run rs"
proof -
  have s: "kernel_inv env N (serve env cs w)" "evolves w (serve env cs w)" using serve_safe[OF assms(1,2)] by simp_all
  from later_run[OF assms(4) evolves_stream[OF s(2)] run_still_replays[OF s(1) assms(3) s(2) assms(4)]] assms(5)
  show ?thesis by blast
qed

theorem finished_run_survives_witness:
  "\<exists>rs'. reduce_run (stream (serve fake_env [] (demo_world demo_history)) demo_task) demo_run = Inr rs' \<and>
     rs_run rs' = rs_run (demo_rs demo_history)"
  by (rule finished_run_survives[OF rely_fake_env demo_world_inv[OF demo_in(2)]])
    (use demo_reduced(2,10)[OF demo_in(2)] in \<open>simp_all add: TERMINAL_RUN_STATUSES_def\<close>)

text \<open>C35: success and cancellation of a task are final. Whatever is requested afterwards, the task still replays
with the same status.\<close>

theorem closed_task_survives:
  assumes "rely env N" "kernel_inv env N w" "w_draws (serve env cs w) \<le> N"
    and "reduce_task (stream w tid) tid = Inr ts" "ts_status ts \<in> {T_SUCCEEDED, T_CANCELLED}"
  shows "\<exists>ts'. reduce_task (stream (serve env cs w) tid) tid = Inr ts' \<and> ts_status ts' = ts_status ts"
proof -
  have s: "kernel_inv env N (serve env cs w)" "evolves w (serve env cs w)" using serve_safe[OF assms(1,2)] by simp_all
  obtain ts' where "reduce_task (stream (serve env cs w) tid) tid = Inr ts'"
    using task_still_replays[OF s(1) assms(3) s(2) assms(4)] by blast
  with later_task[OF assms(4) evolves_stream[OF s(2)] this] assms(5) show ?thesis by blast
qed

theorem closed_task_survives_witness:
  "\<exists>ts'. reduce_task (stream (serve fake_env [] (demo_world demo_closed)) demo_task) demo_task = Inr ts' \<and>
     ts_status ts' = ts_status (demo_ts demo_closed)"
  by (rule closed_task_survives[OF rely_fake_env demo_world_inv[OF demo_in(3)]])
    (use demo_reduced(1,6)[OF demo_in(3)] in simp_all)

text \<open>Identities are permanent. A task keeps its identifier and owner and never loses a run from its list; a
run keeps its identifier, subject, task, attempt number and owner.\<close>

theorem identities_survive:
  assumes "rely env N" "kernel_inv env N w" "w_draws (serve env cs w) \<le> N"
    and "reduce_task (stream w tid) tid = Inr ts" "reduce_run (stream w tid) rid = Inr rs"
  shows "\<exists>ts' rs'. reduce_task (stream (serve env cs w) tid) tid = Inr ts' \<and> same_task (ts_task ts) (ts_task ts') \<and>
    prefix (ts_run_ids ts) (ts_run_ids ts') \<and>
    reduce_run (stream (serve env cs w) tid) rid = Inr rs' \<and> same_run (rs_run rs) (rs_run rs')"
proof -
  have s: "kernel_inv env N (serve env cs w)" "evolves w (serve env cs w)" using serve_safe[OF assms(1,2)] by simp_all
  obtain ts' where ts': "reduce_task (stream (serve env cs w) tid) tid = Inr ts'"
    using task_still_replays[OF s(1) assms(3) s(2) assms(4)] by blast
  have "\<exists>rs'. reduce_run (stream (serve env cs w) tid) rid = Inr rs' \<and> same_run (rs_run rs) (rs_run rs')"
    using later_run[OF assms(5) evolves_stream[OF s(2)] run_still_replays[OF s(1) assms(3) s(2) assms(5)]] by blast
  with ts' later_task[OF assms(4) evolves_stream[OF s(2)] ts'] show ?thesis by blast
qed

theorem identities_survive_witness:
  "\<exists>ts' rs'. reduce_task (stream (serve fake_env [] (demo_world demo_prefix)) demo_task) demo_task = Inr ts' \<and>
    same_task (ts_task (demo_ts demo_prefix)) (ts_task ts') \<and>
    prefix (ts_run_ids (demo_ts demo_prefix)) (ts_run_ids ts') \<and>
    reduce_run (stream (serve fake_env [] (demo_world demo_prefix)) demo_task) demo_run = Inr rs' \<and>
    same_run (rs_run (demo_rs demo_prefix)) (rs_run rs')"
  by (rule identities_survive[OF rely_fake_env demo_world_inv[OF demo_in(1)]])
    (use demo_reduced(1,2)[OF demo_in(1)] in simp_all)

text \<open>A status command that returned is recorded. When a handler returns, its idempotency key is durably bound
to its operation, so that repeating it is recognised, whatever ran between its awaits.\<close>

theorem status_commands_recorded:
  assumes "rely env N" "kernel_inv env N w"
  shows "(ready_task env key tid actor src w = (Inr ts, w') \<longrightarrow> key_bound tid key ''ready_task'' w') \<and>
    (wait_task env key tid reason blocked actor src w = (Inr ts, w') \<longrightarrow> key_bound tid key ''wait_task'' w') \<and>
    (resume_task env key tid actor src w = (Inr ts, w') \<longrightarrow> key_bound tid key ''resume_task'' w') \<and>
    (complete_task env key tid actor src w = (Inr ts, w') \<longrightarrow> key_bound tid key ''complete_task'' w') \<and>
    (fail_task env key tid freason actor src w = (Inr ts, w') \<longrightarrow> key_bound tid key ''fail_task'' w') \<and>
    (cancel_task env key tid actor src w = (Inr ts, w') \<longrightarrow> key_bound tid key ''cancel_task'' w')"
proof -
  note returns = rg.safeD(3)[OF _ assms(2) TrueI _ refl]
  show ?thesis
    by (intro conjI impI)
      (erule returns[OF bound_ready_task[OF assms(1)]] returns[OF bound_wait_task[OF assms(1)]]
        returns[OF bound_resume_task[OF assms(1)]] returns[OF bound_complete_task[OF assms(1)]]
        returns[OF bound_fail_task[OF assms(1)]] returns[OF bound_cancel_task[OF assms(1)]])+
qed

theorem status_commands_recorded_witness:
  "key_bound demo_task ''demo'' ''ready_task'' (demo_world demo_history)"
proof -
  have "ready_task fake_env ''demo'' demo_task None ''s'' (demo_world demo_history) =
      (Inr (demo_ts demo_history), demo_world demo_history)"
    using demo_reads(1,4)[OF demo_in(2)] by (simp add: ready_task_def)
  with status_commands_recorded[OF rely_fake_env demo_world_inv[OF demo_in(2)], where key = "''demo''" and tid = demo_task
      and actor = None and src = "''s''"]
  show ?thesis by simp
qed

end
